(* ===== verification/N4X_Prelude.thy ===== *)
theory N4X_Prelude
  imports Main "HOL-Library.AList"
begin

text \<open>
  The prelude of the development: Python exceptions as values, the state-and-exception
  operations every component is written in, Python dictionaries as association lists,
  list slices, and the few generic lemmas the components share.
\<close>

named_theorems op_defs \<open>unfolding rules of the state-and-exception operations\<close>
named_theorems dict_simps \<open>laws of dictionaries kept as association lists\<close>

section \<open>Exceptions\<close>

text \<open>
  The exceptions the modelled code raises (\<^verbatim>\<open>kernel/errors.py\<close> and the Python
  built-ins). A constructor carries the text of the message up to interpolated values; a
  \<open>SourceConflictError\<close> also carries the attributes its handlers read. \<open>DoesNotReturn\<close> is no
  Python exception: it is the outcome of a loop that exhausts fuel known to be enough whenever
  the loop ends.
\<close>

record conflict =
  conflict_message :: string
  conflict_path :: "string option"
  conflict_expected_hash :: "string option"
  conflict_current_hash :: "string option"
  conflict_failing_hunk :: "string option"
  conflict_nearest_lines :: "string list"

datatype exn =
    SourceConflictError conflict
  | ImmutableRevisionError string
  | ValidationFailure string
  | ActionExecutionError string
  | SecretBackendError string
  | SecretNotFoundError string
  | ConcurrentGraphUpdateError string
  | TransientGraphConflictError string
  | GraphUnitOfWorkError string
  | GraphMetamodelVersionError string
  | CypherGatewayError string
  | PlatformReleaseConflictError string
  | ExperienceAccessError string string nat
  | FileDeliveryError string string nat
  | KeyError string
  | ValueError string
  | IndexError
  | TypeError string
  | PermissionError string
  | TimeoutError string
  | RuntimeError string
  | FileExistsError string
  | FileNotFoundError string
  | AssertionError
  | DoesNotReturn

text \<open>The constructor call \<^verbatim>\<open>SourceConflictError(message)\<close>: every keyword argument absent.\<close>

definition source_conflict :: "string \<Rightarrow> exn" where
  "source_conflict msg = SourceConflictError
     \<lparr>conflict_message = msg, conflict_path = None, conflict_expected_hash = None,
      conflict_current_hash = None, conflict_failing_hunk = None, conflict_nearest_lines = []\<rparr>"

text \<open>\<^verbatim>\<open>TransientGraphConflictError\<close> is a subclass of \<^verbatim>\<open>ConcurrentGraphUpdateError\<close>.\<close>

fun is_transient :: "exn \<Rightarrow> bool" where
  "is_transient (TransientGraphConflictError _) = True"
| "is_transient _ = False"

section \<open>Operations: explicit state and exceptions\<close>

text \<open>
  An operation maps a state to its outcome and the state it leaves behind, also when it
  raises: what a failed operation has already written is visible until a transaction undoes
  it.
\<close>

type_synonym ('s, 'a) op = "'s \<Rightarrow> (exn + 'a) \<times> 's"

definition ret :: "'a \<Rightarrow> ('s, 'a) op" where
  "ret a s = (Inr a, s)"

definition raise :: "exn \<Rightarrow> ('s, 'a) op" where
  "raise e s = (Inl e, s)"

definition bindE :: "('s, 'a) op \<Rightarrow> ('a \<Rightarrow> ('s, 'b) op) \<Rightarrow> ('s, 'b) op" where
  "bindE m k s = (case m s of (Inl e, s') \<Rightarrow> (Inl e, s') | (Inr a, s') \<Rightarrow> k a s')"

definition get_state :: "('s, 's) op" where
  "get_state s = (Inr s, s)"

definition modify :: "('s \<Rightarrow> 's) \<Rightarrow> ('s, unit) op" where
  "modify f s = (Inr (), f s)"

definition lift_result :: "(exn + 'a) \<Rightarrow> ('s, 'a) op" where
  "lift_result r s = (r, s)"

fun for_each :: "('b \<Rightarrow> ('s, unit) op) \<Rightarrow> 'b list \<Rightarrow> ('s, unit) op" where
  "for_each f [] = ret ()"
| "for_each f (x # xs) = bindE (f x) (\<lambda>_. for_each f xs)"

text \<open>The same sequencing for computations that read no state.\<close>

definition rbind :: "(exn + 'a) \<Rightarrow> ('a \<Rightarrow> exn + 'b) \<Rightarrow> exn + 'b" where
  "rbind r k = (case r of Inl e \<Rightarrow> Inl e | Inr a \<Rightarrow> k a)"

lemma ret_apply [op_defs]: "ret a s = (Inr a, s)"
  by (simp add: ret_def)

lemma raise_apply [op_defs]: "raise e s = (Inl e, s)"
  by (simp add: raise_def)

lemma get_state_apply [op_defs]: "get_state s = (Inr s, s)"
  by (simp add: get_state_def)

lemma modify_apply [op_defs]: "modify f s = (Inr (), f s)"
  by (simp add: modify_def)

lemma lift_result_apply [op_defs]: "lift_result r s = (r, s)"
  by (simp add: lift_result_def)

lemma bindE_apply [op_defs]:
  "bindE m k s = (case m s of (Inl e, s') \<Rightarrow> (Inl e, s') | (Inr a, s') \<Rightarrow> k a s')"
  by (simp add: bindE_def)

lemma rbind_simps [simp]: "rbind (Inl e) k = Inl e" "rbind (Inr a) k = k a"
  by (simp_all add: rbind_def)

lemma rbind_eq_Inr: "rbind r k = Inr b \<longleftrightarrow> (\<exists>a. r = Inr a \<and> k a = Inr b)"
  by (cases r) simp_all

lemma bindE_Inr_iff:
  "bindE m k s = (Inr b, t) \<longleftrightarrow> (\<exists>a u. m s = (Inr a, u) \<and> k a u = (Inr b, t))"
  by (auto simp: bindE_def split: prod.splits sum.splits)

lemma bindE_ret [simp]: "bindE (ret a) k = k a"
  by (simp add: fun_eq_iff op_defs)

lemma bindE_assoc: "bindE (bindE m k) h = bindE m (\<lambda>a. bindE (k a) h)"
  by (simp add: fun_eq_iff op_defs split: prod.splits sum.splits)

text \<open>A state property kept by every step is kept by the whole operation.\<close>

definition op_keeps :: "('s \<Rightarrow> bool) \<Rightarrow> ('s, 'a) op \<Rightarrow> bool" where
  "op_keeps P m \<longleftrightarrow> (\<forall>s. P s \<longrightarrow> P (snd (m s)))"

named_theorems keeps_intros \<open>rules that show an operation keeps a state property\<close>

lemma op_keepsI [intro?]: "(\<And>s. P s \<Longrightarrow> P (snd (m s))) \<Longrightarrow> op_keeps P m"
  by (simp add: op_keeps_def)

lemma op_keepsD: "op_keeps P m \<Longrightarrow> m s = (r, t) \<Longrightarrow> P s \<Longrightarrow> P t"
  by (metis op_keeps_def snd_conv)

lemma op_keeps_ret [keeps_intros]: "op_keeps P (ret a)"
  by (simp add: op_keeps_def op_defs)

lemma op_keeps_raise [keeps_intros]: "op_keeps P (raise e)"
  by (simp add: op_keeps_def op_defs)

lemma op_keeps_get_state [keeps_intros]: "op_keeps P get_state"
  by (simp add: op_keeps_def op_defs)

lemma op_keeps_lift_result [keeps_intros]: "op_keeps P (lift_result r)"
  by (simp add: op_keeps_def op_defs)

lemma op_keeps_modify: "(\<And>s. P s \<Longrightarrow> P (f s)) \<Longrightarrow> op_keeps P (modify f)"
  by (simp add: op_keeps_def op_defs)

lemma op_keeps_bindE [keeps_intros]:
  assumes "op_keeps P m" and "\<And>a. op_keeps P (k a)"
  shows "op_keeps P (bindE m k)"
  using assms by (fastforce simp: op_keeps_def bindE_def split: prod.splits sum.splits)

lemma op_keeps_for_each [keeps_intros]:
  "(\<And>x. op_keeps P (f x)) \<Longrightarrow> op_keeps P (for_each f xs)"
  by (induction xs) (auto intro: keeps_intros)

section \<open>Dictionaries\<close>

text \<open>
  A Python dictionary keeps its insertion order, and an assignment to a present key keeps
  the key's place: exactly \<open>AList.update\<close>.
\<close>

type_synonym ('k, 'v) dict = "('k \<times> 'v) list"

abbreviation dict_get :: "('k, 'v) dict \<Rightarrow> 'k \<Rightarrow> 'v option" where
  "dict_get \<equiv> map_of"

abbreviation dict_set :: "'k \<Rightarrow> 'v \<Rightarrow> ('k, 'v) dict \<Rightarrow> ('k, 'v) dict" where
  "dict_set \<equiv> AList.update"

abbreviation dict_pop :: "'k \<Rightarrow> ('k, 'v) dict \<Rightarrow> ('k, 'v) dict" where
  "dict_pop \<equiv> AList.delete"

text \<open>\<^verbatim>\<open>d.update(other)\<close>: the assignments of \<open>other\<close> in its order.\<close>

fun dict_merge :: "('k, 'v) dict \<Rightarrow> ('k, 'v) dict \<Rightarrow> ('k, 'v) dict" where
  "dict_merge d [] = d"
| "dict_merge d ((k, v) # kvs) = dict_merge (dict_set k v d) kvs"

definition dict_keys :: "('k, 'v) dict \<Rightarrow> 'k list" where
  "dict_keys d = map fst d"

lemma dict_get_set [dict_simps]: "dict_get (dict_set k v d) = (dict_get d)(k \<mapsto> v)"
  by (rule update_conv')

lemma dict_get_pop [dict_simps]: "dict_get (dict_pop k d) = (dict_get d)(k := None)"
  by (rule delete_conv')

lemma distinct_dict_set [dict_simps]: "distinct (map fst d) \<Longrightarrow> distinct (map fst (dict_set k v d))"
  by (rule distinct_update)

lemma distinct_dict_pop [dict_simps]: "distinct (map fst d) \<Longrightarrow> distinct (map fst (dict_pop k d))"
  by (rule distinct_delete)

lemma dict_get_merge:
  "distinct (map fst e) \<Longrightarrow> dict_get (dict_merge d e) = dict_get d ++ dict_get e"
proof (induction d e rule: dict_merge.induct)
  case (1 d)
  then show ?case by simp
next
  case (2 d k v kvs)
  then have "dict_get kvs k = None"
    by (auto simp: map_of_eq_None_iff)
  with 2 show ?case
    by (simp add: dict_simps fun_eq_iff map_add_def split: option.splits)
qed

section \<open>Lists\<close>

text \<open>\<^verbatim>\<open>xs[a:b]\<close> for bounds that are not negative.\<close>

definition slice :: "nat \<Rightarrow> nat \<Rightarrow> 'a list \<Rightarrow> 'a list" where
  "slice a b xs = take (b - a) (drop a xs)"

lemma slice_append_rest: "a \<le> b \<Longrightarrow> slice a b xs @ drop b xs = drop a xs"
  by (simp add: slice_def) (metis append_take_drop_id drop_drop le_add_diff_inverse2)

lemma set_slice: "set (slice a b xs) \<subseteq> set xs"
  by (auto simp: slice_def dest: in_set_takeD in_set_dropD)

text \<open>\<^verbatim>\<open>next((x for x in xs if p x), None)\<close> is the library's \<open>find\<close>.\<close>

lemma find_None_filter: "find P xs = None \<longleftrightarrow> filter P xs = []"
  by (induction xs) auto

lemma find_SomeD: "find P xs = Some x \<Longrightarrow> x \<in> set xs \<and> P x"
  by (induction xs) (auto split: if_splits)

lemma find_None_ball: "find P xs = None \<longleftrightarrow> (\<forall>x\<in>set xs. \<not> P x)"
  by (induction xs) auto

lemma distinct_map_filter_comm:
  "distinct (map f (filter P xs)) \<Longrightarrow> distinct (map f (filter P (filter Q xs)))"
  by (induction xs) auto

lemma distinct_map_unique:
  "distinct (map f xs) \<Longrightarrow> x \<in> set xs \<Longrightarrow> y \<in> set xs \<Longrightarrow> f x = f y \<Longrightarrow> x = y"
  by (induction xs) (auto simp: rev_image_eqI)

end
