(* ===== verification/Graph_Store.thy ===== *)
theory Graph_Store
  imports N4X_Prelude
begin

text \<open>
  The graph store: \<^verbatim>\<open>InMemoryGraphStore\<close> of \<^verbatim>\<open>testing/graph_store.py\<close>, the
  executable adapter of the \<^verbatim>\<open>GraphStore\<close> protocol of \<^verbatim>\<open>graph/store.py\<close>, operation
  by operation, and the transaction it opens. The payload of a node is a type parameter: the
  kernel models of the next theory instantiate it. Identities are kept with their fields in key
  order (the order of \<^verbatim>\<open>_identity_key\<close>, and the order in which the code writes them), so
  equality of dictionaries is equality of lists.
\<close>

section \<open>Values, references, edges\<close>

datatype json =
    JNull
  | JBool bool
  | JInt int
  | JStr string
  | JArr "json list"
  | JObj "(string \<times> json) list"

type_synonym ident = "(string \<times> string) list"

datatype node_ref = NodeRef (ref_label: string) (ref_identity: ident)

text \<open>\<^verbatim>\<open>node_ref(label, id=...)\<close>.\<close>

definition id_ref :: "string \<Rightarrow> string \<Rightarrow> node_ref" where
  "id_ref label i = NodeRef label [(''id'', i)]"

lemma id_ref_inject [simp]: "id_ref l i = id_ref l' i' \<longleftrightarrow> l = l' \<and> i = i'"
  by (simp add: id_ref_def)

lemma ref_label_id_ref [simp]: "ref_label (id_ref l i) = l"
  by (simp add: id_ref_def)

text \<open>\<^verbatim>\<open>ref.identity["id"]\<close>; the empty string stands for the missing key.\<close>

definition ref_id :: "node_ref \<Rightarrow> string" where
  "ref_id r = (case dict_get (ref_identity r) ''id'' of Some i \<Rightarrow> i | None \<Rightarrow> [])"

lemma ref_id_id_ref [simp]: "ref_id (id_ref l i) = i"
  by (simp add: ref_id_def id_ref_def)

record edge =
  edge_from :: node_ref
  edge_type :: string
  edge_to :: node_ref
  edge_props :: "(string, json) dict"

record app_relation =
  rel_id :: string
  rel_application_id :: string
  rel_data_space_id :: string
  rel_relation_type_id :: string
  rel_relation_type_revision_id :: "string option"
  rel_physical_type :: "string option"
  rel_from_object_id :: string
  rel_to_object_id :: string
  rel_values :: "(string, json) dict"
  rel_created_by_invocation_id :: "string option"
  rel_updated_by_invocation_id :: "string option"
  rel_created_at :: int
  rel_updated_at :: int

type_synonym rel_key = "string \<times> string \<times> string"

definition rel_key_of :: "app_relation \<Rightarrow> rel_key" where
  "rel_key_of r = (rel_application_id r, rel_data_space_id r, rel_id r)"

record 'v graph =
  nodes :: "(string \<times> ident, 'v) dict"
  edges :: "edge list"
  app_relations :: "(rel_key, app_relation) dict"

definition empty_graph :: "'v graph" where
  "empty_graph = \<lparr>nodes = [], edges = [], app_relations = []\<rparr>"

section \<open>Nodes\<close>

definition upsert_node :: "string \<Rightarrow> ident \<Rightarrow> 'v \<Rightarrow> 'v graph \<Rightarrow> 'v graph" where
  "upsert_node label i v g = g\<lparr>nodes := dict_set (label, i) v (nodes g)\<rparr>"

definition get_node :: "string \<Rightarrow> ident \<Rightarrow> 'v graph \<Rightarrow> 'v option" where
  "get_node label i g = dict_get (nodes g) (label, i)"

definition create_node :: "string \<Rightarrow> ident \<Rightarrow> 'v \<Rightarrow> ('v graph, unit) op" where
  "create_node label i v g =
     (case get_node label i g of
        Some _ \<Rightarrow> (Inl (ConcurrentGraphUpdateError (label @ '' already exists'')), g)
      | None \<Rightarrow> (Inr (), upsert_node label i v g))"

definition list_nodes :: "string \<Rightarrow> ('v \<Rightarrow> bool) \<Rightarrow> 'v graph \<Rightarrow> 'v list" where
  "list_nodes label keep g = filter keep (map snd (filter (\<lambda>n. fst (fst n) = label) (nodes g)))"

definition node_count :: "'v graph \<Rightarrow> nat" where
  "node_count g = length (nodes g)"

definition bootstrap_schema :: "'v \<Rightarrow> 'v graph \<Rightarrow> 'v graph" where
  "bootstrap_schema root g =
     upsert_node ''N4XRoot'' [(''id'', ''n4x'')]
       (case get_node ''N4XRoot'' [(''id'', ''n4x'')] g of Some v \<Rightarrow> v | None \<Rightarrow> root) g"

text \<open>The relation an edge's properties name, if the three parts of the key are strings.\<close>

definition props_rel_key :: "(string, json) dict \<Rightarrow> rel_key option" where
  "props_rel_key p =
     (case (dict_get p ''application_id'', dict_get p ''data_space_id'', dict_get p ''id'') of
        (Some (JStr a), Some (JStr d), Some (JStr i)) \<Rightarrow> Some (a, d, i)
      | _ \<Rightarrow> None)"

definition delete_node :: "string \<Rightarrow> ident \<Rightarrow> 'v graph \<Rightarrow> 'v graph" where
  "delete_node label i g =
     (let ref = NodeRef label i;
          kept = filter (\<lambda>e. edge_from e \<noteq> ref \<and> edge_to e \<noteq> ref) (edges g);
          relation_ids = map (\<lambda>e. props_rel_key (edge_props e)) kept
      in g\<lparr>nodes := dict_pop (label, i) (nodes g),
           edges := kept,
           app_relations := filter (\<lambda>kr. Some (fst kr) \<in> set relation_ids) (app_relations g)\<rparr>)"

section \<open>Structural edges\<close>

fun update_first :: "('a \<Rightarrow> bool) \<Rightarrow> ('a \<Rightarrow> 'a) \<Rightarrow> 'a list \<Rightarrow> 'a list" where
  "update_first P f [] = []"
| "update_first P f (x # xs) = (if P x then f x # xs else x # update_first P f xs)"

definition same_edge :: "node_ref \<Rightarrow> string \<Rightarrow> node_ref \<Rightarrow> edge \<Rightarrow> bool" where
  "same_edge f t to e \<longleftrightarrow> edge_from e = f \<and> edge_type e = t \<and> edge_to e = to"

definition same_path :: "node_ref \<Rightarrow> json option \<Rightarrow> edge \<Rightarrow> bool" where
  "same_path f p e \<longleftrightarrow>
     edge_from e = f \<and> edge_type e = ''HAS_FILE'' \<and> dict_get (edge_props e) ''path'' = p"

definition new_edge :: "node_ref \<Rightarrow> string \<Rightarrow> node_ref \<Rightarrow> (string, json) dict \<Rightarrow> edge" where
  "new_edge f t to p = \<lparr>edge_from = f, edge_type = t, edge_to = to, edge_props = p\<rparr>"

definition create_edge ::
  "node_ref \<Rightarrow> string \<Rightarrow> node_ref \<Rightarrow> (string, json) dict \<Rightarrow> 'v graph \<Rightarrow> 'v graph" where
  "create_edge f t to values g =
     (if t = ''HAS_FILE'' then
        (let P = same_path f (dict_get values ''path'') in
         case find P (edges g) of
           None \<Rightarrow> g\<lparr>edges := edges g @ [new_edge f t to values]\<rparr>
         | Some _ \<Rightarrow> g\<lparr>edges := update_first P
             (\<lambda>e. e\<lparr>edge_to := to, edge_props := dict_merge (edge_props e) values\<rparr>) (edges g)\<rparr>)
      else
        (let P = same_edge f t to in
         case find P (edges g) of
           None \<Rightarrow> g\<lparr>edges := edges g @ [new_edge f t to values]\<rparr>
         | Some _ \<Rightarrow> g\<lparr>edges := update_first P
             (\<lambda>e. e\<lparr>edge_props := dict_merge (edge_props e) values\<rparr>) (edges g)\<rparr>))"

text \<open>\<^verbatim>\<open>None\<close> arguments match every edge.\<close>

definition matches_edge ::
  "node_ref option \<Rightarrow> string option \<Rightarrow> node_ref option \<Rightarrow> edge \<Rightarrow> bool" where
  "matches_edge f t to e \<longleftrightarrow>
     (f = None \<or> f = Some (edge_from e)) \<and> (t = None \<or> t = Some (edge_type e)) \<and>
     (to = None \<or> to = Some (edge_to e))"

definition list_edges ::
  "node_ref option \<Rightarrow> string option \<Rightarrow> node_ref option \<Rightarrow> 'v graph \<Rightarrow> edge list" where
  "list_edges f t to g = filter (matches_edge f t to) (edges g)"

definition delete_edge ::
  "node_ref \<Rightarrow> string \<Rightarrow> node_ref option \<Rightarrow> (string, json) dict option \<Rightarrow> 'v graph \<Rightarrow> 'v graph" where
  "delete_edge f t to props g =
     g\<lparr>edges := filter (\<lambda>e. \<not> (matches_edge (Some f) (Some t) to e \<and>
         (case props of None \<Rightarrow> True
          | Some p \<Rightarrow> list_all (\<lambda>kv. dict_get (edge_props e) (fst kv) = Some (snd kv)) p)))
       (edges g)\<rparr>"

text \<open>The optimistic check of \<^verbatim>\<open>replace_single_edge\<close> and \<^verbatim>\<open>clear_single_edge\<close>.\<close>

definition stale_pointer :: "node_ref option \<Rightarrow> edge list \<Rightarrow> bool" where
  "stale_pointer expected current \<longleftrightarrow>
     (case expected of
        None \<Rightarrow> current \<noteq> []
      | Some r \<Rightarrow> (case current of [e] \<Rightarrow> edge_to e \<noteq> r | _ \<Rightarrow> True))"

definition replace_single_edge ::
  "node_ref \<Rightarrow> string \<Rightarrow> node_ref \<Rightarrow> (string, json) dict \<Rightarrow> node_ref option \<Rightarrow> bool \<Rightarrow>
   ('v graph, unit) op" where
  "replace_single_edge f t to props expected require_current_match g =
     (if require_current_match \<and> stale_pointer expected (list_edges (Some f) (Some t) None g)
      then (Inl (ConcurrentGraphUpdateError (''stale '' @ t @ '' replacement for '' @ ref_label f)), g)
      else (Inr (), create_edge f t to props (delete_edge f t None None g)))"

definition clear_single_edge ::
  "node_ref \<Rightarrow> string \<Rightarrow> node_ref option \<Rightarrow> ('v graph, unit) op" where
  "clear_single_edge f t expected g =
     (if stale_pointer expected (list_edges (Some f) (Some t) None g)
      then (Inl (ConcurrentGraphUpdateError (''stale '' @ t @ '' clear for '' @ ref_label f)), g)
      else (Inr (), delete_edge f t None None g))"

section \<open>Application relations\<close>

definition object_ref :: "string \<Rightarrow> string \<Rightarrow> string \<Rightarrow> node_ref" where
  "object_ref app space i =
     NodeRef ''ApplicationObject'' [(''application_id'', app), (''data_space_id'', space), (''id'', i)]"

definition json_opt :: "string option \<Rightarrow> json" where
  "json_opt x = (case x of None \<Rightarrow> JNull | Some s \<Rightarrow> JStr s)"

text \<open>\<^verbatim>\<open>relation.model_dump(mode="json")\<close>.\<close>

definition relation_props :: "app_relation \<Rightarrow> (string, json) dict" where
  "relation_props r =
     [(''id'', JStr (rel_id r)),
      (''application_id'', JStr (rel_application_id r)),
      (''data_space_id'', JStr (rel_data_space_id r)),
      (''relation_type_id'', JStr (rel_relation_type_id r)),
      (''relation_type_revision_id'', json_opt (rel_relation_type_revision_id r)),
      (''physical_type'', json_opt (rel_physical_type r)),
      (''from_object_id'', JStr (rel_from_object_id r)),
      (''to_object_id'', JStr (rel_to_object_id r)),
      (''values'', JObj (rel_values r)),
      (''created_by_invocation_id'', json_opt (rel_created_by_invocation_id r)),
      (''updated_by_invocation_id'', json_opt (rel_updated_by_invocation_id r)),
      (''created_at'', JInt (rel_created_at r)),
      (''updated_at'', JInt (rel_updated_at r))]"

definition create_app_relation :: "app_relation \<Rightarrow> ('v graph, unit) op" where
  "create_app_relation r g =
     (case rel_physical_type r of
        None \<Rightarrow> (Inl (ValueError ''application relation requires physical_type''), g)
      | Some pt \<Rightarrow>
          (let g1 = g\<lparr>app_relations := dict_set (rel_key_of r) r (app_relations g)\<rparr>;
               f = object_ref (rel_application_id r) (rel_data_space_id r) (rel_from_object_id r);
               to = object_ref (rel_application_id r) (rel_data_space_id r) (rel_to_object_id r);
               props = relation_props r;
               P = (\<lambda>e. same_edge f pt to e \<and> dict_get (edge_props e) ''id'' = Some (JStr (rel_id r)))
           in (Inr (),
               (case find P (edges g1) of
                  None \<Rightarrow> g1\<lparr>edges := edges g1 @ [new_edge f pt to props]\<rparr>
                | Some _ \<Rightarrow> g1\<lparr>edges := update_first P (\<lambda>e. e\<lparr>edge_props := props\<rparr>) (edges g1)\<rparr>))))"

definition delete_app_relation :: "app_relation \<Rightarrow> 'v graph \<Rightarrow> 'v graph" where
  "delete_app_relation r g =
     g\<lparr>app_relations := dict_pop (rel_key_of r) (app_relations g),
       edges := filter (\<lambda>e. dict_get (edge_props e) ''id'' \<noteq> Some (JStr (rel_id r))
         \<or> Some (edge_type e) \<noteq> rel_physical_type r
         \<or> dict_get (edge_props e) ''application_id'' \<noteq> Some (JStr (rel_application_id r))
         \<or> dict_get (edge_props e) ''data_space_id'' \<noteq> Some (JStr (rel_data_space_id r))) (edges g)\<rparr>"

definition get_app_relation :: "string \<Rightarrow> string \<Rightarrow> string \<Rightarrow> 'v graph \<Rightarrow> app_relation option" where
  "get_app_relation app space rid g = dict_get (app_relations g) (app, space, rid)"

definition list_all_app_relations :: "'v graph \<Rightarrow> app_relation list" where
  "list_all_app_relations g = map snd (app_relations g)"

definition list_app_relations ::
  "string \<Rightarrow> string option \<Rightarrow> string option \<Rightarrow> string option \<Rightarrow> string \<Rightarrow> 'v graph \<Rightarrow>
   app_relation list" where
  "list_app_relations app rtype from_id to_id space g =
     sort_key rel_created_at
       (filter (\<lambda>r. rel_application_id r = app \<and> rel_data_space_id r = space
            \<and> (rtype = None \<or> rtype = Some (rel_relation_type_id r))
            \<and> (from_id = None \<or> from_id = Some (rel_from_object_id r))
            \<and> (to_id = None \<or> to_id = Some (rel_to_object_id r)))
          (map snd (app_relations g)))"

section \<open>Shape checks\<close>

definition validate_graph_shape :: "'v graph \<Rightarrow> string list" where
  "validate_graph_shape g =
     map (\<lambda>e. ''legacy relationship type is not allowed: '' @ edge_type e)
       (filter (\<lambda>e. edge_type e \<in> {''N4X_KERNEL'', ''N4X_RELATION''}) (edges g))"

definition has_edge :: "node_ref \<Rightarrow> string \<Rightarrow> node_ref option \<Rightarrow> 'v graph \<Rightarrow> bool" where
  "has_edge f t to g \<longleftrightarrow> list_edges (Some f) (Some t) to g \<noteq> []"

definition edge_count :: "string option \<Rightarrow> 'v graph \<Rightarrow> nat" where
  "edge_count t g = length (list_edges None t None g)"

end
