(* ===== verification/Graph_Laws.thy ===== *)
theory Graph_Laws
  imports Graph_Store
begin

text \<open>
  Laws of the graph store: what a read returns after a write, frame laws for the parts a
  write leaves alone, the well-formedness invariant of a store, and the pointer contract (a
  structural edge that must have one target, moved with an optimistic check) as a locale with
  its interpretation on the store's own operations.
\<close>

named_theorems graph_simps \<open>read-after-write laws of the graph store\<close>

section \<open>Reads after writes\<close>

lemma get_node_upsert [graph_simps]:
  "get_node l' i' (upsert_node l i v g) = (if l' = l \<and> i' = i then Some v else get_node l' i' g)"
  by (simp add: get_node_def upsert_node_def dict_simps)

lemma get_node_delete [graph_simps]:
  "get_node l' i' (delete_node l i g) = (if l' = l \<and> i' = i then None else get_node l' i' g)"
  by (simp add: get_node_def delete_node_def Let_def dict_simps)

lemma edges_upsert [graph_simps]: "edges (upsert_node l i v g) = edges g"
  by (simp add: upsert_node_def)

lemma list_edges_upsert [graph_simps]: "list_edges f t to (upsert_node l i v g) = list_edges f t to g"
  by (simp add: list_edges_def graph_simps)

lemma nodes_create_edge [graph_simps]: "nodes (create_edge f t to p g) = nodes g"
  by (simp add: create_edge_def Let_def split: option.splits)

lemma nodes_delete_edge [graph_simps]: "nodes (delete_edge f t to p g) = nodes g"
  by (simp add: delete_edge_def)

lemma get_node_create_edge [graph_simps]: "get_node l i (create_edge f t to p g) = get_node l i g"
  by (simp add: get_node_def graph_simps)

lemma get_node_delete_edge [graph_simps]: "get_node l i (delete_edge f t to p g) = get_node l i g"
  by (simp add: get_node_def graph_simps)

lemma rels_create_edge [graph_simps]: "app_relations (create_edge f t to p g) = app_relations g"
  by (simp add: create_edge_def Let_def split: option.splits)

lemma rels_delete_edge [graph_simps]: "app_relations (delete_edge f t to p g) = app_relations g"
  by (simp add: delete_edge_def)

lemma filter_update_first:
  assumes "\<And>x. P x \<Longrightarrow> Q (h x) = Q x"
  shows "filter Q (update_first P h xs) =
    (case find P xs of None \<Rightarrow> filter Q xs
     | Some x \<Rightarrow> if Q x then update_first P h (filter Q xs) else filter Q xs)"
  by (induction xs) (auto simp: assms split: option.splits dest: find_SomeD)

lemma filter_update_first_frame:
  "(\<And>x. P x \<Longrightarrow> \<not> Q x \<and> \<not> Q (h x)) \<Longrightarrow> filter Q (update_first P h xs) = filter Q xs"
  by (induction xs) auto

lemma update_first_none: "find P xs = None \<Longrightarrow> update_first P h xs = xs"
  by (induction xs) (auto split: if_splits)

lemma map_update_first: "(\<And>x. P x \<Longrightarrow> k (h x) = k x) \<Longrightarrow> map k (update_first P h xs) = map k xs"
  by (induction xs) auto

text \<open>An edge written from another node, or of another type, is not listed.\<close>

lemma list_edges_create_frame [graph_simps]:
  assumes "(f', t') \<noteq> (f, t)"
  shows "list_edges (Some f') (Some t') to' (create_edge f t to p g) = list_edges (Some f') (Some t') to' g"
  using assms
  by (auto simp: list_edges_def create_edge_def matches_edge_def new_edge_def same_edge_def
      same_path_def Let_def split: option.splits intro!: filter_update_first_frame)

lemma list_edges_delete [graph_simps]:
  "list_edges (Some f') (Some t') None (delete_edge f t None None g) =
     (if (f', t') = (f, t) then [] else list_edges (Some f') (Some t') None g)"
  by (auto simp: list_edges_def delete_edge_def matches_edge_def filter_empty_conv intro!: filter_cong)

lemma list_edges_delete_frame [graph_simps]:
  "(f', t') \<noteq> (f, t) \<Longrightarrow>
   list_edges (Some f') (Some t') to' (delete_edge f t to p g) = list_edges (Some f') (Some t') to' g"
  by (auto simp: list_edges_def delete_edge_def matches_edge_def intro!: filter_cong)

text \<open>A structural edge (every type but \<^verbatim>\<open>HAS_FILE\<close>) is created once.\<close>

lemma targets_create_edge:
  assumes "t \<noteq> ''HAS_FILE''"
  shows "map edge_to (list_edges (Some f) (Some t) None (create_edge f t to p g)) =
    (let ts = map edge_to (list_edges (Some f) (Some t) None g)
     in if to \<in> set ts then ts else ts @ [to])"
proof (cases "find (same_edge f t to) (edges g)")
  case None
  then have "to \<notin> set (map edge_to (list_edges (Some f) (Some t) None g))"
    by (auto simp: find_None_ball list_edges_def matches_edge_def same_edge_def)
  with None assms show ?thesis
    by (simp add: create_edge_def list_edges_def matches_edge_def new_edge_def)
next
  case (Some e)
  then have e: "e \<in> set (edges g)" "same_edge f t to e"
    by (auto dest: find_SomeD)
  then have mem: "to \<in> set (map edge_to (list_edges (Some f) (Some t) None g))"
    by (force simp: list_edges_def matches_edge_def same_edge_def)
  let ?P = "same_edge f t to" and ?h = "\<lambda>e. e\<lparr>edge_props := dict_merge (edge_props e) p\<rparr>"
  have "map edge_to (filter (matches_edge (Some f) (Some t) None) (update_first ?P ?h (edges g)))
      = map edge_to (filter (matches_edge (Some f) (Some t) None) (edges g))"
    by (subst filter_update_first)
      (auto simp: matches_edge_def map_update_first split: option.splits)
  with Some assms mem show ?thesis
    by (simp add: create_edge_def list_edges_def)
qed

section \<open>The store invariant\<close>

text \<open>
  Node and relation keys are distinct, and a source tree binds a path at most once: the
  \<^verbatim>\<open>HAS_FILE\<close> edges of one node have distinct paths.
\<close>

definition file_edges :: "'v graph \<Rightarrow> edge list" where
  "file_edges g = filter (\<lambda>e. edge_type e = ''HAS_FILE'') (edges g)"

definition file_key :: "edge \<Rightarrow> node_ref \<times> json option" where
  "file_key e = (edge_from e, dict_get (edge_props e) ''path'')"

definition wf_graph :: "'v graph \<Rightarrow> bool" where
  "wf_graph g \<longleftrightarrow> distinct (map fst (nodes g)) \<and> distinct (map fst (app_relations g)) \<and>
     distinct (map file_key (file_edges g))"

lemma wf_empty_graph [simp]: "wf_graph empty_graph"
  by (simp add: wf_graph_def empty_graph_def file_edges_def)

lemma wf_upsert_node: "wf_graph g \<Longrightarrow> wf_graph (upsert_node l i v g)"
  by (simp add: wf_graph_def upsert_node_def file_edges_def dict_simps)

lemma wf_create_node: "wf_graph g \<Longrightarrow> wf_graph (snd (create_node l i v g))"
  by (simp add: create_node_def wf_upsert_node split: option.splits)

lemma wf_delete_node: "wf_graph g \<Longrightarrow> wf_graph (delete_node l i g)"
  by (simp add: wf_graph_def delete_node_def Let_def file_edges_def dict_simps distinct_map_filter
      distinct_map_filter_comm del: filter_filter)

lemma wf_delete_edge: "wf_graph g \<Longrightarrow> wf_graph (delete_edge f t to p g)"
  by (simp add: wf_graph_def delete_edge_def file_edges_def distinct_map_filter_comm
      del: filter_filter)

lemma file_key_update:
  assumes "distinct (map fst p)" and "same_path f (dict_get p ''path'') e"
  shows "file_key (e\<lparr>edge_to := to, edge_props := dict_merge (edge_props e) p\<rparr>) = file_key e"
  using assms by (auto simp: file_key_def same_path_def dict_get_merge map_add_def split: option.splits)

lemma wf_create_edge:
  assumes wf: "wf_graph g" and p: "distinct (map fst p)"
  shows "wf_graph (create_edge f t to p g)"
proof (cases "t = ''HAS_FILE''")
  case True
  let ?P = "same_path f (dict_get p ''path'')"
  let ?h = "\<lambda>e. e\<lparr>edge_to := to, edge_props := dict_merge (edge_props e) p\<rparr>"
  show ?thesis
  proof (cases "find ?P (edges g)")
    case None
    then have "file_key (new_edge f t to p) \<notin> file_key ` set (file_edges g)"
      by (auto simp: find_None_ball file_edges_def file_key_def same_path_def new_edge_def)
    with None True wf show ?thesis
      by (simp add: create_edge_def wf_graph_def file_edges_def new_edge_def)
  next
    case (Some e)
    have "file_edges (g\<lparr>edges := update_first ?P ?h (edges g)\<rparr>) = update_first ?P ?h (file_edges g)"
      using Some by (simp add: file_edges_def)
        (subst filter_update_first, auto simp: same_path_def dest: find_SomeD)
    moreover have "map file_key (update_first ?P ?h (file_edges g)) = map file_key (file_edges g)"
      by (rule map_update_first) (simp add: file_key_update p)
    ultimately show ?thesis
      using Some True wf by (simp add: create_edge_def wf_graph_def)
  qed
next
  case False
  let ?P = "same_edge f t to" and ?h = "\<lambda>e. e\<lparr>edge_props := dict_merge (edge_props e) p\<rparr>"
  have "filter (\<lambda>e. edge_type e = ''HAS_FILE'') (update_first ?P ?h (edges g)) = file_edges g"
    unfolding file_edges_def
    by (rule filter_update_first_frame) (use False in \<open>auto simp: same_edge_def\<close>)
  with False wf show ?thesis
    by (simp add: create_edge_def wf_graph_def file_edges_def new_edge_def Let_def split: option.splits)
qed

section \<open>The pointer contract\<close>

text \<open>
  \<^verbatim>\<open>ACTIVE_REVISION\<close>, \<^verbatim>\<open>HAS_SOURCE_TREE\<close> and their kin are pointers: edges with one
  target, moved by \<^verbatim>\<open>replace_single_edge\<close>. The contract its callers rely on: a move that
  is not stale leaves exactly the new target, a stale one raises and writes nothing, and no
  other pointer changes.
\<close>

locale pointer_store =
  fixes targets :: "'g \<Rightarrow> node_ref \<Rightarrow> string \<Rightarrow> node_ref list"
    and move :: "node_ref \<Rightarrow> string \<Rightarrow> node_ref \<Rightarrow> node_ref option \<Rightarrow> ('g, unit) op"
    and pointer :: "string \<Rightarrow> bool"
  assumes move_ok: "pointer t \<Longrightarrow> targets g f t = (case e of None \<Rightarrow> [] | Some r \<Rightarrow> [r]) \<Longrightarrow>
      \<exists>g'. move f t to e g = (Inr (), g') \<and> targets g' f t = [to]"
    and move_stale: "pointer t \<Longrightarrow> targets g f t \<noteq> (case e of None \<Rightarrow> [] | Some r \<Rightarrow> [r]) \<Longrightarrow>
      \<exists>msg. move f t to e g = (Inl (ConcurrentGraphUpdateError msg), g)"
    and move_frame: "pointer t \<Longrightarrow> (f', t') \<noteq> (f, t) \<Longrightarrow>
      targets (snd (move f t to e g)) f' t' = targets g f' t'"
begin

text \<open>Compare-and-swap: the outcome is decided by the current target alone.\<close>

lemma move_outcome:
  assumes "pointer t"
  shows "fst (move f t to e g) = Inr () \<longleftrightarrow> targets g f t = (case e of None \<Rightarrow> [] | Some r \<Rightarrow> [r])"
  using move_ok [OF assms, of g f e to] move_stale [OF assms, of g f e to] by fastforce

lemma move_single:
  assumes "pointer t" and "length (targets g f t) \<le> 1"
  shows "length (targets (snd (move f t to e g)) f t) \<le> 1"
  using move_ok [OF assms(1), of g f e to] move_stale [OF assms(1), of g f e to] assms(2) by fastforce

text \<open>Of two moves that expect the same target, the second loses unless it expects the first's target.\<close>

lemma second_move_loses:
  assumes "pointer t" and "move f t to1 e g = (Inr (), g1)" and "e \<noteq> Some to1"
  shows "\<exists>msg. move f t to2 e g1 = (Inl (ConcurrentGraphUpdateError msg), g1)"
proof -
  have "targets g f t = (case e of None \<Rightarrow> [] | Some r \<Rightarrow> [r])"
    using move_outcome [OF assms(1), of f to1 e g] assms(2) by simp
  with move_ok [OF assms(1), of g f e to1] assms(2) have "targets g1 f t = [to1]" by auto
  then have "targets g1 f t \<noteq> (case e of None \<Rightarrow> [] | Some r \<Rightarrow> [r])"
    using assms(3) by (auto split: option.splits)
  then show ?thesis by (rule move_stale [OF assms(1)])
qed

end

definition edge_targets :: "'v graph \<Rightarrow> node_ref \<Rightarrow> string \<Rightarrow> node_ref list" where
  "edge_targets g f t = map edge_to (list_edges (Some f) (Some t) None g)"

lemma edge_targets_grow:
  assumes "t \<noteq> ''HAS_FILE''"
  shows "x \<in> set (edge_targets (create_edge f t to p g) f' t') \<longleftrightarrow>
     x \<in> set (edge_targets g f' t') \<or> f = f' \<and> t = t' \<and> x = to"
proof (cases "f' = f \<and> t' = t")
  case True
  with assms show ?thesis by (auto simp: edge_targets_def targets_create_edge Let_def simp del: set_map)
next
  case False
  then show ?thesis by (auto simp: edge_targets_def list_edges_create_frame)
qed

definition move_pointer ::
  "node_ref \<Rightarrow> string \<Rightarrow> node_ref \<Rightarrow> node_ref option \<Rightarrow> ('v graph, unit) op" where
  "move_pointer f t to e = replace_single_edge f t to [] e True"

lemma stale_pointer_targets:
  "stale_pointer e es \<longleftrightarrow> map edge_to es \<noteq> (case e of None \<Rightarrow> [] | Some r \<Rightarrow> [r])"
  by (auto simp: stale_pointer_def split: option.splits list.splits)

lemma targets_replace:
  "t \<noteq> ''HAS_FILE'' \<Longrightarrow> edge_targets (create_edge f t to p (delete_edge f t None None g)) f t = [to]"
  by (simp add: edge_targets_def targets_create_edge graph_simps)

interpretation pointers: pointer_store edge_targets move_pointer "\<lambda>t. t \<noteq> ''HAS_FILE''"
proof unfold_locales
  fix t :: string and f :: node_ref and e to and g :: "'a graph"
  assume "t \<noteq> ''HAS_FILE''" and "edge_targets g f t = (case e of None \<Rightarrow> [] | Some r \<Rightarrow> [r])"
  then show "\<exists>g'. move_pointer f t to e g = (Inr (), g') \<and> edge_targets g' f t = [to]"
    by (simp add: move_pointer_def replace_single_edge_def stale_pointer_targets
        edge_targets_def [symmetric] targets_replace)
next
  fix t :: string and f :: node_ref and e to and g :: "'a graph"
  assume "edge_targets g f t \<noteq> (case e of None \<Rightarrow> [] | Some r \<Rightarrow> [r])"
  then show "\<exists>msg. move_pointer f t to e g = (Inl (ConcurrentGraphUpdateError msg), g)"
    by (simp add: move_pointer_def replace_single_edge_def stale_pointer_targets edge_targets_def)
next
  fix t t' :: string and f f' :: node_ref and e to and g :: "'a graph"
  assume "(f', t') \<noteq> (f, t)"
  then show "edge_targets (snd (move_pointer f t to e g)) f' t' = edge_targets g f' t'"
    by (auto simp: move_pointer_def replace_single_edge_def edge_targets_def graph_simps)
qed

end
