(* ===== verification/Model_Types.thy ===== *)
theory Model_Types
  imports Graph_Laws
begin

text \<open>
  The literal types of \<^verbatim>\<open>kernel/models.py\<close>, one datatype each, their values as constructors
  under a short prefix.
\<close>

datatype application_status =
    App_active
  | App_disabled
  | App_triggers_paused
  | App_importing

datatype data_space_kind =
    Space_production
  | Space_development

datatype development_deployment_status =
    Deploy_active
  | Deploy_expired

datatype revision_status =
    Rev_draft
  | Rev_validating
  | Rev_active
  | Rev_rejected
  | Rev_superseded

datatype ui_profile =
    Ui_n4x_default
  | Ui_custom
  | Ui_none

datatype source_tree_status =
    Tree_draft
  | Tree_interned

datatype source_role =
    Role_action
  | Role_surface
  | Role_migration
  | Role_test
  | Role_helper
  | Role_config

datatype action_kind =
    Act_normal
  | Act_migration
  | Act_test_helper

datatype invocation_kind =
    InvKind_draft
  | InvKind_active
  | InvKind_callback
  | InvKind_migration
  | InvKind_migration_dry_run
  | InvKind_test

datatype invocation_status =
    Inv_queued
  | Inv_running
  | Inv_succeeded
  | Inv_failed
  | Inv_cancelled

datatype build_kind =
    BuildKind_python_env
  | BuildKind_javascript_env
  | BuildKind_surface_build
  | BuildKind_source_materialization
  | BuildKind_validation

datatype build_status =
    Build_started
  | Build_succeeded
  | Build_failed

datatype environment_status =
    Env_pending
  | Env_ready
  | Env_failed

datatype trigger_type =
    Trigger_schedule
  | Trigger_event
  | Trigger_external

datatype trigger_overlap_policy =
    Overlap_skip_if_running
  | Overlap_queue
  | Overlap_run_concurrently
  | Overlap_replace_running

datatype trigger_misfire_policy =
    Misfire_skip
  | Misfire_run_once
  | Misfire_enqueue_all

datatype action_concurrency_policy =
    Conc_default
  | Conc_reject_if_running

datatype job_status =
    Job_scheduled
  | Job_leased
  | Job_running
  | Job_retry_wait
  | Job_succeeded
  | Job_failed
  | Job_missed

datatype job_attempt_status =
    Attempt_leased
  | Attempt_running
  | Attempt_succeeded
  | Attempt_failed
  | Attempt_expired

datatype cypher_access_mode =
    Cypher_read
  | Cypher_write

datatype blueprint_revision_status =
    BpRev_draft
  | BpRev_active
  | BpRev_superseded

datatype platform_revision_status =
    PlatRev_active
  | PlatRev_superseded

datatype checkpoint_level =
    Level_revision
  | Level_application_data

datatype revision_owner_kind =
    Owner_ApplicationRevision
  | Owner_ExperienceRevision
  | Owner_SystemRevision

datatype package_import_status =
    Import_running
  | Import_succeeded
  | Import_failed

datatype sysrev_provenance_kind =
    Sysrev_official
  | Sysrev_individual

datatype ctx_mode_kind =
    Ctx_production
  | Ctx_development

datatype secret_backend_kind =
    Secret_macos_keychain
  | Secret_encrypted_local
  | Secret_memory

datatype route_status_kind =
    Route_pending
  | Route_used
  | Route_expired
  | Route_revoked

datatype dep_ecosystem_kind =
    Dep_python
  | Dep_javascript

datatype art_artifact_type_kind =
    Art_python_environment
  | Art_javascript_environment
  | Art_materialized_source
  | Art_surface_bundle
  | Art_log

datatype report_status_kind =
    Report_passed
  | Report_failed

datatype pkg_root_kind =
    Pkg_application
  | Pkg_experience

end
