(* ===== verification/Models_Control.thy ===== *)
theory Models_Control
  imports Model_Types
begin

text \<open>
  Record classes of \<^verbatim>\<open>kernel/models.py\<close>: the control graph: applications, systems, experiences, platform documents, blueprints and the source tree records.
  Fields in the order of the class; a time stamp is an integer, a \<^verbatim>\<open>dict[str, Any]\<close> a dictionary
  of JSON values (floats are not represented), an optional field an option.
\<close>

record application =
  app_id :: string
  app_name :: string
  app_description :: string
  app_active_revision_id :: "string option"
  app_status :: application_status
  app_created_at :: int

record platform_system =
  sys_id :: string
  sys_name :: string
  sys_active_revision_id :: "string option"
  sys_created_at :: int

record system_revision =
  sysrev_id :: string
  sysrev_system_id :: string
  sysrev_content_root :: string
  sysrev_host_abi :: string
  sysrev_action_context :: string
  sysrev_provenance_kind :: sysrev_provenance_kind
  sysrev_version :: string
  sysrev_created_at :: int

record data_space =
  space_id :: string
  space_application_id :: string
  space_kind :: data_space_kind
  space_created_at :: int
  space_expires_at :: "int option"

record data_space_clone_spec =
  clone_selection_query :: "string option"
  clone_params :: "(string, json) dict"
  clone_max_nodes :: int
  clone_max_relations :: int

record execution_context =
  ctx_mode :: ctx_mode_kind
  ctx_deployment_id :: "string option"
  ctx_correlation_id :: string
  ctx_experience_revision_id :: "string option"
  ctx_application_revision_id :: string
  ctx_application_id :: string
  ctx_data_space_id :: string

record development_deployment =
  deploy_id :: string
  deploy_experience_revision_id :: string
  deploy_application_revision_ids :: "(string, string) dict"
  deploy_data_space_ids :: "(string, string) dict"
  deploy_candidate_hashes :: "(string, string) dict"
  deploy_secret_reference_ids :: "string list"
  deploy_status :: development_deployment_status
  deploy_created_at :: int
  deploy_expires_at :: int

record application_revision =
  rev_id :: string
  rev_application_id :: string
  rev_parent_revision_id :: "string option"
  rev_ui_profile :: ui_profile
  rev_status :: revision_status
  rev_created_at :: int
  rev_created_by :: string

record application_access_declaration =
  access_application_id :: string
  access_object_type_ids :: "string list option"
  access_relation_type_ids :: "string list option"
  access_action_ids :: "string list option"
  access_secret_reference_ids :: "string list option"

record experience =
  exp_id :: string
  exp_name :: string
  exp_description :: string
  exp_active_revision_id :: "string option"
  exp_status :: application_status
  exp_created_at :: int

record experience_revision =
  exprev_id :: string
  exprev_experience_id :: string
  exprev_parent_revision_id :: "string option"
  exprev_ui_profile :: ui_profile
  exprev_status :: revision_status
  exprev_created_at :: int
  exprev_created_by :: string
  exprev_application_access :: "application_access_declaration list"

record experience_surface =
  surf_id :: string
  surf_surface_id :: string
  surf_surface_type :: string
  surf_surface_type_version :: int
  surf_entrypoint :: string
  surf_source_paths :: "string list"
  surf_title :: string
  surf_description :: "string option"
  surf_config :: "(string, json) dict"
  surf_created_at :: int
  surf_created_by :: string

record authoring_guide =
  guide_id :: string
  guide_title :: string
  guide_active_revision_id :: "string option"
  guide_created_at :: int
  guide_updated_at :: int

record authoring_guide_revision =
  guiderev_id :: string
  guiderev_guide_id :: string
  guiderev_release_version :: string
  guiderev_status :: platform_revision_status
  guiderev_content :: string
  guiderev_content_hash :: string
  guiderev_references :: "(string, json) dict list"
  guiderev_provenance :: "(string, json) dict"
  guiderev_license :: "(string, json) dict"
  guiderev_created_at :: int
  guiderev_created_by :: string

record ui_theme =
  theme_id :: string
  theme_active_revision_id :: "string option"
  theme_created_at :: int
  theme_updated_at :: int

record ui_theme_revision =
  themerev_id :: string
  themerev_theme_id :: string
  themerev_release_version :: string
  themerev_status :: platform_revision_status
  themerev_css_text :: string
  themerev_content_hash :: string
  themerev_provenance :: "(string, json) dict"
  themerev_license :: "(string, json) dict"
  themerev_created_at :: int
  themerev_created_by :: string

record app_blueprint =
  bp_id :: string
  bp_name :: string
  bp_description :: string
  bp_active_revision_id :: "string option"
  bp_created_at :: int

record blueprint_revision =
  bprev_id :: string
  bprev_blueprint_id :: string
  bprev_status :: blueprint_revision_status
  bprev_instructions :: string
  bprev_content :: "(string, json) dict"
  bprev_created_at :: int
  bprev_created_by :: string
  bprev_content_hash :: string

record source_tree =
  tree_id :: string
  tree_status :: source_tree_status
  tree_tree_hash :: string
  tree_owner_kind :: "revision_owner_kind option"
  tree_owner_id :: "string option"
  tree_created_at :: int
  tree_updated_at :: int

record source_content =
  blob_id :: string
  blob_content :: string
  blob_created_at :: int

record source_file =
  file_source_tree_id :: string
  file_path :: string
  file_role :: source_role
  file_language :: string
  file_content :: string
  file_content_hash :: string
  file_size :: int

record source_file_summary =
  fsum_source_tree_id :: string
  fsum_path :: string
  fsum_role :: source_role
  fsum_language :: string
  fsum_content_hash :: string
  fsum_size :: int

end
