(* ===== verification/Models_Definitions.thy ===== *)
theory Models_Definitions
  imports Model_Types
begin

text \<open>
  Record classes of \<^verbatim>\<open>kernel/models.py\<close>: the definitions an Application owns, with their revisions, secrets, callback routes, tests and validation reports.
  Fields in the order of the class; a time stamp is an integer, a \<^verbatim>\<open>dict[str, Any]\<close> a dictionary
  of JSON values (floats are not represented), an optional field an option.
\<close>

record application_object =
  obj_id :: string
  obj_application_id :: string
  obj_data_space_id :: string
  obj_object_type_id :: string
  obj_object_type_revision_id :: "string option"
  obj_values :: "(string, json) dict"
  obj_created_at :: int
  obj_updated_at :: int

record object_type =
  otype_id :: string
  otype_application_id :: string
  otype_active_revision_id :: "string option"
  otype_created_at :: int

record object_type_revision =
  otrev_id :: string
  otrev_object_type_id :: string
  otrev_name :: string
  otrev_properties :: "(string, json) dict"
  otrev_required :: "string list"
  otrev_created_at :: int
  otrev_content_hash :: string

record relation_type =
  rtype_id :: string
  rtype_application_id :: string
  rtype_active_revision_id :: "string option"
  rtype_created_at :: int

record relation_type_revision =
  rtrev_id :: string
  rtrev_relation_type_id :: string
  rtrev_name :: string
  rtrev_from_object_type_id :: string
  rtrev_to_object_type_id :: string
  rtrev_physical_type :: string
  rtrev_properties :: "(string, json) dict"
  rtrev_created_at :: int
  rtrev_content_hash :: string

record secret_reference =
  secret_id :: string
  secret_application_id :: string
  secret_uri :: string
  secret_backend :: secret_backend_kind
  secret_name :: string
  secret_description :: string
  secret_created_at :: int
  secret_updated_at :: int

record credential_record =
  cred_id :: string
  cred_application_id :: string
  cred_provider :: string
  cred_account_name :: string
  cred_secret_reference_ids :: "string list"
  cred_metadata :: "(string, json) dict"
  cred_created_at :: int
  cred_updated_at :: int

record callback_route =
  route_id :: string
  route_application_id :: string
  route_target_action_revision_id :: string
  route_state :: string
  route_status :: route_status_kind
  route_created_at :: int
  route_expires_at :: "int option"
  route_metadata :: "(string, json) dict"

record runtime_dependency =
  dep_id :: string
  dep_ecosystem :: dep_ecosystem_kind
  dep_package :: string
  dep_spec :: string
  dep_created_at :: int

record action =
  act_id :: string
  act_application_id :: string
  act_active_revision_id :: "string option"

record trigger =
  trig_id :: string
  trig_application_id :: string
  trig_active_revision_id :: "string option"
  trig_created_at :: int

record trigger_revision =
  trigrev_id :: string
  trigrev_trigger_id :: string
  trigrev_action_id :: string
  trigrev_trigger_type :: trigger_type
  trigrev_config :: "(string, json) dict"
  trigrev_input_template :: "(string, json) dict"
  trigrev_overlap_policy :: trigger_overlap_policy
  trigrev_misfire_policy :: trigger_misfire_policy
  trigrev_max_attempts :: int
  trigrev_retry_policy :: "(string, json) dict"
  trigrev_enabled :: bool
  trigrev_created_at :: int
  trigrev_created_by :: string
  trigrev_content_hash :: string

record action_revision =
  actrev_id :: string
  actrev_action_id :: string
  actrev_kind :: action_kind
  actrev_entrypoint :: string
  actrev_source_paths :: "string list"
  actrev_input_schema :: "(string, json) dict"
  actrev_output_schema :: "(string, json) dict"
  actrev_runtime_dependency_ids :: "string list"
  actrev_secret_refs :: "string list"
  actrev_callback_refs :: "string list"
  actrev_declared_capabilities :: "string list"
  actrev_timeout_seconds :: int
  actrev_concurrency_policy :: action_concurrency_policy
  actrev_retry_policy :: "(string, json) dict"
  actrev_idempotency_key_policy :: "string option"
  actrev_migration_metadata :: "(string, json) dict"
  actrev_created_at :: int
  actrev_created_by :: string
  actrev_content_hash :: string

record test_case =
  test_id :: string
  test_action_id :: string
  test_input :: "(string, json) dict"
  test_expected_output :: json

record validation_report =
  report_id :: string
  report_application_revision_id :: string
  report_status :: report_status_kind
  report_errors :: "string list"
  report_created_at :: int

record experience_validation_report =
  xreport_id :: string
  xreport_experience_revision_id :: string
  xreport_status :: report_status_kind
  xreport_errors :: "string list"
  xreport_created_at :: int

end
