(* ===== verification/Models_Runtime.thy ===== *)
theory Models_Runtime
  imports Model_Types
begin

text \<open>
  Record classes of \<^verbatim>\<open>kernel/models.py\<close>: what running leaves behind: environments, builds, invocations, jobs, audits, checkpoints and package imports.
  Fields in the order of the class; a time stamp is an integer, a \<^verbatim>\<open>dict[str, Any]\<close> a dictionary
  of JSON values (floats are not represented), an optional field an option.
\<close>

record python_environment =
  pyenv_id :: string
  pyenv_application_revision_id :: string
  pyenv_dependency_ids :: "string list"
  pyenv_env_path :: string
  pyenv_python_version :: string
  pyenv_lock_hash :: string
  pyenv_lock_metadata :: "(string, json) dict"
  pyenv_status :: environment_status
  pyenv_last_resolved_at :: "int option"
  pyenv_error :: "string option"

record javascript_environment =
  jsenv_id :: string
  jsenv_owner_kind :: revision_owner_kind
  jsenv_owner_id :: string
  jsenv_dependency_ids :: "string list"
  jsenv_install_path :: string
  jsenv_node_version :: "string option"
  jsenv_lock_hash :: string
  jsenv_lock_metadata :: "(string, json) dict"
  jsenv_status :: environment_status
  jsenv_last_resolved_at :: "int option"
  jsenv_error :: "string option"

record build_invocation =
  binv_id :: string
  binv_owner_kind :: revision_owner_kind
  binv_owner_id :: string
  binv_kind :: build_kind
  binv_status :: build_status
  binv_input_hash :: string
  binv_command :: "string list"
  binv_cwd :: "string option"
  binv_stdout :: string
  binv_stderr :: string
  binv_error :: "string option"
  binv_started_at :: int
  binv_completed_at :: "int option"

record build_artifact =
  art_id :: string
  art_owner_kind :: revision_owner_kind
  art_owner_id :: string
  art_build_invocation_id :: string
  art_artifact_type :: art_artifact_type_kind
  art_path :: string
  art_content_hash :: string
  art_surface_id :: "string option"
  art_surface_type :: "string option"
  art_input_hash :: "string option"
  art_manifest :: "(string, json) dict option"
  art_metadata :: "(string, json) dict"
  art_created_at :: int

record invocation =
  inv_id :: string
  inv_action_revision_id :: string
  inv_data_space_id :: string
  inv_deployment_id :: "string option"
  inv_correlation_id :: "string option"
  inv_invocation_kind :: invocation_kind
  inv_status :: invocation_status
  inv_input :: "(string, json) dict"
  inv_output :: json
  inv_error :: "string option"
  inv_stdout :: string
  inv_stderr :: string
  inv_metadata :: "(string, json) dict"
  inv_queued_at :: int
  inv_started_at :: "int option"
  inv_completed_at :: "int option"
  inv_last_heartbeat_at :: "int option"

record job_record =
  job_id :: string
  job_application_id :: string
  job_application_revision_id :: string
  job_trigger_revision_id :: string
  job_action_revision_id :: string
  job_status :: job_status
  job_input :: "(string, json) dict"
  job_scheduled_at :: "int option"
  job_queued_at :: "int option"
  job_started_at :: "int option"
  job_completed_at :: "int option"
  job_heartbeat_at :: "int option"
  job_attempt :: int
  job_max_attempts :: int
  job_idempotency_key :: string
  job_invocation_id :: "string option"
  job_error :: "string option"
  job_next_retry_at :: "int option"
  job_lease_owner :: "string option"
  job_lease_expires_at :: "int option"
  job_current_attempt_id :: "string option"
  job_metadata :: "(string, json) dict"

record job_attempt =
  att_id :: string
  att_job_id :: string
  att_attempt :: int
  att_status :: job_attempt_status
  att_lease_owner :: string
  att_lease_expires_at :: int
  att_started_at :: "int option"
  att_completed_at :: "int option"
  att_heartbeat_at :: "int option"
  att_invocation_id :: "string option"
  att_error :: "string option"

record cypher_audit_record =
  audit_id :: string
  audit_invocation_id :: string
  audit_action_revision_id :: string
  audit_application_id :: string
  audit_data_space_id :: string
  audit_deployment_id :: "string option"
  audit_correlation_id :: "string option"
  audit_actor :: string
  audit_mode :: cypher_access_mode
  audit_query :: string
  audit_query_hash :: string
  audit_params_hash :: string
  audit_checkpoint_id :: "string option"
  audit_row_count :: int
  audit_created_at :: int

record graph_checkpoint =
  ckpt_id :: string
  ckpt_level :: checkpoint_level
  ckpt_application_id :: string
  ckpt_application_revision_id :: "string option"
  ckpt_snapshot_id :: string
  ckpt_created_at :: int
  ckpt_reason :: string

record checkpoint_snapshot =
  snap_id :: string
  snap_checkpoint_id :: string
  snap_level :: checkpoint_level
  snap_format_version :: int
  snap_content_hash :: string
  snap_blob_id :: string
  snap_object_count :: int
  snap_relation_count :: int
  snap_created_at :: int

record checkpoint_blob =
  cblob_id :: string
  cblob_checkpoint_id :: string
  cblob_snapshot_id :: string
  cblob_encoding :: string
  cblob_payload :: string
  cblob_created_at :: int

record package_import_attempt =
  pkg_id :: string
  pkg_package_hash :: string
  pkg_status :: package_import_status
  pkg_phase :: string
  pkg_root_kind :: pkg_root_kind
  pkg_root_id :: string
  pkg_include_data :: bool
  pkg_restore_data :: bool
  pkg_source_ids :: "(string, json) dict"
  pkg_id_map :: "(string, (string, string) dict) dict"
  pkg_created_ids :: "(string, string list) dict"
  pkg_completed_members :: "string list"
  pkg_data_counts :: "(string, int) dict"
  pkg_error :: "string option"
  pkg_started_at :: int
  pkg_completed_at :: "int option"

end
