(* ===== verification/Kernel_Models.thy ===== *)
theory Kernel_Models
  imports Models_Control Models_Definitions Models_Runtime
begin

text \<open>
  What a node of the graph holds. The record collections of \<^verbatim>\<open>graph/repositories.py\<close> give
  each kernel model a node label and key fields; the sum type \<open>node_value\<close> has one constructor
  per collection. \<^verbatim>\<open>ApplicationRelation\<close> is \<open>app_relation\<close> of the graph store.
\<close>


datatype node_value =
    RootNode
  | ApplicationNode application
  | SystemNode platform_system
  | SystemRevisionNode system_revision
  | DataSpaceNode data_space
  | DevelopmentDeploymentNode development_deployment
  | ApplicationRevisionNode application_revision
  | ExperienceNode experience
  | ExperienceRevisionNode experience_revision
  | ExperienceSurfaceNode experience_surface
  | ExperienceValidationReportNode experience_validation_report
  | AuthoringGuideNode authoring_guide
  | AuthoringGuideRevisionNode authoring_guide_revision
  | UiThemeNode ui_theme
  | UiThemeRevisionNode ui_theme_revision
  | AppBlueprintNode app_blueprint
  | BlueprintRevisionNode blueprint_revision
  | SourceTreeNode source_tree
  | SourceContentNode source_content
  | ApplicationObjectNode application_object
  | ObjectTypeNode object_type
  | ObjectTypeRevisionNode object_type_revision
  | RelationTypeNode relation_type
  | RelationTypeRevisionNode relation_type_revision
  | SecretReferenceNode secret_reference
  | CredentialRecordNode credential_record
  | CallbackRouteNode callback_route
  | RuntimeDependencyNode runtime_dependency
  | PythonEnvironmentNode python_environment
  | JavaScriptEnvironmentNode javascript_environment
  | BuildInvocationNode build_invocation
  | BuildArtifactNode build_artifact
  | ActionNode action
  | ActionRevisionNode action_revision
  | TriggerNode trigger
  | TriggerRevisionNode trigger_revision
  | JobRecordNode job_record
  | JobAttemptNode job_attempt
  | CypherAuditRecordNode cypher_audit_record
  | InvocationNode invocation
  | TestCaseNode test_case
  | GraphCheckpointNode graph_checkpoint
  | CheckpointSnapshotNode checkpoint_snapshot
  | CheckpointBlobNode checkpoint_blob
  | ValidationReportNode validation_report
  | PackageImportAttemptNode package_import_attempt

text \<open>The label under which a payload is stored (the label argument of its collection).\<close>

fun node_label :: "node_value \<Rightarrow> string" where
  "node_label RootNode = ''N4XRoot''"
| "node_label (ApplicationNode _) = ''Application''"
| "node_label (SystemNode _) = ''System''"
| "node_label (SystemRevisionNode _) = ''SystemRevision''"
| "node_label (DataSpaceNode _) = ''DataSpace''"
| "node_label (DevelopmentDeploymentNode _) = ''DevelopmentDeployment''"
| "node_label (ApplicationRevisionNode _) = ''ApplicationRevision''"
| "node_label (ExperienceNode _) = ''Experience''"
| "node_label (ExperienceRevisionNode _) = ''ExperienceRevision''"
| "node_label (ExperienceSurfaceNode _) = ''ExperienceSurface''"
| "node_label (ExperienceValidationReportNode _) = ''ExperienceValidationReport''"
| "node_label (AuthoringGuideNode _) = ''AuthoringGuide''"
| "node_label (AuthoringGuideRevisionNode _) = ''AuthoringGuideRevision''"
| "node_label (UiThemeNode _) = ''UiTheme''"
| "node_label (UiThemeRevisionNode _) = ''UiThemeRevision''"
| "node_label (AppBlueprintNode _) = ''AppBlueprint''"
| "node_label (BlueprintRevisionNode _) = ''BlueprintRevision''"
| "node_label (SourceTreeNode _) = ''SourceTree''"
| "node_label (SourceContentNode _) = ''SourceContent''"
| "node_label (ApplicationObjectNode _) = ''ApplicationObject''"
| "node_label (ObjectTypeNode _) = ''ObjectType''"
| "node_label (ObjectTypeRevisionNode _) = ''ObjectTypeRevision''"
| "node_label (RelationTypeNode _) = ''RelationType''"
| "node_label (RelationTypeRevisionNode _) = ''RelationTypeRevision''"
| "node_label (SecretReferenceNode _) = ''SecretReference''"
| "node_label (CredentialRecordNode _) = ''CredentialRecord''"
| "node_label (CallbackRouteNode _) = ''CallbackRoute''"
| "node_label (RuntimeDependencyNode _) = ''RuntimeDependency''"
| "node_label (PythonEnvironmentNode _) = ''PythonEnvironment''"
| "node_label (JavaScriptEnvironmentNode _) = ''JavaScriptEnvironment''"
| "node_label (BuildInvocationNode _) = ''BuildInvocation''"
| "node_label (BuildArtifactNode _) = ''BuildArtifact''"
| "node_label (ActionNode _) = ''Action''"
| "node_label (ActionRevisionNode _) = ''ActionRevision''"
| "node_label (TriggerNode _) = ''Trigger''"
| "node_label (TriggerRevisionNode _) = ''TriggerRevision''"
| "node_label (JobRecordNode _) = ''JobRecord''"
| "node_label (JobAttemptNode _) = ''JobAttempt''"
| "node_label (CypherAuditRecordNode _) = ''CypherAuditRecord''"
| "node_label (InvocationNode _) = ''Invocation''"
| "node_label (TestCaseNode _) = ''TestCase''"
| "node_label (GraphCheckpointNode _) = ''GraphCheckpoint''"
| "node_label (CheckpointSnapshotNode _) = ''CheckpointSnapshot''"
| "node_label (CheckpointBlobNode _) = ''CheckpointBlob''"
| "node_label (ValidationReportNode _) = ''ValidationReport''"
| "node_label (PackageImportAttemptNode _) = ''PackageImportAttempt''"

text \<open>The identity of a payload: the key fields of its collection.\<close>

fun node_identity :: "node_value \<Rightarrow> ident" where
  "node_identity RootNode = [(''id'', ''n4x'')]"
| "node_identity (ApplicationNode r) = [(''id'', app_id r)]"
| "node_identity (SystemNode r) = [(''id'', sys_id r)]"
| "node_identity (SystemRevisionNode r) = [(''id'', sysrev_id r)]"
| "node_identity (DataSpaceNode r) =
     [(''application_id'', space_application_id r), (''id'', space_id r)]"
| "node_identity (DevelopmentDeploymentNode r) = [(''id'', deploy_id r)]"
| "node_identity (ApplicationRevisionNode r) = [(''id'', rev_id r)]"
| "node_identity (ExperienceNode r) = [(''id'', exp_id r)]"
| "node_identity (ExperienceRevisionNode r) = [(''id'', exprev_id r)]"
| "node_identity (ExperienceSurfaceNode r) = [(''id'', surf_id r)]"
| "node_identity (ExperienceValidationReportNode r) = [(''id'', xreport_id r)]"
| "node_identity (AuthoringGuideNode r) = [(''id'', guide_id r)]"
| "node_identity (AuthoringGuideRevisionNode r) = [(''id'', guiderev_id r)]"
| "node_identity (UiThemeNode r) = [(''id'', theme_id r)]"
| "node_identity (UiThemeRevisionNode r) = [(''id'', themerev_id r)]"
| "node_identity (AppBlueprintNode r) = [(''id'', bp_id r)]"
| "node_identity (BlueprintRevisionNode r) = [(''id'', bprev_id r)]"
| "node_identity (SourceTreeNode r) = [(''id'', tree_id r)]"
| "node_identity (SourceContentNode r) = [(''id'', blob_id r)]"
| "node_identity (ApplicationObjectNode r) =
     [(''application_id'', obj_application_id r), (''data_space_id'', obj_data_space_id r),
      (''id'', obj_id r)]"
| "node_identity (ObjectTypeNode r) = [(''id'', otype_id r)]"
| "node_identity (ObjectTypeRevisionNode r) = [(''id'', otrev_id r)]"
| "node_identity (RelationTypeNode r) = [(''id'', rtype_id r)]"
| "node_identity (RelationTypeRevisionNode r) = [(''id'', rtrev_id r)]"
| "node_identity (SecretReferenceNode r) = [(''id'', secret_id r)]"
| "node_identity (CredentialRecordNode r) = [(''id'', cred_id r)]"
| "node_identity (CallbackRouteNode r) = [(''id'', route_id r)]"
| "node_identity (RuntimeDependencyNode r) = [(''id'', dep_id r)]"
| "node_identity (PythonEnvironmentNode r) = [(''id'', pyenv_id r)]"
| "node_identity (JavaScriptEnvironmentNode r) = [(''id'', jsenv_id r)]"
| "node_identity (BuildInvocationNode r) = [(''id'', binv_id r)]"
| "node_identity (BuildArtifactNode r) = [(''id'', art_id r)]"
| "node_identity (ActionNode r) = [(''id'', act_id r)]"
| "node_identity (ActionRevisionNode r) = [(''id'', actrev_id r)]"
| "node_identity (TriggerNode r) = [(''id'', trig_id r)]"
| "node_identity (TriggerRevisionNode r) = [(''id'', trigrev_id r)]"
| "node_identity (JobRecordNode r) = [(''id'', job_id r)]"
| "node_identity (JobAttemptNode r) = [(''id'', att_id r)]"
| "node_identity (CypherAuditRecordNode r) = [(''id'', audit_id r)]"
| "node_identity (InvocationNode r) = [(''id'', inv_id r)]"
| "node_identity (TestCaseNode r) = [(''id'', test_id r)]"
| "node_identity (GraphCheckpointNode r) = [(''id'', ckpt_id r)]"
| "node_identity (CheckpointSnapshotNode r) = [(''id'', snap_id r)]"
| "node_identity (CheckpointBlobNode r) = [(''id'', cblob_id r)]"
| "node_identity (ValidationReportNode r) = [(''id'', report_id r)]"
| "node_identity (PackageImportAttemptNode r) = [(''id'', pkg_id r)]"

end
