(* ===== verification/Unit_Of_Work.thy ===== *)
theory Unit_Of_Work
  imports Graph_Laws
begin

text \<open>
  Transactions: the store transaction of \<^verbatim>\<open>testing/graph_store.py\<close> (snapshot, nesting depth,
  rollback flag) and, on top of it, \<^verbatim>\<open>GraphUnitOfWork\<close> and the \<^verbatim>\<open>transactional\<close> decorator of
  \<^verbatim>\<open>graph/uow.py\<close> with its bounded deadlock retry. A Python \<^verbatim>\<open>with\<close> block is an operation
  wrapped between \<open>uow_enter\<close> and \<open>uow_exit\<close>; the flag of \<open>uow_exit\<close> says whether the block
  raised. The method a decorator wraps takes the number of the attempt, which is what a retry
  sees of a changed environment.
\<close>

section \<open>State\<close>

record 'v txn_state =
  txn_depth :: nat
  txn_rollback_only :: bool
  txn_snapshot :: "'v graph"

record uow_state =
  uow_depth :: nat
  uow_rollback_only :: bool

text \<open>\<open>slept\<close> records the back-off delays in milliseconds.\<close>

record 'v world =
  graph :: "'v graph"
  txn :: "'v txn_state option"
  uow :: "uow_state option"
  slept :: "nat list"

definition idle :: "'v world \<Rightarrow> bool" where
  "idle w \<longleftrightarrow> uow w = None \<and> txn w = None"

section \<open>The store transaction\<close>

definition txn_enter :: "'v world \<Rightarrow> 'v world" where
  "txn_enter w =
     (case txn w of
        Some t \<Rightarrow> w\<lparr>txn := Some (t\<lparr>txn_depth := Suc (txn_depth t)\<rparr>)\<rparr>
      | None \<Rightarrow> w\<lparr>txn := Some \<lparr>txn_depth = 1, txn_rollback_only = False, txn_snapshot = graph w\<rparr>\<rparr>)"

definition txn_exit :: "bool \<Rightarrow> 'v world \<Rightarrow> 'v world" where
  "txn_exit failed w =
     (case txn w of
        None \<Rightarrow> w
      | Some t \<Rightarrow>
          (let ro = txn_rollback_only t \<or> failed in
           if txn_depth t > 1
           then w\<lparr>txn := Some (t\<lparr>txn_depth := txn_depth t - 1, txn_rollback_only := ro\<rparr>)\<rparr>
           else w\<lparr>graph := (if ro then txn_snapshot t else graph w), txn := None\<rparr>))"

definition acquire_write_lock :: "('v world, unit) op" where
  "acquire_write_lock w =
     (if txn w = None
      then (Inl (ConcurrentGraphUpdateError ''write locks require an active transaction''), w)
      else (Inr (), w))"

section \<open>The unit of work\<close>

definition is_active :: "'v world \<Rightarrow> bool" where
  "is_active w \<longleftrightarrow> uow w \<noteq> None"

definition require_active :: "('v world, unit) op" where
  "require_active w =
     (if is_active w then (Inr (), w)
      else (Inl (GraphUnitOfWorkError ''repository operation requires an active GraphUnitOfWork''), w))"

definition require_inactive :: "string \<Rightarrow> ('v world, unit) op" where
  "require_inactive operation w =
     (if is_active w
      then (Inl (GraphUnitOfWorkError (operation @ '' requires an inactive GraphUnitOfWork'')), w)
      else (Inr (), w))"

definition uow_enter :: "'v world \<Rightarrow> 'v world" where
  "uow_enter w =
     (case uow w of
        Some u \<Rightarrow> w\<lparr>uow := Some (u\<lparr>uow_depth := Suc (uow_depth u)\<rparr>)\<rparr>
      | None \<Rightarrow> (txn_enter w)\<lparr>uow := Some \<lparr>uow_depth = 1, uow_rollback_only = False\<rparr>\<rparr>)"

definition uow_exit :: "bool \<Rightarrow> ('v world, unit) op" where
  "uow_exit failed w =
     (case uow w of
        None \<Rightarrow> (Inl (GraphUnitOfWorkError ''GraphUnitOfWork is not active''), w)
      | Some u \<Rightarrow>
          (let ro = uow_rollback_only u \<or> failed; d = uow_depth u - 1 in
           if d > 0 then (Inr (), w\<lparr>uow := Some \<lparr>uow_depth = d, uow_rollback_only = ro\<rparr>\<rparr>)
           else if failed then (Inr (), txn_exit True (w\<lparr>uow := None\<rparr>))
           else if ro then
             (Inl (GraphUnitOfWorkError
                ''nested GraphUnitOfWork failure marked the transaction for rollback''),
              txn_exit True (w\<lparr>uow := None\<rparr>))
           else (Inr (), txn_exit False (w\<lparr>uow := None\<rparr>))))"

definition uow_rollback :: "('v world, unit) op" where
  "uow_rollback w =
     (case uow w of
        None \<Rightarrow> (Inl (GraphUnitOfWorkError ''GraphUnitOfWork is not active''), w)
      | Some u \<Rightarrow>
          if uow_depth u > 1
          then (Inr (), w\<lparr>uow := Some \<lparr>uow_depth = uow_depth u - 1, uow_rollback_only = True\<rparr>\<rparr>)
          else (Inr (), txn_exit True (w\<lparr>uow := None\<rparr>)))"

text \<open>\<^verbatim>\<open>with self.uow: body\<close>.\<close>

definition with_uow :: "('v world, 'a) op \<Rightarrow> ('v world, 'a) op" where
  "with_uow body w =
     (case body (uow_enter w) of
        (Inl e, w1) \<Rightarrow> (case uow_exit True w1 of (Inl e', w2) \<Rightarrow> (Inl e', w2) | (Inr _, w2) \<Rightarrow> (Inl e, w2))
      | (Inr a, w1) \<Rightarrow> (case uow_exit False w1 of (Inl e', w2) \<Rightarrow> (Inl e', w2) | (Inr _, w2) \<Rightarrow> (Inr a, w2)))"

section \<open>The transactional decorator\<close>

definition deadlock_attempts :: nat where
  "deadlock_attempts = 8"

fun deadlock_loop :: "nat \<Rightarrow> nat \<Rightarrow> (nat \<Rightarrow> ('v world, 'a) op) \<Rightarrow> ('v world, 'a) op" where
  "deadlock_loop 0 attempt m w = (Inl AssertionError, w)"
| "deadlock_loop (Suc left) attempt m w =
     (case with_uow (bindE acquire_write_lock (\<lambda>_. m attempt)) w of
        (Inl e, w') \<Rightarrow>
          if is_transient e then
            (if attempt = deadlock_attempts - 1 then (Inl e, w')
             else deadlock_loop left (Suc attempt) m (w'\<lparr>slept := slept w' @ [10 * 2 ^ attempt]\<rparr>))
          else (Inl e, w')
      | (Inr a, w') \<Rightarrow> (Inr a, w'))"

definition transactional :: "(nat \<Rightarrow> ('v world, 'a) op) \<Rightarrow> ('v world, 'a) op" where
  "transactional m w =
     (if is_active w then with_uow (m 0) w else deadlock_loop deadlock_attempts 0 m w)"

text \<open>An operation on the graph, run in a world.\<close>

definition on_graph :: "('v graph, 'a) op \<Rightarrow> ('v world, 'a) op" where
  "on_graph m w = (case m (graph w) of (r, g) \<Rightarrow> (r, w\<lparr>graph := g\<rparr>))"

section \<open>Balanced operations\<close>

text \<open>
  What runs inside a unit of work leaves it open at the same depth, never clears the rollback
  flag, and does not touch the store transaction.
\<close>

definition balanced :: "('v world, 'a) op \<Rightarrow> bool" where
  "balanced m \<longleftrightarrow> (\<forall>w u. uow w = Some u \<longrightarrow> 0 < uow_depth u \<longrightarrow>
     (\<exists>u'. uow (snd (m w)) = Some u' \<and> uow_depth u' = uow_depth u \<and>
           (uow_rollback_only u \<longrightarrow> uow_rollback_only u') \<and> txn (snd (m w)) = txn w))"

lemma balancedD:
  "balanced m \<Longrightarrow> m w = (r, w') \<Longrightarrow> uow w = Some u \<Longrightarrow> 0 < uow_depth u \<Longrightarrow>
   \<exists>u'. uow w' = Some u' \<and> uow_depth u' = uow_depth u \<and>
     (uow_rollback_only u \<longrightarrow> uow_rollback_only u') \<and> txn w' = txn w"
  unfolding balanced_def by (metis snd_conv)

lemma balanced_on_graph: "balanced (on_graph m)"
  by (auto simp: balanced_def on_graph_def split: prod.splits)

lemma balanced_lock: "balanced acquire_write_lock"
  by (auto simp: balanced_def acquire_write_lock_def)

lemma balanced_ret: "balanced (ret a)"
  by (auto simp: balanced_def op_defs)

lemma balanced_bindE:
  fixes m :: "('v world, 'a) op"
  assumes m: "balanced m" and k: "\<And>a. balanced (k a)"
  shows "balanced (bindE m k)"
  unfolding balanced_def
proof (intro allI impI)
  fix w :: "'v world" and u
  assume u: "uow w = Some u" "0 < uow_depth u"
  obtain r w1 where r: "m w = (r, w1)" by fastforce
  from balancedD [OF m r u] obtain u1 where u1: "uow w1 = Some u1" "uow_depth u1 = uow_depth u"
    "uow_rollback_only u \<longrightarrow> uow_rollback_only u1" "txn w1 = txn w" by blast
  show "\<exists>u'. uow (snd (bindE m k w)) = Some u' \<and> uow_depth u' = uow_depth u \<and>
      (uow_rollback_only u \<longrightarrow> uow_rollback_only u') \<and> txn (snd (bindE m k w)) = txn w"
  proof (cases r)
    case (Inl e)
    with r u1 show ?thesis by (simp add: bindE_def)
  next
    case (Inr a)
    obtain r2 w2 where r2: "k a w1 = (r2, w2)" by fastforce
    from balancedD [OF k r2 u1(1)] u u1 Inr r r2 show ?thesis by (auto simp: bindE_def)
  qed
qed

text \<open>A nested unit of work is balanced, and on success it is the operation itself.\<close>

lemma with_uow_nested:
  assumes m: "balanced m" and u: "uow w = Some u" "0 < uow_depth u"
    and run: "m (uow_enter w) = (r, w1)"
  shows "\<exists>u1. uow w1 = Some u1 \<and> (uow_rollback_only u \<longrightarrow> uow_rollback_only u1) \<and> txn w1 = txn w \<and>
    with_uow m w = (r, w1\<lparr>uow := Some \<lparr>uow_depth = uow_depth u,
       uow_rollback_only = (uow_rollback_only u1 \<or> isl r)\<rparr>\<rparr>)"
proof -
  have "uow (uow_enter w) = Some (u\<lparr>uow_depth := Suc (uow_depth u)\<rparr>)" "txn (uow_enter w) = txn w"
    using u by (simp_all add: uow_enter_def)
  from balancedD [OF m run this(1)] this(2) obtain u1
    where "uow w1 = Some u1" "uow_depth u1 = Suc (uow_depth u)"
      "uow_rollback_only u \<longrightarrow> uow_rollback_only u1" "txn w1 = txn w"
    by auto
  then show ?thesis
    using u run by (cases r) (simp_all add: with_uow_def uow_exit_def)
qed

lemma balanced_with_uow:
  fixes m :: "('v world, 'a) op"
  assumes "balanced m"
  shows "balanced (with_uow m)"
  unfolding balanced_def
proof (intro allI impI)
  fix w :: "'v world" and u
  assume u: "uow w = Some u" "0 < uow_depth u"
  obtain r w1 where "m (uow_enter w) = (r, w1)" by fastforce
  from with_uow_nested [OF assms u this]
  show "\<exists>u'. uow (snd (with_uow m w)) = Some u' \<and> uow_depth u' = uow_depth u \<and>
      (uow_rollback_only u \<longrightarrow> uow_rollback_only u') \<and> txn (snd (with_uow m w)) = txn w"
    by auto
qed

section \<open>The outermost unit of work\<close>

text \<open>The outermost block commits exactly when its body returns and nothing inside it failed.\<close>

lemma with_uow_outer:
  assumes m: "balanced m" and w: "idle w" and run: "m (uow_enter w) = (r, w1)"
  shows "\<exists>u1. uow w1 = Some u1 \<and>
    with_uow m w =
      (case r of Inl e \<Rightarrow> Inl e
       | Inr a \<Rightarrow> if uow_rollback_only u1 then
           Inl (GraphUnitOfWorkError
             ''nested GraphUnitOfWork failure marked the transaction for rollback'') else Inr a,
       w1\<lparr>graph := (if isl r \<or> uow_rollback_only u1 then graph w else graph w1),
          txn := None, uow := None\<rparr>)"
proof -
  have e: "uow (uow_enter w) = Some \<lparr>uow_depth = 1, uow_rollback_only = False\<rparr>"
    "txn (uow_enter w) = Some \<lparr>txn_depth = 1, txn_rollback_only = False, txn_snapshot = graph w\<rparr>"
    using w by (simp_all add: uow_enter_def txn_enter_def idle_def)
  from balancedD [OF m run e(1)] e(2) obtain u1
    where "uow w1 = Some u1" "uow_depth u1 = 1"
      "txn w1 = Some \<lparr>txn_depth = 1, txn_rollback_only = False, txn_snapshot = graph w\<rparr>"
    by auto
  then show ?thesis
    using run by (cases r) (auto simp: with_uow_def uow_exit_def txn_exit_def Let_def)
qed

lemma with_uow_idle: "balanced m \<Longrightarrow> idle w \<Longrightarrow> idle (snd (with_uow m w))"
  using with_uow_outer [of m w] by (cases "m (uow_enter w)") (auto simp: idle_def)

text \<open>Graph operations never set the rollback flag.\<close>

lemma on_graph_enter:
  "idle w \<Longrightarrow> bindE acquire_write_lock (\<lambda>_. on_graph m) (uow_enter w) =
     (case m (graph w) of (r, g) \<Rightarrow> (r, (uow_enter w)\<lparr>graph := g\<rparr>))"
  by (simp add: bindE_def acquire_write_lock_def on_graph_def uow_enter_def txn_enter_def idle_def
      split: prod.splits)

lemma with_uow_on_graph:
  assumes "idle w" and "m (graph w) = (r, g)"
  shows "with_uow (bindE acquire_write_lock (\<lambda>_. on_graph m)) w =
    (r, w\<lparr>graph := (if isl r then graph w else g)\<rparr>)"
proof -
  have run: "bindE acquire_write_lock (\<lambda>_. on_graph m) (uow_enter w) = (r, (uow_enter w)\<lparr>graph := g\<rparr>)"
    by (simp add: on_graph_enter assms)
  have bal: "balanced (bindE acquire_write_lock (\<lambda>_. on_graph m))"
    by (intro balanced_bindE balanced_lock balanced_on_graph)
  have "(uow_enter w)\<lparr>graph := h, txn := None, uow := None\<rparr> = w\<lparr>graph := h\<rparr>" for h
    using assms(1) by (cases w) (simp add: uow_enter_def txn_enter_def idle_def)
  moreover have "uow ((uow_enter w)\<lparr>graph := g\<rparr>) = Some \<lparr>uow_depth = 1, uow_rollback_only = False\<rparr>"
    using assms(1) by (simp add: uow_enter_def txn_enter_def idle_def)
  ultimately show ?thesis
    using with_uow_outer [OF bal assms(1) run] by (cases r) (auto simp: sum.splits)
qed

section \<open>Retry\<close>

text \<open>
  Attempt \<open>n\<close> is the first that does not hit a deadlock: the decorator returns its outcome,
  having slept once per deadlock.
\<close>

definition transient_result :: "exn + 'a \<Rightarrow> bool" where
  "transient_result r \<longleftrightarrow> (case r of Inl e \<Rightarrow> is_transient e | Inr _ \<Rightarrow> False)"

lemma deadlock_loop_first:
  assumes "idle w" and "left + a = deadlock_attempts" and "n < left"
    and "\<And>i. i < n \<Longrightarrow> transient_result (fst (f (a + i) (graph w)))"
    and "f (a + n) (graph w) = (r, g)" and "\<not> transient_result r"
  shows "deadlock_loop left a (\<lambda>i. on_graph (f i)) w =
    (r, w\<lparr>graph := (if isl r then graph w else g),
          slept := slept w @ map (\<lambda>i. 10 * 2 ^ (a + i)) [0..<n]\<rparr>)"
  using assms
proof (induction n arbitrary: left a w)
  case 0
  then obtain k where "left = Suc k" by (cases left) auto
  with 0 show ?case
    by (auto simp: with_uow_on_graph transient_result_def split: sum.splits)
next
  case (Suc n)
  then obtain k where k: "left = Suc k" by (cases left) auto
  obtain r0 g0 where r0: "f a (graph w) = (r0, g0)" by fastforce
  with Suc.prems(4) [of 0] obtain e where e: "r0 = Inl e" "is_transient e"
    by (auto simp: transient_result_def split: sum.splits)
  let ?w = "w\<lparr>slept := slept w @ [10 * 2 ^ a]\<rparr>"
  have "deadlock_loop k (Suc a) (\<lambda>i. on_graph (f i)) ?w =
    (r, ?w\<lparr>graph := (if isl r then graph ?w else g),
          slept := slept ?w @ map (\<lambda>i. 10 * 2 ^ (Suc a + i)) [0..<n]\<rparr>)"
  proof (rule Suc.IH)
    show "transient_result (fst (f (Suc a + i) (graph ?w)))" if "i < n" for i
      using Suc.prems(4) [of "Suc i"] that by simp
  qed (use Suc.prems k in \<open>auto simp: idle_def\<close>)
  moreover have "a \<noteq> deadlock_attempts - 1"
    using Suc.prems(2,3) k by (simp add: deadlock_attempts_def)
  ultimately show ?case
    using k e r0 Suc.prems(1)
    by (simp add: with_uow_on_graph upt_conv_Cons map_Suc_upt [symmetric] del: map_Suc_upt upt_Suc)
qed

end
