(* ===== verification/Record_Collections.thy ===== *)
theory Record_Collections
  imports Kernel_Models Unit_Of_Work
begin

text \<open>
  \<^verbatim>\<open>RecordCollection\<close> of \<^verbatim>\<open>graph/repositories.py\<close>: a live view over the nodes of one label. A
  collection is its label, the constructor of its payload, the decoding of a node and the
  identity of a record. The operations are the methods of the class inside an active unit of
  work, where the write lock is a no-op. The locale states what a collection promises its
  callers; every collection the services use is an interpretation.
\<close>

record 'm collection =
  coll_label :: string
  coll_put :: "'m \<Rightarrow> node_value"
  coll_decode :: "node_value \<Rightarrow> 'm option"
  coll_identity :: "'m \<Rightarrow> ident"

section \<open>Operations\<close>

definition coll_get :: "'m collection \<Rightarrow> ident \<Rightarrow> node_value graph \<Rightarrow> 'm option" where
  "coll_get c i g = Option.bind (get_node (coll_label c) i g) (coll_decode c)"

definition coll_item :: "'m collection \<Rightarrow> ident \<Rightarrow> node_value graph \<Rightarrow> exn + 'm" where
  "coll_item c i g = (case coll_get c i g of None \<Rightarrow> Inl (KeyError (coll_label c)) | Some m \<Rightarrow> Inr m)"

definition coll_values :: "'m collection \<Rightarrow> node_value graph \<Rightarrow> 'm list" where
  "coll_values c g = List.map_filter (coll_decode c) (list_nodes (coll_label c) (\<lambda>_. True) g)"

definition coll_len :: "'m collection \<Rightarrow> node_value graph \<Rightarrow> nat" where
  "coll_len c g = length (list_nodes (coll_label c) (\<lambda>_. True) g)"

definition coll_save :: "'m collection \<Rightarrow> 'm \<Rightarrow> node_value graph \<Rightarrow> node_value graph" where
  "coll_save c m g = upsert_node (coll_label c) (coll_identity c m) (coll_put c m) g"

definition coll_setitem :: "'m collection \<Rightarrow> ident \<Rightarrow> 'm \<Rightarrow> (node_value graph, unit) op" where
  "coll_setitem c i m g =
     (if i \<noteq> coll_identity c m
      then (Inl (ValueError (''record key does not match '' @ coll_label c @ '' identity'')), g)
      else (Inr (), coll_save c m g))"

definition coll_delete :: "'m collection \<Rightarrow> ident \<Rightarrow> node_value graph \<Rightarrow> node_value graph" where
  "coll_delete c i g = delete_node (coll_label c) i g"

definition coll_clear :: "'m collection \<Rightarrow> node_value graph \<Rightarrow> node_value graph" where
  "coll_clear c g = fold (\<lambda>m. coll_delete c (coll_identity c m)) (coll_values c g) g"

text \<open>The key of a collection with the single key field \<^verbatim>\<open>id\<close>.\<close>

definition key :: "string \<Rightarrow> ident" where
  "key i = [(''id'', i)]"

lemma key_inject [simp]: "key i = key j \<longleftrightarrow> i = j"
  by (simp add: key_def)

lemma id_ref_key: "id_ref l i = NodeRef l (key i)"
  by (simp add: id_ref_def key_def)

section \<open>Typed graphs\<close>

text \<open>Every node is stored under the label and the identity of its own payload.\<close>

definition typed_graph :: "node_value graph \<Rightarrow> bool" where
  "typed_graph g \<longleftrightarrow> list_all (\<lambda>n. fst n = (node_label (snd n), node_identity (snd n))) (nodes g)"

lemma set_dict_set: "set (dict_set k v d) \<subseteq> insert (k, v) (set d)"
  by (induction d) auto

lemma set_dict_pop: "set (dict_pop k d) \<subseteq> set d"
  by (induction d) auto

lemma typed_upsert:
  "typed_graph g \<Longrightarrow> typed_graph (upsert_node (node_label v) (node_identity v) v g)"
  using set_dict_set [of "(node_label v, node_identity v)" v "nodes g"]
  by (fastforce simp: typed_graph_def upsert_node_def list_all_iff)

lemma typed_delete_node: "typed_graph g \<Longrightarrow> typed_graph (delete_node l i g)"
  using set_dict_pop [of "(l, i)" "nodes g"]
  by (fastforce simp: typed_graph_def delete_node_def Let_def list_all_iff)

lemma typed_create_edge [simp]: "typed_graph (create_edge f t to p g) = typed_graph g"
  by (simp add: typed_graph_def graph_simps)

lemma typed_delete_edge [simp]: "typed_graph (delete_edge f t to p g) = typed_graph g"
  by (simp add: typed_graph_def graph_simps)

lemma typed_get_node:
  "typed_graph g \<Longrightarrow> get_node l i g = Some v \<Longrightarrow> node_label v = l \<and> node_identity v = i"
  by (force simp: typed_graph_def get_node_def list_all_iff dest: map_of_SomeD)

section \<open>The contract of a collection\<close>

text \<open>
  A collection decodes exactly its own payloads and stores them under its label. From this a
  caller gets: a save is read back, nothing else changes, a read record carries its key, and
  the listed values are the records that can be read.
\<close>

locale record_collection =
  fixes c :: "'m collection"
  assumes decode_iff: "coll_decode c v = Some m \<longleftrightarrow> v = coll_put c m"
    and label_put: "node_label (coll_put c m) = coll_label c"
    and label_only: "node_label v = coll_label c \<Longrightarrow> \<exists>m. v = coll_put c m"
    and identity_put: "node_identity (coll_put c m) = coll_identity c m"
begin

lemma get_save:
  "coll_get c i (coll_save c m g) = (if i = coll_identity c m then Some m else coll_get c i g)"
  using decode_iff [of "coll_put c m" m] by (auto simp: coll_get_def coll_save_def graph_simps)

lemma get_delete: "coll_get c i (coll_delete c j g) = (if i = j then None else coll_get c i g)"
  by (simp add: coll_get_def coll_delete_def graph_simps)

lemma get_create_edge: "coll_get c i (create_edge f t to p g) = coll_get c i g"
  by (simp add: coll_get_def graph_simps)

lemma get_delete_edge: "coll_get c i (delete_edge f t to p g) = coll_get c i g"
  by (simp add: coll_get_def graph_simps)

lemma get_delete_node:
  "coll_get c i (delete_node l j g) = (if coll_label c = l \<and> i = j then None else coll_get c i g)"
  by (simp add: coll_get_def graph_simps)

lemma get_upsert_other:
  "coll_label c \<noteq> l \<or> i \<noteq> j \<Longrightarrow> coll_get c i (upsert_node l j v g) = coll_get c i g"
  by (auto simp: coll_get_def graph_simps)

lemma typed_save: "typed_graph g \<Longrightarrow> typed_graph (coll_save c m g)"
  using typed_upsert [of g "coll_put c m"] by (simp add: coll_save_def label_put identity_put)

lemma wf_save: "wf_graph g \<Longrightarrow> wf_graph (coll_save c m g)"
  by (simp add: coll_save_def wf_upsert_node)

lemma get_Some_node: "coll_get c i g = Some m \<longleftrightarrow> get_node (coll_label c) i g = Some (coll_put c m)"
  by (auto simp: coll_get_def decode_iff bind_eq_Some_conv)

lemma get_identity: "typed_graph g \<Longrightarrow> coll_get c i g = Some m \<Longrightarrow> coll_identity c m = i"
  by (auto simp: get_Some_node identity_put dest: typed_get_node)

lemma present_get: "typed_graph g \<Longrightarrow> get_node (coll_label c) i g = Some v \<Longrightarrow> \<exists>m. coll_get c i g = Some m"
  using label_only by (auto simp: get_Some_node dest: typed_get_node)

lemma values_iff:
  assumes "typed_graph g" and "wf_graph g"
  shows "m \<in> set (coll_values c g) \<longleftrightarrow> coll_get c (coll_identity c m) g = Some m"
proof -
  have "m \<in> set (coll_values c g) \<longleftrightarrow> (\<exists>i. ((coll_label c, i), coll_put c m) \<in> set (nodes g))"
    by (auto simp: coll_values_def List.map_filter_def list_nodes_def decode_iff image_iff split: prod.splits)
      (metis decode_iff option.distinct(1) option.sel snd_conv fst_conv)+
  also have "\<dots> \<longleftrightarrow> ((coll_label c, coll_identity c m), coll_put c m) \<in> set (nodes g)"
    using assms(1) identity_put by (fastforce simp: typed_graph_def list_all_iff)
  also have "\<dots> \<longleftrightarrow> coll_get c (coll_identity c m) g = Some m"
    using assms(2) by (simp add: get_Some_node get_node_def wf_graph_def)
  finally show ?thesis .
qed

end

section \<open>The collections\<close>

definition applications_coll :: "application collection" where
  "applications_coll = \<lparr>coll_label = ''Application'', coll_put = ApplicationNode,
     coll_decode = (\<lambda>v. case v of ApplicationNode r \<Rightarrow> Some r | _ \<Rightarrow> None),
     coll_identity = (\<lambda>r. key (app_id r))\<rparr>"

definition systems_coll :: "platform_system collection" where
  "systems_coll = \<lparr>coll_label = ''System'', coll_put = SystemNode,
     coll_decode = (\<lambda>v. case v of SystemNode r \<Rightarrow> Some r | _ \<Rightarrow> None),
     coll_identity = (\<lambda>r. key (sys_id r))\<rparr>"

definition system_revisions_coll :: "system_revision collection" where
  "system_revisions_coll = \<lparr>coll_label = ''SystemRevision'', coll_put = SystemRevisionNode,
     coll_decode = (\<lambda>v. case v of SystemRevisionNode r \<Rightarrow> Some r | _ \<Rightarrow> None),
     coll_identity = (\<lambda>r. key (sysrev_id r))\<rparr>"

definition data_spaces_coll :: "data_space collection" where
  "data_spaces_coll = \<lparr>coll_label = ''DataSpace'', coll_put = DataSpaceNode,
     coll_decode = (\<lambda>v. case v of DataSpaceNode r \<Rightarrow> Some r | _ \<Rightarrow> None),
     coll_identity = (\<lambda>r. [(''application_id'', space_application_id r), (''id'', space_id r)])\<rparr>"

definition development_deployments_coll :: "development_deployment collection" where
  "development_deployments_coll = \<lparr>coll_label = ''DevelopmentDeployment'', coll_put = DevelopmentDeploymentNode,
     coll_decode = (\<lambda>v. case v of DevelopmentDeploymentNode r \<Rightarrow> Some r | _ \<Rightarrow> None),
     coll_identity = (\<lambda>r. key (deploy_id r))\<rparr>"

definition revisions_coll :: "application_revision collection" where
  "revisions_coll = \<lparr>coll_label = ''ApplicationRevision'', coll_put = ApplicationRevisionNode,
     coll_decode = (\<lambda>v. case v of ApplicationRevisionNode r \<Rightarrow> Some r | _ \<Rightarrow> None),
     coll_identity = (\<lambda>r. key (rev_id r))\<rparr>"

definition experiences_coll :: "experience collection" where
  "experiences_coll = \<lparr>coll_label = ''Experience'', coll_put = ExperienceNode,
     coll_decode = (\<lambda>v. case v of ExperienceNode r \<Rightarrow> Some r | _ \<Rightarrow> None),
     coll_identity = (\<lambda>r. key (exp_id r))\<rparr>"

definition experience_revisions_coll :: "experience_revision collection" where
  "experience_revisions_coll = \<lparr>coll_label = ''ExperienceRevision'', coll_put = ExperienceRevisionNode,
     coll_decode = (\<lambda>v. case v of ExperienceRevisionNode r \<Rightarrow> Some r | _ \<Rightarrow> None),
     coll_identity = (\<lambda>r. key (exprev_id r))\<rparr>"

definition experience_surfaces_coll :: "experience_surface collection" where
  "experience_surfaces_coll = \<lparr>coll_label = ''ExperienceSurface'', coll_put = ExperienceSurfaceNode,
     coll_decode = (\<lambda>v. case v of ExperienceSurfaceNode r \<Rightarrow> Some r | _ \<Rightarrow> None),
     coll_identity = (\<lambda>r. key (surf_id r))\<rparr>"

definition source_trees_coll :: "source_tree collection" where
  "source_trees_coll = \<lparr>coll_label = ''SourceTree'', coll_put = SourceTreeNode,
     coll_decode = (\<lambda>v. case v of SourceTreeNode r \<Rightarrow> Some r | _ \<Rightarrow> None),
     coll_identity = (\<lambda>r. key (tree_id r))\<rparr>"

definition source_contents_coll :: "source_content collection" where
  "source_contents_coll = \<lparr>coll_label = ''SourceContent'', coll_put = SourceContentNode,
     coll_decode = (\<lambda>v. case v of SourceContentNode r \<Rightarrow> Some r | _ \<Rightarrow> None),
     coll_identity = (\<lambda>r. key (blob_id r))\<rparr>"

definition objects_coll :: "application_object collection" where
  "objects_coll = \<lparr>coll_label = ''ApplicationObject'', coll_put = ApplicationObjectNode,
     coll_decode = (\<lambda>v. case v of ApplicationObjectNode r \<Rightarrow> Some r | _ \<Rightarrow> None),
     coll_identity = (\<lambda>r. [(''application_id'', obj_application_id r), (''data_space_id'', obj_data_space_id r),
        (''id'', obj_id r)])\<rparr>"

definition object_types_coll :: "object_type collection" where
  "object_types_coll = \<lparr>coll_label = ''ObjectType'', coll_put = ObjectTypeNode,
     coll_decode = (\<lambda>v. case v of ObjectTypeNode r \<Rightarrow> Some r | _ \<Rightarrow> None),
     coll_identity = (\<lambda>r. key (otype_id r))\<rparr>"

definition object_type_revisions_coll :: "object_type_revision collection" where
  "object_type_revisions_coll = \<lparr>coll_label = ''ObjectTypeRevision'', coll_put = ObjectTypeRevisionNode,
     coll_decode = (\<lambda>v. case v of ObjectTypeRevisionNode r \<Rightarrow> Some r | _ \<Rightarrow> None),
     coll_identity = (\<lambda>r. key (otrev_id r))\<rparr>"

definition relation_types_coll :: "relation_type collection" where
  "relation_types_coll = \<lparr>coll_label = ''RelationType'', coll_put = RelationTypeNode,
     coll_decode = (\<lambda>v. case v of RelationTypeNode r \<Rightarrow> Some r | _ \<Rightarrow> None),
     coll_identity = (\<lambda>r. key (rtype_id r))\<rparr>"

definition relation_type_revisions_coll :: "relation_type_revision collection" where
  "relation_type_revisions_coll = \<lparr>coll_label = ''RelationTypeRevision'', coll_put = RelationTypeRevisionNode,
     coll_decode = (\<lambda>v. case v of RelationTypeRevisionNode r \<Rightarrow> Some r | _ \<Rightarrow> None),
     coll_identity = (\<lambda>r. key (rtrev_id r))\<rparr>"

definition secret_references_coll :: "secret_reference collection" where
  "secret_references_coll = \<lparr>coll_label = ''SecretReference'', coll_put = SecretReferenceNode,
     coll_decode = (\<lambda>v. case v of SecretReferenceNode r \<Rightarrow> Some r | _ \<Rightarrow> None),
     coll_identity = (\<lambda>r. key (secret_id r))\<rparr>"

definition credential_records_coll :: "credential_record collection" where
  "credential_records_coll = \<lparr>coll_label = ''CredentialRecord'', coll_put = CredentialRecordNode,
     coll_decode = (\<lambda>v. case v of CredentialRecordNode r \<Rightarrow> Some r | _ \<Rightarrow> None),
     coll_identity = (\<lambda>r. key (cred_id r))\<rparr>"

definition callback_routes_coll :: "callback_route collection" where
  "callback_routes_coll = \<lparr>coll_label = ''CallbackRoute'', coll_put = CallbackRouteNode,
     coll_decode = (\<lambda>v. case v of CallbackRouteNode r \<Rightarrow> Some r | _ \<Rightarrow> None),
     coll_identity = (\<lambda>r. key (route_id r))\<rparr>"

definition runtime_dependencies_coll :: "runtime_dependency collection" where
  "runtime_dependencies_coll = \<lparr>coll_label = ''RuntimeDependency'', coll_put = RuntimeDependencyNode,
     coll_decode = (\<lambda>v. case v of RuntimeDependencyNode r \<Rightarrow> Some r | _ \<Rightarrow> None),
     coll_identity = (\<lambda>r. key (dep_id r))\<rparr>"

definition actions_coll :: "action collection" where
  "actions_coll = \<lparr>coll_label = ''Action'', coll_put = ActionNode,
     coll_decode = (\<lambda>v. case v of ActionNode r \<Rightarrow> Some r | _ \<Rightarrow> None),
     coll_identity = (\<lambda>r. key (act_id r))\<rparr>"

definition action_revisions_coll :: "action_revision collection" where
  "action_revisions_coll = \<lparr>coll_label = ''ActionRevision'', coll_put = ActionRevisionNode,
     coll_decode = (\<lambda>v. case v of ActionRevisionNode r \<Rightarrow> Some r | _ \<Rightarrow> None),
     coll_identity = (\<lambda>r. key (actrev_id r))\<rparr>"

definition triggers_coll :: "trigger collection" where
  "triggers_coll = \<lparr>coll_label = ''Trigger'', coll_put = TriggerNode,
     coll_decode = (\<lambda>v. case v of TriggerNode r \<Rightarrow> Some r | _ \<Rightarrow> None),
     coll_identity = (\<lambda>r. key (trig_id r))\<rparr>"

definition trigger_revisions_coll :: "trigger_revision collection" where
  "trigger_revisions_coll = \<lparr>coll_label = ''TriggerRevision'', coll_put = TriggerRevisionNode,
     coll_decode = (\<lambda>v. case v of TriggerRevisionNode r \<Rightarrow> Some r | _ \<Rightarrow> None),
     coll_identity = (\<lambda>r. key (trigrev_id r))\<rparr>"

definition job_records_coll :: "job_record collection" where
  "job_records_coll = \<lparr>coll_label = ''JobRecord'', coll_put = JobRecordNode,
     coll_decode = (\<lambda>v. case v of JobRecordNode r \<Rightarrow> Some r | _ \<Rightarrow> None),
     coll_identity = (\<lambda>r. key (job_id r))\<rparr>"

definition job_attempts_coll :: "job_attempt collection" where
  "job_attempts_coll = \<lparr>coll_label = ''JobAttempt'', coll_put = JobAttemptNode,
     coll_decode = (\<lambda>v. case v of JobAttemptNode r \<Rightarrow> Some r | _ \<Rightarrow> None),
     coll_identity = (\<lambda>r. key (att_id r))\<rparr>"

definition invocations_coll :: "invocation collection" where
  "invocations_coll = \<lparr>coll_label = ''Invocation'', coll_put = InvocationNode,
     coll_decode = (\<lambda>v. case v of InvocationNode r \<Rightarrow> Some r | _ \<Rightarrow> None),
     coll_identity = (\<lambda>r. key (inv_id r))\<rparr>"

definition test_cases_coll :: "test_case collection" where
  "test_cases_coll = \<lparr>coll_label = ''TestCase'', coll_put = TestCaseNode,
     coll_decode = (\<lambda>v. case v of TestCaseNode r \<Rightarrow> Some r | _ \<Rightarrow> None),
     coll_identity = (\<lambda>r. key (test_id r))\<rparr>"

text \<open>Each is an instance of the contract.\<close>

interpretation applications: record_collection applications_coll
  by unfold_locales (auto simp: applications_coll_def key_def split: node_value.splits elim: node_label.elims)

interpretation systems: record_collection systems_coll
  by unfold_locales (auto simp: systems_coll_def key_def split: node_value.splits elim: node_label.elims)

interpretation system_revisions: record_collection system_revisions_coll
  by unfold_locales (auto simp: system_revisions_coll_def key_def split: node_value.splits elim: node_label.elims)

interpretation data_spaces: record_collection data_spaces_coll
  by unfold_locales (auto simp: data_spaces_coll_def key_def split: node_value.splits elim: node_label.elims)

interpretation development_deployments: record_collection development_deployments_coll
  by unfold_locales (auto simp: development_deployments_coll_def key_def split: node_value.splits elim: node_label.elims)

interpretation revisions: record_collection revisions_coll
  by unfold_locales (auto simp: revisions_coll_def key_def split: node_value.splits elim: node_label.elims)

interpretation experiences: record_collection experiences_coll
  by unfold_locales (auto simp: experiences_coll_def key_def split: node_value.splits elim: node_label.elims)

interpretation experience_revisions: record_collection experience_revisions_coll
  by unfold_locales (auto simp: experience_revisions_coll_def key_def split: node_value.splits elim: node_label.elims)

interpretation experience_surfaces: record_collection experience_surfaces_coll
  by unfold_locales (auto simp: experience_surfaces_coll_def key_def split: node_value.splits elim: node_label.elims)

interpretation source_trees: record_collection source_trees_coll
  by unfold_locales (auto simp: source_trees_coll_def key_def split: node_value.splits elim: node_label.elims)

interpretation source_contents: record_collection source_contents_coll
  by unfold_locales (auto simp: source_contents_coll_def key_def split: node_value.splits elim: node_label.elims)

interpretation objects: record_collection objects_coll
  by unfold_locales (auto simp: objects_coll_def key_def split: node_value.splits elim: node_label.elims)

interpretation object_types: record_collection object_types_coll
  by unfold_locales (auto simp: object_types_coll_def key_def split: node_value.splits elim: node_label.elims)

interpretation object_type_revisions: record_collection object_type_revisions_coll
  by unfold_locales (auto simp: object_type_revisions_coll_def key_def split: node_value.splits elim: node_label.elims)

interpretation relation_types: record_collection relation_types_coll
  by unfold_locales (auto simp: relation_types_coll_def key_def split: node_value.splits elim: node_label.elims)

interpretation relation_type_revisions: record_collection relation_type_revisions_coll
  by unfold_locales (auto simp: relation_type_revisions_coll_def key_def split: node_value.splits elim: node_label.elims)

interpretation secret_references: record_collection secret_references_coll
  by unfold_locales (auto simp: secret_references_coll_def key_def split: node_value.splits elim: node_label.elims)

interpretation credential_records: record_collection credential_records_coll
  by unfold_locales (auto simp: credential_records_coll_def key_def split: node_value.splits elim: node_label.elims)

interpretation callback_routes: record_collection callback_routes_coll
  by unfold_locales (auto simp: callback_routes_coll_def key_def split: node_value.splits elim: node_label.elims)

interpretation runtime_dependencies: record_collection runtime_dependencies_coll
  by unfold_locales (auto simp: runtime_dependencies_coll_def key_def split: node_value.splits elim: node_label.elims)

interpretation actions: record_collection actions_coll
  by unfold_locales (auto simp: actions_coll_def key_def split: node_value.splits elim: node_label.elims)

interpretation action_revisions: record_collection action_revisions_coll
  by unfold_locales (auto simp: action_revisions_coll_def key_def split: node_value.splits elim: node_label.elims)

interpretation triggers: record_collection triggers_coll
  by unfold_locales (auto simp: triggers_coll_def key_def split: node_value.splits elim: node_label.elims)

interpretation trigger_revisions: record_collection trigger_revisions_coll
  by unfold_locales (auto simp: trigger_revisions_coll_def key_def split: node_value.splits elim: node_label.elims)

interpretation job_records: record_collection job_records_coll
  by unfold_locales (auto simp: job_records_coll_def key_def split: node_value.splits elim: node_label.elims)

interpretation job_attempts: record_collection job_attempts_coll
  by unfold_locales (auto simp: job_attempts_coll_def key_def split: node_value.splits elim: node_label.elims)

interpretation invocations: record_collection invocations_coll
  by unfold_locales (auto simp: invocations_coll_def key_def split: node_value.splits elim: node_label.elims)

interpretation test_cases: record_collection test_cases_coll
  by unfold_locales (auto simp: test_cases_coll_def key_def split: node_value.splits elim: node_label.elims)

end
