(* ===== verification/Platform_Collections.thy ===== *)
theory Platform_Collections
  imports Record_Collections
begin

text \<open>
  The record collections of the platform documents, the blueprints, the runtime environments,
  the checkpoints and the reports: the rest of \<^verbatim>\<open>RepositoryRecords\<close>, each an instance of the
  collection contract.
\<close>

definition experience_validation_reports_coll :: "experience_validation_report collection" where
  "experience_validation_reports_coll = \<lparr>coll_label = ''ExperienceValidationReport'', coll_put = ExperienceValidationReportNode,
     coll_decode = (\<lambda>v. case v of ExperienceValidationReportNode r \<Rightarrow> Some r | _ \<Rightarrow> None),
     coll_identity = (\<lambda>r. key (xreport_id r))\<rparr>"

definition authoring_guides_coll :: "authoring_guide collection" where
  "authoring_guides_coll = \<lparr>coll_label = ''AuthoringGuide'', coll_put = AuthoringGuideNode,
     coll_decode = (\<lambda>v. case v of AuthoringGuideNode r \<Rightarrow> Some r | _ \<Rightarrow> None),
     coll_identity = (\<lambda>r. key (guide_id r))\<rparr>"

definition authoring_guide_revisions_coll :: "authoring_guide_revision collection" where
  "authoring_guide_revisions_coll = \<lparr>coll_label = ''AuthoringGuideRevision'', coll_put = AuthoringGuideRevisionNode,
     coll_decode = (\<lambda>v. case v of AuthoringGuideRevisionNode r \<Rightarrow> Some r | _ \<Rightarrow> None),
     coll_identity = (\<lambda>r. key (guiderev_id r))\<rparr>"

definition ui_themes_coll :: "ui_theme collection" where
  "ui_themes_coll = \<lparr>coll_label = ''UiTheme'', coll_put = UiThemeNode,
     coll_decode = (\<lambda>v. case v of UiThemeNode r \<Rightarrow> Some r | _ \<Rightarrow> None),
     coll_identity = (\<lambda>r. key (theme_id r))\<rparr>"

definition ui_theme_revisions_coll :: "ui_theme_revision collection" where
  "ui_theme_revisions_coll = \<lparr>coll_label = ''UiThemeRevision'', coll_put = UiThemeRevisionNode,
     coll_decode = (\<lambda>v. case v of UiThemeRevisionNode r \<Rightarrow> Some r | _ \<Rightarrow> None),
     coll_identity = (\<lambda>r. key (themerev_id r))\<rparr>"

definition app_blueprints_coll :: "app_blueprint collection" where
  "app_blueprints_coll = \<lparr>coll_label = ''AppBlueprint'', coll_put = AppBlueprintNode,
     coll_decode = (\<lambda>v. case v of AppBlueprintNode r \<Rightarrow> Some r | _ \<Rightarrow> None),
     coll_identity = (\<lambda>r. key (bp_id r))\<rparr>"

definition blueprint_revisions_coll :: "blueprint_revision collection" where
  "blueprint_revisions_coll = \<lparr>coll_label = ''BlueprintRevision'', coll_put = BlueprintRevisionNode,
     coll_decode = (\<lambda>v. case v of BlueprintRevisionNode r \<Rightarrow> Some r | _ \<Rightarrow> None),
     coll_identity = (\<lambda>r. key (bprev_id r))\<rparr>"

definition python_environments_coll :: "python_environment collection" where
  "python_environments_coll = \<lparr>coll_label = ''PythonEnvironment'', coll_put = PythonEnvironmentNode,
     coll_decode = (\<lambda>v. case v of PythonEnvironmentNode r \<Rightarrow> Some r | _ \<Rightarrow> None),
     coll_identity = (\<lambda>r. key (pyenv_id r))\<rparr>"

definition javascript_environments_coll :: "javascript_environment collection" where
  "javascript_environments_coll = \<lparr>coll_label = ''JavaScriptEnvironment'', coll_put = JavaScriptEnvironmentNode,
     coll_decode = (\<lambda>v. case v of JavaScriptEnvironmentNode r \<Rightarrow> Some r | _ \<Rightarrow> None),
     coll_identity = (\<lambda>r. key (jsenv_id r))\<rparr>"

definition build_invocations_coll :: "build_invocation collection" where
  "build_invocations_coll = \<lparr>coll_label = ''BuildInvocation'', coll_put = BuildInvocationNode,
     coll_decode = (\<lambda>v. case v of BuildInvocationNode r \<Rightarrow> Some r | _ \<Rightarrow> None),
     coll_identity = (\<lambda>r. key (binv_id r))\<rparr>"

definition build_artifacts_coll :: "build_artifact collection" where
  "build_artifacts_coll = \<lparr>coll_label = ''BuildArtifact'', coll_put = BuildArtifactNode,
     coll_decode = (\<lambda>v. case v of BuildArtifactNode r \<Rightarrow> Some r | _ \<Rightarrow> None),
     coll_identity = (\<lambda>r. key (art_id r))\<rparr>"

definition cypher_audits_coll :: "cypher_audit_record collection" where
  "cypher_audits_coll = \<lparr>coll_label = ''CypherAuditRecord'', coll_put = CypherAuditRecordNode,
     coll_decode = (\<lambda>v. case v of CypherAuditRecordNode r \<Rightarrow> Some r | _ \<Rightarrow> None),
     coll_identity = (\<lambda>r. key (audit_id r))\<rparr>"

definition checkpoints_coll :: "graph_checkpoint collection" where
  "checkpoints_coll = \<lparr>coll_label = ''GraphCheckpoint'', coll_put = GraphCheckpointNode,
     coll_decode = (\<lambda>v. case v of GraphCheckpointNode r \<Rightarrow> Some r | _ \<Rightarrow> None),
     coll_identity = (\<lambda>r. key (ckpt_id r))\<rparr>"

definition checkpoint_snapshots_coll :: "checkpoint_snapshot collection" where
  "checkpoint_snapshots_coll = \<lparr>coll_label = ''CheckpointSnapshot'', coll_put = CheckpointSnapshotNode,
     coll_decode = (\<lambda>v. case v of CheckpointSnapshotNode r \<Rightarrow> Some r | _ \<Rightarrow> None),
     coll_identity = (\<lambda>r. key (snap_id r))\<rparr>"

definition checkpoint_blobs_coll :: "checkpoint_blob collection" where
  "checkpoint_blobs_coll = \<lparr>coll_label = ''CheckpointBlob'', coll_put = CheckpointBlobNode,
     coll_decode = (\<lambda>v. case v of CheckpointBlobNode r \<Rightarrow> Some r | _ \<Rightarrow> None),
     coll_identity = (\<lambda>r. key (cblob_id r))\<rparr>"

definition validation_reports_coll :: "validation_report collection" where
  "validation_reports_coll = \<lparr>coll_label = ''ValidationReport'', coll_put = ValidationReportNode,
     coll_decode = (\<lambda>v. case v of ValidationReportNode r \<Rightarrow> Some r | _ \<Rightarrow> None),
     coll_identity = (\<lambda>r. key (report_id r))\<rparr>"

definition package_import_attempts_coll :: "package_import_attempt collection" where
  "package_import_attempts_coll = \<lparr>coll_label = ''PackageImportAttempt'', coll_put = PackageImportAttemptNode,
     coll_decode = (\<lambda>v. case v of PackageImportAttemptNode r \<Rightarrow> Some r | _ \<Rightarrow> None),
     coll_identity = (\<lambda>r. key (pkg_id r))\<rparr>"

interpretation experience_validation_reports: record_collection experience_validation_reports_coll
  by unfold_locales (auto simp: experience_validation_reports_coll_def key_def split: node_value.splits elim: node_label.elims)

interpretation authoring_guides: record_collection authoring_guides_coll
  by unfold_locales (auto simp: authoring_guides_coll_def key_def split: node_value.splits elim: node_label.elims)

interpretation authoring_guide_revisions: record_collection authoring_guide_revisions_coll
  by unfold_locales (auto simp: authoring_guide_revisions_coll_def key_def split: node_value.splits elim: node_label.elims)

interpretation ui_themes: record_collection ui_themes_coll
  by unfold_locales (auto simp: ui_themes_coll_def key_def split: node_value.splits elim: node_label.elims)

interpretation ui_theme_revisions: record_collection ui_theme_revisions_coll
  by unfold_locales (auto simp: ui_theme_revisions_coll_def key_def split: node_value.splits elim: node_label.elims)

interpretation app_blueprints: record_collection app_blueprints_coll
  by unfold_locales (auto simp: app_blueprints_coll_def key_def split: node_value.splits elim: node_label.elims)

interpretation blueprint_revisions: record_collection blueprint_revisions_coll
  by unfold_locales (auto simp: blueprint_revisions_coll_def key_def split: node_value.splits elim: node_label.elims)

interpretation python_environments: record_collection python_environments_coll
  by unfold_locales (auto simp: python_environments_coll_def key_def split: node_value.splits elim: node_label.elims)

interpretation javascript_environments: record_collection javascript_environments_coll
  by unfold_locales (auto simp: javascript_environments_coll_def key_def split: node_value.splits elim: node_label.elims)

interpretation build_invocations: record_collection build_invocations_coll
  by unfold_locales (auto simp: build_invocations_coll_def key_def split: node_value.splits elim: node_label.elims)

interpretation build_artifacts: record_collection build_artifacts_coll
  by unfold_locales (auto simp: build_artifacts_coll_def key_def split: node_value.splits elim: node_label.elims)

interpretation cypher_audits: record_collection cypher_audits_coll
  by unfold_locales (auto simp: cypher_audits_coll_def key_def split: node_value.splits elim: node_label.elims)

interpretation checkpoints: record_collection checkpoints_coll
  by unfold_locales (auto simp: checkpoints_coll_def key_def split: node_value.splits elim: node_label.elims)

interpretation checkpoint_snapshots: record_collection checkpoint_snapshots_coll
  by unfold_locales (auto simp: checkpoint_snapshots_coll_def key_def split: node_value.splits elim: node_label.elims)

interpretation checkpoint_blobs: record_collection checkpoint_blobs_coll
  by unfold_locales (auto simp: checkpoint_blobs_coll_def key_def split: node_value.splits elim: node_label.elims)

interpretation validation_reports: record_collection validation_reports_coll
  by unfold_locales (auto simp: validation_reports_coll_def key_def split: node_value.splits elim: node_label.elims)

interpretation package_import_attempts: record_collection package_import_attempts_coll
  by unfold_locales (auto simp: package_import_attempts_coll_def key_def split: node_value.splits elim: node_label.elims)

end
