(* ===== verification/Service_World.thy ===== *)
theory Service_World
  imports Platform_Collections
begin

text \<open>
  The world of a service: the graph, the readings of the clock (\<^verbatim>\<open>now_utc\<close>) and the random
  identifiers (\<^verbatim>\<open>uuid.uuid4\<close>) as streams that are consumed in order, and whatever else a
  component keeps, as the record's extension. A \<^verbatim>\<open>with self.uow\<close> block is \<open>atomically\<close>: on an
  exception the graph is the one before the block.
\<close>

record svc =
  svc_graph :: "node_value graph"
  svc_clock :: "nat \<Rightarrow> int"
  svc_ticks :: nat
  svc_ids :: "nat \<Rightarrow> string"
  svc_drawn :: nat

section \<open>Primitive steps\<close>

definition now_utc :: "('z svc_scheme, int) op" where
  "now_utc s = (Inr (svc_clock s (svc_ticks s)), s\<lparr>svc_ticks := Suc (svc_ticks s)\<rparr>)"

definition new_uuid :: "('z svc_scheme, string) op" where
  "new_uuid s = (Inr (svc_ids s (svc_drawn s)), s\<lparr>svc_drawn := Suc (svc_drawn s)\<rparr>)"

definition atomically :: "('z svc_scheme, 'a) op \<Rightarrow> ('z svc_scheme, 'a) op" where
  "atomically m s =
     (case m s of
        (Inl e, s') \<Rightarrow> (Inl e, s'\<lparr>svc_graph := svc_graph s\<rparr>)
      | (Inr a, s') \<Rightarrow> (Inr a, s'))"

definition asks :: "(node_value graph \<Rightarrow> 'a) \<Rightarrow> ('z svc_scheme, 'a) op" where
  "asks f s = (Inr (f (svc_graph s)), s)"

definition reads :: "(node_value graph \<Rightarrow> exn + 'a) \<Rightarrow> ('z svc_scheme, 'a) op" where
  "reads f s = (f (svc_graph s), s)"

definition writes :: "(node_value graph \<Rightarrow> node_value graph) \<Rightarrow> ('z svc_scheme, unit) op" where
  "writes f s = (Inr (), s\<lparr>svc_graph := f (svc_graph s)\<rparr>)"

definition store_op :: "(node_value graph, 'a) op \<Rightarrow> ('z svc_scheme, 'a) op" where
  "store_op m s = (case m (svc_graph s) of (r, g) \<Rightarrow> (r, s\<lparr>svc_graph := g\<rparr>))"

definition require :: "bool \<Rightarrow> exn \<Rightarrow> ('z svc_scheme, unit) op" where
  "require b e = (if b then ret () else raise e)"

abbreviation item_of :: "'m collection \<Rightarrow> ident \<Rightarrow> ('z svc_scheme, 'm) op" where
  "item_of c i \<equiv> reads (coll_item c i)"

abbreviation save_to :: "'m collection \<Rightarrow> 'm \<Rightarrow> ('z svc_scheme, unit) op" where
  "save_to c m \<equiv> writes (coll_save c m)"

abbreviation link :: "node_ref \<Rightarrow> string \<Rightarrow> node_ref \<Rightarrow> ('z svc_scheme, unit) op" where
  "link f t to \<equiv> writes (create_edge f t to [])"

section \<open>Laws\<close>

lemma now_utc_apply [op_defs]:
  "now_utc s = (Inr (svc_clock s (svc_ticks s)), s\<lparr>svc_ticks := Suc (svc_ticks s)\<rparr>)"
  by (simp add: now_utc_def)

lemma new_uuid_apply [op_defs]:
  "new_uuid s = (Inr (svc_ids s (svc_drawn s)), s\<lparr>svc_drawn := Suc (svc_drawn s)\<rparr>)"
  by (simp add: new_uuid_def)

lemma asks_apply [op_defs]: "asks f s = (Inr (f (svc_graph s)), s)"
  by (simp add: asks_def)

lemma reads_apply [op_defs]: "reads f s = (f (svc_graph s), s)"
  by (simp add: reads_def)

lemma writes_apply [op_defs]: "writes f s = (Inr (), s\<lparr>svc_graph := f (svc_graph s)\<rparr>)"
  by (simp add: writes_def)

lemma store_op_apply [op_defs]: "store_op m s = (case m (svc_graph s) of (r, g) \<Rightarrow> (r, s\<lparr>svc_graph := g\<rparr>))"
  by (simp add: store_op_def)

lemma require_apply [op_defs]: "require b e s = (if b then (Inr (), s) else (Inl e, s))"
  by (simp add: require_def op_defs)

lemma atomically_apply:
  "atomically m s = (case m s of (Inl e, s') \<Rightarrow> (Inl e, s'\<lparr>svc_graph := svc_graph s\<rparr>) | (Inr a, s') \<Rightarrow> (Inr a, s'))"
  by (simp add: atomically_def)

lemma atomically_Inl: "atomically m s = (Inl e, s') \<Longrightarrow> svc_graph s' = svc_graph s"
  by (auto simp: atomically_def split: prod.splits sum.splits)

lemma atomically_Inr: "atomically m s = (Inr a, s') \<longleftrightarrow> m s = (Inr a, s')"
  by (auto simp: atomically_def split: prod.splits sum.splits)

text \<open>
  This is what the unit of work of the earlier theory does to the graph around a body that only
  touches the graph.
\<close>

lemma atomically_is_with_uow:
  assumes w: "idle w" and g: "graph w = svc_graph s"
  shows "fst (with_uow (on_graph m) w) = fst (atomically (store_op m) s) \<and>
    graph (snd (with_uow (on_graph m) w)) = svc_graph (snd (atomically (store_op m) s))"
proof -
  obtain r h where run: "m (svc_graph s) = (r, h)" by fastforce
  have enter: "graph (uow_enter w) = svc_graph s" "uow (uow_enter w) = Some \<lparr>uow_depth = 1, uow_rollback_only = False\<rparr>"
    using w g by (simp_all add: uow_enter_def txn_enter_def idle_def)
  have "on_graph m (uow_enter w) = (r, (uow_enter w)\<lparr>graph := h\<rparr>)"
    using run enter(1) by (simp add: on_graph_def)
  from with_uow_outer [OF balanced_on_graph w this] enter(2) run g show ?thesis
    by (cases r) (auto simp: op_defs atomically_apply)
qed

text \<open>What an operation that returns has done, step by step.\<close>

lemma store_op_Inr: "store_op m s = (Inr a, t) \<longleftrightarrow> (\<exists>g. m (svc_graph s) = (Inr a, g) \<and> t = s\<lparr>svc_graph := g\<rparr>)"
  by (auto simp: store_op_apply split: prod.split)

lemma reads_Inr: "reads f s = (Inr a, t) \<longleftrightarrow> f (svc_graph s) = Inr a \<and> t = s"
  by (auto simp: reads_apply)

lemma coll_item_Inr: "coll_item c i g = Inr m \<longleftrightarrow> coll_get c i g = Some m"
  by (simp add: coll_item_def split: option.split)

lemma writes_Inr: "writes f s = (Inr u, t) \<longleftrightarrow> t = s\<lparr>svc_graph := f (svc_graph s)\<rparr>"
  by (auto simp: writes_apply)

lemma ret_Inr: "ret a s = (Inr b, t) \<longleftrightarrow> a = b \<and> t = s"
  by (auto simp: ret_apply)

lemma require_Inr: "require b e s = (Inr u, t) \<longleftrightarrow> b \<and> t = s"
  by (auto simp: require_apply)

lemmas run_iffs = bindE_Inr_iff store_op_Inr reads_Inr coll_item_Inr writes_Inr ret_Inr require_Inr

text \<open>A property of the graph that every write keeps is kept by an operation of the service.\<close>

definition graph_keeps :: "(node_value graph \<Rightarrow> bool) \<Rightarrow> ('z svc_scheme, 'a) op \<Rightarrow> bool" where
  "graph_keeps P m \<longleftrightarrow> op_keeps (\<lambda>s. P (svc_graph s)) m"

named_theorems graph_keeps_intros \<open>rules that show a service operation keeps a property of the graph\<close>

lemma graph_keepsD: "graph_keeps P m \<Longrightarrow> m s = (r, t) \<Longrightarrow> P (svc_graph s) \<Longrightarrow> P (svc_graph t)"
  unfolding graph_keeps_def by (rule op_keepsD)

lemma graph_keeps_pure [graph_keeps_intros]:
  "graph_keeps P (ret a)" "graph_keeps P (raise e)" "graph_keeps P now_utc" "graph_keeps P new_uuid"
  "graph_keeps P (asks f)" "graph_keeps P (reads h)" "graph_keeps P (require b e)" "graph_keeps P (lift_result r)"
  "graph_keeps P get_state"
  by (simp_all add: graph_keeps_def op_keeps_def op_defs)

lemma graph_keeps_writes: "(\<And>g. P g \<Longrightarrow> P (f g)) \<Longrightarrow> graph_keeps P (writes f)"
  by (simp add: graph_keeps_def op_keeps_def op_defs)

lemma graph_keeps_store_op: "(\<And>g r g'. P g \<Longrightarrow> m g = (r, g') \<Longrightarrow> P g') \<Longrightarrow> graph_keeps P (store_op m)"
  by (auto simp: graph_keeps_def op_keeps_def op_defs split: prod.splits)

lemma graph_keeps_bindE [graph_keeps_intros]:
  "graph_keeps P m \<Longrightarrow> (\<And>a. graph_keeps P (k a)) \<Longrightarrow> graph_keeps P (bindE m k)"
  unfolding graph_keeps_def by (rule op_keeps_bindE)

lemma graph_keeps_for_each [graph_keeps_intros]:
  "(\<And>x. graph_keeps P (f x)) \<Longrightarrow> graph_keeps P (for_each f xs)"
  unfolding graph_keeps_def by (rule op_keeps_for_each)

lemma graph_keeps_atomically [graph_keeps_intros]: "graph_keeps P m \<Longrightarrow> graph_keeps P (atomically m)"
  unfolding graph_keeps_def op_keeps_def atomically_def
  by (fastforce split: prod.splits sum.splits)

text \<open>Mapping an operation over a list.\<close>

fun map_op :: "('b \<Rightarrow> ('s, 'a) op) \<Rightarrow> 'b list \<Rightarrow> ('s, 'a list) op" where
  "map_op f [] = ret []"
| "map_op f (x # xs) = bindE (f x) (\<lambda>y. bindE (map_op f xs) (\<lambda>ys. ret (y # ys)))"

lemma graph_keeps_map_op [graph_keeps_intros]:
  "(\<And>x. graph_keeps P (f x)) \<Longrightarrow> graph_keeps P (map_op f xs)"
  by (induction xs) (auto intro!: graph_keeps_intros)

section \<open>Invariants with results\<close>

text \<open>
  \<open>establishes I m Q\<close>: from a graph where \<open>I\<close> holds, \<open>m\<close> leaves one where \<open>I\<close> holds, also when
  it raises, and a result it returns satisfies \<open>Q\<close>. The rules follow the shape of the
  operations.
\<close>

definition establishes ::
  "(node_value graph \<Rightarrow> bool) \<Rightarrow> ('z svc_scheme, 'a) op \<Rightarrow> ('a \<Rightarrow> bool) \<Rightarrow> bool" where
  "establishes I m Q \<longleftrightarrow>
     (\<forall>s. I (svc_graph s) \<longrightarrow> I (svc_graph (snd (m s))) \<and> (\<forall>a. fst (m s) = Inr a \<longrightarrow> Q a))"

named_theorems est_intros \<open>rules for what an operation establishes\<close>

lemma establishesD:
  "establishes I m Q \<Longrightarrow> m s = (r, t) \<Longrightarrow> I (svc_graph s) \<Longrightarrow> I (svc_graph t) \<and> (\<forall>a. r = Inr a \<longrightarrow> Q a)"
  unfolding establishes_def by (metis fst_conv snd_conv)

lemma est_weaken: "establishes I m Q \<Longrightarrow> (\<And>a. Q a \<Longrightarrow> R a) \<Longrightarrow> establishes I m R"
  by (simp add: establishes_def)

lemma est_bindE [est_intros]:
  assumes "establishes I m Q" and "\<And>a. Q a \<Longrightarrow> establishes I (k a) R"
  shows "establishes I (bindE m k) R"
  using assms by (fastforce simp: establishes_def bindE_def split: prod.splits sum.splits)

lemma est_ret [est_intros]: "Q a \<Longrightarrow> establishes I (ret a) Q"
  by (simp add: establishes_def op_defs)

lemma est_raise [est_intros]: "establishes I (raise e) Q"
  by (simp add: establishes_def op_defs)

lemma est_now_utc [est_intros]: "establishes I now_utc (\<lambda>_. True)"
  by (simp add: establishes_def op_defs)

lemma est_new_uuid [est_intros]: "establishes I new_uuid (\<lambda>_. True)"
  by (simp add: establishes_def op_defs)

lemma est_lift_result: "(\<And>a. r = Inr a \<Longrightarrow> Q a) \<Longrightarrow> establishes I (lift_result r) Q"
  by (simp add: establishes_def op_defs)

lemma est_require [est_intros]: "establishes I (require b e) (\<lambda>_. b)"
  by (simp add: establishes_def op_defs)

lemma est_asks: "(\<And>g. I g \<Longrightarrow> Q (f g)) \<Longrightarrow> establishes I (asks f) Q"
  by (simp add: establishes_def op_defs)

lemma est_reads: "(\<And>g a. I g \<Longrightarrow> f g = Inr a \<Longrightarrow> Q a) \<Longrightarrow> establishes I (reads f) Q"
  by (simp add: establishes_def op_defs)

lemma est_writes: "(\<And>g. I g \<Longrightarrow> I (f g)) \<Longrightarrow> establishes I (writes f) (\<lambda>_. True)"
  by (simp add: establishes_def op_defs)

lemma est_store_op:
  "(\<And>g r g'. I g \<Longrightarrow> m g = (r, g') \<Longrightarrow> I g' \<and> (\<forall>a. r = Inr a \<longrightarrow> Q a)) \<Longrightarrow> establishes I (store_op m) Q"
  by (auto simp: establishes_def op_defs split: prod.splits)

lemma est_atomically [est_intros]:
  assumes "establishes I m Q" shows "establishes I (atomically m) Q"
  unfolding establishes_def
proof (intro allI impI)
  fix s :: "'a svc_scheme"
  assume "I (svc_graph s)"
  with assms have "I (svc_graph (snd (m s))) \<and> (\<forall>a. fst (m s) = Inr a \<longrightarrow> Q a)" by (simp add: establishes_def)
  with \<open>I (svc_graph s)\<close>
  show "I (svc_graph (snd (atomically m s))) \<and> (\<forall>a. fst (atomically m s) = Inr a \<longrightarrow> Q a)"
    by (cases "m s"; cases "fst (m s)") (auto simp: atomically_apply)
qed

lemma est_if: "(b \<Longrightarrow> establishes I m Q) \<Longrightarrow> (\<not> b \<Longrightarrow> establishes I n Q) \<Longrightarrow> establishes I (if b then m else n) Q"
  by simp

lemma est_map_op:
  assumes "\<And>x. x \<in> set xs \<Longrightarrow> establishes I (f x) Q"
  shows "establishes I (map_op f xs) (\<lambda>ys. list_all Q ys)"
  using assms
proof (induction xs)
  case Nil
  then show ?case by (auto intro!: est_intros)
next
  case (Cons x xs)
  then have "establishes I (f x) Q" "establishes I (map_op f xs) (\<lambda>ys. list_all Q ys)" by auto
  then show ?case by (auto intro!: est_bindE [where Q = Q] est_bindE [where Q = "\<lambda>ys. list_all Q ys"] est_ret)
qed

lemma est_for_each:
  assumes "\<And>x. x \<in> set xs \<Longrightarrow> establishes I (f x) (\<lambda>_. True)"
  shows "establishes I (for_each f xs) (\<lambda>_. True)"
  using assms by (induction xs) (auto intro!: est_intros est_bindE)

lemma est_True: "establishes I m Q \<Longrightarrow> establishes I m (\<lambda>_. True)"
  by (simp add: establishes_def)

end
