(* ===== verification/Repositories.thy ===== *)
theory Repositories
  imports Service_World
begin

text \<open>
  The typed repositories of \<^verbatim>\<open>graph/repositories.py\<close>: each method as a function of the graph
  (or an operation where it can raise). Saving and reading go through the record collections;
  the active-revision pointers go through the compare-and-swap of the store.
\<close>

section \<open>Applications, Systems, Experiences\<close>

definition root_ref :: node_ref where
  "root_ref = id_ref ''N4XRoot'' ''n4x''"

definition application_list_revisions :: "string \<Rightarrow> node_value graph \<Rightarrow> application_revision list" where
  "application_list_revisions aid g = filter (\<lambda>r. rev_application_id r = aid) (coll_values revisions_coll g)"

definition application_attach_revision :: "string \<Rightarrow> string \<Rightarrow> node_value graph \<Rightarrow> node_value graph" where
  "application_attach_revision aid rid =
     create_edge (id_ref ''Application'' aid) ''HAS_REVISION'' (id_ref ''ApplicationRevision'' rid) []"

definition application_attach_to_root :: "string \<Rightarrow> node_value graph \<Rightarrow> node_value graph" where
  "application_attach_to_root aid = create_edge root_ref ''HAS_APPLICATION'' (id_ref ''Application'' aid) []"

definition application_replace_active_revision ::
  "string \<Rightarrow> string \<Rightarrow> string option \<Rightarrow> (node_value graph, unit) op" where
  "application_replace_active_revision aid rid expected =
     move_pointer (id_ref ''Application'' aid) ''ACTIVE_REVISION'' (id_ref ''ApplicationRevision'' rid)
       (map_option (id_ref ''ApplicationRevision'') expected)"

definition system_list_revisions :: "string \<Rightarrow> node_value graph \<Rightarrow> system_revision list" where
  "system_list_revisions sid g = filter (\<lambda>r. sysrev_system_id r = sid) (coll_values system_revisions_coll g)"

definition system_attach_to_root :: "string \<Rightarrow> node_value graph \<Rightarrow> node_value graph" where
  "system_attach_to_root sid = create_edge root_ref ''HAS_SYSTEM'' (id_ref ''System'' sid) []"

definition system_attach_revision :: "string \<Rightarrow> string \<Rightarrow> node_value graph \<Rightarrow> node_value graph" where
  "system_attach_revision sid rid =
     create_edge (id_ref ''System'' sid) ''HAS_REVISION'' (id_ref ''SystemRevision'' rid) []"

definition system_replace_active_revision ::
  "string \<Rightarrow> string \<Rightarrow> string option \<Rightarrow> (node_value graph, unit) op" where
  "system_replace_active_revision sid rid expected =
     move_pointer (id_ref ''System'' sid) ''ACTIVE_REVISION'' (id_ref ''SystemRevision'' rid)
       (map_option (id_ref ''SystemRevision'') expected)"

definition experience_list_revisions :: "string \<Rightarrow> node_value graph \<Rightarrow> experience_revision list" where
  "experience_list_revisions eid g =
     filter (\<lambda>r. exprev_experience_id r = eid) (coll_values experience_revisions_coll g)"

definition experience_attach_to_root :: "string \<Rightarrow> node_value graph \<Rightarrow> node_value graph" where
  "experience_attach_to_root eid = create_edge root_ref ''HAS_EXPERIENCE'' (id_ref ''Experience'' eid) []"

definition experience_attach_revision :: "string \<Rightarrow> string \<Rightarrow> node_value graph \<Rightarrow> node_value graph" where
  "experience_attach_revision eid rid =
     create_edge (id_ref ''Experience'' eid) ''HAS_REVISION'' (id_ref ''ExperienceRevision'' rid) []"

definition experience_replace_active_revision ::
  "string \<Rightarrow> string \<Rightarrow> string option \<Rightarrow> (node_value graph, unit) op" where
  "experience_replace_active_revision eid rid expected =
     move_pointer (id_ref ''Experience'' eid) ''ACTIVE_REVISION'' (id_ref ''ExperienceRevision'' rid)
       (map_option (id_ref ''ExperienceRevision'') expected)"

definition experience_clear_active_revision ::
  "string \<Rightarrow> string option \<Rightarrow> (node_value graph, unit) op" where
  "experience_clear_active_revision eid expected =
     clear_single_edge (id_ref ''Experience'' eid) ''ACTIVE_REVISION''
       (map_option (id_ref ''ExperienceRevision'') expected)"

section \<open>Definitions\<close>

definition definition_labels :: "string list" where
  "definition_labels =
     [''ObjectType'', ''ObjectTypeRevision'', ''RelationType'', ''RelationTypeRevision'', ''Action'',
      ''ActionRevision'', ''Trigger'', ''TriggerRevision'', ''TestCase'', ''RuntimeDependency'',
      ''ValidationReport'']"

definition validate_label :: "string \<Rightarrow> exn + unit" where
  "validate_label l =
     (if l \<in> set definition_labels then Inr ()
      else Inl (ValueError (''unsupported definition label: '' @ l)))"

definition definition_save :: "string \<Rightarrow> node_value \<Rightarrow> (node_value graph, unit) op" where
  "definition_save l v =
     bindE (lift_result (validate_label l)) (\<lambda>_. modify (upsert_node l (key (ref_id (NodeRef l (node_identity v)))) v))"

definition definition_get :: "string \<Rightarrow> string \<Rightarrow> node_value graph \<Rightarrow> exn + node_value option" where
  "definition_get l i g = rbind (validate_label l) (\<lambda>_. Inr (get_node l (key i) g))"

definition definition_list :: "string \<Rightarrow> (node_value \<Rightarrow> bool) \<Rightarrow> node_value graph \<Rightarrow> exn + node_value list" where
  "definition_list l keep g = rbind (validate_label l) (\<lambda>_. Inr (list_nodes l keep g))"

definition definition_delete :: "string \<Rightarrow> string \<Rightarrow> (node_value graph, unit) op" where
  "definition_delete l i = bindE (lift_result (validate_label l)) (\<lambda>_. modify (delete_node l (key i)))"

definition definition_add_revision ::
  "string \<Rightarrow> string \<Rightarrow> string \<Rightarrow> string \<Rightarrow> (node_value graph, unit) op" where
  "definition_add_revision stable_label sid rev_label rid =
     bindE (lift_result (validate_label stable_label)) (\<lambda>_.
     bindE (lift_result (validate_label rev_label)) (\<lambda>_.
     modify (create_edge (id_ref stable_label sid) ''HAS_REVISION'' (id_ref rev_label rid) [])))"

definition definition_replace_active ::
  "string \<Rightarrow> string \<Rightarrow> string \<Rightarrow> string \<Rightarrow> string option \<Rightarrow> (node_value graph, unit) op" where
  "definition_replace_active stable_label sid rev_label rid expected =
     bindE (lift_result (validate_label stable_label)) (\<lambda>_.
     bindE (lift_result (validate_label rev_label)) (\<lambda>_.
     move_pointer (id_ref stable_label sid) ''ACTIVE_REVISION'' (id_ref rev_label rid)
       (map_option (id_ref rev_label) expected)))"

section \<open>Objects and relations\<close>

definition object_key :: "string \<Rightarrow> string \<Rightarrow> string \<Rightarrow> ident" where
  "object_key app space i = [(''application_id'', app), (''data_space_id'', space), (''id'', i)]"

definition object_save :: "application_object \<Rightarrow> node_value graph \<Rightarrow> node_value graph" where
  "object_save r = coll_save objects_coll r"

definition object_get :: "string \<Rightarrow> string \<Rightarrow> string \<Rightarrow> node_value graph \<Rightarrow> application_object option" where
  "object_get app i space g = coll_get objects_coll (object_key app space i) g"

definition object_list ::
  "string \<Rightarrow> string option \<Rightarrow> string \<Rightarrow> node_value graph \<Rightarrow> application_object list" where
  "object_list app otype space g =
     filter (\<lambda>r. obj_application_id r = app \<and> obj_data_space_id r = space \<and>
         (otype = None \<or> otype = Some (obj_object_type_id r)))
       (coll_values objects_coll g)"

definition object_delete :: "string \<Rightarrow> string \<Rightarrow> string \<Rightarrow> node_value graph \<Rightarrow> node_value graph" where
  "object_delete app i space g = delete_node ''ApplicationObject'' (object_key app space i) g"

text \<open>\<^verbatim>\<open>a or b\<close> on optional strings: the empty string is false.\<close>

definition or_else :: "string option \<Rightarrow> string option \<Rightarrow> string option" where
  "or_else a b = (if a = None \<or> a = Some [] then b else a)"

definition object_attach :: "application_object \<Rightarrow> string option \<Rightarrow> node_value graph \<Rightarrow> node_value graph" where
  "object_attach r revision g =
     (let ref = NodeRef ''ApplicationObject''
            (object_key (obj_application_id r) (obj_data_space_id r) (obj_id r));
          g1 = create_edge
            (NodeRef ''DataSpace'' [(''application_id'', obj_application_id r), (''id'', obj_data_space_id r)])
            ''OWNS_OBJECT'' ref [] g;
          g2 = create_edge ref ''INSTANCE_OF'' (id_ref ''ObjectType'' (obj_object_type_id r)) [] g1
      in case or_else revision (obj_object_type_revision_id r) of
           None \<Rightarrow> g2
         | Some rid \<Rightarrow> create_edge ref ''CONFORMS_TO'' (id_ref ''ObjectTypeRevision'' rid) [] g2)"

definition relation_save :: "app_relation \<Rightarrow> (node_value graph, unit) op" where
  "relation_save r = create_app_relation r"

definition relation_get :: "string \<Rightarrow> string \<Rightarrow> string \<Rightarrow> node_value graph \<Rightarrow> app_relation option" where
  "relation_get app i space g = get_app_relation app space i g"

definition relation_list ::
  "string \<Rightarrow> string option \<Rightarrow> string option \<Rightarrow> string option \<Rightarrow> string \<Rightarrow> node_value graph \<Rightarrow> app_relation list" where
  "relation_list app rtype from_id to_id space g = list_app_relations app rtype from_id to_id space g"

definition relation_list_all :: "node_value graph \<Rightarrow> app_relation list" where
  "relation_list_all g = list_all_app_relations g"

definition relation_delete :: "app_relation \<Rightarrow> node_value graph \<Rightarrow> node_value graph" where
  "relation_delete r = delete_app_relation r"

definition relation_create_structural ::
  "node_ref \<Rightarrow> string \<Rightarrow> node_ref \<Rightarrow> (string, json) dict \<Rightarrow> node_value graph \<Rightarrow> node_value graph" where
  "relation_create_structural f t to props = create_edge f t to props"

definition relation_delete_structural ::
  "node_ref \<Rightarrow> string \<Rightarrow> node_ref option \<Rightarrow> node_value graph \<Rightarrow> node_value graph" where
  "relation_delete_structural f t to = delete_edge f t to None"

section \<open>Jobs and artifacts\<close>

definition job_list :: "string \<Rightarrow> job_status option \<Rightarrow> node_value graph \<Rightarrow> job_record list" where
  "job_list app st g =
     filter (\<lambda>j. job_application_id j = app \<and> (st = None \<or> st = Some (job_status j)))
       (coll_values job_records_coll g)"

definition job_list_attempts :: "string \<Rightarrow> node_value graph \<Rightarrow> job_attempt list" where
  "job_list_attempts jid g = filter (\<lambda>a. att_job_id a = jid) (coll_values job_attempts_coll g)"

definition due_retries :: "int \<Rightarrow> node_value graph \<Rightarrow> job_record list" where
  "due_retries now g =
     filter (\<lambda>j. job_status j = Job_retry_wait \<and>
         (case job_next_retry_at j of None \<Rightarrow> False | Some t \<Rightarrow> t \<le> now))
       (coll_values job_records_coll g)"

definition expired_leases :: "int \<Rightarrow> node_value graph \<Rightarrow> job_record list" where
  "expired_leases now g =
     filter (\<lambda>j. job_status j \<in> {Job_leased, Job_running} \<and>
         (case job_lease_expires_at j of None \<Rightarrow> False | Some t \<Rightarrow> t \<le> now))
       (coll_values job_records_coll g)"

definition artifact_list :: "string \<Rightarrow> revision_owner_kind \<Rightarrow> node_value graph \<Rightarrow> build_artifact list" where
  "artifact_list owner kind g =
     filter (\<lambda>a. art_owner_kind a = kind \<and> art_owner_id a = owner) (coll_values build_artifacts_coll g)"

section \<open>Laws\<close>

text \<open>The active pointer of an Application moves only from the revision the caller expects.\<close>

lemma application_cas:
  "fst (application_replace_active_revision aid rid expected g) = Inr () \<longleftrightarrow>
     edge_targets g (id_ref ''Application'' aid) ''ACTIVE_REVISION'' =
     (case expected of None \<Rightarrow> [] | Some e \<Rightarrow> [id_ref ''ApplicationRevision'' e])"
  unfolding application_replace_active_revision_def
  by (subst pointers.move_outcome) (auto split: option.splits)

lemma experience_cas:
  "fst (experience_replace_active_revision eid rid expected g) = Inr () \<longleftrightarrow>
     edge_targets g (id_ref ''Experience'' eid) ''ACTIVE_REVISION'' =
     (case expected of None \<Rightarrow> [] | Some e \<Rightarrow> [id_ref ''ExperienceRevision'' e])"
  unfolding experience_replace_active_revision_def
  by (subst pointers.move_outcome) (auto split: option.splits)

text \<open>A job is never due for a retry and holding an expired lease at once.\<close>

lemma due_not_expired: "j \<in> set (due_retries now g) \<Longrightarrow> j \<notin> set (expired_leases now' g)"
  by (auto simp: due_retries_def expired_leases_def)

lemma object_get_delete:
  "object_get app i space (object_delete app' i' space' g) =
     (if app = app' \<and> i = i' \<and> space = space' then None else object_get app i space g)"
proof -
  have "object_delete app' i' space' g = coll_delete objects_coll (object_key app' space' i') g"
    by (simp add: object_delete_def coll_delete_def objects_coll_def)
  then show ?thesis by (auto simp: object_get_def objects.get_delete object_key_def)
qed

end
