(* ===== verification/Intern_GC.thy ===== *)
theory Intern_GC
  imports Record_Collections
begin

text \<open>
  Collection of interned nodes, \<^verbatim>\<open>graph/intern_gc.py\<close>: interned trees, blobs and declarations
  that no remaining revision or in-flight record pins are deleted, round after round, until a
  round finds none. The loop is modelled with fuel; a graph with \<open>n\<close> nodes needs at most \<open>n + 1\<close>
  rounds, since every round deletes a node.
\<close>

definition interned_labels :: "string list" where
  "interned_labels =
     [''SourceTree'', ''SourceContent'', ''ActionRevision'', ''ObjectTypeRevision'',
      ''RelationTypeRevision'', ''TriggerRevision'', ''TestCase'', ''RuntimeDependency'',
      ''ExperienceSurface'']"

definition keeper_labels :: "string list" where
  "keeper_labels = [''ApplicationRevision'', ''ExperienceRevision'', ''SystemRevision'', ''SourceTree'']"

text \<open>\<^verbatim>\<open>item.id\<close> of every record of an interned collection.\<close>

definition item_id :: "node_value \<Rightarrow> string" where
  "item_id v = ref_id (NodeRef (node_label v) (node_identity v))"

definition interned_ids :: "string \<Rightarrow> node_value graph \<Rightarrow> string list" where
  "interned_ids label g = map item_id (list_nodes label (\<lambda>_. True) g)"

definition pinned_action_revision_ids :: "node_value graph \<Rightarrow> string list" where
  "pinned_action_revision_ids g =
     filter (\<lambda>i. i \<noteq> [])
       (map route_target_action_revision_id (coll_values callback_routes_coll g) @
        map inv_action_revision_id (coll_values invocations_coll g) @
        map job_action_revision_id (coll_values job_records_coll g))"

definition has_keeper :: "node_value graph \<Rightarrow> string \<Rightarrow> string \<Rightarrow> bool" where
  "has_keeper g label i \<longleftrightarrow>
     list_ex (\<lambda>e. ref_label (edge_from e) \<in> set keeper_labels) (list_edges None None (Some (id_ref label i)) g)"

definition orphans :: "node_value graph \<Rightarrow> (string \<times> string) list" where
  "orphans g =
     concat (map (\<lambda>label.
       map (Pair label)
         (filter (\<lambda>i. \<not> has_keeper g label i \<and>
             \<not> (label = ''ActionRevision'' \<and> i \<in> set (pinned_action_revision_ids g)))
           (interned_ids label g)))
       interned_labels)"

definition delete_batch :: "(string \<times> string) list \<Rightarrow> node_value graph \<Rightarrow> node_value graph" where
  "delete_batch batch g = fold (\<lambda>li. delete_node (fst li) (key (snd li))) batch g"

text \<open>\<^verbatim>\<open>deleted.setdefault(label, []).append(record_id)\<close>.\<close>

definition note_deleted ::
  "(string \<times> string) list \<Rightarrow> (string, string list) dict \<Rightarrow> (string, string list) dict" where
  "note_deleted batch d =
     fold (\<lambda>li d. dict_set (fst li)
        ((case dict_get d (fst li) of None \<Rightarrow> [] | Some is \<Rightarrow> is) @ [snd li]) d) batch d"

fun gc_loop ::
  "nat \<Rightarrow> (string, string list) dict \<Rightarrow> (node_value graph, (string, string list) dict) op" where
  "gc_loop 0 deleted g = (Inl DoesNotReturn, g)"
| "gc_loop (Suc fuel) deleted g =
     (let batch = orphans g in
      if batch = [] then (Inr deleted, g)
      else gc_loop fuel (note_deleted batch deleted) (delete_batch batch g))"

definition delete_interned_orphans :: "(node_value graph, (string, string list) dict) op" where
  "delete_interned_orphans g = gc_loop (Suc (node_count g)) [] g"

section \<open>Each round shrinks the graph\<close>

lemma in_orphans_iff:
  "(l, i) \<in> set (orphans g) \<longleftrightarrow> l \<in> set interned_labels \<and> i \<in> set (interned_ids l g) \<and>
     \<not> has_keeper g l i \<and> \<not> (l = ''ActionRevision'' \<and> i \<in> set (pinned_action_revision_ids g))"
  by (auto simp: orphans_def)

lemma interned_identity:
  "node_label v \<in> set interned_labels \<Longrightarrow> node_identity v = key (item_id v)"
  by (cases v) (simp_all add: interned_labels_def item_id_def ref_id_def key_def)

lemma interned_present:
  assumes "typed_graph g" and "l \<in> set interned_labels"
  shows "i \<in> set (interned_ids l g) \<longleftrightarrow> (l, key i) \<in> fst ` set (nodes g)"
proof -
  have "fst n = (l, key (item_id (snd n)))" if "n \<in> set (nodes g)" "fst (fst n) = l" for n
    using assms that interned_identity [of "snd n"] by (auto simp: typed_graph_def list_all_iff)
  then show ?thesis
    by (auto simp: interned_ids_def list_nodes_def image_iff) (metis fst_conv key_inject prod.inject)+
qed

lemma nodes_delete_node: "nodes (delete_node l i g) = dict_pop (l, i) (nodes g)"
  by (simp add: delete_node_def Let_def)

lemma length_delete_batch: "length (nodes (delete_batch batch g)) \<le> length (nodes g)"
proof (induction batch arbitrary: g)
  case Nil
  then show ?case by (simp add: delete_batch_def)
next
  case (Cons li batch)
  have "length (nodes (delete_batch batch (delete_node (fst li) (key (snd li)) g)))
      \<le> length (nodes (delete_node (fst li) (key (snd li)) g))" by (rule Cons.IH)
  also have "\<dots> \<le> length (nodes g)"
    by (simp add: nodes_delete_node length_delete_le)
  finally show ?case by (simp add: delete_batch_def)
qed

lemma length_dict_pop: "k \<in> fst ` set d \<Longrightarrow> length (dict_pop k d) < length d"
  by (induction d) (fastforce simp: less_Suc_eq_le length_delete_le)+

lemma batch_shrinks:
  assumes "typed_graph g" and "orphans g \<noteq> []"
  shows "node_count (delete_batch (orphans g) g) < node_count g"
proof -
  obtain l i rest where o: "orphans g = (l, i) # rest"
    using assms(2) by (cases "orphans g") auto
  then have "l \<in> set interned_labels" "i \<in> set (interned_ids l g)"
    using in_orphans_iff [of l i g] by auto
  then have "(l, key i) \<in> fst ` set (nodes g)"
    using interned_present [OF assms(1)] by blast
  then have "length (nodes (delete_node l (key i) g)) < length (nodes g)"
    by (simp add: nodes_delete_node length_dict_pop)
  moreover have "delete_batch (orphans g) g = delete_batch rest (delete_node l (key i) g)"
    by (simp add: o delete_batch_def)
  ultimately show ?thesis
    using length_delete_batch [of rest "delete_node l (key i) g"] by (simp add: node_count_def)
qed

lemma delete_batch_keeps:
  assumes "\<And>l i g. P g \<Longrightarrow> P (delete_node l i g)" and "P g"
  shows "P (delete_batch batch g)"
  using assms(2) unfolding delete_batch_def
  by (induction batch arbitrary: g) (auto intro: assms(1))

lemma gc_loop_keeps:
  assumes "\<And>l i g. P g \<Longrightarrow> P (delete_node l i g)" and "P g"
  shows "P (snd (gc_loop fuel d g))"
  using assms(2)
proof (induction fuel arbitrary: d g)
  case 0
  then show ?case by simp
next
  case (Suc fuel)
  then show ?case
    using delete_batch_keeps [of P, OF assms(1)] by (auto simp: Let_def)
qed

lemma gc_loop_returns:
  assumes "typed_graph g" and "node_count g < fuel"
  shows "\<exists>d'. fst (gc_loop fuel d g) = Inr d' \<and> orphans (snd (gc_loop fuel d g)) = []"
  using assms
proof (induction fuel arbitrary: d g)
  case 0
  then show ?case by simp
next
  case (Suc fuel)
  show ?case
  proof (cases "orphans g = []")
    case True
    then show ?thesis by simp
  next
    case False
    have "typed_graph (delete_batch (orphans g) g)"
      by (rule delete_batch_keeps [of typed_graph, OF typed_delete_node Suc.prems(1)])
    moreover have "node_count (delete_batch (orphans g) g) < fuel"
      using batch_shrinks [OF Suc.prems(1) False] Suc.prems(2) by simp
    ultimately show ?thesis using Suc.IH False by (auto simp: Let_def)
  qed
qed

section \<open>Exactly the unreachable interned nodes go\<close>

text \<open>
  A reference is live if a chain of edges leads to it from a revision through source trees, or
  if an in-flight record pins it.
\<close>

inductive live :: "node_value graph \<Rightarrow> node_ref \<Rightarrow> bool" for g where
  from_revision: "e \<in> set (edges g) \<Longrightarrow>
     ref_label (edge_from e) \<in> {''ApplicationRevision'', ''ExperienceRevision'', ''SystemRevision''} \<Longrightarrow>
     live g (edge_to e)"
| from_tree: "e \<in> set (edges g) \<Longrightarrow> ref_label (edge_from e) = ''SourceTree'' \<Longrightarrow>
     live g (edge_from e) \<Longrightarrow> live g (edge_to e)"
| pinned: "i \<in> set (pinned_action_revision_ids g) \<Longrightarrow> live g (id_ref ''ActionRevision'' i)"

lemma has_keeper_iff:
  "has_keeper g l i \<longleftrightarrow>
     (\<exists>e\<in>set (edges g). edge_to e = id_ref l i \<and> ref_label (edge_from e) \<in> set keeper_labels)"
  by (auto simp: has_keeper_def list_edges_def matches_edge_def list_ex_iff)

lemma live_kept:
  assumes "live g (id_ref l i)"
  shows "(l, i) \<notin> set (orphans g)"
  using assms by (cases rule: live.cases) (auto simp: in_orphans_iff has_keeper_iff keeper_labels_def)

text \<open>
  What a collection leaves: the nodes outside a set of references, and the edges that touch
  none of them.
\<close>

definition pruned :: "node_ref set \<Rightarrow> node_value graph \<Rightarrow> node_value graph \<Rightarrow> bool" where
  "pruned S g g' \<longleftrightarrow>
     nodes g' = filter (\<lambda>n. NodeRef (fst (fst n)) (snd (fst n)) \<notin> S) (nodes g) \<and>
     edges g' = filter (\<lambda>e. edge_from e \<notin> S \<and> edge_to e \<notin> S) (edges g)"

lemma pruned_refl: "pruned {} g g"
  by (simp add: pruned_def)

lemma pruned_delete_node: "pruned {NodeRef l i} g (delete_node l i g)"
  by (auto simp: pruned_def delete_node_def Let_def AList.delete_eq intro!: filter_cong)

lemma pruned_trans: "pruned S g h \<Longrightarrow> pruned T h k \<Longrightarrow> pruned (S \<union> T) g k"
  by (simp add: pruned_def filter_filter conj_ac)

lemma pruned_batch: "pruned ((\<lambda>li. id_ref (fst li) (snd li)) ` set batch) g (delete_batch batch g)"
proof (induction batch arbitrary: g)
  case Nil
  then show ?case by (simp add: delete_batch_def pruned_refl)
next
  case (Cons li batch)
  from pruned_trans [OF pruned_delete_node Cons.IH, of "fst li" "key (snd li)" g]
  show ?case by (simp add: delete_batch_def id_ref_key)
qed

definition dead_refs :: "node_value graph \<Rightarrow> node_ref set" where
  "dead_refs g = {id_ref l i | l i. l \<in> set interned_labels \<and> (l, key i) \<in> fst ` set (nodes g) \<and>
     \<not> live g (id_ref l i)}"

lemma orphans_dead:
  assumes "typed_graph g"
  shows "(\<lambda>li. id_ref (fst li) (snd li)) ` set (orphans g) \<subseteq> dead_refs g"
proof
  fix r
  assume "r \<in> (\<lambda>li. id_ref (fst li) (snd li)) ` set (orphans g)"
  then obtain l i where li: "(l, i) \<in> set (orphans g)" and r: "r = id_ref l i" by auto
  then have "l \<in> set interned_labels" "i \<in> set (interned_ids l g)"
    by (simp_all add: in_orphans_iff)
  moreover have "\<not> live g (id_ref l i)" using li live_kept by blast
  ultimately show "r \<in> dead_refs g"
    using interned_present [OF assms] r by (auto simp: dead_refs_def)
qed

lemma list_nodes_pruned:
  assumes "pruned S g g'" and "\<forall>r\<in>S. ref_label r \<noteq> l"
  shows "list_nodes l P g' = list_nodes l P g"
proof -
  have "filter (\<lambda>n. fst (fst n) = l) (nodes g') = filter (\<lambda>n. fst (fst n) = l) (nodes g)"
    using assms by (simp add: pruned_def filter_filter) (rule filter_cong, auto)
  then show ?thesis by (simp add: list_nodes_def)
qed

lemma pins_pruned:
  assumes "pruned S g g'" and "\<forall>r\<in>S. ref_label r \<in> set interned_labels"
  shows "pinned_action_revision_ids g' = pinned_action_revision_ids g"
proof -
  have "list_nodes l P g' = list_nodes l P g"
    if "l \<in> {''CallbackRoute'', ''Invocation'', ''JobRecord''}" for l and P :: "node_value \<Rightarrow> bool"
    using assms that by (intro list_nodes_pruned) (auto simp: interned_labels_def)
  then show ?thesis
    by (simp add: pinned_action_revision_ids_def coll_values_def callback_routes_coll_def
        invocations_coll_def job_records_coll_def)
qed

lemma live_pruned:
  assumes "pruned S g g'" and S: "\<forall>r\<in>S. ref_label r \<in> set interned_labels \<and> \<not> live g r"
  shows "live g' r \<longleftrightarrow> live g r"
proof
  have e: "set (edges g') = {e \<in> set (edges g). edge_from e \<notin> S \<and> edge_to e \<notin> S}"
    using assms(1) by (simp add: pruned_def)
  have p: "pinned_action_revision_ids g' = pinned_action_revision_ids g"
    using pins_pruned [OF assms(1)] S by blast
  show "live g r" if "live g' r"
    using that
  proof (induction rule: live.induct)
    case (from_revision e')
    then show ?case using e by (blast intro: live.from_revision)
  next
    case (from_tree e')
    then show ?case using e by (blast intro: live.from_tree)
  next
    case (pinned i)
    then show ?case by (simp add: p live.pinned)
  qed
  show "live g' r" if "live g r"
    using that
  proof (induction rule: live.induct)
    case (from_revision e')
    then have "edge_from e' \<notin> S" using S by (auto simp: interned_labels_def)
    moreover have "edge_to e' \<notin> S" using S live.from_revision [OF from_revision] by blast
    ultimately show ?case using from_revision e by (blast intro: live.from_revision)
  next
    case (from_tree e')
    then have "edge_to e' \<notin> S" using S live.from_tree [OF from_tree(1-3)] by blast
    with from_tree show ?case using e S by (blast intro: live.from_tree)
  next
    case (pinned i)
    then show ?case by (simp add: p live.pinned)
  qed
qed

lemma dead_pruned:
  assumes "pruned S g g'" and "S \<subseteq> dead_refs g"
  shows "dead_refs g' = dead_refs g - S"
proof -
  have S: "\<forall>r\<in>S. ref_label r \<in> set interned_labels \<and> \<not> live g r"
    using assms(2) by (auto simp: dead_refs_def)
  have "(l, i) \<in> fst ` set (nodes g') \<longleftrightarrow> (l, i) \<in> fst ` set (nodes g) \<and> NodeRef l i \<notin> S" for l i
    using assms(1) by (force simp: pruned_def)
  then show ?thesis
    by (auto simp: dead_refs_def live_pruned [OF assms(1) S] id_ref_key)
qed

text \<open>
  The shape of stores the source operations produce: no source tree points at a source tree,
  and an edge leaves a source tree only while the tree exists.
\<close>

definition trees_anchored :: "node_value graph \<Rightarrow> bool" where
  "trees_anchored g \<longleftrightarrow> (\<forall>e\<in>set (edges g). ref_label (edge_from e) = ''SourceTree'' \<longrightarrow>
     ref_label (edge_to e) \<noteq> ''SourceTree'' \<and>
     (\<exists>i. edge_from e = id_ref ''SourceTree'' i \<and> (''SourceTree'', key i) \<in> fst ` set (nodes g)))"

lemma trees_anchored_pruned:
  assumes "trees_anchored g" and "pruned S g g'"
  shows "trees_anchored g'"
  using assms unfolding trees_anchored_def pruned_def by (force simp: id_ref_key)

lemma no_orphans_no_dead:
  assumes "typed_graph g" and "trees_anchored g" and "orphans g = []"
  shows "dead_refs g = {}"
proof -
  have kept: "\<exists>e\<in>set (edges g). edge_to e = id_ref l i \<and> ref_label (edge_from e) \<in> set keeper_labels"
    if "l \<in> set interned_labels" "(l, key i) \<in> fst ` set (nodes g)" "\<not> live g (id_ref l i)" for l i
    using that assms(3) interned_present [OF assms(1) that(1)] in_orphans_iff [of l i g]
    by (auto simp: has_keeper_iff intro: live.pinned)
  have tree: "live g (id_ref ''SourceTree'' i)" if "(''SourceTree'', key i) \<in> fst ` set (nodes g)" for i
  proof (rule ccontr)
    assume "\<not> live g (id_ref ''SourceTree'' i)"
    with kept [of "''SourceTree''" i] that obtain e where e: "e \<in> set (edges g)"
      "edge_to e = id_ref ''SourceTree'' i" "ref_label (edge_from e) \<in> set keeper_labels"
      by (auto simp: interned_labels_def)
    with assms(2) have "ref_label (edge_from e) \<noteq> ''SourceTree''" by (auto simp: trees_anchored_def)
    with e have "live g (id_ref ''SourceTree'' i)"
      using live.from_revision [of e g] by (auto simp: keeper_labels_def)
    with \<open>\<not> live g (id_ref ''SourceTree'' i)\<close> show False ..
  qed
  show ?thesis
  proof (rule ccontr)
    assume "dead_refs g \<noteq> {}"
    then obtain l i where d: "l \<in> set interned_labels" "(l, key i) \<in> fst ` set (nodes g)"
      "\<not> live g (id_ref l i)" by (auto simp: dead_refs_def)
    from kept [OF this] obtain e where e: "e \<in> set (edges g)" "edge_to e = id_ref l i"
      "ref_label (edge_from e) \<in> set keeper_labels" by blast
    show False
    proof (cases "ref_label (edge_from e) = ''SourceTree''")
      case True
      with e(1) assms(2) obtain j where "edge_from e = id_ref ''SourceTree'' j"
        "(''SourceTree'', key j) \<in> fst ` set (nodes g)" unfolding trees_anchored_def by blast
      with tree have "live g (edge_from e)" by simp
      with True e d(3) show False using live.from_tree [of e g] by auto
    next
      case False
      with e d(3) show False using live.from_revision [of e g] by (auto simp: keeper_labels_def)
    qed
  qed
qed

lemma gc_loop_prunes:
  assumes "typed_graph g" and "gc_loop fuel d g = (Inr d', g')"
  shows "\<exists>S \<subseteq> dead_refs g. pruned S g g'"
  using assms
proof (induction fuel arbitrary: d g)
  case 0
  then show ?case by simp
next
  case (Suc fuel)
  show ?case
  proof (cases "orphans g = []")
    case True
    with Suc.prems show ?thesis using pruned_refl by (auto simp: Let_def)
  next
    case False
    let ?h = "delete_batch (orphans g) g"
    let ?S = "(\<lambda>li. id_ref (fst li) (snd li)) ` set (orphans g)"
    have t: "typed_graph ?h"
      by (rule delete_batch_keeps [of typed_graph, OF typed_delete_node Suc.prems(1)])
    have "gc_loop fuel (note_deleted (orphans g) d) ?h = (Inr d', g')"
      using False Suc.prems(2) by (simp add: Let_def)
    from Suc.IH [OF t this] obtain T where T: "T \<subseteq> dead_refs ?h" "pruned T ?h g'" by blast
    have "dead_refs ?h = dead_refs g - ?S"
      by (rule dead_pruned [OF pruned_batch orphans_dead [OF Suc.prems(1)]])
    with T(1) orphans_dead [OF Suc.prems(1)] have "?S \<union> T \<subseteq> dead_refs g" by blast
    moreover have "pruned (?S \<union> T) g g'" by (rule pruned_trans [OF pruned_batch T(2)])
    ultimately show ?thesis by blast
  qed
qed

lemma gc_exact:
  assumes "typed_graph g" and "trees_anchored g"
  shows "\<exists>d g'. delete_interned_orphans g = (Inr d, g') \<and> pruned (dead_refs g) g g' \<and>
    typed_graph g' \<and> trees_anchored g' \<and> dead_refs g' = {}"
proof -
  obtain d g' where run: "delete_interned_orphans g = (Inr d, g')" and o: "orphans g' = []"
  proof -
    have "\<exists>d'. fst (gc_loop (Suc (node_count g)) [] g) = Inr d' \<and>
        orphans (snd (gc_loop (Suc (node_count g)) [] g)) = []"
      by (rule gc_loop_returns [OF assms(1)]) simp
    then show thesis
      using that by (cases "gc_loop (Suc (node_count g)) [] g") (auto simp: delete_interned_orphans_def)
  qed
  have t: "typed_graph g'"
    using gc_loop_keeps [of typed_graph, OF typed_delete_node assms(1)] run
    by (metis delete_interned_orphans_def snd_conv)
  have "gc_loop (Suc (node_count g)) [] g = (Inr d, g')"
    using run by (simp only: delete_interned_orphans_def)
  from gc_loop_prunes [OF assms(1) this] obtain S
    where S: "S \<subseteq> dead_refs g" "pruned S g g'" by blast
  have a: "trees_anchored g'" by (rule trees_anchored_pruned [OF assms(2) S(2)])
  have "dead_refs g' = {}" by (rule no_orphans_no_dead [OF t a o])
  then have "S = dead_refs g" using dead_pruned [OF S(2,1)] S(1) by simp
  with S(2) have "pruned (dead_refs g) g g'" by simp
  with run t a \<open>dead_refs g' = {}\<close> show ?thesis by (intro exI conjI)
qed

text \<open>Well-formedness of the store is kept as well.\<close>

lemma wf_gc: "wf_graph g \<Longrightarrow> wf_graph (snd (delete_interned_orphans g))"
  unfolding delete_interned_orphans_def by (rule gc_loop_keeps [of wf_graph, OF wf_delete_node])

end
