(* ===== verification/Graph_Properties.thy ===== *)
theory Graph_Properties
  imports Repositories Intern_GC Unit_Of_Work
begin

text \<open>
  Properties of the graph layer: transactions and their retry, the active-revision pointers,
  deletion of nodes and relations, well-formedness, and garbage collection.
\<close>

section \<open>Transactions\<close>



text \<open>C2: A failure inside a nested unit of work cannot be committed by catching it: whatever the
  enclosing block does after swallowing the exception, the outer block raises and the graph is
  restored.\<close>

theorem nested_failure_never_commits:
  assumes n: "balanced n" and k: "balanced k" and w: "idle w"
    and fails: "isl (fst (n (uow_enter (uow_enter w))))"
    and outer: "with_uow (\<lambda>v. k (snd (with_uow n v))) w = (r, w')"
  shows "isl r \<and> graph w' = graph w \<and> idle w'"
proof -
  let ?m = "\<lambda>v. k (snd (with_uow n v))"
  have m: "balanced ?m"
    using balanced_with_uow [OF n] k unfolding balanced_def by (metis prod.collapse)
  have e: "uow (uow_enter w) = Some \<lparr>uow_depth = 1, uow_rollback_only = False\<rparr>"
    using w by (simp add: uow_enter_def idle_def)
  obtain r0 w0 where run: "n (uow_enter (uow_enter w)) = (r0, w0)" by fastforce
  with fails have r0: "isl r0" by simp
  from with_uow_nested [OF n e _ run] r0
  obtain v where v: "snd (with_uow n (uow_enter w)) = v" "uow v = Some \<lparr>uow_depth = 1, uow_rollback_only = True\<rparr>"
    by auto
  obtain r1 w1 where k1: "k v = (r1, w1)" by fastforce
  from balancedD [OF k k1 v(2)] obtain u1 where u1: "uow w1 = Some u1" "uow_rollback_only u1" by auto
  have m1: "?m (uow_enter w) = (r1, w1)" using v k1 by simp
  from with_uow_outer [OF m w m1] u1 outer show ?thesis
    by (cases r1) (auto simp: idle_def)
qed

theorem nested_failure_never_commits_witness:
  "let w = \<lparr>graph = empty_graph :: nat graph, txn = None, uow = None, slept = []\<rparr>;
       n = on_graph (\<lambda>g. (Inl AssertionError :: exn + unit, g));
       k = on_graph (\<lambda>g. (Inr () :: exn + unit, upsert_node ''A'' [] 1 g))
   in isl (fst (with_uow (\<lambda>v. k (snd (with_uow n v))) w)) \<and>
      graph (snd (with_uow (\<lambda>v. k (snd (with_uow n v))) w)) = empty_graph"
proof -
  let ?w = "\<lparr>graph = empty_graph :: nat graph, txn = None, uow = None, slept = []\<rparr>"
  let ?n = "on_graph (\<lambda>g :: nat graph. (Inl AssertionError :: exn + unit, g))"
  let ?k = "on_graph (\<lambda>g. (Inr () :: exn + unit, upsert_node ''A'' [] (1 :: nat) g))"
  have "isl (fst (?n (uow_enter (uow_enter ?w))))" by (simp add: on_graph_def)
  from nested_failure_never_commits [of ?n ?k ?w, OF balanced_on_graph balanced_on_graph _ this prod.collapse [symmetric]]
  show ?thesis by (simp add: idle_def Let_def)
qed

text \<open>After \<open>deadlock_attempts\<close> transient conflicts the decorator gives up.\<close>

lemma deadlock_loop_exhausted:
  assumes "idle w" and "Suc left + a = deadlock_attempts"
    and "\<And>i. i \<le> left \<Longrightarrow> transient_result (fst (f (a + i) (graph w)))"
  shows "\<exists>e. is_transient e \<and> deadlock_loop (Suc left) a (\<lambda>i. on_graph (f i)) w =
    (Inl e :: exn + 'a, w\<lparr>slept := slept w @ map (\<lambda>i. 10 * 2 ^ (a + i)) [0..<left]\<rparr>)"
  using assms
proof (induction left arbitrary: a w)
  case 0
  obtain r g where r: "f a (graph w) = (r, g)" by fastforce
  with 0(3) [of 0] obtain e where "r = Inl e" "is_transient e"
    by (auto simp: transient_result_def split: sum.splits)
  with r 0(1,2) show ?case by (auto simp: with_uow_on_graph)
next
  case (Suc left)
  obtain r g where r: "f a (graph w) = (r, g)" by fastforce
  with Suc.prems(3) [of 0] obtain e where e: "r = Inl e" "is_transient e"
    by (auto simp: transient_result_def split: sum.splits)
  let ?w = "w\<lparr>slept := slept w @ [10 * 2 ^ a]\<rparr>"
  have "\<exists>e. is_transient e \<and> deadlock_loop (Suc left) (Suc a) (\<lambda>i. on_graph (f i)) ?w =
    (Inl e :: exn + 'a, ?w\<lparr>slept := slept ?w @ map (\<lambda>i. 10 * 2 ^ (Suc a + i)) [0..<left]\<rparr>)"
  proof (rule Suc.IH)
    show "transient_result (fst (f (Suc a + i) (graph ?w)))" if "i \<le> left" for i
      using Suc.prems(3) [of "Suc i"] that by simp
  qed (use Suc.prems in \<open>auto simp: idle_def\<close>)
  moreover have "a \<noteq> deadlock_attempts - 1"
    using Suc.prems(2) by (simp add: deadlock_attempts_def)
  moreover have "map (\<lambda>i. 10 * 2 ^ (a + i)) [0..<Suc left] =
      (10 * 2 ^ a :: nat) # map (\<lambda>i. 10 * 2 ^ (Suc a + i)) [0..<left]"
    by (simp add: upt_conv_Cons map_Suc_upt [symmetric] del: map_Suc_upt upt_Suc)
  ultimately show ?case
    using e r Suc.prems(1) by (simp add: with_uow_on_graph del: upt_Suc)
qed

text \<open>C3: A transactional method called outside a unit of work is retried on transient conflicts, at
  most eight attempts, with the back-off 10, 20, 40 ... ms between them. The first attempt that
  does not end in a transient conflict decides: its result is returned, its graph committed, and
  nothing of the earlier attempts is left. If all eight conflict, the conflict is raised after
  seven back-offs and the graph is unchanged.\<close>

theorem transactional_bounded_retry:
  assumes w: "idle w"
    and conflicts: "\<And>i. i < n \<Longrightarrow> transient_result (fst (f i (graph w)))"
    and n: "n \<le> deadlock_attempts"
    and decided: "n < deadlock_attempts \<Longrightarrow> \<not> transient_result (fst (f n (graph w)))"
  shows "if n < deadlock_attempts
    then transactional (\<lambda>i. on_graph (f i)) w =
      (fst (f n (graph w)), w\<lparr>graph := (if isl (fst (f n (graph w))) then graph w else snd (f n (graph w))),
         slept := slept w @ map (\<lambda>i. 10 * 2 ^ i) [0..<n]\<rparr>)
    else \<exists>e. is_transient e \<and> transactional (\<lambda>i. on_graph (f i)) w =
      (Inl e, w\<lparr>slept := slept w @ map (\<lambda>i. 10 * 2 ^ i) [0..<7]\<rparr>)"
proof (cases "n < deadlock_attempts")
  case True
  from deadlock_loop_first [of w deadlock_attempts 0 n f "fst (f n (graph w))" "snd (f n (graph w))"]
  show ?thesis using True assms by (simp add: transactional_def is_active_def idle_def)
next
  case False
  with n have "n = 8" by (simp add: deadlock_attempts_def)
  with deadlock_loop_exhausted [of w 7 0 f] conflicts w show ?thesis
    by (simp add: transactional_def is_active_def idle_def deadlock_attempts_def numeral_eq_Suc)
qed

theorem transactional_bounded_retry_witness:
  "let w = \<lparr>graph = empty_graph :: nat graph, txn = None, uow = None, slept = []\<rparr>;
       f = (\<lambda>i g. if i < 2 then (Inl (TransientGraphConflictError ''x''), g) else (Inr i, upsert_node ''A'' [] i g))
   in transactional (\<lambda>i. on_graph (f i)) w =
      (Inr 2, w\<lparr>graph := upsert_node ''A'' [] 2 empty_graph, slept := [10, 20]\<rparr>)"
proof -
  let ?w = "\<lparr>graph = empty_graph :: nat graph, txn = None, uow = None, slept = []\<rparr>"
  let ?f = "\<lambda>i g. if i < 2 then (Inl (TransientGraphConflictError ''x''), g) else (Inr i :: exn + nat, upsert_node ''A'' [] i g)"
  have "transient_result (fst (?f i (graph ?w)))" if "i < 2" for i using that by (simp add: transient_result_def)
  from transactional_bounded_retry [of ?w 2 ?f, OF _ this] show ?thesis
    by (simp add: idle_def deadlock_attempts_def transient_result_def upt_conv_Cons)
qed

section \<open>Active-revision pointers\<close>

text \<open>Moving an application's active revision is a compare-and-swap. It succeeds exactly when the
  pointer is the expected one, and then points to the new revision and no other pointer of the
  graph moves; otherwise it raises \<open>ConcurrentGraphUpdateError\<close> and changes nothing.\<close>

theorem active_revision_compare_and_swap:
  "let app = id_ref ''Application'' aid; new = id_ref ''ApplicationRevision'' rid;
       out = application_replace_active_revision aid rid expected g
   in if edge_targets g app ''ACTIVE_REVISION'' =
         (case expected of None \<Rightarrow> [] | Some e \<Rightarrow> [id_ref ''ApplicationRevision'' e])
      then fst out = Inr () \<and>
        edge_targets (snd out) = (edge_targets g)(app := (edge_targets g app)(''ACTIVE_REVISION'' := [new]))
      else (\<exists>msg. fst out = Inl (ConcurrentGraphUpdateError msg)) \<and> snd out = g"
proof -
  let ?app = "id_ref ''Application'' aid" and ?new = "id_ref ''ApplicationRevision'' rid"
  let ?e = "map_option (id_ref ''ApplicationRevision'') expected"
  have e: "(case ?e of None \<Rightarrow> [] | Some r \<Rightarrow> [r]) =
      (case expected of None \<Rightarrow> [] | Some e \<Rightarrow> [id_ref ''ApplicationRevision'' e])"
    by (simp split: option.splits)
  have t: "''ACTIVE_REVISION'' \<noteq> ''HAS_FILE''" by simp
  show ?thesis
  proof (cases "edge_targets g ?app ''ACTIVE_REVISION'' = (case ?e of None \<Rightarrow> [] | Some r \<Rightarrow> [r])")
    case True
    from pointers.move_ok [OF t True, of ?new] obtain g' where
      g': "move_pointer ?app ''ACTIVE_REVISION'' ?new ?e g = (Inr (), g')"
      "edge_targets g' ?app ''ACTIVE_REVISION'' = [?new]" by blast
    have "edge_targets g' f t' = edge_targets g f t'" if "(f, t') \<noteq> (?app, ''ACTIVE_REVISION'')" for f t'
      using pointers.move_frame [OF t that, of ?new ?e g] g'(1) by simp
    with g' True e show ?thesis
      by (auto simp: application_replace_active_revision_def Let_def fun_eq_iff)
  next
    case False
    from pointers.move_stale [OF t False, of ?new] False e show ?thesis
      by (auto simp: application_replace_active_revision_def Let_def)
  qed
qed

text \<open>Of two activations that both expect the same current revision, only the first wins: after
  it succeeded the second raises \<open>ConcurrentGraphUpdateError\<close> and leaves the pointer to the first
  one's revision.\<close>

theorem second_activation_loses:
  assumes "application_replace_active_revision aid rid1 expected g = (Inr (), g1)"
    and "expected \<noteq> Some rid1"
  shows "\<exists>msg. application_replace_active_revision aid rid2 expected g1 = (Inl (ConcurrentGraphUpdateError msg), g1)
    \<and> edge_targets g1 (id_ref ''Application'' aid) ''ACTIVE_REVISION'' = [id_ref ''ApplicationRevision'' rid1]"
proof -
  let ?app = "id_ref ''Application'' aid" and ?e = "map_option (id_ref ''ApplicationRevision'') expected"
  have t: "''ACTIVE_REVISION'' \<noteq> ''HAS_FILE''" by simp
  have m: "move_pointer ?app ''ACTIVE_REVISION'' (id_ref ''ApplicationRevision'' rid1) ?e g = (Inr (), g1)"
    using assms(1) by (simp add: application_replace_active_revision_def)
  have ne: "?e \<noteq> Some (id_ref ''ApplicationRevision'' rid1)" using assms(2) by (cases expected) auto
  have "edge_targets g ?app ''ACTIVE_REVISION'' = (case ?e of None \<Rightarrow> [] | Some r \<Rightarrow> [r])"
    using m pointers.move_outcome [OF t, of ?app "id_ref ''ApplicationRevision'' rid1" ?e g] by simp
  from pointers.move_ok [OF t this, of "id_ref ''ApplicationRevision'' rid1"] m
    pointers.second_move_loses [OF t m ne]
  show ?thesis by (auto simp: application_replace_active_revision_def)
qed

theorem second_activation_loses_witness:
  "\<exists>g1 msg. application_replace_active_revision ''app'' ''r1'' None empty_graph = (Inr (), g1) \<and>
    application_replace_active_revision ''app'' ''r2'' None g1 = (Inl (ConcurrentGraphUpdateError msg), g1)"
proof -
  have "fst (application_replace_active_revision ''app'' ''r1'' None empty_graph) = Inr ()"
    by (simp add: application_cas edge_targets_def list_edges_def empty_graph_def)
  then obtain g1 where g1: "application_replace_active_revision ''app'' ''r1'' None empty_graph = (Inr (), g1)"
    by (metis prod.collapse)
  from second_activation_loses [OF g1] g1 show ?thesis by blast
qed

section \<open>Objects and relations\<close>

text \<open>Every stored relation is kept under its own key, and an edge that carries a stored relation's
  key runs between the relation's objects.\<close>

definition rel_from_ref :: "app_relation \<Rightarrow> node_ref" where
  "rel_from_ref r = object_ref (rel_application_id r) (rel_data_space_id r) (rel_from_object_id r)"

definition rel_to_ref :: "app_relation \<Rightarrow> node_ref" where
  "rel_to_ref r = object_ref (rel_application_id r) (rel_data_space_id r) (rel_to_object_id r)"

definition runs_along :: "app_relation \<Rightarrow> edge \<Rightarrow> bool" where
  "runs_along r e \<longleftrightarrow> edge_from e = rel_from_ref r \<and> edge_to e = rel_to_ref r"

definition relations_linked :: "'v graph \<Rightarrow> bool" where
  "relations_linked g \<longleftrightarrow>
     list_all (\<lambda>(k, r). k = rel_key_of r \<and>
       list_all (\<lambda>e. props_rel_key (edge_props e) = Some k \<longrightarrow> runs_along r e) (edges g)) (app_relations g)"

lemma relations_linkedD:
  assumes "relations_linked g" and "(k, r) \<in> set (app_relations g)"
  shows "k = rel_key_of r" and "e \<in> set (edges g) \<Longrightarrow> props_rel_key (edge_props e) = Some k \<Longrightarrow> runs_along r e"
  using assms by (auto simp: relations_linked_def list_all_iff)

lemma relations_linked_sub:
  assumes "relations_linked g" and "set (edges g') \<subseteq> set (edges g)" and "set (app_relations g') \<subseteq> set (app_relations g)"
  shows "relations_linked g'"
  using assms unfolding relations_linked_def list_all_iff by blast

lemma props_rel_key_relation: "props_rel_key (relation_props r) = Some (rel_key_of r)"
  by (simp add: props_rel_key_def relation_props_def rel_key_of_def)

lemma set_update_first: "set (update_first P f xs) \<subseteq> set xs \<union> f ` {x \<in> set xs. P x}"
  by (induction xs) auto

lemma edges_create_relation:
  assumes "create_app_relation r g = (Inr (), g')" and "e \<in> set (edges g')"
  shows "e \<in> set (edges g) \<or> runs_along r e \<and> edge_props e = relation_props r"
proof -
  obtain pt where pt: "rel_physical_type r = Some pt" and app: "fst (create_app_relation r g) = Inr ()"
    using assms(1) by (auto simp: create_app_relation_def split: option.splits)
  let ?P = "\<lambda>e. same_edge (rel_from_ref r) pt (rel_to_ref r) e \<and> dict_get (edge_props e) ''id'' = Some (JStr (rel_id r))"
  have "edges g' = edges g @ [new_edge (rel_from_ref r) pt (rel_to_ref r) (relation_props r)] \<or>
      edges g' = update_first ?P (\<lambda>e. e\<lparr>edge_props := relation_props r\<rparr>) (edges g)"
    using assms(1) pt
    by (auto simp: create_app_relation_def Let_def rel_from_ref_def rel_to_ref_def split: option.splits)
  then show ?thesis
    using assms(2) set_update_first [of ?P "\<lambda>e. e\<lparr>edge_props := relation_props r\<rparr>" "edges g"]
    by (auto simp: new_edge_def runs_along_def same_edge_def)
qed

lemma relations_create_relation:
  assumes "create_app_relation r g = (x, g')"
  shows "set (app_relations g') \<subseteq> insert (rel_key_of r, r) (set (app_relations g))"
  using assms set_dict_set [of "rel_key_of r" r "app_relations g"]
  by (auto simp: create_app_relation_def Let_def split: option.splits)

lemma dict_set_other:
  "distinct (map fst d) \<Longrightarrow> (k', v') \<in> set (dict_set k v d) \<Longrightarrow> k' = k \<Longrightarrow> v' = v"
  by (induction d) (force split: if_splits)+



text \<open>Deleting an object removes its relations: no relation that is left starts or ends at the
  object, every relation that is left was there before, no structural edge touches the object, and
  the object itself is gone while every other object is as before.\<close>

theorem object_delete_removes_relations:
  assumes "relations_linked g" and "r \<in> set (relation_list_all (object_delete app i space g))"
  shows "rel_from_ref r \<noteq> object_ref app space i \<and> rel_to_ref r \<noteq> object_ref app space i \<and>
    r \<in> set (relation_list_all g) \<and>
    NodeRef ''ApplicationObject'' (object_key app space i) \<notin>
      edge_from ` set (edges (object_delete app i space g)) \<union> edge_to ` set (edges (object_delete app i space g)) \<and>
    object_get app' j space' (object_delete app i space g) =
      (if app' = app \<and> j = i \<and> space' = space then None else object_get app' j space' g)"
proof -
  have ref: "NodeRef ''ApplicationObject'' (object_key app space i) = object_ref app space i"
    by (simp add: object_key_def object_ref_def)
  let ?kept = "filter (\<lambda>e. edge_from e \<noteq> object_ref app space i \<and> edge_to e \<noteq> object_ref app space i) (edges g)"
  have d: "edges (object_delete app i space g) = ?kept"
    "app_relations (object_delete app i space g) =
       filter (\<lambda>kr. Some (fst kr) \<in> set (map (\<lambda>e. props_rel_key (edge_props e)) ?kept)) (app_relations g)"
    by (simp_all add: object_delete_def delete_node_def Let_def ref)
  from assms(2) d(2) obtain k e where k: "(k, r) \<in> set (app_relations g)"
    and e: "e \<in> set ?kept" "props_rel_key (edge_props e) = Some k"
    by (auto simp: relation_list_all_def list_all_app_relations_def)
  from relations_linkedD(2) [OF assms(1) k, of e] e have "runs_along r e" by simp
  with e(1) have "rel_from_ref r \<noteq> object_ref app space i" "rel_to_ref r \<noteq> object_ref app space i"
    by (auto simp: runs_along_def)
  moreover have "r \<in> set (relation_list_all g)"
    using k by (force simp: relation_list_all_def list_all_app_relations_def)
  ultimately show ?thesis by (auto simp: object_get_delete d(1) ref)
qed

theorem object_delete_removes_relations_witness:
  "\<exists>g r. relations_linked g \<and> relation_list_all (object_delete ''a'' ''z'' ''production'' g) = [r] \<and>
    rel_from_ref r \<noteq> object_ref ''a'' ''production'' ''z'' \<and>
    relation_list_all (object_delete ''a'' ''x'' ''production'' g) = []"
proof -
  define r where "r = \<lparr>rel_id = ''r'', rel_application_id = ''a'', rel_data_space_id = ''production'',
      rel_relation_type_id = ''t'', rel_relation_type_revision_id = None, rel_physical_type = Some ''KNOWS'',
      rel_from_object_id = ''x'', rel_to_object_id = ''y'', rel_values = [], rel_created_by_invocation_id = None,
      rel_updated_by_invocation_id = None, rel_created_at = 0, rel_updated_at = 0\<rparr>"
  define g where "g = snd (relation_save r empty_graph)"
  have g: "g = \<lparr>nodes = [], edges = [new_edge (object_ref ''a'' ''production'' ''x'') ''KNOWS''
      (object_ref ''a'' ''production'' ''y'') (relation_props r)],
      app_relations = [((''a'', ''production'', ''r''), r)]\<rparr>"
    by (simp add: g_def relation_save_def create_app_relation_def empty_graph_def r_def rel_key_of_def)
  have linked: "relations_linked g"
    by (simp add: g relations_linked_def new_edge_def runs_along_def rel_from_ref_def rel_to_ref_def r_def rel_key_of_def)
  have key: "props_rel_key (relation_props r) = Some (''a'', ''production'', ''r'')"
    by (simp add: props_rel_key_relation rel_key_of_def r_def)
  have rest: "relation_list_all (object_delete ''a'' ''z'' ''production'' g) = [r]"
    "relation_list_all (object_delete ''a'' ''x'' ''production'' g) = []"
    by (simp_all add: g relation_list_all_def list_all_app_relations_def object_delete_def delete_node_def Let_def
        new_edge_def key object_ref_def object_key_def)
  then have "r \<in> set (relation_list_all (object_delete ''a'' ''z'' ''production'' g))" by simp
  from object_delete_removes_relations [OF linked this] linked rest show ?thesis by blast
qed

section \<open>Well-formedness\<close>

lemma wf_create_relation:
  assumes "wf_graph g" and "rel_physical_type r \<noteq> Some ''HAS_FILE''"
  shows "wf_graph (snd (create_app_relation r g))"
proof (cases "rel_physical_type r")
  case None
  with assms show ?thesis by (simp add: create_app_relation_def)
next
  case (Some pt)
  with assms(2) have pt: "pt \<noteq> ''HAS_FILE''" by simp
  have upd: "filter (\<lambda>e. edge_type e = ''HAS_FILE'') (update_first (\<lambda>e. same_edge f pt to e \<and> Q e) (\<lambda>e. e\<lparr>edge_props := p\<rparr>) es)
      = filter (\<lambda>e. edge_type e = ''HAS_FILE'') es" for f to Q p es
    using pt by (induction es) (auto simp: same_edge_def)
  show ?thesis
    using assms(1) pt Some
    by (auto simp: create_app_relation_def Let_def wf_graph_def file_edges_def new_edge_def upd dict_simps
        split: option.splits)
qed

lemma wf_delete_relation: "wf_graph g \<Longrightarrow> wf_graph (delete_app_relation r g)"
  by (simp add: wf_graph_def delete_app_relation_def file_edges_def dict_simps distinct_map_filter_comm
      del: filter_filter)

text \<open>C6: Every operation of the store keeps the graph well formed: one node per label and identity,
  one relation per key, and at most one \<open>HAS_FILE\<close> edge per tree and path. The properties of an edge
  are a dictionary (distinct keys), and the physical type of a relation is not the reserved
  \<open>HAS_FILE\<close>.\<close>

theorem store_operations_keep_wf:
  assumes "wf_graph g" and "distinct (map fst p)" and "rel_physical_type r \<noteq> Some ''HAS_FILE''"
  shows "wf_graph (upsert_node l i v g) \<and> wf_graph (snd (create_node l i v g)) \<and> wf_graph (delete_node l i g) \<and>
    wf_graph (create_edge f t to p g) \<and> wf_graph (delete_edge f t to' q g) \<and>
    wf_graph (snd (replace_single_edge f t to p e b g)) \<and> wf_graph (snd (clear_single_edge f t e g)) \<and>
    wf_graph (snd (create_app_relation r g)) \<and> wf_graph (delete_app_relation r' g)"
  using assms(1) wf_upsert_node [OF assms(1)] wf_create_node [OF assms(1)] wf_delete_node [OF assms(1)]
    wf_create_edge [OF assms(1,2)] wf_delete_edge [OF assms(1)] wf_create_edge [OF wf_delete_edge [OF assms(1)] assms(2)]
    wf_create_relation [OF assms(1,3)] wf_delete_relation [OF assms(1)]
  by (simp add: replace_single_edge_def clear_single_edge_def)

theorem store_operations_keep_wf_witness:
  "wf_graph (create_edge (id_ref ''SourceTree'' ''t'') ''HAS_FILE'' (id_ref ''SourceContent'' ''c'')
     [(''path'', JStr ''a.py'')] (empty_graph :: nat graph))"
  by (rule store_operations_keep_wf [of empty_graph "[(''path'', JStr ''a.py'')]"
        "\<lparr>rel_id = ''r'', rel_application_id = ''a'', rel_data_space_id = ''production'',
      rel_relation_type_id = ''t'', rel_relation_type_revision_id = None, rel_physical_type = Some ''KNOWS'',
      rel_from_object_id = ''x'', rel_to_object_id = ''y'', rel_values = [], rel_created_by_invocation_id = None,
      rel_updated_by_invocation_id = None, rel_created_at = 0, rel_updated_at = 0\<rparr>",
        THEN conjunct2, THEN conjunct2, THEN conjunct2, THEN conjunct1]) simp_all

section \<open>Garbage collection\<close>

lemma pruned_dead_node: "pruned S g g' \<Longrightarrow> NodeRef l i \<in> S \<Longrightarrow> get_node l i g' = None"
  by (auto simp: pruned_def get_node_def map_of_eq_None_iff)

lemma pruned_other_node: "pruned S g g' \<Longrightarrow> NodeRef l i \<notin> S \<Longrightarrow> get_node l i g' = get_node l i g"
proof -
  assume p: "pruned S g g'" and s: "NodeRef l i \<notin> S"
  have "map_of (filter (\<lambda>n. NodeRef (fst (fst n)) (snd (fst n)) \<notin> S) ns) (l, i) = map_of ns (l, i)"
    for ns :: "((string \<times> ident) \<times> node_value) list"
    using s by (induction ns) auto
  with p show ?thesis by (simp add: get_node_def pruned_def)
qed

text \<open>C7: The collection of interned nodes terminates and is exact: it removes the interned nodes that no
  revision reaches (directly or through a source tree) and no callback route, invocation or job
  pins, with their edges, and it changes no other node and no other edge; afterwards nothing is
  left to collect.\<close>

theorem interned_collection_exact:
  assumes "typed_graph g" and "trees_anchored g"
  shows "\<exists>deleted g'. delete_interned_orphans g = (Inr deleted, g') \<and>
    (\<forall>l i. get_node l i g' = (if NodeRef l i \<in> dead_refs g then None else get_node l i g)) \<and>
    edges g' = filter (\<lambda>e. edge_from e \<notin> dead_refs g \<and> edge_to e \<notin> dead_refs g) (edges g) \<and>
    dead_refs g' = {}"
proof -
  from gc_exact [OF assms] obtain d g' where
    g': "delete_interned_orphans g = (Inr d, g')" "pruned (dead_refs g) g g'" "dead_refs g' = {}" by blast
  have "get_node l i g' = (if NodeRef l i \<in> dead_refs g then None else get_node l i g)" for l i
    using pruned_dead_node [OF g'(2)] pruned_other_node [OF g'(2)] by simp
  with g' show ?thesis by (auto simp: pruned_def)
qed

theorem interned_collection_exact_witness:
  "\<exists>d g'. delete_interned_orphans (coll_save source_contents_coll
      \<lparr>blob_id = ''b'', blob_content = ''x'', blob_created_at = 0\<rparr> empty_graph) = (Inr d, g') \<and> dead_refs g' = {}"
proof -
  let ?g = "coll_save source_contents_coll \<lparr>blob_id = ''b'', blob_content = ''x'', blob_created_at = 0\<rparr> empty_graph"
  have "typed_graph ?g" by (rule source_contents.typed_save) (simp add: typed_graph_def empty_graph_def)
  moreover have "trees_anchored ?g"
    by (simp add: trees_anchored_def coll_save_def edges_upsert) (simp add: empty_graph_def)
  ultimately show ?thesis using interned_collection_exact [of ?g] by blast
qed

end
