(* ===== verification/Revision_Bindings.thy ===== *)
theory Revision_Bindings
  imports Intern_GC
begin

text \<open>
  \<^verbatim>\<open>RevisionBindings\<close> of \<^verbatim>\<open>graph/bindings.py\<close>: the walk from a revision over its edges to the
  interned records it binds, and the operations that rebind one of them. Reads are functions
  of the graph into a result; writes are operations.
\<close>

section \<open>Operations\<close>

definition revision_labels :: "string list" where
  "revision_labels = [''ApplicationRevision'', ''ExperienceRevision'', ''SystemRevision'']"

definition resolve :: "string \<Rightarrow> node_value graph \<Rightarrow> exn + string" where
  "resolve rid g =
     (case find (\<lambda>l. get_node l (key rid) g \<noteq> None) revision_labels of
        Some l \<Rightarrow> Inr l
      | None \<Rightarrow> Inl (KeyError (''unknown revision: '' @ rid)))"

definition tree :: "string \<Rightarrow> node_value graph \<Rightarrow> exn + source_tree" where
  "tree rid g =
     rbind (resolve rid g) (\<lambda>label.
       let es = list_edges (Some (id_ref label rid)) (Some ''HAS_SOURCE_TREE'') None g in
       (case es of
          [e] \<Rightarrow> coll_item source_trees_coll (key (ref_id (edge_to e))) g
        | _ \<Rightarrow> Inl (ValueError (label @ '' must have exactly one HAS_SOURCE_TREE''))))"

definition set_tree :: "string \<Rightarrow> string \<Rightarrow> (node_value graph, unit) op" where
  "set_tree rid tid g =
     (case resolve rid g of
        Inl e \<Rightarrow> (Inl e, g)
      | Inr label \<Rightarrow> replace_single_edge (id_ref label rid) ''HAS_SOURCE_TREE''
          (id_ref ''SourceTree'' tid) [] None False g)"

fun map_result :: "('b \<Rightarrow> exn + 'a) \<Rightarrow> 'b list \<Rightarrow> exn + 'a list" where
  "map_result f [] = Inr []"
| "map_result f (x # xs) = rbind (f x) (\<lambda>y. rbind (map_result f xs) (\<lambda>ys. Inr (y # ys)))"

definition bound_targets ::
  "string \<Rightarrow> string \<Rightarrow> string \<Rightarrow> 'm collection \<Rightarrow> node_value graph \<Rightarrow> exn + 'm list" where
  "bound_targets from_label from_id etype c g =
     map_result (\<lambda>e. coll_item c (key (ref_id (edge_to e))) g)
       (list_edges (Some (id_ref from_label from_id)) (Some etype) None g)"

definition action_revisions :: "string \<Rightarrow> node_value graph \<Rightarrow> exn + action_revision list" where
  "action_revisions rid = bound_targets ''ApplicationRevision'' rid ''HAS_ACTION_REVISION'' action_revisions_coll"

definition bound_action_revision :: "string \<Rightarrow> string \<Rightarrow> node_value graph \<Rightarrow> exn + action_revision" where
  "bound_action_revision rid aid g =
     rbind (action_revisions rid g) (\<lambda>items.
       (case filter (\<lambda>m. actrev_action_id m = aid) items of
          [m] \<Rightarrow> Inr m
        | _ \<Rightarrow> Inl (KeyError (''action '' @ aid @ '' on '' @ rid))))"

definition object_type_revisions :: "string \<Rightarrow> node_value graph \<Rightarrow> exn + object_type_revision list" where
  "object_type_revisions rid =
     bound_targets ''ApplicationRevision'' rid ''HAS_OBJECT_TYPE_REVISION'' object_type_revisions_coll"

definition relation_type_revisions :: "string \<Rightarrow> node_value graph \<Rightarrow> exn + relation_type_revision list" where
  "relation_type_revisions rid =
     bound_targets ''ApplicationRevision'' rid ''HAS_RELATION_TYPE_REVISION'' relation_type_revisions_coll"

definition trigger_revisions :: "string \<Rightarrow> node_value graph \<Rightarrow> exn + trigger_revision list" where
  "trigger_revisions rid =
     bound_targets ''ApplicationRevision'' rid ''HAS_TRIGGER_REVISION'' trigger_revisions_coll"

definition test_cases :: "string \<Rightarrow> node_value graph \<Rightarrow> exn + test_case list" where
  "test_cases rid = bound_targets ''ApplicationRevision'' rid ''HAS_TEST'' test_cases_coll"

definition dependencies :: "string \<Rightarrow> node_value graph \<Rightarrow> exn + runtime_dependency list" where
  "dependencies rid g =
     rbind (resolve rid g) (\<lambda>label.
       bound_targets label rid ''DECLARES_DEPENDENCY'' runtime_dependencies_coll g)"

definition surfaces :: "string \<Rightarrow> node_value graph \<Rightarrow> exn + experience_surface list" where
  "surfaces rid =
     bound_targets ''ExperienceRevision'' rid ''DECLARES_SURFACE'' experience_surfaces_coll"

definition surface :: "string \<Rightarrow> string \<Rightarrow> node_value graph \<Rightarrow> exn + experience_surface" where
  "surface rid sid g =
     rbind (surfaces rid g) (\<lambda>items.
       (case filter (\<lambda>m. surf_surface_id m = sid) items of
          [m] \<Rightarrow> Inr m
        | _ \<Rightarrow> Inl (KeyError (''surface '' @ sid @ '' on '' @ rid))))"

text \<open>\<^verbatim>\<open>copy_edges\<close>: one structural edge from the draft for each edge of the parent.\<close>

definition copy_one_type ::
  "node_ref \<Rightarrow> node_ref \<Rightarrow> string \<Rightarrow> node_value graph \<Rightarrow> node_value graph" where
  "copy_one_type parent draft etype g =
     fold (\<lambda>e. create_edge draft etype (edge_to e) []) (list_edges (Some parent) (Some etype) None g) g"

definition copy_edges :: "string \<Rightarrow> string \<Rightarrow> string list \<Rightarrow> (node_value graph, unit) op" where
  "copy_edges parent_id draft_id etypes g =
     (case rbind (resolve parent_id g) (\<lambda>pl. rbind (resolve draft_id g) (\<lambda>dl. Inr (pl, dl))) of
        Inl e \<Rightarrow> (Inl e, g)
      | Inr (pl, dl) \<Rightarrow>
          if pl \<noteq> dl
          then (Inl (ValueError ''cannot copy edges between different revision kinds''), g)
          else (Inr (), fold (copy_one_type (id_ref pl parent_id) (id_ref dl draft_id)) etypes g))"

definition named ::
  "string \<Rightarrow> string \<Rightarrow> 'm collection \<Rightarrow> ('m \<Rightarrow> string) \<Rightarrow> string \<Rightarrow> node_value graph \<Rightarrow> exn + 'm option" where
  "named rid etype c name_field name g =
     rbind (resolve rid g) (\<lambda>label.
     rbind (bound_targets label rid etype c g) (\<lambda>items.
       (case filter (\<lambda>m. name_field m = name) items of
          [] \<Rightarrow> Inr None
        | [m] \<Rightarrow> Inr (Some m)
        | _ \<Rightarrow> Inl (ValueError (''duplicate '' @ name @ '' on '' @ rid)))))"

definition replace_named ::
  "string \<Rightarrow> string \<Rightarrow> string option \<Rightarrow> string \<Rightarrow> string \<Rightarrow> (node_value graph, unit) op" where
  "replace_named rid etype current_id next_id target_label g =
     (case resolve rid g of
        Inl e \<Rightarrow> (Inl e, g)
      | Inr label \<Rightarrow>
          (let rev_ref = id_ref label rid;
               g1 = (case current_id of
                       Some c \<Rightarrow> if c \<noteq> next_id
                         then delete_edge rev_ref etype (Some (id_ref target_label c)) None g else g
                     | None \<Rightarrow> g)
           in if current_id \<noteq> Some next_id
              then bindE delete_interned_orphans (\<lambda>_. ret ())
                     (create_edge rev_ref etype (id_ref target_label next_id) [] g1)
              else (Inr (), g1)))"

definition remove_named :: "string \<Rightarrow> string \<Rightarrow> string \<Rightarrow> string \<Rightarrow> (node_value graph, unit) op" where
  "remove_named rid etype target_label target_id g =
     (case resolve rid g of
        Inl e \<Rightarrow> (Inl e, g)
      | Inr label \<Rightarrow>
          bindE delete_interned_orphans (\<lambda>_. ret ())
            (delete_edge (id_ref label rid) etype (Some (id_ref target_label target_id)) None g))"

section \<open>Laws\<close>

lemma resolve_label: "resolve rid g = Inr l \<Longrightarrow> l \<in> set revision_labels \<and> get_node l (key rid) g \<noteq> None"
  by (auto simp: resolve_def split: option.splits dest: find_SomeD)

lemma resolve_edge [simp]:
  "resolve rid (create_edge f t to p g) = resolve rid g"
  "resolve rid (delete_edge f t to' p' g) = resolve rid g"
  by (simp_all add: resolve_def graph_simps)

text \<open>After \<open>set_tree\<close> the revision is bound to exactly the tree it was given.\<close>

lemma list_single_map: "map f xs = [y] \<Longrightarrow> \<exists>x. xs = [x] \<and> f x = y"
  by (cases xs) auto

lemma tree_set_tree:
  assumes r: "resolve rid g = Inr l" and t: "coll_get source_trees_coll (key tid) g = Some t"
  shows "\<exists>g'. set_tree rid tid g = (Inr (), g') \<and> tree rid g' = Inr t"
proof -
  let ?f = "id_ref l rid"
  let ?g = "create_edge ?f ''HAS_SOURCE_TREE'' (id_ref ''SourceTree'' tid) [] (delete_edge ?f ''HAS_SOURCE_TREE'' None None g)"
  have "edge_targets ?g ?f ''HAS_SOURCE_TREE'' = [id_ref ''SourceTree'' tid]"
    by (rule targets_replace) simp
  then obtain e where e: "list_edges (Some ?f) (Some ''HAS_SOURCE_TREE'') None ?g = [e]"
    "edge_to e = id_ref ''SourceTree'' tid"
    using list_single_map [of edge_to] by (auto simp: edge_targets_def)
  have "set_tree rid tid g = (Inr (), ?g)"
    by (simp add: set_tree_def r replace_single_edge_def)
  moreover have "tree rid ?g = Inr t"
    using r t e
    by (simp add: tree_def coll_item_def source_trees.get_create_edge source_trees.get_delete_edge)
  ultimately show ?thesis by blast
qed

text \<open>The bindings of another revision are untouched.\<close>

lemma tree_set_tree_other:
  assumes "rid' \<noteq> rid" and "set_tree rid tid g = (Inr (), g')"
  shows "tree rid' g' = tree rid' g"
  using assms
  by (auto simp: set_tree_def replace_single_edge_def tree_def rbind_def Let_def graph_simps
      coll_item_def source_trees.get_create_edge source_trees.get_delete_edge
      split: sum.splits list.splits)

lemma tree_SomeD:
  assumes "tree rid g = Inr t"
  shows "\<exists>l e. resolve rid g = Inr l \<and> list_edges (Some (id_ref l rid)) (Some ''HAS_SOURCE_TREE'') None g = [e] \<and>
     coll_get source_trees_coll (key (ref_id (edge_to e))) g = Some t"
proof -
  from assms obtain l where l: "resolve rid g = Inr l"
    by (auto simp: tree_def rbind_eq_Inr)
  with assms show ?thesis
    by (auto simp: tree_def Let_def coll_item_def split: list.splits option.splits)
qed

end
