(* ===== verification/Py_Text.thy ===== *)
theory Py_Text
  imports N4X_Prelude
begin

text \<open>
  The string operations of Python the code uses, on strings as lists of characters (code
  points up to 255; the line separators beyond Latin-1 have no counterpart here).
\<close>

abbreviation LF :: char where "LF \<equiv> CHR 0x0A"
abbreviation CR :: char where "CR \<equiv> CHR 0x0D"

fun starts_with :: "string \<Rightarrow> string \<Rightarrow> bool" where
  "starts_with [] s = True"
| "starts_with (p # ps) [] = False"
| "starts_with (p # ps) (c # cs) = (p = c \<and> starts_with ps cs)"

text \<open>\<^verbatim>\<open>s.rstrip("\<close>CR LF\<^verbatim>\<open>")\<close>.\<close>

definition rstrip_newline :: "string \<Rightarrow> string" where
  "rstrip_newline s = rev (dropWhile (\<lambda>c. c = CR \<or> c = LF) (rev s))"

text \<open>The white space \<^verbatim>\<open>str.strip\<close> removes, \<^verbatim>\<open>s.strip()\<close> and \<^verbatim>\<open>s.rstrip()\<close>.\<close>

definition is_space :: "char \<Rightarrow> bool" where
  "is_space c \<longleftrightarrow> c \<in> {CHR '' '', CHR 0x09, CHR 0x0A, CHR 0x0B, CHR 0x0C, CHR 0x0D,
     CHR 0x1C, CHR 0x1D, CHR 0x1E, CHR 0x1F, CHR 0x85, CHR 0xA0}"

definition strip :: "string \<Rightarrow> string" where
  "strip s = rev (dropWhile is_space (rev (dropWhile is_space s)))"

definition rstrip :: "string \<Rightarrow> string" where
  "rstrip s = rev (dropWhile is_space (rev s))"

definition is_digit :: "char \<Rightarrow> bool" where
  "is_digit c \<longleftrightarrow> c \<in> set ''0123456789''"

definition nat_of_digits :: "string \<Rightarrow> nat" where
  "nat_of_digits s = foldl (\<lambda>n c. 10 * n + (of_char c - 48)) 0 s"

section \<open>Lines\<close>

text \<open>The characters at which \<^verbatim>\<open>str.splitlines\<close> ends a line, CR LF counting once.\<close>

definition ends_line :: "char \<Rightarrow> bool" where
  "ends_line c \<longleftrightarrow> c \<in> {LF, CR, CHR 0x0B, CHR 0x0C, CHR 0x1C, CHR 0x1D, CHR 0x1E, CHR 0x85}"

fun take_line :: "string \<Rightarrow> string \<times> string" where
  "take_line [] = ([], [])"
| "take_line (c # cs) =
     (if c = CR then (case cs of d # ds \<Rightarrow> if d = LF then ([c, d], ds) else ([c], cs) | [] \<Rightarrow> ([c], []))
      else if ends_line c then ([c], cs)
      else (case take_line cs of (l, r) \<Rightarrow> (c # l, r)))"

lemma take_line_append: "take_line s = (l, r) \<Longrightarrow> l @ r = s"
proof (induction s arbitrary: l r)
  case Nil
  then show ?case by simp
next
  case (Cons c cs)
  consider "c = CR" | "c \<noteq> CR" "ends_line c" | "c \<noteq> CR" "\<not> ends_line c" by blast
  then show ?case
  proof cases
    case 1
    with Cons.prems show ?thesis by (cases cs) (auto split: if_splits)
  next
    case 2
    with Cons.prems show ?thesis by simp
  next
    case 3
    obtain l' r' where t: "take_line cs = (l', r')" by fastforce
    with 3 Cons.prems Cons.IH [OF t] show ?thesis by auto
  qed
qed

lemma take_line_nonempty: "fst (take_line (c # cs)) \<noteq> []"
  by (simp split: prod.split list.split)

lemma take_line_shrinks: "take_line (c # cs) = (l, r) \<Longrightarrow> length r < Suc (length cs)"
  using take_line_append [of "c # cs" l r] take_line_nonempty [of c cs]
  by (cases l) (auto simp del: take_line.simps)

text \<open>\<^verbatim>\<open>s.splitlines(keepends=True)\<close>.\<close>

function splitlines_keep :: "string \<Rightarrow> string list" where
  "splitlines_keep [] = []"
| "splitlines_keep (c # cs) = (case take_line (c # cs) of (l, r) \<Rightarrow> l # splitlines_keep r)"
  by pat_completeness auto
termination
  by (relation "measure length") (simp_all add: take_line_shrinks [OF sym] del: take_line.simps)

lemma concat_splitlines_keep [simp]: "concat (splitlines_keep s) = s"
proof (induction s rule: splitlines_keep.induct)
  case 1
  then show ?case by simp
next
  case (2 c cs)
  obtain l r where t: "take_line (c # cs) = (l, r)" by fastforce
  with "2.IH" [OF t [symmetric]] have "concat (splitlines_keep r) = r" by simp
  with t take_line_append [OF t] show ?case by simp
qed

text \<open>\<^verbatim>\<open>s.splitlines()\<close>: the lines without their ends.\<close>

definition chop_line :: "string \<Rightarrow> string" where
  "chop_line l =
     (case rev l of
        [] \<Rightarrow> []
      | c # r \<Rightarrow> if c = LF \<and> r \<noteq> [] \<and> hd r = CR then rev (tl r)
                else if ends_line c then rev r else l)"

definition splitlines :: "string \<Rightarrow> string list" where
  "splitlines s = map chop_line (splitlines_keep s)"

section \<open>Lines ended by a line feed\<close>

text \<open>A text written line by line, each ended by LF, splits into those lines.\<close>

definition plain_line :: "string \<Rightarrow> bool" where
  "plain_line l \<longleftrightarrow> (\<exists>s. l = s @ [LF] \<and> (\<forall>c\<in>set s. \<not> ends_line c))"

lemma take_line_plain:
  "\<forall>c\<in>set s. \<not> ends_line c \<Longrightarrow> take_line (s @ LF # rest) = (s @ [LF], rest)"
  by (induction s) (auto simp: ends_line_def)

lemma splitlines_keep_plain:
  "\<forall>l\<in>set ls. plain_line l \<Longrightarrow> splitlines_keep (concat ls) = ls"
proof (induction ls)
  case Nil
  then show ?case by simp
next
  case (Cons l ls)
  then obtain s where s: "l = s @ [LF]" "\<forall>c\<in>set s. \<not> ends_line c"
    by (auto simp: plain_line_def)
  then obtain c cs where cs: "l @ concat ls = c # cs"
    by (cases "l @ concat ls") auto
  from take_line_plain [OF s(2), of "concat ls"] s(1) cs
  have "take_line (c # cs) = (l, concat ls)" by simp
  then show ?case
    using Cons cs by (simp del: take_line.simps)
qed

lemma starts_with_iff: "starts_with p s \<longleftrightarrow> (\<exists>t. s = p @ t)"
  by (induction p s rule: starts_with.induct) auto

end
