(* ===== verification/Kernel_Hash.thy ===== *)
theory Kernel_Hash
  imports Graph_Store Py_Text "HOL-Library.List_Lexorder" "HOL-Library.Char_ord"
begin

text \<open>
  Content addressing: \<^verbatim>\<open>kernel/hash.py\<close> and the identifiers of \<^verbatim>\<open>kernel/intern.py\<close>. The
  hexadecimal SHA-256 digest of a text is a parameter \<open>sha\<close> of every definition that uses it;
  the canonical JSON text that is hashed is modelled.
\<close>

section \<open>Canonical JSON\<close>

fun join_with :: "string \<Rightarrow> string list \<Rightarrow> string" where
  "join_with sep [] = []"
| "join_with sep [x] = x"
| "join_with sep (x # y # ys) = x @ sep @ join_with sep (y # ys)"

fun nat_text :: "nat \<Rightarrow> string" where
  "nat_text n = (if n < 10 then [char_of (48 + n)] else nat_text (n div 10) @ [char_of (48 + n mod 10)])"

declare nat_text.simps [simp del]

definition int_text :: "int \<Rightarrow> string" where
  "int_text i = (if i < 0 then ''-'' @ nat_text (nat (- i)) else nat_text (nat i))"

definition hex_digit :: "nat \<Rightarrow> char" where
  "hex_digit n = (if n < 10 then char_of (48 + n) else char_of (87 + n))"

text \<open>The escapes of \<^verbatim>\<open>json.dumps\<close> with its default \<^verbatim>\<open>ensure_ascii\<close>.\<close>

definition escape_char :: "char \<Rightarrow> string" where
  "escape_char c =
     (let n = (of_char c :: nat) in
      if c = CHR 0x22 then [CHR 0x5C, CHR 0x22]
      else if c = CHR 0x5C then [CHR 0x5C, CHR 0x5C]
      else if c = CHR 0x0A then [CHR 0x5C, CHR ''n'']
      else if c = CHR 0x0D then [CHR 0x5C, CHR ''r'']
      else if c = CHR 0x09 then [CHR 0x5C, CHR ''t'']
      else if c = CHR 0x08 then [CHR 0x5C, CHR ''b'']
      else if c = CHR 0x0C then [CHR 0x5C, CHR ''f'']
      else if 32 \<le> n \<and> n \<le> 126 then [c]
      else [CHR 0x5C, CHR ''u'', CHR ''0'', CHR ''0'', hex_digit (n div 16), hex_digit (n mod 16)])"

definition json_text :: "string \<Rightarrow> string" where
  "json_text s = [CHR 0x22] @ concat (map escape_char s) @ [CHR 0x22]"

text \<open>\<^verbatim>\<open>json.dumps(value, sort_keys=True, separators=(",", ":"))\<close>.\<close>

lemma size_json_obj: "kv \<in> set kvs \<Longrightarrow> size (snd kv) < size (JObj kvs)"
  by (induction kvs) auto

function stable_json :: "json \<Rightarrow> string" where
  "stable_json JNull = ''null''"
| "stable_json (JBool b) = (if b then ''true'' else ''false'')"
| "stable_json (JInt i) = int_text i"
| "stable_json (JStr s) = json_text s"
| "stable_json (JArr xs) = ''['' @ join_with '','' (map stable_json xs) @ '']''"
| "stable_json (JObj kvs) =
     ''{'' @ join_with '','' (map (\<lambda>kv. json_text (fst kv) @ '':'' @ stable_json (snd kv)) (sort_key fst kvs)) @ ''}''"
  by pat_completeness auto
termination
proof (relation "measure size", goal_cases)
  case 1
  show ?case by simp
next
  case (2 xs x)
  then show ?case by (simp add: size_list_estimation less_Suc_eq_le) (metis le_SucI size_list_estimation' order_refl)
next
  case (3 kvs kv)
  then show ?case using size_json_obj [of kv kvs] by simp
qed

section \<open>Hashes and content ids\<close>

definition sha256_text :: "(string \<Rightarrow> string) \<Rightarrow> string \<Rightarrow> string" where
  "sha256_text sha s = ''sha256:'' @ sha s"

definition sha256_json :: "(string \<Rightarrow> string) \<Rightarrow> json \<Rightarrow> string" where
  "sha256_json sha v = sha256_text sha (stable_json v)"

definition intern_id :: "(string \<Rightarrow> string) \<Rightarrow> json \<Rightarrow> string" where
  "intern_id sha payload = sha256_json sha payload"

definition source_content_id :: "(string \<Rightarrow> string) \<Rightarrow> string \<Rightarrow> string" where
  "source_content_id sha content = sha256_text sha content"

text \<open>A row of a listing: path, content hash, role, language.\<close>

type_synonym listing_row = "string \<times> string \<times> string \<times> string"

definition row_json :: "listing_row \<Rightarrow> json" where
  "row_json r = (case r of (path, hash, role, language) \<Rightarrow>
     JObj [(''path'', JStr path), (''hash'', JStr hash), (''role'', JStr role), (''language'', JStr language)])"

definition listing_hash :: "(string \<Rightarrow> string) \<Rightarrow> listing_row list \<Rightarrow> string" where
  "listing_hash sha rows = sha256_json sha (JArr (map row_json (sort_key fst rows)))"

definition empty_tree_hash :: "(string \<Rightarrow> string) \<Rightarrow> string" where
  "empty_tree_hash sha = listing_hash sha []"

definition runtime_dependency_id :: "(string \<Rightarrow> string) \<Rightarrow> string \<Rightarrow> string \<Rightarrow> string \<Rightarrow> string" where
  "runtime_dependency_id sha ecosystem package spec =
     intern_id sha (JObj [(''ecosystem'', JStr ecosystem), (''package'', JStr package), (''spec'', JStr spec)])"

end
