(* ===== verification/Unified_Diff.thy ===== *)
theory Unified_Diff
  imports Py_Text
begin

text \<open>
  The unified-diff engine of \<^verbatim>\<open>source_store/service.py\<close> (\<^verbatim>\<open>_apply_unified_diff\<close> and its helpers):
  the hunk header regular expression, the collection of a hunk's entries, the search for its
  unique context and the rewriting of the text. The laws relate the engine to the abstract
  notion of a patch: each hunk replaces its old lines, found exactly once in what is left of the
  text, by its new lines.
\<close>

section \<open>Hunk headers\<close>

text \<open>\<^verbatim>\<open>\d+(?:,\d+)?\<close>: the number and what follows.\<close>

definition parse_range :: "string \<Rightarrow> (nat \<times> string) option" where
  "parse_range s =
     (let ds = takeWhile is_digit s; r = dropWhile is_digit s in
      if ds = [] then None
      else Some (nat_of_digits ds,
        (case r of
           c # r' \<Rightarrow> if c = CHR '','' \<and> takeWhile is_digit r' \<noteq> [] then dropWhile is_digit r' else r
         | [] \<Rightarrow> r)))"

definition strip_lead :: "string \<Rightarrow> string \<Rightarrow> string option" where
  "strip_lead p s = (if starts_with p s then Some (drop (length p) s) else None)"

text \<open>The group \<^verbatim>\<open> -a,b +c,d @@\<close>: the old start and the rest of the header.\<close>

definition parse_ranges :: "string \<Rightarrow> (nat \<times> string) option" where
  "parse_ranges s =
     Option.bind (strip_lead '' -'' s) (\<lambda>s1.
     Option.bind (parse_range s1) (\<lambda>(old_start, s2).
     Option.bind (strip_lead '' +'' s2) (\<lambda>s3.
     Option.bind (parse_range s3) (\<lambda>(_, s4).
     Option.bind (strip_lead '' @@'' s4) (\<lambda>s5. Some (old_start, s5))))))"

text \<open>\<^verbatim>\<open>(?: .*)?(?:\r?\n)?$\<close>, where \<^verbatim>\<open>$\<close> also matches before a final line feed.\<close>

definition header_tail :: "string \<Rightarrow> bool" where
  "header_tail t \<longleftrightarrow>
     t \<in> {[], [LF], [CR, LF], [LF, LF], [CR, LF, LF]} \<or>
     (case t of
        c # v \<Rightarrow> c = CHR '' '' \<and> dropWhile (\<lambda>c. c \<noteq> LF) v \<in> {[], [LF], [LF, LF]}
      | [] \<Rightarrow> False)"

text \<open>
  \<^verbatim>\<open>_UNIFIED_HUNK.match(header)\<close>: no match, or a match with or without the numbers. When the
  numbers match but the tail does not, the matcher drops the optional group and tries again.
\<close>

definition hunk_header :: "string \<Rightarrow> nat option option" where
  "hunk_header h =
     (case strip_lead ''@@'' h of
        None \<Rightarrow> None
      | Some t \<Rightarrow>
          (case parse_ranges t of
             Some (n, rest) \<Rightarrow>
               if header_tail rest then Some (Some n)
               else if header_tail t then Some None else None
           | None \<Rightarrow> if header_tail t then Some None else None))"

section \<open>Entries of a hunk\<close>

text \<open>An entry: its kind (space, plus, minus), its text, and whether it has no final newline.\<close>

type_synonym diff_entry = "char \<times> string \<times> bool"

definition entry_text :: "diff_entry \<Rightarrow> string" where
  "entry_text e = (case e of (_, raw, no_newline) \<Rightarrow> if no_newline then rstrip_newline raw else raw)"

definition entry_kind :: "diff_entry \<Rightarrow> char" where
  "entry_kind e = fst e"

definition old_lines :: "diff_entry list \<Rightarrow> string list" where
  "old_lines es = map entry_text (filter (\<lambda>e. entry_kind e \<in> {CHR '' '', CHR ''-''}) es)"

definition new_lines :: "diff_entry list \<Rightarrow> string list" where
  "new_lines es = map entry_text (filter (\<lambda>e. entry_kind e \<in> {CHR '' '', CHR ''+''}) es)"

fun mark_last :: "diff_entry list \<Rightarrow> diff_entry list" where
  "mark_last [] = []"
| "mark_last [(k, t, _)] = [(k, t, True)]"
| "mark_last (e # es) = e # mark_last es"

definition no_newline_marker :: string where
  "no_newline_marker = CHR 0x5C # '' No newline at end of file''"

fun collect_entries :: "string list \<Rightarrow> diff_entry list \<Rightarrow> exn + diff_entry list \<times> string list" where
  "collect_entries [] es = Inr (es, [])"
| "collect_entries (line # ls) es =
     (if starts_with ''@@'' line then Inr (es, line # ls)
      else if starts_with ''--- '' line \<or> starts_with ''+++ '' line
        then Inl (source_conflict ''source patch contains multiple file sections'')
      else if starts_with no_newline_marker line
        then (if es = [] then Inl (source_conflict ''orphan no-newline marker in source patch'')
              else collect_entries ls (mark_last es))
      else (case line of
          [] \<Rightarrow> Inl (source_conflict ''invalid unified diff line: '')
        | c # text \<Rightarrow>
            if c \<in> {CHR '' '', CHR ''+'', CHR ''-''} then collect_entries ls (es @ [(c, text, False)])
            else Inl (source_conflict (''invalid unified diff line: '' @ rstrip line))))"

section \<open>The search for the context\<close>

definition nearest_window :: nat where
  "nearest_window = 4"

fun index_of :: "'a \<Rightarrow> 'a list \<Rightarrow> nat option" where
  "index_of x [] = None"
| "index_of x (y # ys) = (if x = y then Some 0 else map_option Suc (index_of x ys))"

definition window_at :: "nat \<Rightarrow> string list \<Rightarrow> string list" where
  "window_at i source =
     map rstrip_newline (slice (i - nearest_window) (min (length source) (i + nearest_window + 1)) source)"

definition nearest_lines :: "string list \<Rightarrow> nat option \<Rightarrow> string option \<Rightarrow> string list" where
  "nearest_lines source hint needle =
     (let fallback = map rstrip_newline (take (nearest_window * 2) source);
          by_needle = (case needle of
              Some n \<Rightarrow> if n = [] then fallback
                else (case index_of n source of Some i \<Rightarrow> window_at i source | None \<Rightarrow> fallback)
            | None \<Rightarrow> fallback)
      in (case hint of
            Some h \<Rightarrow> if h < length source then window_at h source else by_needle
          | None \<Rightarrow> by_needle))"

definition hunk_text :: "string \<Rightarrow> diff_entry list \<Rightarrow> string" where
  "hunk_text header es =
     header @ concat (map (\<lambda>(kind, text, _).
       if text = [] \<or> last text = LF \<or> last text = CR then kind # text else kind # text @ [LF]) es)"

definition candidates :: "string list \<Rightarrow> nat \<Rightarrow> string list \<Rightarrow> nat list" where
  "candidates source source_index old =
     filter (\<lambda>c. slice c (c + length old) source = old)
       [source_index ..< Suc (length source) - length old]"

definition find_unique_hunk_start ::
  "string list \<Rightarrow> nat \<Rightarrow> string list \<Rightarrow> nat option \<Rightarrow> nat option" where
  "find_unique_hunk_start source source_index old hinted_start =
     (if old = [] then
        (case hinted_start of
           Some h \<Rightarrow> if h \<ge> source_index then Some h else None
         | None \<Rightarrow> None)
      else
        (case candidates source source_index old of
           [c] \<Rightarrow> Some c
         | _ \<Rightarrow> None))"

section \<open>Applying a patch\<close>

definition hint_of :: "nat option \<Rightarrow> nat option" where
  "hint_of old_start = map_option (\<lambda>n. if n = 0 then 0 else n - 1) old_start"

lemma collect_entries_shrinks: "collect_entries ls es = Inr (es', rest) \<Longrightarrow> length rest \<le> length ls"
  by (induction ls es rule: collect_entries.induct)
    (fastforce split: if_splits list.splits simp del: starts_with.simps)+

definition bad_header_message :: "string \<Rightarrow> string" where
  "bad_header_message header =
     ''invalid unified diff hunk header: '' @ rstrip header @ ''. '' @
     ''apply_source_patch expects a unified diff '' @
     ''(--- a/path, +++ b/path, @@ -1,2 +1,3 @@), '' @
     ''not Cursor ApplyPatch (*** Begin Patch ***).''"

function apply_hunks :: "string list \<Rightarrow> string list \<Rightarrow> nat \<Rightarrow> string list \<Rightarrow> exn + string list \<times> nat" where
  "apply_hunks source [] source_index output = Inr (output, source_index)"
| "apply_hunks source (header # ls) source_index output =
     (case hunk_header header of
        None \<Rightarrow> Inl (source_conflict (bad_header_message header))
      | Some old_start \<Rightarrow>
          (case collect_entries ls [] of
             Inl e \<Rightarrow> Inl e
           | Inr (es, rest) \<Rightarrow>
               (let hint = hint_of old_start; old = old_lines es in
                case find_unique_hunk_start source source_index old hint of
                  None \<Rightarrow> Inl (SourceConflictError
                    \<lparr>conflict_message = ''source patch context does not uniquely match'',
                     conflict_path = None, conflict_expected_hash = None, conflict_current_hash = None,
                     conflict_failing_hunk = Some (hunk_text header es),
                     conflict_nearest_lines =
                       nearest_lines source hint (case old of [] \<Rightarrow> None | l # _ \<Rightarrow> Some l)\<rparr>)
                | Some start \<Rightarrow>
                    apply_hunks source rest (start + length old)
                      (output @ slice source_index start source @ new_lines es))))"
  by pat_completeness auto
termination
  by (relation "measure (\<lambda>(_, ls, _, _). length ls)")
    (auto dest: collect_entries_shrinks simp: less_Suc_eq_le)

text \<open>The two optional file header lines.\<close>

definition skip_file_header :: "string list \<Rightarrow> exn + string list" where
  "skip_file_header lines =
     (case lines of
        [] \<Rightarrow> Inl (source_conflict ''source patch is empty'')
      | l # ls \<Rightarrow>
          if starts_with ''--- '' l then
            (case ls of
               [] \<Rightarrow> Inl (source_conflict ''source patch is missing the +++ header'')
             | l' # ls' \<Rightarrow> if starts_with ''+++ '' l' then Inr ls'
                 else Inl (source_conflict ''source patch is missing the +++ header''))
          else if starts_with ''+++ '' l then Inl (source_conflict ''source patch is missing the --- header'')
          else Inr lines)"

definition apply_unified_diff :: "string \<Rightarrow> string \<Rightarrow> exn + string" where
  "apply_unified_diff content patch =
     (let source = splitlines_keep content in
      rbind (skip_file_header (splitlines_keep patch)) (\<lambda>ls.
      rbind (apply_hunks source ls 0 []) (\<lambda>(output, source_index).
        if ls = [] then Inl (source_conflict ''source patch contains no hunks'')
        else Inr (concat (output @ drop source_index source)))))"

section \<open>What a patch means\<close>

text \<open>The hunks of a patch, independently of the text it is applied to.\<close>

function parse_hunks :: "string list \<Rightarrow> (nat option \<times> string list \<times> string list) list option" where
  "parse_hunks [] = Some []"
| "parse_hunks (header # ls) =
     (case hunk_header header of
        None \<Rightarrow> None
      | Some old_start \<Rightarrow>
          (case collect_entries ls [] of
             Inl e \<Rightarrow> None
           | Inr (es, rest) \<Rightarrow>
               map_option (Cons (hint_of old_start, old_lines es, new_lines es)) (parse_hunks rest)))"
  by pat_completeness auto
termination
  by (relation "measure length") (auto dest: collect_entries_shrinks simp: less_Suc_eq_le)

text \<open>
  \<open>patched at src hunks out\<close>: what is left of the text, starting at line \<open>at\<close>, is turned into
  \<open>out\<close>. A hunk with old lines replaces their only occurrence; a hunk without is placed by its
  hint.
\<close>

definition sole_split :: "'a list \<Rightarrow> 'a list \<Rightarrow> 'a list \<Rightarrow> 'a list \<Rightarrow> bool" where
  "sole_split xs pre old rest \<longleftrightarrow> xs = pre @ old @ rest \<and>
     (\<forall>pre' rest'. xs = pre' @ old @ rest' \<longrightarrow> pre' = pre)"

inductive patched ::
  "nat \<Rightarrow> string list \<Rightarrow> (nat option \<times> string list \<times> string list) list \<Rightarrow> string list \<Rightarrow> bool" where
  no_hunk: "patched at src [] src"
| replace_old: "old \<noteq> [] \<Longrightarrow> sole_split src pre old rest \<Longrightarrow>
     patched (at + length pre + length old) rest hs out \<Longrightarrow>
     patched at src ((hint, old, new) # hs) (pre @ new @ out)"
| insert_at: "at \<le> h \<Longrightarrow> patched h (drop (h - at) src) hs out \<Longrightarrow>
     patched at src ((Some h, [], new) # hs) (take (h - at) src @ new @ out)"

inductive_cases patched_no_hunk: "patched at src [] out"
inductive_cases patched_hunk: "patched at src (h # hs) out"

section \<open>The engine implements patches\<close>

lemma sole_split_eq: "sole_split xs pre old rest \<Longrightarrow> xs = pre @ old @ rest"
  unfolding sole_split_def by (rule conjunct1)

lemma sole_split_pre: "sole_split xs pre old rest \<Longrightarrow> xs = pre' @ old @ rest' \<Longrightarrow> pre' = pre"
  unfolding sole_split_def by iprover

lemma sole_split_unique:
  assumes "sole_split xs pre old rest" and "sole_split xs pre' old rest'"
  shows "pre' = pre" and "rest' = rest"
proof -
  show pre: "pre' = pre"
    by (rule sole_split_pre [OF assms(1) sole_split_eq [OF assms(2)]])
  have "pre @ old @ rest = pre' @ old @ rest'"
    by (rule trans [OF sole_split_eq [OF assms(1), symmetric] sole_split_eq [OF assms(2)]])
  then show "rest' = rest" by (simp add: pre)
qed

lemma in_candidates:
  "j \<in> set (candidates src i old) \<longleftrightarrow>
     i \<le> j \<and> j + length old \<le> length src \<and> take (length old) (drop j src) = old"
  by (auto simp: candidates_def slice_def)

lemma candidate_split:
  assumes "old \<noteq> []" and "drop i src = pre @ old @ rest"
  shows "i + length pre \<in> set (candidates src i old)" and "slice i (i + length pre) src = pre"
    and "drop (i + length pre + length old) src = rest"
proof -
  have "drop (length pre) (drop i src) = old @ rest"
    unfolding assms(2) by simp
  then have d: "drop (i + length pre) src = old @ rest" by (simp add: add.commute)
  then have "length old \<le> length src - (i + length pre)"
    by (metis length_append length_drop le_add1)
  with d assms(1) show "i + length pre \<in> set (candidates src i old)"
    by (simp add: in_candidates) (cases old; simp)
  show "slice i (i + length pre) src = pre"
    using assms(2) by (simp add: slice_def)
  have "drop (length old) (drop (i + length pre) src) = rest" by (simp only: d) simp
  then show "drop (i + length pre + length old) src = rest" by (simp add: add.commute add.left_commute)
qed

lemma candidates_sole:
  assumes "candidates src i old = [c]" and "old \<noteq> []"
  shows "i \<le> c \<and> c + length old \<le> length src \<and> sole_split (drop i src) (slice i c src) old (drop (c + length old) src)"
proof -
  have c: "i \<le> c" "c + length old \<le> length src" "take (length old) (drop c src) = old"
    using in_candidates [of c src i old] assms(1) by simp_all
  have "drop c src = old @ drop (c + length old) src"
    using c(3) append_take_drop_id [of "length old" "drop c src"] by (simp add: add.commute)
  with slice_append_rest [OF c(1), of src]
  have split: "drop i src = slice i c src @ old @ drop (c + length old) src" by simp
  have "pre' = slice i c src" if eq: "drop i src = pre' @ old @ rest'" for pre' rest'
    using candidate_split [OF assms(2) eq] assms(1) by simp
  with c(1,2) split show ?thesis by (simp add: sole_split_def)
qed

lemma singleton_list: "distinct xs \<Longrightarrow> set xs = {x} \<Longrightarrow> xs = [x]"
  by (cases xs; cases "tl xs") auto

lemma sole_candidates:
  assumes "sole_split (drop i src) pre old rest" and "old \<noteq> []"
  shows "candidates src i old = [i + length pre]"
proof (rule singleton_list)
  show "distinct (candidates src i old)" by (simp add: candidates_def)
  have "j = i + length pre" if j: "j \<in> set (candidates src i old)" for j
  proof -
    from j have j: "i \<le> j" "take (length old) (drop j src) = old" by (simp_all add: in_candidates)
    have "drop j src = old @ drop (j + length old) src"
      using j(2) append_take_drop_id [of "length old" "drop j src"] by (simp add: add.commute)
    with slice_append_rest [OF j(1), of src]
    have "drop i src = slice i j src @ old @ drop (j + length old) src" by simp
    from sole_split_pre [OF assms(1) this] candidate_split(1) [OF assms(2) this] j(1)
    show ?thesis
      using candidate_split(1) [OF assms(2) sole_split_eq [OF assms(1)]] in_candidates [of j src i old] that
      by (auto simp: slice_def)
  qed
  with candidate_split(1) [OF assms(2) sole_split_eq [OF assms(1)]]
  show "set (candidates src i old) = {i + length pre}" by blast
qed

lemma apply_hunks_patched:
  assumes "apply_hunks src ls i out = Inr (out', j)"
  shows "\<exists>hs res. parse_hunks ls = Some hs \<and> patched i (drop i src) hs res \<and>
    out' @ drop j src = out @ res"
  using assms
proof (induction src ls i out arbitrary: out' j rule: apply_hunks.induct)
  case (1 src i out)
  then show ?case by (auto intro: patched.no_hunk)
next
  case (2 src header ls i out)
  from "2.prems" obtain os es rest start where
    h: "hunk_header header = Some os" and ce: "collect_entries ls [] = Inr (es, rest)" and
    st: "find_unique_hunk_start src i (old_lines es) (hint_of os) = Some start" and
    run: "apply_hunks src rest (start + length (old_lines es)) (out @ slice i start src @ new_lines es)
      = Inr (out', j)"
    by (auto simp: Let_def split: option.splits sum.splits)
  from "2.IH" [OF h ce refl refl refl st run] obtain hs res where
    ph: "parse_hunks rest = Some hs" and
    pt: "patched (start + length (old_lines es)) (drop (start + length (old_lines es)) src) hs res" and
    eq: "out' @ drop j src = (out @ slice i start src @ new_lines es) @ res" by blast
  let ?h = "(hint_of os, old_lines es, new_lines es)"
  have "patched i (drop i src) (?h # hs) (slice i start src @ new_lines es @ res)"
  proof (cases "old_lines es = []")
    case True
    with st obtain h where "hint_of os = Some h" "i \<le> h" "start = h"
      by (auto simp: find_unique_hunk_start_def split: option.splits if_splits)
    with True pt show ?thesis
      using patched.insert_at [of i h "drop i src" hs res "new_lines es"]
      by (simp add: slice_def)
  next
    case False
    with st have "candidates src i (old_lines es) = [start]"
      by (auto simp: find_unique_hunk_start_def split: list.splits)
    from candidates_sole [OF this False] have s: "i \<le> start"
      "sole_split (drop i src) (slice i start src) (old_lines es) (drop (start + length (old_lines es)) src)"
      and "start \<le> length src"
      by auto
    then have "length (slice i start src) = start - i" by (simp add: slice_def)
    with s(1) pt have "patched (i + length (slice i start src) + length (old_lines es))
        (drop (start + length (old_lines es)) src) hs res" by simp
    from patched.replace_old [OF False s(2) this] show ?thesis .
  qed
  with h ce ph eq show ?case by auto
qed

lemma apply_unified_diff_sound:
  assumes "apply_unified_diff content patch = Inr result"
  shows "\<exists>ls hs out. skip_file_header (splitlines_keep patch) = Inr ls \<and> parse_hunks ls = Some hs \<and>
    hs \<noteq> [] \<and> patched 0 (splitlines_keep content) hs out \<and> result = concat out"
proof -
  from assms obtain ls out' j where ls: "skip_file_header (splitlines_keep patch) = Inr ls" "ls \<noteq> []"
    and run: "apply_hunks (splitlines_keep content) ls 0 [] = Inr (out', j)"
    and res: "result = concat (out' @ drop j (splitlines_keep content))"
    by (auto simp: apply_unified_diff_def Let_def rbind_eq_Inr split: if_splits)
  from apply_hunks_patched [OF run] obtain hs out where
    hs: "parse_hunks ls = Some hs" "patched 0 (splitlines_keep content) hs out"
      "out' @ drop j (splitlines_keep content) = out" by auto
  have "hs \<noteq> []"
    using hs(1) ls(2) by (cases ls) (auto split: option.splits sum.splits prod.splits)
  with ls hs res show ?thesis by blast
qed

text \<open>Conversely, the engine finds every patch that has a meaning.\<close>

lemma patched_apply_hunks:
  assumes "parse_hunks ls = Some hs" and "patched i (drop i src) hs res"
  shows "\<exists>out' j. apply_hunks src ls i out = Inr (out', j) \<and> out' @ drop j src = out @ res"
  using assms
proof (induction ls arbitrary: hs i res out rule: parse_hunks.induct)
  case 1
  then show ?case by (auto elim: patched_no_hunk)
next
  case (2 header ls)
  from "2.prems"(1) obtain os es rest hs' where
    h: "hunk_header header = Some os" and ce: "collect_entries ls [] = Inr (es, rest)" and
    ph: "parse_hunks rest = Some hs'" and hs: "hs = (hint_of os, old_lines es, new_lines es) # hs'"
    by (auto split: option.splits sum.splits)
  have "\<exists>start res'. find_unique_hunk_start src i (old_lines es) (hint_of os) = Some start \<and>
      patched (start + length (old_lines es)) (drop (start + length (old_lines es)) src) hs' res' \<and>
      res = slice i start src @ new_lines es @ res'"
    using "2.prems"(2) unfolding hs
  proof (cases rule: patched.cases)
    case (replace_old pre rest' res')
    then have sole: "sole_split (drop i src) pre (old_lines es) rest'" and ne: "old_lines es \<noteq> []"
      by simp_all
    from candidate_split(2,3) [OF ne sole_split_eq [OF sole]] sole_candidates [OF sole ne] replace_old
    show ?thesis by (intro exI [of _ "i + length pre"]) (auto simp: find_unique_hunk_start_def)
  next
    case (insert_at h res')
    then show ?thesis
      by (intro exI [of _ h]) (auto simp: find_unique_hunk_start_def slice_def)
  qed
  then obtain start res' where
    st: "find_unique_hunk_start src i (old_lines es) (hint_of os) = Some start" and
    pt: "patched (start + length (old_lines es)) (drop (start + length (old_lines es)) src) hs' res'" and
    res: "res = slice i start src @ new_lines es @ res'" by blast
  from "2.IH" [OF h ce refl ph pt, of "out @ slice i start src @ new_lines es"] h ce st res
  show ?case by (simp add: Let_def)
qed

text \<open>A patch means one thing: hunks with old lines leave no choice, hunks without follow their hint.\<close>

lemma patched_deterministic: "patched at src hs out \<Longrightarrow> patched at src hs out' \<Longrightarrow> out' = out"
proof (induction arbitrary: out' rule: patched.induct)
  case (no_hunk at src)
  then show ?case by (auto elim: patched_no_hunk)
next
  case (replace_old old src pre rest at hs out hint new)
  obtain pre' rest' o' where
    p: "sole_split src pre' old rest'" "patched (at + length pre' + length old) rest' hs o'"
       "out' = pre' @ new @ o'"
    using replace_old.prems replace_old.hyps(1) by (cases rule: patched.cases) auto
  from sole_split_unique [OF replace_old.hyps(2) p(1)] have "pre' = pre" "rest' = rest" .
  with p replace_old.IH show ?case by simp
next
  case (insert_at at h src hs out new)
  obtain o' where "patched h (drop (h - at) src) hs o'" "out' = take (h - at) src @ new @ o'"
    using insert_at.prems by (cases rule: patched.cases) auto
  with insert_at.IH show ?case by simp
qed

lemma apply_unified_diff_complete:
  assumes "skip_file_header (splitlines_keep patch) = Inr ls" and "parse_hunks ls = Some hs"
    and "hs \<noteq> []" and "patched 0 (splitlines_keep content) hs out"
  shows "apply_unified_diff content patch = Inr (concat out)"
proof -
  have "patched 0 (drop 0 (splitlines_keep content)) hs out" using assms(4) by simp
  from patched_apply_hunks [OF assms(2) this, of "[]"] obtain out' j where
    "apply_hunks (splitlines_keep content) ls 0 [] = Inr (out', j)"
    "out' @ drop j (splitlines_keep content) = out" by auto
  moreover have "ls \<noteq> []" using assms(2,3) by auto
  ultimately show ?thesis
    using assms(1) by (auto simp: apply_unified_diff_def Let_def)
qed

end
