(* ===== verification/Source_Store.thy ===== *)
theory Source_Store
  imports Revision_Bindings Kernel_Hash Unified_Diff
begin

text \<open>
  \<^verbatim>\<open>SourceStore\<close> of \<^verbatim>\<open>source_store/service.py\<close>: the source trees of revisions as
  content-addressed graphs. A tree's files are its \<^verbatim>\<open>HAS_FILE\<close> edges to interned
  \<^verbatim>\<open>SourceContent\<close> nodes; a revision edits a private working tree that is copied from the
  interned one on the first write. Every method is an operation on the graph; \<open>sha\<close> is the digest
  and \<open>now\<close> the clock. The service runs each method in a unit of work (\<open>transactional\<close>): inside
  another method the decorator only nests, which changes neither result nor graph, so nested
  calls are plain calls here.
\<close>

section \<open>Files\<close>

fun role_text :: "source_role \<Rightarrow> string" where
  "role_text Role_action = ''action''"
| "role_text Role_surface = ''surface''"
| "role_text Role_migration = ''migration''"
| "role_text Role_test = ''test''"
| "role_text Role_helper = ''helper''"
| "role_text Role_config = ''config''"

definition role_of_text :: "string \<Rightarrow> source_role option" where
  "role_of_text s = find (\<lambda>r. role_text r = s)
     [Role_action, Role_surface, Role_migration, Role_test, Role_helper, Role_config]"

lemma role_of_text_inverse [simp]: "role_of_text (role_text r) = Some r"
  by (cases r) (simp_all add: role_of_text_def)

text \<open>\<^verbatim>\<open>len(content.encode("utf-8"))\<close>.\<close>

definition utf8_len :: "string \<Rightarrow> int" where
  "utf8_len s = sum_list (map (\<lambda>c. if (of_char c :: nat) < 128 then 1 else 2) s)"

definition prop_str :: "(string, json) dict \<Rightarrow> string \<Rightarrow> string option" where
  "prop_str p k = (case dict_get p k of Some (JStr s) \<Rightarrow> Some s | _ \<Rightarrow> None)"

definition hydrate :: "string \<Rightarrow> (string, json) dict \<Rightarrow> source_content \<Rightarrow> exn + source_file" where
  "hydrate tid p b =
     (case prop_str p ''path'' of
        None \<Rightarrow> Inl (KeyError ''path'')
      | Some path \<Rightarrow>
          (case role_of_text (case prop_str p ''role'' of None \<Rightarrow> ''helper'' | Some r \<Rightarrow> r) of
             None \<Rightarrow> Inl (ValueError ''SourceFile role'')
           | Some role \<Rightarrow> Inr
               \<lparr>file_source_tree_id = tid, file_path = path, file_role = role,
                file_language = (case prop_str p ''language'' of None \<Rightarrow> ''text'' | Some l \<Rightarrow> l),
                file_content = blob_content b, file_content_hash = blob_id b,
                file_size = (case dict_get p ''size'' of
                    Some (JInt n) \<Rightarrow> if n \<noteq> 0 then n else utf8_len (blob_content b)
                  | _ \<Rightarrow> utf8_len (blob_content b))\<rparr>))"

definition tree_ref :: "string \<Rightarrow> node_ref" where
  "tree_ref tid = id_ref ''SourceTree'' tid"

definition file_rows :: "string \<Rightarrow> node_value graph \<Rightarrow> edge list" where
  "file_rows tid g = list_edges (Some (tree_ref tid)) (Some ''HAS_FILE'') None g"

definition hydrate_row :: "string \<Rightarrow> node_value graph \<Rightarrow> edge \<Rightarrow> exn + source_file" where
  "hydrate_row tid g e =
     rbind (coll_item source_contents_coll (key (ref_id (edge_to e))) g) (hydrate tid (edge_props e))"

definition list_source_tree :: "string \<Rightarrow> node_value graph \<Rightarrow> exn + source_file list" where
  "list_source_tree tid g =
     rbind (map_result (hydrate_row tid g) (file_rows tid g)) (\<lambda>fs. Inr (sort_key file_path fs))"

definition read_source_file :: "string \<Rightarrow> string \<Rightarrow> node_value graph \<Rightarrow> exn + source_file" where
  "read_source_file tid path g =
     rbind (list_source_tree tid g) (\<lambda>fs.
       case find (\<lambda>f. file_path f = path) fs of
         Some f \<Rightarrow> Inr f
       | None \<Rightarrow> Inl (KeyError (tid @ '', '' @ path)))"

record file_range =
  range_content :: string
  range_total_lines :: nat
  range_offset :: int
  range_limit :: "int option"

text \<open>\<^verbatim>\<open>lines[start:end]\<close> with \<open>offset\<close> counting from one.\<close>

definition range_of :: "string \<Rightarrow> int option \<Rightarrow> int option \<Rightarrow> exn + file_range" where
  "range_of content offset limit =
     (let lines = splitlines_keep content;
          total = length lines;
          start = (case offset of None \<Rightarrow> 0 | Some o' \<Rightarrow> nat (o' - 1))
      in if (case offset of Some o' \<Rightarrow> o' < 1 | None \<Rightarrow> False)
         then Inl (ValueError ''read_source_file offset must be >= 1'')
         else if (case limit of Some l \<Rightarrow> l < 1 | None \<Rightarrow> False)
         then Inl (ValueError ''read_source_file limit must be >= 1'')
         else Inr
           \<lparr>range_content = concat (slice start
                (case limit of None \<Rightarrow> total | Some l \<Rightarrow> start + nat l) lines),
            range_total_lines = total,
            range_offset = (case offset of None \<Rightarrow> 1 | Some o' \<Rightarrow> o'),
            range_limit = limit\<rparr>)"

definition read_source_file_range ::
  "string \<Rightarrow> string \<Rightarrow> int option \<Rightarrow> int option \<Rightarrow> node_value graph \<Rightarrow> exn + source_file \<times> file_range" where
  "read_source_file_range tid path offset limit g =
     rbind (read_source_file tid path g) (\<lambda>f.
     rbind (range_of (file_content f) offset limit) (\<lambda>r. Inr (f, r)))"

section \<open>Search\<close>

record search_match =
  match_path :: string
  match_line :: nat
  match_snippet :: string
  match_before :: "string list"
  match_after :: "string list"

definition search_limit :: int where
  "search_limit = 50"

text \<open>The matches of one file, with their context lines.\<close>

definition file_matches :: "(string \<Rightarrow> bool) \<Rightarrow> nat \<Rightarrow> source_file \<Rightarrow> search_match list" where
  "file_matches hit context f =
     (let lines = splitlines (file_content f) in
      map (\<lambda>n. \<lparr>match_path = file_path f, match_line = n,
             match_snippet = take 240 (lines ! (n - 1)),
             match_before = map (take 240) (slice (n - 1 - context) (n - 1) lines),
             match_after = map (take 240) (slice n (min (length lines) (n + context)) lines)\<rparr>)
        (filter (\<lambda>n. hit (lines ! (n - 1))) [1 ..< Suc (length lines)]))"

text \<open>
  \<open>compile_re\<close> is the regular-expression compiler (\<open>None\<close> for an invalid pattern), \<open>glob\<close> the
  optional file-name filter.
\<close>

definition search_source_tree ::
  "(string \<Rightarrow> (string \<Rightarrow> bool) option) \<Rightarrow> string \<Rightarrow> string \<Rightarrow> (string \<Rightarrow> bool) option \<Rightarrow> int \<Rightarrow> int \<Rightarrow>
   node_value graph \<Rightarrow> exn + search_match list" where
  "search_source_tree compile_re tid pattern glob limit context g =
     (if limit < 1 then Inl (ValueError ''search_source_tree limit must be >= 1'')
      else if context < 0 then Inl (ValueError ''search_source_tree context must be >= 0'')
      else (case compile_re pattern of
          None \<Rightarrow> Inl (ValueError ''invalid search pattern: '')
        | Some hit \<Rightarrow>
            rbind (list_source_tree tid g) (\<lambda>fs.
              Inr (take (nat (min limit search_limit))
                (concat (map (file_matches hit (nat context))
                  (filter (\<lambda>f. case glob of None \<Rightarrow> True | Some p \<Rightarrow> p (file_path f)) fs)))))))"

section \<open>Primitive writes\<close>

definition working_id :: "string \<Rightarrow> string" where
  "working_id rid = rid @ ''.source''"

definition save_tree :: "source_tree \<Rightarrow> node_value graph \<Rightarrow> node_value graph" where
  "save_tree t = coll_save source_trees_coll t"

definition new_tree ::
  "int \<Rightarrow> string \<Rightarrow> source_tree_status \<Rightarrow> string \<Rightarrow> revision_owner_kind option \<Rightarrow> string option \<Rightarrow> source_tree" where
  "new_tree now i st h k own =
     \<lparr>tree_id = i, tree_status = st, tree_tree_hash = h, tree_owner_kind = k, tree_owner_id = own,
      tree_created_at = now, tree_updated_at = now\<rparr>"

definition interned_empty_tree :: "(string \<Rightarrow> string) \<Rightarrow> int \<Rightarrow> (node_value graph, source_tree) op" where
  "interned_empty_tree sha now g =
     (let h = empty_tree_hash sha in
      case coll_get source_trees_coll (key h) g of
        Some t \<Rightarrow> (Inr t, g)
      | None \<Rightarrow> (let t = new_tree now h Tree_interned h None None in (Inr t, save_tree t g)))"

definition create_working_tree ::
  "(string \<Rightarrow> string) \<Rightarrow> int \<Rightarrow> string \<Rightarrow> revision_owner_kind \<Rightarrow> (node_value graph, source_tree) op" where
  "create_working_tree sha now rid kind g =
     (let t = new_tree now (working_id rid) Tree_draft (empty_tree_hash sha) (Some kind) (Some rid)
      in (Inr t, save_tree t g))"

definition unlink_path :: "string \<Rightarrow> string \<Rightarrow> node_value graph \<Rightarrow> node_value graph" where
  "unlink_path tid path = delete_edge (tree_ref tid) ''HAS_FILE'' None (Some [(''path'', JStr path)])"

definition ensure_blob :: "int \<Rightarrow> string \<Rightarrow> string \<Rightarrow> node_value graph \<Rightarrow> node_value graph" where
  "ensure_blob now h content g =
     (case coll_get source_contents_coll (key h) g of
        Some _ \<Rightarrow> g
      | None \<Rightarrow> coll_save source_contents_coll
          \<lparr>blob_id = h, blob_content = content, blob_created_at = now\<rparr> g)"

definition file_props :: "source_file \<Rightarrow> (string, json) dict" where
  "file_props f =
     [(''path'', JStr (file_path f)), (''role'', JStr (role_text (file_role f))),
      (''language'', JStr (file_language f)), (''size'', JInt (file_size f))]"

definition put_file :: "int \<Rightarrow> string \<Rightarrow> source_file \<Rightarrow> (node_value graph, source_file) op" where
  "put_file now tid f g =
     (let g1 = ensure_blob now (file_content_hash f) (file_content f) (unlink_path tid (file_path f) g)
      in (Inr (f\<lparr>file_source_tree_id := tid\<rparr>),
          create_edge (tree_ref tid) ''HAS_FILE'' (id_ref ''SourceContent'' (file_content_hash f))
            (file_props f) g1))"

definition write_blob ::
  "(string \<Rightarrow> string) \<Rightarrow> int \<Rightarrow> string \<Rightarrow> string \<Rightarrow> string \<Rightarrow> source_role \<Rightarrow> string \<Rightarrow>
   (node_value graph, source_file) op" where
  "write_blob sha now tid path content role language g =
     (let h = source_content_id sha content in
      put_file now tid
        \<lparr>file_source_tree_id = tid, file_path = path, file_role = role, file_language = language,
         file_content = content, file_content_hash = h, file_size = utf8_len content\<rparr>
        (ensure_blob now h content g))"

definition delete_tree_node :: "string \<Rightarrow> node_value graph \<Rightarrow> node_value graph" where
  "delete_tree_node tid g =
     coll_delete source_trees_coll (key tid) (delete_edge (tree_ref tid) ''HAS_FILE'' None None g)"

definition delete_working_tree :: "string \<Rightarrow> (node_value graph, unit) op" where
  "delete_working_tree tid g =
     (case coll_get source_trees_coll (key tid) g of
        None \<Rightarrow> (Inr (), g)
      | Some t \<Rightarrow>
          if tree_status t \<noteq> Tree_draft
          then (Inl (ImmutableRevisionError (''cannot delete interned SourceTree '' @ tid)), g)
          else (Inr (), delete_tree_node tid g))"

definition listing_rows :: "source_file list \<Rightarrow> listing_row list" where
  "listing_rows fs = map (\<lambda>f. (file_path f, file_content_hash f, role_text (file_role f), file_language f)) fs"

definition refresh_tree_hash :: "(string \<Rightarrow> string) \<Rightarrow> int \<Rightarrow> string \<Rightarrow> (node_value graph, unit) op" where
  "refresh_tree_hash sha now tid g =
     (case rbind (list_source_tree tid g) (\<lambda>fs.
             rbind (coll_item source_trees_coll (key tid) g) (\<lambda>t. Inr (fs, t))) of
        Inl e \<Rightarrow> (Inl e, g)
      | Inr (fs, t) \<Rightarrow>
          (Inr (), save_tree (t\<lparr>tree_tree_hash := listing_hash sha (listing_rows fs), tree_updated_at := now\<rparr>) g))"

section \<open>Copy on write and interning\<close>

definition put_files :: "int \<Rightarrow> string \<Rightarrow> source_file list \<Rightarrow> (node_value graph, unit) op" where
  "put_files now tid = for_each (\<lambda>f. bindE (put_file now tid f) (\<lambda>_. ret ()))"

fun owner_of_label :: "string \<Rightarrow> revision_owner_kind" where
  "owner_of_label l = (if l = ''ApplicationRevision'' then Owner_ApplicationRevision
     else if l = ''ExperienceRevision'' then Owner_ExperienceRevision else Owner_SystemRevision)"

definition ensure_writable :: "int \<Rightarrow> string \<Rightarrow> (node_value graph, source_tree) op" where
  "ensure_writable now rid g =
     (case rbind (tree rid g) (\<lambda>t. rbind (resolve rid g) (\<lambda>l. Inr (t, l))) of
        Inl e \<Rightarrow> (Inl e, g)
      | Inr (current, label) \<Rightarrow>
          if tree_status current = Tree_draft then (Inr current, g)
          else
            (let working = new_tree now (working_id rid) Tree_draft (tree_tree_hash current)
                             (Some (owner_of_label label)) (Some rid);
                 g1 = save_tree working g
             in bindE (lift_result (list_source_tree (tree_id current) g1)) (\<lambda>fs.
                bindE (put_files now (tree_id working) fs) (\<lambda>_.
                bindE (set_tree rid (tree_id working)) (\<lambda>_.
                bindE delete_interned_orphans (\<lambda>_.
                ret working)))) g1))"

definition intern_tree :: "(string \<Rightarrow> string) \<Rightarrow> int \<Rightarrow> string \<Rightarrow> (node_value graph, source_tree) op" where
  "intern_tree sha now rid g =
     (case rbind (tree rid g) (\<lambda>t. rbind (list_source_tree (tree_id t) g) (\<lambda>fs. Inr (t, fs))) of
        Inl e \<Rightarrow> (Inl e, g)
      | Inr (current, fs) \<Rightarrow>
          (let h = listing_hash sha (listing_rows fs);
               found = coll_get source_trees_coll (key h) g;
               reuse = (case found of Some t \<Rightarrow> tree_status t = Tree_interned | None \<Rightarrow> False);
               interned = (if reuse then the found else new_tree now h Tree_interned h None None)
           in bindE
                (if reuse then ret ()
                 else bindE (modify (save_tree interned)) (\<lambda>_.
                      bindE (\<lambda>g. (list_source_tree (tree_id current) g, g)) (\<lambda>fs'.
                      put_files now (tree_id interned) fs'))) (\<lambda>_.
              bindE
                (if tree_id current \<noteq> tree_id interned
                 then bindE (set_tree rid (tree_id interned)) (\<lambda>_.
                      if tree_status current = Tree_draft
                      then modify (delete_tree_node (tree_id current)) else ret ())
                 else ret ()) (\<lambda>_.
              bindE delete_interned_orphans (\<lambda>_.
              ret interned))) g))"

section \<open>Batches\<close>

datatype source_operation = Op_write | Op_delete | Op_rename

record source_update =
  upd_operation :: source_operation
  upd_path :: string
  upd_content :: "string option"
  upd_new_path :: "string option"
  upd_role :: source_role
  upd_language :: string
  upd_expected_hash :: "string option"

text \<open>Python truth of an optional string.\<close>

definition truthy :: "string option \<Rightarrow> bool" where
  "truthy x \<longleftrightarrow> x \<noteq> None \<and> x \<noteq> Some []"

text \<open>The message of a hash conflict; a missing file has the hash \<^verbatim>\<open>None\<close>.\<close>

definition mismatch_message :: "string \<Rightarrow> string \<Rightarrow> string option \<Rightarrow> string option \<Rightarrow> string" where
  "mismatch_message what subject expected got =
     what @ '' conflict for '' @ subject @ '': expected '' @ the expected @ '', got '' @
     (case got of None \<Rightarrow> ''None'' | Some h \<Rightarrow> h)"

type_synonym by_path = "(string, source_file) dict"

definition check_change :: "by_path \<Rightarrow> source_update \<Rightarrow> exn + unit" where
  "check_change files c =
     (let current = dict_get files (upd_path c) in
      if truthy (upd_expected_hash c) \<and>
         (case current of None \<Rightarrow> True | Some f \<Rightarrow> Some (file_content_hash f) \<noteq> upd_expected_hash c)
      then Inl (source_conflict (mismatch_message ''source'' (upd_path c) (upd_expected_hash c)
             (map_option file_content_hash current)))
      else if upd_operation c \<in> {Op_delete, Op_rename} \<and> current = None
      then Inl (source_conflict (''source path does not exist: '' @ upd_path c))
      else if upd_operation c = Op_rename \<and> \<not> truthy (upd_new_path c)
      then Inl (ValueError ''rename requires new_path'')
      else if upd_operation c = Op_rename \<and> dict_get files (the (upd_new_path c)) \<noteq> None
      then Inl (source_conflict (''target path already exists: '' @ the (upd_new_path c)))
      else Inr ())"

definition validate_batch :: "string \<Rightarrow> source_update list \<Rightarrow> node_value graph \<Rightarrow> exn + by_path" where
  "validate_batch tid changes g =
     rbind (list_source_tree tid g) (\<lambda>fs.
       let files = map (\<lambda>f. (file_path f, f)) fs in
       rbind (map_result (check_change files) changes) (\<lambda>_. Inr files))"

definition apply_change ::
  "(string \<Rightarrow> string) \<Rightarrow> int \<Rightarrow> string \<Rightarrow> source_update \<Rightarrow> by_path \<times> source_file list \<Rightarrow>
   (node_value graph, by_path \<times> source_file list) op" where
  "apply_change sha now tid c st =
     (case st of (files, written) \<Rightarrow>
       let current = dict_get files (upd_path c) in
       (case upd_operation c of
          Op_write \<Rightarrow>
            (case upd_content c of
               None \<Rightarrow> raise AssertionError
             | Some content \<Rightarrow>
                 bindE (write_blob sha now tid (upd_path c) content
                     (case current of None \<Rightarrow> upd_role c | Some f \<Rightarrow> file_role f)
                     (case current of None \<Rightarrow> upd_language c | Some f \<Rightarrow> file_language f)) (\<lambda>f.
                 ret (dict_set (upd_path c) f files, written @ [f])))
        | Op_delete \<Rightarrow>
            (case current of
               None \<Rightarrow> raise AssertionError
             | Some _ \<Rightarrow> bindE (modify (unlink_path tid (upd_path c))) (\<lambda>_.
                 ret (dict_pop (upd_path c) files, written)))
        | Op_rename \<Rightarrow>
            (case (current, upd_new_path c) of
               (Some f, Some new_path) \<Rightarrow>
                 bindE (modify (unlink_path tid (upd_path c))) (\<lambda>_.
                 bindE (put_file now tid (f\<lparr>file_path := new_path\<rparr>)) (\<lambda>f'.
                 ret (dict_set new_path f' (dict_pop (upd_path c) files), written @ [f'])))
             | _ \<Rightarrow> raise AssertionError)))"

fun apply_changes ::
  "(string \<Rightarrow> string) \<Rightarrow> int \<Rightarrow> string \<Rightarrow> source_update list \<Rightarrow> by_path \<times> source_file list \<Rightarrow>
   (node_value graph, by_path \<times> source_file list) op" where
  "apply_changes sha now tid [] st = ret st"
| "apply_changes sha now tid (c # cs) st =
     bindE (apply_change sha now tid c st) (apply_changes sha now tid cs)"

definition batch_update_working_tree ::
  "(string \<Rightarrow> string) \<Rightarrow> int \<Rightarrow> string \<Rightarrow> source_update list \<Rightarrow> string option \<Rightarrow>
   (node_value graph, source_file list) op" where
  "batch_update_working_tree sha now tid changes expected_tree_hash g =
     (case coll_item source_trees_coll (key tid) g of
        Inl e \<Rightarrow> (Inl e, g)
      | Inr t \<Rightarrow>
          if tree_status t \<noteq> Tree_draft
          then (Inl (ImmutableRevisionError (''SourceTree '' @ tid @ '' is immutable'')), g)
          else if truthy expected_tree_hash \<and> Some (tree_tree_hash t) \<noteq> expected_tree_hash
          then (Inl (source_conflict (mismatch_message ''source tree'' tid expected_tree_hash
             (Some (tree_tree_hash t)))), g)
          else bindE (lift_result (validate_batch tid changes g)) (\<lambda>files.
               bindE (apply_changes sha now tid changes (files, [])) (\<lambda>(files', written).
               bindE (refresh_tree_hash sha now tid) (\<lambda>_.
               bindE delete_interned_orphans (\<lambda>_.
               ret written)))) g)"

definition batch_update_revision ::
  "(string \<Rightarrow> string) \<Rightarrow> int \<Rightarrow> string \<Rightarrow> source_update list \<Rightarrow> string option \<Rightarrow>
   (node_value graph, source_file list) op" where
  "batch_update_revision sha now rid changes expected_tree_hash g =
     (case tree rid g of
        Inl e \<Rightarrow> (Inl e, g)
      | Inr current \<Rightarrow>
          if truthy expected_tree_hash \<and> Some (tree_tree_hash current) \<noteq> expected_tree_hash
          then (Inl (source_conflict (mismatch_message ''source tree'' rid expected_tree_hash
             (Some (tree_tree_hash current)))), g)
          else bindE (lift_result (validate_batch (tree_id current) changes g)) (\<lambda>_.
               bindE (ensure_writable now rid) (\<lambda>t.
               batch_update_working_tree sha now (tree_id t) changes None)) g)"

section \<open>The public methods\<close>

definition write_source_file ::
  "(string \<Rightarrow> string) \<Rightarrow> int \<Rightarrow> string \<Rightarrow> string \<Rightarrow> string \<Rightarrow> source_role \<Rightarrow> string \<Rightarrow> string option \<Rightarrow>
   (node_value graph, source_file) op" where
  "write_source_file sha now rid path content role language expected_hash =
     bindE (batch_update_revision sha now rid
       [\<lparr>upd_operation = Op_write, upd_path = path, upd_content = Some content, upd_new_path = None,
         upd_role = role, upd_language = language, upd_expected_hash = expected_hash\<rparr>] None)
     (\<lambda>written. case written of f # _ \<Rightarrow> ret f | [] \<Rightarrow> raise IndexError)"

definition rename_source_file ::
  "(string \<Rightarrow> string) \<Rightarrow> int \<Rightarrow> string \<Rightarrow> string \<Rightarrow> string \<Rightarrow> string option \<Rightarrow> (node_value graph, source_file) op" where
  "rename_source_file sha now rid path new_path expected_hash =
     bindE (batch_update_revision sha now rid
       [\<lparr>upd_operation = Op_rename, upd_path = path, upd_content = None, upd_new_path = Some new_path,
         upd_role = Role_helper, upd_language = ''text'', upd_expected_hash = expected_hash\<rparr>] None)
     (\<lambda>written. case written of f # _ \<Rightarrow> ret f | [] \<Rightarrow> raise IndexError)"

definition delete_source_file ::
  "(string \<Rightarrow> string) \<Rightarrow> int \<Rightarrow> string \<Rightarrow> string \<Rightarrow> string option \<Rightarrow> (node_value graph, unit) op" where
  "delete_source_file sha now rid path expected_hash =
     bindE (batch_update_revision sha now rid
       [\<lparr>upd_operation = Op_delete, upd_path = path, upd_content = None, upd_new_path = None,
         upd_role = Role_helper, upd_language = ''text'', upd_expected_hash = expected_hash\<rparr>] None)
     (\<lambda>_. ret ())"

text \<open>A conflict of the patch is raised again with the file's path and hashes.\<close>

definition as_file_conflict :: "string \<Rightarrow> string option \<Rightarrow> source_file \<Rightarrow> exn \<Rightarrow> exn" where
  "as_file_conflict path expected_hash f e =
     (case e of
        SourceConflictError c \<Rightarrow> SourceConflictError (c\<lparr>conflict_path := Some path,
          conflict_expected_hash := (if truthy expected_hash then expected_hash else Some (file_content_hash f)),
          conflict_current_hash := Some (file_content_hash f)\<rparr>)
      | _ \<Rightarrow> e)"

definition apply_source_patch ::
  "(string \<Rightarrow> string) \<Rightarrow> int \<Rightarrow> string \<Rightarrow> string \<Rightarrow> string \<Rightarrow> string option \<Rightarrow> (node_value graph, source_file) op" where
  "apply_source_patch sha now rid path patch expected_hash g =
     (case rbind (tree rid g) (\<lambda>t. read_source_file (tree_id t) path g) of
        Inl e \<Rightarrow> (Inl e, g)
      | Inr current \<Rightarrow>
          if truthy expected_hash \<and> Some (file_content_hash current) \<noteq> expected_hash
          then (Inl (SourceConflictError
             \<lparr>conflict_message = mismatch_message ''source'' path expected_hash
                 (Some (file_content_hash current)), conflict_path = Some path,
              conflict_expected_hash = expected_hash,
              conflict_current_hash = Some (file_content_hash current),
              conflict_failing_hunk = None, conflict_nearest_lines = []\<rparr>), g)
          else (case apply_unified_diff (file_content current) patch of
             Inl e \<Rightarrow> (Inl (as_file_conflict path expected_hash current e), g)
           | Inr new_content \<Rightarrow>
               write_source_file sha now rid path new_content (file_role current) (file_language current)
                 (Some (file_content_hash current)) g))"

end
