(* ===== verification/Source_Laws.thy ===== *)
theory Source_Laws
  imports Source_Store
begin

text \<open>
  Laws of the source store. A tree is seen as a map from paths to files; every primitive write
  is an update of that map, a batch is the fold of its changes, and collection leaves the bound
  trees alone. The store invariants are those of the earlier theories together with content
  addressing: a blob is stored under the hash of its own content.
\<close>

section \<open>Reading a tree\<close>

lemma map_result_iff: "map_result f xs = Inr ys \<longleftrightarrow> list_all2 (\<lambda>x y. f x = Inr y) xs ys"
  by (induction xs arbitrary: ys) (auto simp: rbind_eq_Inr list_all2_Cons1)

definition path_of :: "edge \<Rightarrow> json option" where
  "path_of e = dict_get (edge_props e) ''path''"

definition files_map :: "source_file list \<Rightarrow> string \<Rightarrow> source_file option" where
  "files_map fs = map_of (map (\<lambda>f. (file_path f, f)) fs)"

lemma files_map_Nil [simp]: "files_map [] = Map.empty"
  by (simp add: files_map_def)

lemma files_map_Cons [simp]: "files_map (f # fs) = (files_map fs)(file_path f \<mapsto> f)"
  by (simp add: files_map_def)

lemma files_map_SomeD: "files_map fs p = Some f \<Longrightarrow> f \<in> set fs \<and> file_path f = p"
  by (auto simp: files_map_def dest: map_of_SomeD)

lemma files_map_SomeI: "distinct (map file_path fs) \<Longrightarrow> f \<in> set fs \<Longrightarrow> files_map fs (file_path f) = Some f"
  by (induction fs) (auto simp: rev_image_eqI)

lemma files_map_cong:
  assumes "distinct (map file_path fs)" and "distinct (map file_path fs')" and "set fs = set fs'"
  shows "files_map fs = files_map fs'"
proof -
  have "distinct (map fst (map (\<lambda>f. (file_path f, f)) fs))"
    "distinct (map fst (map (\<lambda>f. (file_path f, f)) fs'))"
    using assms by (simp_all add: comp_def)
  from map_of_inject_set [OF this] assms(3) show ?thesis by (simp add: files_map_def)
qed

lemma prop_str_Some: "prop_str p k = Some s \<longleftrightarrow> dict_get p k = Some (JStr s)"
  by (auto simp: prop_str_def split: option.splits json.splits)

lemma hydrate_cases:
  assumes "hydrate tid p b = Inr f"
  obtains path role where "prop_str p ''path'' = Some path"
    "role_of_text (case prop_str p ''role'' of None \<Rightarrow> ''helper'' | Some r \<Rightarrow> r) = Some role"
    "file_source_tree_id f = tid" "file_path f = path" "file_role f = role"
    "file_language f = (case prop_str p ''language'' of None \<Rightarrow> ''text'' | Some l \<Rightarrow> l)"
    "file_content f = blob_content b" "file_content_hash f = blob_id b"
    "file_size f = 0 \<longrightarrow> utf8_len (blob_content b) = 0"
proof -
  obtain path where p: "prop_str p ''path'' = Some path"
    using assms by (cases "prop_str p ''path''") (simp_all add: hydrate_def)
  obtain role where r: "role_of_text (case prop_str p ''role'' of None \<Rightarrow> ''helper'' | Some r \<Rightarrow> r) = Some role"
    using assms p by (cases "role_of_text (case prop_str p ''role'' of None \<Rightarrow> ''helper'' | Some r \<Rightarrow> r)")
      (simp_all add: hydrate_def)
  have "file_size f = 0 \<longrightarrow> utf8_len (blob_content b) = 0"
    using assms p r by (auto simp: hydrate_def split: option.splits json.splits if_splits)
  with p r assms show thesis by (intro that) (auto simp: hydrate_def)
qed

lemma hydrate_path: "hydrate tid p b = Inr f \<Longrightarrow> dict_get p ''path'' = Some (JStr (file_path f))"
  by (erule hydrate_cases) (simp add: prop_str_Some)

lemma hydrate_row_path: "hydrate_row tid g e = Inr f \<Longrightarrow> path_of e = Some (JStr (file_path f))"
  by (auto simp: hydrate_row_def rbind_eq_Inr path_of_def dest: hydrate_path)

lemma hydrated_paths:
  "list_all2 (\<lambda>e f. hydrate_row tid g e = Inr f) es fs \<Longrightarrow> map path_of es = map (\<lambda>f. Some (JStr (file_path f))) fs"
  by (induction rule: list_all2_induct) (auto dest: hydrate_row_path)

lemma distinct_row_paths: "wf_graph g \<Longrightarrow> distinct (map path_of (file_rows tid g))"
proof -
  assume "wf_graph g"
  then have "distinct (map file_key (file_edges g))" by (simp add: wf_graph_def)
  then have d: "distinct (map file_key (filter (\<lambda>e. edge_from e = tree_ref tid) (file_edges g)))"
    by (rule distinct_map_filter)
  have "filter (\<lambda>e. edge_from e = tree_ref tid) (file_edges g) = file_rows tid g"
    by (auto simp: file_edges_def file_rows_def list_edges_def matches_edge_def intro!: filter_cong)
  moreover have "map file_key (file_rows tid g) = map (Pair (tree_ref tid)) (map path_of (file_rows tid g))"
    by (auto simp: file_key_def path_of_def file_rows_def list_edges_def matches_edge_def)
  ultimately have "distinct (map (Pair (tree_ref tid)) (map path_of (file_rows tid g)))"
    using d by metis
  then show ?thesis by (simp only: distinct_map [of "Pair (tree_ref tid)"])
qed

text \<open>What a listing says, row by row.\<close>

lemma listing_unsorted:
  assumes "wf_graph g"
  shows "list_source_tree tid g = Inr fs \<longleftrightarrow>
    (\<exists>us. list_all2 (\<lambda>e f. hydrate_row tid g e = Inr f) (file_rows tid g) us \<and>
       distinct (map file_path us) \<and> fs = sort_key file_path us)"
proof -
  have "distinct (map file_path us)"
    if "list_all2 (\<lambda>e f. hydrate_row tid g e = Inr f) (file_rows tid g) us" for us
  proof -
    from distinct_row_paths [OF assms, of tid] hydrated_paths [OF that]
    have "distinct (map (\<lambda>p. Some (JStr p)) (map file_path us))" by (simp add: comp_def)
    then show ?thesis by (simp only: distinct_map [of "\<lambda>p. Some (JStr p)"])
  qed
  then show ?thesis
    by (auto simp: list_source_tree_def rbind_eq_Inr map_result_iff)
qed

lemma listing_map:
  assumes "wf_graph g" and "list_source_tree tid g = Inr fs"
    and "list_all2 (\<lambda>e f. hydrate_row tid g e = Inr f) (file_rows tid g) us"
  shows "files_map fs = files_map us" and "distinct (map file_path fs)" and "set fs = set us"
proof -
  from assms(2) obtain vs where vs: "list_all2 (\<lambda>e f. hydrate_row tid g e = Inr f) (file_rows tid g) vs"
    "distinct (map file_path vs)" "fs = sort_key file_path vs"
    using listing_unsorted [OF assms(1)] by blast
  from vs(1) assms(3) have "vs = us"
    by (metis Inr_inject list_all2_iff map_result_iff)
  with vs show "files_map fs = files_map us" "distinct (map file_path fs)" "set fs = set us"
    by (auto intro!: files_map_cong simp: distinct_map)
qed

section \<open>Invariants of a store\<close>

text \<open>Edges typed \<^verbatim>\<open>HAS_SOURCE_TREE\<close> point at source trees, those typed \<^verbatim>\<open>HAS_FILE\<close> at blobs.\<close>

definition typed_edges :: "node_value graph \<Rightarrow> bool" where
  "typed_edges g \<longleftrightarrow> (\<forall>e\<in>set (edges g).
     (edge_type e = ''HAS_SOURCE_TREE'' \<longrightarrow> edge_to e = id_ref ''SourceTree'' (ref_id (edge_to e))) \<and>
     (edge_type e = ''HAS_FILE'' \<longrightarrow> edge_to e = id_ref ''SourceContent'' (ref_id (edge_to e))))"

lemma typed_edges_create:
  assumes "typed_edges g" and "t = ''HAS_SOURCE_TREE'' \<Longrightarrow> \<exists>i. to = id_ref ''SourceTree'' i"
    and "t = ''HAS_FILE'' \<Longrightarrow> \<exists>i. to = id_ref ''SourceContent'' i"
  shows "typed_edges (create_edge f t to p g)"
proof -
  have upd: "e \<in> set (update_first P h xs) \<Longrightarrow> e \<in> set xs \<or> (\<exists>x\<in>set xs. P x \<and> e = h x)"
    for P :: "edge \<Rightarrow> bool" and h xs e
    by (induction xs) (auto split: if_splits)
  show ?thesis
    unfolding typed_edges_def
  proof (rule ballI)
    fix e
    assume "e \<in> set (edges (create_edge f t to p g))"
    then have "(edge_type e = t \<and> edge_to e = to) \<or> (\<exists>e'\<in>set (edges g). edge_type e = edge_type e' \<and> edge_to e = edge_to e')"
      by (auto simp: create_edge_def Let_def new_edge_def same_path_def same_edge_def split: if_splits option.splits
          dest!: upd)
    with assms show "(edge_type e = ''HAS_SOURCE_TREE'' \<longrightarrow> edge_to e = id_ref ''SourceTree'' (ref_id (edge_to e))) \<and>
       (edge_type e = ''HAS_FILE'' \<longrightarrow> edge_to e = id_ref ''SourceContent'' (ref_id (edge_to e)))"
      unfolding typed_edges_def by (metis ref_id_id_ref)
  qed
qed

lemma typed_edges_sub: "typed_edges g \<Longrightarrow> set (edges g') \<subseteq> set (edges g) \<Longrightarrow> typed_edges g'"
  by (auto simp: typed_edges_def)

lemma typed_edges_upsert [simp]: "typed_edges (upsert_node l i v g) = typed_edges g"
  by (simp add: typed_edges_def graph_simps)

lemma typed_edges_delete_edge: "typed_edges g \<Longrightarrow> typed_edges (delete_edge f t to p g)"
  by (rule typed_edges_sub) (auto simp: delete_edge_def)

lemma typed_edges_delete_node: "typed_edges g \<Longrightarrow> typed_edges (delete_node l i g)"
  by (rule typed_edges_sub) (auto simp: delete_node_def Let_def)

definition store_ok :: "node_value graph \<Rightarrow> bool" where
  "store_ok g \<longleftrightarrow> typed_graph g \<and> wf_graph g \<and> trees_anchored g \<and> typed_edges g"

text \<open>
  Content addressing over a set \<open>C\<close> of contents: every blob is stored under the hash of its
  content, and that content is in \<open>C\<close>.
\<close>

definition blobs_ok :: "(string \<Rightarrow> string) \<Rightarrow> string set \<Rightarrow> node_value graph \<Rightarrow> bool" where
  "blobs_ok sha C g \<longleftrightarrow> (\<forall>h b. coll_get source_contents_coll (key h) g = Some b \<longrightarrow>
     blob_id b = h \<and> h = source_content_id sha (blob_content b) \<and> blob_content b \<in> C)"

definition has_tree :: "string \<Rightarrow> node_value graph \<Rightarrow> bool" where
  "has_tree tid g \<longleftrightarrow> (''SourceTree'', key tid) \<in> fst ` set (nodes g)"

lemma nodes_upsert_keys: "fst ` set (nodes (upsert_node l i v g)) = insert (l, i) (fst ` set (nodes g))"
  by (simp add: upsert_node_def dom_update)

lemma has_tree_iff: "has_tree tid g \<longleftrightarrow> get_node ''SourceTree'' (key tid) g \<noteq> None"
  by (simp add: has_tree_def get_node_def map_of_eq_None_iff)

lemma edges_create_edge:
  "e \<in> set (edges (create_edge f t to p g)) \<Longrightarrow>
     (edge_from e = f \<and> edge_to e = to) \<or>
     (\<exists>e'\<in>set (edges g). edge_from e = edge_from e' \<and> edge_to e = edge_to e')"
proof -
  have upd: "e \<in> set (update_first P h xs) \<Longrightarrow> e \<in> set xs \<or> (\<exists>x\<in>set xs. P x \<and> e = h x)"
    for P :: "edge \<Rightarrow> bool" and h xs
    by (induction xs) (auto split: if_splits)
  assume "e \<in> set (edges (create_edge f t to p g))"
  then show ?thesis
    by (auto simp: create_edge_def Let_def new_edge_def same_path_def same_edge_def split: if_splits option.splits
        dest!: upd)
qed

lemma anchored_create_edge:
  assumes "trees_anchored g"
    and "ref_label f = ''SourceTree'' \<Longrightarrow> ref_label to \<noteq> ''SourceTree'' \<and> (\<exists>i. f = id_ref ''SourceTree'' i \<and> has_tree i g)"
  shows "trees_anchored (create_edge f t to p g)"
  unfolding trees_anchored_def
proof (intro ballI impI)
  fix e
  assume e: "e \<in> set (edges (create_edge f t to p g))" "ref_label (edge_from e) = ''SourceTree''"
  from edges_create_edge [OF e(1)] show "ref_label (edge_to e) \<noteq> ''SourceTree'' \<and>
    (\<exists>i. edge_from e = id_ref ''SourceTree'' i \<and>
      (''SourceTree'', key i) \<in> fst ` set (nodes (create_edge f t to p g)))"
  proof
    assume "edge_from e = f \<and> edge_to e = to"
    with assms(2) e(2) show ?thesis by (simp add: graph_simps has_tree_def)
  next
    assume "\<exists>e'\<in>set (edges g). edge_from e = edge_from e' \<and> edge_to e = edge_to e'"
    with assms(1) e(2) show ?thesis unfolding trees_anchored_def by (metis nodes_create_edge)
  qed
qed

lemma anchored_delete_edge: "trees_anchored g \<Longrightarrow> trees_anchored (delete_edge f t to p g)"
  by (auto simp: trees_anchored_def delete_edge_def)

lemma anchored_upsert: "trees_anchored g \<Longrightarrow> trees_anchored (upsert_node l i v g)"
  unfolding trees_anchored_def nodes_upsert_keys edges_upsert by (meson insertCI)

lemma store_ok_delete_edge: "store_ok g \<Longrightarrow> store_ok (delete_edge f t to p g)"
  by (simp add: store_ok_def wf_delete_edge anchored_delete_edge typed_edges_delete_edge)

lemma store_ok_save_tree: "store_ok g \<Longrightarrow> store_ok (save_tree t g)"
  by (simp add: store_ok_def save_tree_def source_trees.typed_save source_trees.wf_save)
    (simp add: coll_save_def anchored_upsert)

lemma store_ok_ensure_blob: "store_ok g \<Longrightarrow> store_ok (ensure_blob now h c g)"
  by (auto simp: store_ok_def ensure_blob_def source_contents.typed_save source_contents.wf_save
      coll_save_def anchored_upsert split: option.splits
      dest: source_contents.typed_save source_contents.wf_save)

section \<open>What the primitive writes do to rows and blobs\<close>

lemma tree_ref_eq [simp]: "tree_ref a = tree_ref b \<longleftrightarrow> a = b"
  by (simp add: tree_ref_def)

lemma file_rows_unlink:
  "file_rows tid' (unlink_path tid p g) =
    (if tid' = tid then filter (\<lambda>e. path_of e \<noteq> Some (JStr p)) (file_rows tid g) else file_rows tid' g)"
proof (cases "tid' = tid")
  case True
  then show ?thesis
    by (auto simp: file_rows_def unlink_path_def list_edges_def delete_edge_def matches_edge_def path_of_def
        intro!: filter_cong)
next
  case False
  then show ?thesis
    by (auto simp: file_rows_def unlink_path_def list_edges_def delete_edge_def matches_edge_def
        intro!: filter_cong dest!: sym [of "tree_ref _" "edge_from _"])
qed

lemma file_rows_create:
  assumes "\<forall>e\<in>set (file_rows tid g). path_of e \<noteq> dict_get p ''path''"
  shows "file_rows tid' (create_edge (tree_ref tid) ''HAS_FILE'' to p g) =
    (if tid' = tid then file_rows tid g @ [new_edge (tree_ref tid) ''HAS_FILE'' to p] else file_rows tid' g)"
proof -
  have "find (same_path (tree_ref tid) (dict_get p ''path'')) (edges g) = None"
    using assms by (auto simp: find_None_ball file_rows_def list_edges_def matches_edge_def same_path_def path_of_def)
  then show ?thesis
    by (auto simp: create_edge_def file_rows_def list_edges_def matches_edge_def new_edge_def tree_ref_def)
qed

lemma edges_ensure_blob: "edges (ensure_blob now h c g) = edges g"
  by (simp add: ensure_blob_def coll_save_def graph_simps split: option.splits)

lemma file_rows_ensure_blob [simp]: "file_rows tid (ensure_blob now h c g) = file_rows tid g"
  by (simp add: file_rows_def list_edges_def edges_ensure_blob)

lemma blob_ensure_blob:
  "coll_get source_contents_coll (key h') (ensure_blob now h c g) =
    (if h' = h \<and> coll_get source_contents_coll (key h) g = None
     then Some \<lparr>blob_id = h, blob_content = c, blob_created_at = now\<rparr>
     else coll_get source_contents_coll (key h') g)"
  by (auto simp: ensure_blob_def source_contents.get_save source_contents_coll_def [THEN arg_cong [where f = coll_identity]]
      split: option.splits)

lemma node_ensure_blob: "l \<noteq> ''SourceContent'' \<Longrightarrow> get_node l i (ensure_blob now h c g) = get_node l i g"
  by (simp add: ensure_blob_def coll_save_def graph_simps source_contents_coll_def split: option.splits)

lemma blobs_ok_ensure_blob:
  "blobs_ok sha C g \<Longrightarrow> c \<in> C \<Longrightarrow> h = source_content_id sha c \<Longrightarrow> blobs_ok sha C (ensure_blob now h c g)"
  by (auto simp: blobs_ok_def blob_ensure_blob split: if_splits)

text \<open>After \<open>ensure_blob\<close> the hash names the content, if no other content of \<open>C\<close> has that hash.\<close>

lemma ensured_blob:
  assumes "blobs_ok sha C g" and "c \<in> C" and "inj_on (source_content_id sha) C"
    and "h = source_content_id sha c"
  shows "\<exists>b. coll_get source_contents_coll (key h) (ensure_blob now h c g) = Some b \<and>
    blob_id b = h \<and> blob_content b = c"
proof (cases "coll_get source_contents_coll (key h) g")
  case None
  then show ?thesis by (simp add: blob_ensure_blob)
next
  case (Some b)
  with assms(1) have "blob_id b = h" "h = source_content_id sha (blob_content b)" "blob_content b \<in> C"
    by (auto simp: blobs_ok_def)
  with assms(2,3,4) Some show ?thesis
    by (auto simp: blob_ensure_blob dest: inj_onD)
qed

lemma hydrate_row_ext:
  assumes "hydrate_row tid g e = Inr f"
    and "\<And>h b. coll_get source_contents_coll (key h) g = Some b \<Longrightarrow> coll_get source_contents_coll (key h) g' = Some b"
  shows "hydrate_row tid g' e = Inr f"
  using assms by (auto simp: hydrate_row_def rbind_eq_Inr coll_item_def split: option.splits)

end
