(* ===== verification/Source_Views.thy ===== *)
theory Source_Views
  imports Source_Laws
begin

text \<open>
  A source tree as a map from paths to what a file says (content, role, language): what one
  file write does to that map, and what it leaves alone. These are the laws the batch
  refinement and the copy on write rest on.
\<close>

section \<open>Views of a listing\<close>

type_synonym file_view = "string \<times> source_role \<times> string"

definition view_of :: "source_file \<Rightarrow> file_view" where
  "view_of f = (file_content f, file_role f, file_language f)"

definition tree_view :: "source_file list \<Rightarrow> string \<Rightarrow> file_view option" where
  "tree_view fs = map_of (map (\<lambda>f. (file_path f, view_of f)) fs)"

lemma tree_view_map: "tree_view fs p = map_option view_of (files_map fs p)"
  by (induction fs) (auto simp: tree_view_def)

lemma tree_view_files_map: "files_map fs = files_map fs' \<Longrightarrow> tree_view fs = tree_view fs'"
  by (simp add: tree_view_map fun_eq_iff)

lemma files_map_filter: "files_map (filter (\<lambda>f. file_path f \<noteq> p) fs) = (files_map fs)(p := None)"
  by (induction fs) (auto simp: fun_upd_twist)

lemma files_map_snoc: "files_map fs (file_path f) = None \<Longrightarrow> files_map (fs @ [f]) = (files_map fs)(file_path f \<mapsto> f)"
  by (induction fs) (auto simp: fun_upd_twist split: if_splits)

text \<open>The store invariants together.\<close>

definition source_inv :: "(string \<Rightarrow> string) \<Rightarrow> string set \<Rightarrow> node_value graph \<Rightarrow> bool" where
  "source_inv sha C g \<longleftrightarrow> store_ok g \<and> blobs_ok sha C g"

lemma source_inv_wf: "source_inv sha C g \<Longrightarrow> wf_graph g"
  by (simp add: source_inv_def store_ok_def)

lemma source_inv_typed: "source_inv sha C g \<Longrightarrow> typed_graph g"
  by (simp add: source_inv_def store_ok_def)

lemma source_inv_anchored: "source_inv sha C g \<Longrightarrow> trees_anchored g"
  by (simp add: source_inv_def store_ok_def)

lemma source_inv_edges: "source_inv sha C g \<Longrightarrow> typed_edges g"
  by (simp add: source_inv_def store_ok_def)

definition hash_ok :: "(string \<Rightarrow> string) \<Rightarrow> string set \<Rightarrow> source_file \<Rightarrow> bool" where
  "hash_ok sha C f \<longleftrightarrow> file_content_hash f = source_content_id sha (file_content f) \<and> file_content f \<in> C"

lemma hydrate_row_hash_ok:
  assumes "blobs_ok sha C g" and "hydrate_row tid g e = Inr f"
  shows "hash_ok sha C f"
proof -
  from assms(2) obtain b where b: "coll_get source_contents_coll (key (ref_id (edge_to e))) g = Some b"
    "hydrate tid (edge_props e) b = Inr f"
    by (auto simp: hydrate_row_def rbind_eq_Inr coll_item_def split: option.splits)
  with assms(1) have "blob_id b = source_content_id sha (blob_content b)" "blob_content b \<in> C"
    by (auto simp: blobs_ok_def)
  with b(2) show ?thesis by (auto simp: hash_ok_def elim: hydrate_cases)
qed

lemma listing_hash_ok:
  assumes "source_inv sha C g" and "list_source_tree tid g = Inr fs"
  shows "\<forall>f\<in>set fs. hash_ok sha C f"
proof -
  from assms(2) obtain us where us: "list_all2 (\<lambda>e f. hydrate_row tid g e = Inr f) (file_rows tid g) us"
    "fs = sort_key file_path us"
    using listing_unsorted [OF source_inv_wf [OF assms(1)]] by blast
  have "\<forall>f\<in>set us. hash_ok sha C f"
    using us(1) hydrate_row_hash_ok assms(1)
    by (induction rule: list_all2_induct) (auto simp: source_inv_def)
  with us(2) show ?thesis by simp
qed

section \<open>What a file write leaves alone\<close>

definition file_step :: "string \<Rightarrow> node_value graph \<Rightarrow> node_value graph \<Rightarrow> bool" where
  "file_step tid g g' \<longleftrightarrow>
     (\<forall>l i. l \<noteq> ''SourceContent'' \<longrightarrow> get_node l i g' = get_node l i g) \<and>
     (\<forall>h b. coll_get source_contents_coll (key h) g = Some b \<longrightarrow>
        coll_get source_contents_coll (key h) g' = Some b) \<and>
     (\<forall>tid'. tid' \<noteq> tid \<longrightarrow> file_rows tid' g' = file_rows tid' g) \<and>
     filter (\<lambda>e. edge_type e \<noteq> ''HAS_FILE'') (edges g') = filter (\<lambda>e. edge_type e \<noteq> ''HAS_FILE'') (edges g)"

lemma file_step_refl [simp]: "file_step tid g g"
  by (simp add: file_step_def)

lemma file_step_trans: "file_step tid g g' \<Longrightarrow> file_step tid g' g'' \<Longrightarrow> file_step tid g g''"
  by (simp add: file_step_def)

lemma contents_unlink [simp]:
  "coll_get source_contents_coll k (unlink_path tid p g) = coll_get source_contents_coll k g"
  by (simp add: unlink_path_def source_contents.get_delete_edge)

lemma file_step_unlink: "file_step tid g (unlink_path tid p g)"
  by (auto simp: file_step_def file_rows_unlink)
    (auto simp: unlink_path_def get_node_def delete_edge_def matches_edge_def intro!: filter_cong)

lemma file_step_ensure_blob: "file_step tid g (ensure_blob now h c g)"
  by (auto simp: file_step_def node_ensure_blob blob_ensure_blob edges_ensure_blob)

lemma file_step_create:
  assumes "\<forall>e\<in>set (file_rows tid g). path_of e \<noteq> dict_get p ''path''"
  shows "file_step tid g (create_edge (tree_ref tid) ''HAS_FILE'' to p g)"
proof -
  have "find (same_path (tree_ref tid) (dict_get p ''path'')) (edges g) = None"
    using assms by (auto simp: find_None_ball file_rows_def list_edges_def matches_edge_def same_path_def path_of_def)
  then show ?thesis
    by (auto simp: file_step_def file_rows_create [OF assms] graph_simps source_contents.get_create_edge)
      (auto simp: create_edge_def new_edge_def)
qed

lemma list_edges_off_files:
  "t \<noteq> ''HAS_FILE'' \<Longrightarrow>
     list_edges f (Some t) to g = filter (matches_edge f (Some t) to) (filter (\<lambda>e. edge_type e \<noteq> ''HAS_FILE'') (edges g))"
  by (auto simp: list_edges_def matches_edge_def intro!: filter_cong)

lemma file_step_edges:
  "file_step tid g g' \<Longrightarrow> t \<noteq> ''HAS_FILE'' \<Longrightarrow> list_edges f (Some t) to g' = list_edges f (Some t) to g"
  by (simp add: list_edges_off_files file_step_def del: filter_filter)

lemma file_step_tree_get:
  "file_step tid g g' \<Longrightarrow> coll_get source_trees_coll k g' = coll_get source_trees_coll k g"
  by (simp add: coll_get_def file_step_def source_trees_coll_def)

lemma file_step_resolve: "file_step tid g g' \<Longrightarrow> resolve rid g' = resolve rid g"
  by (simp add: resolve_def file_step_def revision_labels_def)

lemma file_step_tree: "file_step tid g g' \<Longrightarrow> tree rid g' = tree rid g"
  unfolding tree_def
  by (simp add: file_step_resolve file_step_edges coll_item_def file_step_tree_get cong: list.case_cong)

lemma file_step_has_tree: "file_step tid g g' \<Longrightarrow> has_tree t g' = has_tree t g"
  by (simp add: has_tree_iff file_step_def)

lemma listing_ext:
  assumes "list_source_tree tid g = Inr fs" and "file_rows tid g' = file_rows tid g"
    and "\<And>h b. coll_get source_contents_coll (key h) g = Some b \<Longrightarrow> coll_get source_contents_coll (key h) g' = Some b"
  shows "list_source_tree tid g' = Inr fs"
proof -
  from assms(1) obtain us where us: "list_all2 (\<lambda>e f. hydrate_row tid g e = Inr f) (file_rows tid g) us"
    "fs = sort_key file_path us"
    by (auto simp: list_source_tree_def rbind_eq_Inr map_result_iff)
  have "list_all2 (\<lambda>e f. hydrate_row tid g' e = Inr f) (file_rows tid g') us"
    unfolding assms(2) by (rule list_all2_mono [OF us(1)]) (rule hydrate_row_ext [OF _ assms(3)])
  with us(2) show ?thesis by (auto simp: list_source_tree_def rbind_eq_Inr map_result_iff)
qed

lemma file_step_listing:
  "file_step tid g g' \<Longrightarrow> tid' \<noteq> tid \<Longrightarrow> list_source_tree tid' g = Inr fs \<Longrightarrow> list_source_tree tid' g' = Inr fs"
  by (rule listing_ext [of tid' g fs g']) (auto simp: file_step_def)

section \<open>What a file write does\<close>

lemma rows_filter:
  assumes "list_all2 (\<lambda>e f. hydrate_row tid g e = Inr f) es us"
  shows "list_all2 (\<lambda>e f. hydrate_row tid g e = Inr f)
    (filter (\<lambda>e. path_of e \<noteq> Some (JStr p)) es) (filter (\<lambda>f. file_path f \<noteq> p) us)"
  using assms by (induction rule: list_all2_induct) (auto dest: hydrate_row_path)

lemma unlink_inv:
  assumes "source_inv sha C g"
  shows "source_inv sha C (unlink_path tid p g)"
  using assms by (simp add: source_inv_def blobs_ok_def) (simp add: unlink_path_def store_ok_delete_edge)

lemma unlink_listing:
  assumes "source_inv sha C g" and "list_source_tree tid g = Inr fs"
  shows "\<exists>fs'. list_source_tree tid (unlink_path tid p g) = Inr fs' \<and> files_map fs' = (files_map fs)(p := None)"
proof -
  note wf = source_inv_wf [OF assms(1)] source_inv_wf [OF unlink_inv [OF assms(1), of tid p]]
  from assms(2) obtain us where us: "list_all2 (\<lambda>e f. hydrate_row tid g e = Inr f) (file_rows tid g) us"
    using listing_unsorted [OF wf(1)] by blast
  let ?us = "filter (\<lambda>f. file_path f \<noteq> p) us"
  have "list_all2 (\<lambda>e f. hydrate_row tid (unlink_path tid p g) e = Inr f)
      (file_rows tid (unlink_path tid p g)) ?us"
    using rows_filter [OF us] by (simp add: file_rows_unlink hydrate_row_def coll_item_def)
  moreover from this have "list_source_tree tid (unlink_path tid p g) = Inr (sort_key file_path ?us)"
    by (auto simp: list_source_tree_def rbind_eq_Inr map_result_iff)
  ultimately show ?thesis
    using listing_map(1) [OF wf(2)] listing_map(1) [OF wf(1) assms(2) us] files_map_filter by metis
qed

text \<open>The record that is read back: \<open>_put_file\<close> stores the size as given, a zero is recomputed.\<close>

definition stored_as :: "string \<Rightarrow> source_file \<Rightarrow> source_file" where
  "stored_as tid f = f\<lparr>file_source_tree_id := tid,
     file_size := (if file_size f \<noteq> 0 then file_size f else utf8_len (file_content f))\<rparr>"

lemma stored_as_simps [simp]:
  "file_path (stored_as tid f) = file_path f" "view_of (stored_as tid f) = view_of f"
  "hash_ok sha C (stored_as tid f) = hash_ok sha C f"
  "file_content_hash (stored_as tid f) = file_content_hash f"
  by (simp_all add: stored_as_def view_of_def hash_ok_def)

lemma distinct_file_props: "distinct (map fst (file_props f))"
  by (simp add: file_props_def)

lemma file_props_path [simp]: "dict_get (file_props f) ''path'' = Some (JStr (file_path f))"
  by (simp add: file_props_def)

lemma hydrate_file_props:
  "blob_id b = file_content_hash f \<Longrightarrow> blob_content b = file_content f \<Longrightarrow>
     hydrate tid (file_props f) b = Inr (stored_as tid f)"
  by (simp add: hydrate_def file_props_def prop_str_def stored_as_def)

lemma put_file_inv:
  assumes "source_inv sha C g" and "has_tree tid g" and "hash_ok sha C f"
    and "put_file now tid f g = (r, g')"
  shows "source_inv sha C g'"
proof -
  let ?g1 = "ensure_blob now (file_content_hash f) (file_content f) (unlink_path tid (file_path f) g)"
  have "source_inv sha C ?g1"
    using unlink_inv [OF assms(1)] assms(3)
    by (auto simp: source_inv_def hash_ok_def store_ok_ensure_blob blobs_ok_ensure_blob)
  moreover have "has_tree tid ?g1"
    using assms(2) file_step_has_tree [OF file_step_unlink] file_step_has_tree [OF file_step_ensure_blob] by metis
  ultimately have "source_inv sha C (create_edge (tree_ref tid) ''HAS_FILE''
      (id_ref ''SourceContent'' (file_content_hash f)) (file_props f) ?g1)"
    by (auto simp: source_inv_def store_ok_def blobs_ok_def source_contents.get_create_edge
        wf_create_edge distinct_file_props tree_ref_def intro!: anchored_create_edge typed_edges_create)
  with assms(4) show ?thesis by (simp add: put_file_def Let_def)
qed

lemma put_file_step:
  assumes "put_file now tid f g = (r, g')"
  shows "file_step tid g g'"
proof -
  let ?g1 = "ensure_blob now (file_content_hash f) (file_content f) (unlink_path tid (file_path f) g)"
  have "file_step tid ?g1 (create_edge (tree_ref tid) ''HAS_FILE''
      (id_ref ''SourceContent'' (file_content_hash f)) (file_props f) ?g1)"
    by (rule file_step_create) (simp add: file_rows_unlink)
  with file_step_trans [OF file_step_unlink file_step_ensure_blob] file_step_trans assms show ?thesis
    by (fastforce simp: put_file_def Let_def)
qed

lemma put_file_listing:
  assumes inv: "source_inv sha C g" and has: "has_tree tid g" and inj: "inj_on (source_content_id sha) C"
    and l: "list_source_tree tid g = Inr fs" and f: "hash_ok sha C f"
    and put: "put_file now tid f g = (r, g')"
  shows "\<exists>fs'. list_source_tree tid g' = Inr fs' \<and> files_map fs' = (files_map fs)(file_path f \<mapsto> stored_as tid f)"
proof -
  let ?g0 = "unlink_path tid (file_path f) g"
  let ?g1 = "ensure_blob now (file_content_hash f) (file_content f) ?g0"
  let ?e = "new_edge (tree_ref tid) ''HAS_FILE'' (id_ref ''SourceContent'' (file_content_hash f)) (file_props f)"
  have g': "g' = create_edge (tree_ref tid) ''HAS_FILE'' (id_ref ''SourceContent'' (file_content_hash f)) (file_props f) ?g1"
    using put by (simp add: put_file_def Let_def)
  have inv0: "source_inv sha C ?g0" and inv': "source_inv sha C g'"
    using unlink_inv [OF inv] put_file_inv [OF inv has f put] by blast+
  from unlink_listing [OF inv l, of "file_path f"] obtain fs0 where
    fs0: "list_source_tree tid ?g0 = Inr fs0" "files_map fs0 = (files_map fs)(file_path f := None)" by blast
  from fs0(1) obtain us where us: "list_all2 (\<lambda>e f. hydrate_row tid ?g0 e = Inr f) (file_rows tid ?g0) us"
    using listing_unsorted [OF source_inv_wf [OF inv0]] by blast
  have us0: "files_map us = (files_map fs)(file_path f := None)"
    using listing_map(1) [OF source_inv_wf [OF inv0] fs0(1) us] fs0(2) by simp
  have ext: "coll_get source_contents_coll (key h) g' = Some b" if "coll_get source_contents_coll (key h) ?g0 = Some b" for h b
    using that by (auto simp: g' source_contents.get_create_edge blob_ensure_blob)
  have rows: "file_rows tid g' = file_rows tid ?g0 @ [?e]"
    unfolding g' by (subst file_rows_create) (simp_all add: file_rows_unlink)
  have blobs0: "blobs_ok sha C ?g0" and fh: "file_content f \<in> C" "file_content_hash f = source_content_id sha (file_content f)"
    using inv0 f by (simp_all add: source_inv_def hash_ok_def)
  from ensured_blob [OF blobs0 fh(1) inj fh(2)] obtain b where
    "coll_get source_contents_coll (key (file_content_hash f)) g' = Some b"
    "blob_id b = file_content_hash f" "blob_content b = file_content f"
    by (auto simp: g' source_contents.get_create_edge)
  then have last_row: "hydrate_row tid g' ?e = Inr (stored_as tid f)"
    by (simp add: hydrate_row_def new_edge_def coll_item_def hydrate_file_props)
  have "list_all2 (\<lambda>e f. hydrate_row tid g' e = Inr f) (file_rows tid ?g0) us"
    by (rule list_all2_mono [OF us]) (rule hydrate_row_ext [OF _ ext])
  then have all: "list_all2 (\<lambda>e f. hydrate_row tid g' e = Inr f) (file_rows tid g') (us @ [stored_as tid f])"
    using last_row by (simp add: rows list_all2_appendI)
  then have l': "list_source_tree tid g' = Inr (sort_key file_path (us @ [stored_as tid f]))"
    by (auto simp: list_source_tree_def rbind_eq_Inr map_result_iff)
  have "files_map (us @ [stored_as tid f]) = (files_map fs)(file_path f \<mapsto> stored_as tid f)"
    using us0 files_map_snoc [of us "stored_as tid f"] by simp
  then have "files_map (sort_key file_path (us @ [stored_as tid f])) = (files_map fs)(file_path f \<mapsto> stored_as tid f)"
    using listing_map(1) [OF source_inv_wf [OF inv'] l' all] by simp
  with l' show ?thesis by (intro exI conjI)
qed

lemma put_file_result: "\<exists>g'. put_file now tid f g = (Inr (f\<lparr>file_source_tree_id := tid\<rparr>), g')"
  by (simp add: put_file_def Let_def)

end
