(* ===== verification/Batch_Refinement.thy ===== *)
theory Batch_Refinement
  imports Source_Views
begin

text \<open>
  The batches of the source store refine updates of a map: the specification of a change on the
  map from paths to file views, the simulation between \<^verbatim>\<open>_apply_change\<close> and it, and what
  the collection of interned nodes and the hash refresh that close a batch preserve.
\<close>

section \<open>The specification of a batch\<close>

type_synonym tree_map = "string \<Rightarrow> file_view option"

text \<open>
  A write keeps the role and language of a file that exists. A change that cannot be applied
  (a write without content, a missing path, a rename without a target) has no result.
\<close>

definition spec_change :: "source_update \<Rightarrow> tree_map \<Rightarrow> tree_map option" where
  "spec_change c m =
     (case upd_operation c of
        Op_write \<Rightarrow> map_option (\<lambda>content. m(upd_path c \<mapsto>
            (case m (upd_path c) of None \<Rightarrow> (content, upd_role c, upd_language c)
             | Some (_, r, l) \<Rightarrow> (content, r, l)))) (upd_content c)
      | Op_delete \<Rightarrow> (case m (upd_path c) of None \<Rightarrow> None | Some _ \<Rightarrow> Some (m(upd_path c := None)))
      | Op_rename \<Rightarrow> (case (m (upd_path c), upd_new_path c) of
            (Some v, Some q) \<Rightarrow> Some ((m(upd_path c := None))(q \<mapsto> v))
          | _ \<Rightarrow> None))"

fun spec_changes :: "source_update list \<Rightarrow> tree_map \<Rightarrow> tree_map option" where
  "spec_changes [] m = Some m"
| "spec_changes (c # cs) m = Option.bind (spec_change c m) (spec_changes cs)"

section \<open>Simulation\<close>

text \<open>
  The state of a running batch: the tree on the graph and the dictionary of files the batch
  carries along show the same map.
\<close>

definition batch_state ::
  "(string \<Rightarrow> string) \<Rightarrow> string set \<Rightarrow> string \<Rightarrow> tree_map \<Rightarrow> by_path \<Rightarrow> node_value graph \<Rightarrow> bool" where
  "batch_state sha C tid m files g \<longleftrightarrow>
     source_inv sha C g \<and> has_tree tid g \<and>
     (\<exists>fs. list_source_tree tid g = Inr fs \<and> tree_view fs = m) \<and>
     (\<forall>p. map_option view_of (dict_get files p) = m p) \<and>
     (\<forall>p f. dict_get files p = Some f \<longrightarrow> hash_ok sha C f)"

definition change_in :: "string set \<Rightarrow> source_update \<Rightarrow> bool" where
  "change_in C c \<longleftrightarrow> (\<forall>x. upd_content c = Some x \<longrightarrow> x \<in> C)"

lemma batch_stateD:
  assumes "batch_state sha C tid m files g"
  obtains fs where "source_inv sha C g" "has_tree tid g" "list_source_tree tid g = Inr fs" "tree_view fs = m"
    "\<And>p. map_option view_of (dict_get files p) = m p" "\<And>p f. dict_get files p = Some f \<Longrightarrow> hash_ok sha C f"
  using assms unfolding batch_state_def by blast

lemma batch_put:
  assumes st: "batch_state sha C tid m files g" and inj: "inj_on (source_content_id sha) C"
    and f: "hash_ok sha C f" and put: "put_file now tid f g = (r, g')"
    and f': "view_of f' = view_of f" "hash_ok sha C f'"
  shows "batch_state sha C tid (m(file_path f \<mapsto> view_of f)) (dict_set (file_path f) f' files) g' \<and> file_step tid g g'"
  using st
proof (rule batch_stateD)
  fix fs
  assume inv: "source_inv sha C g" and has: "has_tree tid g" and l: "list_source_tree tid g = Inr fs"
    and v: "tree_view fs = m" and d: "\<And>p. map_option view_of (dict_get files p) = m p"
    and h: "\<And>p f. dict_get files p = Some f \<Longrightarrow> hash_ok sha C f"
  from put_file_listing [OF inv has inj l f put] obtain fs' where
    fs': "list_source_tree tid g' = Inr fs'" "files_map fs' = (files_map fs)(file_path f \<mapsto> stored_as tid f)" by blast
  have "tree_view fs' = m(file_path f \<mapsto> view_of f)"
    using v by (auto simp: fun_eq_iff tree_view_map fs'(2))
  with fs'(1) put_file_inv [OF inv has f put] put_file_step [OF put] has d h f' show ?thesis
    by (auto simp: batch_state_def dict_simps file_step_has_tree)
qed

lemma batch_unlink:
  assumes st: "batch_state sha C tid m files g"
  shows "batch_state sha C tid (m(p := None)) (dict_pop p files) (unlink_path tid p g) \<and>
    file_step tid g (unlink_path tid p g)"
  using st
proof (rule batch_stateD)
  fix fs
  assume inv: "source_inv sha C g" and has: "has_tree tid g" and l: "list_source_tree tid g = Inr fs"
    and v: "tree_view fs = m" and d: "\<And>p. map_option view_of (dict_get files p) = m p"
    and h: "\<And>p f. dict_get files p = Some f \<Longrightarrow> hash_ok sha C f"
  from unlink_listing [OF inv l, of p] obtain fs' where
    fs': "list_source_tree tid (unlink_path tid p g) = Inr fs'" "files_map fs' = (files_map fs)(p := None)" by blast
  have "tree_view fs' = m(p := None)"
    using v by (auto simp: fun_eq_iff tree_view_map fs'(2))
  with fs'(1) unlink_inv [OF inv, of tid p] file_step_unlink [of tid g p] has d h show ?thesis
    by (auto simp: batch_state_def dict_simps file_step_has_tree)
qed

lemma batch_ensure_blob:
  assumes st: "batch_state sha C tid m files g" and "c \<in> C" and "h = source_content_id sha c"
  shows "batch_state sha C tid m files (ensure_blob now h c g) \<and> file_step tid g (ensure_blob now h c g)"
  using st
proof (rule batch_stateD)
  fix fs
  assume inv: "source_inv sha C g" and has: "has_tree tid g" and l: "list_source_tree tid g = Inr fs"
    and v: "tree_view fs = m" and d: "\<And>p. map_option view_of (dict_get files p) = m p"
    and hh: "\<And>p f. dict_get files p = Some f \<Longrightarrow> hash_ok sha C f"
  have step: "file_step tid g (ensure_blob now h c g)" by (rule file_step_ensure_blob)
  have "list_source_tree tid (ensure_blob now h c g) = Inr fs"
    by (rule listing_ext [OF l]) (auto simp: blob_ensure_blob)
  moreover have "source_inv sha C (ensure_blob now h c g)"
    using inv assms(2,3) by (simp add: source_inv_def store_ok_ensure_blob blobs_ok_ensure_blob)
  ultimately show ?thesis
    using step has v d hh by (auto simp: batch_state_def file_step_has_tree)
qed

text \<open>One change: it succeeds exactly when the specification has a result, and then shows it.\<close>

definition change_outcome ::
  "(string \<Rightarrow> string) \<Rightarrow> string set \<Rightarrow> string \<Rightarrow> node_value graph \<Rightarrow> tree_map option \<Rightarrow>
   (exn + by_path \<times> source_file list) \<times> node_value graph \<Rightarrow> bool" where
  "change_outcome sha C tid g spec out \<longleftrightarrow>
     (case spec of
        None \<Rightarrow> fst out = Inl AssertionError
      | Some m' \<Rightarrow> (\<exists>files' w'. fst out = Inr (files', w') \<and> batch_state sha C tid m' files' (snd out)))
     \<and> file_step tid g (snd out)"

lemma apply_change_outcome:
  assumes st: "batch_state sha C tid m files g" and inj: "inj_on (source_content_id sha) C"
    and c: "change_in C c"
  shows "change_outcome sha C tid g (spec_change c m) (apply_change sha now tid c (files, w) g)"
proof -
  have d: "map_option view_of (dict_get files p) = m p" and h: "dict_get files p = Some f \<Longrightarrow> hash_ok sha C f" for p f
    using st by (auto elim: batch_stateD)
  show ?thesis
  proof (cases "upd_operation c")
    case Op_write
    show ?thesis
    proof (cases "upd_content c")
      case None
      with Op_write show ?thesis
        by (simp add: change_outcome_def spec_change_def apply_change_def op_defs)
    next
      case (Some x)
      with c have x: "x \<in> C" by (simp add: change_in_def)
      let ?role = "case dict_get files (upd_path c) of None \<Rightarrow> upd_role c | Some f \<Rightarrow> file_role f"
      let ?lang = "case dict_get files (upd_path c) of None \<Rightarrow> upd_language c | Some f \<Rightarrow> file_language f"
      let ?h = "source_content_id sha x"
      let ?f = "\<lparr>file_source_tree_id = tid, file_path = upd_path c, file_role = ?role, file_language = ?lang,
         file_content = x, file_content_hash = ?h, file_size = utf8_len x\<rparr>"
      let ?g1 = "ensure_blob now ?h x g"
      obtain g' where put: "put_file now tid ?f ?g1 = (Inr (?f\<lparr>file_source_tree_id := tid\<rparr>), g')"
        using put_file_result by blast
      note b1 = batch_ensure_blob [OF st x refl, of now]
      have "hash_ok sha C ?f" by (simp add: hash_ok_def x)
      from batch_put [OF conjunct1 [OF b1] inj this put, of ?f] this
      have b2: "batch_state sha C tid (m(upd_path c \<mapsto> view_of ?f)) (dict_set (upd_path c) ?f files) g'"
        "file_step tid ?g1 g'" by simp_all
      have "spec_change c m = Some (m(upd_path c \<mapsto> view_of ?f))"
        using d [of "upd_path c"] Op_write Some
        by (auto simp: spec_change_def view_of_def split: option.splits)
      moreover have "apply_change sha now tid c (files, w) g = (Inr (dict_set (upd_path c) ?f files, w @ [?f]), g')"
        using Op_write Some put by (simp add: apply_change_def write_blob_def Let_def op_defs)
      ultimately show ?thesis
        using b2 file_step_trans [OF conjunct2 [OF b1] b2(2)] by (auto simp: change_outcome_def)
    qed
  next
    case Op_delete
    then show ?thesis
      using batch_unlink [OF st, of "upd_path c"] d [of "upd_path c", symmetric]
      by (simp add: change_outcome_def spec_change_def apply_change_def op_defs split: option.splits)
  next
    case Op_rename
    show ?thesis
    proof (cases "dict_get files (upd_path c)")
      case None
      with Op_rename d [of "upd_path c"] show ?thesis
        by (auto simp: change_outcome_def spec_change_def apply_change_def op_defs split: option.splits)
    next
      case (Some f)
      show ?thesis
      proof (cases "upd_new_path c")
        case None
        with Some Op_rename d [of "upd_path c"] show ?thesis
          by (auto simp: change_outcome_def spec_change_def apply_change_def op_defs split: option.splits)
      next
        case (Some q)
        let ?f = "f\<lparr>file_path := q\<rparr>" and ?g1 = "unlink_path tid (upd_path c) g"
        note b1 = batch_unlink [OF st, of "upd_path c"]
        obtain g' where put: "put_file now tid ?f ?g1 = (Inr (?f\<lparr>file_source_tree_id := tid\<rparr>), g')"
          using put_file_result by blast
        have "hash_ok sha C ?f" using h [OF \<open>dict_get files (upd_path c) = Some f\<close>] by (simp add: hash_ok_def)
        from batch_put [OF conjunct1 [OF b1] inj this put, of "?f\<lparr>file_source_tree_id := tid\<rparr>"] this
        have b2: "batch_state sha C tid (m(upd_path c := None, q \<mapsto> view_of f))
            (dict_set q (?f\<lparr>file_source_tree_id := tid\<rparr>) (dict_pop (upd_path c) files)) g'"
          "file_step tid ?g1 g'" by (simp_all add: view_of_def hash_ok_def)
        have "spec_change c m = Some (m(upd_path c := None, q \<mapsto> view_of f))"
          using d [of "upd_path c", symmetric] Op_rename Some \<open>dict_get files (upd_path c) = Some f\<close>
          by (simp add: spec_change_def)
        moreover have "apply_change sha now tid c (files, w) g =
          (Inr (dict_set q (?f\<lparr>file_source_tree_id := tid\<rparr>) (dict_pop (upd_path c) files),
            w @ [?f\<lparr>file_source_tree_id := tid\<rparr>]), g')"
          using Op_rename Some \<open>dict_get files (upd_path c) = Some f\<close> put
          by (simp add: apply_change_def op_defs)
        ultimately show ?thesis
          using b2 file_step_trans [OF conjunct2 [OF b1] b2(2)] by (auto simp: change_outcome_def)
      qed
    qed
  qed
qed

lemma apply_changes_outcome:
  assumes "batch_state sha C tid m files g" and inj: "inj_on (source_content_id sha) C"
    and "list_all (change_in C) cs"
  shows "change_outcome sha C tid g (spec_changes cs m) (apply_changes sha now tid cs (files, w) g)"
  using assms(1,3)
proof (induction cs arbitrary: m files w g)
  case Nil
  then show ?case by (auto simp: change_outcome_def op_defs)
next
  case (Cons c cs)
  let ?out = "apply_change sha now tid c (files, w) g"
  have one: "change_outcome sha C tid g (spec_change c m) ?out"
    using apply_change_outcome [OF Cons.prems(1) inj] Cons.prems(2) by simp
  show ?case
  proof (cases "spec_change c m")
    case None
    with one show ?thesis
      by (cases ?out) (auto simp: change_outcome_def op_defs)
  next
    case (Some m')
    with one obtain files' w' g' where o: "?out = (Inr (files', w'), g')" "batch_state sha C tid m' files' g'"
      "file_step tid g g'" by (cases ?out) (auto simp: change_outcome_def)
    from Cons.IH [OF o(2), of w'] Cons.prems(2)
    have "change_outcome sha C tid g' (spec_changes cs m') (apply_changes sha now tid cs (files', w') g')" by simp
    with o(1,3) Some show ?thesis
      by (auto simp: change_outcome_def op_defs intro: file_step_trans)
  qed
qed

section \<open>Collection leaves bound trees alone\<close>

definition bound_tree :: "string \<Rightarrow> node_value graph \<Rightarrow> bool" where
  "bound_tree tid g \<longleftrightarrow> (\<exists>rid t. tree rid g = Inr t \<and> tree_id t = tid)"

lemma tree_target:
  assumes "typed_graph g" and "tree rid g = Inr t"
  shows "\<exists>l e. resolve rid g = Inr l \<and> list_edges (Some (id_ref l rid)) (Some ''HAS_SOURCE_TREE'') None g = [e] \<and>
    ref_id (edge_to e) = tree_id t \<and> coll_get source_trees_coll (key (tree_id t)) g = Some t"
proof -
  from tree_SomeD [OF assms(2)] obtain l e where le: "resolve rid g = Inr l"
    "list_edges (Some (id_ref l rid)) (Some ''HAS_SOURCE_TREE'') None g = [e]"
    "coll_get source_trees_coll (key (ref_id (edge_to e))) g = Some t" by blast
  have "tree_id t = ref_id (edge_to e)"
    using source_trees.get_identity [OF assms(1) le(3)] by (simp add: source_trees_coll_def)
  with le show ?thesis by auto
qed

lemma dead_refs_label: "r \<in> dead_refs g \<Longrightarrow> ref_label r \<in> set interned_labels \<and> \<not> live g r"
  by (auto simp: dead_refs_def)

lemma pruned_get_node:
  assumes "pruned S g g'" and "NodeRef l i \<notin> S"
  shows "get_node l i g' = get_node l i g"
proof -
  have "map_of (filter (\<lambda>n. NodeRef (fst (fst n)) (snd (fst n)) \<notin> S) ns) (l, i) = map_of ns (l, i)" for ns :: "((string \<times> ident) \<times> node_value) list"
    using assms(2) by (induction ns) auto
  with assms(1) show ?thesis by (simp add: get_node_def pruned_def)
qed

lemma pruned_list_edges:
  assumes "pruned S g g'" and "\<And>e. e \<in> set (list_edges f t to g) \<Longrightarrow> edge_from e \<notin> S \<and> edge_to e \<notin> S"
  shows "list_edges f t to g' = list_edges f t to g"
  using assms by (auto simp: pruned_def list_edges_def intro!: filter_cong)

text \<open>A tree bound by some revision keeps its record, its rows and its blobs.\<close>

lemma bound_tree_live:
  assumes "typed_graph g" and "typed_edges g" and "tree rid g = Inr t"
  shows "live g (tree_ref (tree_id t))"
proof -
  from tree_target [OF assms(1,3)] obtain l e where le: "resolve rid g = Inr l"
    "list_edges (Some (id_ref l rid)) (Some ''HAS_SOURCE_TREE'') None g = [e]"
    "ref_id (edge_to e) = tree_id t" by blast
  from le(2) have "e \<in> set (list_edges (Some (id_ref l rid)) (Some ''HAS_SOURCE_TREE'') None g)" by simp
  then have e: "e \<in> set (edges g)" "edge_from e = id_ref l rid" "edge_type e = ''HAS_SOURCE_TREE''"
    by (auto simp: list_edges_def matches_edge_def)
  from assms(2) e have "edge_to e = tree_ref (tree_id t)"
    using le(3) unfolding typed_edges_def tree_ref_def by metis
  moreover have "ref_label (edge_from e) \<in> {''ApplicationRevision'', ''ExperienceRevision'', ''SystemRevision''}"
    using resolve_label [OF le(1)] e(2) by (auto simp: revision_labels_def)
  ultimately show ?thesis using live.from_revision [OF e(1)] by simp
qed

lemma gc_tree:
  assumes g: "typed_graph g" "typed_edges g" and p: "pruned (dead_refs g) g g'" and t: "tree rid g = Inr t"
  shows "tree rid g' = Inr t"
proof -
  from tree_target [OF g(1) t] obtain l e where le: "resolve rid g = Inr l"
    "list_edges (Some (id_ref l rid)) (Some ''HAS_SOURCE_TREE'') None g = [e]"
    "ref_id (edge_to e) = tree_id t" "coll_get source_trees_coll (key (tree_id t)) g = Some t" by blast
  have lab: "l' \<notin> set interned_labels" if "l' \<in> set revision_labels" for l'
    using that by (auto simp: revision_labels_def interned_labels_def)
  have res: "resolve rid g' = Inr l"
  proof -
    have "get_node l' (key rid) g' = get_node l' (key rid) g" if "l' \<in> set revision_labels" for l'
      by (rule pruned_get_node [OF p]) (use lab [OF that] in \<open>auto dest: dead_refs_label\<close>)
    then have "resolve rid g' = resolve rid g" by (simp add: resolve_def revision_labels_def)
    with le(1) show ?thesis by simp
  qed
  have alive: "tree_ref (tree_id t) \<notin> dead_refs g"
    using bound_tree_live [OF g t] by (auto dest: dead_refs_label)
  have "list_edges (Some (id_ref l rid)) (Some ''HAS_SOURCE_TREE'') None g' = [e]"
  proof (subst pruned_list_edges [OF p])
    fix e'
    assume e': "e' \<in> set (list_edges (Some (id_ref l rid)) (Some ''HAS_SOURCE_TREE'') None g)"
    then have "e' = e" "e' \<in> set (edges g)" "edge_type e' = ''HAS_SOURCE_TREE''" "edge_from e' = id_ref l rid"
      using le(2) by (simp, auto simp: list_edges_def matches_edge_def)
    with g(2) le(3) have "edge_to e' = tree_ref (tree_id t)" unfolding typed_edges_def tree_ref_def by metis
    with alive lab [of l] resolve_label [OF le(1)] \<open>edge_from e' = id_ref l rid\<close>
    show "edge_from e' \<notin> dead_refs g \<and> edge_to e' \<notin> dead_refs g"
      by (auto dest: dead_refs_label)
  qed (rule le(2))
  moreover have "coll_get source_trees_coll (key (tree_id t)) g' = Some t"
    using le(4) pruned_get_node [OF p, of "''SourceTree''" "key (tree_id t)"] alive
    by (simp add: coll_get_def source_trees_coll_def tree_ref_def id_ref_key)
  ultimately show ?thesis using res le(3) by (simp add: tree_def coll_item_def)
qed

lemma gc_listing:
  assumes g: "typed_graph g" "typed_edges g" and p: "pruned (dead_refs g) g g'" and t: "tree rid g = Inr t"
    and l: "list_source_tree (tree_id t) g = Inr fs"
  shows "list_source_tree (tree_id t) g' = Inr fs"
proof -
  note live = bound_tree_live [OF g t]
  have row: "live g (edge_to e)" "edge_from e = tree_ref (tree_id t)" "edge_to e = id_ref ''SourceContent'' (ref_id (edge_to e))"
    if "e \<in> set (file_rows (tree_id t) g)" for e
  proof -
    from that have e: "e \<in> set (edges g)" "edge_from e = tree_ref (tree_id t)" "edge_type e = ''HAS_FILE''"
      by (auto simp: file_rows_def list_edges_def matches_edge_def)
    then show "live g (edge_to e)" using live live.from_tree [of e g] by (simp add: tree_ref_def)
    show "edge_from e = tree_ref (tree_id t)" by (rule e(2))
    show "edge_to e = id_ref ''SourceContent'' (ref_id (edge_to e))" using g(2) e by (simp add: typed_edges_def)
  qed
  have rows: "file_rows (tree_id t) g' = file_rows (tree_id t) g"
    unfolding file_rows_def
  proof (rule pruned_list_edges [OF p])
    fix e
    assume "e \<in> set (list_edges (Some (tree_ref (tree_id t))) (Some ''HAS_FILE'') None g)"
    then have "e \<in> set (file_rows (tree_id t) g)" by (simp add: file_rows_def)
    with row [OF this] live show "edge_from e \<notin> dead_refs g \<and> edge_to e \<notin> dead_refs g"
      by (auto dest: dead_refs_label)
  qed
  have blob: "coll_get source_contents_coll (key (ref_id (edge_to e))) g' = coll_get source_contents_coll (key (ref_id (edge_to e))) g"
    if "e \<in> set (file_rows (tree_id t) g)" for e
  proof -
    from row(1,3) [OF that] have "NodeRef ''SourceContent'' (key (ref_id (edge_to e))) \<notin> dead_refs g"
      by (metis dead_refs_label id_ref_key)
    then show ?thesis using pruned_get_node [OF p] by (simp add: coll_get_def source_contents_coll_def)
  qed
  have "map_result (hydrate_row (tree_id t) g') es = map_result (hydrate_row (tree_id t) g) es"
    if "set es \<subseteq> set (file_rows (tree_id t) g)" for es
    using that by (induction es) (simp_all add: hydrate_row_def coll_item_def blob)
  then show ?thesis using l rows by (simp add: list_source_tree_def)
qed

end
