(* ===== verification/Copy_On_Write.thy ===== *)
theory Copy_On_Write
  imports Batch_Refinement
begin

text \<open>
  From a change to a revision: what \<^verbatim>\<open>_ensure_writable\<close>, \<^verbatim>\<open>batch_update_working_tree\<close> and
  \<^verbatim>\<open>batch_update\<close> do to the map of the revision, and that no other revision sees any of it.
\<close>

section \<open>The steps around a batch\<close>

text \<open>Every revision that can be read keeps its tree and its files.\<close>

definition sees :: "string \<Rightarrow> source_tree \<Rightarrow> source_file list \<Rightarrow> node_value graph \<Rightarrow> bool" where
  "sees rid t fs g \<longleftrightarrow> tree rid g = Inr t \<and> list_source_tree (tree_id t) g = Inr fs"

lemma pruned_blobs_ok:
  assumes "blobs_ok sha C g" and "pruned S g g'"
  shows "blobs_ok sha C g'"
proof -
  have part: "map_of (filter (\<lambda>n. P (fst n)) ns) k = (if P k then map_of ns k else None)"
    for P and ns :: "((string \<times> ident) \<times> node_value) list" and k
    by (induction ns) auto
  have sub: "map_of (filter (\<lambda>n. NodeRef (fst (fst n)) (snd (fst n)) \<notin> S) ns) k = Some v \<Longrightarrow> map_of ns k = Some v"
    for ns :: "((string \<times> ident) \<times> node_value) list" and k v
    using part [of "\<lambda>k. NodeRef (fst k) (snd k) \<notin> S" ns k] by (simp split: if_splits)
  have "coll_get source_contents_coll (key h) g = Some b" if "coll_get source_contents_coll (key h) g' = Some b" for h b
    using that assms(2) sub [of "nodes g"] unfolding source_contents.get_Some_node get_node_def pruned_def
    by metis
  with assms(1) show ?thesis unfolding blobs_ok_def by blast
qed

lemma gc_source:
  assumes "source_inv sha C g"
  shows "\<exists>d g'. delete_interned_orphans g = (Inr d, g') \<and> source_inv sha C g' \<and>
    (\<forall>rid t fs. sees rid t fs g \<longrightarrow> sees rid t fs g')"
proof -
  note typed = source_inv_typed [OF assms] and te = source_inv_edges [OF assms]
  from gc_exact [OF typed source_inv_anchored [OF assms]] obtain d g' where
    g': "delete_interned_orphans g = (Inr d, g')" "pruned (dead_refs g) g g'" "typed_graph g'" "trees_anchored g'"
    by blast
  have "wf_graph g'" using wf_gc [OF source_inv_wf [OF assms]] g'(1) by simp
  moreover have "typed_edges g'" by (rule typed_edges_sub [OF te]) (use g'(2) in \<open>auto simp: pruned_def\<close>)
  ultimately have "source_inv sha C g'"
    using g' assms pruned_blobs_ok by (auto simp: source_inv_def store_ok_def)
  then show ?thesis
    using g'(1) gc_tree [OF typed te g'(2)] gc_listing [OF typed te g'(2)] by (auto simp: sees_def)
qed

lemma listing_save_tree [simp]: "list_source_tree tid (save_tree t g) = list_source_tree tid g"
proof -
  have "file_rows tid (save_tree t g) = file_rows tid g"
    by (simp add: file_rows_def save_tree_def coll_save_def list_edges_def graph_simps)
  moreover have "coll_get source_contents_coll k (save_tree t g) = coll_get source_contents_coll k g" for k
    unfolding save_tree_def coll_save_def
    by (rule source_contents.get_upsert_other) (simp add: source_contents_coll_def source_trees_coll_def)
  ultimately show ?thesis
    by (simp add: list_source_tree_def hydrate_row_def [abs_def] coll_item_def)
qed

lemma blob_save_tree [simp]: "coll_get source_contents_coll k (save_tree t g) = coll_get source_contents_coll k g"
  unfolding save_tree_def coll_save_def
  by (rule source_contents.get_upsert_other) (simp add: source_contents_coll_def source_trees_coll_def)

lemma source_inv_save_tree: "source_inv sha C g \<Longrightarrow> source_inv sha C (save_tree t g)"
  by (simp add: source_inv_def store_ok_save_tree blobs_ok_def)

lemma get_save_tree:
  "coll_get source_trees_coll (key i) (save_tree t g) =
    (if i = tree_id t then Some t else coll_get source_trees_coll (key i) g)"
proof -
  have "coll_identity source_trees_coll t = key (tree_id t)" by (simp add: source_trees_coll_def)
  then show ?thesis by (simp add: save_tree_def source_trees.get_save)
qed

lemma has_tree_save_tree: "has_tree (tree_id t) (save_tree t g)"
  by (simp add: has_tree_iff save_tree_def coll_save_def graph_simps source_trees_coll_def)

lemma resolve_save_tree [simp]: "resolve rid (save_tree t g) = resolve rid g"
  by (simp add: resolve_def save_tree_def coll_save_def graph_simps revision_labels_def source_trees_coll_def)

lemma tree_save_tree:
  assumes "typed_graph g" and "tree rid g = Inr u"
  shows "tree rid (save_tree t g) = Inr (if tree_id u = tree_id t then t else u)"
proof -
  from tree_target [OF assms] obtain l e where "resolve rid g = Inr l"
    "list_edges (Some (id_ref l rid)) (Some ''HAS_SOURCE_TREE'') None g = [e]"
    "ref_id (edge_to e) = tree_id u" "coll_get source_trees_coll (key (tree_id u)) g = Some u" by blast
  moreover have "list_edges f ty to (save_tree t g) = list_edges f ty to g" for f ty to
    by (simp add: save_tree_def coll_save_def list_edges_def graph_simps)
  ultimately show ?thesis
    by (simp add: tree_def coll_item_def get_save_tree)
qed

lemma tree_get:
  assumes "typed_graph g" and "tree rid g = Inr t"
  shows "coll_get source_trees_coll (key (tree_id t)) g = Some t"
  using tree_target [OF assms] by blast

lemma coll_get_has_tree: "coll_get source_trees_coll (key i) g = Some t \<Longrightarrow> has_tree i g"
  by (simp add: has_tree_iff source_trees.get_Some_node) (simp add: source_trees_coll_def)

section \<open>A batch on a working tree\<close>

lemma dict_get_by_path: "dict_get (map (\<lambda>f. (file_path f, f)) fs) = files_map fs"
  by (simp add: files_map_def)

lemma listing_paths_distinct:
  assumes "source_inv sha C g" and "list_source_tree tid g = Inr fs"
  shows "distinct (map file_path fs)"
  using listing_unsorted [OF source_inv_wf [OF assms(1)], of tid fs] assms(2)
  by (metis listing_map(2) source_inv_wf assms(1))

lemma batch_state_start:
  assumes inv: "source_inv sha C g" and l: "list_source_tree tid g = Inr fs" and has: "has_tree tid g"
  shows "batch_state sha C tid (tree_view fs) (map (\<lambda>f. (file_path f, f)) fs) g"
  using assms listing_hash_ok [OF inv l]
  by (auto simp: batch_state_def dict_get_by_path tree_view_map dest: files_map_SomeD)

text \<open>The checks before a batch read only which paths exist and their content hashes.\<close>

lemma check_change_cong:
  assumes "map_option file_content_hash (dict_get files p) = map_option file_content_hash (dict_get files' p)"
    and "\<And>q. (dict_get files q = None) = (dict_get files' q = None)" and "p = upd_path c"
  shows "check_change files c = check_change files' c"
  using assms(1) assms(2) [of p] assms(2) [of "the (upd_new_path c)"] assms(3)
  by (auto simp: check_change_def Let_def split: option.splits)

definition accepts :: "source_file list \<Rightarrow> source_update list \<Rightarrow> bool" where
  "accepts fs cs \<longleftrightarrow> list_all (\<lambda>c. check_change (map (\<lambda>f. (file_path f, f)) fs) c = Inr ()) cs"

lemma validate_accepts:
  assumes "list_source_tree tid g = Inr fs"
  shows "accepts fs cs \<Longrightarrow> validate_batch tid cs g = Inr (map (\<lambda>f. (file_path f, f)) fs)"
    and "\<not> accepts fs cs \<Longrightarrow> \<exists>e. validate_batch tid cs g = Inl e"
proof -
  let ?c = "check_change (map (\<lambda>f. (file_path f, f)) fs)"
  have "(\<exists>us. map_result ?c cs = Inr us) \<longleftrightarrow> list_all (\<lambda>c. ?c c = Inr ()) cs"
    by (induction cs) (auto simp: rbind_eq_Inr)
  with assms show "accepts fs cs \<Longrightarrow> validate_batch tid cs g = Inr (map (\<lambda>f. (file_path f, f)) fs)"
    and "\<not> accepts fs cs \<Longrightarrow> \<exists>e. validate_batch tid cs g = Inl e"
    by (auto simp: validate_batch_def accepts_def Let_def rbind_def split: sum.splits)
qed

lemma accepts_cong:
  assumes "\<forall>f\<in>set fs. hash_ok sha C f" and "\<forall>f\<in>set fs'. hash_ok sha C f" and "tree_view fs = tree_view fs'"
  shows "accepts fs cs = accepts fs' cs"
proof -
  have v: "map_option view_of (files_map fs p) = map_option view_of (files_map fs' p)" for p
    using assms(3) by (metis tree_view_map)
  have "map_option file_content_hash (files_map fs p) = map_option file_content_hash (files_map fs' p)" for p
    using v [of p] assms(1,2)
    by (cases "files_map fs p"; cases "files_map fs' p")
      (auto simp: view_of_def hash_ok_def dest!: files_map_SomeD)
  moreover have "(files_map fs q = None) = (files_map fs' q = None)" for q
    using v [of q] by (cases "files_map fs q"; cases "files_map fs' q") auto
  ultimately have "check_change (map (\<lambda>f. (file_path f, f)) fs) c = check_change (map (\<lambda>f. (file_path f, f)) fs') c" for c
    by (intro check_change_cong [of _ "upd_path c"]) (simp_all add: dict_get_by_path)
  then show ?thesis by (simp add: accepts_def)
qed

text \<open>The state after a batch, as the other lemmas use it.\<close>

definition batch_result ::
  "(string \<Rightarrow> string) \<Rightarrow> string set \<Rightarrow> string \<Rightarrow> source_tree \<Rightarrow> tree_map \<Rightarrow>
   node_value graph \<Rightarrow> node_value graph \<Rightarrow> bool" where
  "batch_result sha C rid t m g g' \<longleftrightarrow>
     source_inv sha C g' \<and>
     (\<exists>t' fs'. sees rid t' fs' g' \<and> tree_view fs' = m \<and> tree_id t' = tree_id t \<and> tree_status t' = Tree_draft \<and>
        tree_tree_hash t' = listing_hash sha (listing_rows fs')) \<and>
     (\<forall>rid' u us. sees rid' u us g \<and> tree_id u \<noteq> tree_id t \<longrightarrow> sees rid' u us g')"

lemma working_tree_batch:
  assumes inv: "source_inv sha C g" and inj: "inj_on (source_content_id sha) C"
    and s: "sees rid t fs g" and draft: "tree_status t = Tree_draft"
    and cs: "list_all (change_in C) cs" "accepts fs cs" "spec_changes cs (tree_view fs) = Some m"
    and exp: "truthy exp \<Longrightarrow> exp = Some (tree_tree_hash t)"
  shows "\<exists>written g'. batch_update_working_tree sha now (tree_id t) cs exp g = (Inr written, g') \<and>
    batch_result sha C rid t m g g'"
proof -
  let ?tid = "tree_id t"
  have t: "tree rid g = Inr t" and l: "list_source_tree ?tid g = Inr fs"
    using s by (simp_all add: sees_def)
  have get: "coll_get source_trees_coll (key ?tid) g = Some t" by (rule tree_get [OF source_inv_typed [OF inv] t])
  let ?files = "map (\<lambda>f. (file_path f, f)) fs"
  have "change_outcome sha C ?tid g (Some m) (apply_changes sha now ?tid cs (?files, []) g)"
    using apply_changes_outcome [OF batch_state_start [OF inv l coll_get_has_tree [OF get]] inj cs(1)] cs(3) by metis
  then obtain files' written g1 where run: "apply_changes sha now ?tid cs (?files, []) g = (Inr (files', written), g1)"
    and st: "batch_state sha C ?tid m files' g1" and step: "file_step ?tid g g1"
    by (cases "apply_changes sha now ?tid cs (?files, []) g") (auto simp: change_outcome_def)
  from st obtain fs' where inv1: "source_inv sha C g1" and l1: "list_source_tree ?tid g1 = Inr fs'" "tree_view fs' = m"
    by (rule batch_stateD) blast
  let ?t' = "t\<lparr>tree_tree_hash := listing_hash sha (listing_rows fs'), tree_updated_at := now\<rparr>"
  let ?g2 = "save_tree ?t' g1"
  have get1: "coll_get source_trees_coll (key ?tid) g1 = Some t" using get step by (simp add: file_step_tree_get)
  have refresh: "refresh_tree_hash sha now ?tid g1 = (Inr (), ?g2)"
    by (simp add: refresh_tree_hash_def l1 coll_item_def get1)
  from gc_source [OF source_inv_save_tree [OF inv1], of ?t'] obtain d g' where
    gc: "delete_interned_orphans ?g2 = (Inr d, g')" "source_inv sha C g'"
    and keep: "\<And>rid t fs. sees rid t fs ?g2 \<Longrightarrow> sees rid t fs g'" by blast
  have "batch_update_working_tree sha now ?tid cs exp g = (Inr written, g')"
    using get draft exp validate_accepts(1) [OF l cs(2)] run refresh gc(1)
    by (auto simp: batch_update_working_tree_def coll_item_def op_defs)
  moreover have "sees rid ?t' fs' ?g2"
    using tree_save_tree [OF source_inv_typed [OF inv1], of rid t ?t'] file_step_tree [OF step, of rid] t l1
    by (simp add: sees_def)
  moreover have "sees rid' u us ?g2" if "sees rid' u us g" "tree_id u \<noteq> ?tid" for rid' u us
    using tree_save_tree [OF source_inv_typed [OF inv1], of rid' u ?t'] file_step_tree [OF step, of rid']
      file_step_listing [OF step that(2)] that by (simp add: sees_def)
  ultimately show ?thesis
    using gc(2) keep l1(2) draft unfolding batch_result_def
    by (intro exI [where x = written] exI [where x = g'] conjI exI [where x = ?t'] exI [where x = fs']) auto
qed

section \<open>Copy on write\<close>

lemma put_files_outcome:
  assumes inj: "inj_on (source_content_id sha) C"
    and "source_inv sha C g" and "has_tree tid g" and "list_source_tree tid g = Inr us"
    and "\<forall>f\<in>set fs. hash_ok sha C f"
  shows "\<exists>g' us'. put_files now tid fs g = (Inr (), g') \<and> source_inv sha C g' \<and> file_step tid g g' \<and>
    list_source_tree tid g' = Inr us' \<and>
    files_map us' = fold (\<lambda>f m. m(file_path f \<mapsto> stored_as tid f)) fs (files_map us)"
  using assms(2-5)
proof (induction fs arbitrary: g us)
  case Nil
  then show ?case by (simp add: put_files_def op_defs)
next
  case (Cons f fs)
  obtain g1 where put: "put_file now tid f g = (Inr (f\<lparr>file_source_tree_id := tid\<rparr>), g1)"
    using put_file_result by blast
  have f: "hash_ok sha C f" using Cons.prems(4) by simp
  from put_file_listing [OF Cons.prems(1,2) inj Cons.prems(3) f put] obtain us1 where
    us1: "list_source_tree tid g1 = Inr us1" "files_map us1 = (files_map us)(file_path f \<mapsto> stored_as tid f)" by blast
  have inv1: "source_inv sha C g1" by (rule put_file_inv [OF Cons.prems(1,2) f put])
  have step1: "file_step tid g g1" by (rule put_file_step [OF put])
  have "has_tree tid g1" using Cons.prems(2) file_step_has_tree [OF step1] by simp
  moreover have "\<forall>f\<in>set fs. hash_ok sha C f" using Cons.prems(4) by simp
  ultimately obtain g' us' where
    "put_files now tid fs g1 = (Inr (), g')" "source_inv sha C g'" "file_step tid g1 g'"
    "list_source_tree tid g' = Inr us'"
    "files_map us' = fold (\<lambda>f m. m(file_path f \<mapsto> stored_as tid f)) fs (files_map us1)"
    using Cons.IH [OF inv1 _ us1(1)] by blast
  moreover from this(1) have "put_files now tid (f # fs) g = (Inr (), g')"
    by (simp add: put_files_def op_defs put)
  ultimately show ?case using us1(2) file_step_trans [OF step1] by (auto simp del: fun_upd_apply)
qed

lemma fold_stored:
  "distinct (map file_path fs) \<Longrightarrow>
     fold (\<lambda>f m. m(file_path f \<mapsto> stored_as tid f)) fs m =
     (\<lambda>p. case files_map fs p of None \<Rightarrow> m p | Some f \<Rightarrow> Some (stored_as tid f))"
proof (induction fs arbitrary: m)
  case Nil
  then show ?case by simp
next
  case (Cons f fs)
  then have "files_map fs (file_path f) = None"
    by (cases "files_map fs (file_path f)") (auto dest!: files_map_SomeD simp: image_iff)
  with Cons show ?case by (auto simp: fun_eq_iff split: option.splits)
qed

lemma anchored_has_tree:
  assumes "trees_anchored g" and "e \<in> set (edges g)" and "edge_from e = tree_ref i"
  shows "has_tree i g"
proof -
  have "ref_label (edge_from e) = ''SourceTree''" using assms(3) by (simp add: tree_ref_def)
  with assms(1,2) obtain j where "edge_from e = id_ref ''SourceTree'' j" "(''SourceTree'', key j) \<in> fst ` set (nodes g)"
    unfolding trees_anchored_def by blast
  with assms(3) show ?thesis by (simp add: tree_ref_def has_tree_def)
qed

lemma absent_tree_no_rows:
  assumes "typed_graph g" and "trees_anchored g" and "coll_get source_trees_coll (key i) g = None"
  shows "file_rows i g = []"
proof (rule ccontr)
  assume "file_rows i g \<noteq> []"
  then obtain e where "e \<in> set (file_rows i g)" by (cases "file_rows i g") auto
  then have e: "e \<in> set (edges g)" "edge_from e = tree_ref i"
    by (auto simp: file_rows_def list_edges_def matches_edge_def)
  have "has_tree i g" by (rule anchored_has_tree [OF assms(2) e])
  then have "\<exists>m. coll_get source_trees_coll (key i) g = Some m"
    using source_trees.present_get [OF assms(1), of "key i"] by (auto simp: has_tree_iff source_trees_coll_def)
  with assms(3) show False by simp
qed

lemma set_tree_inv:
  assumes "source_inv sha C g" and "set_tree rid tid g = (Inr (), g')"
  shows "source_inv sha C g'" and "list_source_tree i g' = list_source_tree i g"
proof -
  from assms(2) obtain l where l: "resolve rid g = Inr l"
    by (cases "resolve rid g") (auto simp: set_tree_def)
  let ?f = "id_ref l rid"
  let ?g0 = "delete_edge ?f ''HAS_SOURCE_TREE'' None None g"
  have g': "g' = create_edge ?f ''HAS_SOURCE_TREE'' (id_ref ''SourceTree'' tid) [] ?g0"
    using assms(2) by (simp add: set_tree_def l replace_single_edge_def)
  have "l \<noteq> ''SourceTree''" using resolve_label [OF l] by (auto simp: revision_labels_def)
  with assms(1) show "source_inv sha C g'"
    by (auto simp: g' source_inv_def store_ok_def blobs_ok_def source_contents.get_create_edge
        source_contents.get_delete_edge wf_create_edge wf_delete_edge typed_edges_delete_edge anchored_delete_edge
        intro!: anchored_create_edge typed_edges_create)
  have "file_rows i g' = file_rows i g"
    unfolding g' file_rows_def by (simp add: graph_simps)
  then show "list_source_tree i g' = list_source_tree i g"
    by (simp add: g' list_source_tree_def hydrate_row_def [abs_def] coll_item_def
        source_contents.get_create_edge source_contents.get_delete_edge)
qed

text \<open>
  The first write to a revision bound to an interned tree: the private copy has the same files,
  the revision is bound to it, and no other revision changes.
\<close>

lemma ensure_writable_copies:
  assumes inv: "source_inv sha C g" and inj: "inj_on (source_content_id sha) C"
    and s: "sees rid t fs g" and interned: "tree_status t = Tree_interned"
    and fresh: "coll_get source_trees_coll (key (working_id rid)) g = None"
  shows "\<exists>w g' fs'. ensure_writable now rid g = (Inr w, g') \<and> source_inv sha C g' \<and> sees rid w fs' g' \<and>
    tree_view fs' = tree_view fs \<and> tree_status w = Tree_draft \<and> tree_id w = working_id rid \<and>
    tree_tree_hash w = tree_tree_hash t \<and>
    (\<forall>rid' u us. sees rid' u us g \<and> rid' \<noteq> rid \<longrightarrow> sees rid' u us g')"
proof -
  have t: "tree rid g = Inr t" and l: "list_source_tree (tree_id t) g = Inr fs"
    using s by (simp_all add: sees_def)
  from t obtain label where label: "resolve rid g = Inr label" by (auto simp: tree_def rbind_eq_Inr)
  note typed = source_inv_typed [OF inv]
  define w where "w = new_tree now (working_id rid) Tree_draft (tree_tree_hash t) (Some (owner_of_label label)) (Some rid)"
  have w: "tree_id w = working_id rid" "tree_status w = Tree_draft" "tree_tree_hash w = tree_tree_hash t"
    by (simp_all add: w_def new_tree_def)
  let ?g1 = "save_tree w g"
  have inv1: "source_inv sha C ?g1" by (rule source_inv_save_tree [OF inv])
  have has1: "has_tree (working_id rid) ?g1" using has_tree_save_tree [of w g] w(1) by simp
  have empty1: "list_source_tree (working_id rid) ?g1 = Inr []"
    using absent_tree_no_rows [OF typed source_inv_anchored [OF inv] fresh]
    by (simp add: list_source_tree_def [of _ g])
  from put_files_outcome [OF inj inv1 has1 empty1 listing_hash_ok [OF inv l], of now] obtain g2 us where
    g2: "put_files now (working_id rid) fs ?g1 = (Inr (), g2)" "source_inv sha C g2"
      "file_step (working_id rid) ?g1 g2" "list_source_tree (working_id rid) g2 = Inr us"
      "files_map us = fold (\<lambda>f m. m(file_path f \<mapsto> stored_as (working_id rid) f)) fs Map.empty" by auto
  have view: "tree_view us = tree_view fs"
    using fold_stored [OF listing_paths_distinct [OF inv l], of "working_id rid" Map.empty] g2(5)
    by (auto simp: fun_eq_iff tree_view_map split: option.splits)
  have old: "sees rid' u us g2 \<and> tree_id u \<noteq> working_id rid" if "sees rid' u us g" for rid' u us
  proof -
    have u: "tree_id u \<noteq> working_id rid"
      using that tree_get [OF typed, of rid' u] fresh by (auto simp: sees_def)
    with that tree_save_tree [OF typed, of rid' u w] file_step_tree [OF g2(3), of rid']
      file_step_listing [OF g2(3) u, of us] show ?thesis
      by (simp add: sees_def w(1))
  qed
  have res2: "resolve rid g2 = Inr label" using file_step_resolve [OF g2(3), of rid] label by simp
  have get2: "coll_get source_trees_coll (key (working_id rid)) g2 = Some w"
    using file_step_tree_get [OF g2(3)] get_save_tree [of "working_id rid" w g] w(1) by simp
  from tree_set_tree [OF res2 get2] obtain g3 where
    g3: "set_tree rid (working_id rid) g2 = (Inr (), g3)" "tree rid g3 = Inr w" by blast
  note inv3 = set_tree_inv [OF g2(2) g3(1)]
  from gc_source [OF inv3(1)] obtain d g' where
    gc: "delete_interned_orphans g3 = (Inr d, g')" "source_inv sha C g'"
    and keep: "\<And>rid t fs. sees rid t fs g3 \<Longrightarrow> sees rid t fs g'" by blast
  have "ensure_writable now rid g = (Inr w, g')"
    using t label interned l g2(1) g3(1) gc(1) w(1) listing_save_tree [of "tree_id t" w g]
    by (simp add: ensure_writable_def Let_def op_defs w_def [symmetric] del: owner_of_label.simps)
  moreover have "sees rid w us g'"
    by (rule keep) (simp add: sees_def g3(2) inv3(2) w(1) g2(4))
  moreover have "sees rid' u us g'" if "sees rid' u us g" "rid' \<noteq> rid" for rid' u us
    by (rule keep) (use old [OF that(1)] tree_set_tree_other [OF that(2) g3(1)] inv3(2) in \<open>simp add: sees_def\<close>)
  ultimately show ?thesis using gc(2) view w by blast
qed

section \<open>A batch on a revision\<close>

text \<open>A draft is private to the revision; an interned tree has no working copy yet.\<close>

definition editable :: "string \<Rightarrow> source_tree \<Rightarrow> node_value graph \<Rightarrow> bool" where
  "editable rid t g \<longleftrightarrow>
     (case tree_status t of
        Tree_draft \<Rightarrow> \<forall>rid' u us. sees rid' u us g \<and> rid' \<noteq> rid \<longrightarrow> tree_id u \<noteq> tree_id t
      | Tree_interned \<Rightarrow> coll_get source_trees_coll (key (working_id rid)) g = None)"

lemma revision_batch:
  assumes inv: "source_inv sha C g" and inj: "inj_on (source_content_id sha) C"
    and s: "sees rid t fs g" and ed: "editable rid t g"
    and cs: "list_all (change_in C) cs" "accepts fs cs" "spec_changes cs (tree_view fs) = Some m"
    and exp: "truthy exp \<Longrightarrow> exp = Some (tree_tree_hash t)"
  shows "\<exists>written g' t' fs'. batch_update_revision sha now rid cs exp g = (Inr written, g') \<and> source_inv sha C g' \<and>
    sees rid t' fs' g' \<and> tree_view fs' = m \<and> tree_status t' = Tree_draft \<and>
    tree_tree_hash t' = listing_hash sha (listing_rows fs') \<and>
    (\<forall>rid' u us. sees rid' u us g \<and> rid' \<noteq> rid \<longrightarrow> sees rid' u us g')"
proof -
  have t: "tree rid g = Inr t" and l: "list_source_tree (tree_id t) g = Inr fs"
    using s by (simp_all add: sees_def)
  have "\<exists>w g1 fs1. ensure_writable now rid g = (Inr w, g1) \<and> source_inv sha C g1 \<and> sees rid w fs1 g1 \<and>
    tree_view fs1 = tree_view fs \<and> tree_status w = Tree_draft \<and>
    (\<forall>rid' u us. sees rid' u us g \<and> rid' \<noteq> rid \<longrightarrow> sees rid' u us g1 \<and> tree_id u \<noteq> tree_id w)"
  proof (cases "tree_status t")
    case Tree_draft
    from t obtain label where "resolve rid g = Inr label" by (auto simp: tree_def rbind_eq_Inr)
    with t Tree_draft have "ensure_writable now rid g = (Inr t, g)" by (simp add: ensure_writable_def)
    with inv s Tree_draft ed show ?thesis unfolding editable_def by auto
  next
    case Tree_interned
    with ed have fresh: "coll_get source_trees_coll (key (working_id rid)) g = None"
      by (simp add: editable_def)
    have "tree_id u \<noteq> working_id rid" if "sees rid' u us g" for rid' u us
      using that tree_get [OF source_inv_typed [OF inv], of rid' u] fresh by (auto simp: sees_def)
    with ensure_writable_copies [OF inv inj s Tree_interned fresh, of now] show ?thesis by metis
  qed
  then obtain w g1 fs1 where ew: "ensure_writable now rid g = (Inr w, g1)" "source_inv sha C g1" "sees rid w fs1 g1"
    "tree_view fs1 = tree_view fs" "tree_status w = Tree_draft"
    and others: "\<And>rid' u us. sees rid' u us g \<Longrightarrow> rid' \<noteq> rid \<Longrightarrow> sees rid' u us g1 \<and> tree_id u \<noteq> tree_id w"
    by blast
  have l1: "list_source_tree (tree_id w) g1 = Inr fs1" using ew(3) by (simp add: sees_def)
  have "accepts fs1 cs"
    using accepts_cong [OF listing_hash_ok [OF ew(2) l1] listing_hash_ok [OF inv l] ew(4)] cs(2) by simp
  moreover have "spec_changes cs (tree_view fs1) = Some m" using ew(4) cs(3) by simp
  ultimately obtain written g' where
    run: "batch_update_working_tree sha now (tree_id w) cs None g1 = (Inr written, g')" "batch_result sha C rid w m g1 g'"
    using working_tree_batch [OF ew(2) inj ew(3,5) cs(1), of m None now] by (auto simp: truthy_def)
  have "batch_update_revision sha now rid cs exp g = (Inr written, g')"
    using t exp validate_accepts(1) [OF l cs(2)] ew(1) run(1)
    by (auto simp: batch_update_revision_def op_defs)
  then show ?thesis
    using run(2) others unfolding batch_result_def by metis
qed

end
