(* ===== verification/Source_Interning.thy ===== *)
theory Source_Interning
  imports Copy_On_Write
begin

text \<open>
  Interning (\<^verbatim>\<open>SourceStore.intern_tree\<close>): a draft tree is replaced by the interned tree named by
  the hash of its listing. The content a revision sees does not change, nor does what any other
  revision sees.
\<close>

section \<open>Deleting a working tree\<close>

lemma delete_tree_node_eq: "delete_tree_node tid g = delete_node ''SourceTree'' (key tid) g"
proof -
  let ?kept = "filter (\<lambda>e. edge_from e \<noteq> NodeRef ''SourceTree'' (key tid) \<and> edge_to e \<noteq> NodeRef ''SourceTree'' (key tid))"
  obtain es where es: "delete_edge (tree_ref tid) ''HAS_FILE'' None None g = g\<lparr>edges := es\<rparr>"
    "es = filter (\<lambda>e. \<not> matches_edge (Some (tree_ref tid)) (Some ''HAS_FILE'') None e) (edges g)"
    by (simp add: delete_edge_def)
  have "?kept es = ?kept (edges g)"
    unfolding es(2) by (auto simp: matches_edge_def tree_ref_def id_ref_key intro!: filter_cong)
  then show ?thesis
    by (simp only: delete_tree_node_def coll_delete_def delete_node_def Let_def es(1))
      (simp add: source_trees_coll_def)
qed

lemma pruned_delete_tree: "pruned {tree_ref tid} g (delete_tree_node tid g)"
  using pruned_delete_node [of "''SourceTree''" "key tid" g] by (simp add: delete_tree_node_eq tree_ref_def id_ref_key)

lemma delete_tree_inv:
  assumes "source_inv sha C g"
  shows "source_inv sha C (delete_tree_node tid g)"
proof -
  note p = pruned_delete_tree [of tid g]
  show ?thesis
    using assms trees_anchored_pruned [OF _ p] pruned_blobs_ok [OF _ p]
      typed_delete_node [of g "''SourceTree''" "key tid"] wf_delete_node [of g "''SourceTree''" "key tid"]
      typed_edges_delete_node [of g "''SourceTree''" "key tid"]
    by (simp add: source_inv_def store_ok_def delete_tree_node_eq)
qed

text \<open>A revision bound to another tree sees what it saw.\<close>

lemma delete_tree_sees:
  assumes inv: "source_inv sha C g" and s: "sees rid t fs g" and other: "tree_id t \<noteq> tid"
  shows "sees rid t fs (delete_tree_node tid g)"
proof -
  let ?g = "delete_tree_node tid g"
  note p = pruned_delete_tree [of tid g]
  note typed = source_inv_typed [OF inv] and te = source_inv_edges [OF inv]
  have t: "tree rid g = Inr t" and l: "list_source_tree (tree_id t) g = Inr fs" using s by (simp_all add: sees_def)
  from tree_target [OF typed t] obtain lab e where le: "resolve rid g = Inr lab"
    "list_edges (Some (id_ref lab rid)) (Some ''HAS_SOURCE_TREE'') None g = [e]"
    "ref_id (edge_to e) = tree_id t" "coll_get source_trees_coll (key (tree_id t)) g = Some t" by blast
  have node: "get_node lb i ?g = get_node lb i g" if "NodeRef lb i \<noteq> tree_ref tid" for lb i
    by (rule pruned_get_node [OF p]) (use that in simp)
  have "get_node lb (key rid) ?g = get_node lb (key rid) g" if "lb \<in> set revision_labels" for lb
    by (rule node) (use that in \<open>auto simp: tree_ref_def id_ref_def revision_labels_def\<close>)
  then have "resolve rid ?g = resolve rid g" by (simp add: resolve_def revision_labels_def)
  with le(1) have res: "resolve rid ?g = Inr lab" by simp
  have lab: "lab \<noteq> ''SourceTree''" using resolve_label [OF le(1)] by (auto simp: revision_labels_def)
  have "list_edges (Some (id_ref lab rid)) (Some ''HAS_SOURCE_TREE'') None ?g = [e]"
  proof (subst pruned_list_edges [OF p])
    fix e'
    assume "e' \<in> set (list_edges (Some (id_ref lab rid)) (Some ''HAS_SOURCE_TREE'') None g)"
    then have e': "e' = e" "e' \<in> set (edges g)" "edge_type e' = ''HAS_SOURCE_TREE''" "edge_from e' = id_ref lab rid"
      using le(2) by (simp, auto simp: list_edges_def matches_edge_def)
    with te le(3) have "edge_to e' = tree_ref (tree_id t)" unfolding typed_edges_def tree_ref_def by metis
    with e'(4) lab other show "edge_from e' \<notin> {tree_ref tid} \<and> edge_to e' \<notin> {tree_ref tid}"
      by (simp add: tree_ref_def)
  qed (rule le(2))
  moreover have "coll_get source_trees_coll (key (tree_id t)) ?g = Some t"
    using le(4) node [of "''SourceTree''" "key (tree_id t)"] other
    by (simp add: coll_get_def source_trees_coll_def tree_ref_def id_ref_key)
  ultimately have tree': "tree rid ?g = Inr t" using res le(3) by (simp add: tree_def coll_item_def)
  have rows: "file_rows (tree_id t) ?g = file_rows (tree_id t) g"
    unfolding file_rows_def
  proof (rule pruned_list_edges [OF p])
    fix e'
    assume "e' \<in> set (list_edges (Some (tree_ref (tree_id t))) (Some ''HAS_FILE'') None g)"
    then have e': "e' \<in> set (edges g)" "edge_type e' = ''HAS_FILE''" "edge_from e' = tree_ref (tree_id t)"
      by (auto simp: list_edges_def matches_edge_def)
    with te have "edge_to e' = id_ref ''SourceContent'' (ref_id (edge_to e'))" by (simp add: typed_edges_def)
    then have "ref_label (edge_to e') = ''SourceContent''" by (metis ref_label_id_ref)
    then have "edge_to e' \<noteq> tree_ref tid" by (auto simp: tree_ref_def)
    with e'(3) other show "edge_from e' \<notin> {tree_ref tid} \<and> edge_to e' \<notin> {tree_ref tid}" by simp
  qed
  have "coll_get source_contents_coll k ?g = coll_get source_contents_coll k g" for k
    using node [of "''SourceContent''" k] by (simp add: coll_get_def source_contents_coll_def tree_ref_def id_ref_def)
  with listing_ext [OF l rows] have "list_source_tree (tree_id t) ?g = Inr fs" by simp
  with tree' show ?thesis by (simp add: sees_def)
qed

section \<open>Interning a draft\<close>

text \<open>No other listing has this hash: a tree already interned under it holds the same files.\<close>

definition hash_free :: "(string \<Rightarrow> string) \<Rightarrow> source_file list \<Rightarrow> node_value graph \<Rightarrow> bool" where
  "hash_free sha fs g \<longleftrightarrow>
     (case coll_get source_trees_coll (key (listing_hash sha (listing_rows fs))) g of
        None \<Rightarrow> True
      | Some t \<Rightarrow> tree_status t = Tree_interned \<and>
          (\<exists>us. list_source_tree (listing_hash sha (listing_rows fs)) g = Inr us \<and> tree_view us = tree_view fs))"

text \<open>The interned tree exists, with the same files, before the revision is bound to it.\<close>

definition interned_source :: "(string \<Rightarrow> string) \<Rightarrow> int \<Rightarrow> string \<Rightarrow> string \<Rightarrow> (node_value graph, source_tree) op" where
  "interned_source sha now tid h =
     bindE (\<lambda>g. (Inr (coll_get source_trees_coll (key h) g), g)) (\<lambda>found.
       case found of
         Some t \<Rightarrow> ret t
       | None \<Rightarrow> bindE (modify (save_tree (new_tree now h Tree_interned h None None))) (\<lambda>_.
           bindE (\<lambda>g. (list_source_tree tid g, g)) (\<lambda>fs.
           bindE (put_files now h fs) (\<lambda>_. ret (new_tree now h Tree_interned h None None)))))"

lemma interned_source_outcome:
  assumes inv: "source_inv sha C g" and inj: "inj_on (source_content_id sha) C"
    and l: "list_source_tree tid g = Inr fs" and free: "hash_free sha fs g"
    and h: "h = listing_hash sha (listing_rows fs)"
  shows "\<exists>w g' us. interned_source sha now tid h g = (Inr w, g') \<and> source_inv sha C g' \<and> tree_id w = h \<and>
    tree_status w = Tree_interned \<and> coll_get source_trees_coll (key h) g' = Some w \<and>
    list_source_tree h g' = Inr us \<and> tree_view us = tree_view fs \<and>
    (\<forall>rid. resolve rid g' = resolve rid g) \<and>
    (\<forall>rid t ts. sees rid t ts g \<longrightarrow> sees rid t ts g')"
proof (cases "coll_get source_trees_coll (key h) g")
  case (Some w)
  with free h have w: "tree_status w = Tree_interned" "\<exists>us. list_source_tree h g = Inr us \<and> tree_view us = tree_view fs"
    by (auto simp: hash_free_def)
  have "tree_id w = h"
    using source_trees.get_identity [OF source_inv_typed [OF inv] Some] by (simp add: source_trees_coll_def)
  with Some w inv show ?thesis by (auto simp: interned_source_def op_defs)
next
  case None
  define w where "w = new_tree now h Tree_interned h None None"
  have w: "tree_id w = h" "tree_status w = Tree_interned" by (simp_all add: w_def new_tree_def)
  let ?g1 = "save_tree w g"
  have inv1: "source_inv sha C ?g1" by (rule source_inv_save_tree [OF inv])
  have has1: "has_tree h ?g1" using has_tree_save_tree [of w g] w(1) by simp
  have empty1: "list_source_tree h ?g1 = Inr []"
    using absent_tree_no_rows [OF source_inv_typed [OF inv] source_inv_anchored [OF inv] None]
    by (simp add: list_source_tree_def [of _ g])
  from put_files_outcome [OF inj inv1 has1 empty1 listing_hash_ok [OF inv l], of now] obtain g2 us where
    g2: "put_files now h fs ?g1 = (Inr (), g2)" "source_inv sha C g2" "file_step h ?g1 g2"
      "list_source_tree h g2 = Inr us"
      "files_map us = fold (\<lambda>f m. m(file_path f \<mapsto> stored_as h f)) fs Map.empty" by auto
  have view: "tree_view us = tree_view fs"
    using fold_stored [OF listing_paths_distinct [OF inv l], of h Map.empty] g2(5)
    by (auto simp: fun_eq_iff tree_view_map split: option.splits)
  have old: "sees rid t ts g2" if s: "sees rid t ts g" for rid t ts
  proof -
    have other: "tree_id t \<noteq> h"
      using s tree_get [OF source_inv_typed [OF inv], of rid t] None by (auto simp: sees_def)
    with s tree_save_tree [OF source_inv_typed [OF inv], of rid t w] file_step_tree [OF g2(3), of rid]
      file_step_listing [OF g2(3) other, of ts] show ?thesis
      by (simp add: sees_def w(1))
  qed
  have "coll_get source_trees_coll (key h) g2 = Some w"
    using file_step_tree_get [OF g2(3)] get_save_tree [of h w g] w(1) by simp
  moreover have "interned_source sha now tid h g = (Inr w, g2)"
    using None g2(1) l listing_save_tree [of tid w g] by (simp add: interned_source_def op_defs w_def)
  moreover have "resolve rid g2 = resolve rid g" for rid using file_step_resolve [OF g2(3)] by simp
  ultimately show ?thesis using g2 view old w by blast
qed

lemma intern_tree_unfold:
  assumes s: "sees rid t fs g" and free: "hash_free sha fs g" and h: "h = listing_hash sha (listing_rows fs)"
    and draft: "tree_status t = Tree_draft" and other: "tree_id t \<noteq> h"
    and w: "interned_source sha now (tree_id t) h g = (Inr w, g1)" "tree_id w = h"
    and b: "set_tree rid h g1 = (Inr (), g2)"
    and gc: "delete_interned_orphans (delete_tree_node (tree_id t) g2) = (Inr d, g')"
  shows "intern_tree sha now rid g = (Inr w, g')"
proof (cases "coll_get source_trees_coll (key h) g")
  case (Some u)
  with free h have "tree_status u = Tree_interned" by (simp add: hash_free_def)
  with Some assms show ?thesis by (simp add: intern_tree_def sees_def Let_def op_defs interned_source_def)
next
  case None
  with w have "w = new_tree now h Tree_interned h None None"
    by (auto simp: interned_source_def op_defs split: prod.splits sum.splits)
  with None assms show ?thesis
    by (auto simp: intern_tree_def sees_def Let_def op_defs interned_source_def split: prod.splits sum.splits)
qed

lemma intern_tree_outcome:
  assumes inv: "source_inv sha C g" and inj: "inj_on (source_content_id sha) C"
    and s: "sees rid t fs g" and free: "hash_free sha fs g" and h: "h = listing_hash sha (listing_rows fs)"
    and draft: "tree_status t = Tree_draft" and other: "tree_id t \<noteq> h"
    and own: "\<And>rid' u us. sees rid' u us g \<Longrightarrow> rid' \<noteq> rid \<Longrightarrow> tree_id u \<noteq> tree_id t"
  shows "\<exists>w g' fs'. intern_tree sha now rid g = (Inr w, g') \<and> source_inv sha C g' \<and> sees rid w fs' g' \<and>
    tree_view fs' = tree_view fs \<and> tree_id w = h \<and> tree_status w = Tree_interned \<and>
    (\<forall>rid' u us. sees rid' u us g \<and> rid' \<noteq> rid \<longrightarrow> sees rid' u us g')"
proof -
  have l: "list_source_tree (tree_id t) g = Inr fs" using s by (simp add: sees_def)
  from interned_source_outcome [OF inv inj l free h, of now] obtain w g1 us where
    w: "interned_source sha now (tree_id t) h g = (Inr w, g1)" "source_inv sha C g1" "tree_id w = h"
      "tree_status w = Tree_interned" "coll_get source_trees_coll (key h) g1 = Some w"
      "list_source_tree h g1 = Inr us" "tree_view us = tree_view fs"
      "\<And>rid. resolve rid g1 = resolve rid g" and keep1: "\<And>rid t ts. sees rid t ts g \<Longrightarrow> sees rid t ts g1" by blast
  from s obtain lab where lab: "resolve rid g1 = Inr lab" using w(8) by (auto simp: sees_def tree_def rbind_eq_Inr)
  from tree_set_tree [OF lab w(5)] obtain g2 where g2: "set_tree rid h g1 = (Inr (), g2)" "tree rid g2 = Inr w" by blast
  note inv2 = set_tree_inv [OF w(2) g2(1)]
  have sees2: "sees rid w us g2" using g2(2) inv2(2) w(3,6) by (simp add: sees_def)
  let ?g3 = "delete_tree_node (tree_id t) g2"
  have inv3: "source_inv sha C ?g3" by (rule delete_tree_inv [OF inv2(1)])
  from gc_source [OF inv3] obtain d g' where gc: "delete_interned_orphans ?g3 = (Inr d, g')" "source_inv sha C g'"
    and keep: "\<And>rid t fs. sees rid t fs ?g3 \<Longrightarrow> sees rid t fs g'" by blast
  have "sees rid w us g'"
    by (rule keep) (rule delete_tree_sees [OF inv2(1) sees2], use other w(3) in simp)
  moreover have "sees rid' u us' g'" if "sees rid' u us' g" "rid' \<noteq> rid" for rid' u us'
  proof -
    have "sees rid' u us' g2"
      using keep1 [OF that(1)] tree_set_tree_other [OF that(2) g2(1)] inv2(2) by (simp add: sees_def)
    from keep [OF delete_tree_sees [OF inv2(1) this own [OF that]]] show ?thesis .
  qed
  moreover have "intern_tree sha now rid g = (Inr w, g')"
    by (rule intern_tree_unfold [OF s free h draft other w(1,3) g2(1) gc(1)])
  ultimately show ?thesis using gc(2) w(3,4,7) by blast
qed

end
