(* ===== verification/Source_Properties.thy ===== *)
theory Source_Properties
  imports Source_Interning "HOL-Library.Multiset"
begin

text \<open>
  Properties of the source store: patches, batches, copy on write, interning, reading and
  searching. The examples of the witnesses share one small graph: an application revision with
  an empty working tree, hashed with the identity.
\<close>

section \<open>An example store\<close>

definition sample_revision :: application_revision where
  "sample_revision = \<lparr>rev_id = ''r'', rev_application_id = ''app'', rev_parent_revision_id = None,
     rev_ui_profile = Ui_n4x_default, rev_status = Rev_draft, rev_created_at = 0, rev_created_by = ''system''\<rparr>"

definition sample_tree :: "source_tree_status \<Rightarrow> source_tree" where
  "sample_tree st = \<lparr>tree_id = ''t'', tree_status = st, tree_tree_hash = ''h'', tree_owner_kind = None,
     tree_owner_id = None, tree_created_at = 0, tree_updated_at = 0\<rparr>"

definition sample_graph :: "source_tree_status \<Rightarrow> node_value graph" where
  "sample_graph st = snd (set_tree ''r'' ''t'' (save_tree (sample_tree st) (coll_save revisions_coll sample_revision empty_graph)))"

lemma sample_graph_eq:
  "nodes (sample_graph st) = [((''ApplicationRevision'', key ''r''), coll_put revisions_coll sample_revision),
      ((''SourceTree'', key ''t''), coll_put source_trees_coll (sample_tree st))]"
  "edges (sample_graph st) = [new_edge (id_ref ''ApplicationRevision'' ''r'') ''HAS_SOURCE_TREE'' (id_ref ''SourceTree'' ''t'') []]"
  "app_relations (sample_graph st) = []"
  by (simp_all add: sample_graph_def set_tree_def save_tree_def coll_save_def upsert_node_def empty_graph_def
      revisions_coll_def source_trees_coll_def sample_revision_def sample_tree_def resolve_def revision_labels_def
      get_node_def replace_single_edge_def delete_edge_def create_edge_def same_edge_def)

lemma sample_inv: "source_inv (\<lambda>s. s) UNIV (sample_graph st)"
  by (simp add: source_inv_def store_ok_def typed_graph_def wf_graph_def file_edges_def trees_anchored_def
      typed_edges_def blobs_ok_def coll_get_def get_node_def sample_graph_eq new_edge_def source_contents_coll_def
      revisions_coll_def source_trees_coll_def sample_revision_def sample_tree_def key_def)

lemma sample_sees: "sees ''r'' (sample_tree st) [] (sample_graph st)"
  by (simp add: sees_def tree_def resolve_def revision_labels_def get_node_def sample_graph_eq list_edges_def
      matches_edge_def new_edge_def coll_item_def coll_get_def source_trees_coll_def sample_tree_def
      list_source_tree_def file_rows_def tree_ref_def)

lemma sample_hash_inj: "inj_on (source_content_id (\<lambda>s. s)) UNIV"
  by (simp add: inj_on_def source_content_id_def sha256_text_def)

section \<open>Patches\<close>

text \<open>C8: The patch engine computes exactly what a unified diff means. A patch applies, with result
  \<open>r\<close>, if and only if its header is well formed, its body parses into at least one hunk, and \<open>r\<close>
  is the text obtained by replacing, hunk after hunk and moving forward only, the one place where
  the old lines occur (or inserting at the hinted line when a hunk has no old lines).\<close>

theorem apply_unified_diff_correct:
  "apply_unified_diff content patch = Inr r \<longleftrightarrow>
     (\<exists>ls hs out. skip_file_header (splitlines_keep patch) = Inr ls \<and> parse_hunks ls = Some hs \<and> hs \<noteq> [] \<and>
        patched 0 (splitlines_keep content) hs out \<and> r = concat out)"
  using apply_unified_diff_sound apply_unified_diff_complete by blast

section \<open>Batches\<close>

text \<open>C9: A batch of source changes refines an update of a partial map from paths to content, role and
  language: when the batch passes validation and the map update is defined, the revision then sees
  exactly the updated map, in a draft tree whose hash is the hash of its listing, the store stays
  well formed, and every other revision sees exactly what it saw.\<close>

theorem batch_update_refines_map:
  assumes "source_inv sha C g" and "inj_on (source_content_id sha) C"
    and "sees rid t fs g" and "editable rid t g"
    and "list_all (change_in C) cs" and "accepts fs cs" and "spec_changes cs (tree_view fs) = Some m"
    and "truthy expected \<Longrightarrow> expected = Some (tree_tree_hash t)"
  shows "\<exists>written g' t' fs'. batch_update_revision sha now rid cs expected g = (Inr written, g') \<and>
    source_inv sha C g' \<and> sees rid t' fs' g' \<and> tree_view fs' = m \<and> tree_status t' = Tree_draft \<and>
    tree_tree_hash t' = listing_hash sha (listing_rows fs') \<and>
    (\<forall>rid' u us. sees rid' u us g \<and> rid' \<noteq> rid \<longrightarrow> sees rid' u us g')"
  using revision_batch [OF assms(1-7)] assms(8) by blast

theorem batch_update_refines_map_witness:
  "\<exists>written g' t' fs'. batch_update_revision (\<lambda>s. s) 7 ''r''
      [\<lparr>upd_operation = Op_write, upd_path = ''a.py'', upd_content = Some ''x'', upd_new_path = None,
        upd_role = Role_helper, upd_language = ''python'', upd_expected_hash = None\<rparr>] None (sample_graph Tree_interned) =
      (Inr written, g') \<and> sees ''r'' t' fs' g' \<and> tree_view fs' = [''a.py'' \<mapsto> (''x'', Role_helper, ''python'')]"
proof -
  let ?c = "\<lparr>upd_operation = Op_write, upd_path = ''a.py'', upd_content = Some ''x'', upd_new_path = None,
        upd_role = Role_helper, upd_language = ''python'', upd_expected_hash = None\<rparr>"
  have "editable ''r'' (sample_tree Tree_interned) (sample_graph Tree_interned)"
    by (simp add: editable_def sample_tree_def coll_get_def get_node_def sample_graph_eq source_trees_coll_def working_id_def)
  moreover have "list_all (change_in UNIV) [?c]" by (simp add: change_in_def)
  moreover have "accepts [] [?c]" by (simp add: accepts_def check_change_def Let_def truthy_def)
  moreover have "spec_changes [?c] (tree_view []) = Some [''a.py'' \<mapsto> (''x'', Role_helper, ''python'')]"
    by (simp add: spec_change_def tree_view_def)
  moreover have "truthy None \<Longrightarrow> None = Some (tree_tree_hash (sample_tree Tree_interned))" by (simp add: truthy_def)
  ultimately show ?thesis
    using batch_update_refines_map [OF sample_inv sample_hash_inj sample_sees, of Tree_interned "[?c]" _ None 7] by blast
qed

text \<open>C10: A batch that does not pass validation, or that names a stale tree hash, changes nothing: the
  graph is the one before the call and the revision keeps its tree.\<close>

theorem rejected_batch_changes_nothing:
  assumes "sees rid t fs g"
    and "\<not> accepts fs cs \<or> (truthy expected \<and> expected \<noteq> Some (tree_tree_hash t))"
  shows "\<exists>e. batch_update_revision sha now rid cs expected g = (Inl e, g)"
proof (cases "truthy expected \<and> expected \<noteq> Some (tree_tree_hash t)")
  case True
  with assms(1) show ?thesis by (auto simp: batch_update_revision_def sees_def)
next
  case False
  with assms obtain e where "validate_batch (tree_id t) cs g = Inl e"
    using validate_accepts(2) [of "tree_id t" g fs cs] by (auto simp: sees_def)
  with False assms(1) show ?thesis by (auto simp: batch_update_revision_def sees_def op_defs)
qed

theorem rejected_batch_changes_nothing_witness:
  "\<exists>e. batch_update_revision (\<lambda>s. s) 7 ''r'' [] (Some ''stale'') (sample_graph Tree_draft) =
     (Inl e, sample_graph Tree_draft)"
  by (rule rejected_batch_changes_nothing [OF sample_sees]) (simp add: truthy_def sample_tree_def)

section \<open>Copy on write and interning\<close>

text \<open>C11: Making an interned tree writable copies it: the revision gets a draft of its own with the same
  files and tree hash, and every other revision still sees what it saw, the shared interned tree
  included.\<close>

theorem copy_on_write_isolates:
  assumes "source_inv sha C g" and "inj_on (source_content_id sha) C"
    and "sees rid t fs g" and "tree_status t = Tree_interned"
    and "coll_get source_trees_coll (key (working_id rid)) g = None"
  shows "\<exists>w g' fs'. ensure_writable now rid g = (Inr w, g') \<and> source_inv sha C g' \<and> sees rid w fs' g' \<and>
    tree_view fs' = tree_view fs \<and> tree_status w = Tree_draft \<and> tree_tree_hash w = tree_tree_hash t \<and>
    (\<forall>rid' u us. sees rid' u us g \<and> rid' \<noteq> rid \<longrightarrow> sees rid' u us g')"
  using ensure_writable_copies [OF assms] by blast

theorem copy_on_write_isolates_witness:
  "\<exists>w g' fs'. ensure_writable 7 ''r'' (sample_graph Tree_interned) = (Inr w, g') \<and> sees ''r'' w fs' g' \<and>
    tree_view fs' = Map.empty \<and> tree_status w = Tree_draft"
proof -
  have "coll_get source_trees_coll (key (working_id ''r'')) (sample_graph Tree_interned) = None"
    by (simp add: coll_get_def get_node_def sample_graph_eq source_trees_coll_def working_id_def)
  from copy_on_write_isolates [OF sample_inv sample_hash_inj sample_sees _ this, of 7] show ?thesis
    by (simp add: sample_tree_def tree_view_def) blast
qed

text \<open>Interning a draft binds the revision to the interned tree named by the hash of its listing,
  reusing that tree when it exists; the files the revision sees do not change, the store stays
  well formed, and no other revision is affected. Hypotheses: the draft is private to the revision
  and the hash does not collide with a different stored listing.\<close>

theorem interning_preserves_content:
  assumes "source_inv sha C g" and "inj_on (source_content_id sha) C"
    and "sees rid t fs g" and "hash_free sha fs g" and "tree_status t = Tree_draft"
    and "tree_id t \<noteq> listing_hash sha (listing_rows fs)"
    and "\<And>rid' u us. sees rid' u us g \<Longrightarrow> rid' \<noteq> rid \<Longrightarrow> tree_id u \<noteq> tree_id t"
  shows "\<exists>w g' fs'. intern_tree sha now rid g = (Inr w, g') \<and> source_inv sha C g' \<and> sees rid w fs' g' \<and>
    tree_view fs' = tree_view fs \<and> tree_id w = listing_hash sha (listing_rows fs) \<and>
    tree_status w = Tree_interned \<and>
    (\<forall>rid' u us. sees rid' u us g \<and> rid' \<noteq> rid \<longrightarrow> sees rid' u us g')"
  using intern_tree_outcome [OF assms(1-4) refl assms(5,6), of now] assms(7) by blast

lemma sample_only_revision: "tree rid (sample_graph st) = Inr u \<Longrightarrow> rid = ''r''"
proof (rule ccontr)
  assume t: "tree rid (sample_graph st) = Inr u" and r: "rid \<noteq> ''r''"
  have "get_node l (key rid) (sample_graph st) = None" if "l \<in> set revision_labels" for l
    using r that by (auto simp: get_node_def sample_graph_eq revision_labels_def)
  then have "\<exists>e. resolve rid (sample_graph st) = Inl e" by (simp add: resolve_def revision_labels_def)
  with t show False by (auto simp: tree_def)
qed

theorem interning_preserves_content_witness:
  "\<exists>w g' fs'. intern_tree (\<lambda>s. s) 7 ''r'' (sample_graph Tree_draft) = (Inr w, g') \<and> sees ''r'' w fs' g' \<and>
    tree_view fs' = Map.empty \<and> tree_status w = Tree_interned"
proof -
  have h: "listing_hash (\<lambda>s. s) (listing_rows []) = ''sha256:[]''"
    by (simp add: listing_hash_def listing_rows_def sha256_json_def sha256_text_def)
  have "hash_free (\<lambda>s. s) [] (sample_graph Tree_draft)"
    by (simp add: hash_free_def h coll_get_def get_node_def sample_graph_eq source_trees_coll_def)
  moreover have "tree_id (sample_tree Tree_draft) \<noteq> listing_hash (\<lambda>s. s) (listing_rows [])"
    by (simp add: h sample_tree_def)
  moreover have "rid' \<noteq> ''r'' \<Longrightarrow> sees rid' u us (sample_graph Tree_draft) \<Longrightarrow> tree_id u \<noteq> tree_id (sample_tree Tree_draft)" for rid' u us
    using sample_only_revision by (auto simp: sees_def)
  ultimately show ?thesis
    using interning_preserves_content [OF sample_inv sample_hash_inj sample_sees, of Tree_draft 7]
    by (simp add: sample_tree_def tree_view_def) blast
qed

text \<open>The hash of a tree depends only on its set of rows, not on the order in which they are
  listed.\<close>

theorem listing_hash_order_independent:
  assumes "distinct (map fst rows)" and "mset rows = mset rows'"
  shows "listing_hash sha rows = listing_hash sha rows'"
proof -
  have "inj_on fst (set rows)" using assms(1) by (simp add: distinct_map)
  then have "sort_key fst rows = sort_key fst rows'"
    using assms(2) by (intro sort_key_inj_key_eq) simp_all
  then show ?thesis by (simp add: listing_hash_def)
qed

theorem listing_hash_order_independent_witness:
  "listing_hash (\<lambda>s. s) [(''b'', ''1'', ''helper'', ''text''), (''a'', ''2'', ''helper'', ''text'')] =
   listing_hash (\<lambda>s. s) [(''a'', ''2'', ''helper'', ''text''), (''b'', ''1'', ''helper'', ''text'')]"
  by (rule listing_hash_order_independent) simp_all

section \<open>Reading and searching\<close>

text \<open>C12: Reading by ranges loses and repeats nothing: for an offset and a limit of at least one, the
  range and the rest of the file from \<open>offset + limit\<close> on make up the file from \<open>offset\<close> on, and
  reading from the first line without limit gives the whole content.\<close>

theorem read_ranges_partition:
  assumes "read_source_file tid path g = Inr f" and "1 \<le> offset" and "1 \<le> limit"
  shows "\<exists>a b c. read_source_file_range tid path (Some offset) (Some limit) g = Inr (f, a) \<and>
    read_source_file_range tid path (Some (offset + limit)) None g = Inr (f, b) \<and>
    read_source_file_range tid path (Some 1) None g = Inr (f, c) \<and>
    range_content a @ range_content b = concat (drop (nat (offset - 1)) (splitlines_keep (file_content f))) \<and>
    range_content c = file_content f"
proof -
  let ?ls = "splitlines_keep (file_content f)" and ?o = "nat (offset - 1)" and ?l = "nat limit"
  have sum: "nat (offset + limit - 1) = ?o + ?l" using assms by simp
  have "slice ?o (?o + ?l) ?ls @ slice (?o + ?l) (length ?ls) ?ls = drop ?o ?ls"
    using append_take_drop_id [of ?l "drop ?o ?ls"] by (simp add: slice_def drop_take add.commute)
  then have "concat (slice ?o (?o + ?l) ?ls) @ concat (slice (?o + ?l) (length ?ls) ?ls) = concat (drop ?o ?ls)"
    by (metis concat_append)
  moreover have "concat (slice 0 (length ?ls) ?ls) = file_content f" by (simp add: slice_def)
  ultimately show ?thesis
    using assms sum by (simp add: read_source_file_range_def range_of_def Let_def)
qed

theorem read_ranges_partition_witness:
  "\<exists>g f a b. read_source_file ''t'' ''a.py'' g = Inr f \<and>
    read_source_file_range ''t'' ''a.py'' (Some 2) (Some 1) g = Inr (f, a) \<and>
    read_source_file_range ''t'' ''a.py'' (Some 3) None g = Inr (f, b)"
proof -
  let ?f = "\<lparr>file_source_tree_id = ''t'', file_path = ''a.py'', file_role = Role_helper, file_language = ''python'',
      file_content = ''x'', file_content_hash = ''c'', file_size = 1\<rparr>"
  let ?g = "create_edge (tree_ref ''t'') ''HAS_FILE'' (id_ref ''SourceContent'' ''c'') (file_props ?f)
      (coll_save source_contents_coll \<lparr>blob_id = ''c'', blob_content = ''x'', blob_created_at = 0\<rparr> empty_graph)"
  have "read_source_file ''t'' ''a.py'' ?g = Inr ?f"
    by (simp add: read_source_file_def list_source_tree_def file_rows_def create_edge_def coll_save_def
        source_contents_coll_def upsert_node_def empty_graph_def list_edges_def matches_edge_def new_edge_def
        hydrate_row_def coll_item_def coll_get_def get_node_def hydrate_def file_props_def prop_str_def
        role_of_text_def)
  from read_ranges_partition [OF this, of 2 1] this show ?thesis by auto
qed

text \<open>A search returns at most fifty matches and at most the requested limit; every match is a line
  of a listed file that the pattern hits, under its number, with a snippet and context lines of at
  most 240 characters.\<close>

theorem search_is_bounded:
  assumes "search_source_tree compile_re tid pattern glob limit context g = Inr ms"
  shows "\<exists>hit fs. compile_re pattern = Some hit \<and> list_source_tree tid g = Inr fs \<and>
    length ms \<le> 50 \<and> int (length ms) \<le> limit \<and>
    list_all (\<lambda>m. \<exists>f\<in>set fs. match_path m = file_path f \<and> 1 \<le> match_line m \<and>
      match_line m \<le> length (splitlines (file_content f)) \<and>
      hit (splitlines (file_content f) ! (match_line m - 1)) \<and> length (match_snippet m) \<le> 240 \<and>
      list_all (\<lambda>l. length l \<le> 240) (match_before m @ match_after m)) ms"
proof -
  from assms obtain hit fs where h: "compile_re pattern = Some hit" "list_source_tree tid g = Inr fs" "1 \<le> limit"
    and ms: "ms = take (nat (min limit search_limit)) (concat (map (file_matches hit (nat context))
        (filter (\<lambda>f. case glob of None \<Rightarrow> True | Some p \<Rightarrow> p (file_path f)) fs)))"
    by (auto simp: search_source_tree_def rbind_eq_Inr split: if_splits option.splits)
  have len: "length ms \<le> nat (min limit search_limit)" unfolding ms by simp
  have sub: "set ms \<subseteq> (\<Union>f\<in>set fs. set (file_matches hit (nat context) f))"
    unfolding ms by (auto dest!: in_set_takeD)
  have ok: "match_path m = file_path f \<and> 1 \<le> match_line m \<and> match_line m \<le> length (splitlines (file_content f)) \<and>
      hit (splitlines (file_content f) ! (match_line m - 1)) \<and> length (match_snippet m) \<le> 240 \<and>
      list_all (\<lambda>l. length l \<le> 240) (match_before m @ match_after m)"
    if "m \<in> set (file_matches hit (nat context) f)" for m f
    using that by (auto simp: file_matches_def Let_def list_all_iff)
  show ?thesis
    using h len sub ok by (fastforce simp: list_all_iff search_limit_def)
qed

theorem search_is_bounded_witness:
  "\<exists>ms. search_source_tree (\<lambda>_. Some (\<lambda>_. True)) ''t'' ''x'' None 5 2 empty_graph = Inr ms \<and> length ms \<le> 50"
proof -
  have "search_source_tree (\<lambda>_. Some (\<lambda>_. True)) ''t'' ''x'' None 5 2 empty_graph = Inr []"
    by (simp add: search_source_tree_def list_source_tree_def file_rows_def list_edges_def empty_graph_def)
  from search_is_bounded [OF this] this show ?thesis by blast
qed

end
