(* ===== verification/Job_Scheduler.thy ===== *)
theory Job_Scheduler
  imports Repositories Revision_Bindings Kernel_Hash Py_Text
begin

text \<open>
  \<^verbatim>\<open>TriggerRuntime\<close> of \<^verbatim>\<open>runtime/scheduler.py\<close>: durable jobs with leases, attempts and retries.
  Time is in microseconds. Parameters: \<open>owner\<close> is the lease owner of the process, \<open>lease\<close> is
  \<^verbatim>\<open>LEASE_SECONDS\<close>, \<open>sha\<close> the digest, \<open>stamp\<close> the text of a time stamp, and \<open>run\<close> is
  \<^verbatim>\<open>ActionRuntime.run\<close>, an operation that is given the heartbeat. The in-process
  \<^verbatim>\<open>BackgroundScheduler\<close> is a library; \<open>scheduled_mounts\<close> is what \<^verbatim>\<open>remount\<close> hands to it.
\<close>

section \<open>Triggers\<close>

definition seconds :: "int \<Rightarrow> int" where
  "seconds n = n * 1000000"

definition application_for_trigger :: "trigger_revision \<Rightarrow> node_value graph \<Rightarrow> application option" where
  "application_for_trigger tr g =
     Option.bind (coll_get triggers_coll (key (trigrev_trigger_id tr)) g)
       (\<lambda>t. coll_get applications_coll (key (trig_application_id t)) g)"

definition application_allows_triggers :: "trigger_revision \<Rightarrow> node_value graph \<Rightarrow> bool" where
  "application_allows_triggers tr g =
     (case application_for_trigger tr g of
        None \<Rightarrow> False
      | Some a \<Rightarrow> app_status a = App_active \<and> app_active_revision_id a \<noteq> None)"

definition active_trigger_revisions :: "node_value graph \<Rightarrow> trigger_revision list" where
  "active_trigger_revisions g =
     sort_key trigrev_id
       (filter (\<lambda>r. application_allows_triggers r g)
         (List.map_filter (\<lambda>t. Option.bind (trig_active_revision_id t)
              (\<lambda>i. coll_get trigger_revisions_coll (key i) g))
           (coll_values triggers_coll g)))"

text \<open>
  The jobs \<^verbatim>\<open>remount\<close> mounts: the trigger revision, its cron text, and whether misfires are
  coalesced. A missing, null or empty \<^verbatim>\<open>cron\<close> is skipped.
\<close>

definition scheduled_mounts :: "node_value graph \<Rightarrow> (string \<times> json \<times> bool) list" where
  "scheduled_mounts g =
     List.map_filter (\<lambda>r.
       if \<not> trigrev_enabled r \<or> trigrev_trigger_type r \<noteq> Trigger_schedule then None
       else (case dict_get (trigrev_config r) ''cron'' of
           None \<Rightarrow> None
         | Some cron \<Rightarrow>
             if cron \<in> {JNull, JStr [], JBool False, JInt 0, JArr [], JObj []} then None
             else Some (trigrev_id r, cron, trigrev_misfire_policy r = Misfire_run_once)))
       (active_trigger_revisions g)"

section \<open>Retry delay\<close>

fun digit_groups :: "bool \<Rightarrow> string \<Rightarrow> bool" where
  "digit_groups seen [] = seen"
| "digit_groups seen (c # cs) =
     (if is_digit c then digit_groups True cs
      else if c = CHR ''_'' \<and> seen then digit_groups False cs else False)"

text \<open>\<^verbatim>\<open>int(text)\<close>: blanks around, one sign, digits with single underscores between them.\<close>

definition int_of_text :: "string \<Rightarrow> exn + int" where
  "int_of_text s =
     (let t = strip s;
          (neg, body) = (case t of c # cs \<Rightarrow>
              if c = CHR ''-'' then (True, cs) else if c = CHR ''+'' then (False, cs) else (False, t)
            | [] \<Rightarrow> (False, []))
      in if digit_groups False body
         then (let n = int (nat_of_digits (filter is_digit body)) in Inr (if neg then - n else n))
         else Inl (ValueError ''invalid literal for int()''))"

text \<open>\<^verbatim>\<open>int(policy.get(k, default))\<close>.\<close>

definition policy_int :: "(string, json) dict \<Rightarrow> string \<Rightarrow> int \<Rightarrow> exn + int" where
  "policy_int p k fallback =
     (case dict_get p k of
        None \<Rightarrow> Inr fallback
      | Some (JInt n) \<Rightarrow> Inr n
      | Some (JBool b) \<Rightarrow> Inr (if b then 1 else 0)
      | Some (JStr s) \<Rightarrow> int_of_text s
      | Some _ \<Rightarrow> Inl (TypeError ''int() argument must be a string or a number''))"

definition retry_delay_seconds :: "trigger_revision \<Rightarrow> int \<Rightarrow> exn + int" where
  "retry_delay_seconds tr attempt =
     rbind (policy_int (trigrev_retry_policy tr) ''base_seconds'' 30) (\<lambda>base.
     rbind (policy_int (trigrev_retry_policy tr) ''max_seconds'' 300) (\<lambda>maximum.
     Inr (min maximum (base * 2 ^ nat (max 0 (attempt - 1))))))"

section \<open>Recording a job\<close>

definition job_by_idempotency_key :: "string \<Rightarrow> node_value graph \<Rightarrow> job_record option" where
  "job_by_idempotency_key k g = find (\<lambda>j. job_idempotency_key j = k) (coll_values job_records_coll g)"

definition has_running_job :: "string \<Rightarrow> node_value graph \<Rightarrow> bool" where
  "has_running_job trid g \<longleftrightarrow>
     list_ex (\<lambda>j. job_trigger_revision_id j = trid \<and> job_status j \<in> {Job_leased, Job_running})
       (coll_values job_records_coll g)"

definition bound_action_id :: "string \<Rightarrow> trigger_revision \<Rightarrow> node_value graph \<Rightarrow> exn + string" where
  "bound_action_id apprev tr g =
     rbind (bound_action_revision apprev (trigrev_action_id tr) g) (\<lambda>r. Inr (actrev_id r))"

definition save_job :: "job_record \<Rightarrow> ('z svc_scheme, unit) op" where
  "save_job j = save_to job_records_coll j"

definition save_attempt :: "job_attempt \<Rightarrow> ('z svc_scheme, unit) op" where
  "save_attempt a = save_to job_attempts_coll a"

definition record_job ::
  "string \<Rightarrow> trigger_revision \<Rightarrow> (string, json) dict \<Rightarrow> string \<Rightarrow> job_status \<Rightarrow>
   int option \<Rightarrow> int option \<Rightarrow> int option \<Rightarrow> string option \<Rightarrow> string \<Rightarrow> ('z svc_scheme, job_record) op" where
  "record_job app tr input idem status scheduled_at queued_at completed_at error apprev =
     bindE new_uuid (\<lambda>i.
     bindE (reads (bound_action_id apprev tr)) (\<lambda>arev.
     (let j = \<lparr>job_id = i, job_application_id = app, job_application_revision_id = apprev,
            job_trigger_revision_id = trigrev_id tr, job_action_revision_id = arev,
            job_status = status, job_input = input, job_scheduled_at = scheduled_at,
            job_queued_at = queued_at, job_started_at = None, job_completed_at = completed_at,
            job_heartbeat_at = None, job_attempt = 1, job_max_attempts = trigrev_max_attempts tr,
            job_idempotency_key = idem, job_invocation_id = None, job_error = error,
            job_next_retry_at = None, job_lease_owner = None, job_lease_expires_at = None,
            job_current_attempt_id = None, job_metadata = []\<rparr>
      in bindE (save_job j) (\<lambda>_.
         bindE (link (id_ref ''Application'' app) ''HAS_JOB'' (id_ref ''JobRecord'' i)) (\<lambda>_.
         bindE (link (id_ref ''TriggerRevision'' (trigrev_id tr)) ''HAS_JOB'' (id_ref ''JobRecord'' i)) (\<lambda>_.
         ret j))))))"

section \<open>Failure and retry\<close>

definition fail_or_retry ::
  "job_record \<Rightarrow> trigger_revision \<Rightarrow> string \<Rightarrow> job_attempt_status \<Rightarrow> job_attempt option \<Rightarrow>
   ('z svc_scheme, job_record) op" where
  "fail_or_retry job tr error attempt_status attempt =
     bindE (case attempt of
              Some a \<Rightarrow> ret (Some a)
            | None \<Rightarrow> (case job_current_attempt_id job of
                  None \<Rightarrow> ret None
                | Some i \<Rightarrow> asks (coll_get job_attempts_coll (key i)))) (\<lambda>current.
     bindE (case current of
              None \<Rightarrow> ret ()
            | Some a \<Rightarrow> bindE now_utc (\<lambda>t. save_attempt
                (a\<lparr>att_status := attempt_status, att_completed_at := Some t, att_error := Some error\<rparr>))) (\<lambda>_.
     bindE (if job_attempt job < job_max_attempts job
            then bindE now_utc (\<lambda>t.
                 bindE (lift_result (retry_delay_seconds tr (job_attempt job))) (\<lambda>d.
                 ret (job\<lparr>job_status := Job_retry_wait, job_error := Some error, job_lease_owner := None,
                   job_lease_expires_at := None, job_next_retry_at := Some (t + seconds d)\<rparr>)))
            else bindE now_utc (\<lambda>t.
                 ret (job\<lparr>job_status := Job_failed, job_error := Some error, job_completed_at := Some t,
                   job_lease_owner := None, job_lease_expires_at := None, job_next_retry_at := None\<rparr>))) (\<lambda>done.
     bindE (save_job done) (\<lambda>_. ret done))))"

definition defer_paused_job :: "job_record \<Rightarrow> job_attempt \<Rightarrow> ('z svc_scheme, job_record) op" where
  "defer_paused_job job attempt =
     bindE now_utc (\<lambda>t.
     bindE (save_attempt (attempt\<lparr>att_status := Attempt_expired, att_completed_at := Some t,
        att_error := Some ''application triggers paused before execution''\<rparr>)) (\<lambda>_.
     (let deferred = job\<lparr>job_status := Job_retry_wait, job_lease_owner := None,
            job_lease_expires_at := None, job_next_retry_at := Some t,
            job_error := Some ''application triggers paused before execution''\<rparr>
      in bindE (save_job deferred) (\<lambda>_. ret deferred))))"

definition heartbeat_job :: "string \<Rightarrow> int \<Rightarrow> string \<Rightarrow> string \<Rightarrow> ('z svc_scheme, unit) op" where
  "heartbeat_job owner lease jid aid =
     atomically
      (bindE (asks (coll_get job_records_coll (key jid))) (\<lambda>job.
       bindE (asks (coll_get job_attempts_coll (key aid))) (\<lambda>attempt.
       (case (job, attempt) of
          (Some j, Some a) \<Rightarrow>
            if job_status j \<noteq> Job_running \<or> att_status a \<noteq> Attempt_running \<or>
               job_lease_owner j \<noteq> Some owner \<or> att_lease_owner a \<noteq> owner
            then ret ()
            else bindE now_utc (\<lambda>t.
                 bindE (save_job (j\<lparr>job_heartbeat_at := Some t, job_lease_expires_at := Some (t + seconds lease)\<rparr>)) (\<lambda>_.
                 save_attempt (a\<lparr>att_heartbeat_at := Some t, att_lease_expires_at := t + seconds lease\<rparr>)))
        | _ \<Rightarrow> ret ()))))"

section \<open>Executing a job\<close>

record claim =
  claim_job :: job_record
  claim_attempt :: job_attempt
  claim_action :: action_revision
  claim_context :: execution_context

text \<open>
  The first block of \<^verbatim>\<open>_execute_job\<close>: lease the job, mark it running, and collect what the
  action needs. \<open>Inl\<close> is a job the method returns early.
\<close>

definition lease_job ::
  "string \<Rightarrow> int \<Rightarrow> trigger_revision \<Rightarrow> bool \<Rightarrow> job_record \<Rightarrow> ('z svc_scheme, job_record + claim) op" where
  "lease_job owner lease tr retry current =
     bindE now_utc (\<lambda>now.
     bindE new_uuid (\<lambda>aid.
     (let number = (if retry then job_attempt current + 1 else job_attempt current);
          attempt = \<lparr>att_id = aid, att_job_id = job_id current, att_attempt = number,
             att_status = Attempt_leased, att_lease_owner = owner, att_lease_expires_at = now + seconds lease,
             att_started_at = None, att_completed_at = None, att_heartbeat_at = Some now,
             att_invocation_id = None, att_error = None\<rparr>;
          leased = current\<lparr>job_status := Job_leased, job_attempt := number, job_lease_owner := Some owner,
             job_lease_expires_at := Some (now + seconds lease), job_heartbeat_at := Some now,
             job_current_attempt_id := Some aid, job_started_at := Some now, job_error := None,
             job_next_retry_at := None\<rparr>
      in bindE (save_attempt attempt) (\<lambda>_.
         bindE (save_job leased) (\<lambda>_.
         bindE (link (id_ref ''JobRecord'' (job_id leased)) ''HAS_ATTEMPT'' (id_ref ''JobAttempt'' aid)) (\<lambda>_.
         bindE (link (id_ref ''JobRecord'' (job_id leased)) ''CURRENT_ATTEMPT'' (id_ref ''JobAttempt'' aid)) (\<lambda>_.
         bindE now_utc (\<lambda>started.
         bindE now_utc (\<lambda>beat.
         bindE now_utc (\<lambda>expires.
         (let running_attempt = attempt\<lparr>att_status := Attempt_running, att_started_at := Some started,
                 att_heartbeat_at := Some beat\<rparr>;
              running = leased\<lparr>job_status := Job_running, job_heartbeat_at := Some beat,
                 job_lease_expires_at := Some (expires + seconds lease)\<rparr>
          in bindE (save_attempt running_attempt) (\<lambda>_.
             bindE (save_job running) (\<lambda>_.
             bindE (item_of action_revisions_coll (key (job_action_revision_id current))) (\<lambda>arev.
             bindE (item_of applications_coll (key (job_application_id current))) (\<lambda>app.
             bindE (asks (coll_get revisions_coll (key (job_application_revision_id current)))) (\<lambda>pinned.
             if pinned = None
             then bindE (fail_or_retry running tr
                    (''job application revision is gone: '' @ job_application_revision_id current)
                    Attempt_failed (Some running_attempt)) (\<lambda>j. ret (Inl j))
             else bindE new_uuid (\<lambda>corr.
                  ret (Inr \<lparr>claim_job = running, claim_attempt = running_attempt, claim_action = arev,
                    claim_context = \<lparr>ctx_mode = Ctx_production, ctx_deployment_id = None,
                      ctx_correlation_id = corr, ctx_experience_revision_id = None,
                      ctx_application_revision_id = job_application_revision_id current,
                      ctx_application_id = app_id app, ctx_data_space_id = ''production''\<rparr>\<rparr>))))))))))))))))))"

definition claim_step ::
  "string \<Rightarrow> int \<Rightarrow> trigger_revision \<Rightarrow> bool \<Rightarrow> string \<Rightarrow> ('z svc_scheme, job_record + claim) op" where
  "claim_step owner lease tr retry jid =
     bindE (item_of job_records_coll (key jid)) (\<lambda>current.
     bindE (asks (application_allows_triggers tr)) (\<lambda>allowed.
     if \<not> allowed then ret (Inl current) else lease_job owner lease tr retry current))"

text \<open>The last block: record the invocation and the outcome.\<close>

definition settle_job ::
  "trigger_revision \<Rightarrow> claim \<Rightarrow> invocation \<Rightarrow> ('z svc_scheme, job_record) op" where
  "settle_job tr cl result =
     (let running = claim_job cl; attempt = claim_attempt cl in
      bindE (link (id_ref ''JobRecord'' (job_id running)) ''INVOKED'' (id_ref ''Invocation'' (inv_id result))) (\<lambda>_.
      bindE (link (id_ref ''JobAttempt'' (att_id attempt)) ''INVOKED'' (id_ref ''Invocation'' (inv_id result))) (\<lambda>_.
      if inv_status result = Inv_succeeded
      then (let completed = running\<lparr>job_status := Job_succeeded, job_invocation_id := Some (inv_id result),
                  job_completed_at := inv_completed_at result, job_heartbeat_at := inv_last_heartbeat_at result,
                  job_lease_owner := None, job_lease_expires_at := None, job_error := None\<rparr>
            in bindE (save_attempt (attempt\<lparr>att_status := Attempt_succeeded,
                  att_invocation_id := Some (inv_id result), att_completed_at := inv_completed_at result,
                  att_heartbeat_at := inv_last_heartbeat_at result\<rparr>)) (\<lambda>_.
               bindE (save_job completed) (\<lambda>_. ret completed)))
      else fail_or_retry (running\<lparr>job_invocation_id := Some (inv_id result)\<rparr>) tr
             (case inv_error result of None \<Rightarrow> ''action failed'' | Some e \<Rightarrow> if e = [] then ''action failed'' else e)
             Attempt_failed
             (Some (attempt\<lparr>att_invocation_id := Some (inv_id result),
                att_heartbeat_at := inv_last_heartbeat_at result\<rparr>)))))"

type_synonym 'z runner =
  "action_revision \<Rightarrow> (string, json) dict \<Rightarrow> execution_context \<Rightarrow> ('z svc_scheme, unit) op \<Rightarrow>
   ('z svc_scheme, invocation) op"

definition execute_job ::
  "string \<Rightarrow> int \<Rightarrow> 'z runner \<Rightarrow> trigger_revision \<Rightarrow> bool \<Rightarrow> string \<Rightarrow> ('z svc_scheme, job_record) op" where
  "execute_job owner lease run tr retry jid =
     bindE (atomically (claim_step owner lease tr retry jid)) (\<lambda>claimed.
       (case claimed of
          Inl j \<Rightarrow> ret j
        | Inr cl \<Rightarrow>
            bindE (atomically (bindE (asks (application_allows_triggers tr)) (\<lambda>allowed.
                if allowed then ret None
                else bindE (defer_paused_job (claim_job cl) (claim_attempt cl)) (\<lambda>j. ret (Some j))))) (\<lambda>deferred.
            (case deferred of
               Some j \<Rightarrow> ret j
             | None \<Rightarrow>
                 bindE (run (claim_action cl) (job_input (claim_job cl)) (claim_context cl)
                    (heartbeat_job owner lease (job_id (claim_job cl)) (att_id (claim_attempt cl)))) (\<lambda>result.
                 atomically (settle_job tr cl result))))))"

section \<open>Entry points\<close>

text \<open>
  The block of \<^verbatim>\<open>run_trigger_revision\<close>: \<open>Inl\<close> is a job returned without execution. The second
  half, once the key is known, has a name of its own.
\<close>

definition enqueue_new ::
  "trigger_revision \<Rightarrow> application_revision \<Rightarrow> (string, json) dict \<Rightarrow> string \<Rightarrow> int \<Rightarrow>
   ('z svc_scheme, job_record + job_record \<times> trigger_revision) op" where
  "enqueue_new tr revision full_input k now =
     bindE (asks (job_by_idempotency_key k)) (\<lambda>existing.
       (case existing of
          Some j \<Rightarrow> ret (Inl j)
        | None \<Rightarrow>
            bindE (asks (has_running_job (trigrev_id tr))) (\<lambda>busy.
            if trigrev_overlap_policy tr = Overlap_skip_if_running \<and> busy
            then bindE (record_job (rev_application_id revision) tr full_input k Job_missed
                   (Some now) (Some now) (Some now)
                   (Some ''skipped because trigger is already running'') (rev_id revision)) (\<lambda>j. ret (Inl j))
            else bindE (record_job (rev_application_id revision) tr full_input k Job_scheduled
                   (Some now) (Some now) None None (rev_id revision)) (\<lambda>j. ret (Inr (j, tr))))))"

definition enqueue_trigger ::
  "(string \<Rightarrow> string) \<Rightarrow> (int \<Rightarrow> string) \<Rightarrow> string \<Rightarrow> (string, json) dict \<Rightarrow> string option \<Rightarrow>
   ('z svc_scheme, job_record + job_record \<times> trigger_revision) op" where
  "enqueue_trigger sha stamp trid input idem =
     bindE (item_of trigger_revisions_coll (key trid)) (\<lambda>tr.
     bindE (asks (application_allows_triggers tr)) (\<lambda>allowed.
     bindE (require allowed (ValidationFailure ''application triggers are paused or unavailable'')) (\<lambda>_.
     bindE (reads (\<lambda>g. case application_for_trigger tr g of
          None \<Rightarrow> Inl (ValidationFailure ''trigger application is unavailable'')
        | Some app \<Rightarrow> (case app_active_revision_id app of
              None \<Rightarrow> Inl (KeyError ''ApplicationRevision'')
            | Some rid \<Rightarrow> coll_item revisions_coll (key rid) g))) (\<lambda>revision.
     bindE now_utc (\<lambda>now.
     (let full_input = dict_merge (trigrev_input_template tr) input;
          k = (if idem \<noteq> None \<and> idem \<noteq> Some [] then the idem
               else sha256_json sha (JObj [(''trigger_revision_id'', JStr (trigrev_id tr)),
                      (''input'', JObj full_input), (''scheduled_at'', JStr (stamp now))]))
      in enqueue_new tr revision full_input k now))))))"

definition run_trigger_revision ::
  "string \<Rightarrow> int \<Rightarrow> (string \<Rightarrow> string) \<Rightarrow> (int \<Rightarrow> string) \<Rightarrow> 'z runner \<Rightarrow>
   string \<Rightarrow> (string, json) dict \<Rightarrow> string option \<Rightarrow> ('z svc_scheme, job_record) op" where
  "run_trigger_revision owner lease sha stamp run trid input idem =
     bindE (atomically (enqueue_trigger sha stamp trid input idem)) (\<lambda>queued.
       (case queued of
          Inl j \<Rightarrow> ret j
        | Inr (j, tr) \<Rightarrow> execute_job owner lease run tr False (job_id j)))"

definition run_trigger ::
  "string \<Rightarrow> int \<Rightarrow> (string \<Rightarrow> string) \<Rightarrow> (int \<Rightarrow> string) \<Rightarrow> 'z runner \<Rightarrow>
   string \<Rightarrow> (string, json) dict \<Rightarrow> string option \<Rightarrow> ('z svc_scheme, job_record) op" where
  "run_trigger owner lease sha stamp run trigger_id input idem =
     bindE (item_of triggers_coll (key trigger_id)) (\<lambda>t.
       (case trig_active_revision_id t of
          None \<Rightarrow> raise (KeyError (''trigger is not active: '' @ trigger_id))
        | Some rid \<Rightarrow> run_trigger_revision owner lease sha stamp run rid input idem))"

definition recover_job :: "job_record \<Rightarrow> ('z svc_scheme, job_record) op" where
  "recover_job j =
     bindE (item_of trigger_revisions_coll (key (job_trigger_revision_id j))) (\<lambda>tr.
       fail_or_retry j tr ''lease expired before heartbeat'' Attempt_expired None)"

definition recover_expired_leases :: "('z svc_scheme, job_record list) op" where
  "recover_expired_leases =
     atomically (bindE now_utc (\<lambda>now. bindE (asks (expired_leases now)) (map_op recover_job)))"

definition due_work :: "('z svc_scheme, (job_record \<times> trigger_revision) list) op" where
  "due_work =
     bindE now_utc (\<lambda>now.
     bindE (asks (due_retries now)) (\<lambda>due.
     bindE (map_op (\<lambda>j. bindE (item_of trigger_revisions_coll (key (job_trigger_revision_id j))) (\<lambda>tr.
        bindE (asks (application_allows_triggers tr)) (\<lambda>allowed. ret (j, tr, allowed)))) due) (\<lambda>rows.
     ret (map (\<lambda>(j, tr, _). (j, tr)) (filter (\<lambda>(_, _, allowed). allowed) rows)))))"

definition process_due_work :: "string \<Rightarrow> int \<Rightarrow> 'z runner \<Rightarrow> ('z svc_scheme, job_record list) op" where
  "process_due_work owner lease run =
     bindE recover_expired_leases (\<lambda>_.
     bindE (atomically due_work) (\<lambda>due.
     map_op (\<lambda>(j, tr). execute_job owner lease run tr True (job_id j)) due))"

definition dispatch_event ::
  "string \<Rightarrow> int \<Rightarrow> (string \<Rightarrow> string) \<Rightarrow> (int \<Rightarrow> string) \<Rightarrow> 'z runner \<Rightarrow>
   string \<Rightarrow> string \<Rightarrow> (string, json) dict \<Rightarrow> ('z svc_scheme, job_record list) op" where
  "dispatch_event owner lease sha stamp run app event payload =
     bindE (asks active_trigger_revisions) (\<lambda>trs.
     bindE (map_op (\<lambda>tr.
       bindE (asks (application_for_trigger tr)) (\<lambda>a.
       if (case a of None \<Rightarrow> True | Some a \<Rightarrow> app_id a \<noteq> app) \<or> trigrev_trigger_type tr \<noteq> Trigger_event \<or>
          dict_get (trigrev_config tr) ''event_type'' \<noteq> Some (JStr event)
       then ret None
       else bindE (run_trigger_revision owner lease sha stamp run (trigrev_id tr) payload None) (\<lambda>j.
            ret (Some j)))) trs) (\<lambda>jobs.
     ret (List.map_filter (\<lambda>x. x) jobs)))"

definition mark_missed_jobs ::
  "(string \<Rightarrow> string) \<Rightarrow> (int \<Rightarrow> string) \<Rightarrow> ('z svc_scheme, job_record list) op" where
  "mark_missed_jobs sha stamp =
     atomically
      (bindE now_utc (\<lambda>now.
       bindE (asks active_trigger_revisions) (\<lambda>trs.
       bindE (map_op (\<lambda>tr.
         if trigrev_trigger_type tr \<noteq> Trigger_schedule \<or> trigrev_misfire_policy tr = Misfire_skip
         then ret None
         else bindE (asks (application_for_trigger tr)) (\<lambda>a.
           (case a of
              None \<Rightarrow> ret None
            | Some app \<Rightarrow>
                (case app_active_revision_id app of
                   None \<Rightarrow> ret None
                 | Some rid \<Rightarrow>
                     bindE (record_job (app_id app) tr (trigrev_input_template tr)
                        (sha256_json sha (JObj [(''trigger_revision_id'', JStr (trigrev_id tr)),
                            (''missed_at'', JStr (stamp now))]))
                        Job_missed (Some now) None (Some now)
                        (Some ''scheduled trigger may have fired while runtime was stopped'') rid) (\<lambda>j.
                     ret (Some j)))))) trs) (\<lambda>jobs.
       ret (List.map_filter (\<lambda>x. x) jobs)))))"

end
