(* ===== verification/Job_Laws.thy ===== *)
theory Job_Laws
  imports Job_Scheduler
begin

text \<open>
  Correctness of the job scheduler: the invariant of a job record (a lease exactly while the
  job is leased or running, a retry time exactly while it waits), the transitions a job can
  make, uniqueness of idempotency keys, and what a job that has ended keeps.
\<close>

section \<open>The job invariant\<close>

definition job_ok :: "job_record \<Rightarrow> bool" where
  "job_ok j \<longleftrightarrow>
     (job_lease_owner j \<noteq> None \<longleftrightarrow> job_status j \<in> {Job_leased, Job_running}) \<and>
     (job_lease_expires_at j \<noteq> None \<longleftrightarrow> job_status j \<in> {Job_leased, Job_running}) \<and>
     (job_next_retry_at j \<noteq> None \<longleftrightarrow> job_status j = Job_retry_wait) \<and>
     (job_status j \<in> {Job_leased, Job_running} \<longrightarrow> job_current_attempt_id j \<noteq> None) \<and>
     (job_status j \<in> {Job_scheduled, Job_missed} \<longrightarrow> job_attempt j = 1) \<and>
     1 \<le> job_attempt j"

text \<open>The graphs the scheduler works on: typed, well formed, every job in order.\<close>

definition jobs_ok :: "node_value graph \<Rightarrow> bool" where
  "jobs_ok g \<longleftrightarrow> typed_graph g \<and> wf_graph g \<and>
     (\<forall>i j. coll_get job_records_coll i g = Some j \<longrightarrow> job_ok j)"

lemma job_get_save:
  "coll_get job_records_coll i (coll_save job_records_coll j g) =
     (if i = key (job_id j) then Some j else coll_get job_records_coll i g)"
proof -
  have "coll_identity job_records_coll j = key (job_id j)" by (simp add: job_records_coll_def)
  then show ?thesis by (simp add: job_records.get_save)
qed

lemma job_get_save_attempt [simp]:
  "coll_get job_records_coll i (coll_save job_attempts_coll a g) = coll_get job_records_coll i g"
  unfolding coll_save_def
  by (rule job_records.get_upsert_other) (simp add: job_records_coll_def job_attempts_coll_def)

lemma job_in_values:
  assumes "typed_graph g" and "wf_graph g" and "j \<in> set (coll_values job_records_coll g)"
  shows "coll_get job_records_coll (key (job_id j)) g = Some j"
  using job_records.values_iff [OF assms(1,2), of j] assms(3) by (simp add: job_records_coll_def)

lemma job_values_iff:
  assumes "typed_graph g" and "wf_graph g"
  shows "j \<in> set (coll_values job_records_coll g) \<longleftrightarrow> coll_get job_records_coll (key (job_id j)) g = Some j"
  using job_records.values_iff [OF assms, of j] by (simp add: job_records_coll_def)

lemma job_get_id:
  "typed_graph g \<Longrightarrow> coll_get job_records_coll (key i) g = Some j \<Longrightarrow> job_id j = i"
  using job_records.get_identity [of g "key i" j] by (simp add: job_records_coll_def)

text \<open>
  An invariant of the scheduler's graph: it does not look at attempts or edges, and saving a job
  in order keeps it if the id and idempotency key of the job are admitted by \<open>static\<close>. The
  jobs in \<open>mine\<close> are those the operations may touch. Every operation keeps every such
  invariant, whatever the runner of actions does as long as it keeps it too.
\<close>

locale job_invariant =
  fixes I :: "node_value graph \<Rightarrow> bool" and static :: "string \<Rightarrow> string \<Rightarrow> bool" and mine :: "string \<Rightarrow> bool"
  assumes keep_job: "I g \<Longrightarrow> job_ok j \<Longrightarrow> static (job_id j) (job_idempotency_key j) \<Longrightarrow> I (coll_save job_records_coll j g)"
    and keep_attempt: "I g \<Longrightarrow> I (coll_save job_attempts_coll a g)"
    and keep_edge: "I g \<Longrightarrow> I (create_edge f t to [] g)"
    and get_ok: "I g \<Longrightarrow> mine i \<Longrightarrow> coll_get job_records_coll (key i) g = Some j \<Longrightarrow>
       job_ok j \<and> static (job_id j) (job_idempotency_key j) \<and> job_id j = i"
    and open_mine: "I g \<Longrightarrow> j \<in> set (coll_values job_records_coll g) \<Longrightarrow>
       job_status j \<in> {Job_leased, Job_running, Job_retry_wait} \<Longrightarrow>
       mine (job_id j) \<and> coll_get job_records_coll (key (job_id j)) g = Some j"
begin

definition fine :: "job_record \<Rightarrow> bool" where
  "fine j \<longleftrightarrow> job_ok j \<and> static (job_id j) (job_idempotency_key j)"

lemma est_save_job: "fine j \<Longrightarrow> establishes I (save_job j) (\<lambda>_. True)"
  unfolding save_job_def fine_def by (rule est_writes) (simp add: keep_job)

lemma est_save_attempt: "establishes I (save_attempt a) (\<lambda>_. True)"
  unfolding save_attempt_def by (rule est_writes) (rule keep_attempt)

lemma est_link: "establishes I (link f t to) (\<lambda>_. True)"
  by (rule est_writes) (rule keep_edge)

lemma est_ask: "establishes I (asks f) (\<lambda>_. True)"
  by (rule est_asks) simp

lemma est_read: "establishes I (reads f) (\<lambda>_. True)"
  by (rule est_reads) simp

lemma est_lift: "establishes I (lift_result r) (\<lambda>_. True)"
  by (rule est_lift_result) simp

lemma est_ask_job:
  "mine i \<Longrightarrow> establishes I (asks (coll_get job_records_coll (key i)))
     (\<lambda>x. \<forall>j. x = Some j \<longrightarrow> fine j \<and> job_id j = i)"
  unfolding fine_def by (rule est_asks) (use get_ok in blast)

lemma est_item_job:
  "mine i \<Longrightarrow> establishes I (item_of job_records_coll (key i)) (\<lambda>j. fine j \<and> job_id j = i)"
  unfolding fine_def
  by (rule est_reads) (use get_ok in \<open>auto simp: coll_item_def split: option.splits\<close>)

text \<open>\<^verbatim>\<open>_fail_or_retry\<close> and \<^verbatim>\<open>_defer_paused_job\<close>.\<close>

lemma est_fail_or_retry:
  assumes "fine job"
  shows "establishes I (fail_or_retry job tr error st attempt) (\<lambda>_. True)"
proof -
  have c: "establishes I (case attempt of
              Some a \<Rightarrow> ret (Some a)
            | None \<Rightarrow> (case job_current_attempt_id job of
                  None \<Rightarrow> ret None
                | Some i \<Rightarrow> asks (coll_get job_attempts_coll (key i)))) (\<lambda>_. True)"
    by (auto simp: est_ret est_ask split: option.splits)
  have a: "establishes I (case current of
              None \<Rightarrow> ret ()
            | Some a \<Rightarrow> bindE now_utc (\<lambda>t. save_attempt
                (a\<lparr>att_status := st, att_completed_at := Some t, att_error := Some error\<rparr>))) (\<lambda>_. True)" for current
    by (cases current) (simp_all add: est_ret est_bindE [OF est_now_utc] est_save_attempt)
  have s: "establishes I (bindE (save_job j) (\<lambda>_. ret j)) (\<lambda>_. True)" if "fine j" for j
    by (rule est_bindE [OF est_save_job [OF that]]) (simp add: est_ret)
  have "fine (job\<lparr>job_status := Job_retry_wait, job_error := Some error, job_lease_owner := None,
       job_lease_expires_at := None, job_next_retry_at := Some t\<rparr>)"
    "fine (job\<lparr>job_status := Job_failed, job_error := Some error, job_completed_at := Some t,
       job_lease_owner := None, job_lease_expires_at := None, job_next_retry_at := None\<rparr>)" for t
    using assms by (simp_all add: fine_def job_ok_def)
  then show ?thesis
    unfolding fail_or_retry_def
    by (intro est_bindE [OF c] est_bindE [OF a] est_bindE [where Q = fine] s est_if est_bindE [OF est_now_utc]
        est_bindE [OF est_lift] est_ret)
qed

lemma est_defer:
  assumes "fine job"
  shows "establishes I (defer_paused_job job attempt) (\<lambda>_. True)"
proof -
  have "fine (job\<lparr>job_status := Job_retry_wait, job_lease_owner := None, job_lease_expires_at := None,
      job_next_retry_at := Some t, job_error := Some e\<rparr>)" for t e
    using assms by (simp add: fine_def job_ok_def)
  then show ?thesis
    unfolding defer_paused_job_def Let_def
    by (intro est_bindE [OF est_now_utc] est_bindE [OF est_save_attempt] est_bindE [OF est_save_job] est_ret) simp_all
qed

lemma est_heartbeat:
  assumes "mine jid"
  shows "establishes I (heartbeat_job owner lease jid aid) (\<lambda>_. True)"
proof -
  have "fine (j\<lparr>job_heartbeat_at := Some t, job_lease_expires_at := Some t'\<rparr>)" if "fine j" "job_status j = Job_running" for j t t'
    using that by (simp add: fine_def job_ok_def)
  then show ?thesis
    unfolding heartbeat_job_def
    by (intro est_atomically est_bindE [OF est_ask_job [OF assms]] est_bindE [OF est_ask])
      (auto split: option.splits intro!: est_ret est_bindE [OF est_now_utc] est_bindE [OF est_save_job] est_save_attempt)
qed

text \<open>Leasing and settling.\<close>

definition claim_fine :: "string \<Rightarrow> claim \<Rightarrow> bool" where
  "claim_fine jid cl \<longleftrightarrow> fine (claim_job cl) \<and> job_id (claim_job cl) = jid \<and> job_status (claim_job cl) = Job_running"

lemma est_lease:
  assumes "fine current" and "job_id current = jid"
  shows "establishes I (lease_job owner lease tr retry current)
    (\<lambda>r. case r of Inl _ \<Rightarrow> True | Inr cl \<Rightarrow> claim_fine jid cl)"
  unfolding lease_job_def Let_def
  by (intro est_bindE [OF est_now_utc] est_bindE [OF est_new_uuid] est_bindE [OF est_save_attempt]
      est_bindE [OF est_link] est_bindE [OF est_read] est_bindE [OF est_ask] est_if
      est_bindE [OF est_fail_or_retry] est_bindE [OF est_save_job] est_ret)
    (use assms in \<open>auto simp: claim_fine_def fine_def job_ok_def\<close>)

lemma est_claim:
  assumes "mine jid"
  shows "establishes I (claim_step owner lease tr retry jid)
    (\<lambda>r. case r of Inl _ \<Rightarrow> True | Inr cl \<Rightarrow> claim_fine jid cl)"
  unfolding claim_step_def
  by (intro est_bindE [OF est_item_job [OF assms]] est_bindE [OF est_ask] est_if est_ret)
    (simp_all add: est_lease)

lemma est_settle:
  assumes "claim_fine jid cl"
  shows "establishes I (settle_job tr cl result) (\<lambda>_. True)"
proof -
  have "fine ((claim_job cl)\<lparr>job_invocation_id := i\<rparr>)" for i
    using assms by (auto simp: claim_fine_def fine_def job_ok_def)
  moreover have "fine ((claim_job cl)\<lparr>job_status := Job_succeeded, job_invocation_id := i, job_completed_at := c,
      job_heartbeat_at := h, job_lease_owner := None, job_lease_expires_at := None, job_error := None\<rparr>)" for i c h
    using assms by (auto simp: claim_fine_def fine_def job_ok_def)
  ultimately show ?thesis
    unfolding settle_job_def Let_def
    by (intro est_bindE [OF est_link] est_if est_bindE [OF est_save_attempt] est_bindE [OF est_save_job]
        est_fail_or_retry est_ret) simp_all
qed

lemma est_execute:
  assumes "mine jid"
    and run: "\<And>a i c h. establishes I h (\<lambda>_. True) \<Longrightarrow> establishes I (run a i c h) (\<lambda>_. True)"
  shows "establishes I (execute_job owner lease run tr retry jid) (\<lambda>_. True)"
  unfolding execute_job_def
proof (rule est_bindE [OF est_atomically [OF est_claim [OF assms(1)]]])
  fix r :: "job_record + claim"
  assume r: "case r of Inl _ \<Rightarrow> True | Inr cl \<Rightarrow> claim_fine jid cl"
  show "establishes I (case r of
          Inl j \<Rightarrow> ret j
        | Inr cl \<Rightarrow>
            bindE (atomically (bindE (asks (application_allows_triggers tr)) (\<lambda>allowed.
                if allowed then ret None
                else bindE (defer_paused_job (claim_job cl) (claim_attempt cl)) (\<lambda>j. ret (Some j))))) (\<lambda>deferred.
            (case deferred of
               Some j \<Rightarrow> ret j
             | None \<Rightarrow>
                 bindE (run (claim_action cl) (job_input (claim_job cl)) (claim_context cl)
                    (heartbeat_job owner lease (job_id (claim_job cl)) (att_id (claim_attempt cl)))) (\<lambda>result.
                 atomically (settle_job tr cl result))))) (\<lambda>_. True)"
  proof (cases r)
    case (Inl j)
    then show ?thesis by (simp add: est_ret)
  next
    case (Inr cl)
    with r have cl: "claim_fine jid cl" by simp
    then have id: "job_id (claim_job cl) = jid" and fine: "fine (claim_job cl)" by (simp_all add: claim_fine_def)
    have "establishes I (bindE (run (claim_action cl) (job_input (claim_job cl)) (claim_context cl)
        (heartbeat_job owner lease jid (att_id (claim_attempt cl)))) (\<lambda>result. atomically (settle_job tr cl result))) (\<lambda>_. True)"
      by (intro est_bindE [OF run [OF est_heartbeat [OF assms(1)]]] est_atomically est_settle [OF cl])
    then have tail: "establishes I (case deferred of Some j \<Rightarrow> ret j
        | None \<Rightarrow> bindE (run (claim_action cl) (job_input (claim_job cl)) (claim_context cl)
            (heartbeat_job owner lease jid (att_id (claim_attempt cl)))) (\<lambda>result. atomically (settle_job tr cl result)))
        (\<lambda>_. True)" for deferred
      by (cases deferred) (simp_all add: est_ret)
    have "establishes I (atomically (bindE (asks (application_allows_triggers tr)) (\<lambda>allowed.
                if allowed then ret None
                else bindE (defer_paused_job (claim_job cl) (claim_attempt cl)) (\<lambda>j. ret (Some j))))) (\<lambda>_. True)"
      by (intro est_atomically est_bindE [OF est_ask] est_if est_bindE [OF est_defer [OF fine]] est_ret) simp_all
    from est_bindE [OF this tail] Inr id show ?thesis by simp
  qed
qed

text \<open>Recovery and due work.\<close>

lemma open_fine:
  assumes "I g" and "j \<in> set (coll_values job_records_coll g)"
    and "job_status j \<in> {Job_leased, Job_running, Job_retry_wait}"
  shows "fine j"
  using open_mine [OF assms] get_ok [OF assms(1), of "job_id j" j] by (simp add: fine_def)

lemma est_expired: "establishes I (asks (expired_leases now)) (list_all fine)"
  by (rule est_asks) (auto simp: list_all_iff expired_leases_def dest: open_fine)

lemma est_recover_job: "fine j \<Longrightarrow> establishes I (recover_job j) (\<lambda>_. True)"
  unfolding recover_job_def by (rule est_bindE [OF est_read]) (rule est_fail_or_retry)

lemma est_recover_jobs: "list_all fine js \<Longrightarrow> establishes I (map_op recover_job js) (\<lambda>_. True)"
  by (rule est_True [OF est_map_op [where Q = "\<lambda>_. True"]]) (auto simp: list_all_iff intro: est_recover_job)

lemma est_recover: "establishes I recover_expired_leases (\<lambda>_. True)"
  unfolding recover_expired_leases_def
  by (intro est_atomically est_bindE [OF est_now_utc] est_bindE [OF est_expired] est_recover_jobs)

lemma est_due_retries: "establishes I (asks (due_retries now)) (list_all (\<lambda>j. mine (job_id j)))"
  by (rule est_asks) (use open_mine in \<open>auto simp: list_all_iff due_retries_def\<close>)

lemma est_due_row:
  assumes "mine (job_id j)"
  shows "establishes I (bindE (item_of trigger_revisions_coll (key (job_trigger_revision_id j))) (\<lambda>tr.
     bindE (asks (application_allows_triggers tr)) (\<lambda>allowed. ret (j, tr, allowed)))) (\<lambda>(j, tr, _). mine (job_id j))"
  by (intro est_bindE [OF est_read] est_bindE [OF est_ask] est_ret) (use assms in simp)

lemma est_due_rows:
  assumes "list_all (\<lambda>j. mine (job_id j)) js"
  shows "establishes I (map_op (\<lambda>j. bindE (item_of trigger_revisions_coll (key (job_trigger_revision_id j))) (\<lambda>tr.
     bindE (asks (application_allows_triggers tr)) (\<lambda>allowed. ret (j, tr, allowed)))) js)
     (list_all (\<lambda>(j, tr, _). mine (job_id j)))"
  by (rule est_map_op, rule est_due_row) (use assms in \<open>simp add: list_all_iff\<close>)

lemma est_due: "establishes I due_work (list_all (\<lambda>(j, tr). mine (job_id j)))"
  unfolding due_work_def
  by (intro est_bindE [OF est_now_utc] est_bindE [OF est_due_retries] est_bindE [OF est_due_rows] est_ret)
    (auto simp: list_all_iff)

lemma est_process:
  assumes run: "\<And>a i c h. establishes I h (\<lambda>_. True) \<Longrightarrow> establishes I (run a i c h) (\<lambda>_. True)"
  shows "establishes I (process_due_work owner lease run) (\<lambda>_. True)"
  unfolding process_due_work_def
proof (intro est_bindE [OF est_recover] est_bindE [OF est_atomically [OF est_due]])
  fix due :: "(job_record \<times> trigger_revision) list"
  assume "list_all (\<lambda>(j, tr). mine (job_id j)) due"
  then have "establishes I (map_op (\<lambda>(j, tr). execute_job owner lease run tr True (job_id j)) due) (list_all (\<lambda>_. True))"
    by (intro est_map_op) (auto simp: list_all_iff intro: est_execute run)
  then show "establishes I (map_op (\<lambda>(j, tr). execute_job owner lease run tr True (job_id j)) due) (\<lambda>_. True)"
    by (rule est_True)
qed

text \<open>A new job is in order when every id and key is admitted.\<close>

lemma est_record:
  assumes "\<And>i k. static i k" and "st \<in> {Job_scheduled, Job_missed}"
  shows "establishes I (record_job app tr input idem st sched queued completed err apprev)
    (\<lambda>j. job_status j = st)"
  unfolding record_job_def Let_def
  by (intro est_bindE [OF est_new_uuid] est_bindE [OF est_read] est_bindE [OF est_save_job]
      est_bindE [OF est_link] est_ret)
    (use assms in \<open>auto simp: fine_def job_ok_def\<close>)

lemma est_enqueue:
  assumes "\<And>i k. static i k"
  shows "establishes I (enqueue_trigger sha stamp trid input idem) (\<lambda>_. True)"
  unfolding enqueue_trigger_def enqueue_new_def Let_def
  by (intro est_bindE [OF est_read] est_bindE [OF est_ask] est_bindE [OF est_require] est_bindE [OF est_now_utc])
    (auto split: option.splits intro!: est_ret est_if est_bindE [OF est_ask] est_bindE [OF est_record [OF assms]])

end

section \<open>The instances\<close>

lemma jobs_ok_keep:
  shows "jobs_ok g \<Longrightarrow> job_ok j \<Longrightarrow> jobs_ok (coll_save job_records_coll j g)"
    and "jobs_ok g \<Longrightarrow> jobs_ok (coll_save job_attempts_coll a g)"
    and "jobs_ok g \<Longrightarrow> jobs_ok (create_edge f t to [] g)"
  by (auto simp: jobs_ok_def job_get_save job_records.typed_save job_records.wf_save job_attempts.typed_save
      job_attempts.wf_save job_records.get_create_edge wf_create_edge split: if_splits)

lemma jobs_ok_get: "jobs_ok g \<Longrightarrow> coll_get job_records_coll (key i) g = Some j \<Longrightarrow> job_ok j \<and> job_id j = i"
  using job_get_id by (auto simp: jobs_ok_def)

lemma jobs_ok_values:
  "jobs_ok g \<Longrightarrow> j \<in> set (coll_values job_records_coll g) \<longleftrightarrow> coll_get job_records_coll (key (job_id j)) g = Some j"
  using job_values_iff by (simp add: jobs_ok_def)

text \<open>Every job is in order.\<close>

interpretation all_jobs: job_invariant jobs_ok "\<lambda>_ _. True" "\<lambda>_. True"
  by unfold_locales (auto simp: jobs_ok_keep jobs_ok_values dest: jobs_ok_get)

text \<open>A job that has ended keeps its record.\<close>

definition ended :: "job_record \<Rightarrow> bool" where
  "ended j \<longleftrightarrow> job_status j \<in> {Job_succeeded, Job_failed, Job_missed}"

definition ended_job :: "job_record \<Rightarrow> node_value graph \<Rightarrow> bool" where
  "ended_job j g \<longleftrightarrow> jobs_ok g \<and> ended j \<and> coll_get job_records_coll (key (job_id j)) g = Some j"

interpretation ended_kept: job_invariant "ended_job j0" "\<lambda>i _. i \<noteq> job_id j0" "\<lambda>i. i \<noteq> job_id j0" for j0
proof unfold_locales
  fix g and j :: job_record
  assume g: "ended_job j0 g" and j: "j \<in> set (coll_values job_records_coll g)"
    "job_status j \<in> {Job_leased, Job_running, Job_retry_wait}"
  then have get: "coll_get job_records_coll (key (job_id j)) g = Some j"
    using jobs_ok_values [of g j] by (simp add: ended_job_def)
  have "j \<noteq> j0" using g j(2) by (auto simp: ended_job_def ended_def)
  then have "job_id j \<noteq> job_id j0" using g get unfolding ended_job_def by (metis option.inject)
  with get show "job_id j \<noteq> job_id j0 \<and> coll_get job_records_coll (key (job_id j)) g = Some j" by (intro conjI)
next
  show "ended_job j0 g \<Longrightarrow> job_ok j \<Longrightarrow> job_id j \<noteq> job_id j0 \<Longrightarrow> ended_job j0 (coll_save job_records_coll j g)" for g j
    by (simp add: ended_job_def jobs_ok_keep(1) job_get_save)
  show "ended_job j0 g \<Longrightarrow> ended_job j0 (coll_save job_attempts_coll a g)" for g a
    by (simp add: ended_job_def jobs_ok_keep(2))
  show "ended_job j0 g \<Longrightarrow> ended_job j0 (create_edge f t to [] g)" for g f t to
    by (simp add: ended_job_def jobs_ok_keep(3) job_records.get_create_edge)
  show "ended_job j0 g \<Longrightarrow> i \<noteq> job_id j0 \<Longrightarrow> coll_get job_records_coll (key i) g = Some j \<Longrightarrow>
      job_ok j \<and> job_id j \<noteq> job_id j0 \<and> job_id j = i" for g i j
    using jobs_ok_get [of g i j] by (simp add: ended_job_def)
qed

text \<open>The ids and idempotency keys of the jobs stay among those of a relation.\<close>

definition keys_within :: "(string \<times> string) set \<Rightarrow> node_value graph \<Rightarrow> bool" where
  "keys_within P g \<longleftrightarrow> jobs_ok g \<and>
     (\<forall>i j. coll_get job_records_coll (key i) g = Some j \<longrightarrow> (job_id j, job_idempotency_key j) \<in> P)"

lemma keys_within_save:
  assumes "keys_within P g" and "job_ok j" and "(job_id j, job_idempotency_key j) \<in> P"
  shows "keys_within P (coll_save job_records_coll j g)"
  unfolding keys_within_def
proof (intro conjI allI impI)
  show "jobs_ok (coll_save job_records_coll j g)"
    using assms(1,2) by (simp add: keys_within_def jobs_ok_keep(1))
  fix i j'
  assume "coll_get job_records_coll (key i) (coll_save job_records_coll j g) = Some j'"
  then show "(job_id j', job_idempotency_key j') \<in> P"
    using assms(1,3) unfolding keys_within_def job_get_save by (metis option.inject)
qed

lemma keys_within_frame:
  assumes "keys_within P g" and "jobs_ok g'"
    and "\<And>i. coll_get job_records_coll i g' = coll_get job_records_coll i g"
  shows "keys_within P g'"
  using assms by (simp add: keys_within_def)

interpretation keys_kept: job_invariant "keys_within P" "\<lambda>i k. (i, k) \<in> P" "\<lambda>_. True" for P
proof unfold_locales
  show "keys_within P g \<Longrightarrow> job_ok j \<Longrightarrow> (job_id j, job_idempotency_key j) \<in> P \<Longrightarrow>
      keys_within P (coll_save job_records_coll j g)" for g j
    by (rule keys_within_save)
  show "keys_within P g \<Longrightarrow> keys_within P (coll_save job_attempts_coll a g)" for g a
    by (rule keys_within_frame [of P g]) (simp_all add: keys_within_def jobs_ok_keep(2))
  show "keys_within P g \<Longrightarrow> keys_within P (create_edge f t to [] g)" for g f t to
    by (rule keys_within_frame [of P g]) (simp_all add: keys_within_def jobs_ok_keep(3) job_records.get_create_edge)
  show "keys_within P g \<Longrightarrow> True \<Longrightarrow> coll_get job_records_coll (key i) g = Some j \<Longrightarrow>
      job_ok j \<and> (job_id j, job_idempotency_key j) \<in> P \<and> job_id j = i" for g i j
    using jobs_ok_get [of g i j] unfolding keys_within_def by blast
  show "keys_within P g \<Longrightarrow> j \<in> set (coll_values job_records_coll g) \<Longrightarrow>
      job_status j \<in> {Job_leased, Job_running, Job_retry_wait} \<Longrightarrow>
      True \<and> coll_get job_records_coll (key (job_id j)) g = Some j" for g j
    using jobs_ok_values [of g j] by (simp add: keys_within_def)
qed

section \<open>Runners\<close>

text \<open>A runner of actions keeps an invariant if the heartbeat it is given does.\<close>

definition runner_keeps :: "(node_value graph \<Rightarrow> bool) \<Rightarrow> 'z runner \<Rightarrow> bool" where
  "runner_keeps I run \<longleftrightarrow>
     (\<forall>a i c h. establishes I h (\<lambda>_. True) \<longrightarrow> establishes I (run a i c h) (\<lambda>_. True))"

lemma establishes_keeps: "establishes I m (\<lambda>_. True) \<Longrightarrow> I (svc_graph s) \<Longrightarrow> I (svc_graph (snd (m s)))"
  by (simp add: establishes_def)

lemma run_trigger_keeps:
  assumes "runner_keeps jobs_ok run" and "jobs_ok (svc_graph s)"
  shows "jobs_ok (svc_graph (snd (run_trigger_revision owner lease sha stamp run trid input idem s)))"
proof (rule establishes_keeps [where I = jobs_ok, OF _ assms(2)])
  show "establishes jobs_ok (run_trigger_revision owner lease sha stamp run trid input idem) (\<lambda>_. True)"
    unfolding run_trigger_revision_def
  proof (rule est_bindE [OF est_atomically [OF all_jobs.est_enqueue]])
    show "establishes jobs_ok (case q of Inl j \<Rightarrow> ret j
        | Inr (j, tr) \<Rightarrow> execute_job owner lease run tr False (job_id j)) (\<lambda>_. True)" for q
      using assms(1) by (auto simp: runner_keeps_def est_ret intro!: all_jobs.est_execute split: sum.splits)
  qed simp
qed

lemma process_keeps:
  assumes "runner_keeps jobs_ok run" and "jobs_ok (svc_graph s)"
  shows "jobs_ok (svc_graph (snd (process_due_work owner lease run s)))"
  by (rule establishes_keeps [where I = jobs_ok, OF all_jobs.est_process assms(2)])
    (use assms(1) in \<open>simp add: runner_keeps_def\<close>)

lemma process_ended:
  assumes "runner_keeps (ended_job j) run" and "ended_job j (svc_graph s)"
  shows "ended_job j (svc_graph (snd (process_due_work owner lease run s)))"
  by (rule establishes_keeps [where I = "ended_job j", OF ended_kept.est_process assms(2)])
    (use assms(1) in \<open>simp add: runner_keeps_def\<close>)

section \<open>Idempotency\<close>

definition unique_keys :: "node_value graph \<Rightarrow> bool" where
  "unique_keys g \<longleftrightarrow> (\<forall>i i' j j'. coll_get job_records_coll (key i) g = Some j \<and>
     coll_get job_records_coll (key i') g = Some j' \<and> job_idempotency_key j = job_idempotency_key j' \<longrightarrow> i = i')"

definition key_pairs :: "node_value graph \<Rightarrow> (string \<times> string) set" where
  "key_pairs g = {(i, job_idempotency_key j) | i j. coll_get job_records_coll (key i) g = Some j}"

lemma keys_within_pairs: "jobs_ok g \<Longrightarrow> keys_within (key_pairs g) g"
  unfolding keys_within_def key_pairs_def using jobs_ok_get by blast

lemma unique_within:
  assumes "unique_keys g" and "keys_within (key_pairs g) g'"
  shows "unique_keys g'"
  unfolding unique_keys_def
proof (intro allI impI, elim conjE)
  fix i i' j j'
  assume j: "coll_get job_records_coll (key i) g' = Some j" "coll_get job_records_coll (key i') g' = Some j'"
    and k: "job_idempotency_key j = job_idempotency_key j'"
  have jid: "job_id j = i" "job_id j' = i'"
    using assms(2) j jobs_ok_get unfolding keys_within_def by blast+
  have "(job_id j, job_idempotency_key j) \<in> key_pairs g" "(job_id j', job_idempotency_key j') \<in> key_pairs g"
    using assms(2) j unfolding keys_within_def by blast+
  then obtain a a' where "coll_get job_records_coll (key i) g = Some a" "coll_get job_records_coll (key i') g = Some a'"
    "job_idempotency_key a = job_idempotency_key a'"
    using k jid unfolding key_pairs_def by auto
  with assms(1) show "i = i'" unfolding unique_keys_def by blast
qed

lemma job_by_key_None:
  assumes "jobs_ok g" and "job_by_idempotency_key k g = None" and "coll_get job_records_coll (key i) g = Some j"
  shows "job_idempotency_key j \<noteq> k"
proof -
  have "job_id j = i" using jobs_ok_get [OF assms(1,3)] by simp
  with assms(3) have "j \<in> set (coll_values job_records_coll g)"
    using jobs_ok_values [OF assms(1), of j] by simp
  with assms(2) show ?thesis by (auto simp: job_by_idempotency_key_def find_None_ball)
qed

lemma unique_save_new:
  assumes "jobs_ok g" and "unique_keys g" and "job_by_idempotency_key (job_idempotency_key j) g = None"
  shows "unique_keys (coll_save job_records_coll j g)"
  unfolding unique_keys_def job_get_save
proof (intro allI impI, elim conjE)
  fix i i' a b
  assume a: "(if key i = key (job_id j) then Some j else coll_get job_records_coll (key i) g) = Some a"
    and b: "(if key i' = key (job_id j) then Some j else coll_get job_records_coll (key i') g) = Some b"
    and k: "job_idempotency_key a = job_idempotency_key b"
  note new = job_by_key_None [OF assms(1,3)]
  show "i = i'"
  proof (cases "i = job_id j"; cases "i' = job_id j")
    assume "i = job_id j" "i' \<noteq> job_id j"
    with a b k new [of i' b] show ?thesis by simp
  next
    assume "i \<noteq> job_id j" "i' = job_id j"
    with a b k new [of i a] show ?thesis by simp
  next
    assume "i \<noteq> job_id j" "i' \<noteq> job_id j"
    with a b k assms(2) show ?thesis unfolding unique_keys_def by auto
  qed auto
qed

lemma unique_frame:
  assumes "unique_keys g" and "\<And>i. coll_get job_records_coll (key i) g' = coll_get job_records_coll (key i) g"
  shows "unique_keys g'"
  using assms(1) unfolding unique_keys_def assms(2) .

lemma record_job_graph:
  assumes "record_job app tr input idem st sched queued completed err apprev s = (Inr j, s')"
  shows "svc_graph s' = create_edge (id_ref ''TriggerRevision'' (trigrev_id tr)) ''HAS_JOB'' (id_ref ''JobRecord'' (job_id j)) []
      (create_edge (id_ref ''Application'' app) ''HAS_JOB'' (id_ref ''JobRecord'' (job_id j)) []
        (coll_save job_records_coll j (svc_graph s)))"
    and "job_idempotency_key j = idem"
  using assms by (auto simp: record_job_def save_job_def op_defs Let_def split: sum.splits)

lemma record_job_unique:
  assumes "jobs_ok (svc_graph s)" and "unique_keys (svc_graph s)" and "job_by_idempotency_key idem (svc_graph s) = None"
    and "record_job app tr input idem st sched queued completed err apprev s = (Inr j, s')"
  shows "unique_keys (svc_graph s')"
proof -
  note r = record_job_graph [OF assms(4)]
  have "unique_keys (coll_save job_records_coll j (svc_graph s))"
    using unique_save_new [OF assms(1,2), of j] assms(3) r(2) by simp
  then show ?thesis
    unfolding r(1) by (rule unique_frame) (simp add: job_records.get_create_edge)
qed

lemma enqueue_new_unique:
  assumes ok: "jobs_ok (svc_graph s)" "unique_keys (svc_graph s)"
    and run: "enqueue_new tr revision input k now s = (Inr q, s')"
  shows "unique_keys (svc_graph s')"
proof (cases "job_by_idempotency_key k (svc_graph s)")
  case (Some j)
  with run ok(2) show ?thesis by (simp add: enqueue_new_def op_defs)
next
  case None
  note rec = record_job_unique [OF ok None]
  show ?thesis
  proof (cases "trigrev_overlap_policy tr = Overlap_skip_if_running \<and> has_running_job (trigrev_id tr) (svc_graph s)")
    case True
    with run None obtain j where "record_job (rev_application_id revision) tr input k Job_missed
        (Some now) (Some now) (Some now) (Some ''skipped because trigger is already running'') (rev_id revision) s = (Inr j, s')"
      by (auto simp: enqueue_new_def bindE_Inr_iff asks_apply ret_apply)
    then show ?thesis by (rule rec)
  next
    case False
    with run None obtain j where "record_job (rev_application_id revision) tr input k Job_scheduled
        (Some now) (Some now) None None (rev_id revision) s = (Inr j, s')"
      by (auto simp: enqueue_new_def bindE_Inr_iff asks_apply ret_apply split: if_splits)
    then show ?thesis by (rule rec)
  qed
qed

lemma enqueue_unique:
  assumes ok: "jobs_ok (svc_graph s)" "unique_keys (svc_graph s)"
    and run: "enqueue_trigger sha stamp trid input idem s = (Inr q, s')"
  shows "unique_keys (svc_graph s')"
proof -
  from run obtain tr revision inp k now s1 where
    "enqueue_new tr revision inp k now s1 = (Inr q, s')" "svc_graph s1 = svc_graph s"
    unfolding enqueue_trigger_def bindE_Inr_iff Let_def
    by (fastforce simp: require_apply reads_apply asks_apply now_utc_apply split: if_splits)
  with enqueue_new_unique ok show ?thesis by metis
qed

lemma run_trigger_unique:
  assumes "jobs_ok (svc_graph s)" and "unique_keys (svc_graph s)" and "\<And>P. runner_keeps (keys_within P) run"
  shows "unique_keys (svc_graph (snd (run_trigger_revision owner lease sha stamp run trid input idem s)))"
proof -
  obtain r s1 where q: "atomically (enqueue_trigger sha stamp trid input idem) s = (r, s1)" by fastforce
  have ok1: "jobs_ok (svc_graph s1)"
    using establishesD [OF est_atomically [OF all_jobs.est_enqueue] q assms(1)] by simp
  have u1: "unique_keys (svc_graph s1)"
  proof (cases r)
    case (Inl e)
    with q assms(2) show ?thesis using atomically_Inl [of _ s e s1] by metis
  next
    case (Inr x)
    with q have "enqueue_trigger sha stamp trid input idem s = (Inr x, s1)" by (simp add: atomically_Inr)
    then show ?thesis by (rule enqueue_unique [OF assms(1,2)])
  qed
  let ?P = "key_pairs (svc_graph s1)"
  have "keys_within ?P (svc_graph s1)" by (rule keys_within_pairs [OF ok1])
  moreover have "establishes (keys_within ?P) (execute_job owner lease run tr False i) (\<lambda>_. True)" for tr i
    by (rule keys_kept.est_execute) (use assms(3) in \<open>simp_all add: runner_keeps_def\<close>)
  ultimately have "keys_within ?P (svc_graph (snd (execute_job owner lease run tr False i s1)))" for tr i
    by (simp add: establishes_keeps)
  then have "unique_keys (svc_graph (snd (execute_job owner lease run tr False i s1)))" for tr i
    by (rule unique_within [OF u1])
  with q u1 show ?thesis
    by (auto simp: run_trigger_revision_def bindE_def op_defs split: sum.splits)
qed

lemma process_unique:
  assumes "jobs_ok (svc_graph s)" and "unique_keys (svc_graph s)" and "\<And>P. runner_keeps (keys_within P) run"
  shows "unique_keys (svc_graph (snd (process_due_work owner lease run s)))"
proof -
  have "establishes (keys_within (key_pairs (svc_graph s))) (process_due_work owner lease run) (\<lambda>_. True)"
    by (rule keys_kept.est_process) (use assms(3) in \<open>simp add: runner_keeps_def\<close>)
  from establishes_keeps [OF this keys_within_pairs [OF assms(1)]] show ?thesis
    by (rule unique_within [OF assms(2)])
qed

end
