(* ===== verification/Job_Properties.thy ===== *)
theory Job_Properties
  imports Job_Laws
begin

text \<open>
  Properties of the job scheduler: the invariant of job records, jobs that have ended, one job
  per idempotency key, retry delays, heartbeats, and what a paused application does not run.
\<close>

section \<open>Invariant\<close>

text \<open>A runtime that raises, for the examples.\<close>

definition raising_runner :: "'z runner" where
  "raising_runner a i c h = raise (ActionExecutionError ''down'')"

lemma raising_runner_keeps: "runner_keeps I raising_runner"
  unfolding runner_keeps_def raising_runner_def by (auto intro: est_raise)

definition sample_svc :: svc where
  "sample_svc = \<lparr>svc_graph = empty_graph, svc_clock = (\<lambda>n. int n), svc_ticks = 0, svc_ids = (\<lambda>n. replicate n CHR ''x''), svc_drawn = 0\<rparr>"

lemma sample_jobs_ok: "jobs_ok (svc_graph sample_svc)"
  by (simp add: jobs_ok_def sample_svc_def typed_graph_def empty_graph_def wf_graph_def file_edges_def
      coll_get_def get_node_def)

lemma est_dispatch:
  assumes "runner_keeps jobs_ok run"
  shows "establishes jobs_ok (dispatch_event owner lease sha stamp run app event payload) (\<lambda>_. True)"
proof -
  have one: "establishes jobs_ok (run_trigger_revision owner lease sha stamp run t p i) (\<lambda>_. True)" for t p i
    using run_trigger_keeps [OF assms] by (simp add: establishes_def)
  show ?thesis
    unfolding dispatch_event_def
    by (intro est_bindE [OF all_jobs.est_ask] est_bindE [OF est_True [OF est_map_op [where Q = "\<lambda>_. True"]]] est_ret
        est_if est_bindE [OF one]) simp_all
qed

lemma est_missed: "establishes jobs_ok (mark_missed_jobs sha stamp) (\<lambda>_. True)"
  unfolding mark_missed_jobs_def
  by (intro est_atomically est_bindE [OF est_now_utc] est_bindE [OF all_jobs.est_ask]
      est_bindE [OF est_True [OF est_map_op [where Q = "\<lambda>_. True"]]] est_ret est_if)
    (auto split: option.splits intro!: est_ret est_bindE [OF all_jobs.est_record])

text \<open>C13: Every entry point of the scheduler keeps the job records consistent: a lease owner and a lease
  expiry exactly while a job is leased or running, a retry time exactly while it waits for a
  retry, a current attempt while it is leased, and an attempt number of at least one. The
  operations may raise at any point; the runtime may do anything that keeps the invariant,
  heartbeats included.\<close>

theorem scheduler_keeps_jobs_consistent:
  assumes "jobs_ok (svc_graph s)" and "runner_keeps jobs_ok run"
  shows "jobs_ok (svc_graph (snd (run_trigger_revision owner lease sha stamp run trid input idem s))) \<and>
    jobs_ok (svc_graph (snd (process_due_work owner lease run s))) \<and>
    jobs_ok (svc_graph (snd (recover_expired_leases s))) \<and>
    jobs_ok (svc_graph (snd (heartbeat_job owner lease jid aid s))) \<and>
    jobs_ok (svc_graph (snd (dispatch_event owner lease sha stamp run app event payload s))) \<and>
    jobs_ok (svc_graph (snd (mark_missed_jobs sha stamp s)))"
  using run_trigger_keeps [OF assms(2,1)] process_keeps [OF assms(2,1)]
    establishes_keeps [OF all_jobs.est_recover assms(1)]
    establishes_keeps [OF all_jobs.est_heartbeat assms(1)]
    establishes_keeps [OF est_dispatch [OF assms(2)] assms(1)]
    establishes_keeps [OF est_missed assms(1)]
  by simp

theorem scheduler_keeps_jobs_consistent_witness:
  "jobs_ok (svc_graph (snd (process_due_work ''me'' 60 raising_runner sample_svc)))"
  using scheduler_keeps_jobs_consistent [OF sample_jobs_ok raising_runner_keeps] by blast

section \<open>Jobs that have ended\<close>

lemma ended_recover: "ended_job j (svc_graph s) \<Longrightarrow> ended_job j (svc_graph (snd (recover_expired_leases s)))"
  by (rule establishes_keeps [OF ended_kept.est_recover])

definition sample_job :: "job_status \<Rightarrow> job_record" where
  "sample_job st = \<lparr>job_id = ''j'', job_application_id = ''a'', job_application_revision_id = ''r'',
     job_trigger_revision_id = ''t'', job_action_revision_id = ''x'', job_status = st, job_input = [],
     job_scheduled_at = None, job_queued_at = None, job_started_at = None, job_completed_at = None,
     job_heartbeat_at = None, job_attempt = 1, job_max_attempts = 1, job_idempotency_key = ''k'',
     job_invocation_id = None, job_error = None, job_next_retry_at = None, job_lease_owner = None,
     job_lease_expires_at = None, job_current_attempt_id = None, job_metadata = []\<rparr>"

lemma sample_job_graph:
  assumes "st \<in> {Job_scheduled, Job_succeeded, Job_failed, Job_missed}"
  shows "jobs_ok (coll_save job_records_coll (sample_job st) empty_graph)"
proof (rule jobs_ok_keep(1))
  show "jobs_ok empty_graph" using sample_jobs_ok by (simp add: sample_svc_def)
  show "job_ok (sample_job st)" using assms by (auto simp: job_ok_def sample_job_def)
qed

text \<open>A job that has succeeded, failed or been missed is never changed again by lease recovery or
  by the processing of due work, whatever the other jobs do.\<close>

theorem ended_jobs_are_final:
  assumes "jobs_ok (svc_graph s)" and "coll_get job_records_coll (key (job_id j)) (svc_graph s) = Some j"
    and "job_status j \<in> {Job_succeeded, Job_failed, Job_missed}" and "runner_keeps (ended_job j) run"
  shows "coll_get job_records_coll (key (job_id j)) (svc_graph (snd (recover_expired_leases s))) = Some j \<and>
    coll_get job_records_coll (key (job_id j)) (svc_graph (snd (process_due_work owner lease run s))) = Some j"
proof -
  have "ended_job j (svc_graph s)" using assms by (simp add: ended_job_def ended_def)
  from ended_recover [OF this] process_ended [OF assms(4) this] show ?thesis by (simp add: ended_job_def)
qed

theorem ended_jobs_are_final_witness:
  "let s = sample_svc\<lparr>svc_graph := coll_save job_records_coll (sample_job Job_failed) empty_graph\<rparr>
   in coll_get job_records_coll (key ''j'') (svc_graph (snd (process_due_work ''me'' 60 raising_runner s))) =
      Some (sample_job Job_failed)"
proof -
  let ?s = "sample_svc\<lparr>svc_graph := coll_save job_records_coll (sample_job Job_failed) empty_graph\<rparr>"
  have "coll_get job_records_coll (key (job_id (sample_job Job_failed))) (svc_graph ?s) = Some (sample_job Job_failed)"
    by (simp add: job_get_save)
  from ended_jobs_are_final [OF _ this _ raising_runner_keeps, of "''me''" 60] sample_job_graph [of Job_failed]
  show ?thesis by (simp add: sample_job_def Let_def)
qed

section \<open>Idempotency\<close>

lemma sample_unique: "unique_keys empty_graph"
  by (simp add: unique_keys_def coll_get_def get_node_def empty_graph_def)



text \<open>Running a trigger revision again with the key of an existing job returns that job and changes
  nothing: no second job, no attempt, no execution, whatever the runtime would do.\<close>

theorem repeated_key_returns_existing_job:
  assumes "coll_get trigger_revisions_coll (key trid) (svc_graph s) = Some tr"
    and "application_for_trigger tr (svc_graph s) = Some app" and "app_status app = App_active"
    and "app_active_revision_id app = Some rid" and "coll_get revisions_coll (key rid) (svc_graph s) = Some apprev"
    and "job_by_idempotency_key k (svc_graph s) = Some j" and "k \<noteq> []"
  shows "\<exists>s'. run_trigger_revision owner lease sha stamp run trid input (Some k) s = (Inr j, s') \<and>
    svc_graph s' = svc_graph s"
proof -
  have "application_allows_triggers tr (svc_graph s)" using assms by (simp add: application_allows_triggers_def)
  with assms show ?thesis
    by (simp add: run_trigger_revision_def atomically_apply enqueue_trigger_def enqueue_new_def op_defs coll_item_def Let_def)
qed

text \<open>An active application with one trigger and one job, for the examples.\<close>

definition sample_trigger :: trigger_revision where
  "sample_trigger = \<lparr>trigrev_id = ''t'', trigrev_trigger_id = ''trig'', trigrev_action_id = ''act'',
     trigrev_trigger_type = Trigger_event, trigrev_config = [], trigrev_input_template = [],
     trigrev_overlap_policy = Overlap_queue, trigrev_misfire_policy = Misfire_skip, trigrev_max_attempts = 1,
     trigrev_retry_policy = [], trigrev_enabled = True, trigrev_created_at = 0, trigrev_created_by = ''u'',
     trigrev_content_hash = []\<rparr>"

definition sample_app :: "application_status \<Rightarrow> application" where
  "sample_app st = \<lparr>app_id = ''a'', app_name = ''A'', app_description = [], app_active_revision_id = Some ''r'',
     app_status = st, app_created_at = 0\<rparr>"

definition sample_apprev :: application_revision where
  "sample_apprev = \<lparr>rev_id = ''r'', rev_application_id = ''a'', rev_parent_revision_id = None,
     rev_ui_profile = Ui_n4x_default, rev_status = Rev_active, rev_created_at = 0, rev_created_by = ''u''\<rparr>"

definition sample_runtime :: "application_status \<Rightarrow> job_status \<Rightarrow> svc" where
  "sample_runtime st js = sample_svc\<lparr>svc_graph :=
     coll_save job_records_coll (sample_job js)
      (coll_save revisions_coll sample_apprev
        (coll_save applications_coll (sample_app st)
          (coll_save triggers_coll \<lparr>trig_id = ''trig'', trig_application_id = ''a'', trig_active_revision_id = Some ''t'',
             trig_created_at = 0\<rparr>
            (coll_save trigger_revisions_coll sample_trigger empty_graph))))\<rparr>"

lemmas sample_runtime_defs = sample_runtime_def sample_svc_def coll_get_def coll_save_def get_node_def upsert_node_def
  empty_graph_def job_records_coll_def revisions_coll_def applications_coll_def triggers_coll_def
  trigger_revisions_coll_def key_def

lemma sample_runtime_get:
  "coll_get trigger_revisions_coll (key ''t'') (svc_graph (sample_runtime st js)) = Some sample_trigger"
  "application_for_trigger sample_trigger (svc_graph (sample_runtime st js)) = Some (sample_app st)"
  "coll_get revisions_coll (key ''r'') (svc_graph (sample_runtime st js)) = Some sample_apprev"
  "coll_get job_records_coll (key ''j'') (svc_graph (sample_runtime st js)) = Some (sample_job js)"
  "coll_values job_records_coll (svc_graph (sample_runtime st js)) = [sample_job js]"
  by (simp_all add: sample_runtime_defs application_for_trigger_def sample_trigger_def sample_app_def sample_apprev_def
      sample_job_def coll_values_def list_nodes_def)

theorem repeated_key_returns_existing_job_witness:
  "\<exists>s'. run_trigger_revision ''me'' 60 (\<lambda>s. s) (\<lambda>_. []) raising_runner ''t'' [] (Some ''k'')
     (sample_runtime App_active Job_succeeded) = (Inr (sample_job Job_succeeded), s')"
proof -
  have "job_by_idempotency_key ''k'' (svc_graph (sample_runtime App_active Job_succeeded)) = Some (sample_job Job_succeeded)"
    by (simp add: job_by_idempotency_key_def sample_runtime_get sample_job_def)
  from repeated_key_returns_existing_job [OF sample_runtime_get(1,2) _ _ sample_runtime_get(3) this]
  show ?thesis by (simp add: sample_app_def) blast
qed

section \<open>Paused applications\<close>



section \<open>Retries\<close>

text \<open>The retry delay grows by doubling and never exceeds the maximum of the policy: for a
  non-negative base the delay after one more attempt is the maximum or twice the delay before.\<close>

theorem retry_delay_doubles_to_maximum:
  assumes "policy_int (trigrev_retry_policy tr) ''base_seconds'' 30 = Inr base"
    and "policy_int (trigrev_retry_policy tr) ''max_seconds'' 300 = Inr maximum"
    and "0 \<le> base" and "1 \<le> attempt"
  shows "\<exists>d d'. retry_delay_seconds tr attempt = Inr d \<and> retry_delay_seconds tr (attempt + 1) = Inr d' \<and>
    d \<le> d' \<and> d' \<le> maximum \<and> (d' = maximum \<or> d' = 2 * d) \<and> retry_delay_seconds tr 1 = Inr (min maximum base)"
proof -
  define q where "q = base * 2 ^ nat (attempt - 1)"
  have "nat attempt = Suc (nat (attempt - 1))" using assms(4) by simp
  then have q2: "base * 2 ^ nat attempt = 2 * q" by (simp add: q_def)
  have "retry_delay_seconds tr attempt = Inr (min maximum q)"
    "retry_delay_seconds tr 1 = Inr (min maximum base)"
    using assms by (simp_all add: retry_delay_seconds_def max_def q_def)
  moreover have "retry_delay_seconds tr (attempt + 1) = Inr (min maximum (2 * q))"
    unfolding q2 [symmetric] using assms by (simp add: retry_delay_seconds_def max_def)
  moreover have "0 \<le> q" using assms(3) by (simp add: q_def)
  ultimately show ?thesis by (auto simp: min_def)
qed

theorem retry_delay_doubles_to_maximum_witness:
  "\<exists>d d'. retry_delay_seconds sample_trigger 3 = Inr d \<and> retry_delay_seconds sample_trigger 4 = Inr d' \<and> d \<le> d' \<and> d' \<le> 300"
proof -
  have p: "policy_int (trigrev_retry_policy sample_trigger) ''base_seconds'' 30 = Inr 30"
    "policy_int (trigrev_retry_policy sample_trigger) ''max_seconds'' 300 = Inr 300"
    by (simp_all add: sample_trigger_def policy_int_def)
  from retry_delay_doubles_to_maximum [OF p, of 3] show ?thesis by auto
qed

section \<open>Failure, recovery and heartbeats\<close>

lemma fail_or_retry_saves:
  assumes "fail_or_retry job tr err st attempt s = (Inr j, s')"
  shows "coll_get job_records_coll (key (job_id job)) (svc_graph s') = Some j \<and>
    (\<forall>i. i \<noteq> key (job_id job) \<longrightarrow> coll_get job_records_coll i (svc_graph s') = coll_get job_records_coll i (svc_graph s)) \<and>
    job_id j = job_id job \<and> job_lease_owner j = None \<and> job_error j = Some err \<and>
    (if job_attempt job < job_max_attempts job
     then job_status j = Job_retry_wait \<and> (\<exists>t d. retry_delay_seconds tr (job_attempt job) = Inr d \<and>
       job_next_retry_at j = Some (t + seconds d))
     else job_status j = Job_failed \<and> job_next_retry_at j = None)"
proof -
  obtain current s1 where c: "(case attempt of Some a \<Rightarrow> ret (Some a)
      | None \<Rightarrow> (case job_current_attempt_id job of None \<Rightarrow> ret None
          | Some i \<Rightarrow> asks (coll_get job_attempts_coll (key i)))) s = (Inr current, s1)" "svc_graph s1 = svc_graph s"
    by (cases attempt; cases "job_current_attempt_id job") (auto simp: op_defs)
  obtain s2 where a: "(case current of None \<Rightarrow> ret ()
      | Some a \<Rightarrow> bindE now_utc (\<lambda>t. save_attempt
          (a\<lparr>att_status := st, att_completed_at := Some t, att_error := Some err\<rparr>))) s1 = (Inr (), s2)"
    "\<And>i. coll_get job_records_coll i (svc_graph s2) = coll_get job_records_coll i (svc_graph s)"
    using c(2) by (cases current) (auto simp: op_defs save_attempt_def)
  show ?thesis
  proof (cases "job_attempt job < job_max_attempts job")
    case True
    with assms c a show ?thesis
      by (cases "retry_delay_seconds tr (job_attempt job)")
        (auto simp: fail_or_retry_def bindE_apply ret_apply now_utc_apply lift_result_apply save_job_def writes_apply
          job_get_save)
  next
    case False
    with assms c a show ?thesis
      by (auto simp: fail_or_retry_def bindE_apply ret_apply now_utc_apply save_job_def writes_apply job_get_save)
  qed
qed

text \<open>A failed or expired attempt ends in one of two ways. While the job has attempts left it waits
  for a retry, due after the policy's delay for this attempt; otherwise it has failed. In both
  cases the lease is released, the error recorded, and no other job changes.\<close>

theorem failure_is_retried_or_final:
  assumes "fail_or_retry job tr err st attempt s = (Inr j, s')"
  shows "coll_get job_records_coll (key (job_id job)) (svc_graph s') = Some j \<and> job_lease_owner j = None \<and>
    job_error j = Some err \<and>
    (\<forall>i. i \<noteq> key (job_id job) \<longrightarrow> coll_get job_records_coll i (svc_graph s') = coll_get job_records_coll i (svc_graph s)) \<and>
    (if job_attempt job < job_max_attempts job
     then job_status j = Job_retry_wait \<and> (\<exists>t d. retry_delay_seconds tr (job_attempt job) = Inr d \<and>
       job_next_retry_at j = Some (t + seconds d))
     else job_status j = Job_failed \<and> job_next_retry_at j = None)"
  using fail_or_retry_saves [OF assms] by simp

theorem failure_is_retried_or_final_witness:
  "\<exists>j s'. fail_or_retry (sample_job Job_running) sample_trigger ''boom'' Attempt_failed None sample_svc = (Inr j, s') \<and>
    job_status j = Job_failed \<and> job_lease_owner j = None"
proof -
  have "\<exists>j s'. fail_or_retry (sample_job Job_running) sample_trigger ''boom'' Attempt_failed None sample_svc = (Inr j, s')"
    by (simp add: fail_or_retry_def op_defs sample_job_def save_job_def)
  then obtain j s' where r: "fail_or_retry (sample_job Job_running) sample_trigger ''boom'' Attempt_failed None sample_svc = (Inr j, s')"
    by blast
  from failure_is_retried_or_final [OF r] r show ?thesis by (auto simp: sample_job_def)
qed

lemma values_distinct_ids:
  assumes "typed_graph g" and "wf_graph g"
  shows "distinct (map job_id (coll_values job_records_coll g))"
proof -
  have step: "job_id ` set (List.map_filter (coll_decode job_records_coll) (list_nodes ''JobRecord'' (\<lambda>_. True) h))
        \<subseteq> {i. (''JobRecord'', key i) \<in> fst ` set (nodes h)} \<and>
      distinct (map job_id (List.map_filter (coll_decode job_records_coll) (list_nodes ''JobRecord'' (\<lambda>_. True) h)))"
    if "distinct (map fst (nodes h))" "typed_graph h" for h :: "node_value graph"
    using that
  proof (induction "nodes h" arbitrary: h)
    case Nil
    then show ?case by (simp add: list_nodes_def map_filter_simps)
  next
    case (Cons n ns)
    let ?h = "h\<lparr>nodes := ns\<rparr>"
    have ns: "nodes h = n # ns" using Cons.hyps(2) by simp
    have IH: "job_id ` set (List.map_filter (coll_decode job_records_coll) (list_nodes ''JobRecord'' (\<lambda>_. True) ?h))
        \<subseteq> {i. (''JobRecord'', key i) \<in> fst ` set ns} \<and>
      distinct (map job_id (List.map_filter (coll_decode job_records_coll) (list_nodes ''JobRecord'' (\<lambda>_. True) ?h)))"
      using Cons.hyps(1) [of ?h] Cons.prems ns by (simp add: typed_graph_def)
    show ?case
    proof (cases "coll_decode job_records_coll (snd n)")
      case None
      then show ?thesis using IH ns by (auto simp: list_nodes_def map_filter_simps)
    next
      case (Some j)
      then have "snd n = coll_put job_records_coll j" using job_records.decode_iff by simp
      then have id: "fst n = (''JobRecord'', key (job_id j))"
        using Cons.prems(2) ns job_records.label_put [of j] job_records.identity_put [of j]
        by (simp add: typed_graph_def job_records_coll_def)
      then show ?thesis using IH ns Some Cons.prems(1) by (auto simp: list_nodes_def map_filter_simps)
    qed
  qed
  show ?thesis using step [of g] assms by (simp add: coll_values_def wf_graph_def job_records_coll_def)
qed

lemma recover_all:
  assumes "map_op recover_job js s = (Inr rs, s')" and "distinct (map job_id js)"
  shows "map job_id rs = map job_id js \<and>
    (\<forall>i. i \<notin> job_id ` set js \<longrightarrow> coll_get job_records_coll (key i) (svc_graph s') = coll_get job_records_coll (key i) (svc_graph s)) \<and>
    (\<forall>r\<in>set rs. coll_get job_records_coll (key (job_id r)) (svc_graph s') = Some r \<and>
       job_lease_owner r = None \<and> job_status r \<in> {Job_retry_wait, Job_failed})"
  using assms
proof (induction js arbitrary: s rs)
  case Nil
  then show ?case by (simp add: op_defs)
next
  case (Cons j js)
  from Cons.prems(1) obtain r s1 rs' where one: "recover_job j s = (Inr r, s1)"
    and rest: "map_op recover_job js s1 = (Inr rs', s')" and rs: "rs = r # rs'"
    by (auto simp: bindE_Inr_iff ret_apply)
  from one obtain tr where "fail_or_retry j tr ''lease expired before heartbeat'' Attempt_expired None s = (Inr r, s1)"
    by (auto simp: recover_job_def bindE_Inr_iff reads_apply)
  note f = fail_or_retry_saves [OF this]
  have d: "job_id j \<notin> job_id ` set js" "distinct (map job_id js)" using Cons.prems(2) by auto
  note IH = Cons.IH [OF rest d(2)]
  have "coll_get job_records_coll (key (job_id r)) (svc_graph s') = Some r"
    using IH d(1) f by simp
  moreover have "job_status r \<in> {Job_retry_wait, Job_failed}" using f by (simp split: if_splits)
  ultimately show ?case using IH f rs by auto
qed

text \<open>A worker that comes back late cannot revive a job whose lease was recovered: after the recovery
  of expired leases every recovered job waits for a retry or has failed, and a heartbeat for it, by
  any worker and for any attempt, changes nothing.\<close>

theorem recovered_job_ignores_late_heartbeat:
  assumes "jobs_ok (svc_graph s)" and "recover_expired_leases s = (Inr js, s1)" and "j \<in> set js"
  shows "coll_get job_records_coll (key (job_id j)) (svc_graph s1) = Some j \<and>
    job_status j \<in> {Job_retry_wait, Job_failed} \<and> job_lease_owner j = None \<and>
    heartbeat_job owner lease (job_id j) aid s1 = (Inr (), s1)"
proof -
  from assms(2) obtain now s0 where m: "map_op recover_job (expired_leases now (svc_graph s)) s0 = (Inr js, s1)"
    by (auto simp: recover_expired_leases_def atomically_Inr bindE_Inr_iff now_utc_apply asks_apply)
  have "distinct (map job_id (expired_leases now (svc_graph s)))"
    using values_distinct_ids assms(1) by (simp add: expired_leases_def distinct_map_filter jobs_ok_def)
  from recover_all [OF m this] assms(3)
  have j: "coll_get job_records_coll (key (job_id j)) (svc_graph s1) = Some j" "job_lease_owner j = None"
    "job_status j \<in> {Job_retry_wait, Job_failed}" by auto
  then have "heartbeat_job owner lease (job_id j) aid s1 = (Inr (), s1)"
    by (auto simp: heartbeat_job_def atomically_apply op_defs split: option.splits)
  with j show ?thesis by simp
qed

definition sample_leased :: job_record where
  "sample_leased = (sample_job Job_running)\<lparr>job_lease_owner := Some ''gone'', job_lease_expires_at := Some (- 5),
     job_current_attempt_id := Some ''at''\<rparr>"

definition sample_expired :: svc where
  "sample_expired = sample_svc\<lparr>svc_graph := coll_save job_records_coll sample_leased
     (coll_save trigger_revisions_coll sample_trigger empty_graph)\<rparr>"

theorem recovered_job_ignores_late_heartbeat_witness:
  "\<exists>j s1. recover_expired_leases sample_expired = (Inr [j], s1) \<and> job_status j = Job_failed \<and>
     heartbeat_job ''gone'' 60 (job_id j) ''at'' s1 = (Inr (), s1)"
proof -
  have ok: "jobs_ok (svc_graph sample_expired)"
  proof -
    have "jobs_ok (coll_save trigger_revisions_coll sample_trigger empty_graph)"
      by (simp add: jobs_ok_def typed_graph_def wf_graph_def file_edges_def coll_get_def coll_save_def get_node_def
          upsert_node_def empty_graph_def trigger_revisions_coll_def job_records_coll_def sample_trigger_def key_def)
    moreover have "job_ok sample_leased" by (simp add: job_ok_def sample_leased_def sample_job_def)
    ultimately show ?thesis by (simp add: sample_expired_def jobs_ok_keep(1))
  qed
  have exp: "expired_leases 0 (svc_graph sample_expired) = [sample_leased]"
    by (simp add: expired_leases_def sample_expired_def sample_runtime_defs coll_values_def list_nodes_def
        sample_leased_def sample_job_def sample_trigger_def)
  have tr: "coll_get trigger_revisions_coll (key ''t'') (svc_graph sample_expired) = Some sample_trigger"
    by (simp add: sample_expired_def sample_runtime_defs sample_leased_def sample_job_def sample_trigger_def)
  have at: "coll_get job_attempts_coll k (svc_graph sample_expired) = None" for k
    by (simp add: sample_expired_def sample_runtime_defs sample_leased_def sample_job_def sample_trigger_def job_attempts_coll_def)
  have f: "svc_clock sample_expired (svc_ticks sample_expired) = 0"
    "svc_graph (sample_expired\<lparr>svc_ticks := n\<rparr>) = svc_graph sample_expired" for n
    by (simp_all add: sample_expired_def sample_svc_def)
  have "\<exists>j s1. recover_expired_leases sample_expired = (Inr [j], s1)"
    using exp tr at f
    by (simp add: recover_expired_leases_def atomically_apply op_defs recover_job_def coll_item_def fail_or_retry_def
        save_job_def sample_leased_def sample_job_def)
  then obtain j s1 where r: "recover_expired_leases sample_expired = (Inr [j], s1)" by blast
  have "job_status j = Job_failed"
    using r exp tr at f
    by (auto simp: recover_expired_leases_def atomically_apply op_defs recover_job_def coll_item_def fail_or_retry_def
        save_job_def sample_leased_def sample_job_def)
  with recovered_job_ignores_late_heartbeat [OF ok r, of j] r show ?thesis by auto
qed

end
