(* ===== verification/Invocations.thy ===== *)
theory Invocations
  imports Repositories Revision_Bindings
begin

text \<open>
  \<^verbatim>\<open>Invocations\<close> of \<^verbatim>\<open>system/invocations.py\<close>: what may be run, with which revision and in
  which context; callback routes; application tests; migrations. The runtime that executes an
  action is a parameter \<open>run\<close> (\<open>submit\<close> for the asynchronous calls).
\<close>

type_synonym 'z action_runtime =
  "action_revision \<Rightarrow> (string, json) dict \<Rightarrow> invocation_kind \<Rightarrow> execution_context \<Rightarrow>
   ('z svc_scheme, invocation) op"

definition production_context :: "string \<Rightarrow> string \<Rightarrow> string \<Rightarrow> execution_context" where
  "production_context corr rid app =
     \<lparr>ctx_mode = Ctx_production, ctx_deployment_id = None, ctx_correlation_id = corr,
      ctx_experience_revision_id = None, ctx_application_revision_id = rid,
      ctx_application_id = app, ctx_data_space_id = ''production''\<rparr>"

section \<open>Draft actions\<close>

definition owning_deployment :: "string \<Rightarrow> string \<Rightarrow> node_value graph \<Rightarrow> development_deployment option" where
  "owning_deployment app space g =
     find (\<lambda>d. dict_get (deploy_data_space_ids d) app = Some space \<and> deploy_status d = Deploy_active)
       (coll_values development_deployments_coll g)"

definition draft_execution_context ::
  "application_revision \<Rightarrow> string option \<Rightarrow> ('z svc_scheme, execution_context) op" where
  "draft_execution_context apprev data_space_id =
     (let app = rev_application_id apprev;
          space = (case data_space_id of None \<Rightarrow> ''production'' | Some d \<Rightarrow> if d = [] then ''production'' else d)
      in bindE (asks (coll_get data_spaces_coll [(''application_id'', app), (''id'', space)])) (\<lambda>ds.
         (case ds of
            None \<Rightarrow> raise (ValidationFailure (''unknown DataSpace: '' @ space))
          | Some d \<Rightarrow>
              if space_kind d = Space_development
              then bindE (asks (owning_deployment app space)) (\<lambda>dep.
                (case dep of
                   None \<Rightarrow> raise (ValidationFailure ''development DataSpace requires an owning DevelopmentDeployment'')
                 | Some dep \<Rightarrow> bindE new_uuid (\<lambda>corr. ret
                     \<lparr>ctx_mode = Ctx_development, ctx_deployment_id = Some (deploy_id dep),
                      ctx_correlation_id = corr,
                      ctx_experience_revision_id = Some (deploy_experience_revision_id dep),
                      ctx_application_revision_id = rev_id apprev, ctx_application_id = app,
                      ctx_data_space_id = space\<rparr>)))
              else bindE new_uuid (\<lambda>corr. ret
                \<lparr>ctx_mode = Ctx_production, ctx_deployment_id = None, ctx_correlation_id = corr,
                 ctx_experience_revision_id = None, ctx_application_revision_id = rev_id apprev,
                 ctx_application_id = app, ctx_data_space_id = space\<rparr>))))"

text \<open>The checks a draft call makes before it runs; \<open>who\<close> names the method in the message.\<close>

definition draft_call ::
  "string \<Rightarrow> string \<Rightarrow> string \<Rightarrow> string option \<Rightarrow> ('z svc_scheme, action_revision \<times> execution_context) op" where
  "draft_call who rid aid data_space_id =
     bindE (item_of revisions_coll (key rid)) (\<lambda>rev.
     bindE (require (rev_status rev = Rev_draft) (ImmutableRevisionError (who @ '' requires a draft revision''))) (\<lambda>_.
     bindE (reads (bound_action_revision (rev_id rev) aid)) (\<lambda>arev.
     bindE (require (actrev_kind arev \<noteq> Act_migration)
        (ValidationFailure ''migration revisions run only through activation'')) (\<lambda>_.
     bindE (draft_execution_context rev data_space_id) (\<lambda>ctx. ret (arev, ctx))))))"

definition run_draft_action ::
  "'z action_runtime \<Rightarrow> string \<Rightarrow> string \<Rightarrow> (string, json) dict \<Rightarrow> string option \<Rightarrow>
   ('z svc_scheme, invocation) op" where
  "run_draft_action run rid aid input space =
     bindE (atomically (draft_call ''run_draft_action'' rid aid space)) (\<lambda>(arev, ctx).
     run arev input InvKind_draft ctx)"

definition submit_draft_action ::
  "'z action_runtime \<Rightarrow> string \<Rightarrow> string \<Rightarrow> (string, json) dict \<Rightarrow> string option \<Rightarrow>
   ('z svc_scheme, invocation) op" where
  "submit_draft_action submit rid aid input space =
     bindE (atomically (draft_call ''submit_draft_action'' rid aid space)) (\<lambda>(arev, ctx).
     submit arev input InvKind_draft ctx)"

section \<open>Active actions\<close>

definition active_call :: "string \<Rightarrow> string \<Rightarrow> ('z svc_scheme, action_revision \<times> execution_context) op" where
  "active_call app aid =
     bindE (item_of applications_coll (key app)) (\<lambda>a.
     bindE (require (app_status a \<notin> {App_disabled, App_importing})
        (ValidationFailure (''application is not available for actions: '' @ app))) (\<lambda>_.
     bindE (item_of actions_coll (key aid)) (\<lambda>act.
     (case (act_active_revision_id act, app_active_revision_id a) of
        (Some _, Some rid) \<Rightarrow>
          if act_application_id act \<noteq> app
          then raise (KeyError (''action is not active for application: '' @ aid))
          else bindE (reads (bound_action_revision rid aid)) (\<lambda>arev.
               bindE (require (actrev_kind arev \<noteq> Act_migration)
                  (ValidationFailure ''migration revisions run only through activation'')) (\<lambda>_.
               bindE new_uuid (\<lambda>corr. ret (arev, production_context corr rid app))))
      | _ \<Rightarrow> raise (KeyError (''action is not active for application: '' @ aid))))))"

definition run_active_action ::
  "'z action_runtime \<Rightarrow> string \<Rightarrow> string \<Rightarrow> (string, json) dict \<Rightarrow> ('z svc_scheme, invocation) op" where
  "run_active_action run app aid input =
     bindE (atomically (active_call app aid)) (\<lambda>(arev, ctx). run arev input InvKind_active ctx)"

definition submit_active_action ::
  "'z action_runtime \<Rightarrow> string \<Rightarrow> string \<Rightarrow> (string, json) dict \<Rightarrow> ('z svc_scheme, invocation) op" where
  "submit_active_action submit app aid input =
     bindE (atomically (active_call app aid)) (\<lambda>(arev, ctx). submit arev input InvKind_active ctx)"

section \<open>Callback routes\<close>

definition route_status_text :: "route_status_kind \<Rightarrow> string" where
  "route_status_text st = (case st of Route_pending \<Rightarrow> ''pending'' | Route_used \<Rightarrow> ''used''
     | Route_expired \<Rightarrow> ''expired'' | Route_revoked \<Rightarrow> ''revoked'')"

text \<open>The first block of \<^verbatim>\<open>dispatch_callback_route\<close>.\<close>

definition callback_call ::
  "string \<Rightarrow> (string, json) dict \<Rightarrow> ('z svc_scheme, callback_route \<times> action_revision \<times> execution_context) op" where
  "callback_call rid payload =
     bindE (item_of callback_routes_coll (key rid)) (\<lambda>route.
     bindE now_utc (\<lambda>now.
     if route_status route \<noteq> Route_pending
     then raise (ValidationFailure (''callback route is not pending: '' @ route_status_text (route_status route)))
     else if (case route_expires_at route of None \<Rightarrow> False | Some t \<Rightarrow> t < now)
     then bindE (save_to callback_routes_coll (route\<lparr>route_status := Route_expired\<rparr>)) (\<lambda>_.
          raise (ValidationFailure ''callback route expired''))
     else if route_state route \<noteq> [] \<and> dict_get payload ''state'' \<noteq> Some (JStr (route_state route))
     then raise (ValidationFailure ''callback state mismatch'')
     else bindE (item_of action_revisions_coll (key (route_target_action_revision_id route))) (\<lambda>arev.
          bindE (item_of applications_coll (key (route_application_id route))) (\<lambda>app.
          (case app_active_revision_id app of
             None \<Rightarrow> raise (ValidationFailure (''application has no active revision: '' @ route_application_id route))
           | Some active \<Rightarrow> bindE new_uuid (\<lambda>corr.
               ret (route, arev, production_context corr active (route_application_id route))))))))"

definition callback_used :: "string \<Rightarrow> callback_route \<Rightarrow> invocation \<Rightarrow> ('z svc_scheme, unit) op" where
  "callback_used rid route i =
     bindE (item_of callback_routes_coll (key rid)) (\<lambda>current.
     bindE (save_to callback_routes_coll (current\<lparr>route_status := Route_used,
        route_metadata := dict_set ''invocation_id'' (JStr (inv_id i)) (route_metadata current)\<rparr>)) (\<lambda>_.
     link (id_ref ''CallbackRoute'' (route_id route)) ''INVOKED'' (id_ref ''Invocation'' (inv_id i))))"

definition dispatch_callback_route ::
  "'z action_runtime \<Rightarrow> string \<Rightarrow> (string, json) dict \<Rightarrow> ('z svc_scheme, invocation) op" where
  "dispatch_callback_route run rid payload =
     bindE (atomically (callback_call rid payload)) (\<lambda>(route, arev, ctx).
     bindE (run arev payload InvKind_callback ctx) (\<lambda>i.
     bindE (atomically (callback_used rid route i)) (\<lambda>_. ret i)))"

definition create_callback_route ::
  "string \<Rightarrow> string \<Rightarrow> string \<Rightarrow> int option \<Rightarrow> (string, json) dict \<Rightarrow> ('z svc_scheme, callback_route) op" where
  "create_callback_route app target state expires_at metadata =
     atomically
      (bindE (item_of action_revisions_coll (key target)) (\<lambda>arev.
       bindE (item_of actions_coll (key (actrev_action_id arev))) (\<lambda>act.
       bindE (require (act_application_id act = app)
          (ValueError ''callback target action belongs to a different application'')) (\<lambda>_.
       bindE new_uuid (\<lambda>i.
       bindE now_utc (\<lambda>created.
       (let route = \<lparr>route_id = i, route_application_id = app, route_target_action_revision_id = target,
              route_state = state, route_status = Route_pending, route_created_at = created,
              route_expires_at = expires_at, route_metadata = metadata\<rparr>
        in bindE (save_to callback_routes_coll route) (\<lambda>_.
           bindE (link (id_ref ''Application'' app) ''HAS_CALLBACK_ROUTE'' (id_ref ''CallbackRoute'' i)) (\<lambda>_.
           bindE (link (id_ref ''CallbackRoute'' i) ''TARGETS'' (id_ref ''ActionRevision'' target)) (\<lambda>_.
           ret route))))))))))"

definition inspect_callback_routes :: "string option \<Rightarrow> node_value graph \<Rightarrow> callback_route list" where
  "inspect_callback_routes app g =
     sort_key route_created_at
       (filter (\<lambda>r. app = None \<or> app = Some (route_application_id r)) (coll_values callback_routes_coll g))"

section \<open>Tests and migrations\<close>

definition tests_call ::
  "string \<Rightarrow> ('z svc_scheme, (test_case \<times> action_revision) list \<times> execution_context) op" where
  "tests_call rid =
     bindE (item_of revisions_coll (key rid)) (\<lambda>rev.
     bindE (require (rev_status rev \<in> {Rev_draft, Rev_validating, Rev_active})
        (ImmutableRevisionError ''tests require a draft, validating, or active revision'')) (\<lambda>_.
     bindE (reads (test_cases (rev_id rev))) (\<lambda>tests.
     bindE (map_op (\<lambda>t. bindE (reads (bound_action_revision (rev_id rev) (test_action_id t))) (\<lambda>a. ret (t, a))) tests) (\<lambda>pairs.
     bindE new_uuid (\<lambda>corr. ret (pairs, production_context corr (rev_id rev) (rev_application_id rev)))))))"

fun run_tests ::
  "'z action_runtime \<Rightarrow> execution_context \<Rightarrow> (test_case \<times> action_revision) list \<Rightarrow>
   ('z svc_scheme, invocation list) op" where
  "run_tests run ctx [] = ret []"
| "run_tests run ctx ((t, a) # ts) =
     bindE (run a (test_input t) InvKind_test ctx) (\<lambda>i.
     if inv_status i \<noteq> Inv_succeeded \<or> inv_output i \<noteq> test_expected_output t
     then raise (ValidationFailure (''test failed: '' @ test_id t))
     else bindE (run_tests run ctx ts) (\<lambda>is. ret (i # is)))"

definition run_application_tests :: "'z action_runtime \<Rightarrow> string \<Rightarrow> ('z svc_scheme, invocation list) op" where
  "run_application_tests run rid =
     bindE (atomically (tests_call rid)) (\<lambda>(pairs, ctx). run_tests run ctx pairs)"

text \<open>
  \<^verbatim>\<open>dict(value)\<close> for the JSON values it accepts: objects, and arrays of pairs whose first
  component is a string; anything else raises.
\<close>

fun pairs_of_json :: "json list \<Rightarrow> (string, json) dict \<Rightarrow> exn + (string, json) dict" where
  "pairs_of_json [] d = Inr d"
| "pairs_of_json (JArr [JStr k, v] # xs) d = pairs_of_json xs (dict_set k v d)"
| "pairs_of_json (_ # xs) d = Inl (TypeError ''dict() argument'')"

definition dict_of_json :: "json \<Rightarrow> exn + (string, json) dict" where
  "dict_of_json v =
     (case v of JObj kvs \<Rightarrow> Inr kvs | JArr xs \<Rightarrow> pairs_of_json xs [] | JStr [] \<Rightarrow> Inr []
      | _ \<Rightarrow> Inl (TypeError ''dict() argument''))"

definition migration_call ::
  "string \<Rightarrow> string \<Rightarrow> ('z svc_scheme, action_revision \<times> (string, json) dict \<times> execution_context) op" where
  "migration_call rid arid =
     bindE (item_of action_revisions_coll (key arid)) (\<lambda>arev.
     bindE (require (actrev_kind arev = Act_migration)
        (ValidationFailure ''migration execution requires ActionRevision.kind=migration'')) (\<lambda>_.
     bindE (item_of revisions_coll (key rid)) (\<lambda>rev.
     bindE (lift_result (case dict_get (actrev_migration_metadata arev) ''input'' of
          None \<Rightarrow> Inr []
        | Some v \<Rightarrow> dict_of_json v)) (\<lambda>input.
     bindE new_uuid (\<lambda>corr. ret (arev, input, production_context corr (rev_id rev) (rev_application_id rev)))))))"

definition run_migration :: "'z action_runtime \<Rightarrow> string \<Rightarrow> string \<Rightarrow> ('z svc_scheme, invocation) op" where
  "run_migration run rid arid =
     bindE (atomically (migration_call rid arid)) (\<lambda>(arev, input, ctx).
     bindE (run arev input InvKind_migration ctx) (\<lambda>i.
     if inv_status i \<noteq> Inv_succeeded
     then raise (ValidationFailure (''migration execution failed: '' @ actrev_id arev @ '': '' @
       (case inv_error i of None \<Rightarrow> ''None'' | Some e \<Rightarrow> e)))
     else ret i))"

section \<open>Laws\<close>

lemma active_call_Inr:
  assumes "active_call app aid s = (Inr (arev, ctx), s')"
  shows "\<exists>a rid. coll_get applications_coll (key app) (svc_graph s) = Some a \<and>
    app_status a \<in> {App_active, App_triggers_paused} \<and> app_active_revision_id a = Some rid \<and>
    bound_action_revision rid aid (svc_graph s) = Inr arev \<and> actrev_kind arev \<noteq> Act_migration \<and>
    ctx_application_revision_id ctx = rid \<and> ctx_application_id ctx = app \<and> ctx_mode ctx = Ctx_production \<and>
    svc_graph s' = svc_graph s"
proof -
  obtain a where a: "coll_get applications_coll (key app) (svc_graph s) = Some a"
    using assms by (cases "coll_get applications_coll (key app) (svc_graph s)")
      (auto simp: active_call_def op_defs coll_item_def)
  have st: "app_status a \<in> {App_active, App_triggers_paused}"
    using assms a by (cases "app_status a") (auto simp: active_call_def op_defs coll_item_def)
  obtain act where act: "coll_get actions_coll (key aid) (svc_graph s) = Some act"
    using assms a st by (cases "coll_get actions_coll (key aid) (svc_graph s)")
      (auto simp: active_call_def op_defs coll_item_def)
  obtain x rid where x: "act_active_revision_id act = Some x" "app_active_revision_id a = Some rid"
    using assms a st act
    by (cases "act_active_revision_id act"; cases "app_active_revision_id a")
      (auto simp: active_call_def op_defs coll_item_def)
  show ?thesis
    using assms a st act x
    by (auto simp: active_call_def op_defs coll_item_def production_context_def split: if_splits sum.splits)
qed

text \<open>A callback call that raises leaves the graph as it was, the expired route included.\<close>

lemma callback_raises:
  assumes "fst (atomically (callback_call rid payload) s) = Inl e"
  shows "dispatch_callback_route run rid payload s = (Inl e, snd (atomically (callback_call rid payload) s))"
    and "svc_graph (snd (dispatch_callback_route run rid payload s)) = svc_graph s"
proof -
  obtain s1 where s1: "atomically (callback_call rid payload) s = (Inl e, s1)"
    using assms by (metis prod.collapse)
  then show "dispatch_callback_route run rid payload s = (Inl e, snd (atomically (callback_call rid payload) s))"
    by (simp add: dispatch_callback_route_def bindE_apply)
  then show "svc_graph (snd (dispatch_callback_route run rid payload s)) = svc_graph s"
    using atomically_Inl [OF s1] s1 by simp
qed

lemma callback_not_pending:
  assumes "coll_get callback_routes_coll (key rid) (svc_graph s) = Some route" and "route_status route \<noteq> Route_pending"
  shows "\<exists>s'. dispatch_callback_route run rid payload s =
    (Inl (ValidationFailure (''callback route is not pending: '' @ route_status_text (route_status route))), s') \<and> svc_graph s' = svc_graph s"
  using assms
  by (simp add: dispatch_callback_route_def callback_call_def atomically_apply op_defs coll_item_def)

lemma route_get_save:
  "coll_get callback_routes_coll (key i) (coll_save callback_routes_coll r g) =
     (if i = route_id r then Some r else coll_get callback_routes_coll (key i) g)"
proof -
  have "coll_identity callback_routes_coll r = key (route_id r)" by (simp add: callback_routes_coll_def)
  then show ?thesis by (simp add: callback_routes.get_save)
qed

lemma run_tests_all:
  "run_tests run ctx ts s = (Inr js, s') \<Longrightarrow>
     list_all2 (\<lambda>t i. inv_status i = Inv_succeeded \<and> inv_output i = test_expected_output (fst t)) ts js"
proof (induction ts arbitrary: js s)
  case Nil
  then show ?case by (simp add: ret_apply)
next
  case (Cons t ts)
  obtain tc a where t: "t = (tc, a)" by (cases t)
  with Cons.prems obtain i s1 js' s2 where "run a (test_input tc) InvKind_test ctx s = (Inr i, s1)"
    "inv_status i = Inv_succeeded" "inv_output i = test_expected_output tc"
    "run_tests run ctx ts s1 = (Inr js', s2)" "js = i # js'" "s' = s2"
    by (auto simp: bindE_Inr_iff ret_apply raise_apply split: if_splits)
  with Cons.IH t show ?case by simp
qed

end
