(* ===== verification/Secrets.thy ===== *)
theory Secrets
  imports Repositories Py_Text
begin

text \<open>
  Secrets: the backends of \<^verbatim>\<open>secrets/backends.py\<close> that keep a dictionary (in memory, and
  encrypted in a local file) and \<^verbatim>\<open>SecretService\<close> of \<^verbatim>\<open>secrets/service.py\<close>, which keeps
  references on the graph and values in a backend. The service is proved once against the
  contract of a backend.
\<close>

section \<open>Backends\<close>

definition memory_set :: "string \<Rightarrow> string \<Rightarrow> ((string, string) dict, unit) op" where
  "memory_set uri v = modify (dict_set uri v)"

definition memory_get :: "string \<Rightarrow> (string, string) dict \<Rightarrow> exn + string" where
  "memory_get uri d =
     (case dict_get d uri of
        None \<Rightarrow> Inl (SecretNotFoundError (''secret not found: '' @ uri))
      | Some v \<Rightarrow> Inr v)"

definition memory_delete :: "string \<Rightarrow> ((string, string) dict, unit) op" where
  "memory_delete uri = modify (dict_pop uri)"

text \<open>
  The encrypted file: \<open>seal\<close> is \<^verbatim>\<open>Fernet.encrypt\<close> of the JSON text of the dictionary, \<open>unseal\<close>
  its inverse (\<open>None\<close> for \<^verbatim>\<open>InvalidToken\<close>), both for the key of the backend. The state is the
  content of the file, if it exists.
\<close>

definition encrypted_read_all ::
  "('c \<Rightarrow> (string, string) dict option) \<Rightarrow> 'c option \<Rightarrow> exn + (string, string) dict" where
  "encrypted_read_all unseal f =
     (case f of
        None \<Rightarrow> Inr []
      | Some c \<Rightarrow> (case unseal c of
            None \<Rightarrow> Inl (SecretBackendError ''local secrets file cannot be decrypted'')
          | Some d \<Rightarrow> Inr d))"

definition encrypted_set ::
  "((string, string) dict \<Rightarrow> 'c) \<Rightarrow> ('c \<Rightarrow> (string, string) dict option) \<Rightarrow> string \<Rightarrow> string \<Rightarrow>
   ('c option, unit) op" where
  "encrypted_set seal unseal uri v f =
     (case encrypted_read_all unseal f of
        Inl e \<Rightarrow> (Inl e, f)
      | Inr d \<Rightarrow> (Inr (), Some (seal (dict_set uri v d))))"

definition encrypted_get ::
  "('c \<Rightarrow> (string, string) dict option) \<Rightarrow> string \<Rightarrow> 'c option \<Rightarrow> exn + string" where
  "encrypted_get unseal uri f = rbind (encrypted_read_all unseal f) (memory_get uri)"

definition encrypted_delete ::
  "((string, string) dict \<Rightarrow> 'c) \<Rightarrow> ('c \<Rightarrow> (string, string) dict option) \<Rightarrow> string \<Rightarrow>
   ('c option, unit) op" where
  "encrypted_delete seal unseal uri f =
     (case encrypted_read_all unseal f of
        Inl e \<Rightarrow> (Inl e, f)
      | Inr d \<Rightarrow> (Inr (), Some (seal (dict_pop uri d))))"

text \<open>\<^verbatim>\<open>_redact\<close>; \<open>replace_text\<close> is \<^verbatim>\<open>str.replace\<close> for a text to replace that is not empty.\<close>

fun replace_text :: "nat \<Rightarrow> string \<Rightarrow> string \<Rightarrow> string \<Rightarrow> string" where
  "replace_text skip old new [] = []"
| "replace_text (Suc skip) old new (c # cs) = replace_text skip old new cs"
| "replace_text 0 old new (c # cs) =
     (if starts_with old (c # cs) then new @ replace_text (length old - 1) old new cs
      else c # replace_text 0 old new cs)"

definition redact :: "string \<Rightarrow> string \<Rightarrow> string" where
  "redact secret value = (if secret = [] then value else replace_text 0 secret ''[REDACTED]'' value)"

text \<open>
  The contract of a backend, over the states \<open>good\<close> its operations keep: a value set is the
  value read, a deleted one is not found, and no other secret changes.
\<close>

locale value_backend =
  fixes good :: "'b \<Rightarrow> bool" and bset :: "string \<Rightarrow> string \<Rightarrow> ('b, unit) op"
    and bget :: "string \<Rightarrow> 'b \<Rightarrow> exn + string" and bdelete :: "string \<Rightarrow> ('b, unit) op"
  assumes set_ok: "good b \<Longrightarrow> \<exists>b'. bset uri v b = (Inr (), b') \<and> good b' \<and> bget uri b' = Inr v \<and>
       (\<forall>u. u \<noteq> uri \<longrightarrow> bget u b' = bget u b)"
    and delete_ok: "good b \<Longrightarrow> \<exists>b'. bdelete uri b = (Inr (), b') \<and> good b' \<and>
       bget uri b' = Inl (SecretNotFoundError (''secret not found: '' @ uri)) \<and>
       (\<forall>u. u \<noteq> uri \<longrightarrow> bget u b' = bget u b)"
    and get_ok: "good b \<Longrightarrow> (\<exists>v. bget uri b = Inr v) \<or>
       bget uri b = Inl (SecretNotFoundError (''secret not found: '' @ uri))"

interpretation memory_backend: value_backend "\<lambda>_. True" memory_set memory_get memory_delete
  by unfold_locales
    (auto simp: memory_set_def memory_get_def memory_delete_def op_defs dict_simps split: option.splits)

text \<open>A sealed file reads back with the same entries.\<close>

definition sealing :: "((string, string) dict \<Rightarrow> 'c) \<Rightarrow> ('c \<Rightarrow> (string, string) dict option) \<Rightarrow> bool" where
  "sealing seal unseal \<longleftrightarrow> (\<forall>d. \<exists>d'. unseal (seal d) = Some d' \<and> dict_get d' = dict_get d)"

definition readable :: "('c \<Rightarrow> (string, string) dict option) \<Rightarrow> 'c option \<Rightarrow> bool" where
  "readable unseal f \<longleftrightarrow> (\<forall>c. f = Some c \<longrightarrow> unseal c \<noteq> None)"

lemma memory_get_cong: "dict_get d = dict_get d' \<Longrightarrow> memory_get uri d = memory_get uri d'"
  by (simp add: memory_get_def)

lemma readable_read: "readable unseal f \<Longrightarrow> \<exists>d. encrypted_read_all unseal f = Inr d"
  by (auto simp: readable_def encrypted_read_all_def split: option.splits)

lemma sealed_get:
  assumes "sealing seal unseal"
  shows "encrypted_get unseal uri (Some (seal d)) = memory_get uri d" and "readable unseal (Some (seal d))"
proof -
  from assms obtain d' where "unseal (seal d) = Some d'" "dict_get d' = dict_get d"
    unfolding sealing_def by blast
  then show "encrypted_get unseal uri (Some (seal d)) = memory_get uri d" "readable unseal (Some (seal d))"
    by (auto simp: encrypted_get_def encrypted_read_all_def readable_def intro: memory_get_cong)
qed

lemma encrypted_is_backend:
  assumes "sealing seal unseal"
  shows "value_backend (readable unseal) (encrypted_set seal unseal) (encrypted_get unseal)
    (encrypted_delete seal unseal)"
proof
  fix f :: "'a option" and uri v :: string
  assume "readable unseal f"
  then obtain d where d: "encrypted_read_all unseal f = Inr d" using readable_read by blast
  then have get: "encrypted_get unseal u f = memory_get u d" for u by (simp add: encrypted_get_def)
  show "\<exists>b'. encrypted_set seal unseal uri v f = (Inr (), b') \<and> readable unseal b' \<and>
      encrypted_get unseal uri b' = Inr v \<and> (\<forall>u. u \<noteq> uri \<longrightarrow> encrypted_get unseal u b' = encrypted_get unseal u f)"
    using d get sealed_get [OF assms] by (simp add: encrypted_set_def memory_get_def dict_simps)
  show "\<exists>b'. encrypted_delete seal unseal uri f = (Inr (), b') \<and> readable unseal b' \<and>
      encrypted_get unseal uri b' = Inl (SecretNotFoundError (''secret not found: '' @ uri)) \<and>
      (\<forall>u. u \<noteq> uri \<longrightarrow> encrypted_get unseal u b' = encrypted_get unseal u f)"
    using d get sealed_get [OF assms] by (simp add: encrypted_delete_def memory_get_def dict_simps)
  show "(\<exists>v. encrypted_get unseal uri f = Inr v) \<or>
      encrypted_get unseal uri f = Inl (SecretNotFoundError (''secret not found: '' @ uri))"
    using get by (auto simp: memory_get_def split: option.splits)
qed

section \<open>The service\<close>

record 'b secret_world = svc +
  backend :: 'b

definition find_reference_by_uri :: "string \<Rightarrow> node_value graph \<Rightarrow> secret_reference option" where
  "find_reference_by_uri uri g = find (\<lambda>r. secret_uri r = uri) (coll_values secret_references_coll g)"

definition create_reference ::
  "secret_backend_kind \<Rightarrow> string \<Rightarrow> string \<Rightarrow> string \<Rightarrow> string \<Rightarrow> ('z svc_scheme, secret_reference) op" where
  "create_reference kind app uri name description =
     atomically (bindE (asks (find_reference_by_uri uri)) (\<lambda>existing.
       (case existing of
          Some r \<Rightarrow>
            if secret_application_id r \<noteq> app
            then raise (ValueError ''secret URI is already owned by another Application'')
            else ret r
        | None \<Rightarrow>
            bindE new_uuid (\<lambda>i.
            bindE now_utc (\<lambda>created.
            bindE now_utc (\<lambda>updated.
            (let r = \<lparr>secret_id = i, secret_application_id = app, secret_uri = uri, secret_backend = kind,
                   secret_name = name, secret_description = description,
                   secret_created_at = created, secret_updated_at = updated\<rparr>
             in bindE (save_to secret_references_coll r) (\<lambda>_.
                bindE (link (id_ref ''Application'' app) ''HAS_SECRET_REFERENCE''
                   (id_ref ''SecretReference'' i)) (\<lambda>_.
                ret r)))))))))"

definition on_backend :: "('b, 'a) op \<Rightarrow> (('b, 'z) secret_world_scheme, 'a) op" where
  "on_backend m s = (case m (backend s) of (r, b) \<Rightarrow> (r, s\<lparr>backend := b\<rparr>))"

definition backend_get :: "(string \<Rightarrow> 'b \<Rightarrow> exn + string) \<Rightarrow> string \<Rightarrow> (('b, 'z) secret_world_scheme, string) op" where
  "backend_get bget uri s = (bget uri (backend s), s)"

text \<open>\<^verbatim>\<open>reference.model_copy(update={"updated_at": now_utc()})\<close>, saved.\<close>

definition touch_reference :: "string \<Rightarrow> ('z svc_scheme, secret_reference) op" where
  "touch_reference i =
     atomically (bindE (item_of secret_references_coll (key i)) (\<lambda>current.
       bindE now_utc (\<lambda>t.
       (let updated = current\<lparr>secret_updated_at := t\<rparr>
        in bindE (save_to secret_references_coll updated) (\<lambda>_. ret updated)))))"

definition require_reference :: "string \<Rightarrow> ('z svc_scheme, secret_reference) op" where
  "require_reference uri =
     atomically (bindE (asks (find_reference_by_uri uri)) (\<lambda>r.
       (case r of
          None \<Rightarrow> raise (KeyError (''SecretReference does not exist for '' @ uri))
        | Some r \<Rightarrow> ret r)))"

definition set_secret ::
  "(string \<Rightarrow> string \<Rightarrow> ('b, unit) op) \<Rightarrow> string \<Rightarrow> string \<Rightarrow> (('b, 'z) secret_world_scheme, secret_reference) op" where
  "set_secret bset uri v =
     bindE (require_reference uri) (\<lambda>r.
     bindE (on_backend (bset uri v)) (\<lambda>_.
     touch_reference (secret_id r)))"

definition get_secret ::
  "(string \<Rightarrow> 'b \<Rightarrow> exn + string) \<Rightarrow> string \<Rightarrow> (('b, 'z) secret_world_scheme, string) op" where
  "get_secret bget uri = bindE (require_reference uri) (\<lambda>_. backend_get bget uri)"

definition delete_secret_value ::
  "(string \<Rightarrow> ('b, unit) op) \<Rightarrow> string \<Rightarrow> (('b, 'z) secret_world_scheme, unit) op" where
  "delete_secret_value bdelete uri =
     bindE (require_reference uri) (\<lambda>r.
     bindE (on_backend (bdelete uri)) (\<lambda>_.
     bindE (touch_reference (secret_id r)) (\<lambda>_. ret ())))"

definition owned_reference :: "string \<Rightarrow> string \<Rightarrow> ('z svc_scheme, secret_reference) op" where
  "owned_reference app i =
     atomically (bindE (asks (coll_get secret_references_coll (key i))) (\<lambda>r.
       (case r of
          None \<Rightarrow> raise (KeyError i)
        | Some r \<Rightarrow>
            if secret_application_id r \<noteq> app
            then raise (PermissionError ''SecretReference is not owned by the requested Application'')
            else ret r)))"

record secret_status_payload =
  status_reference_id :: string
  status_configured :: bool
  status_backend :: secret_backend_kind
  status_updated_at :: int

definition status_payload :: "secret_reference \<Rightarrow> bool \<Rightarrow> secret_status_payload" where
  "status_payload r configured =
     \<lparr>status_reference_id = secret_id r, status_configured = configured,
      status_backend = secret_backend r, status_updated_at = secret_updated_at r\<rparr>"

definition secret_status ::
  "(string \<Rightarrow> 'b \<Rightarrow> exn + string) \<Rightarrow> string \<Rightarrow> string \<Rightarrow>
   (('b, 'z) secret_world_scheme, secret_status_payload) op" where
  "secret_status bget app i =
     bindE (owned_reference app i) (\<lambda>r s.
       (case bget (secret_uri r) (backend s) of
          Inr _ \<Rightarrow> (Inr (status_payload r True), s)
        | Inl (SecretNotFoundError _) \<Rightarrow> (Inr (status_payload r False), s)
        | Inl e \<Rightarrow> (Inl e, s)))"

definition set_secret_reference ::
  "(string \<Rightarrow> string \<Rightarrow> ('b, unit) op) \<Rightarrow> string \<Rightarrow> string \<Rightarrow> string \<Rightarrow>
   (('b, 'z) secret_world_scheme, secret_status_payload) op" where
  "set_secret_reference bset app i v =
     bindE (owned_reference app i) (\<lambda>r.
     bindE (on_backend (bset (secret_uri r) v)) (\<lambda>_.
     bindE (touch_reference (secret_id r)) (\<lambda>u. ret (status_payload u True))))"

definition delete_secret_reference_value ::
  "(string \<Rightarrow> ('b, unit) op) \<Rightarrow> string \<Rightarrow> string \<Rightarrow>
   (('b, 'z) secret_world_scheme, secret_status_payload) op" where
  "delete_secret_reference_value bdelete app i =
     bindE (owned_reference app i) (\<lambda>r.
     bindE (on_backend (bdelete (secret_uri r))) (\<lambda>_.
     bindE (touch_reference (secret_id r)) (\<lambda>u. ret (status_payload u False))))"

definition create_credential_record ::
  "string \<Rightarrow> string \<Rightarrow> string \<Rightarrow> string list \<Rightarrow> (string, json) dict \<Rightarrow> ('z svc_scheme, credential_record) op" where
  "create_credential_record app provider account refs metadata =
     atomically
      (bindE (for_each (\<lambda>i. bindE (asks (coll_get secret_references_coll (key i))) (\<lambda>r.
          require (r \<noteq> None) (KeyError i))) refs) (\<lambda>_.
       bindE new_uuid (\<lambda>i.
       bindE now_utc (\<lambda>created.
       bindE now_utc (\<lambda>updated.
       (let c = \<lparr>cred_id = i, cred_application_id = app, cred_provider = provider, cred_account_name = account,
              cred_secret_reference_ids = refs, cred_metadata = metadata,
              cred_created_at = created, cred_updated_at = updated\<rparr>
        in bindE (save_to credential_records_coll c) (\<lambda>_.
           bindE (link (id_ref ''Application'' app) ''HAS_CREDENTIAL'' (id_ref ''CredentialRecord'' i)) (\<lambda>_.
           bindE (for_each (\<lambda>r. link (id_ref ''CredentialRecord'' i) ''USES_SECRET'' (id_ref ''SecretReference'' r)) refs) (\<lambda>_.
           ret c)))))))))"

fun secret_values ::
  "(string \<Rightarrow> 'b \<Rightarrow> exn + string) \<Rightarrow> bool \<Rightarrow> secret_reference list \<Rightarrow> 'b \<Rightarrow> exn + (string \<times> string) list" where
  "secret_values bget require_values [] b = Inr []"
| "secret_values bget require_values (r # rs) b =
     (case bget (secret_uri r) b of
        Inr v \<Rightarrow> rbind (secret_values bget require_values rs b) (\<lambda>vs. Inr ((secret_uri r, v) # vs))
      | Inl (SecretNotFoundError m) \<Rightarrow>
          if require_values then Inl (SecretNotFoundError m) else secret_values bget require_values rs b
      | Inl e \<Rightarrow> Inl e)"

definition allowed_secret_values ::
  "(string \<Rightarrow> 'b \<Rightarrow> exn + string) \<Rightarrow> string list \<Rightarrow> bool \<Rightarrow>
   (('b, 'z) secret_world_scheme, (string \<times> string) list) op" where
  "allowed_secret_values bget refs require_values =
     bindE (atomically (map_op (\<lambda>i. bindE (asks (coll_get secret_references_coll (key i))) (\<lambda>r.
        (case r of
           None \<Rightarrow> raise (KeyError (''unknown secret reference: '' @ i))
         | Some r \<Rightarrow> ret r))) refs)) (\<lambda>rs s.
     (secret_values bget require_values rs (backend s), s))"

section \<open>Laws of the service\<close>

lemma find_reference_iff:
  assumes "typed_graph g" and "wf_graph g"
  shows "find_reference_by_uri uri g = None \<longleftrightarrow>
    (\<forall>i r. coll_get secret_references_coll (key i) g = Some r \<longrightarrow> secret_uri r \<noteq> uri)"
proof -
  have v: "r \<in> set (coll_values secret_references_coll g) \<longleftrightarrow>
      coll_get secret_references_coll (key (secret_id r)) g = Some r" for r
    using secret_references.values_iff [OF assms, of r] by (simp add: secret_references_coll_def)
  have i: "coll_get secret_references_coll (key i) g = Some r \<Longrightarrow> secret_id r = i" for i r
    using secret_references.get_identity [OF assms(1), of "key i" r] by (simp add: secret_references_coll_def)
  show ?thesis
    unfolding find_reference_by_uri_def find_None_ball using v i by metis
qed

lemma get_save_reference:
  "coll_get secret_references_coll (key i) (coll_save secret_references_coll r g) =
     (if i = secret_id r then Some r else coll_get secret_references_coll (key i) g)"
proof -
  have "coll_identity secret_references_coll r = key (secret_id r)" by (simp add: secret_references_coll_def)
  then show ?thesis by (simp add: secret_references.get_save)
qed

lemma find_reference_get:
  assumes "typed_graph g" and "wf_graph g" and "find_reference_by_uri uri g = Some r"
  shows "coll_get secret_references_coll (key (secret_id r)) g = Some r" and "secret_uri r = uri"
proof -
  from assms(3) have r: "r \<in> set (coll_values secret_references_coll g)" "secret_uri r = uri"
    by (auto simp: find_reference_by_uri_def dest: find_SomeD)
  show "coll_get secret_references_coll (key (secret_id r)) g = Some r"
    using secret_references.values_iff [OF assms(1,2), of r] r(1) by (simp add: secret_references_coll_def)
  show "secret_uri r = uri" by (rule r(2))
qed

text \<open>At most one reference per URI.\<close>

definition unique_uris :: "node_value graph \<Rightarrow> bool" where
  "unique_uris g \<longleftrightarrow> typed_graph g \<and> wf_graph g \<and>
     (\<forall>i i' r r'. coll_get secret_references_coll (key i) g = Some r \<and>
        coll_get secret_references_coll (key i') g = Some r' \<and> secret_uri r = secret_uri r' \<longrightarrow> i = i')"

lemma create_reference_unique:
  assumes "unique_uris (svc_graph s)"
  shows "unique_uris (svc_graph (snd (create_reference kind app uri name description s)))"
proof (cases "find_reference_by_uri uri (svc_graph s)")
  case (Some r)
  with assms show ?thesis
    by (simp add: create_reference_def atomically_apply op_defs)
next
  case None
  let ?g = "svc_graph s"
  have new: "secret_uri r \<noteq> uri" if "coll_get secret_references_coll (key i) ?g = Some r" for i r
    using None find_reference_iff [of ?g uri] assms that by (auto simp: unique_uris_def)
  define r where "r = \<lparr>secret_id = svc_ids s (svc_drawn s), secret_application_id = app, secret_uri = uri,
    secret_backend = kind, secret_name = name, secret_description = description,
    secret_created_at = svc_clock s (svc_ticks s), secret_updated_at = svc_clock s (Suc (svc_ticks s))\<rparr>"
  have r: "secret_uri r = uri"
    "svc_graph (snd (create_reference kind app uri name description s)) =
       create_edge (id_ref ''Application'' app) ''HAS_SECRET_REFERENCE'' (id_ref ''SecretReference'' (secret_id r)) []
         (coll_save secret_references_coll r ?g)"
    using None by (simp_all add: create_reference_def atomically_apply op_defs Let_def r_def)
  have "unique_uris (coll_save secret_references_coll r ?g)"
    unfolding unique_uris_def get_save_reference
  proof (intro conjI allI impI)
    show "typed_graph (coll_save secret_references_coll r ?g)" "wf_graph (coll_save secret_references_coll r ?g)"
      using assms by (simp_all add: unique_uris_def secret_references.typed_save secret_references.wf_save)
    fix i i' a b
    assume h: "(if i = secret_id r then Some r else coll_get secret_references_coll (key i) ?g) = Some a \<and>
      (if i' = secret_id r then Some r else coll_get secret_references_coll (key i') ?g) = Some b \<and>
      secret_uri a = secret_uri b"
    show "i = i'"
    proof (cases "i = secret_id r"; cases "i' = secret_id r")
      assume "i = secret_id r" "i' \<noteq> secret_id r"
      with h new [of i' b] r(1) show ?thesis by simp
    next
      assume "i \<noteq> secret_id r" "i' = secret_id r"
      with h new [of i a] r(1) show ?thesis by simp
    next
      assume n: "i \<noteq> secret_id r" "i' \<noteq> secret_id r"
      with h have "coll_get secret_references_coll (key i) ?g = Some a" "coll_get secret_references_coll (key i') ?g = Some b"
        "secret_uri a = secret_uri b" by simp_all
      with assms show ?thesis unfolding unique_uris_def by blast
    qed simp
  qed
  then show ?thesis
    by (simp add: r(2) unique_uris_def wf_create_edge secret_references.get_create_edge)
qed

context value_backend
begin

text \<open>A secret that is set is read back, and no other secret of the backend changes.\<close>

lemma set_secret_get:
  assumes "typed_graph (svc_graph s)" and "wf_graph (svc_graph s)" and "good (backend s)"
    and "find_reference_by_uri uri (svc_graph s) = Some r"
  shows "\<exists>r' s' s''. set_secret bset uri v s = (Inr r', s') \<and> good (backend s') \<and>
    get_secret bget uri s' = (Inr v, s'') \<and> (\<forall>u. u \<noteq> uri \<longrightarrow> bget u (backend s') = bget u (backend s))"
proof -
  let ?g = "svc_graph s"
  note get = find_reference_get [OF assms(1,2,4)]
  obtain b' where b': "bset uri v (backend s) = (Inr (), b')" "good b'" "bget uri b' = Inr v"
    "\<forall>u. u \<noteq> uri \<longrightarrow> bget u b' = bget u (backend s)"
    using set_ok [OF assms(3), of uri v] by blast
  let ?r = "r\<lparr>secret_updated_at := svc_clock s (svc_ticks s)\<rparr>"
  let ?s = "s\<lparr>backend := b', svc_ticks := Suc (svc_ticks s), svc_graph := coll_save secret_references_coll ?r ?g\<rparr>"
  have set: "set_secret bset uri v s = (Inr ?r, ?s)"
    using assms(4) get(1) b'(1)
    by (simp add: set_secret_def require_reference_def touch_reference_def on_backend_def coll_item_def
        atomically_apply op_defs Let_def)
  have "typed_graph (svc_graph ?s)" "wf_graph (svc_graph ?s)"
    using assms(1,2) by (simp_all add: secret_references.typed_save secret_references.wf_save)
  moreover have "coll_get secret_references_coll (key (secret_id r)) (svc_graph ?s) = Some ?r" "secret_uri ?r = uri"
    using get(2) by (simp_all add: get_save_reference)
  ultimately have "find_reference_by_uri uri (svc_graph ?s) \<noteq> None"
    using find_reference_iff [of "svc_graph ?s" uri] by blast
  then obtain r2 where r2: "find_reference_by_uri uri (svc_graph ?s) = Some r2" by blast
  have "get_secret bget uri ?s = (Inr v, ?s)"
    using r2 b'(3) by (simp add: get_secret_def require_reference_def backend_get_def atomically_apply op_defs)
  with set b'(2,4) show ?thesis by auto
qed

text \<open>Only the owner sets a secret; a refused call changes nothing.\<close>

lemma set_reference_refused:
  assumes "coll_get secret_references_coll (key i) (svc_graph s) = Some r" and "secret_application_id r \<noteq> app"
  shows "set_secret_reference bset app i v s =
    (Inl (PermissionError ''SecretReference is not owned by the requested Application''), s)"
  using assms by (simp add: set_secret_reference_def owned_reference_def atomically_apply op_defs)

lemma set_reference_owner:
  assumes "coll_get secret_references_coll (key i) (svc_graph s) = Some r" and "secret_application_id r = app"
    and "typed_graph (svc_graph s)" and "good (backend s)"
  shows "\<exists>p s'. set_secret_reference bset app i v s = (Inr p, s') \<and> status_configured p \<and>
    bget (secret_uri r) (backend s') = Inr v \<and> (\<forall>u. u \<noteq> secret_uri r \<longrightarrow> bget u (backend s') = bget u (backend s))"
proof -
  have "secret_id r = i"
    using secret_references.get_identity [OF assms(3,1)] by (simp add: secret_references_coll_def)
  moreover obtain b' where "bset (secret_uri r) v (backend s) = (Inr (), b')" "bget (secret_uri r) b' = Inr v"
    "\<forall>u. u \<noteq> secret_uri r \<longrightarrow> bget u b' = bget u (backend s)"
    using set_ok [OF assms(4), of "secret_uri r" v] by blast
  ultimately show ?thesis
    using assms(1,2)
    by (simp add: set_secret_reference_def owned_reference_def touch_reference_def on_backend_def coll_item_def
        atomically_apply op_defs Let_def status_payload_def)
qed

end

end
