(* ===== verification/File_Delivery.thy ===== *)
theory File_Delivery
  imports Kernel_Hash
begin

text \<open>
  Confined paths (\<^verbatim>\<open>kernel/paths.py\<close>), the data scopes of \<^verbatim>\<open>RuntimePaths\<close>
  (\<^verbatim>\<open>runtime/actions.py\<close>) and signed file delivery (\<^verbatim>\<open>system/file_delivery.py\<close>). A path of the
  file system is the list of its segments; \<open>real\<close> is \<^verbatim>\<open>Path.resolve\<close> (symbolic links), \<open>is_file\<close>
  asks the file system, \<open>now\<close> is the time in seconds, \<open>sha\<close> the hexadecimal digest, and
  \<open>seal\<close>/\<open>unseal\<close> is Fernet on the JSON text of the payload (\<open>None\<close> for a token that is not
  authentic or not JSON).
\<close>

section \<open>Confined paths\<close>

fun split_on :: "char \<Rightarrow> string \<Rightarrow> string list" where
  "split_on d [] = [[]]"
| "split_on d (c # cs) =
     (if c = d then [] # split_on d cs
      else (case split_on d cs of w # ws \<Rightarrow> (c # w) # ws | [] \<Rightarrow> [[c]]))"

text \<open>\<^verbatim>\<open>PurePath(text).parts\<close> of a relative path: empty segments and dots are dropped.\<close>

definition pure_parts :: "string \<Rightarrow> string list" where
  "pure_parts s = filter (\<lambda>p. p \<noteq> [] \<and> p \<noteq> ''.'') (split_on CHR ''/'' s)"

type_synonym fs_path = "string list"

definition is_within :: "fs_path \<Rightarrow> fs_path \<Rightarrow> bool" where
  "is_within root p \<longleftrightarrow> take (length root) p = root"

definition path_error :: "string \<Rightarrow> exn" where
  "path_error m = ValueError m"

definition resolve_path_within ::
  "(fs_path \<Rightarrow> fs_path) \<Rightarrow> fs_path \<Rightarrow> string \<Rightarrow> bool \<Rightarrow> exn + fs_path" where
  "resolve_path_within real root p allow_root =
     (if p = [] then
        (if allow_root then Inr (real root) else Inl (path_error ''path must be a non-empty string''))
      else if CHR 0x00 \<in> set p \<or> CHR 0x5C \<in> set p
      then Inl (path_error ''path contains unsupported characters'')
      else if starts_with ''/'' p \<or> list_ex (\<lambda>part. part \<in> {[], ''.'', ''..''}) (pure_parts p)
      then Inl (path_error ''path must be a normalized relative path'')
      else (let r = real root; q = real (r @ pure_parts p) in
        if r \<noteq> q \<and> \<not> is_within r q then Inl (path_error ''path escapes its assigned root'')
        else Inr q))"

section \<open>Data scopes\<close>

definition data_scope_key :: "string \<Rightarrow> string \<Rightarrow> string" where
  "data_scope_key app space = (if space = ''production'' then app else app @ [CHR 0x1F] @ space)"

definition data_scope_id :: "(string \<Rightarrow> string) \<Rightarrow> string \<Rightarrow> exn + string" where
  "data_scope_id sha k =
     (if k = [] then Inl (ValueError ''data_scope_key must be a non-empty string'') else Inr (sha k))"

definition data_root ::
  "(string \<Rightarrow> string) \<Rightarrow> (fs_path \<Rightarrow> fs_path) \<Rightarrow> fs_path \<Rightarrow> string \<Rightarrow> exn + fs_path" where
  "data_root sha real base k =
     rbind (data_scope_id sha k) (\<lambda>seg. resolve_path_within real (base @ [''application-data'']) seg False)"

section \<open>Requests\<close>

datatype disposition = Inline | Attachment

record delivery_request =
  req_path :: string
  req_content_type :: string
  req_disposition :: disposition
  req_filename :: "string option"
  req_expires_in :: int

definition header_safe :: "string \<Rightarrow> bool" where
  "header_safe s \<longleftrightarrow> CHR 0x0D \<notin> set s \<and> CHR 0x0A \<notin> set s \<and> CHR 0x00 \<notin> set s"

text \<open>The constraints of \<^verbatim>\<open>FileDeliveryRequest\<close> on a parsed request.\<close>

definition request_ok :: "delivery_request \<Rightarrow> bool" where
  "request_ok r \<longleftrightarrow>
     1 \<le> length (req_path r) \<and> length (req_path r) \<le> 4096 \<and>
     1 \<le> length (req_content_type r) \<and> length (req_content_type r) \<le> 255 \<and> header_safe (req_content_type r) \<and>
     (case req_filename r of None \<Rightarrow> True
      | Some f \<Rightarrow> 1 \<le> length f \<and> length f \<le> 1024 \<and> header_safe f) \<and>
     1 \<le> req_expires_in r \<and> req_expires_in r \<le> 3600"

definition delivery_error :: "string \<Rightarrow> string \<Rightarrow> nat \<Rightarrow> exn" where
  "delivery_error code m status = FileDeliveryError code m status"

definition invalid_request :: exn where
  "invalid_request = delivery_error ''invalid_file_delivery''
     ''action returned an invalid file delivery descriptor'' 502"

definition invalid_token :: exn where
  "invalid_token = delivery_error ''invalid_file_delivery_token'' ''file delivery token is invalid'' 404"

section \<open>Tokens\<close>

record delivery_env =
  env_sha :: "string \<Rightarrow> string"
  env_real :: "fs_path \<Rightarrow> fs_path"
  env_is_file :: "fs_path \<Rightarrow> bool"
  env_base :: fs_path
  env_now :: int
  env_seal :: "(string, json) dict \<Rightarrow> string"
  env_unseal :: "string \<Rightarrow> json option"
  env_quote :: "string \<Rightarrow> string"
  env_stamp :: "int \<Rightarrow> string"

record scope =
  scope_application :: string
  scope_experience :: string
  scope_revision :: string
  scope_space :: string
  scope_deployment :: "string option"

definition contract_version :: string where
  "contract_version = ''n4x.file.delivery.v1''"

definition disposition_text :: "disposition \<Rightarrow> string" where
  "disposition_text d = (case d of Inline \<Rightarrow> ''inline'' | Attachment \<Rightarrow> ''attachment'')"

definition token_payload :: "string \<Rightarrow> scope \<Rightarrow> delivery_request \<Rightarrow> int \<Rightarrow> (string, json) dict" where
  "token_payload scope_id sc r expires =
     [(''version'', JStr contract_version), (''data_scope_id'', JStr scope_id),
      (''application_id'', JStr (scope_application sc)), (''data_space_id'', JStr (scope_space sc)),
      (''deployment_id'', json_opt (scope_deployment sc)), (''experience_id'', JStr (scope_experience sc)),
      (''experience_revision_id'', JStr (scope_revision sc)), (''path'', JStr (req_path r)),
      (''content_type'', JStr (req_content_type r)), (''disposition'', JStr (disposition_text (req_disposition r))),
      (''filename'', json_opt (req_filename r)), (''expires_at'', JInt expires)]"

definition confined :: "exn + 'a \<Rightarrow> exn \<Rightarrow> exn + 'a" where
  "confined r e = (case r of Inl _ \<Rightarrow> Inl e | Inr a \<Rightarrow> Inr a)"

definition issue :: "delivery_env \<Rightarrow> scope \<Rightarrow> delivery_request \<Rightarrow> exn + json" where
  "issue env sc r =
     (let k = data_scope_key (scope_application sc) (scope_space sc) in
      rbind (data_root (env_sha env) (env_real env) (env_base env) k) (\<lambda>root.
      rbind (confined (resolve_path_within (env_real env) root (req_path r) False)
        (delivery_error ''invalid_file_delivery'' ''action requested an invalid file delivery path'' 502)) (\<lambda>p.
      if \<not> env_is_file env p
      then Inl (delivery_error ''invalid_file_delivery'' ''action requested delivery of a missing file'' 502)
      else rbind (data_scope_id (env_sha env) k) (\<lambda>sid.
        (let expires = env_now env + req_expires_in r;
             token = env_seal env (token_payload sid sc r expires);
             url = (case scope_deployment sc of
               None \<Rightarrow> ''/api/experiences/'' @ env_quote env (scope_experience sc) @ ''/apps/'' @
                 env_quote env (scope_application sc) @ ''/files/'' @ token
             | Some d \<Rightarrow> ''/api/development/'' @ env_quote env d @ ''/apps/'' @
                 env_quote env (scope_application sc) @ ''/files/'' @ token)
         in Inr (JObj [(''url'', JStr url), (''content_type'', JStr (req_content_type r)),
              (''disposition'', JStr (disposition_text (req_disposition r))),
              (''filename'', json_opt (req_filename r)), (''expires_at'', JStr (env_stamp env expires))]))))))"

fun issue_all :: "delivery_env \<Rightarrow> scope \<Rightarrow> delivery_request list \<Rightarrow> exn + json list" where
  "issue_all env sc [] = Inr []"
| "issue_all env sc (r # rs) = rbind (issue env sc r) (\<lambda>j. rbind (issue_all env sc rs) (\<lambda>js. Inr (j # js)))"

fun parse_requests ::
  "(json \<Rightarrow> delivery_request option) \<Rightarrow> json list \<Rightarrow> exn + delivery_request list" where
  "parse_requests parse [] = Inr []"
| "parse_requests parse (j # js) =
     (case parse j of
        None \<Rightarrow> Inl invalid_request
      | Some r \<Rightarrow>
          if request_ok r then rbind (parse_requests parse js) (\<lambda>rs. Inr (r # rs)) else Inl invalid_request)"

text \<open>\<open>parse\<close> is the shape check of the request model; its constraints are \<open>request_ok\<close>.\<close>

definition prepare_output ::
  "delivery_env \<Rightarrow> (json \<Rightarrow> delivery_request option) \<Rightarrow> scope \<Rightarrow> json \<Rightarrow> exn + json" where
  "prepare_output env parse sc output =
     (case output of
        JObj kvs \<Rightarrow>
          (case dict_get kvs ''_n4x'' of
             None \<Rightarrow> Inr output
           | Some envelope \<Rightarrow>
               if dict_get kvs ''file_deliveries'' \<noteq> None then Inl invalid_request
               else (case envelope of
                   JObj [(k, JArr items)] \<Rightarrow>
                     if k \<noteq> ''file_deliveries'' then Inl invalid_request
                     else rbind (parse_requests parse items) (\<lambda>rs.
                       if rs = [] then Inr (JObj (dict_pop ''_n4x'' kvs))
                       else rbind (issue_all env sc rs) (\<lambda>js.
                         Inr (JObj (dict_set ''file_deliveries'' (JArr js) (dict_pop ''_n4x'' kvs)))))
                 | _ \<Rightarrow> Inl invalid_request))
      | _ \<Rightarrow> Inr output)"

definition strip_delivery_fields :: "json \<Rightarrow> json" where
  "strip_delivery_fields output =
     (case output of
        JObj kvs \<Rightarrow> JObj (dict_pop ''file_deliveries'' (dict_pop ''_n4x'' kvs))
      | _ \<Rightarrow> output)"

section \<open>Resolving a token\<close>

record delivery_payload =
  pay_scope_id :: string
  pay_application :: string
  pay_experience :: string
  pay_revision :: string
  pay_space :: json
  pay_deployment :: json
  pay_path :: string
  pay_content_type :: string
  pay_disposition :: string
  pay_filename :: "string option option"
  pay_expires_at :: int

definition json_string :: "json option \<Rightarrow> string option" where
  "json_string j = (case j of Some (JStr s) \<Rightarrow> Some s | _ \<Rightarrow> None)"

text \<open>A Boolean is an integer for \<^verbatim>\<open>isinstance\<close>.\<close>

definition json_integer :: "json option \<Rightarrow> int option" where
  "json_integer j = (case j of Some (JInt n) \<Rightarrow> Some n | Some (JBool b) \<Rightarrow> Some (if b then 1 else 0) | _ \<Rightarrow> None)"

definition decode_token :: "delivery_env \<Rightarrow> string \<Rightarrow> exn + delivery_payload" where
  "decode_token env token =
     (if length token > 16384 then Inl invalid_token
      else (case env_unseal env token of
          Some (JObj p) \<Rightarrow>
            (let str = (\<lambda>k. json_string (dict_get p k)) in
             (case (str ''version'', str ''data_scope_id'', str ''application_id'', str ''experience_id'',
                    str ''experience_revision_id'', str ''path'', str ''content_type'', str ''disposition'',
                    json_integer (dict_get p ''expires_at'')) of
                (Some v, Some sid, Some app, Some ex, Some rid, Some path, Some ct, Some disp, Some expires) \<Rightarrow>
                  if v \<noteq> contract_version \<or> disp \<notin> {''inline'', ''attachment''} \<or>
                     \<not> (case dict_get p ''filename'' of None \<Rightarrow> True | Some JNull \<Rightarrow> True | Some (JStr _) \<Rightarrow> True
                        | _ \<Rightarrow> False)
                  then Inl invalid_token
                  else Inr \<lparr>pay_scope_id = sid, pay_application = app, pay_experience = ex, pay_revision = rid,
                     pay_space = (case dict_get p ''data_space_id'' of None \<Rightarrow> JStr ''production'' | Some j \<Rightarrow> j),
                     pay_deployment = (case dict_get p ''deployment_id'' of None \<Rightarrow> JNull | Some j \<Rightarrow> j),
                     pay_path = path, pay_content_type = ct, pay_disposition = disp,
                     pay_filename = map_option (\<lambda>j. json_string (Some j)) (dict_get p ''filename''),
                     pay_expires_at = expires\<rparr>
              | _ \<Rightarrow> Inl invalid_token))
        | _ \<Rightarrow> Inl invalid_token))"

record delivered_file =
  deliv_path :: fs_path
  deliv_content_type :: string
  deliv_disposition :: string
  deliv_filename :: "string option"

definition resolve_token :: "delivery_env \<Rightarrow> scope \<Rightarrow> string \<Rightarrow> exn + delivered_file" where
  "resolve_token env sc token =
     rbind (decode_token env token) (\<lambda>p.
     if pay_expires_at p < env_now env
     then Inl (delivery_error ''file_delivery_expired'' ''file delivery has expired'' 410)
     else (let k = data_scope_key (scope_application sc) (scope_space sc) in
       rbind (data_scope_id (env_sha env) k) (\<lambda>sid.
       if pay_application p \<noteq> scope_application sc \<or> pay_experience p \<noteq> scope_experience sc \<or>
          pay_revision p \<noteq> scope_revision sc \<or> pay_scope_id p \<noteq> sid \<or>
          pay_space p \<noteq> JStr (scope_space sc) \<or> pay_deployment p \<noteq> json_opt (scope_deployment sc)
       then Inl (delivery_error ''file_delivery_scope_mismatch'' ''file delivery is not valid for this scope'' 403)
       else rbind (data_root (env_sha env) (env_real env) (env_base env) k) (\<lambda>root.
         rbind (confined (resolve_path_within (env_real env) root (pay_path p) False)
           (delivery_error ''invalid_file_delivery'' ''file delivery path is invalid'' 400)) (\<lambda>path.
         if \<not> env_is_file env path
         then Inl (delivery_error ''file_delivery_not_found'' ''delivered file was not found'' 404)
         else (case pay_filename p of
             None \<Rightarrow> Inl (KeyError ''filename'')
           | Some name \<Rightarrow> Inr \<lparr>deliv_path = path, deliv_content_type = pay_content_type p,
               deliv_disposition = pay_disposition p, deliv_filename = name\<rparr>))))))"

section \<open>Laws\<close>

lemma resolve_within:
  assumes "resolve_path_within real root p False = Inr q"
  shows "is_within (real root) q"
  using assms by (auto simp: resolve_path_within_def Let_def is_within_def split: if_splits)

lemma resolve_no_parent:
  assumes "resolve_path_within real root p False = Inr q"
  shows "''..'' \<notin> set (pure_parts p)"
  using assms by (auto simp: resolve_path_within_def list_ex_iff split: if_splits)

text \<open>Two data scopes never share a directory key, for ids without the separator.\<close>

lemma append_sep_inject:
  "x \<notin> set a \<Longrightarrow> x \<notin> set b \<Longrightarrow> a @ x # c = b @ x # d \<longleftrightarrow> a = b \<and> c = d"
proof (induction a arbitrary: b)
  case Nil
  then show ?case by (cases b) auto
next
  case (Cons y a)
  then show ?case by (cases b) auto
qed

lemma data_scope_key_inject:
  assumes "CHR 0x1F \<notin> set app" and "CHR 0x1F \<notin> set app'"
    and "data_scope_key app space = data_scope_key app' space'"
  shows "app = app' \<and> space = space'"
proof -
  have "CHR 0x1F \<in> set (data_scope_key a s) \<longleftrightarrow> s \<noteq> ''production''" if "CHR 0x1F \<notin> set a" for a s
    using that by (auto simp: data_scope_key_def)
  from this [OF assms(1), of space] this [OF assms(2), of space'] assms(3)
  have "space = ''production'' \<longleftrightarrow> space' = ''production''" by simp
  then show ?thesis
    using assms(3) append_sep_inject [OF assms(1,2), of space space']
    by (cases "space = ''production''") (simp_all add: data_scope_key_def)
qed

text \<open>What is delivered lies in the data root of the scope the caller asks for.\<close>

lemma resolve_token_confined:
  assumes "resolve_token env sc token = Inr f"
  shows "\<exists>root. data_root (env_sha env) (env_real env) (env_base env)
      (data_scope_key (scope_application sc) (scope_space sc)) = Inr root \<and>
    is_within (env_real env root) (deliv_path f) \<and> env_is_file env (deliv_path f)"
  using assms resolve_within
  by (fastforce simp: resolve_token_def rbind_eq_Inr confined_def Let_def split: if_splits sum.splits option.splits)

text \<open>
  A token resolves in the scope it was issued for, until it expires. The text that is sealed has
  its keys sorted, so unsealing gives a payload with the same entries.
\<close>

definition seals :: "delivery_env \<Rightarrow> (string, json) dict \<Rightarrow> bool" where
  "seals env p \<longleftrightarrow> (\<exists>q. env_unseal env (env_seal env p) = Some (JObj q) \<and> (\<forall>k. dict_get q k = dict_get p k))"

lemma decode_issued:
  assumes "seals env (token_payload sid sc r expires)"
    and "length (env_seal env (token_payload sid sc r expires)) \<le> 16384"
  shows "decode_token env (env_seal env (token_payload sid sc r expires)) = Inr
    \<lparr>pay_scope_id = sid, pay_application = scope_application sc, pay_experience = scope_experience sc,
     pay_revision = scope_revision sc, pay_space = JStr (scope_space sc), pay_deployment = json_opt (scope_deployment sc),
     pay_path = req_path r, pay_content_type = req_content_type r,
     pay_disposition = disposition_text (req_disposition r), pay_filename = Some (req_filename r), pay_expires_at = expires\<rparr>"
proof -
  from assms(1) obtain q where "env_unseal env (env_seal env (token_payload sid sc r expires)) = Some (JObj q)"
    "\<And>k. dict_get q k = dict_get (token_payload sid sc r expires) k" unfolding seals_def by blast
  then show ?thesis using assms(2)
    by (simp add: decode_token_def token_payload_def json_string_def json_integer_def json_opt_def disposition_text_def
        split: option.splits disposition.splits)
qed

lemma issue_cases:
  assumes "issue env sc r = Inr j"
  obtains root p sid where
    "data_root (env_sha env) (env_real env) (env_base env)
       (data_scope_key (scope_application sc) (scope_space sc)) = Inr root"
    and "resolve_path_within (env_real env) root (req_path r) False = Inr p"
    and "env_is_file env p"
    and "data_scope_id (env_sha env) (data_scope_key (scope_application sc) (scope_space sc)) = Inr sid"
    and "\<exists>u. j = JObj ((''url'', JStr (u @ env_seal env (token_payload sid sc r (env_now env + req_expires_in r)))) #
           [(''content_type'', JStr (req_content_type r)),
            (''disposition'', JStr (disposition_text (req_disposition r))),
            (''filename'', json_opt (req_filename r)),
            (''expires_at'', JStr (env_stamp env (env_now env + req_expires_in r)))])"
proof -
  from assms obtain root p sid where
    *: "data_root (env_sha env) (env_real env) (env_base env)
       (data_scope_key (scope_application sc) (scope_space sc)) = Inr root"
      "confined (resolve_path_within (env_real env) root (req_path r) False)
        (delivery_error ''invalid_file_delivery'' ''action requested an invalid file delivery path'' 502) = Inr p"
      "env_is_file env p"
      "data_scope_id (env_sha env) (data_scope_key (scope_application sc) (scope_space sc)) = Inr sid"
    by (auto simp: issue_def Let_def rbind_eq_Inr split: if_splits)
  from *(2) have p: "resolve_path_within (env_real env) root (req_path r) False = Inr p"
    by (simp add: confined_def split: sum.splits)
  show thesis
    by (rule that [OF *(1) p *(3,4)])
      (use assms * in \<open>cases "scope_deployment sc"; auto simp: issue_def Let_def rbind_eq_Inr\<close>)
qed

text \<open>Until it expires, an issued token delivers the requested file in its own scope.\<close>

lemma resolve_issued:
  assumes seals: "seals env (token_payload sid sc r expires)"
    and short: "length (env_seal env (token_payload sid sc r expires)) \<le> 16384"
    and sid: "data_scope_id (env_sha env) (data_scope_key (scope_application sc) (scope_space sc)) = Inr sid"
    and root: "data_root (env_sha env) (env_real env) (env_base env)
       (data_scope_key (scope_application sc) (scope_space sc)) = Inr root"
    and path: "resolve_path_within (env_real env) root (req_path r) False = Inr p"
    and present: "env_is_file env p" and time: "env_now env \<le> expires"
  shows "resolve_token env sc (env_seal env (token_payload sid sc r expires)) =
    Inr \<lparr>deliv_path = p, deliv_content_type = req_content_type r,
      deliv_disposition = disposition_text (req_disposition r), deliv_filename = req_filename r\<rparr>"
  using decode_issued [OF seals short] sid root path present time
  by (simp add: resolve_token_def Let_def confined_def)

text \<open>Presented in another scope it is refused, whatever the file system holds.\<close>

lemma resolve_foreign:
  assumes seals: "seals env (token_payload sid sc r expires)"
    and short: "length (env_seal env (token_payload sid sc r expires)) \<le> 16384"
    and other: "sc' \<noteq> sc"
  shows "\<exists>e. resolve_token env sc' (env_seal env (token_payload sid sc r expires)) = Inl e"
proof -
  have "scope_application sc \<noteq> scope_application sc' \<or> scope_experience sc \<noteq> scope_experience sc' \<or>
     scope_revision sc \<noteq> scope_revision sc' \<or> scope_space sc \<noteq> scope_space sc' \<or>
     scope_deployment sc \<noteq> scope_deployment sc'"
    using other by (metis scope.equality old.unit.exhaust)
  then show ?thesis
    using decode_issued [OF seals short]
    by (cases "data_scope_id (env_sha env) (data_scope_key (scope_application sc') (scope_space sc'))")
      (auto simp: resolve_token_def Let_def json_opt_def split: option.splits)
qed

end
