(* ===== verification/System_Definitions.thy ===== *)
theory System_Definitions
  imports Repositories Source_Store
begin

text \<open>
  What a draft declares: the draft policy (\<^verbatim>\<open>system/drafts.py\<close>), object and relation types
  (\<^verbatim>\<open>system/schema.py\<close>), actions, triggers and test cases (\<^verbatim>\<open>system/definitions.py\<close>), and the
  relations between objects (\<^verbatim>\<open>system/relations.py\<close>, \<^verbatim>\<open>system/objects.py\<close>). A declaration is
  interned: its node is named by the hash of its canonical JSON, and the draft is bound to it by an
  edge. Absent optional arguments are the values the code replaces them by. \<open>sha\<close> is the hexadecimal
  digest and \<open>cron_ok\<close> says whether the cron library accepts a text.
\<close>

section \<open>Drafts\<close>

definition revision_status_text :: "revision_status \<Rightarrow> string" where
  "revision_status_text st = (case st of Rev_draft \<Rightarrow> ''draft'' | Rev_validating \<Rightarrow> ''validating''
     | Rev_active \<Rightarrow> ''active'' | Rev_rejected \<Rightarrow> ''rejected'' | Rev_superseded \<Rightarrow> ''superseded'')"

definition require_application :: "string \<Rightarrow> ('z svc_scheme, application_revision) op" where
  "require_application rid =
     bindE (item_of revisions_coll (key rid)) (\<lambda>r.
     if rev_status r \<noteq> Rev_draft
     then raise (ImmutableRevisionError
       (''operation requires a draft revision, got '' @ revision_status_text (rev_status r)))
     else ret r)"

definition require_experience :: "string \<Rightarrow> ('z svc_scheme, experience_revision) op" where
  "require_experience rid =
     bindE (item_of experience_revisions_coll (key rid)) (\<lambda>r.
     if exprev_status r \<noteq> Rev_draft
     then raise (ValueError (''ExperienceRevision '' @ rid @ '' is not draft''))
     else ret r)"

section \<open>Interned declarations\<close>

text \<open>The record stored under an id, or a new one, which is saved.\<close>

definition interned_record ::
  "'m collection \<Rightarrow> string \<Rightarrow> (int \<Rightarrow> 'm) \<Rightarrow> ('z svc_scheme, 'm) op" where
  "interned_record c i new =
     bindE (asks (coll_get c (key i))) (\<lambda>x.
       (case x of
          Some m \<Rightarrow> ret m
        | None \<Rightarrow> bindE now_utc (\<lambda>t. bindE (save_to c (new t)) (\<lambda>_. ret (new t)))))"

text \<open>The stable record of a definition, or a new one; saved in both cases.\<close>

definition stable_record ::
  "'m collection \<Rightarrow> string \<Rightarrow> ('z svc_scheme, 'm) op \<Rightarrow> ('z svc_scheme, 'm) op" where
  "stable_record c i new =
     bindE (asks (coll_get c (key i))) (\<lambda>x.
     bindE (case x of Some m \<Rightarrow> ret m | None \<Rightarrow> new) (\<lambda>m.
     bindE (save_to c m) (\<lambda>_. ret m)))"

definition link_definition ::
  "string \<Rightarrow> string \<Rightarrow> string \<Rightarrow> string \<Rightarrow> string \<Rightarrow> string \<Rightarrow> ('z svc_scheme, unit) op" where
  "link_definition owner ownership_edge stable_label sid rev_label rid =
     bindE (link (id_ref ''Application'' owner) ownership_edge (id_ref stable_label sid)) (\<lambda>_.
     link (id_ref stable_label sid) ''HAS_REVISION'' (id_ref rev_label rid))"

text \<open>The draft is bound to the revision instead of the one it is bound to for the same name.\<close>

definition rebind ::
  "string \<Rightarrow> string \<Rightarrow> 'm collection \<Rightarrow> ('m \<Rightarrow> string) \<Rightarrow> ('m \<Rightarrow> string) \<Rightarrow> string \<Rightarrow> string \<Rightarrow> string \<Rightarrow>
   ('z svc_scheme, unit) op" where
  "rebind rid etype c id_field name_field name next_id label =
     bindE (reads (named rid etype c name_field name)) (\<lambda>current.
     store_op (replace_named rid etype (map_option id_field current) next_id label))"

section \<open>Object and relation types\<close>

definition object_type_payload :: "string \<Rightarrow> string \<Rightarrow> (string, json) dict \<Rightarrow> string list \<Rightarrow> json" where
  "object_type_payload otid name properties required =
     JObj [(''object_type_id'', JStr otid), (''name'', JStr name),
           (''properties'', JObj properties), (''required'', JArr (map JStr required))]"

definition create_object_type ::
  "(string \<Rightarrow> string) \<Rightarrow> string \<Rightarrow> string \<Rightarrow> string \<Rightarrow> (string, json) dict \<Rightarrow> string list \<Rightarrow>
   ('z svc_scheme, object_type_revision) op" where
  "create_object_type sha rid otid name properties required = atomically
     (bindE (require_application rid) (\<lambda>draft.
      (let i = intern_id sha (object_type_payload otid name properties required) in
      bindE (interned_record object_type_revisions_coll i (\<lambda>t.
         \<lparr>otrev_id = i, otrev_object_type_id = otid, otrev_name = name, otrev_properties = properties,
          otrev_required = required, otrev_created_at = t, otrev_content_hash = i\<rparr>)) (\<lambda>r.
      bindE (stable_record object_types_coll otid (bindE now_utc (\<lambda>t. ret
         \<lparr>otype_id = otid, otype_application_id = rev_application_id draft,
          otype_active_revision_id = None, otype_created_at = t\<rparr>))) (\<lambda>st.
      bindE (link_definition (rev_application_id draft) ''DEFINES_OBJECT_TYPE'' ''ObjectType'' (otype_id st)
         ''ObjectTypeRevision'' (otrev_id r)) (\<lambda>_.
      bindE (rebind (rev_id draft) ''HAS_OBJECT_TYPE_REVISION'' object_type_revisions_coll
         otrev_id otrev_object_type_id otid (otrev_id r) ''ObjectTypeRevision'') (\<lambda>_.
      ret r)))))))"

text \<open>
  \<^verbatim>\<open>relation_physical_type\<close>: runs of characters other than ASCII letters and digits become one
  underscore, outer underscores go, letters are raised, and a digest keeps the name unique.
\<close>

definition is_ascii_alnum :: "char \<Rightarrow> bool" where
  "is_ascii_alnum c \<longleftrightarrow> (let n = (of_char c :: nat) in
     48 \<le> n \<and> n \<le> 57 \<or> 65 \<le> n \<and> n \<le> 90 \<or> 97 \<le> n \<and> n \<le> 122)"

fun collapse_runs :: "bool \<Rightarrow> string \<Rightarrow> string" where
  "collapse_runs inside [] = []"
| "collapse_runs inside (c # cs) =
     (if is_ascii_alnum c then c # collapse_runs False cs
      else if inside then collapse_runs True cs
      else CHR ''_'' # collapse_runs True cs)"

definition strip_underscores :: "string \<Rightarrow> string" where
  "strip_underscores s =
     rev (dropWhile (\<lambda>c. c = CHR ''_'') (rev (dropWhile (\<lambda>c. c = CHR ''_'') s)))"

definition upper_char :: "char \<Rightarrow> char" where
  "upper_char c = (let n = (of_char c :: nat) in if 97 \<le> n \<and> n \<le> 122 then char_of (n - 32) else c)"

definition relation_physical_type :: "(string \<Rightarrow> string) \<Rightarrow> string \<Rightarrow> string" where
  "relation_physical_type sha i =
     (let s = map upper_char (strip_underscores (collapse_runs False i));
          sanitized = (if s = [] then ''RELATION'' else s)
      in ''APP_REL_'' @ sanitized @ ''_'' @ map upper_char (take 8 (sha i)))"

definition relation_type_payload ::
  "string \<Rightarrow> string \<Rightarrow> string \<Rightarrow> string \<Rightarrow> string \<Rightarrow> (string, json) dict \<Rightarrow> json" where
  "relation_type_payload rtid name from_type to_type physical properties =
     JObj [(''relation_type_id'', JStr rtid), (''name'', JStr name), (''from_object_type_id'', JStr from_type),
           (''to_object_type_id'', JStr to_type), (''physical_type'', JStr physical),
           (''properties'', JObj properties)]"

definition point_to :: "node_ref \<Rightarrow> string \<Rightarrow> node_ref \<Rightarrow> ('z svc_scheme, unit) op" where
  "point_to f t to = store_op (replace_single_edge f t to [] None False)"

definition create_relation_type ::
  "(string \<Rightarrow> string) \<Rightarrow> string \<Rightarrow> string \<Rightarrow> string \<Rightarrow> string \<Rightarrow> string \<Rightarrow> (string, json) dict \<Rightarrow>
   ('z svc_scheme, relation_type_revision) op" where
  "create_relation_type sha rid rtid name from_type to_type properties = atomically
     (bindE (require_application rid) (\<lambda>draft.
      (let physical = relation_physical_type sha rtid;
           i = intern_id sha (relation_type_payload rtid name from_type to_type physical properties) in
      bindE (interned_record relation_type_revisions_coll i (\<lambda>t.
         \<lparr>rtrev_id = i, rtrev_relation_type_id = rtid, rtrev_name = name,
          rtrev_from_object_type_id = from_type, rtrev_to_object_type_id = to_type,
          rtrev_physical_type = physical, rtrev_properties = properties, rtrev_created_at = t,
          rtrev_content_hash = i\<rparr>)) (\<lambda>r.
      bindE (stable_record relation_types_coll rtid (bindE now_utc (\<lambda>t. ret
         \<lparr>rtype_id = rtid, rtype_application_id = rev_application_id draft,
          rtype_active_revision_id = None, rtype_created_at = t\<rparr>))) (\<lambda>st.
      bindE (link_definition (rev_application_id draft) ''DEFINES_RELATION_TYPE'' ''RelationType'' (rtype_id st)
         ''RelationTypeRevision'' (rtrev_id r)) (\<lambda>_.
      bindE (point_to (id_ref ''RelationTypeRevision'' (rtrev_id r)) ''FROM_TYPE'' (id_ref ''ObjectType'' from_type)) (\<lambda>_.
      bindE (point_to (id_ref ''RelationTypeRevision'' (rtrev_id r)) ''TO_TYPE'' (id_ref ''ObjectType'' to_type)) (\<lambda>_.
      bindE (rebind (rev_id draft) ''HAS_RELATION_TYPE_REVISION'' relation_type_revisions_coll
         rtrev_id rtrev_relation_type_id rtid (rtrev_id r) ''RelationTypeRevision'') (\<lambda>_.
      ret r)))))))))"

definition active_or_latest_relation_revision ::
  "string \<Rightarrow> string \<Rightarrow> node_value graph \<Rightarrow> exn + relation_type_revision" where
  "active_or_latest_relation_revision app rtid g =
     rbind (coll_item relation_types_coll (key rtid) g) (\<lambda>st.
     if rtype_application_id st \<noteq> app then Inl (ValueError ''relation type belongs to a different application'')
     else (case rtype_active_revision_id st of
         Some i \<Rightarrow> coll_item relation_type_revisions_coll (key i) g
       | None \<Rightarrow> rbind (coll_item applications_coll (key app) g) (\<lambda>a.
           rbind (case app_active_revision_id a of
               None \<Rightarrow> Inr []
             | Some rid \<Rightarrow> rbind (relation_type_revisions rid g) (\<lambda>items.
                 Inr (filter (\<lambda>m. rtrev_relation_type_id m = rtid) items))) (\<lambda>matches.
           case matches of
             m # _ \<Rightarrow> Inr m
           | [] \<Rightarrow> (case sort_key rtrev_created_at
                  (filter (\<lambda>m. rtrev_relation_type_id m = rtid) (coll_values relation_type_revisions_coll g)) of
                [] \<Rightarrow> Inl (KeyError rtid)
              | cs \<Rightarrow> Inr (last cs))))))"

section \<open>Actions\<close>

definition action_kind_text :: "action_kind \<Rightarrow> string" where
  "action_kind_text k = (case k of Act_normal \<Rightarrow> ''normal'' | Act_migration \<Rightarrow> ''migration''
     | Act_test_helper \<Rightarrow> ''test_helper'')"

definition action_kind_of_text :: "string \<Rightarrow> action_kind option" where
  "action_kind_of_text s = find (\<lambda>k. action_kind_text k = s) [Act_normal, Act_migration, Act_test_helper]"

definition concurrency_text :: "action_concurrency_policy \<Rightarrow> string" where
  "concurrency_text p = (case p of Conc_default \<Rightarrow> ''default'' | Conc_reject_if_running \<Rightarrow> ''reject_if_running'')"

text \<open>The arguments of \<^verbatim>\<open>create_action\<close> but the draft and the creator.\<close>

record action_request =
  areq_action_id :: string
  areq_kind :: string
  areq_entrypoint :: string
  areq_source_paths :: "string list"
  areq_input_schema :: "(string, json) dict"
  areq_output_schema :: "(string, json) dict"
  areq_dependency_ids :: "string list"
  areq_secret_ref_ids :: "string list"
  areq_callback_refs :: "string list"
  areq_capabilities :: "string list"
  areq_timeout_seconds :: int
  areq_concurrency_policy :: action_concurrency_policy
  areq_retry_policy :: "(string, json) dict"
  areq_idempotency_key_policy :: "string option"
  areq_migration_metadata :: "(string, json) dict"

definition action_declaration :: "action_request \<Rightarrow> json" where
  "action_declaration q =
     JObj [(''action_id'', JStr (areq_action_id q)), (''kind'', JStr (areq_kind q)),
           (''entrypoint'', JStr (areq_entrypoint q)),
           (''source_paths'', JArr (map JStr (areq_source_paths q))),
           (''input_schema'', JObj (areq_input_schema q)), (''output_schema'', JObj (areq_output_schema q)),
           (''runtime_dependency_ids'', JArr (map JStr (areq_dependency_ids q))),
           (''secret_refs'', JArr (map JStr (areq_secret_ref_ids q))),
           (''callback_refs'', JArr (map JStr (areq_callback_refs q))),
           (''declared_capabilities'', JArr (map JStr (areq_capabilities q))),
           (''timeout_seconds'', JInt (areq_timeout_seconds q)),
           (''concurrency_policy'', JStr (concurrency_text (areq_concurrency_policy q))),
           (''retry_policy'', JObj (areq_retry_policy q)),
           (''idempotency_key_policy'', json_opt (areq_idempotency_key_policy q)),
           (''migration_metadata'', JObj (areq_migration_metadata q))]"

definition new_action_revision :: "action_request \<Rightarrow> action_kind \<Rightarrow> string \<Rightarrow> string \<Rightarrow> int \<Rightarrow> action_revision" where
  "new_action_revision q kind i created_by t =
     \<lparr>actrev_id = i, actrev_action_id = areq_action_id q, actrev_kind = kind,
      actrev_entrypoint = areq_entrypoint q, actrev_source_paths = areq_source_paths q,
      actrev_input_schema = areq_input_schema q, actrev_output_schema = areq_output_schema q,
      actrev_runtime_dependency_ids = areq_dependency_ids q, actrev_secret_refs = areq_secret_ref_ids q,
      actrev_callback_refs = areq_callback_refs q, actrev_declared_capabilities = areq_capabilities q,
      actrev_timeout_seconds = areq_timeout_seconds q, actrev_concurrency_policy = areq_concurrency_policy q,
      actrev_retry_policy = areq_retry_policy q, actrev_idempotency_key_policy = areq_idempotency_key_policy q,
      actrev_migration_metadata = areq_migration_metadata q, actrev_created_at = t,
      actrev_created_by = created_by, actrev_content_hash = i\<rparr>"

text \<open>Edges to the targets that had none when the loop began; a repeated target only merges.\<close>

definition ensure_edges :: "node_ref \<Rightarrow> string \<Rightarrow> string \<Rightarrow> string list \<Rightarrow> ('z svc_scheme, unit) op" where
  "ensure_edges f t label targets =
     bindE (asks (\<lambda>g. map (\<lambda>e. ref_id (edge_to e)) (list_edges (Some f) (Some t) None g))) (\<lambda>existing.
     for_each (\<lambda>i. if i \<in> set existing then ret () else link f t (id_ref label i)) targets)"

definition ensure_action_edges :: "string \<Rightarrow> action \<Rightarrow> action_revision \<Rightarrow> ('z svc_scheme, unit) op" where
  "ensure_action_edges app a r =
     bindE (link_definition app ''DEFINES_ACTION'' ''Action'' (act_id a) ''ActionRevision'' (actrev_id r)) (\<lambda>_.
     bindE (ensure_edges (id_ref ''ActionRevision'' (actrev_id r)) ''DEPENDS_ON'' ''RuntimeDependency''
        (actrev_runtime_dependency_ids r)) (\<lambda>_.
     ensure_edges (id_ref ''ActionRevision'' (actrev_id r)) ''USES_SECRET'' ''SecretReference''
        (actrev_secret_refs r)))"

definition relink_action_revision :: "string \<Rightarrow> action \<Rightarrow> action_revision \<Rightarrow> ('z svc_scheme, unit) op" where
  "relink_action_revision app a r = ensure_action_edges app a r"

text \<open>The checks \<^verbatim>\<open>create_action\<close> makes before it writes.\<close>

definition action_request_checked :: "string \<Rightarrow> action_request \<Rightarrow> ('z svc_scheme, application_revision \<times> action_kind) op" where
  "action_request_checked rid q =
     bindE (require_application rid) (\<lambda>draft.
     case action_kind_of_text (areq_kind q) of
       None \<Rightarrow> raise (ValidationFailure (''invalid action kind: '' @ areq_kind q))
     | Some kind \<Rightarrow>
         bindE (for_each (\<lambda>i. bindE (asks (coll_get secret_references_coll (key i))) (\<lambda>x.
            require (x \<noteq> None) (ValidationFailure (''unknown secret reference: '' @ i)))) (areq_secret_ref_ids q)) (\<lambda>_.
         bindE (reads (dependencies (rev_id draft))) (\<lambda>declared.
         bindE (for_each (\<lambda>i. bindE (item_of runtime_dependencies_coll (key i)) (\<lambda>d.
            require (dep_id d \<in> set (map dep_id declared) \<and> dep_ecosystem d = Dep_python)
              (ValueError ''Action dependencies must be Python dependencies declared by the same ApplicationRevision'')))
            (areq_dependency_ids q)) (\<lambda>_.
         bindE (reads (tree (rev_id draft))) (\<lambda>t.
         bindE (for_each (\<lambda>p. bindE (reads (read_source_file (tree_id t) p)) (\<lambda>_. ret ())) (areq_source_paths q)) (\<lambda>_.
         ret (draft, kind)))))))"

definition create_action ::
  "(string \<Rightarrow> string) \<Rightarrow> string \<Rightarrow> action_request \<Rightarrow> string \<Rightarrow> ('z svc_scheme, action_revision) op" where
  "create_action sha rid q created_by = atomically
     (bindE (action_request_checked rid q) (\<lambda>(draft, kind).
      (let i = intern_id sha (action_declaration q) in
      bindE (interned_record action_revisions_coll i (new_action_revision q kind i created_by)) (\<lambda>r.
      bindE (stable_record actions_coll (areq_action_id q) (ret
         \<lparr>act_id = areq_action_id q, act_application_id = rev_application_id draft, act_active_revision_id = None\<rparr>)) (\<lambda>st.
      bindE (ensure_action_edges (rev_application_id draft) st r) (\<lambda>_.
      bindE (rebind (rev_id draft) ''HAS_ACTION_REVISION'' action_revisions_coll
         actrev_id actrev_action_id (areq_action_id q) (actrev_id r) ''ActionRevision'') (\<lambda>_.
      ret r)))))))"

section \<open>Triggers and test cases\<close>

definition trigger_type_text :: "trigger_type \<Rightarrow> string" where
  "trigger_type_text t = (case t of Trigger_schedule \<Rightarrow> ''schedule'' | Trigger_event \<Rightarrow> ''event''
     | Trigger_external \<Rightarrow> ''external'')"

definition overlap_text :: "trigger_overlap_policy \<Rightarrow> string" where
  "overlap_text p = (case p of Overlap_skip_if_running \<Rightarrow> ''skip_if_running'' | Overlap_queue \<Rightarrow> ''queue''
     | Overlap_run_concurrently \<Rightarrow> ''run_concurrently'' | Overlap_replace_running \<Rightarrow> ''replace_running'')"

definition misfire_text :: "trigger_misfire_policy \<Rightarrow> string" where
  "misfire_text p = (case p of Misfire_skip \<Rightarrow> ''skip'' | Misfire_run_once \<Rightarrow> ''run_once''
     | Misfire_enqueue_all \<Rightarrow> ''enqueue_all'')"

definition default_overlap :: "trigger_type \<Rightarrow> trigger_overlap_policy" where
  "default_overlap t = (case t of Trigger_schedule \<Rightarrow> Overlap_skip_if_running | Trigger_event \<Rightarrow> Overlap_queue
     | Trigger_external \<Rightarrow> Overlap_run_concurrently)"

record trigger_request =
  treq_trigger_id :: string
  treq_trigger_type :: trigger_type
  treq_action_id :: string
  treq_config :: "(string, json) dict"
  treq_input_template :: "(string, json) dict"
  treq_overlap_policy :: "trigger_overlap_policy option"
  treq_misfire_policy :: trigger_misfire_policy
  treq_max_attempts :: int
  treq_retry_policy :: "(string, json) dict"
  treq_enabled :: bool

definition overlap_of :: "trigger_request \<Rightarrow> trigger_overlap_policy" where
  "overlap_of q = (case treq_overlap_policy q of Some p \<Rightarrow> p | None \<Rightarrow> default_overlap (treq_trigger_type q))"

definition trigger_payload :: "trigger_request \<Rightarrow> json" where
  "trigger_payload q =
     JObj [(''trigger_id'', JStr (treq_trigger_id q)), (''action_id'', JStr (treq_action_id q)),
           (''trigger_type'', JStr (trigger_type_text (treq_trigger_type q))),
           (''config'', JObj (treq_config q)), (''input_template'', JObj (treq_input_template q)),
           (''overlap_policy'', JStr (overlap_text (overlap_of q))),
           (''misfire_policy'', JStr (misfire_text (treq_misfire_policy q))),
           (''max_attempts'', JInt (treq_max_attempts q)), (''retry_policy'', JObj (treq_retry_policy q)),
           (''enabled'', JBool (treq_enabled q))]"

definition validate_trigger :: "(string \<Rightarrow> bool) \<Rightarrow> trigger_revision \<Rightarrow> exn + unit" where
  "validate_trigger cron_ok r =
     (case trigrev_trigger_type r of
        Trigger_schedule \<Rightarrow>
          (case dict_get (trigrev_config r) ''cron'' of
             Some (JStr c) \<Rightarrow>
               if strip c = [] then Inl (ValueError ''schedule triggers require config.cron'')
               else if cron_ok c then Inr () else Inl (ValueError c)
           | _ \<Rightarrow> Inl (ValueError ''schedule triggers require config.cron''))
      | Trigger_event \<Rightarrow>
          (case dict_get (trigrev_config r) ''event_type'' of
             Some (JStr e) \<Rightarrow>
               if strip e = [] then Inl (ValueError ''event triggers require config.event_type'') else Inr ()
           | _ \<Rightarrow> Inl (ValueError ''event triggers require config.event_type''))
      | Trigger_external \<Rightarrow> Inr ())"

definition create_trigger ::
  "(string \<Rightarrow> string) \<Rightarrow> (string \<Rightarrow> bool) \<Rightarrow> string \<Rightarrow> trigger_request \<Rightarrow> string \<Rightarrow> ('z svc_scheme, trigger_revision) op" where
  "create_trigger sha cron_ok rid q created_by = atomically
     (bindE (require_application rid) (\<lambda>draft.
      bindE (reads (bound_action_revision (rev_id draft) (treq_action_id q))) (\<lambda>arev.
      bindE (require (actrev_kind arev \<noteq> Act_migration)
         (ValueError ''migration ActionRevisions cannot be trigger targets'')) (\<lambda>_.
      (let i = intern_id sha (trigger_payload q) in
      bindE (interned_record trigger_revisions_coll i (\<lambda>t.
         \<lparr>trigrev_id = i, trigrev_trigger_id = treq_trigger_id q, trigrev_action_id = treq_action_id q,
          trigrev_trigger_type = treq_trigger_type q, trigrev_config = treq_config q,
          trigrev_input_template = treq_input_template q, trigrev_overlap_policy = overlap_of q,
          trigrev_misfire_policy = treq_misfire_policy q, trigrev_max_attempts = treq_max_attempts q,
          trigrev_retry_policy = treq_retry_policy q, trigrev_enabled = treq_enabled q,
          trigrev_created_at = t, trigrev_created_by = created_by, trigrev_content_hash = i\<rparr>)) (\<lambda>r.
      bindE (lift_result (validate_trigger cron_ok r)) (\<lambda>_.
      bindE (stable_record triggers_coll (treq_trigger_id q) (bindE now_utc (\<lambda>t. ret
         \<lparr>trig_id = treq_trigger_id q, trig_application_id = rev_application_id draft,
          trig_active_revision_id = None, trig_created_at = t\<rparr>))) (\<lambda>st.
      bindE (link_definition (rev_application_id draft) ''DEFINES_TRIGGER'' ''Trigger'' (trig_id st)
         ''TriggerRevision'' (trigrev_id r)) (\<lambda>_.
      bindE (point_to (id_ref ''TriggerRevision'' (trigrev_id r)) ''INVOKES'' (id_ref ''Action'' (treq_action_id q))) (\<lambda>_.
      bindE (rebind (rev_id draft) ''HAS_TRIGGER_REVISION'' trigger_revisions_coll
         trigrev_id trigrev_trigger_id (treq_trigger_id q) (trigrev_id r) ''TriggerRevision'') (\<lambda>_.
      ret r)))))))))))"

definition test_case_payload :: "string \<Rightarrow> (string, json) dict \<Rightarrow> json \<Rightarrow> json" where
  "test_case_payload aid input expected =
     JObj [(''action_id'', JStr aid), (''input'', JObj input), (''expected_output'', expected)]"

definition create_test_case ::
  "(string \<Rightarrow> string) \<Rightarrow> string \<Rightarrow> string \<Rightarrow> (string, json) dict \<Rightarrow> json \<Rightarrow> ('z svc_scheme, test_case) op" where
  "create_test_case sha rid aid input expected = atomically
     (bindE (require_application rid) (\<lambda>draft.
      bindE (reads (bound_action_revision (rev_id draft) aid)) (\<lambda>arev.
      bindE (require (actrev_kind arev \<noteq> Act_migration)
         (ValidationFailure ''migration revisions use activation dry-runs, not TestCase'')) (\<lambda>_.
      (let i = intern_id sha (test_case_payload aid input expected);
           new = \<lparr>test_id = i, test_action_id = aid, test_input = input, test_expected_output = expected\<rparr> in
      bindE (asks (coll_get test_cases_coll (key i))) (\<lambda>x.
      bindE (case x of Some m \<Rightarrow> ret m | None \<Rightarrow> bindE (save_to test_cases_coll new) (\<lambda>_. ret new)) (\<lambda>t.
      bindE (reads (test_cases (rev_id draft))) (\<lambda>bound.
      bindE (if test_id t \<in> set (map test_id bound) then ret ()
             else link (id_ref ''ApplicationRevision'' (rev_id draft)) ''HAS_TEST'' (id_ref ''TestCase'' (test_id t))) (\<lambda>_.
      bindE (point_to (id_ref ''TestCase'' (test_id t)) ''TESTS'' (id_ref ''Action'' aid)) (\<lambda>_.
      ret t))))))))))"

section \<open>Objects and relations\<close>

definition objects_list :: "string \<Rightarrow> string option \<Rightarrow> string \<Rightarrow> node_value graph \<Rightarrow> application_object list" where
  "objects_list app otype space g = sort_key obj_created_at (object_list app otype space g)"

definition relations_list ::
  "string \<Rightarrow> string option \<Rightarrow> string option \<Rightarrow> string option \<Rightarrow> string \<Rightarrow> node_value graph \<Rightarrow> app_relation list" where
  "relations_list app rtype from_id to_id space g =
     sort_key rel_created_at (relation_list app rtype from_id to_id space g)"

definition require_object ::
  "string \<Rightarrow> string \<Rightarrow> string \<Rightarrow> string \<Rightarrow> ('z svc_scheme, application_object) op" where
  "require_object which app i space =
     bindE (asks (object_get app i space)) (\<lambda>x.
       (case x of
          Some r \<Rightarrow> if obj_application_id r \<noteq> app
            then raise (ValidationFailure (which @ '' object does not belong to application: '' @ i)) else ret r
        | None \<Rightarrow> raise (ValidationFailure (which @ '' object does not belong to application: '' @ i))))"

definition relations_create ::
  "string \<Rightarrow> string \<Rightarrow> string \<Rightarrow> string \<Rightarrow> (string, json) dict \<Rightarrow> string option \<Rightarrow> string \<Rightarrow>
   ('z svc_scheme, app_relation) op" where
  "relations_create app rtid from_id to_id values rel_id_arg space = atomically
     (bindE (asks (coll_get relation_types_coll (key rtid))) (\<lambda>rt.
      bindE (require (case rt of None \<Rightarrow> False | Some r \<Rightarrow> rtype_application_id r = app)
         (ValidationFailure (''relation type does not belong to application: '' @ rtid))) (\<lambda>_.
      bindE (require_object ''from'' app from_id space) (\<lambda>f.
      bindE (require_object ''to'' app to_id space) (\<lambda>to.
      bindE (reads (active_or_latest_relation_revision app rtid)) (\<lambda>r.
      bindE (require (obj_object_type_id f = rtrev_from_object_type_id r)
         (ValidationFailure (''relation source type mismatch: expected '' @ rtrev_from_object_type_id r @
            '', got '' @ obj_object_type_id f))) (\<lambda>_.
      bindE (require (obj_object_type_id to = rtrev_to_object_type_id r)
         (ValidationFailure (''relation target type mismatch: expected '' @ rtrev_to_object_type_id r @
            '', got '' @ obj_object_type_id to))) (\<lambda>_.
      bindE (case rel_id_arg of None \<Rightarrow> new_uuid | Some i \<Rightarrow> if i = [] then new_uuid else ret i) (\<lambda>i.
      bindE (asks (relation_get app i space)) (\<lambda>existing.
      bindE (require (existing = None) (ValidationFailure (''relation already exists: '' @ i))) (\<lambda>_.
      bindE now_utc (\<lambda>now.
      (let rel = \<lparr>rel_id = i, rel_application_id = app, rel_data_space_id = space, rel_relation_type_id = rtid,
             rel_relation_type_revision_id = Some (rtrev_id r), rel_physical_type = Some (rtrev_physical_type r),
             rel_from_object_id = from_id, rel_to_object_id = to_id, rel_values = values,
             rel_created_by_invocation_id = None, rel_updated_by_invocation_id = None,
             rel_created_at = now, rel_updated_at = now\<rparr>
       in bindE (store_op (relation_save rel)) (\<lambda>_. ret rel))))))))))))))"

definition relations_delete :: "string \<Rightarrow> string \<Rightarrow> string \<Rightarrow> ('z svc_scheme, unit) op" where
  "relations_delete app i space = atomically
     (bindE (asks (relation_get app i space)) (\<lambda>x.
       (case x of
          None \<Rightarrow> raise (KeyError i)
        | Some r \<Rightarrow>
            if rel_application_id r \<noteq> app
            then raise (ValidationFailure (''relation does not belong to application: '' @ i))
            else writes (relation_delete r))))"

section \<open>Laws\<close>

text \<open>The characters of a physical type: what a Cypher relationship type may be made of.\<close>

definition is_name_char :: "char \<Rightarrow> bool" where
  "is_name_char c \<longleftrightarrow> c = CHR ''_'' \<or> (let n = (of_char c :: nat) in 48 \<le> n \<and> n \<le> 57 \<or> 65 \<le> n \<and> n \<le> 90)"

lemma upper_name_char:
  assumes "is_ascii_alnum c" shows "is_name_char (upper_char c)"
proof -
  have "(of_char c :: nat) < 256" by simp
  then show ?thesis using assms by (auto simp: is_ascii_alnum_def is_name_char_def upper_char_def Let_def)
qed

lemma upper_underscore: "upper_char (CHR ''_'') = CHR ''_''"
  by (simp add: upper_char_def)

lemma collapse_chars: "c \<in> set (collapse_runs b s) \<Longrightarrow> c = CHR ''_'' \<or> is_ascii_alnum c"
  by (induction b s rule: collapse_runs.induct) (auto split: if_splits)

lemma strip_underscores_subset: "set (strip_underscores s) \<subseteq> set s"
  by (auto simp: strip_underscores_def dest!: set_dropWhileD)

lemma physical_type_chars:
  assumes "list_all is_ascii_alnum (sha i)"
  shows "list_all is_name_char (relation_physical_type sha i)"
proof -
  have "is_name_char (upper_char c)" if "c \<in> set (strip_underscores (collapse_runs False i))" for c
    using collapse_chars [of c False i] strip_underscores_subset that upper_name_char upper_underscore
    by (auto simp: is_name_char_def)
  moreover have "is_name_char (upper_char c)" if "c \<in> set (take 8 (sha i))" for c
    using that assms upper_name_char by (auto simp: list_all_iff dest: in_set_takeD)
  ultimately have "list_all is_name_char (map upper_char (strip_underscores (collapse_runs False i)))"
    and "list_all is_name_char (map upper_char (take 8 (sha i)))"
    by (auto simp: list_all_iff)
  moreover have "list_all is_name_char ''APP_REL_''" "list_all is_name_char ''RELATION''" "is_name_char (CHR ''_'')"
    by (simp_all add: is_name_char_def)
  ultimately show ?thesis by (simp add: relation_physical_type_def Let_def)
qed

text \<open>What a relation that was created connects, and that nothing was there under its id.\<close>

lemma require_object_Inr:
  "require_object which app i space s = (Inr r, s') \<longleftrightarrow>
     object_get app i space (svc_graph s) = Some r \<and> obj_application_id r = app \<and> s' = s"
  by (auto simp: require_object_def op_defs split: option.splits)

lemma id_arg_graph:
  "(case a of None \<Rightarrow> new_uuid | Some i \<Rightarrow> if i = [] then new_uuid else ret i) s = (Inr j, s') \<Longrightarrow>
    svc_graph s' = svc_graph s"
  by (auto simp: op_defs split: option.splits if_splits)

lemma relations_create_Inr:
  assumes "relations_create app rtid from_id to_id values a space s = (Inr r, s')"
  obtains f to tr where "object_get app from_id space (svc_graph s) = Some f"
    and "object_get app to_id space (svc_graph s) = Some to"
    and "active_or_latest_relation_revision app rtid (svc_graph s) = Inr tr"
    and "obj_object_type_id f = rtrev_from_object_type_id tr" and "obj_object_type_id to = rtrev_to_object_type_id tr"
    and "relation_get app (rel_id r) space (svc_graph s) = None"
    and "relation_save r (svc_graph s) = (Inr (), svc_graph s')"
    and "rel_application_id r = app" and "rel_data_space_id r = space" and "rel_from_object_id r = from_id"
    and "rel_to_object_id r = to_id" and "rel_relation_type_id r = rtid" and "rel_values r = values"
    and "rel_physical_type r = Some (rtrev_physical_type tr)"
proof -
  from assms obtain f to tr i u where
    o: "object_get app from_id space (svc_graph s) = Some f" "object_get app to_id space (svc_graph s) = Some to"
      "active_or_latest_relation_revision app rtid (svc_graph s) = Inr tr"
      "obj_object_type_id f = rtrev_from_object_type_id tr" "obj_object_type_id to = rtrev_to_object_type_id tr"
    and id: "(case a of None \<Rightarrow> new_uuid | Some i \<Rightarrow> if i = [] then new_uuid else ret i) s = (Inr i, u)"
    and free: "relation_get app i space (svc_graph u) = None"
    and save: "(let rel = \<lparr>rel_id = i, rel_application_id = app, rel_data_space_id = space,
        rel_relation_type_id = rtid, rel_relation_type_revision_id = Some (rtrev_id tr),
        rel_physical_type = Some (rtrev_physical_type tr), rel_from_object_id = from_id, rel_to_object_id = to_id,
        rel_values = values, rel_created_by_invocation_id = None, rel_updated_by_invocation_id = None,
        rel_created_at = svc_clock u (svc_ticks u), rel_updated_at = svc_clock u (svc_ticks u)\<rparr>
      in bindE (store_op (relation_save rel)) (\<lambda>_. ret rel)) (u\<lparr>svc_ticks := Suc (svc_ticks u)\<rparr>) = (Inr r, s')"
    unfolding relations_create_def atomically_Inr
    by (auto simp: bindE_Inr_iff require_object_Inr asks_apply reads_apply require_apply now_utc_apply split: if_split_asm)
  from save have r: "rel_id r = i" "rel_application_id r = app" "rel_data_space_id r = space" "rel_from_object_id r = from_id"
    "rel_to_object_id r = to_id" "rel_relation_type_id r = rtid" "rel_values r = values"
    "rel_physical_type r = Some (rtrev_physical_type tr)" "relation_save r (svc_graph u) = (Inr (), svc_graph s')"
    by (auto simp: Let_def bindE_Inr_iff store_op_apply ret_apply split: prod.split_asm)
  with o free id_arg_graph [OF id] show thesis by (auto intro: that)
qed

lemma relations_create_Inl:
  "relations_create app rtid from_id to_id values a space s = (Inl e, s') \<Longrightarrow> svc_graph s' = svc_graph s"
  unfolding relations_create_def by (rule atomically_Inl)

lemma relation_get_save:
  assumes "relation_save r g = (Inr (), g')"
  shows "relation_get app i space g' = (if (app, space, i) = rel_key_of r then Some r else relation_get app i space g)"
  using assms
  by (auto simp: relation_save_def create_app_relation_def relation_get_def get_app_relation_def dict_simps Let_def
      split: option.splits)

end
