(* ===== verification/Experience_Access.thy ===== *)
theory Experience_Access
  imports Invocations Secrets File_Delivery System_Definitions
begin

text \<open>
  \<^verbatim>\<open>ExperienceAccessService\<close> of \<^verbatim>\<open>system/experience_access.py\<close>: what the front end of an
  Experience may read and run in an Application, by the access declaration of the active revision
  of the Experience. The checks read the graph and raise; the work is delegated to the services of
  the Application.
\<close>

section \<open>The active revision and its declarations\<close>

definition active_revision :: "string \<Rightarrow> node_value graph \<Rightarrow> exn + experience_revision" where
  "active_revision exp g =
     (case coll_get experiences_coll (key exp) g of
        None \<Rightarrow> Inl (ExperienceAccessError ''not_found'' ''experience was not found'' 404)
      | Some x \<Rightarrow>
          (case (exp_status x, exp_active_revision_id x) of
             (App_active, Some i) \<Rightarrow>
               (case coll_get experience_revisions_coll (key i) g of
                  Some r \<Rightarrow> if exprev_experience_id r = exp_id x \<and> exprev_status r = Rev_active then Inr r
                    else Inl (ExperienceAccessError ''inactive_experience'' ''experience has no valid active revision'' 409)
                | None \<Rightarrow> Inl (ExperienceAccessError ''inactive_experience'' ''experience has no valid active revision'' 409))
           | _ \<Rightarrow> Inl (ExperienceAccessError ''inactive_experience'' ''experience is not active'' 409)))"

definition require_active_application :: "string \<Rightarrow> node_value graph \<Rightarrow> exn + unit" where
  "require_active_application app g =
     (case coll_get applications_coll (key app) g of
        None \<Rightarrow> Inl (ExperienceAccessError ''undeclared_application'' ''declared application is unavailable'' 404)
      | Some a \<Rightarrow>
          if app_status a \<notin> {App_active, App_triggers_paused} \<or> app_active_revision_id a = None
          then Inl (ExperienceAccessError ''inactive_application'' ''declared application is not active'' 409)
          else (case coll_get revisions_coll (key (the (app_active_revision_id a))) g of
              Some ar \<Rightarrow> if rev_application_id ar = app_id a \<and> rev_status ar = Rev_active then Inr ()
                else Inl (ExperienceAccessError ''inactive_application''
                  ''declared application has no valid active revision'' 409)
            | None \<Rightarrow> Inl (ExperienceAccessError ''inactive_application''
                  ''declared application has no valid active revision'' 409)))"

definition application_access ::
  "string \<Rightarrow> string \<Rightarrow> node_value graph \<Rightarrow> exn + (experience_revision \<times> application_access_declaration)" where
  "application_access exp app g =
     rbind (active_revision exp g) (\<lambda>r.
     case find (\<lambda>d. access_application_id d = app) (exprev_application_access r) of
       None \<Rightarrow> Inl (ExperienceAccessError ''undeclared_application''
         ''application is not declared by the active experience'' 403)
     | Some d \<Rightarrow> rbind (require_active_application app g) (\<lambda>_. Inr (r, d)))"

text \<open>
  \<^verbatim>\<open>_require_definition\<close>, with the collections of the kind and the ids that a revision binds.
\<close>

definition require_definition ::
  "string \<Rightarrow> string \<Rightarrow> string list option \<Rightarrow> 'm collection \<Rightarrow> ('m \<Rightarrow> string) \<Rightarrow> ('m \<Rightarrow> string option) \<Rightarrow>
   'r collection \<Rightarrow> (string \<Rightarrow> node_value graph \<Rightarrow> exn + 'r list) \<Rightarrow> ('r \<Rightarrow> string) \<Rightarrow> string \<Rightarrow>
   node_value graph \<Rightarrow> exn + unit" where
  "require_definition app i allowed c owner active rc bound the_id kind g =
     (if strip i = [] then Inl (ExperienceAccessError ''invalid_filter'' (kind @ ''_id must not be empty'') 400)
      else (case coll_get c (key i) g of
          None \<Rightarrow> Inl (ExperienceAccessError ''not_found'' (kind @ '' was not found'') 404)
        | Some m \<Rightarrow>
            if owner m \<noteq> app
            then Inl (ExperienceAccessError ''undeclared_definition''
              (kind @ '' is not declared by the requested application'') 403)
            else rbind (coll_item applications_coll (key app) g) (\<lambda>a.
              rbind (case (app_active_revision_id a, active m) of
                  (Some rid, Some j) \<Rightarrow>
                    if coll_get rc (key j) g = None then Inr False
                    else rbind (bound rid g) (\<lambda>rs. Inr (j \<in> set (map the_id rs)))
                | _ \<Rightarrow> Inr False) (\<lambda>is_bound.
              if \<not> is_bound
              then Inl (ExperienceAccessError ''inactive_definition'' (kind @ '' is not active'') 409)
              else if (case allowed of None \<Rightarrow> False | Some ids \<Rightarrow> i \<notin> set ids)
              then Inl (ExperienceAccessError ''access_denied''
                (kind @ '' is denied by the experience access declaration'') 403)
              else Inr ()))))"

definition require_object_type :: "string \<Rightarrow> string \<Rightarrow> string list option \<Rightarrow> node_value graph \<Rightarrow> exn + unit" where
  "require_object_type app i allowed =
     require_definition app i allowed object_types_coll otype_application_id otype_active_revision_id
       object_type_revisions_coll object_type_revisions otrev_id ''object_type''"

definition require_relation_type :: "string \<Rightarrow> string \<Rightarrow> string list option \<Rightarrow> node_value graph \<Rightarrow> exn + unit" where
  "require_relation_type app i allowed =
     require_definition app i allowed relation_types_coll rtype_application_id rtype_active_revision_id
       relation_type_revisions_coll relation_type_revisions rtrev_id ''relation_type''"

definition require_action :: "string \<Rightarrow> string \<Rightarrow> string list option \<Rightarrow> node_value graph \<Rightarrow> exn + unit" where
  "require_action app i allowed =
     require_definition app i allowed actions_coll act_application_id act_active_revision_id
       action_revisions_coll action_revisions actrev_id ''action''"

section \<open>Reading objects and relations\<close>

definition allows :: "string list option \<Rightarrow> string \<Rightarrow> bool" where
  "allows allowed i = (case allowed of None \<Rightarrow> True | Some ids \<Rightarrow> i \<in> set ids)"

definition access_list_objects ::
  "string \<Rightarrow> string \<Rightarrow> string option \<Rightarrow> node_value graph \<Rightarrow> exn + application_object list" where
  "access_list_objects exp app otype g =
     rbind (application_access exp app g) (\<lambda>(_, d).
     rbind (case otype of None \<Rightarrow> Inr () | Some i \<Rightarrow> require_object_type app i (access_object_type_ids d) g) (\<lambda>_.
     Inr (filter (\<lambda>x. allows (access_object_type_ids d) (obj_object_type_id x)) (objects_list app otype ''production'' g))))"

definition check_end :: "string \<Rightarrow> string \<Rightarrow> string option \<Rightarrow> node_value graph \<Rightarrow> exn + unit" where
  "check_end app label i g =
     (case i of None \<Rightarrow> Inr ()
      | Some j \<Rightarrow>
          (case object_get app j ''production'' g of
             Some x \<Rightarrow> if obj_application_id x = app then Inr ()
               else Inl (ExperienceAccessError ''invalid_filter''
                 (label @ '' is not an object in the declared application'') 400)
           | None \<Rightarrow> Inl (ExperienceAccessError ''invalid_filter''
                 (label @ '' is not an object in the declared application'') 400)))"

definition access_list_relations ::
  "string \<Rightarrow> string \<Rightarrow> string option \<Rightarrow> string option \<Rightarrow> string option \<Rightarrow> node_value graph \<Rightarrow>
   exn + app_relation list" where
  "access_list_relations exp app rtype from_id to_id g =
     rbind (application_access exp app g) (\<lambda>(_, d).
     rbind (case rtype of None \<Rightarrow> Inr () | Some i \<Rightarrow> require_relation_type app i (access_relation_type_ids d) g) (\<lambda>_.
     rbind (check_end app ''from_object_id'' from_id g) (\<lambda>_.
     rbind (check_end app ''to_object_id'' to_id g) (\<lambda>_.
     Inr (filter (\<lambda>x. allows (access_relation_type_ids d) (rel_relation_type_id x))
       (relations_list app rtype from_id to_id ''production'' g))))))"

section \<open>Running an action\<close>

definition bridge_metadata :: "string \<Rightarrow> string \<Rightarrow> string \<Rightarrow> string \<Rightarrow> json" where
  "bridge_metadata exp rid app aid =
     JObj [(''experience_id'', JStr exp), (''experience_revision_id'', JStr rid),
       (''application_id'', JStr app), (''action_id'', JStr aid)]"

definition bridge_scope :: "string \<Rightarrow> string \<Rightarrow> string \<Rightarrow> scope" where
  "bridge_scope app exp rid = \<lparr>scope_application = app, scope_experience = exp, scope_revision = rid,
     scope_space = ''production'', scope_deployment = None\<rparr>"

definition annotate_invocation ::
  "delivery_env \<Rightarrow> (json \<Rightarrow> delivery_request option) \<Rightarrow> string \<Rightarrow> string \<Rightarrow> string \<Rightarrow> string \<Rightarrow> invocation \<Rightarrow>
   ('z svc_scheme, invocation) op" where
  "annotate_invocation env parse exp rid app aid i =
     (let prepared = prepare_output env parse (bridge_scope app exp rid) (inv_output i);
          annotated = (\<lambda>out. i\<lparr>inv_output := out,
            inv_metadata := dict_set ''bridge'' (bridge_metadata exp rid app aid) (inv_metadata i)\<rparr>)
      in case prepared of
           Inr out \<Rightarrow> bindE (atomically (save_to invocations_coll (annotated out))) (\<lambda>_. ret (annotated out))
         | Inl (FileDeliveryError code m st) \<Rightarrow>
             bindE (atomically (save_to invocations_coll (annotated (strip_delivery_fields (inv_output i)))))
               (\<lambda>_. raise (ExperienceAccessError code m st))
         | Inl e \<Rightarrow> raise e)"

definition access_invoke_action ::
  "'z action_runtime \<Rightarrow> delivery_env \<Rightarrow> (json \<Rightarrow> delivery_request option) \<Rightarrow> string \<Rightarrow> string \<Rightarrow> string \<Rightarrow>
   (string, json) dict \<Rightarrow> ('z svc_scheme, invocation) op" where
  "access_invoke_action run env parse exp app aid input =
     bindE (reads (application_access exp app)) (\<lambda>(r, d).
     bindE (reads (require_action app aid (access_action_ids d))) (\<lambda>_.
     bindE (run_active_action run app aid input) (\<lambda>i.
     annotate_invocation env parse exp (exprev_id r) app aid i)))"

definition access_deliver_file ::
  "delivery_env \<Rightarrow> string \<Rightarrow> string \<Rightarrow> string \<Rightarrow> node_value graph \<Rightarrow> exn + delivered_file" where
  "access_deliver_file env exp app token g =
     rbind (application_access exp app g) (\<lambda>(r, _).
     case resolve_token env (bridge_scope app exp (exprev_id r)) token of
       Inl (FileDeliveryError code m st) \<Rightarrow> Inl (ExperienceAccessError code m st)
     | x \<Rightarrow> x)"

section \<open>Secrets\<close>

definition require_secret_access :: "string \<Rightarrow> string \<Rightarrow> string \<Rightarrow> node_value graph \<Rightarrow> exn + unit" where
  "require_secret_access exp app i g =
     (if strip i = []
      then Inl (ExperienceAccessError ''invalid_secret_reference'' ''secret_reference_id must not be empty'' 400)
      else rbind (application_access exp app g) (\<lambda>(_, d).
        if (case access_secret_reference_ids d of None \<Rightarrow> True | Some ids \<Rightarrow> i \<notin> set ids)
        then Inl (ExperienceAccessError ''access_denied''
          ''secret reference is denied by the experience access declaration'' 403)
        else (case coll_get secret_references_coll (key i) g of
            None \<Rightarrow> Inl (ExperienceAccessError ''not_found'' ''secret reference was not found'' 404)
          | Some r \<Rightarrow> if secret_application_id r \<noteq> app
              then Inl (ExperienceAccessError ''undeclared_definition''
                ''secret reference is not owned by the requested application'' 403)
              else Inr ())))"

definition access_secret_status ::
  "(string \<Rightarrow> 'b \<Rightarrow> exn + string) \<Rightarrow> string \<Rightarrow> string \<Rightarrow> string \<Rightarrow>
   (('b, 'z) secret_world_scheme, secret_status_payload) op" where
  "access_secret_status bget exp app i =
     bindE (reads (require_secret_access exp app i)) (\<lambda>_. secret_status bget app i)"

definition access_set_secret_value ::
  "(string \<Rightarrow> string \<Rightarrow> ('b, unit) op) \<Rightarrow> string \<Rightarrow> string \<Rightarrow> string \<Rightarrow> string \<Rightarrow>
   (('b, 'z) secret_world_scheme, secret_status_payload) op" where
  "access_set_secret_value bset exp app i v =
     bindE (reads (require_secret_access exp app i)) (\<lambda>_. set_secret_reference bset app i v)"

definition access_delete_secret_value ::
  "(string \<Rightarrow> ('b, unit) op) \<Rightarrow> string \<Rightarrow> string \<Rightarrow> string \<Rightarrow>
   (('b, 'z) secret_world_scheme, secret_status_payload) op" where
  "access_delete_secret_value bdelete exp app i =
     bindE (reads (require_secret_access exp app i)) (\<lambda>_. delete_secret_reference_value bdelete app i)"

record listed_secret =
  listed_status :: secret_status_payload
  listed_uri :: string
  listed_name :: string
  listed_description :: string

definition listed_of ::
  "(string \<Rightarrow> 'b \<Rightarrow> exn + string) \<Rightarrow> string \<Rightarrow> string \<Rightarrow> (('b, 'z) secret_world_scheme, listed_secret) op" where
  "listed_of bget app i =
     bindE (asks (coll_get secret_references_coll (key i))) (\<lambda>x.
     bindE (require (case x of None \<Rightarrow> False | Some r \<Rightarrow> secret_application_id r = app)
       (ExperienceAccessError ''invalid_access_declaration'' ''declared secret reference is unavailable'' 500)) (\<lambda>_.
     bindE (secret_status bget app i) (\<lambda>st.
     ret \<lparr>listed_status = st, listed_uri = secret_uri (the x), listed_name = secret_name (the x),
       listed_description = secret_description (the x)\<rparr>)))"

definition access_list_secrets ::
  "(string \<Rightarrow> 'b \<Rightarrow> exn + string) \<Rightarrow> string \<Rightarrow> string \<Rightarrow>
   (('b, 'z) secret_world_scheme, listed_secret list) op" where
  "access_list_secrets bget exp app =
     bindE (reads (application_access exp app)) (\<lambda>(_, d).
     bindE (map_op (listed_of bget app) (case access_secret_reference_ids d of None \<Rightarrow> [] | Some ids \<Rightarrow> ids)) (\<lambda>xs.
     ret (sort_key listed_uri xs)))"

section \<open>Laws\<close>

text \<open>The declaration of the active revision of an Experience for an active Application.\<close>

definition declares ::
  "string \<Rightarrow> string \<Rightarrow> experience_revision \<Rightarrow> application_access_declaration \<Rightarrow> application \<Rightarrow> node_value graph \<Rightarrow> bool" where
  "declares exp app r d a g \<longleftrightarrow>
     (\<exists>x i. coll_get experiences_coll (key exp) g = Some x \<and> exp_status x = App_active \<and>
        exp_active_revision_id x = Some i \<and> coll_get experience_revisions_coll (key i) g = Some r) \<and>
     exprev_status r = Rev_active \<and> d \<in> set (exprev_application_access r) \<and> access_application_id d = app \<and>
     coll_get applications_coll (key app) g = Some a \<and> app_status a \<in> {App_active, App_triggers_paused} \<and>
     (\<exists>rid ar. app_active_revision_id a = Some rid \<and> coll_get revisions_coll (key rid) g = Some ar \<and>
        rev_status ar = Rev_active)"

definition may_invoke :: "string \<Rightarrow> string \<Rightarrow> string \<Rightarrow> node_value graph \<Rightarrow> bool" where
  "may_invoke exp app aid g \<longleftrightarrow>
     (\<exists>r d a rid m j rs. declares exp app r d a g \<and> allows (access_action_ids d) aid \<and>
        app_active_revision_id a = Some rid \<and> coll_get actions_coll (key aid) g = Some m \<and>
        act_application_id m = app \<and> act_active_revision_id m = Some j \<and>
        action_revisions rid g = Inr rs \<and> j \<in> set (map actrev_id rs))"

definition may_use_secret :: "string \<Rightarrow> string \<Rightarrow> string \<Rightarrow> node_value graph \<Rightarrow> bool" where
  "may_use_secret exp app i g \<longleftrightarrow>
     (\<exists>r d a ids ref. declares exp app r d a g \<and> access_secret_reference_ids d = Some ids \<and> i \<in> set ids \<and>
        coll_get secret_references_coll (key i) g = Some ref \<and> secret_application_id ref = app)"

lemma active_revision_Inr:
  "active_revision exp g = Inr r \<Longrightarrow>
     \<exists>x i. coll_get experiences_coll (key exp) g = Some x \<and> exp_status x = App_active \<and>
       exp_active_revision_id x = Some i \<and> coll_get experience_revisions_coll (key i) g = Some r \<and>
       exprev_status r = Rev_active"
  by (auto simp: active_revision_def split: option.split_asm application_status.split_asm if_split_asm)

lemma application_access_Inr:
  assumes "application_access exp app g = Inr (r, d)" shows "\<exists>a. declares exp app r d a g"
proof -
  from assms have r: "active_revision exp g = Inr r"
    and d: "find (\<lambda>d. access_application_id d = app) (exprev_application_access r) = Some d"
    and ok: "require_active_application app g = Inr ()"
    by (auto simp: application_access_def rbind_eq_Inr split: option.split_asm)
  from ok have a: "\<exists>a rid ar. coll_get applications_coll (key app) g = Some a \<and>
      app_status a \<in> {App_active, App_triggers_paused} \<and> app_active_revision_id a = Some rid \<and>
      coll_get revisions_coll (key rid) g = Some ar \<and> rev_status ar = Rev_active"
    by (auto simp: require_active_application_def split: option.split_asm if_split_asm)
  from d have "d \<in> set (exprev_application_access r)" "access_application_id d = app"
    by (auto simp: find_Some_iff)
  with active_revision_Inr [OF r] a show ?thesis unfolding declares_def by blast
qed

lemma require_definition_Inr:
  assumes "require_definition app i allowed c owner active rc bound the_id kind g = Inr ()"
  shows "\<exists>m a rid j rs. coll_get c (key i) g = Some m \<and> owner m = app \<and> allows allowed i \<and>
    coll_get applications_coll (key app) g = Some a \<and> app_active_revision_id a = Some rid \<and>
    active m = Some j \<and> bound rid g = Inr rs \<and> j \<in> set (map the_id rs)"
  using assms
  by (auto simp: require_definition_def rbind_eq_Inr coll_item_def allows_def split: option.split_asm if_split_asm)

lemma require_action_allowed:
  assumes "application_access exp app g = Inr (r, d)" and "require_action app aid (access_action_ids d) g = Inr ()"
  shows "may_invoke exp app aid g"
proof -
  obtain a where a: "declares exp app r d a g" using application_access_Inr [OF assms(1)] by blast
  then have "coll_get applications_coll (key app) g = Some a" unfolding declares_def by blast
  with a require_definition_Inr [OF assms(2) [unfolded require_action_def]] show ?thesis
    unfolding may_invoke_def by fastforce
qed

lemma require_secret_allowed:
  assumes "require_secret_access exp app i g = Inr ()" shows "may_use_secret exp app i g"
proof -
  from assms obtain r d ids ref where "application_access exp app g = Inr (r, d)"
    "access_secret_reference_ids d = Some ids" "i \<in> set ids"
    "coll_get secret_references_coll (key i) g = Some ref" "secret_application_id ref = app"
    by (auto simp: require_secret_access_def rbind_eq_Inr split: option.split_asm if_split_asm)
  with application_access_Inr show ?thesis unfolding may_use_secret_def by blast
qed

text \<open>A call that is not declared raises and does nothing, whatever the runtime is.\<close>

lemma invoke_denied:
  assumes "\<not> may_invoke exp app aid (svc_graph s)"
  shows "\<exists>e. access_invoke_action run env parse exp app aid input s = (Inl e, s)"
proof (cases "application_access exp app (svc_graph s)")
  case (Inl e)
  then show ?thesis by (simp add: access_invoke_action_def op_defs)
next
  case (Inr rd)
  obtain r d where rd: "rd = (r, d)" by (cases rd)
  have "require_action app aid (access_action_ids d) (svc_graph s) \<noteq> Inr ()"
    using require_action_allowed assms Inr rd by blast
  then obtain e where "require_action app aid (access_action_ids d) (svc_graph s) = Inl e"
    by (cases "require_action app aid (access_action_ids d) (svc_graph s)") auto
  then show ?thesis using Inr rd by (simp add: access_invoke_action_def op_defs)
qed

lemma secret_denied:
  assumes "\<not> may_use_secret exp app i (svc_graph s)"
  shows "\<exists>e. access_set_secret_value bset exp app i v s = (Inl e, s)"
    and "\<exists>e. access_secret_status bget exp app i s = (Inl e, s)"
    and "\<exists>e. access_delete_secret_value bdelete exp app i s = (Inl e, s)"
proof -
  have "require_secret_access exp app i (svc_graph s) \<noteq> Inr ()" using require_secret_allowed assms by blast
  then obtain e where "require_secret_access exp app i (svc_graph s) = Inl e"
    by (cases "require_secret_access exp app i (svc_graph s)") auto
  then show "\<exists>e. access_set_secret_value bset exp app i v s = (Inl e, s)"
    "\<exists>e. access_secret_status bget exp app i s = (Inl e, s)"
    "\<exists>e. access_delete_secret_value bdelete exp app i s = (Inl e, s)"
    by (simp_all add: access_set_secret_value_def access_secret_status_def access_delete_secret_value_def op_defs)
qed

text \<open>What is listed belongs to the Application, to production, and to a declared type.\<close>

lemma object_list_in:
  "x \<in> set (objects_list app otype space g) \<Longrightarrow> obj_application_id x = app \<and> obj_data_space_id x = space"
  by (auto simp: objects_list_def object_list_def)

lemma listed_objects_declared:
  assumes "access_list_objects exp app otype g = Inr os" and "x \<in> set os"
  shows "obj_application_id x = app \<and> obj_data_space_id x = ''production'' \<and>
    (\<exists>r d a. declares exp app r d a g \<and> allows (access_object_type_ids d) (obj_object_type_id x))"
proof -
  from assms obtain r d where rd: "application_access exp app g = Inr (r, d)"
    and x: "x \<in> set (objects_list app otype ''production'' g)" "allows (access_object_type_ids d) (obj_object_type_id x)"
    by (auto simp: access_list_objects_def rbind_eq_Inr)
  then show ?thesis using object_list_in application_access_Inr [OF rd] by blast
qed

text \<open>An invocation over the bridge is on record with the Experience it came from.\<close>

lemma annotate_records:
  assumes "annotate_invocation env parse exp rid app aid i s = (Inr j, s')"
  shows "coll_get invocations_coll (key (inv_id i)) (svc_graph s') = Some j \<and>
    dict_get (inv_metadata j) ''bridge'' = Some (bridge_metadata exp rid app aid)"
proof -
  from assms obtain out where "prepare_output env parse (bridge_scope app exp rid) (inv_output i) = Inr out"
    by (auto simp: annotate_invocation_def Let_def op_defs atomically_apply split: sum.splits exn.splits)
  moreover have saved: "coll_get invocations_coll (key (inv_id m)) (coll_save invocations_coll m g) = Some m" for m :: invocation and g
    using invocations.get_save [of "key (inv_id m)" m g] by (simp add: invocations_coll_def)
  note saved [of "i\<lparr>inv_output := out, inv_metadata := dict_set ''bridge'' (bridge_metadata exp rid app aid) (inv_metadata i)\<rparr>"]
  ultimately show ?thesis using assms
    by (auto simp: annotate_invocation_def Let_def op_defs atomically_apply dict_simps)
qed

end
