(* ===== verification/Json_Text.thy ===== *)
theory Json_Text
  imports Kernel_Hash
begin

text \<open>
  Reading back what the kernel writes: \<^verbatim>\<open>json.loads\<close> on the compact texts that \<^verbatim>\<open>stable_json\<close>
  prints (no white space, integers only), and base64 of an ASCII text. The parser recurses on
  fuel; the length of the text is enough. Dictionaries come back with their keys sorted, which is
  the same dictionary to Python: \<open>canon\<close> sorts the keys at every level.
\<close>

section \<open>Parsing\<close>

definition unhex :: "char \<Rightarrow> nat option" where
  "unhex c = (let n = (of_char c :: nat) in
     if 48 \<le> n \<and> n \<le> 57 then Some (n - 48) else if 97 \<le> n \<and> n \<le> 102 then Some (n - 87)
     else if 65 \<le> n \<and> n \<le> 70 then Some (n - 55) else None)"

definition unescape :: "char \<Rightarrow> char option" where
  "unescape c = (if c = CHR 0x22 \<or> c = CHR 0x5C \<or> c = CHR ''/'' then Some c
     else if c = CHR ''n'' then Some (CHR 0x0A) else if c = CHR ''r'' then Some (CHR 0x0D)
     else if c = CHR ''t'' then Some (CHR 0x09) else if c = CHR ''b'' then Some (CHR 0x08)
     else if c = CHR ''f'' then Some (CHR 0x0C) else None)"

text \<open>The rest of a string after its opening quote; code points from 256 on have no character here.\<close>

fun parse_string :: "string \<Rightarrow> (string \<times> string) option" where
  "parse_string [] = None"
| "parse_string (c # cs) =
     (if c = CHR 0x22 then Some ([], cs)
      else if c \<noteq> CHR 0x5C then map_option (\<lambda>(t, r). (c # t, r)) (parse_string cs)
      else (case cs of
          [] \<Rightarrow> None
        | d # ds \<Rightarrow>
            if d \<noteq> CHR ''u''
            then Option.bind (unescape d) (\<lambda>e. map_option (\<lambda>(t, r). (e # t, r)) (parse_string ds))
            else (case ds of
                a # b # x # y # rest \<Rightarrow>
                  (case (unhex a, unhex b, unhex x, unhex y) of
                     (Some 0, Some 0, Some h, Some l) \<Rightarrow>
                       map_option (\<lambda>(t, r). (char_of (16 * h + l) # t, r)) (parse_string rest)
                   | _ \<Rightarrow> None)
              | _ \<Rightarrow> None)))"

definition parse_nat :: "string \<Rightarrow> (nat \<times> string) option" where
  "parse_nat s = (let ds = takeWhile is_digit s in
     if ds = [] then None else Some (nat_of_digits ds, dropWhile is_digit s))"

definition parse_int :: "string \<Rightarrow> (int \<times> string) option" where
  "parse_int s = (case s of
      [] \<Rightarrow> None
    | c # cs \<Rightarrow> if c = CHR ''-'' then map_option (\<lambda>(n, r). (- int n, r)) (parse_nat cs)
        else map_option (\<lambda>(n, r). (int n, r)) (parse_nat s))"

text \<open>A value; the elements of an array or the members of an object up to the closing bracket.\<close>

fun parse_value :: "nat \<Rightarrow> string \<Rightarrow> (json \<times> string) option"
  and parse_elements :: "nat \<Rightarrow> string \<Rightarrow> json list \<Rightarrow> (json \<times> string) option"
  and parse_members :: "nat \<Rightarrow> string \<Rightarrow> (string, json) dict \<Rightarrow> (json \<times> string) option" where
  "parse_value 0 s = None"
| "parse_value (Suc n) s =
     (if starts_with ''null'' s then Some (JNull, drop 4 s)
      else if starts_with ''true'' s then Some (JBool True, drop 4 s)
      else if starts_with ''false'' s then Some (JBool False, drop 5 s)
      else (case s of
          [] \<Rightarrow> None
        | c # cs \<Rightarrow>
            if c = CHR 0x22 then map_option (\<lambda>(t, r). (JStr t, r)) (parse_string cs)
            else if c = CHR ''['' then
              (if starts_with '']'' cs then Some (JArr [], drop 1 cs) else parse_elements n cs [])
            else if c = CHR 0x7B then
              (if starts_with [CHR 0x7D] cs then Some (JObj [], drop 1 cs) else parse_members n cs [])
            else map_option (\<lambda>(i, r). (JInt i, r)) (parse_int s)))"
| "parse_elements 0 s acc = None"
| "parse_elements (Suc n) s acc =
     Option.bind (parse_value n s) (\<lambda>(v, r).
       (case r of
          [] \<Rightarrow> None
        | c # cs \<Rightarrow> if c = CHR '','' then parse_elements n cs (acc @ [v])
            else if c = CHR '']'' then Some (JArr (acc @ [v]), cs) else None))"
| "parse_members 0 s acc = None"
| "parse_members (Suc n) s acc =
     (case s of
        [] \<Rightarrow> None
      | q # s1 \<Rightarrow> if q \<noteq> CHR 0x22 then None
          else Option.bind (parse_string s1) (\<lambda>(k, s2).
            (case s2 of
               [] \<Rightarrow> None
             | d # s3 \<Rightarrow> if d \<noteq> CHR '':'' then None
                 else Option.bind (parse_value n s3) (\<lambda>(v, r).
                   (case r of
                      [] \<Rightarrow> None
                    | c # cs \<Rightarrow> if c = CHR '','' then parse_members n cs (dict_set k v acc)
                        else if c = CHR 0x7D then Some (JObj (dict_set k v acc), cs) else None)))))"

definition json_loads :: "string \<Rightarrow> json option" where
  "json_loads s = (case parse_value (Suc (length s)) s of Some (v, []) \<Rightarrow> Some v | _ \<Rightarrow> None)"

section \<open>Canonical values\<close>

function canon :: "json \<Rightarrow> json" where
  "canon JNull = JNull"
| "canon (JBool b) = JBool b"
| "canon (JInt i) = JInt i"
| "canon (JStr s) = JStr s"
| "canon (JArr xs) = JArr (map canon xs)"
| "canon (JObj kvs) = JObj (map (\<lambda>kv. (fst kv, canon (snd kv))) (sort_key fst kvs))"
  by pat_completeness auto
termination
proof (relation "measure size", goal_cases)
  case 1
  show ?case by simp
next
  case (2 xs x)
  then show ?case by (simp add: size_list_estimation less_Suc_eq_le) (metis le_SucI size_list_estimation' order_refl)
next
  case (3 kvs kv)
  then show ?case using size_json_obj [of kv kvs] by simp
qed

text \<open>A Python dictionary has no key twice.\<close>

function json_ok :: "json \<Rightarrow> bool" where
  "json_ok JNull = True"
| "json_ok (JBool b) = True"
| "json_ok (JInt i) = True"
| "json_ok (JStr s) = True"
| "json_ok (JArr xs) = list_all json_ok xs"
| "json_ok (JObj kvs) = (distinct (map fst kvs) \<and> list_all (\<lambda>kv. json_ok (snd kv)) kvs)"
  by pat_completeness auto
termination
proof (relation "measure size", goal_cases)
  case 1
  show ?case by simp
next
  case (2 xs x)
  then show ?case by (simp add: size_list_estimation less_Suc_eq_le) (metis le_SucI size_list_estimation' order_refl)
next
  case (3 kvs kv)
  then show ?case using size_json_obj [of kv kvs] by simp
qed

section \<open>Reading back strings and numbers\<close>

lemma unhex_hex_digit: "n < 16 \<Longrightarrow> unhex (hex_digit n) = Some n"
  by (auto simp: unhex_def hex_digit_def Let_def)

lemma hex_zero: "unhex (CHR ''0'') = Some 0"
  by (simp add: unhex_def)

lemma parse_escaped_char:
  "parse_string (escape_char c @ t) = map_option (\<lambda>(u, r). (c # u, r)) (parse_string t)"
proof (cases "c \<in> {CHR 0x22, CHR 0x5C, CHR 0x0A, CHR 0x0D, CHR 0x09, CHR 0x08, CHR 0x0C}")
  case True
  then show ?thesis by (elim insertE) (simp_all add: escape_char_def unescape_def)
next
  case False
  show ?thesis
  proof (cases "32 \<le> (of_char c :: nat) \<and> (of_char c :: nat) \<le> 126")
    case True
    with False have "escape_char c = [c]" by (simp add: escape_char_def)
    with False show ?thesis by simp
  next
    case coded: False
    with False have "escape_char c = [CHR 0x5C, CHR ''u'', CHR ''0'', CHR ''0'', hex_digit (of_char c div 16),
        hex_digit (of_char c mod 16)]" by (simp add: escape_char_def Let_def)
    moreover have "(of_char c :: nat) < 256" by simp
    then have "(of_char c :: nat) div 16 < 16" by (simp add: less_mult_imp_div_less)
    ultimately show ?thesis by (simp add: unhex_hex_digit hex_zero)
  qed
qed

lemma parse_string_escaped: "parse_string (concat (map escape_char s) @ CHR 0x22 # r) = Some (s, r)"
  by (induction s) (simp_all add: parse_escaped_char del: parse_string.simps(2), simp)

lemma digit_char:
  assumes "d < 10"
  shows "is_digit (char_of (48 + d))" and "of_char (char_of (48 + d)) - 48 = (d :: nat)"
proof -
  have "list_all (\<lambda>d. is_digit (char_of (48 + d :: nat))) [0..<10]" by code_simp
  then show "is_digit (char_of (48 + d))" using assms by (auto simp: list_all_iff)
  from assms show "of_char (char_of (48 + d)) - 48 = d" by simp
qed

lemma nat_text_digits: "list_all is_digit (nat_text n) \<and> nat_text n \<noteq> []"
proof (induction n rule: nat_text.induct)
  case (1 n)
  show ?case
  proof (cases "n < 10")
    case True
    then have "nat_text n = [char_of (48 + n)]" by (subst nat_text.simps) simp
    then show ?thesis using digit_char(1) [OF True] by simp
  next
    case False
    then have "nat_text n = nat_text (n div 10) @ [char_of (48 + n mod 10)]" by (subst nat_text.simps) simp
    then show ?thesis using digit_char(1) [of "n mod 10"] 1 False by simp
  qed
qed

lemma nat_of_digits_snoc: "nat_of_digits (s @ [c]) = 10 * nat_of_digits s + (of_char c - 48)"
  by (simp add: nat_of_digits_def)

lemma nat_of_nat_text: "nat_of_digits (nat_text n) = n"
proof (induction n rule: nat_text.induct)
  case (1 n)
  show ?case
  proof (cases "n < 10")
    case True
    then show ?thesis using digit_char(2) by (subst nat_text.simps) (simp add: nat_of_digits_def)
  next
    case False
    then show ?thesis using 1 digit_char(2) [of "n mod 10"] by (subst nat_text.simps) (simp add: nat_of_digits_snoc)
  qed
qed

definition rest_ok :: "string \<Rightarrow> bool" where
  "rest_ok r \<longleftrightarrow> (case r of [] \<Rightarrow> True | c # _ \<Rightarrow> \<not> is_digit c)"

lemma span_digits:
  assumes "list_all is_digit ds" and "rest_ok r"
  shows "takeWhile is_digit (ds @ r) = ds \<and> dropWhile is_digit (ds @ r) = r"
  using assms by (induction ds) (auto simp: rest_ok_def split: list.splits)

lemma parse_nat_text: "rest_ok r \<Longrightarrow> parse_nat (nat_text n @ r) = Some (n, r)"
  using span_digits [of "nat_text n" r] nat_text_digits [of n] by (simp add: parse_nat_def nat_of_nat_text Let_def)

lemma nat_text_head: "\<exists>c cs. nat_text n = c # cs \<and> is_digit c"
  using nat_text_digits [of n] by (cases "nat_text n") auto

lemma parse_int_text: "rest_ok r \<Longrightarrow> parse_int (int_text i @ r) = Some (i, r)"
proof -
  assume r: "rest_ok r"
  show ?thesis
  proof (cases "i < 0")
    case True
    then show ?thesis using parse_nat_text [OF r, of "nat (- i)"] by (simp add: parse_int_def int_text_def)
  next
    case False
    obtain c cs where c: "nat_text (nat i) = c # cs" "is_digit c" using nat_text_head by blast
    then have "c \<noteq> CHR ''-''" by (auto simp: is_digit_def)
    with c parse_nat_text [OF r, of "nat i"] False show ?thesis by (simp add: parse_int_def int_text_def)
  qed
qed

section \<open>Reading back values\<close>

text \<open>How the text of a value begins.\<close>

lemma stable_json_head:
  "\<exists>c cs. stable_json v = c # cs \<and> c \<noteq> CHR '']'' \<and> c \<noteq> CHR 0x7D"
proof (cases v)
  case (JInt i)
  then show ?thesis
    using nat_text_head [of "nat i"] by (cases "i < 0") (auto simp: int_text_def is_digit_def)
qed (auto simp: json_text_def)

lemma int_text_head:
  "\<exists>c cs. int_text i = c # cs \<and> c \<notin> {CHR ''n'', CHR ''t'', CHR ''f'', CHR 0x22, CHR ''['', CHR 0x7B}"
  using nat_text_head [of "nat i"] by (cases "i < 0") (auto simp: int_text_def is_digit_def)

lemma starts_with_head: "starts_with (p # ps) (c # cs) \<Longrightarrow> c = p"
  by simp

text \<open>Enough fuel: the length of the text.\<close>

definition reads_back :: "json \<Rightarrow> bool" where
  "reads_back v \<longleftrightarrow> (\<forall>n r. length (stable_json v) \<le> n \<longrightarrow> rest_ok r \<longrightarrow>
     parse_value n (stable_json v @ r) = Some (canon v, r))"

lemma rest_ok_sep: "c \<in> {CHR '','', CHR '']'', CHR 0x7D} \<Longrightarrow> rest_ok (c # r)"
  by (auto simp: rest_ok_def is_digit_def)

lemma parse_elements_join:
  assumes "xs \<noteq> []" and "list_all reads_back xs" and "length (join_with '','' (map stable_json xs)) < n"
  shows "parse_elements n (join_with '','' (map stable_json xs) @ CHR '']'' # r) acc = Some (JArr (acc @ map canon xs), r)"
  using assms
proof (induction xs arbitrary: n acc)
  case Nil
  then show ?case by simp
next
  case (Cons x xs)
  then obtain m where n: "n = Suc m" by (cases n) auto
  show ?case
  proof (cases xs)
    case Nil
    have "parse_value m (stable_json x @ CHR '']'' # r) = Some (canon x, CHR '']'' # r)"
      using Cons.prems n Nil rest_ok_sep by (auto simp: reads_back_def)
    then show ?thesis by (simp add: n Nil)
  next
    case (Cons y ys)
    define rest where "rest = join_with '','' (map stable_json xs) @ CHR '']'' # r"
    have body: "join_with '','' (map stable_json (x # xs)) @ CHR '']'' # r = stable_json x @ CHR '','' # rest"
      by (simp add: Cons rest_def)
    have "parse_value m (stable_json x @ CHR '','' # rest) = Some (canon x, CHR '','' # rest)"
      using Cons.prems n Cons rest_ok_sep by (auto simp: reads_back_def)
    moreover have "parse_elements m rest (acc @ [canon x]) = Some (JArr ((acc @ [canon x]) @ map canon xs), r)"
      unfolding rest_def
      by (rule Cons.IH) (use Cons.prems n Cons in auto)
    ultimately show ?thesis unfolding body by (simp add: n)
  qed
qed

abbreviation member_text :: "string \<times> json \<Rightarrow> string" where
  "member_text kv \<equiv> json_text (fst kv) @ '':'' @ stable_json (snd kv)"

lemma dict_set_append: "k \<notin> fst ` set acc \<Longrightarrow> dict_set k v acc = acc @ [(k, v)]"
  by (induction acc) auto

lemma parse_members_join:
  assumes "kvs \<noteq> []" and "list_all (\<lambda>kv. reads_back (snd kv)) kvs"
    and "length (join_with '','' (map member_text kvs)) < n"
    and "distinct (map fst acc @ map fst kvs)"
  shows "parse_members n (join_with '','' (map member_text kvs) @ CHR 0x7D # r) acc =
    Some (JObj (acc @ map (\<lambda>kv. (fst kv, canon (snd kv))) kvs), r)"
  using assms
proof (induction kvs arbitrary: n acc)
  case Nil
  then show ?case by simp
next
  case (Cons kv kvs)
  obtain k v where kv: "kv = (k, v)" by (cases kv)
  from Cons.prems obtain m where n: "n = Suc m" by (cases n) auto
  have new: "dict_set k (canon v) acc = acc @ [(k, canon v)]"
    using Cons.prems(4) kv by (intro dict_set_append) auto
  have str: "parse_string (concat (map escape_char k) @ CHR 0x22 # t) = Some (k, t)" for t
    by (rule parse_string_escaped)
  show ?case
  proof (cases kvs)
    case Nil
    have "parse_value m (stable_json v @ CHR 0x7D # r) = Some (canon v, CHR 0x7D # r)"
      using Cons.prems n Nil kv rest_ok_sep by (auto simp: reads_back_def)
    then show ?thesis by (simp add: n Nil kv json_text_def str new)
  next
    case (Cons y ys)
    define rest where "rest = join_with '','' (map member_text kvs) @ CHR 0x7D # r"
    have body: "join_with '','' (map member_text (kv # kvs)) @ CHR 0x7D # r =
        CHR 0x22 # concat (map escape_char k) @ CHR 0x22 # CHR '':'' # stable_json v @ CHR '','' # rest"
      by (simp add: Cons rest_def kv json_text_def)
    have "parse_value m (stable_json v @ CHR '','' # rest) = Some (canon v, CHR '','' # rest)"
      using Cons.prems n Cons kv rest_ok_sep by (auto simp: reads_back_def)
    moreover have "parse_members m rest (acc @ [(k, canon v)]) =
        Some (JObj ((acc @ [(k, canon v)]) @ map (\<lambda>kv. (fst kv, canon (snd kv))) kvs), r)"
      unfolding rest_def
      by (rule Cons.IH) (use Cons.prems n Cons kv in auto)
    ultimately show ?thesis unfolding body by (simp add: n str new kv)
  qed
qed

lemma reads_back_all: "json_ok v \<Longrightarrow> reads_back v"
proof (induction v rule: stable_json.induct)
  case (3 i)
  show ?case
    unfolding reads_back_def
  proof (intro allI impI)
    fix n r assume n: "length (stable_json (JInt i)) \<le> n" and r: "rest_ok r"
    obtain c cs where c: "int_text i = c # cs" "c \<notin> {CHR ''n'', CHR ''t'', CHR ''f'', CHR 0x22, CHR ''['', CHR 0x7B}"
      using int_text_head [of i] by (elim exE conjE)
    have "0 < n" using n unfolding stable_json.simps c(1) by (simp only: length_Cons Suc_le_eq)
    then obtain m where "n = Suc m" using gr0_implies_Suc by blast
    with c parse_int_text [OF r, of i] show "parse_value n (stable_json (JInt i) @ r) = Some (canon (JInt i), r)"
      by auto
  qed
next
  case (5 xs)
  have all: "list_all reads_back xs" using 5 by (simp add: list_all_iff)
  show ?case
    unfolding reads_back_def
  proof (intro allI impI)
    fix n r assume n: "length (stable_json (JArr xs)) \<le> n" and r: "rest_ok r"
    then obtain m where m: "n = Suc m" by (cases n) auto
    show "parse_value n (stable_json (JArr xs) @ r) = Some (canon (JArr xs), r)"
    proof (cases xs)
      case Nil
      then show ?thesis by (simp add: m)
    next
      case (Cons y ys)
      obtain c cs where c: "stable_json y = c # cs" "c \<noteq> CHR '']''" using stable_json_head by blast
      define body where "body = join_with '','' (map stable_json xs) @ CHR '']'' # r"
      have "parse_elements m body [] = Some (JArr (map canon xs), r)"
        unfolding body_def using parse_elements_join [OF _ all, of m r "[]"] n m Cons by simp
      moreover have "\<not> starts_with '']'' body"
        unfolding body_def using c Cons by (cases ys) auto
      ultimately show ?thesis by (simp add: m body_def)
    qed
  qed
next
  case (6 kvs)
  have all: "list_all (\<lambda>kv. reads_back (snd kv)) (sort_key fst kvs)" using 6 by (auto simp: list_all_iff)
  have "distinct (map fst (sort_key fst kvs))" using 6(2) by (simp add: distinct_map)
  show ?case
    unfolding reads_back_def
  proof (intro allI impI)
    fix n r assume n: "length (stable_json (JObj kvs)) \<le> n" and r: "rest_ok r"
    then obtain m where m: "n = Suc m" by (cases n) auto
    show "parse_value n (stable_json (JObj kvs) @ r) = Some (canon (JObj kvs), r)"
    proof (cases "sort_key fst kvs")
      case Nil
      then have "kvs = []" by (metis length_0_conv length_sort)
      then show ?thesis by (simp add: m)
    next
      case (Cons y ys)
      define body where "body = join_with '','' (map member_text (sort_key fst kvs)) @ CHR 0x7D # r"
      have "parse_members m body [] = Some (JObj (map (\<lambda>kv. (fst kv, canon (snd kv))) (sort_key fst kvs)), r)"
        unfolding body_def
        using parse_members_join [OF _ all, of m "[]" r] n m Cons \<open>distinct (map fst (sort_key fst kvs))\<close> by simp
      moreover have "\<not> starts_with [CHR 0x7D] body"
        unfolding body_def using Cons by (cases ys) (auto simp: json_text_def)
      ultimately show ?thesis by (simp add: m body_def)
    qed
  qed
next
  case 1
  show ?case unfolding reads_back_def by (intro allI impI, case_tac n) simp_all
next
  case (2 b)
  show ?case unfolding reads_back_def by (intro allI impI, case_tac n) (cases b; simp)+
next
  case (4 s)
  show ?case unfolding reads_back_def
    by (intro allI impI, case_tac n) (simp_all add: json_text_def parse_string_escaped)
qed

lemma json_loads_stable_json:
  assumes "json_ok v" shows "json_loads (stable_json v) = Some (canon v)"
proof -
  have "parse_value (Suc (length (stable_json v))) (stable_json v @ []) = Some (canon v, [])"
    using reads_back_all [OF assms] unfolding reads_back_def rest_ok_def
    by (metis le_SucI list.case(1) order_refl)
  then show ?thesis by (simp add: json_loads_def)
qed

text \<open>Equal texts mean equal values, up to the order of keys.\<close>

lemma stable_json_inject: "json_ok v \<Longrightarrow> json_ok w \<Longrightarrow> stable_json v = stable_json w \<Longrightarrow> canon v = canon w"
  by (metis json_loads_stable_json option.inject)

section \<open>Base64\<close>

text \<open>\<^verbatim>\<open>base64.b64encode\<close> and \<^verbatim>\<open>b64decode\<close> on bytes kept as characters.\<close>

definition base64_alphabet :: string where
  "base64_alphabet = ''ABCDEFGHIJKLMNOPQRSTUVWXYZabcdefghijklmnopqrstuvwxyz0123456789+/''"

definition base64_char :: "nat \<Rightarrow> char" where
  "base64_char n = base64_alphabet ! n"

fun position :: "'a \<Rightarrow> 'a list \<Rightarrow> nat option" where
  "position x [] = None"
| "position x (y # ys) = (if x = y then Some 0 else map_option Suc (position x ys))"

definition base64_value :: "char \<Rightarrow> nat option" where
  "base64_value c = position c base64_alphabet"

fun b64encode :: "string \<Rightarrow> string" where
  "b64encode [] = []"
| "b64encode [a] = (let a = of_char a in
     [base64_char (a div 4), base64_char (a mod 4 * 16), CHR ''='', CHR ''=''])"
| "b64encode [a, b] = (let a = of_char a; b = of_char b in
     [base64_char (a div 4), base64_char (a mod 4 * 16 + b div 16), base64_char (b mod 16 * 4), CHR ''=''])"
| "b64encode (a # b # c # cs) = (let a = of_char a; b = of_char b; c = of_char c in
     [base64_char (a div 4), base64_char (a mod 4 * 16 + b div 16), base64_char (b mod 16 * 4 + c div 64),
      base64_char (c mod 64)]) @ b64encode cs"

fun b64decode :: "string \<Rightarrow> string option" where
  "b64decode [] = Some []"
| "b64decode (w # x # y # z # cs) =
     (case (base64_value w, base64_value x) of
        (Some p, Some q) \<Rightarrow>
          (if z = CHR ''='' then
             (if cs \<noteq> [] then None
              else if y = CHR ''='' then Some [char_of (p * 4 + q div 16)]
              else map_option (\<lambda>r. [char_of (p * 4 + q div 16), char_of (q mod 16 * 16 + r div 4)]) (base64_value y))
           else (case (base64_value y, base64_value z) of
               (Some r, Some t) \<Rightarrow>
                 map_option (\<lambda>ds. [char_of (p * 4 + q div 16), char_of (q mod 16 * 16 + r div 4),
                   char_of (r mod 4 * 64 + t)] @ ds) (b64decode cs)
             | _ \<Rightarrow> None))
      | _ \<Rightarrow> None)"
| "b64decode _ = None"

lemma base64_value_char:
  assumes "n < 64"
  shows "base64_value (base64_char n) = Some n" and "base64_char n \<noteq> CHR ''=''"
proof -
  have "list_all (\<lambda>n. base64_value (base64_char n) = Some n \<and> base64_char n \<noteq> CHR ''='') [0..<64]" by code_simp
  then show "base64_value (base64_char n) = Some n" "base64_char n \<noteq> CHR ''=''"
    using assms by (auto simp: list_all_iff)
qed

lemma digit_pair:
  fixes x y m :: nat
  assumes "y < m"
  shows "(x * m + y) div m = x" and "(x * m + y) mod m = y"
  using assms by simp_all

lemma sextets:
  fixes a b c :: nat
  assumes "a < 256" and "b < 256" and "c < 256"
  shows "a div 4 < 64" and "a mod 4 * 16 < 64" and "a mod 4 * 16 + b div 16 < 64" and "b mod 16 * 4 < 64"
    and "b mod 16 * 4 + c div 64 < 64"
proof -
  have *: "a div 4 < 64" "b div 16 < 16" "c div 64 < 4" "a mod 4 < 4" "b mod 16 < 16"
    using assms by (simp_all add: less_mult_imp_div_less)
  then show "a div 4 < 64" "a mod 4 * 16 < 64" "a mod 4 * 16 + b div 16 < 64" "b mod 16 * 4 < 64"
    "b mod 16 * 4 + c div 64 < 64" by linarith+
qed

lemma octets:
  fixes a b c :: nat
  assumes "a < 256" and "b < 256" and "c < 256"
  shows "a div 4 * 4 + (a mod 4 * 16 + b div 16) div 16 = a"
    and "a div 4 * 4 + a mod 4 * 16 div 16 = a"
    and "(a mod 4 * 16 + b div 16) mod 16 * 16 + (b mod 16 * 4 + c div 64) div 4 = b"
    and "(a mod 4 * 16 + b div 16) mod 16 * 16 + b mod 16 * 4 div 4 = b"
    and "(b mod 16 * 4 + c div 64) mod 4 * 64 + c mod 64 = c"
proof -
  have "b div 16 < 16" "c div 64 < 4" using assms by (simp_all add: less_mult_imp_div_less)
  note * = digit_pair [OF this(1), of "a mod 4"] digit_pair [OF this(2), of "b mod 16"]
  show "a div 4 * 4 + (a mod 4 * 16 + b div 16) div 16 = a"
    "a div 4 * 4 + a mod 4 * 16 div 16 = a"
    "(a mod 4 * 16 + b div 16) mod 16 * 16 + (b mod 16 * 4 + c div 64) div 4 = b"
    "(a mod 4 * 16 + b div 16) mod 16 * 16 + b mod 16 * 4 div 4 = b"
    "(b mod 16 * 4 + c div 64) mod 4 * 64 + c mod 64 = c"
    unfolding * by (simp_all add: div_mult_mod_eq)
qed

lemma b64decode_encode: "b64decode (b64encode s) = Some s"
proof (induction s rule: b64encode.induct)
  case 1
  show ?case by simp
next
  case (2 a)
  have a: "(of_char a :: nat) < 256" by simp
  show ?case using sextets [OF a a a] octets [OF a a a] by (simp add: Let_def base64_value_char)
next
  case (3 a b)
  have a: "(of_char a :: nat) < 256" and b: "(of_char b :: nat) < 256" by simp_all
  show ?case using sextets [OF a b b] octets [OF a b b] by (simp add: Let_def base64_value_char)
next
  case (4 a b c cs)
  have a: "(of_char a :: nat) < 256" and b: "(of_char b :: nat) < 256" and c: "(of_char c :: nat) < 256" by simp_all
  show ?case using sextets [OF a b c] octets [OF a b c] 4 by (simp add: Let_def base64_value_char)
qed

end
