(* ===== verification/System_Checkpoints.thy ===== *)
theory System_Checkpoints
  imports System_Definitions Json_Text
begin

text \<open>
  \<^verbatim>\<open>CheckpointService\<close> of \<^verbatim>\<open>system/checkpoints.py\<close>: a snapshot of what is active in an
  Application, and of its production data, as a base64 text of canonical JSON that lives on the
  graph, and its restoration. Time stamps are integers in the JSON, as in the records.
\<close>

section \<open>Payloads\<close>

record definition_pointer =
  ptr_label :: string
  ptr_revision_label :: string
  ptr_id :: string
  ptr_active :: "string option"

record checkpoint_payload =
  pl_application_id :: string
  pl_active_revision_id :: "string option"
  pl_revision_statuses :: "(string, revision_status) dict"
  pl_definitions :: "definition_pointer list"
  pl_data :: "(application_object list \<times> app_relation list) option"

text \<open>\<^verbatim>\<open>model_dump(mode="json")\<close> of an object; that of a relation is \<open>relation_props\<close>.\<close>

definition object_props :: "application_object \<Rightarrow> (string, json) dict" where
  "object_props r =
     [(''id'', JStr (obj_id r)), (''application_id'', JStr (obj_application_id r)),
      (''data_space_id'', JStr (obj_data_space_id r)), (''object_type_id'', JStr (obj_object_type_id r)),
      (''object_type_revision_id'', json_opt (obj_object_type_revision_id r)),
      (''values'', JObj (obj_values r)),
      (''created_at'', JInt (obj_created_at r)), (''updated_at'', JInt (obj_updated_at r))]"

definition pointer_json :: "definition_pointer \<Rightarrow> json" where
  "pointer_json p = JObj [(''label'', JStr (ptr_label p)), (''revision_label'', JStr (ptr_revision_label p)),
     (''id'', JStr (ptr_id p)), (''active_revision_id'', json_opt (ptr_active p))]"

definition payload_json :: "checkpoint_payload \<Rightarrow> json" where
  "payload_json p = JObj
     ([(''format_version'', JInt 1), (''application_id'', JStr (pl_application_id p)),
       (''active_revision_id'', json_opt (pl_active_revision_id p)),
       (''revision_statuses'', JObj (map (\<lambda>(i, st). (i, JStr (revision_status_text st))) (pl_revision_statuses p))),
       (''definitions'', JArr (map pointer_json (pl_definitions p)))] @
      (case pl_data p of None \<Rightarrow> []
       | Some (os, rs) \<Rightarrow> [(''objects'', JArr (map (\<lambda>r. JObj (object_props r)) os)),
           (''relations'', JArr (map (\<lambda>r. JObj (relation_props r)) rs))]))"

text \<open>The collections of \<^verbatim>\<open>_DEFINITION_SETS\<close>, in their order.\<close>

definition pointers_of ::
  "string \<Rightarrow> string \<Rightarrow> 'm collection \<Rightarrow> ('m \<Rightarrow> string) \<Rightarrow> ('m \<Rightarrow> string) \<Rightarrow> ('m \<Rightarrow> string option) \<Rightarrow>
   string \<Rightarrow> node_value graph \<Rightarrow> definition_pointer list" where
  "pointers_of label rev_label c the_id the_app the_active app g =
     map (\<lambda>m. \<lparr>ptr_label = label, ptr_revision_label = rev_label, ptr_id = the_id m, ptr_active = the_active m\<rparr>)
       (filter (\<lambda>m. the_app m = app) (coll_values c g))"

definition captured_pointers :: "string \<Rightarrow> node_value graph \<Rightarrow> definition_pointer list" where
  "captured_pointers app g =
     pointers_of ''Action'' ''ActionRevision'' actions_coll act_id act_application_id act_active_revision_id app g @
     pointers_of ''Trigger'' ''TriggerRevision'' triggers_coll trig_id trig_application_id trig_active_revision_id app g @
     pointers_of ''ObjectType'' ''ObjectTypeRevision'' object_types_coll otype_id otype_application_id
       otype_active_revision_id app g @
     pointers_of ''RelationType'' ''RelationTypeRevision'' relation_types_coll rtype_id rtype_application_id
       rtype_active_revision_id app g"

definition capture_payload :: "string \<Rightarrow> bool \<Rightarrow> node_value graph \<Rightarrow> exn + checkpoint_payload" where
  "capture_payload app include_data g =
     rbind (coll_item applications_coll (key app) g) (\<lambda>a. Inr
       \<lparr>pl_application_id = app, pl_active_revision_id = app_active_revision_id a,
        pl_revision_statuses = map (\<lambda>r. (rev_id r, rev_status r))
          (filter (\<lambda>r. rev_application_id r = app) (coll_values revisions_coll g)),
        pl_definitions = sort_key (\<lambda>p. [ptr_label p, ptr_id p]) (captured_pointers app g),
        pl_data = (if include_data
          then Some (object_list app None ''production'' g, relation_list app None None None ''production'' g)
          else None)\<rparr>)"

section \<open>Reading a payload\<close>

definition field :: "(string, json) dict \<Rightarrow> string \<Rightarrow> (json \<Rightarrow> 'a option) \<Rightarrow> exn + 'a" where
  "field d k f = (case Option.bind (dict_get d k) f of None \<Rightarrow> Inl (ValueError k) | Some v \<Rightarrow> Inr v)"

definition as_str :: "json \<Rightarrow> string option" where
  "as_str j = (case j of JStr s \<Rightarrow> Some s | _ \<Rightarrow> None)"

definition as_opt :: "json \<Rightarrow> string option option" where
  "as_opt j = (case j of JNull \<Rightarrow> Some None | JStr s \<Rightarrow> Some (Some s) | _ \<Rightarrow> None)"

definition as_int :: "json \<Rightarrow> int option" where
  "as_int j = (case j of JInt i \<Rightarrow> Some i | _ \<Rightarrow> None)"

definition as_obj :: "json \<Rightarrow> (string, json) dict option" where
  "as_obj j = (case j of JObj d \<Rightarrow> Some d | _ \<Rightarrow> None)"

definition as_arr :: "json \<Rightarrow> json list option" where
  "as_arr j = (case j of JArr xs \<Rightarrow> Some xs | _ \<Rightarrow> None)"

definition object_of_json :: "json \<Rightarrow> exn + application_object" where
  "object_of_json j = (case j of
     JObj d \<Rightarrow>
       rbind (field d ''id'' as_str) (\<lambda>i. rbind (field d ''application_id'' as_str) (\<lambda>app.
       rbind (field d ''data_space_id'' as_str) (\<lambda>space. rbind (field d ''object_type_id'' as_str) (\<lambda>ty.
       rbind (field d ''object_type_revision_id'' as_opt) (\<lambda>tr. rbind (field d ''values'' as_obj) (\<lambda>vs.
       rbind (field d ''created_at'' as_int) (\<lambda>c. rbind (field d ''updated_at'' as_int) (\<lambda>u.
       Inr \<lparr>obj_id = i, obj_application_id = app, obj_data_space_id = space, obj_object_type_id = ty,
         obj_object_type_revision_id = tr, obj_values = vs, obj_created_at = c, obj_updated_at = u\<rparr>))))))))
   | _ \<Rightarrow> Inl (ValueError ''ApplicationObject''))"

definition relation_of_json :: "json \<Rightarrow> exn + app_relation" where
  "relation_of_json j = (case j of
     JObj d \<Rightarrow>
       rbind (field d ''id'' as_str) (\<lambda>i. rbind (field d ''application_id'' as_str) (\<lambda>app.
       rbind (field d ''data_space_id'' as_str) (\<lambda>space. rbind (field d ''relation_type_id'' as_str) (\<lambda>ty.
       rbind (field d ''relation_type_revision_id'' as_opt) (\<lambda>tr. rbind (field d ''physical_type'' as_opt) (\<lambda>pt.
       rbind (field d ''from_object_id'' as_str) (\<lambda>f. rbind (field d ''to_object_id'' as_str) (\<lambda>t.
       rbind (field d ''values'' as_obj) (\<lambda>vs. rbind (field d ''created_by_invocation_id'' as_opt) (\<lambda>ci.
       rbind (field d ''updated_by_invocation_id'' as_opt) (\<lambda>ui.
       rbind (field d ''created_at'' as_int) (\<lambda>c. rbind (field d ''updated_at'' as_int) (\<lambda>u.
       Inr \<lparr>rel_id = i, rel_application_id = app, rel_data_space_id = space, rel_relation_type_id = ty,
         rel_relation_type_revision_id = tr, rel_physical_type = pt, rel_from_object_id = f, rel_to_object_id = t,
         rel_values = vs, rel_created_by_invocation_id = ci, rel_updated_by_invocation_id = ui,
         rel_created_at = c, rel_updated_at = u\<rparr>)))))))))))))
   | _ \<Rightarrow> Inl (ValueError ''ApplicationRelation''))"

definition status_of_text :: "string \<Rightarrow> revision_status option" where
  "status_of_text s = find (\<lambda>st. revision_status_text st = s)
     [Rev_draft, Rev_validating, Rev_active, Rev_rejected, Rev_superseded]"

definition status_entry :: "string \<times> json \<Rightarrow> exn + (string \<times> revision_status)" where
  "status_entry kv = (case Option.bind (as_str (snd kv)) status_of_text of
     None \<Rightarrow> Inl (ValueError (fst kv)) | Some st \<Rightarrow> Inr (fst kv, st))"

definition pointer_of_json :: "json \<Rightarrow> exn + definition_pointer" where
  "pointer_of_json j = (case j of
     JObj d \<Rightarrow>
       rbind (field d ''label'' as_str) (\<lambda>l. rbind (field d ''revision_label'' as_str) (\<lambda>rl.
       rbind (field d ''id'' as_str) (\<lambda>i. rbind (field d ''active_revision_id'' as_opt) (\<lambda>a.
       Inr \<lparr>ptr_label = l, ptr_revision_label = rl, ptr_id = i, ptr_active = a\<rparr>))))
   | _ \<Rightarrow> Inl (ValueError ''definitions''))"

text \<open>\<^verbatim>\<open>payload.get("objects", [])\<close> and its like: an absent list is empty.\<close>

definition items_of :: "(string, json) dict \<Rightarrow> string \<Rightarrow> (json \<Rightarrow> exn + 'a) \<Rightarrow> exn + 'a list" where
  "items_of d k f = (case dict_get d k of None \<Rightarrow> Inr []
     | Some (JArr xs) \<Rightarrow> map_result f xs | Some _ \<Rightarrow> Inl (ValueError k))"

definition payload_of_json :: "json \<Rightarrow> exn + checkpoint_payload" where
  "payload_of_json j = (case j of
     JObj d \<Rightarrow>
       rbind (field d ''application_id'' as_str) (\<lambda>app. rbind (field d ''active_revision_id'' as_opt) (\<lambda>act.
       rbind (field d ''revision_statuses'' as_obj) (\<lambda>ss. rbind (map_result status_entry ss) (\<lambda>sts.
       rbind (field d ''definitions'' as_arr) (\<lambda>ds. rbind (map_result pointer_of_json ds) (\<lambda>ps.
       rbind (items_of d ''objects'' object_of_json) (\<lambda>os. rbind (items_of d ''relations'' relation_of_json) (\<lambda>rs.
       Inr \<lparr>pl_application_id = app, pl_active_revision_id = act, pl_revision_statuses = sts,
         pl_definitions = ps, pl_data = Some (os, rs)\<rparr>))))))))
   | _ \<Rightarrow> Inl (ValueError ''checkpoint payload''))"

section \<open>Creating a checkpoint\<close>

definition checkpoint_create ::
  "(string \<Rightarrow> string) \<Rightarrow> string \<Rightarrow> checkpoint_level \<Rightarrow> string \<Rightarrow> ('z svc_scheme, graph_checkpoint) op" where
  "checkpoint_create sha app level reason = atomically
     (bindE (item_of applications_coll (key app)) (\<lambda>a.
      bindE new_uuid (\<lambda>i.
      bindE (reads (capture_payload app (level = Level_application_data))) (\<lambda>p.
      bindE now_utc (\<lambda>t1. bindE now_utc (\<lambda>t2. bindE now_utc (\<lambda>t3.
      (let snap = i @ ''.snapshot''; blob = i @ ''.blob'';
           serialized = stable_json (payload_json p);
           checkpoint = \<lparr>ckpt_id = i, ckpt_level = level, ckpt_application_id = app,
             ckpt_application_revision_id = app_active_revision_id a, ckpt_snapshot_id = snap,
             ckpt_created_at = t1, ckpt_reason = reason\<rparr>;
           ref = id_ref ''GraphCheckpoint'' i
       in
      bindE (save_to checkpoints_coll checkpoint) (\<lambda>_.
      bindE (save_to checkpoint_snapshots_coll
         \<lparr>snap_id = snap, snap_checkpoint_id = i, snap_level = level, snap_format_version = 1,
          snap_content_hash = sha256_text sha serialized, snap_blob_id = blob,
          snap_object_count = (case pl_data p of None \<Rightarrow> 0 | Some (os, rs) \<Rightarrow> int (length os)),
          snap_relation_count = (case pl_data p of None \<Rightarrow> 0 | Some (os, rs) \<Rightarrow> int (length rs)),
          snap_created_at = t2\<rparr>) (\<lambda>_.
      bindE (save_to checkpoint_blobs_coll
         \<lparr>cblob_id = blob, cblob_checkpoint_id = i, cblob_snapshot_id = snap,
          cblob_encoding = ''base64_json'', cblob_payload = b64encode serialized, cblob_created_at = t3\<rparr>) (\<lambda>_.
      bindE (link (id_ref ''Application'' app) ''HAS_CHECKPOINT'' ref) (\<lambda>_.
      bindE (case app_active_revision_id a of None \<Rightarrow> ret ()
             | Some rid \<Rightarrow> link ref ''CAPTURES_REVISION'' (id_ref ''ApplicationRevision'' rid)) (\<lambda>_.
      bindE (link ref ''HAS_SNAPSHOT'' (id_ref ''CheckpointSnapshot'' snap)) (\<lambda>_.
      bindE (link (id_ref ''CheckpointSnapshot'' snap) ''HAS_BLOB'' (id_ref ''CheckpointBlob'' blob)) (\<lambda>_.
      ret checkpoint)))))))))))))))"

section \<open>Restoring a checkpoint\<close>

text \<open>The active pointer of a record, and the edge that repeats it.\<close>

definition reset_pointer :: "node_ref \<Rightarrow> string \<Rightarrow> string option \<Rightarrow> ('z svc_scheme, unit) op" where
  "reset_pointer ref rev_label active =
     bindE (writes (delete_edge ref ''ACTIVE_REVISION'' None None)) (\<lambda>_.
     case active of None \<Rightarrow> ret () | Some i \<Rightarrow> link ref ''ACTIVE_REVISION'' (id_ref rev_label i))"

definition restore_status :: "string \<times> revision_status \<Rightarrow> ('z svc_scheme, unit) op" where
  "restore_status entry =
     bindE (asks (coll_get revisions_coll (key (fst entry)))) (\<lambda>x.
       (case x of None \<Rightarrow> ret () | Some r \<Rightarrow> save_to revisions_coll (r\<lparr>rev_status := snd entry\<rparr>)))"

definition restore_pointer :: "definition_pointer \<Rightarrow> ('z svc_scheme, unit) op" where
  "restore_pointer p =
     (let l = ptr_label p; i = key (ptr_id p); a = ptr_active p in
      bindE (if l = ''Action''
             then bindE (item_of actions_coll i) (\<lambda>m. save_to actions_coll (m\<lparr>act_active_revision_id := a\<rparr>))
             else if l = ''Trigger''
             then bindE (item_of triggers_coll i) (\<lambda>m. save_to triggers_coll (m\<lparr>trig_active_revision_id := a\<rparr>))
             else if l = ''ObjectType''
             then bindE (item_of object_types_coll i) (\<lambda>m. save_to object_types_coll (m\<lparr>otype_active_revision_id := a\<rparr>))
             else if l = ''RelationType''
             then bindE (item_of relation_types_coll i) (\<lambda>m. save_to relation_types_coll (m\<lparr>rtype_active_revision_id := a\<rparr>))
             else raise (KeyError l)) (\<lambda>_.
      reset_pointer (id_ref l (ptr_id p)) (l @ ''Revision'') a))"

definition restore_revision_state :: "string \<Rightarrow> checkpoint_payload \<Rightarrow> ('z svc_scheme, unit) op" where
  "restore_revision_state app p =
     bindE (require (pl_application_id p = app) (ValueError ''checkpoint application identity mismatch'')) (\<lambda>_.
     bindE (item_of applications_coll (key app)) (\<lambda>a.
     bindE (save_to applications_coll (a\<lparr>app_active_revision_id := pl_active_revision_id p\<rparr>)) (\<lambda>_.
     bindE (reset_pointer (id_ref ''Application'' app) ''ApplicationRevision'' (pl_active_revision_id p)) (\<lambda>_.
     bindE (for_each restore_status (pl_revision_statuses p)) (\<lambda>_.
     for_each restore_pointer (pl_definitions p))))))"

definition restore_application_data ::
  "string \<Rightarrow> application_object list \<Rightarrow> app_relation list \<Rightarrow> ('z svc_scheme, unit) op" where
  "restore_application_data app os rs =
     bindE (asks (relation_list app None None None ''production'')) (\<lambda>old_rs.
     bindE (for_each (\<lambda>r. writes (relation_delete r)) old_rs) (\<lambda>_.
     bindE (asks (object_list app None ''production'')) (\<lambda>old_os.
     bindE (for_each (\<lambda>r. writes (object_delete (obj_application_id r) (obj_id r) (obj_data_space_id r))) old_os) (\<lambda>_.
     bindE (for_each (\<lambda>r. bindE (writes (object_save r)) (\<lambda>_. writes (object_attach r None))) os) (\<lambda>_.
     for_each (\<lambda>r. store_op (relation_save r)) rs)))))"

definition checkpoint_restore :: "(string \<Rightarrow> string) \<Rightarrow> string \<Rightarrow> ('z svc_scheme, graph_checkpoint) op" where
  "checkpoint_restore sha i = atomically
     (bindE (item_of checkpoints_coll (key i)) (\<lambda>c.
      bindE (item_of checkpoint_snapshots_coll (key (ckpt_snapshot_id c))) (\<lambda>snap.
      bindE (item_of checkpoint_blobs_coll (key (snap_blob_id snap))) (\<lambda>blob.
      case b64decode (cblob_payload blob) of
        None \<Rightarrow> raise (ValueError ''Incorrect padding'')
      | Some serialized \<Rightarrow>
          bindE (require (sha256_text sha serialized = snap_content_hash snap)
             (ValueError (''checkpoint snapshot hash mismatch: '' @ i))) (\<lambda>_.
          (case json_loads serialized of
             None \<Rightarrow> raise (ValueError ''Expecting value'')
           | Some j \<Rightarrow>
               bindE (lift_result (payload_of_json j)) (\<lambda>p.
               bindE (restore_revision_state (ckpt_application_id c) p) (\<lambda>_.
               bindE (case (ckpt_level c, pl_data p) of
                   (Level_application_data, Some (os, rs)) \<Rightarrow>
                     restore_application_data (ckpt_application_id c) os rs
                 | _ \<Rightarrow> ret ()) (\<lambda>_.
               ret c)))))))))"

definition checkpoint_list :: "string option \<Rightarrow> node_value graph \<Rightarrow> graph_checkpoint list" where
  "checkpoint_list app g = sort_key ckpt_created_at
     (filter (\<lambda>c. app = None \<or> app = Some (ckpt_application_id c)) (coll_values checkpoints_coll g))"

section \<open>Laws: what is captured is what is read\<close>

definition canon_dict :: "(string, json) dict \<Rightarrow> (string, json) dict" where
  "canon_dict d = map (\<lambda>kv. (fst kv, canon (snd kv))) (sort_key fst d)"

definition canon_object :: "application_object \<Rightarrow> application_object" where
  "canon_object r = r\<lparr>obj_values := canon_dict (obj_values r)\<rparr>"

definition canon_relation :: "app_relation \<Rightarrow> app_relation" where
  "canon_relation r = r\<lparr>rel_values := canon_dict (rel_values r)\<rparr>"

lemma canon_obj: "canon (JObj d) = JObj (canon_dict d)"
  by (simp add: canon_dict_def)

lemma canon_opt [simp]: "canon (json_opt x) = json_opt x" "json_ok (json_opt x)"
  by (simp_all add: json_opt_def split: option.splits)

lemma as_opt_json_opt [simp]: "as_opt (json_opt x) = Some x"
  by (simp add: as_opt_def json_opt_def split: option.splits)

lemma map_of_sorted: "distinct (map fst d) \<Longrightarrow> map_of (sort_key fst d) = map_of d"
  by (subst map_of_inject_set) (simp_all add: distinct_map)

lemma dict_get_canon: "distinct (map fst d) \<Longrightarrow> dict_get (canon_dict d) k = map_option canon (dict_get d k)"
  using map_of_map [of canon "sort_key fst d"] map_of_sorted [of d]
  by (simp add: canon_dict_def case_prod_unfold)

lemma field_canon:
  "distinct (map fst d) \<Longrightarrow> field (canon_dict d) k f =
     (case Option.bind (dict_get d k) (\<lambda>v. f (canon v)) of None \<Rightarrow> Inl (ValueError k) | Some v \<Rightarrow> Inr v)"
  by (cases "dict_get d k") (simp_all add: field_def dict_get_canon)

lemma object_read_back: "object_of_json (canon (JObj (object_props r))) = Inr (canon_object r)"
proof -
  have d: "distinct (map fst (object_props r))" by (simp add: object_props_def)
  show ?thesis unfolding canon_obj object_of_json_def json.case field_canon [OF d]
    by (simp add: object_props_def as_str_def as_int_def as_obj_def canon_object_def canon_obj del: canon.simps(6))
qed

lemma relation_read_back: "relation_of_json (canon (JObj (relation_props r))) = Inr (canon_relation r)"
proof -
  have d: "distinct (map fst (relation_props r))" by (simp add: relation_props_def)
  show ?thesis unfolding canon_obj relation_of_json_def json.case field_canon [OF d]
    by (simp add: relation_props_def as_str_def as_int_def as_obj_def canon_relation_def canon_obj del: canon.simps(6))
qed

lemma pointer_read_back: "pointer_of_json (canon (pointer_json p)) = Inr p"
proof -
  let ?d = "[(''label'', JStr (ptr_label p)), (''revision_label'', JStr (ptr_revision_label p)),
     (''id'', JStr (ptr_id p)), (''active_revision_id'', json_opt (ptr_active p))]"
  have d: "distinct (map fst ?d)" by simp
  show ?thesis unfolding pointer_json_def canon_obj pointer_of_json_def json.case field_canon [OF d]
    by (simp add: as_str_def)
qed

lemma status_read_back: "status_entry (i, canon (JStr (revision_status_text st))) = Inr (i, st)"
  by (cases st) (simp_all add: status_entry_def as_str_def status_of_text_def revision_status_text_def)

lemma map_result_read: "(\<And>x. x \<in> set xs \<Longrightarrow> f (h x) = Inr (k x)) \<Longrightarrow> map_result f (map h xs) = Inr (map k xs)"
  by (induction xs) auto

text \<open>What \<^verbatim>\<open>json.loads\<close> makes of a payload.\<close>

definition canon_payload :: "checkpoint_payload \<Rightarrow> checkpoint_payload" where
  "canon_payload p = p\<lparr>pl_revision_statuses := sort_key fst (pl_revision_statuses p),
     pl_data := Some (case pl_data p of None \<Rightarrow> ([], [])
       | Some (os, rs) \<Rightarrow> (map canon_object os, map canon_relation rs))\<rparr>"

lemma sort_map_fst:
  assumes "\<And>x. fst (h x) = fst x"
  shows "sort_key fst (map h xs) = map h (sort_key fst xs)"
proof (induction xs)
  case (Cons x xs)
  have "insort_key fst (h x) (map h ys) = map h (insort_key fst x ys)" for ys
    by (induction ys) (simp_all add: assms)
  with Cons show ?case by simp
qed simp

lemma statuses_read_back:
  "map_result status_entry (canon_dict (map (\<lambda>(i, st). (i, JStr (revision_status_text st))) ss)) = Inr (sort_key fst ss)"
proof -
  have "sort_key fst (map (\<lambda>(i, st). (i, JStr (revision_status_text st))) ss) =
      map (\<lambda>(i, st). (i, JStr (revision_status_text st))) (sort_key fst ss)"
    by (rule sort_map_fst) auto
  then have "canon_dict (map (\<lambda>(i, st). (i, JStr (revision_status_text st))) ss) =
      map (\<lambda>kv. (fst kv, canon (JStr (revision_status_text (snd kv))))) (sort_key fst ss)"
    by (simp add: canon_dict_def case_prod_unfold)
  then show ?thesis using map_result_read [of "sort_key fst ss" status_entry _ "\<lambda>kv. kv"] status_read_back by simp
qed

lemma payload_read_back: "payload_of_json (canon (payload_json p)) = Inr (canon_payload p)"
proof -
  let ?base = "[(''format_version'', JInt 1), (''application_id'', JStr (pl_application_id p)),
       (''active_revision_id'', json_opt (pl_active_revision_id p)),
       (''revision_statuses'', JObj (map (\<lambda>(i, st). (i, JStr (revision_status_text st))) (pl_revision_statuses p))),
       (''definitions'', JArr (map pointer_json (pl_definitions p)))]"
  have ps: "map_result pointer_of_json (map canon (map pointer_json (pl_definitions p))) = Inr (pl_definitions p)"
    using map_result_read [of "pl_definitions p" pointer_of_json "\<lambda>x. canon (pointer_json x)" "\<lambda>x. x"] pointer_read_back
    by (simp add: comp_def)
  have os: "map_result object_of_json (map canon (map (\<lambda>r. JObj (object_props r)) os)) = Inr (map canon_object os)" for os
    using map_result_read [of os object_of_json "\<lambda>r. canon (JObj (object_props r))" canon_object] object_read_back
    by (simp add: comp_def)
  have rs: "map_result relation_of_json (map canon (map (\<lambda>r. JObj (relation_props r)) rs)) = Inr (map canon_relation rs)" for rs
    using map_result_read [of rs relation_of_json "\<lambda>r. canon (JObj (relation_props r))" canon_relation] relation_read_back
    by (simp add: comp_def)
  show ?thesis
  proof (cases "pl_data p")
    case None
    have d: "distinct (map fst ?base)" by simp
    show ?thesis
      using None ps statuses_read_back
      unfolding payload_json_def None option.case append_Nil2 canon_obj payload_of_json_def json.case field_canon [OF d]
        items_of_def dict_get_canon [OF d]
      by (simp add: as_str_def as_obj_def as_arr_def canon_payload_def canon_obj None del: canon.simps(6))
  next
    case (Some x)
    obtain os' rs' where x: "x = (os', rs')" by (cases x)
    have d: "distinct (map fst (?base @ [(''objects'', JArr (map (\<lambda>r. JObj (object_props r)) os')),
           (''relations'', JArr (map (\<lambda>r. JObj (relation_props r)) rs'))]))" by simp
    show ?thesis
      using Some ps statuses_read_back os rs
      unfolding payload_json_def Some x option.case prod.case canon_obj payload_of_json_def json.case field_canon [OF d]
        items_of_def dict_get_canon [OF d]
      by (simp add: as_str_def as_obj_def as_arr_def canon_payload_def canon_obj Some x del: canon.simps(6))
  qed
qed

text \<open>A payload of Python dictionaries is one.\<close>

definition payload_ok :: "checkpoint_payload \<Rightarrow> bool" where
  "payload_ok p \<longleftrightarrow> distinct (map fst (pl_revision_statuses p)) \<and>
     (case pl_data p of None \<Rightarrow> True
      | Some (os, rs) \<Rightarrow> list_all (\<lambda>r. json_ok (JObj (obj_values r))) os \<and> list_all (\<lambda>r. json_ok (JObj (rel_values r))) rs)"

lemma payload_json_ok:
  assumes "payload_ok p" shows "json_ok (payload_json p)"
proof -
  have "list_all json_ok (map pointer_json ps)" for ps
    by (induction ps) (simp_all add: pointer_json_def)
  moreover have "list_all (\<lambda>r. json_ok (JObj (obj_values r))) os \<Longrightarrow>
      list_all json_ok (map (\<lambda>r. JObj (object_props r)) os)" for os
    by (induction os) (simp_all add: object_props_def)
  moreover have "list_all (\<lambda>r. json_ok (JObj (rel_values r))) rs \<Longrightarrow>
      list_all json_ok (map (\<lambda>r. JObj (relation_props r)) rs)" for rs
    by (induction rs) (simp_all add: relation_props_def)
  moreover have "list_all (\<lambda>kv. json_ok (snd kv)) (map (\<lambda>(i, st). (i, JStr (revision_status_text st))) ss)" for ss
    by (induction ss) auto
  moreover have "fst \<circ> (\<lambda>(i :: string, st). (i, JStr (revision_status_text st))) = fst"
    by (auto simp: fun_eq_iff)
  ultimately show ?thesis
    using assms by (auto simp: payload_json_def payload_ok_def split: option.splits prod.splits)
qed

lemma payload_text_read_back:
  "payload_ok p \<Longrightarrow> b64decode (b64encode (stable_json (payload_json p))) = Some (stable_json (payload_json p)) \<and>
    (\<exists>j. json_loads (stable_json (payload_json p)) = Some j \<and> payload_of_json j = Inr (canon_payload p))"
  by (simp add: b64decode_encode json_loads_stable_json payload_json_ok payload_read_back)

end
