(* ===== verification/Service_Properties.thy ===== *)
theory Service_Properties
  imports Experience_Access System_Checkpoints Job_Properties
begin

text \<open>
  The properties of the services an Experience and an Action reach: the bridge of the Experience,
  its secrets, the delivery of files and the callback routes.
\<close>

section \<open>The bridge\<close>

text \<open>C16: Over the bridge an Experience runs an Action only when the active revision of the Experience
  declares the Application and allows the Action, the Application is active, and its active revision
  binds the Action: any other call raises before the runtime is asked and changes nothing, whatever
  the runtime, the input and the identifiers are.\<close>

theorem bridge_runs_only_declared_actions:
  assumes "\<not> may_invoke exp app aid (svc_graph s)"
  shows "\<exists>e. access_invoke_action run env parse exp app aid input s = (Inl e, s)"
  using assms by (rule invoke_denied)

text \<open>
  An Experience whose active revision declares one Application, one of its Actions, one secret
  and one object type.
\<close>

definition sample_access :: application_access_declaration where
  "sample_access = \<lparr>access_application_id = ''a'', access_object_type_ids = Some [''ot''], access_relation_type_ids = None,
     access_action_ids = Some [''act''], access_secret_reference_ids = Some [''sec'']\<rparr>"

definition sample_exprev :: experience_revision where
  "sample_exprev = \<lparr>exprev_id = ''er'', exprev_experience_id = ''e'', exprev_parent_revision_id = None,
     exprev_ui_profile = Ui_none, exprev_status = Rev_active, exprev_created_at = 0, exprev_created_by = [],
     exprev_application_access = [sample_access]\<rparr>"

definition sample_experience :: experience where
  "sample_experience = \<lparr>exp_id = ''e'', exp_name = [], exp_description = [], exp_active_revision_id = Some ''er'',
     exp_status = App_active, exp_created_at = 0\<rparr>"

definition sample_object :: "string \<Rightarrow> string \<Rightarrow> application_object" where
  "sample_object i t = \<lparr>obj_id = i, obj_application_id = ''a'', obj_data_space_id = ''production'',
     obj_object_type_id = t, obj_object_type_revision_id = None, obj_values = [], obj_created_at = 0, obj_updated_at = 0\<rparr>"

definition sample_bridge :: svc where
  "sample_bridge = sample_svc\<lparr>svc_graph :=
     coll_save objects_coll (sample_object ''o1'' ''ot'') (coll_save objects_coll (sample_object ''o2'' ''other'')
     (coll_save revisions_coll sample_apprev (coll_save applications_coll (sample_app App_active)
     (coll_save experience_revisions_coll sample_exprev (coll_save experiences_coll sample_experience empty_graph)))))\<rparr>"

lemmas sample_bridge_defs = sample_bridge_def sample_svc_def coll_get_def coll_save_def get_node_def upsert_node_def
  empty_graph_def experiences_coll_def experience_revisions_coll_def applications_coll_def revisions_coll_def
  objects_coll_def key_def sample_experience_def sample_exprev_def sample_app_def sample_apprev_def sample_object_def

lemma sample_bridge_get:
  "coll_get experiences_coll (key ''e'') (svc_graph sample_bridge) = Some sample_experience"
  "coll_get experience_revisions_coll (key ''er'') (svc_graph sample_bridge) = Some sample_exprev"
  by (simp_all add: sample_bridge_defs)

lemma sample_bridge_declares:
  "declares ''e'' app r d a (svc_graph sample_bridge) \<Longrightarrow> d = sample_access"
proof -
  assume "declares ''e'' app r d a (svc_graph sample_bridge)"
  then have "r = sample_exprev" "d \<in> set (exprev_application_access r)"
    by (auto simp: declares_def sample_bridge_get sample_experience_def)
  then show ?thesis by (simp add: sample_exprev_def)
qed

theorem bridge_runs_only_declared_actions_witness:
  "(\<exists>x. application_access ''e'' ''a'' (svc_graph sample_bridge) = Inr x) \<and>
   (\<forall>run env parse. \<exists>e. access_invoke_action run env parse ''e'' ''a'' ''forbidden'' [] sample_bridge = (Inl e, sample_bridge))"
proof -
  have "\<not> may_invoke ''e'' ''a'' ''forbidden'' (svc_graph sample_bridge)"
    using sample_bridge_declares by (fastforce simp: may_invoke_def allows_def sample_access_def)
  from bridge_runs_only_declared_actions [OF this]
  show ?thesis
    by (auto simp: application_access_def active_revision_def require_active_application_def sample_access_def sample_bridge_defs)
qed

text \<open>C17: Over the bridge an Experience sets, queries and deletes only the secrets its active revision lists
  for an active Application that owns them: for any other secret each of the three calls raises
  before the backend is asked and changes neither the graph nor the backend.\<close>

theorem bridge_reaches_only_declared_secrets:
  assumes "\<not> may_use_secret exp app i (svc_graph s)"
  shows "(\<exists>e. access_set_secret_value bset exp app i v s = (Inl e, s)) \<and>
    (\<exists>e. access_secret_status bget exp app i s = (Inl e, s)) \<and>
    (\<exists>e. access_delete_secret_value bdelete exp app i s = (Inl e, s))"
  using secret_denied [OF assms] by blast

definition sample_reference :: "string \<Rightarrow> secret_reference" where
  "sample_reference i = \<lparr>secret_id = i, secret_application_id = ''a'', secret_uri = ''secret://'' @ i,
     secret_backend = Secret_encrypted_local, secret_name = i, secret_description = [],
     secret_created_at = 0, secret_updated_at = 0\<rparr>"

text \<open>The sample with two secrets of the Application, one of them declared, and an empty vault.\<close>

definition sample_vault :: "((string, string) dict option, unit) secret_world_scheme" where
  "sample_vault = \<lparr>svc_graph = coll_save secret_references_coll (sample_reference ''sec'')
       (coll_save secret_references_coll (sample_reference ''other'') (svc_graph sample_bridge)),
     svc_clock = int, svc_ticks = 0, svc_ids = (\<lambda>n. replicate n CHR ''x''), svc_drawn = 0, backend = None\<rparr>"

lemma sample_vault_get:
  "coll_get experiences_coll i (svc_graph sample_vault) = coll_get experiences_coll i (svc_graph sample_bridge)"
  "coll_get experience_revisions_coll i (svc_graph sample_vault) = coll_get experience_revisions_coll i (svc_graph sample_bridge)"
  "coll_get secret_references_coll (key ''sec'') (svc_graph sample_vault) = Some (sample_reference ''sec'')"
  "coll_get secret_references_coll (key ''other'') (svc_graph sample_vault) = Some (sample_reference ''other'')"
proof -
  show "coll_get secret_references_coll (key ''sec'') (svc_graph sample_vault) = Some (sample_reference ''sec'')"
    "coll_get secret_references_coll (key ''other'') (svc_graph sample_vault) = Some (sample_reference ''other'')"
    by (simp_all add: sample_vault_def get_save_reference) (simp_all add: sample_reference_def)
qed (simp_all add: sample_vault_def coll_get_def coll_save_def get_node_def upsert_node_def experiences_coll_def
    experience_revisions_coll_def secret_references_coll_def dict_simps)

theorem bridge_reaches_only_declared_secrets_witness:
  "coll_get secret_references_coll (key ''other'') (svc_graph sample_vault) = Some (sample_reference ''other'') \<and>
   (\<forall>bset v. \<exists>e. access_set_secret_value bset ''e'' ''a'' ''other'' v sample_vault = (Inl e, sample_vault))"
proof -
  have "d = sample_access" if "declares ''e'' app r d a (svc_graph sample_vault)" for app r d a
  proof -
    from that have "r = sample_exprev" "d \<in> set (exprev_application_access r)"
      by (auto simp: declares_def sample_vault_get sample_bridge_get sample_experience_def)
    then show ?thesis by (simp add: sample_exprev_def)
  qed
  then have "\<not> may_use_secret ''e'' ''a'' ''other'' (svc_graph sample_vault)"
    by (fastforce simp: may_use_secret_def sample_access_def)
  from bridge_reaches_only_declared_secrets [OF this] show ?thesis by (simp add: sample_vault_get)
qed

text \<open>A listing of objects over the bridge shows only objects of the Application asked for, of its
  production data, and of object types the active revision of the Experience allows.\<close>

theorem bridge_lists_only_declared_objects:
  assumes "access_list_objects exp app otype (svc_graph s) = Inr xs"
  shows "\<forall>x\<in>set xs. obj_application_id x = app \<and> obj_data_space_id x = ''production'' \<and>
    (\<exists>r d a. declares exp app r d a (svc_graph s) \<and> allows (access_object_type_ids d) (obj_object_type_id x))"
  using listed_objects_declared [OF assms] by blast

theorem bridge_lists_only_declared_objects_witness:
  "\<exists>xs. access_list_objects ''e'' ''a'' None (svc_graph sample_bridge) = Inr xs \<and> xs \<noteq> [] \<and>
     (\<forall>x\<in>set xs. obj_object_type_id x = ''ot'')"
proof -
  have "access_list_objects ''e'' ''a'' None (svc_graph sample_bridge) = Inr [sample_object ''o1'' ''ot'']"
    by (simp add: access_list_objects_def application_access_def active_revision_def require_active_application_def
        sample_bridge_defs objects_list_def object_list_def coll_values_def list_nodes_def sample_access_def allows_def)
  moreover from bridge_lists_only_declared_objects [OF this]
  have "obj_object_type_id x = ''ot''" if "x \<in> set [sample_object ''o1'' ''ot'']" for x
    using that sample_bridge_declares by (fastforce simp: allows_def sample_access_def)
  ultimately show ?thesis by auto
qed

section \<open>Secrets\<close>

text \<open>C18: With the encrypted local backend a secret that is set under the URI of a reference is the secret
  read back under it, the value of every other URI stays what it was, and the file stays readable,
  so that this repeats; a seal that can be undone is all that is asked of the cipher.\<close>

theorem encrypted_secret_round_trip:
  assumes "sealing seal unseal" and "typed_graph (svc_graph s)" and "wf_graph (svc_graph s)"
    and "readable unseal (backend s)" and "find_reference_by_uri uri (svc_graph s) = Some r"
  shows "\<exists>r' s' s''. set_secret (encrypted_set seal unseal) uri v s = (Inr r', s') \<and> readable unseal (backend s') \<and>
    get_secret (encrypted_get unseal) uri s' = (Inr v, s'') \<and>
    (\<forall>u. u \<noteq> uri \<longrightarrow> encrypted_get unseal u (backend s') = encrypted_get unseal u (backend s))"
  by (rule value_backend.set_secret_get [OF encrypted_is_backend [OF assms(1)] assms(2-5)])

lemma sample_vault_graph:
  "typed_graph (svc_graph sample_bridge)" "wf_graph (svc_graph sample_bridge)"
  "typed_graph (svc_graph sample_vault)" "wf_graph (svc_graph sample_vault)"
proof -
  have "typed_graph (empty_graph :: node_value graph)" "wf_graph (empty_graph :: node_value graph)"
    by (simp_all add: empty_graph_def typed_graph_def wf_graph_def file_edges_def get_node_def)
  then have "typed_graph (svc_graph sample_bridge)" "wf_graph (svc_graph sample_bridge)"
    by (simp_all add: sample_bridge_def experiences.typed_save experience_revisions.typed_save applications.typed_save
        revisions.typed_save objects.typed_save experiences.wf_save experience_revisions.wf_save applications.wf_save
        revisions.wf_save objects.wf_save)
  then show "typed_graph (svc_graph sample_bridge)" "wf_graph (svc_graph sample_bridge)"
    "typed_graph (svc_graph sample_vault)" "wf_graph (svc_graph sample_vault)"
    by (simp_all add: sample_vault_def secret_references.typed_save secret_references.wf_save)
qed

theorem encrypted_secret_round_trip_witness:
  "\<exists>r' s' s''. set_secret (encrypted_set (\<lambda>d. d) Some) ''secret://sec'' ''hunter2'' sample_vault = (Inr r', s') \<and>
     get_secret (encrypted_get Some) ''secret://sec'' s' = (Inr ''hunter2'', s'')"
proof -
  have f: "find_reference_by_uri ''secret://sec'' (svc_graph sample_vault) = Some (sample_reference ''sec'')"
    by (simp add: find_reference_by_uri_def sample_vault_def sample_bridge_defs sample_reference_def coll_values_def
        list_nodes_def secret_references_coll_def)
  have s: "sealing (\<lambda>d. d) Some" "readable Some (backend sample_vault)"
    by (simp_all add: sealing_def readable_def)
  from encrypted_secret_round_trip [OF s(1) sample_vault_graph(3,4) s(2) f] show ?thesis by blast
qed

section \<open>Relations\<close>

text \<open>C19: A relation that \<^verbatim>\<open>Relations.create\<close> returns is well typed and fresh: both ends are objects of the
  Application in the data space, of the two object types of the relation type's current revision,
  its edge carries the physical type of that revision, it is found under its id, where nothing was
  before, and every other relation is as before.\<close>

theorem created_relation_is_typed:
  assumes "relations_create app rtid from_id to_id values a space s = (Inr r, s')"
  shows "(\<exists>f to tr. object_get app from_id space (svc_graph s) = Some f \<and> object_get app to_id space (svc_graph s) = Some to \<and>
      active_or_latest_relation_revision app rtid (svc_graph s) = Inr tr \<and>
      obj_object_type_id f = rtrev_from_object_type_id tr \<and> obj_object_type_id to = rtrev_to_object_type_id tr \<and>
      rel_physical_type r = Some (rtrev_physical_type tr)) \<and>
    rel_from_object_id r = from_id \<and> rel_to_object_id r = to_id \<and> rel_values r = values \<and>
    relation_get app (rel_id r) space (svc_graph s) = None \<and>
    relation_get app (rel_id r) space (svc_graph s') = Some r \<and>
    (\<forall>app' i space'. (app', i, space') \<noteq> (app, rel_id r, space) \<longrightarrow>
       relation_get app' i space' (svc_graph s') = relation_get app' i space' (svc_graph s))"
  by (rule relations_create_Inr [OF assms]) (auto simp: relation_get_save rel_key_of_def)

definition sample_relation_type :: relation_type where
  "sample_relation_type = \<lparr>rtype_id = ''rt'', rtype_application_id = ''a'', rtype_active_revision_id = Some ''rtr'',
     rtype_created_at = 0\<rparr>"

definition sample_rtrev :: relation_type_revision where
  "sample_rtrev = \<lparr>rtrev_id = ''rtr'', rtrev_relation_type_id = ''rt'', rtrev_name = ''knows'',
     rtrev_from_object_type_id = ''ot'', rtrev_to_object_type_id = ''other'',
     rtrev_physical_type = ''APP_REL_RT_0'', rtrev_properties = [], rtrev_created_at = 0, rtrev_content_hash = []\<rparr>"

definition sample_typed :: svc where
  "sample_typed = sample_bridge\<lparr>svc_graph := coll_save relation_type_revisions_coll sample_rtrev
     (coll_save relation_types_coll sample_relation_type (svc_graph sample_bridge))\<rparr>"

theorem created_relation_is_typed_witness:
  "\<exists>r s'. relations_create ''a'' ''rt'' ''o1'' ''o2'' [] (Some ''k'') ''production'' sample_typed = (Inr r, s') \<and>
     relation_get ''a'' (rel_id r) ''production'' (svc_graph s') = Some r"
proof -
  have "\<exists>r s'. relations_create ''a'' ''rt'' ''o1'' ''o2'' [] (Some ''k'') ''production'' sample_typed = (Inr r, s')"
    by (simp add: relations_create_def atomically_apply op_defs require_object_def object_get_def relation_get_def
        active_or_latest_relation_revision_def coll_item_def sample_typed_def sample_bridge_defs sample_relation_type_def
        sample_rtrev_def relation_types_coll_def relation_type_revisions_coll_def relation_save_def
        create_app_relation_def get_app_relation_def object_key_def Let_def)
  then obtain r s' where r: "relations_create ''a'' ''rt'' ''o1'' ''o2'' [] (Some ''k'') ''production'' sample_typed = (Inr r, s')"
    by blast
  from created_relation_is_typed [OF r] r show ?thesis by blast
qed

section \<open>Delivered files\<close>

definition token_of :: "delivery_env \<Rightarrow> scope \<Rightarrow> string \<Rightarrow> delivery_request \<Rightarrow> string" where
  "token_of env sc sid r = env_seal env (token_payload sid sc r (env_now env + req_expires_in r))"


text \<open>With the JSON text for a seal; whether it is secret makes no difference here.\<close>

definition sample_env :: delivery_env where
  "sample_env = \<lparr>env_sha = (\<lambda>k. CHR ''s'' # k), env_real = (\<lambda>p. p),
     env_is_file = (\<lambda>p. p = [''data'', ''application-data'', ''sa'', ''out'', ''r.pdf'']),
     env_base = [''data''], env_now = 100, env_seal = (\<lambda>p. stable_json (JObj p)), env_unseal = json_loads,
     env_quote = (\<lambda>s. s), env_stamp = int_text\<rparr>"

definition sample_request :: delivery_request where
  "sample_request = \<lparr>req_path = ''out/r.pdf'', req_content_type = ''application/pdf'', req_disposition = Inline,
     req_filename = None, req_expires_in = 60\<rparr>"

lemma sample_seals: "seals sample_env (token_payload sid sc r e)"
proof -
  let ?p = "token_payload sid sc r e"
  have "json_ok (JObj ?p)" by (simp add: token_payload_def json_opt_def split: option.split)
  note reread = json_loads_stable_json [OF this]
  have d: "distinct (map fst ?p)" by (simp add: token_payload_def)
  have "canon (snd kv) = snd kv" if "kv \<in> set ?p" for kv
    using that by (auto simp: token_payload_def json_opt_def split: option.splits)
  then have "map (\<lambda>kv. (fst kv, canon (snd kv))) (sort_key fst ?p) = sort_key fst ?p"
    by (intro map_idI) (simp add: prod_eq_iff)
  with reread have "json_loads (stable_json (JObj ?p)) = Some (JObj (sort_key fst ?p))" by simp
  moreover have "dict_get (sort_key fst ?p) k = dict_get ?p k" for k
    using map_of_sorted [OF d] by simp
  ultimately show ?thesis by (auto simp: seals_def sample_env_def)
qed

lemma sample_issue:
  "\<exists>j. issue sample_env (bridge_scope ''a'' ''e'' ''er'') sample_request = Inr j"
  "data_scope_id (env_sha sample_env) (data_scope_key ''a'' ''production'') = Inr ''sa''"
  by (simp_all add: issue_def sample_env_def bridge_scope_def sample_request_def data_scope_key_def data_root_def
      data_scope_id_def resolve_path_within_def pure_parts_def is_within_def confined_def Let_def)

lemma sample_short: "length (token_of sample_env (bridge_scope ''a'' ''e'' ''er'') ''sa'' sample_request) \<le> 16384"
  by code_simp


text \<open>What the bridge delivers for a token is a file of the production data of the Application asked for,
  inside that Application's own data directory after symbolic links are followed, and the active
  revision of the Experience declares the Application.\<close>

theorem bridge_delivers_only_own_files:
  assumes "access_deliver_file env exp app token g = Inr f"
  shows "(\<exists>r d a. declares exp app r d a g) \<and>
    (\<exists>root. data_root (env_sha env) (env_real env) (env_base env) app = Inr root \<and>
       is_within (env_real env root) (deliv_path f) \<and> env_is_file env (deliv_path f))"
proof -
  from assms obtain r d where a: "application_access exp app g = Inr (r, d)"
    and c: "(case resolve_token env (bridge_scope app exp (exprev_id r)) token of
       Inl (FileDeliveryError code m st) \<Rightarrow> Inl (ExperienceAccessError code m st) | x \<Rightarrow> x) = Inr f"
    by (auto simp: access_deliver_file_def rbind_eq_Inr)
  have t: "resolve_token env (bridge_scope app exp (exprev_id r)) token = Inr f"
  proof (cases "resolve_token env (bridge_scope app exp (exprev_id r)) token")
    case (Inl e)
    with c show ?thesis by (cases e) simp_all
  qed (use c in simp)
  have k: "data_scope_key (scope_application (bridge_scope app exp (exprev_id r))) (scope_space (bridge_scope app exp (exprev_id r))) = app"
    by (simp add: bridge_scope_def data_scope_key_def)
  show ?thesis using application_access_Inr [OF a] resolve_token_confined [OF t] unfolding k by blast
qed

theorem bridge_delivers_only_own_files_witness:
  "\<exists>f. access_deliver_file sample_env ''e'' ''a'' (token_of sample_env (bridge_scope ''a'' ''e'' ''er'') ''sa'' sample_request)
       (svc_graph sample_bridge) = Inr f \<and> is_within [''data'', ''application-data'', ''sa''] (deliv_path f)"
proof -
  let ?sc = "bridge_scope ''a'' ''e'' ''er''"
  let ?tok = "token_of sample_env ?sc ''sa'' sample_request"
  have "\<exists>f. resolve_token sample_env ?sc ?tok = Inr f"
    using decode_issued [OF sample_seals sample_short [unfolded token_of_def]]
    by (simp add: token_of_def resolve_token_def sample_env_def bridge_scope_def sample_request_def data_scope_key_def
        data_root_def data_scope_id_def resolve_path_within_def pure_parts_def is_within_def confined_def Let_def)
  then obtain f where "resolve_token sample_env ?sc ?tok = Inr f" by blast
  then have f: "access_deliver_file sample_env ''e'' ''a'' ?tok (svc_graph sample_bridge) = Inr f"
    by (simp add: access_deliver_file_def application_access_def active_revision_def require_active_application_def
        sample_bridge_defs sample_access_def)
  from bridge_delivers_only_own_files [OF this] obtain root where
    "data_root (env_sha sample_env) (env_real sample_env) (env_base sample_env) ''a'' = Inr root"
    "is_within (env_real sample_env root) (deliv_path f)" by blast
  moreover from this(1) have "root = [''data'', ''application-data'', ''sa'']"
    by (simp add: sample_env_def data_root_def data_scope_id_def resolve_path_within_def pure_parts_def is_within_def Let_def)
  ultimately show ?thesis using f by (simp add: sample_env_def)
qed

section \<open>Callback routes\<close>

lemma callback_call_Inr:
  assumes "callback_call rid payload s = (Inr (route, arev, ctx), s1)"
  shows "coll_get callback_routes_coll (key rid) (svc_graph s) = Some route" and "route_status route = Route_pending"
    and "route_state route = [] \<or> dict_get payload ''state'' = Some (JStr (route_state route))"
    and "route_expires_at route = Some t \<Longrightarrow> svc_clock s (svc_ticks s) \<le> t" and "svc_graph s1 = svc_graph s"
  using assms
  by (auto simp: callback_call_def run_iffs now_utc_apply new_uuid_apply raise_apply split: if_split_asm option.split_asm)

text \<open>C21: A callback route is used once: a dispatch that succeeds found the route pending, not expired and with
  the state it was given, and leaves it used; as long as the route stays so, every further dispatch
  of it, with any payload and any runtime, raises and changes nothing.\<close>

theorem callback_route_is_used_once:
  assumes "dispatch_callback_route run rid payload s = (Inr i, s')" and "typed_graph (svc_graph s)"
    and "\<And>a p k c. graph_keeps typed_graph (run a p k c)"
  shows "(\<exists>q. coll_get callback_routes_coll (key rid) (svc_graph s) = Some q \<and> route_status q = Route_pending \<and>
      (\<forall>t. route_expires_at q = Some t \<longrightarrow> svc_clock s (svc_ticks s) \<le> t) \<and>
      (route_state q = [] \<or> dict_get payload ''state'' = Some (JStr (route_state q)))) \<and>
    (\<exists>r. coll_get callback_routes_coll (key rid) (svc_graph s') = Some r \<and> route_status r = Route_used \<and>
      dict_get (route_metadata r) ''invocation_id'' = Some (JStr (inv_id i)) \<and>
      (\<forall>run' payload' u. coll_get callback_routes_coll (key rid) (svc_graph u) = Some r \<longrightarrow>
         (\<exists>u'. dispatch_callback_route run' rid payload' u =
            (Inl (ValidationFailure ''callback route is not pending: used''), u') \<and> svc_graph u' = svc_graph u)))"
proof -
  from assms(1) obtain route arev ctx s1 s2 where
    call: "callback_call rid payload s = (Inr (route, arev, ctx), s1)" and
    run: "run arev payload InvKind_callback ctx s1 = (Inr i, s2)" and
    used: "callback_used rid route i s2 = (Inr (), s')"
    by (auto simp: dispatch_callback_route_def bindE_Inr_iff atomically_Inr ret_apply)
  note q = callback_call_Inr [OF call]
  from used obtain current where c: "coll_get callback_routes_coll (key rid) (svc_graph s2) = Some current"
    by (auto simp: callback_used_def bindE_Inr_iff reads_apply coll_item_def split: option.splits)
  have "typed_graph (svc_graph s2)" using graph_keepsD [OF assms(3) run] assms(2) q(5) by simp
  then have "route_id current = rid"
    using callback_routes.get_identity c by (fastforce simp: callback_routes_coll_def)
  with used c obtain r where r: "coll_get callback_routes_coll (key rid) (svc_graph s') = Some r" "route_status r = Route_used"
    "dict_get (route_metadata r) ''invocation_id'' = Some (JStr (inv_id i))"
    by (auto simp: callback_used_def op_defs coll_item_def callback_routes.get_create_edge route_get_save dict_simps)
  have "\<exists>u'. dispatch_callback_route run' rid payload' u =
      (Inl (ValidationFailure ''callback route is not pending: used''), u') \<and> svc_graph u' = svc_graph u"
    if "coll_get callback_routes_coll (key rid) (svc_graph u) = Some r" for run' payload' u
    using callback_not_pending [OF that, of run' payload'] r(2) by (simp add: route_status_text_def)
  with r q(1-4) show ?thesis by blast
qed

definition sample_route :: callback_route where
  "sample_route = \<lparr>route_id = ''cb'', route_application_id = ''a'', route_target_action_revision_id = ''ar'',
     route_state = ''s3cret'', route_status = Route_pending, route_created_at = 0, route_expires_at = Some 1000,
     route_metadata = []\<rparr>"

definition sample_actrev :: action_revision where
  "sample_actrev = \<lparr>actrev_id = ''ar'', actrev_action_id = ''act'', actrev_kind = Act_normal, actrev_entrypoint = ''main:run'',
     actrev_source_paths = [], actrev_input_schema = [], actrev_output_schema = [], actrev_runtime_dependency_ids = [],
     actrev_secret_refs = [], actrev_callback_refs = [], actrev_declared_capabilities = [], actrev_timeout_seconds = 60,
     actrev_concurrency_policy = Conc_default, actrev_retry_policy = [], actrev_idempotency_key_policy = None,
     actrev_migration_metadata = [], actrev_created_at = 0, actrev_created_by = [], actrev_content_hash = []\<rparr>"

definition sample_invocation :: invocation where
  "sample_invocation = \<lparr>inv_id = ''i'', inv_action_revision_id = ''ar'', inv_data_space_id = ''production'',
     inv_deployment_id = None, inv_correlation_id = None, inv_invocation_kind = InvKind_callback,
     inv_status = Inv_succeeded, inv_input = [], inv_output = JNull, inv_error = None, inv_stdout = [], inv_stderr = [],
     inv_metadata = [], inv_queued_at = 0, inv_started_at = None, inv_completed_at = None, inv_last_heartbeat_at = None\<rparr>"

definition sample_callback :: svc where
  "sample_callback = sample_bridge\<lparr>svc_graph := coll_save callback_routes_coll sample_route
     (coll_save action_revisions_coll sample_actrev (svc_graph sample_bridge))\<rparr>"

lemma sample_callback_get:
  "coll_get callback_routes_coll (key ''cb'') (svc_graph sample_callback) = Some sample_route"
  "coll_get action_revisions_coll (key ''ar'') (svc_graph sample_callback) = Some sample_actrev"
  "coll_get applications_coll (key ''a'') (svc_graph sample_callback) = Some (sample_app App_active)"
  "svc_clock sample_callback (svc_ticks sample_callback) = 0"
  by (simp_all add: sample_callback_def sample_route_def sample_actrev_def sample_bridge_defs callback_routes_coll_def
      action_revisions_coll_def)

theorem callback_route_is_used_once_witness:
  "\<exists>i s'. dispatch_callback_route (\<lambda>_ _ _ _. ret sample_invocation) ''cb'' [(''state'', JStr ''s3cret'')] sample_callback = (Inr i, s') \<and>
     (\<exists>s''. dispatch_callback_route (\<lambda>_ _ _ _. ret sample_invocation) ''cb'' [(''state'', JStr ''s3cret'')] s' =
        (Inl (ValidationFailure ''callback route is not pending: used''), s''))"
proof -
  let ?run = "\<lambda>_ _ _ _. ret sample_invocation :: (unit svc_scheme, invocation) op"
  have typed: "typed_graph (svc_graph sample_callback)"
    using sample_vault_graph(1) by (simp add: sample_callback_def callback_routes.typed_save action_revisions.typed_save)
  have "\<exists>i s'. dispatch_callback_route ?run ''cb'' [(''state'', JStr ''s3cret'')] sample_callback = (Inr i, s')"
    using sample_callback_get
    by (simp add: dispatch_callback_route_def callback_call_def callback_used_def atomically_apply op_defs coll_item_def
        sample_route_def sample_app_def)
  then obtain i s' where d: "dispatch_callback_route ?run ''cb'' [(''state'', JStr ''s3cret'')] sample_callback = (Inr i, s')"
    by blast
  from callback_route_is_used_once [OF d typed graph_keeps_pure(1)]
  obtain r where r: "coll_get callback_routes_coll (key ''cb'') (svc_graph s') = Some r"
    "\<forall>run' payload' (u :: svc). coll_get callback_routes_coll (key ''cb'') (svc_graph u) = Some r \<longrightarrow>
       (\<exists>u'. dispatch_callback_route run' ''cb'' payload' u =
          (Inl (ValidationFailure ''callback route is not pending: used''), u') \<and> svc_graph u' = svc_graph u)"
    by (elim conjE exE) (rule that)
  from r(2) [rule_format, OF r(1), of ?run "[(''state'', JStr ''s3cret'')]"]
  obtain u where "dispatch_callback_route ?run ''cb'' [(''state'', JStr ''s3cret'')] s' =
      (Inl (ValidationFailure ''callback route is not pending: used''), u)" by (elim conjE exE)
  with d show ?thesis by (intro exI conjI)
qed

end
