(* ===== verification/System_Activation.thy ===== *)
theory System_Activation
  imports System_Checkpoints
begin

text \<open>
  Activation of an application revision (\<^verbatim>\<open>system/activation.py\<close>) and of an experience revision
  (\<^verbatim>\<open>system/experience_activation.py\<close>): freeze the draft, resolve and build outside the unit of
  work, migrate, then move the active pointers in one unit of work; on a failure before the move
  restore the checkpoint and reject the revision. What the runtime does between the units of work
  (dependencies, builds, migrations, the process pool, mounting triggers) is a record of ports.
\<close>

section \<open>Failures as text\<close>

text \<open>\<^verbatim>\<open>f"{type(exc).__name__}: {exc}"\<close>.\<close>

fun exn_class :: "exn \<Rightarrow> string" where
  "exn_class (SourceConflictError _) = ''SourceConflictError''"
| "exn_class (ImmutableRevisionError _) = ''ImmutableRevisionError''"
| "exn_class (ValidationFailure _) = ''ValidationFailure''"
| "exn_class (ActionExecutionError _) = ''ActionExecutionError''"
| "exn_class (SecretBackendError _) = ''SecretBackendError''"
| "exn_class (SecretNotFoundError _) = ''SecretNotFoundError''"
| "exn_class (ConcurrentGraphUpdateError _) = ''ConcurrentGraphUpdateError''"
| "exn_class (TransientGraphConflictError _) = ''TransientGraphConflictError''"
| "exn_class (GraphUnitOfWorkError _) = ''GraphUnitOfWorkError''"
| "exn_class (CypherGatewayError _) = ''CypherGatewayError''"
| "exn_class (ExperienceAccessError _ _ _) = ''ExperienceAccessError''"
| "exn_class (FileDeliveryError _ _ _) = ''FileDeliveryError''"
| "exn_class (KeyError _) = ''KeyError''"
| "exn_class (ValueError _) = ''ValueError''"
| "exn_class IndexError = ''IndexError''"
| "exn_class (TypeError _) = ''TypeError''"
| "exn_class (PermissionError _) = ''PermissionError''"
| "exn_class (TimeoutError _) = ''TimeoutError''"
| "exn_class (RuntimeError _) = ''RuntimeError''"
| "exn_class (FileExistsError _) = ''FileExistsError''"
| "exn_class (FileNotFoundError _) = ''FileNotFoundError''"
| "exn_class AssertionError = ''AssertionError''"
| "exn_class DoesNotReturn = ''DoesNotReturn''"

fun exn_message :: "exn \<Rightarrow> string" where
  "exn_message (SourceConflictError c) = conflict_message c"
| "exn_message (ImmutableRevisionError m) = m"
| "exn_message (ValidationFailure m) = m"
| "exn_message (ActionExecutionError m) = m"
| "exn_message (SecretBackendError m) = m"
| "exn_message (SecretNotFoundError m) = m"
| "exn_message (ConcurrentGraphUpdateError m) = m"
| "exn_message (TransientGraphConflictError m) = m"
| "exn_message (GraphUnitOfWorkError m) = m"
| "exn_message (CypherGatewayError m) = m"
| "exn_message (ExperienceAccessError _ m _) = m"
| "exn_message (FileDeliveryError _ m _) = m"
| "exn_message (KeyError m) = m"
| "exn_message (ValueError m) = m"
| "exn_message IndexError = []"
| "exn_message (TypeError m) = m"
| "exn_message (PermissionError m) = m"
| "exn_message (TimeoutError m) = m"
| "exn_message (RuntimeError m) = m"
| "exn_message (FileExistsError m) = m"
| "exn_message (FileNotFoundError m) = m"
| "exn_message AssertionError = []"
| "exn_message DoesNotReturn = []"

definition exn_text :: "exn \<Rightarrow> string" where
  "exn_text e = exn_class e @ '': '' @ exn_message e"

text \<open>\<^verbatim>\<open>try ... except Exception as exc\<close>; \<open>DoesNotReturn\<close> is no exception.\<close>

definition try_catch :: "('s, 'a) op \<Rightarrow> (exn \<Rightarrow> ('s, 'a) op) \<Rightarrow> ('s, 'a) op" where
  "try_catch m h s = (case m s of
     (Inl e, t) \<Rightarrow> if e = DoesNotReturn then (Inl e, t) else h e t
   | (Inr a, t) \<Rightarrow> (Inr a, t))"

section \<open>Validation of an application revision\<close>

text \<open>Ids that occur more than once, in the order of their first occurrence.\<close>

definition first_occurrences :: "'a list \<Rightarrow> 'a list" where
  "first_occurrences xs = rev (remdups (rev xs))"

definition duplicate_errors :: "string \<Rightarrow> string \<Rightarrow> string \<Rightarrow> string list \<Rightarrow> string list" where
  "duplicate_errors label owner_field rid ids =
     map (\<lambda>i. label @ '': duplicate '' @ owner_field @ '' '' @ i @ '' on '' @ rid)
       (filter (\<lambda>i. 1 < count_list ids i) (first_occurrences ids))"

definition path_errors :: "string \<Rightarrow> string \<Rightarrow> string list \<Rightarrow> node_value graph \<Rightarrow> string list" where
  "path_errors who tid paths g = concat (map (\<lambda>p. case read_source_file tid p g of
      Inr _ \<Rightarrow> [] | Inl e \<Rightarrow> [who @ '':'' @ p @ '': '' @ exn_text e]) paths)"

definition affected_errors :: "action_revision \<Rightarrow> string list" where
  "affected_errors r =
     (if actrev_kind r \<noteq> Act_migration then []
      else (case dict_get (actrev_migration_metadata r) ''affected_schema_revision_ids'' of
          None \<Rightarrow> []
        | Some (JArr _) \<Rightarrow> []
        | Some _ \<Rightarrow> [actrev_id r @ '': affected_schema_revision_ids must be a list'']))"

definition end_errors :: "string list \<Rightarrow> relation_type_revision \<Rightarrow> string list" where
  "end_errors types r =
     (if rtrev_from_object_type_id r \<in> set types then [] else [rtrev_id r @ '': missing from object type revision'']) @
     (if rtrev_to_object_type_id r \<in> set types then [] else [rtrev_id r @ '': missing to object type revision''])"

definition sorted_action_revisions :: "string \<Rightarrow> node_value graph \<Rightarrow> exn + action_revision list" where
  "sorted_action_revisions rid g = rbind (action_revisions rid g) (\<lambda>xs. Inr (sort_key actrev_id xs))"

text \<open>\<open>available\<close> says whether there is a Cypher gateway that is available.\<close>

definition validation_errors :: "bool \<Rightarrow> string \<Rightarrow> node_value graph \<Rightarrow> exn + string list" where
  "validation_errors available rid g =
     rbind (action_revisions rid g) (\<lambda>acts.
     rbind (trigger_revisions rid g) (\<lambda>trigs.
     rbind (object_type_revisions rid g) (\<lambda>ots.
     rbind (relation_type_revisions rid g) (\<lambda>rts.
     rbind (tree rid g) (\<lambda>t. Inr
       (duplicate_errors ''ActionRevision'' ''action_id'' rid (map actrev_action_id acts) @
        duplicate_errors ''TriggerRevision'' ''trigger_id'' rid (map trigrev_trigger_id trigs) @
        duplicate_errors ''ObjectTypeRevision'' ''object_type_id'' rid (map otrev_object_type_id ots) @
        duplicate_errors ''RelationTypeRevision'' ''relation_type_id'' rid (map rtrev_relation_type_id rts) @
        concat (map (\<lambda>r. path_errors (actrev_id r) (tree_id t) (actrev_source_paths r) g @ affected_errors r)
          (sort_key actrev_id acts)) @
        concat (map (end_errors (map otrev_object_type_id ots)) rts) @
        (if acts \<noteq> [] \<and> \<not> available then [''Cypher gateway is unavailable''] else [])))))))"

definition validate_application :: "bool \<Rightarrow> string \<Rightarrow> ('z svc_scheme, validation_report) op" where
  "validate_application available rid = atomically
     (bindE (item_of revisions_coll (key rid)) (\<lambda>r.
      bindE (reads (validation_errors available (rev_id r))) (\<lambda>errors.
      bindE new_uuid (\<lambda>i.
      bindE now_utc (\<lambda>t.
      (let report = \<lparr>report_id = i, report_application_revision_id = rev_id r,
             report_status = (if errors = [] then Report_passed else Report_failed),
             report_errors = errors, report_created_at = t\<rparr>
       in bindE (save_to validation_reports_coll report) (\<lambda>_.
          bindE (link (id_ref ''ApplicationRevision'' (rev_id r)) ''HAS_VALIDATION_REPORT''
             (id_ref ''ValidationReport'' i)) (\<lambda>_.
          ret report))))))))"

section \<open>The steps of an activation\<close>

text \<open>\<^verbatim>\<open>source.intern_tree\<close> with the clock of the service.\<close>

definition intern_revision_tree :: "(string \<Rightarrow> string) \<Rightarrow> string \<Rightarrow> ('z svc_scheme, source_tree) op" where
  "intern_revision_tree sha rid = bindE now_utc (\<lambda>now. store_op (intern_tree sha now rid))"

definition freeze :: "(string \<Rightarrow> string) \<Rightarrow> string \<Rightarrow> ('z svc_scheme, unit) op" where
  "freeze sha rid =
     bindE (item_of revisions_coll (key rid)) (\<lambda>r.
     bindE (require (rev_status r \<in> {Rev_draft, Rev_validating})
        (ImmutableRevisionError (''activation requires draft state, got '' @ revision_status_text (rev_status r)))) (\<lambda>_.
     bindE (if rev_status r = Rev_draft then save_to revisions_coll (r\<lparr>rev_status := Rev_validating\<rparr>) else ret ()) (\<lambda>_.
     bindE (intern_revision_tree sha (rev_id r)) (\<lambda>_. ret ()))))"

text \<open>\<^verbatim>\<open>bool(value)\<close> of a JSON value.\<close>

fun json_true :: "json \<Rightarrow> bool" where
  "json_true JNull = False"
| "json_true (JBool b) = b"
| "json_true (JInt i) = (i \<noteq> 0)"
| "json_true (JStr s) = (s \<noteq> [])"
| "json_true (JArr xs) = (xs \<noteq> [])"
| "json_true (JObj kvs) = (kvs \<noteq> [])"

text \<open>
  \<^verbatim>\<open>_migrations\<close>: by action, the last bound migration revision; those the parent binds
  unchanged are left out.
\<close>

definition by_action :: "action_revision list \<Rightarrow> (string, action_revision) dict" where
  "by_action xs = fold (\<lambda>r. dict_set (actrev_action_id r) r) (filter (\<lambda>r. actrev_kind r = Act_migration) xs) []"

definition migrations :: "string \<Rightarrow> node_value graph \<Rightarrow> exn + action_revision list" where
  "migrations rid g =
     rbind (sorted_action_revisions rid g) (\<lambda>acts.
     rbind (coll_item revisions_coll (key rid) g) (\<lambda>target.
     rbind (case rev_parent_revision_id target of None \<Rightarrow> Inr []
         | Some p \<Rightarrow> sorted_action_revisions p g) (\<lambda>parents.
     Inr (map snd (filter (\<lambda>(aid, r). map_option actrev_id (dict_get (by_action parents) aid) \<noteq> Some (actrev_id r))
       (by_action acts))))))"

definition checkpoint_if_mutating :: "(string \<Rightarrow> string) \<Rightarrow> string \<Rightarrow> ('z svc_scheme, string option) op" where
  "checkpoint_if_mutating sha rid =
     bindE (reads (migrations rid)) (\<lambda>ms.
     if list_ex (\<lambda>m. case dict_get (actrev_migration_metadata m) ''mutates_application_data'' of
          None \<Rightarrow> False | Some v \<Rightarrow> json_true v) ms
     then bindE (item_of revisions_coll (key rid)) (\<lambda>r.
          bindE (checkpoint_create sha (rev_application_id r) Level_application_data (''activation before '' @ rid)) (\<lambda>c.
          ret (Some (ckpt_id c))))
     else ret None)"

text \<open>The stable record of each bound revision points to it.\<close>

definition activate_set ::
  "'m collection \<Rightarrow> string \<Rightarrow> string \<Rightarrow> ('r \<Rightarrow> string) \<Rightarrow> ('r \<Rightarrow> string) \<Rightarrow> ('m \<Rightarrow> string) \<Rightarrow>
   (string option \<Rightarrow> 'm \<Rightarrow> 'm) \<Rightarrow> 'r list \<Rightarrow> ('z svc_scheme, unit) op" where
  "activate_set c label rev_label owner the_id stable_id point revs =
     for_each (\<lambda>r. bindE (item_of c (key (owner r))) (\<lambda>m.
        bindE (save_to c (point (Some (the_id r)) m)) (\<lambda>_.
        point_to (id_ref label (stable_id m)) ''ACTIVE_REVISION'' (id_ref rev_label (the_id r))))) revs"

definition activate_definitions :: "string \<Rightarrow> ('z svc_scheme, unit) op" where
  "activate_definitions rid =
     bindE (reads (action_revisions rid)) (\<lambda>xs.
     bindE (activate_set actions_coll ''Action'' ''ActionRevision'' actrev_action_id actrev_id act_id
        (\<lambda>v. act_active_revision_id_update (\<lambda>_. v)) xs) (\<lambda>_.
     bindE (reads (trigger_revisions rid)) (\<lambda>xs.
     bindE (activate_set triggers_coll ''Trigger'' ''TriggerRevision'' trigrev_trigger_id trigrev_id trig_id
        (\<lambda>v. trig_active_revision_id_update (\<lambda>_. v)) xs) (\<lambda>_.
     bindE (reads (object_type_revisions rid)) (\<lambda>xs.
     bindE (activate_set object_types_coll ''ObjectType'' ''ObjectTypeRevision'' otrev_object_type_id otrev_id otype_id
        (\<lambda>v. otype_active_revision_id_update (\<lambda>_. v)) xs) (\<lambda>_.
     bindE (reads (relation_type_revisions rid)) (\<lambda>xs.
     activate_set relation_types_coll ''RelationType'' ''RelationTypeRevision'' rtrev_relation_type_id rtrev_id rtype_id
        (\<lambda>v. rtype_active_revision_id_update (\<lambda>_. v)) xs)))))))"

definition supersede :: "application \<Rightarrow> application_revision \<Rightarrow> ('z svc_scheme, string option) op" where
  "supersede a target =
     (case app_active_revision_id a of
        None \<Rightarrow> ret None
      | Some i \<Rightarrow> bindE (item_of revisions_coll (key i)) (\<lambda>current.
          if rev_id current \<noteq> rev_id target
          then bindE (save_to revisions_coll (current\<lparr>rev_status := Rev_superseded\<rparr>)) (\<lambda>_. ret (Some (rev_id current)))
          else ret None))"

definition activate_edges :: "string \<Rightarrow> ('z svc_scheme, application_revision \<times> string option) op" where
  "activate_edges rid =
     bindE (item_of revisions_coll (key rid)) (\<lambda>target.
     bindE (item_of applications_coll (key (rev_application_id target))) (\<lambda>a.
     bindE (supersede a target) (\<lambda>superseded.
     (let activated = target\<lparr>rev_status := Rev_active\<rparr>;
          status = (if app_status a = App_disabled then App_triggers_paused else app_status a)
      in bindE (save_to revisions_coll activated) (\<lambda>_.
         bindE (save_to applications_coll
            (a\<lparr>app_active_revision_id := Some (rev_id activated), app_status := status\<rparr>)) (\<lambda>_.
         bindE (store_op (application_replace_active_revision (app_id a) (rev_id activated) (app_active_revision_id a))) (\<lambda>_.
         bindE (activate_definitions (rev_id activated)) (\<lambda>_.
         ret (activated, superseded)))))))))"

definition reject_revision :: "string \<Rightarrow> ('z svc_scheme, unit) op" where
  "reject_revision rid = atomically
     (bindE (asks (coll_get revisions_coll (key rid))) (\<lambda>x.
       (case x of
          None \<Rightarrow> ret ()
        | Some r \<Rightarrow> if rev_status r = Rev_validating
            then save_to revisions_coll (r\<lparr>rev_status := Rev_rejected\<rparr>) else ret ())))"

section \<open>Activating an application revision\<close>

text \<open>
  The ports: dependency resolution, the build, one migration, the eviction of a superseded
  revision's processes (nothing without a pool), and the mounting of triggers.
\<close>

record 'z activation_ports =
  port_resolve :: "string \<Rightarrow> ('z svc_scheme, unit) op"
  port_build :: "string \<Rightarrow> ('z svc_scheme, unit) op"
  port_migrate :: "string \<Rightarrow> string \<Rightarrow> ('z svc_scheme, unit) op"
  port_evict :: "string \<Rightarrow> ('z svc_scheme, unit) op"
  port_remount :: "('z svc_scheme, unit) op"

datatype activation_policy = Policy_normal | Policy_package_install

definition run_migrations :: "'z activation_ports \<Rightarrow> string \<Rightarrow> ('z svc_scheme, unit) op" where
  "run_migrations ports rid =
     bindE (reads (migrations rid)) (\<lambda>ms. for_each (\<lambda>m. port_migrate ports rid (actrev_id m)) ms)"

text \<open>
  The code before the switch, up to the checkpoint. The result is the id of the checkpoint, if
  one was made.
\<close>

definition prepare :: "(string \<Rightarrow> string) \<Rightarrow> 'z activation_ports \<Rightarrow> activation_policy \<Rightarrow> string \<Rightarrow>
   ('z svc_scheme, string option) op" where
  "prepare sha ports policy rid =
     bindE (atomically (freeze sha rid)) (\<lambda>_.
     bindE (port_resolve ports rid) (\<lambda>_.
     bindE (port_build ports rid) (\<lambda>_.
     if policy = Policy_package_install then ret None else checkpoint_if_mutating sha rid)))"

text \<open>The migrations and the switch, up to the eviction, which comes before \<^verbatim>\<open>switched = True\<close>.\<close>

definition switch :: "'z activation_ports \<Rightarrow> activation_policy \<Rightarrow> string \<Rightarrow> ('z svc_scheme, application_revision) op" where
  "switch ports policy rid =
     bindE (if policy = Policy_package_install then ret () else run_migrations ports rid) (\<lambda>_.
     bindE (atomically (activate_edges rid)) (\<lambda>(activated, superseded).
     bindE (case superseded of None \<Rightarrow> ret () | Some i \<Rightarrow> port_evict ports i) (\<lambda>_.
     ret activated)))"

text \<open>\<^verbatim>\<open>_restore_checkpoint\<close>: the text of the failure, if restoring failed.\<close>

definition restore_checkpoint ::
  "(string \<Rightarrow> string) \<Rightarrow> 'z activation_ports \<Rightarrow> string option \<Rightarrow> ('z svc_scheme, string option) op" where
  "restore_checkpoint sha ports checkpoint =
     (case checkpoint of
        None \<Rightarrow> ret None
      | Some i \<Rightarrow> try_catch
          (bindE (checkpoint_restore sha i) (\<lambda>_.
           bindE (try_catch (port_remount ports) (\<lambda>_. ret ())) (\<lambda>_. ret None)))
          (\<lambda>e. ret (Some (exn_text e))))"

text \<open>The handler of \<^verbatim>\<open>activate\<close> for a failure before the switch.\<close>

definition abort_activation ::
  "(string \<Rightarrow> string) \<Rightarrow> 'z activation_ports \<Rightarrow> string \<Rightarrow> string option \<Rightarrow> exn \<Rightarrow> ('z svc_scheme, 'a) op" where
  "abort_activation sha ports rid checkpoint e =
     bindE (restore_checkpoint sha ports checkpoint) (\<lambda>restore_error.
     bindE (reject_revision rid) (\<lambda>_.
     (let err = exn_text e @ (case restore_error of None \<Rightarrow> [] | Some m \<Rightarrow> ''; checkpoint restore failed: '' @ m) in
      case e of ValidationFailure m \<Rightarrow> raise (ValidationFailure m) | _ \<Rightarrow> raise (ValidationFailure err))))"

definition activate ::
  "(string \<Rightarrow> string) \<Rightarrow> 'z activation_ports \<Rightarrow> activation_policy \<Rightarrow> string \<Rightarrow> ('z svc_scheme, application_revision) op" where
  "activate sha ports policy rid s =
     (case prepare sha ports policy rid s of
        (Inl e, t) \<Rightarrow> if e = DoesNotReturn then (Inl e, t) else abort_activation sha ports rid None e t
      | (Inr checkpoint, t) \<Rightarrow>
          (case switch ports policy rid t of
             (Inl e, u) \<Rightarrow> if e = DoesNotReturn then (Inl e, u) else abort_activation sha ports rid checkpoint e u
           | (Inr activated, u) \<Rightarrow>
               (if policy = Policy_package_install then (Inr activated, u)
                else bindE (port_remount ports) (\<lambda>_. ret activated) u)))"

definition rollback :: "'z activation_ports \<Rightarrow> string \<Rightarrow> string \<Rightarrow> ('z svc_scheme, application_revision) op" where
  "rollback ports app rid =
     bindE (atomically (bindE (asks (coll_get revisions_coll (key rid))) (\<lambda>x.
       (case x of
          None \<Rightarrow> raise (KeyError rid)
        | Some target \<Rightarrow>
            if rev_application_id target \<noteq> app
            then raise (ValueError ''target revision belongs to a different application'')
            else if rev_status target \<notin> {Rev_active, Rev_superseded}
            then raise (ValidationFailure ''rollback target must be a previously active revision'')
            else activate_edges rid)))) (\<lambda>(activated, superseded).
     bindE (case superseded of None \<Rightarrow> ret () | Some i \<Rightarrow> port_evict ports i) (\<lambda>_.
     ret activated))"

end
