(* ===== verification/System_Applications.thy ===== *)
theory System_Applications
  imports System_Definitions Intern_GC
begin

text \<open>
  Applications and their drafts: \<^verbatim>\<open>system/applications.py\<close>. An Application has at most one draft
  revision; creating a revision returns the draft there is, or copies what the parent binds, or
  starts from the empty source tree. Discarding a draft unbinds it and sweeps what nothing binds.
\<close>

section \<open>Identity and status\<close>

definition application_create :: "string \<Rightarrow> string \<Rightarrow> string \<Rightarrow> ('z svc_scheme, application) op" where
  "application_create i name description = atomically
     (bindE now_utc (\<lambda>t1.
      (let a = \<lparr>app_id = i, app_name = name, app_description = description, app_active_revision_id = None,
             app_status = App_active, app_created_at = t1\<rparr> in
      bindE (save_to applications_coll a) (\<lambda>_.
      bindE (writes (application_attach_to_root i)) (\<lambda>_.
      bindE now_utc (\<lambda>t2.
      bindE (save_to data_spaces_coll \<lparr>space_id = ''production'', space_application_id = i,
         space_kind = Space_production, space_created_at = t2, space_expires_at = None\<rparr>) (\<lambda>_.
      bindE (link (id_ref ''Application'' i) ''HAS_DATA_SPACE''
         (NodeRef ''DataSpace'' [(''application_id'', i), (''id'', ''production'')])) (\<lambda>_.
      ret a))))))))"

definition application_status_text :: "application_status \<Rightarrow> string" where
  "application_status_text st = (case st of App_active \<Rightarrow> ''active'' | App_disabled \<Rightarrow> ''disabled''
     | App_triggers_paused \<Rightarrow> ''triggers_paused'' | App_importing \<Rightarrow> ''importing'')"

definition application_status_of_text :: "string \<Rightarrow> application_status option" where
  "application_status_of_text s = find (\<lambda>st. application_status_text st = s)
     [App_active, App_disabled, App_triggers_paused, App_importing]"

text \<open>\<^verbatim>\<open>repr\<close> of a list of plain names.\<close>

definition repr_names :: "string list \<Rightarrow> string" where
  "repr_names xs = ''['' @ join_with '', '' (map (\<lambda>x. [CHR 0x27] @ x @ [CHR 0x27]) xs) @ '']''"

text \<open>\<open>expected\<close> is the set of the caller (a set of one for a plain string), listed.\<close>

definition application_set_status ::
  "string \<Rightarrow> string \<Rightarrow> string list option \<Rightarrow> ('z svc_scheme, application) op" where
  "application_set_status i status expected = atomically
     (case application_status_of_text status of
        None \<Rightarrow> raise (ValueError (''unsupported Application status: '' @ status))
      | Some st \<Rightarrow>
          bindE (item_of applications_coll (key i)) (\<lambda>a.
          bindE (require (case expected of None \<Rightarrow> True | Some es \<Rightarrow> application_status_text (app_status a) \<in> set es)
             (ValueError (''Application '' @ i @ '' status changed concurrently: expected '' @
                repr_names (sort (case expected of None \<Rightarrow> [] | Some es \<Rightarrow> es)) @ '', got '' @
                application_status_text (app_status a)))) (\<lambda>_.
          (let u = a\<lparr>app_status := st\<rparr> in bindE (save_to applications_coll u) (\<lambda>_. ret u)))))"

section \<open>Drafts\<close>

text \<open>\<^verbatim>\<open>max\<close> by a key: the first of the greatest.\<close>

fun first_max :: "('a \<Rightarrow> int) \<Rightarrow> 'a list \<Rightarrow> 'a option" where
  "first_max k [] = None"
| "first_max k (x # xs) = (case first_max k xs of None \<Rightarrow> Some x | Some y \<Rightarrow> if k x < k y then Some y else Some x)"

definition application_draft :: "string \<Rightarrow> node_value graph \<Rightarrow> application_revision option" where
  "application_draft app g =
     first_max rev_created_at (filter (\<lambda>r. rev_status r = Rev_draft) (application_list_revisions app g))"

definition resolve_parent ::
  "application \<Rightarrow> string option \<Rightarrow> node_value graph \<Rightarrow> exn + application_revision option" where
  "resolve_parent a p g =
     (case p of
        Some i \<Rightarrow>
          (case coll_get revisions_coll (key i) g of
             Some r \<Rightarrow> if rev_application_id r = app_id a then Inr (Some r)
               else Inl (ValidationFailure (''unknown parent revision: '' @ i))
           | None \<Rightarrow> Inl (ValidationFailure (''unknown parent revision: '' @ i)))
      | None \<Rightarrow>
          (case app_active_revision_id a of
             None \<Rightarrow> Inr None
           | Some i \<Rightarrow> Inr (if i = [] then None else coll_get revisions_coll (key i) g)))"

definition application_copy_edges :: "string list" where
  "application_copy_edges = [''HAS_SOURCE_TREE'', ''HAS_ACTION_REVISION'', ''HAS_OBJECT_TYPE_REVISION'',
     ''HAS_RELATION_TYPE_REVISION'', ''HAS_TRIGGER_REVISION'', ''HAS_TEST'', ''DECLARES_DEPENDENCY'']"

text \<open>What a new revision starts from: what its parent binds, or the empty tree.\<close>

definition start_from ::
  "(string \<Rightarrow> string) \<Rightarrow> string \<Rightarrow> string list \<Rightarrow> string \<Rightarrow> string option \<Rightarrow> ('z svc_scheme, unit) op" where
  "start_from sha label etypes rid parent =
     (case parent of
        Some p \<Rightarrow> bindE (link (id_ref label rid) ''PARENT_REVISION'' (id_ref label p)) (\<lambda>_.
          store_op (copy_edges p rid etypes))
      | None \<Rightarrow> bindE now_utc (\<lambda>now. bindE (store_op (interned_empty_tree sha now)) (\<lambda>t.
          store_op (set_tree rid (tree_id t)))))"

definition application_create_revision ::
  "(string \<Rightarrow> string) \<Rightarrow> string \<Rightarrow> string \<Rightarrow> ui_profile option \<Rightarrow> string option \<Rightarrow>
   ('z svc_scheme, application_revision) op" where
  "application_create_revision sha app created_by profile parent_id = atomically
     (bindE (item_of applications_coll (key app)) (\<lambda>a.
      bindE (asks (application_draft (app_id a))) (\<lambda>d.
      (case d of
         Some draft \<Rightarrow>
           if parent_id = None \<or> parent_id = Some (rev_id draft) \<or> parent_id = rev_parent_revision_id draft
           then ret draft
           else raise (ValidationFailure (''Application '' @ app @ '' already has draft '' @ rev_id draft @
             ''; call discard_application_revision to start from a different parent''))
       | None \<Rightarrow>
           bindE (reads (resolve_parent a parent_id)) (\<lambda>parent.
           bindE (asks (application_list_revisions app)) (\<lambda>revs.
           bindE now_utc (\<lambda>t.
           (let r = \<lparr>rev_id = app @ ''@'' @ nat_text (Suc (length revs)), rev_application_id = app,
                  rev_parent_revision_id = map_option rev_id parent,
                  rev_ui_profile = (case profile of Some u \<Rightarrow> u
                    | None \<Rightarrow> (case parent of Some p \<Rightarrow> rev_ui_profile p | None \<Rightarrow> Ui_n4x_default)),
                  rev_status = Rev_draft, rev_created_at = t, rev_created_by = created_by\<rparr> in
           bindE (save_to revisions_coll r) (\<lambda>_.
           bindE (writes (application_attach_revision app (rev_id r))) (\<lambda>_.
           bindE (start_from sha ''ApplicationRevision'' application_copy_edges (rev_id r) (map_option rev_id parent)) (\<lambda>_.
           ret r)))))))))))"

text \<open>All edges from a node, one type after the other.\<close>

fun delete_edge_types :: "node_ref \<Rightarrow> string list \<Rightarrow> edge list \<Rightarrow> node_value graph \<Rightarrow> node_value graph" where
  "delete_edge_types ref seen [] g = g"
| "delete_edge_types ref seen (e # es) g =
     (if edge_type e \<in> set seen then delete_edge_types ref seen es g
      else delete_edge_types ref (edge_type e # seen) es (delete_edge ref (edge_type e) None None g))"

text \<open>The edges of a draft go, then its own working tree.\<close>

definition unbind_draft :: "node_ref \<Rightarrow> node_ref \<Rightarrow> string \<Rightarrow> source_tree \<Rightarrow> ('z svc_scheme, unit) op" where
  "unbind_draft owner ref rid t =
     bindE (asks (list_edges (Some ref) None None)) (\<lambda>es.
     bindE (writes (delete_edge_types ref [] es)) (\<lambda>_.
     bindE (writes (delete_edge owner ''HAS_REVISION'' (Some ref) None)) (\<lambda>_.
     if tree_status t = Tree_draft \<and> tree_owner_id t = Some rid
     then store_op (delete_working_tree (tree_id t)) else ret ())))"

definition application_discard_revision :: "string \<Rightarrow> ('z svc_scheme, unit) op" where
  "application_discard_revision rid = atomically
     (bindE (require_application rid) (\<lambda>r.
      bindE (reads (tree (rev_id r))) (\<lambda>t.
      bindE (unbind_draft (id_ref ''Application'' (rev_application_id r)) (id_ref ''ApplicationRevision'' (rev_id r))
         (rev_id r) t) (\<lambda>_.
      bindE (writes (coll_delete revisions_coll (key (rev_id r)))) (\<lambda>_.
      bindE (store_op delete_interned_orphans) (\<lambda>_. ret ()))))))"

section \<open>Dependencies\<close>

definition ecosystem_text :: "dep_ecosystem_kind \<Rightarrow> string" where
  "ecosystem_text k = (case k of Dep_python \<Rightarrow> ''python'' | Dep_javascript \<Rightarrow> ''javascript'')"

definition upsert_runtime_dependency ::
  "(string \<Rightarrow> string) \<Rightarrow> string \<Rightarrow> dep_ecosystem_kind \<Rightarrow> string \<Rightarrow> string \<Rightarrow> ('z svc_scheme, runtime_dependency) op" where
  "upsert_runtime_dependency sha rid eco package spec =
     (let i = runtime_dependency_id sha (ecosystem_text eco) package spec in
      bindE (interned_record runtime_dependencies_coll i (\<lambda>t.
        \<lparr>dep_id = i, dep_ecosystem = eco, dep_package = package, dep_spec = spec, dep_created_at = t\<rparr>)) (\<lambda>d.
      bindE (reads (dependencies rid)) (\<lambda>bound.
      if dep_id d \<in> set (map dep_id bound) then ret d
      else bindE (reads (resolve rid)) (\<lambda>label.
           bindE (link (id_ref label rid) ''DECLARES_DEPENDENCY'' (id_ref ''RuntimeDependency'' (dep_id d))) (\<lambda>_.
           ret d)))))"

definition application_create_dependency ::
  "(string \<Rightarrow> string) \<Rightarrow> string \<Rightarrow> string \<Rightarrow> string \<Rightarrow> string \<Rightarrow> ('z svc_scheme, runtime_dependency) op" where
  "application_create_dependency sha rid ecosystem package spec = atomically
     (bindE (require_application rid) (\<lambda>_.
      bindE (require (ecosystem = ''python'')
        (ValueError (''ApplicationRevision dependencies must use the python ecosystem; '' @
           ''declare JavaScript dependencies on an ExperienceRevision''))) (\<lambda>_.
      upsert_runtime_dependency sha rid Dep_python package spec)))"

end
