(* ===== verification/Surface_Types.thy ===== *)
theory Surface_Types
  imports File_Delivery Json_Text
begin

text \<open>
  The versioned contracts of an Experience's Surfaces (\<^verbatim>\<open>kernel/surface_types.py\<close>): parsing the
  configuration of a browser or MCP Surface, its validators, its normal form, and the registry of
  the Surface types; and the links to an instance (\<^verbatim>\<open>system/origins.py\<close>), which also read a URL.
\<close>

section \<open>URLs\<close>

text \<open>
  \<^verbatim>\<open>urllib.parse.urlsplit\<close>. The check of a bracketed host or of a network location beyond ASCII
  is the parameter \<open>netloc_ok\<close>.
\<close>

record url =
  url_scheme :: string
  url_netloc :: string
  url_path :: string
  url_query :: string
  url_fragment :: string

definition is_alpha :: "char \<Rightarrow> bool" where
  "is_alpha c = (let n = (of_char c :: nat) in 65 \<le> n \<and> n \<le> 90 \<or> 97 \<le> n \<and> n \<le> 122)"

definition lower_char :: "char \<Rightarrow> char" where
  "lower_char c = (let n = (of_char c :: nat) in if 65 \<le> n \<and> n \<le> 90 then char_of (n + 32) else c)"

definition scheme_char :: "char \<Rightarrow> bool" where
  "scheme_char c \<longleftrightarrow> is_alpha c \<or> is_digit c \<or> c \<in> set ''+-.''"

text \<open>The text before the first character of a set, and the rest from it on.\<close>

definition break_at :: "string \<Rightarrow> string \<Rightarrow> string \<times> string" where
  "break_at ds s = (takeWhile (\<lambda>c. c \<notin> set ds) s, dropWhile (\<lambda>c. c \<notin> set ds) s)"

definition clean_url :: "string \<Rightarrow> string" where
  "clean_url s = filter (\<lambda>c. c \<notin> {CHR 0x09, CR, LF}) (dropWhile (\<lambda>c. (of_char c :: nat) \<le> 32) s)"

definition split_scheme :: "string \<Rightarrow> string \<times> string" where
  "split_scheme s =
     (case break_at '':'' s of (pre, rest) \<Rightarrow>
        if rest \<noteq> [] \<and> pre \<noteq> [] \<and> is_alpha (hd pre) \<and> list_all scheme_char pre
        then (map lower_char pre, tl rest) else ([], s))"

definition urlsplit :: "(string \<Rightarrow> bool) \<Rightarrow> string \<Rightarrow> url option" where
  "urlsplit netloc_ok s =
     (case split_scheme (clean_url s) of (scheme, rest) \<Rightarrow>
      case (if starts_with ''//'' rest then break_at ''/?#'' (drop 2 rest) else ([], rest)) of (netloc, rest) \<Rightarrow>
      case break_at ''#'' rest of (before, fragment) \<Rightarrow>
      case break_at ''?'' before of (path, query) \<Rightarrow>
      if (CHR ''['' \<in> set netloc) \<noteq> (CHR '']'' \<in> set netloc) \<or> \<not> netloc_ok netloc then None
      else Some \<lparr>url_scheme = scheme, url_netloc = netloc, url_path = path,
        url_query = tl query, url_fragment = tl fragment\<rparr>)"

text \<open>\<^verbatim>\<open>hostname\<close>: without the user, the port and the brackets, in lower case.\<close>

definition url_hostname :: "url \<Rightarrow> string" where
  "url_hostname u =
     (let hostinfo = last (split_on CHR ''@'' (url_netloc u));
          bracketed = snd (break_at ''['' hostinfo)
      in map lower_char
          (if bracketed \<noteq> [] then fst (break_at '']'' (tl bracketed)) else fst (break_at '':'' hostinfo)))"

section \<open>Validators\<close>

definition validate_origin :: "(string \<Rightarrow> bool) \<Rightarrow> string \<Rightarrow> bool" where
  "validate_origin netloc_ok v =
     (case urlsplit netloc_ok v of
        None \<Rightarrow> False
      | Some u \<Rightarrow> url_scheme u \<in> {''http'', ''https''} \<and> url_netloc u \<noteq> [] \<and> url_path u \<in> {[], ''/''} \<and>
          url_query u = [] \<and> url_fragment u = [] \<and> CHR ''*'' \<notin> set v)"

definition validate_origins :: "(string \<Rightarrow> bool) \<Rightarrow> string list \<Rightarrow> exn + string list" where
  "validate_origins netloc_ok vs =
     (if \<not> distinct vs then Inl (ValueError ''CSP origins must be unique'')
      else (case find (\<lambda>v. \<not> validate_origin netloc_ok v) vs of
          Some v \<Rightarrow> Inl (ValueError (''invalid absolute CSP origin: '' @ v))
        | None \<Rightarrow> Inr vs))"

definition validate_artifact_relative_path :: "string \<Rightarrow> string \<Rightarrow> exn + string" where
  "validate_artifact_relative_path field v =
     (if v = [] \<or> starts_with ''/'' v \<or> starts_with [CHR 0x5C] v \<or> CHR ''?'' \<in> set v \<or> CHR ''#'' \<in> set v \<or>
         list_ex (\<lambda>p. p \<in> {[], ''.'', ''..''}) (split_on CHR ''/'' v)
      then Inl (ValueError (field @ '' must be a traversal-safe artifact-relative path''))
      else Inr v)"

definition rstrip_slashes :: "string \<Rightarrow> string" where
  "rstrip_slashes s = rev (dropWhile (\<lambda>c. c = CHR ''/'') (rev s))"

definition validate_absolute_path :: "string \<Rightarrow> string \<Rightarrow> exn + string" where
  "validate_absolute_path field v =
     (if \<not> starts_with ''/'' v \<or> starts_with ''//'' v \<or> CHR ''?'' \<in> set v \<or> CHR ''#'' \<in> set v \<or>
         list_ex (\<lambda>p. p \<in> {''.'', ''..''}) (split_on CHR ''/'' v)
      then Inl (ValueError (field @ '' must be a traversal-safe absolute path''))
      else Inr (if v \<noteq> ''/'' \<and> v \<noteq> [] \<and> last v = CHR ''/'' then rstrip_slashes v else v))"

section \<open>Parsing a model\<close>

text \<open>\<^verbatim>\<open>extra="forbid"\<close>, fields with defaults, and the types of the fields.\<close>

definition only_fields :: "string list \<Rightarrow> (string, json) dict \<Rightarrow> exn + unit" where
  "only_fields names d =
     (case find (\<lambda>kv. fst kv \<notin> set names) d of
        Some kv \<Rightarrow> Inl (ValueError (fst kv @ '': extra inputs are not permitted'')) | None \<Rightarrow> Inr ())"

definition field_or :: "(string, json) dict \<Rightarrow> string \<Rightarrow> 'a \<Rightarrow> (json \<Rightarrow> exn + 'a) \<Rightarrow> exn + 'a" where
  "field_or d k v f = (case dict_get d k of None \<Rightarrow> Inr v | Some j \<Rightarrow> f j)"

definition wrong_type :: "string \<Rightarrow> exn + 'a" where
  "wrong_type what = Inl (ValueError (''input should be a valid '' @ what))"

definition to_string :: "json \<Rightarrow> exn + string" where
  "to_string j = (case j of JStr s \<Rightarrow> Inr s | _ \<Rightarrow> wrong_type ''string'')"

definition to_optional :: "(json \<Rightarrow> exn + 'a) \<Rightarrow> json \<Rightarrow> exn + 'a option" where
  "to_optional f j = (case j of JNull \<Rightarrow> Inr None | _ \<Rightarrow> rbind (f j) (\<lambda>a. Inr (Some a)))"

definition to_dict :: "json \<Rightarrow> exn + (string, json) dict" where
  "to_dict j = (case j of JObj d \<Rightarrow> Inr d | _ \<Rightarrow> wrong_type ''dictionary'')"

fun to_strings :: "json list \<Rightarrow> exn + string list" where
  "to_strings [] = Inr []"
| "to_strings (j # js) = rbind (to_string j) (\<lambda>s. rbind (to_strings js) (\<lambda>ss. Inr (s # ss)))"

definition to_string_list :: "json \<Rightarrow> exn + string list" where
  "to_string_list j = (case j of JArr js \<Rightarrow> to_strings js | _ \<Rightarrow> wrong_type ''list'')"

section \<open>The configurations\<close>

record surface_csp_config =
  csp_connect_domains :: "string list"
  csp_resource_domains :: "string list"

record browser_surface_config =
  browser_mount_path :: string
  browser_build_profile :: "(string, json) dict"
  browser_fallback :: "string option"
  browser_csp :: surface_csp_config
  browser_host_metadata :: "(string, json) dict"
  browser_pwa :: "string option"

record mcp_app_surface_config =
  mcp_metadata :: "(string, json) dict"
  mcp_related_browser_path :: "string option"
  mcp_csp :: surface_csp_config
  mcp_host_metadata :: "(string, json) dict"

definition default_csp :: surface_csp_config where
  "default_csp = \<lparr>csp_connect_domains = [], csp_resource_domains = []\<rparr>"

definition default_pwa_manifest_path :: string where
  "default_pwa_manifest_path = ''manifest.webmanifest''"

definition parse_csp :: "(string \<Rightarrow> bool) \<Rightarrow> json \<Rightarrow> exn + surface_csp_config" where
  "parse_csp netloc_ok j =
     rbind (to_dict j) (\<lambda>d.
     rbind (only_fields [''connect_domains'', ''resource_domains''] d) (\<lambda>_.
     rbind (field_or d ''connect_domains'' [] (\<lambda>v. rbind (to_string_list v) (validate_origins netloc_ok))) (\<lambda>c.
     rbind (field_or d ''resource_domains'' [] (\<lambda>v. rbind (to_string_list v) (validate_origins netloc_ok))) (\<lambda>r.
     Inr \<lparr>csp_connect_domains = c, csp_resource_domains = r\<rparr>))))"

text \<open>A \<^verbatim>\<open>BrowserPwaConfig\<close> is its manifest path.\<close>

definition parse_pwa :: "json \<Rightarrow> exn + string" where
  "parse_pwa j =
     rbind (to_dict j) (\<lambda>d.
     rbind (only_fields [''manifest_path''] d) (\<lambda>_.
     field_or d ''manifest_path'' default_pwa_manifest_path
       (\<lambda>v. rbind (to_string v) (validate_artifact_relative_path ''manifest_path''))))"

definition parse_browser :: "(string \<Rightarrow> bool) \<Rightarrow> (string, json) dict \<Rightarrow> exn + browser_surface_config" where
  "parse_browser netloc_ok d =
     rbind (only_fields [''mount_path'', ''build_profile'', ''fallback'', ''csp'', ''host_metadata'', ''pwa''] d) (\<lambda>_.
     rbind (field_or d ''mount_path'' ''/'' (\<lambda>v. rbind (to_string v) (validate_absolute_path ''mount_path''))) (\<lambda>mount.
     rbind (field_or d ''build_profile'' [] to_dict) (\<lambda>profile.
     rbind (field_or d ''fallback'' None
       (to_optional (\<lambda>v. rbind (to_string v) (validate_absolute_path ''fallback'')))) (\<lambda>fallback.
     rbind (field_or d ''csp'' default_csp (parse_csp netloc_ok)) (\<lambda>csp.
     rbind (field_or d ''host_metadata'' [] to_dict) (\<lambda>metadata.
     rbind (field_or d ''pwa'' None (to_optional parse_pwa)) (\<lambda>pwa.
     if pwa \<noteq> None \<and> mount \<noteq> ''/'' then Inl (ValueError ''pwa is valid only on the / browser Surface'')
     else Inr \<lparr>browser_mount_path = mount, browser_build_profile = profile, browser_fallback = fallback,
       browser_csp = csp, browser_host_metadata = metadata, browser_pwa = pwa\<rparr>)))))))"

definition parse_mcp_app :: "(string \<Rightarrow> bool) \<Rightarrow> (string, json) dict \<Rightarrow> exn + mcp_app_surface_config" where
  "parse_mcp_app netloc_ok d =
     rbind (only_fields [''metadata'', ''related_browser_path'', ''csp'', ''host_metadata''] d) (\<lambda>_.
     rbind (field_or d ''metadata'' [] to_dict) (\<lambda>meta.
     rbind (field_or d ''related_browser_path'' None
       (to_optional (\<lambda>v. rbind (to_string v) (validate_absolute_path ''related_browser_path'')))) (\<lambda>path.
     rbind (field_or d ''csp'' default_csp (parse_csp netloc_ok)) (\<lambda>csp.
     rbind (field_or d ''host_metadata'' [] to_dict) (\<lambda>metadata.
     Inr \<lparr>mcp_metadata = meta, mcp_related_browser_path = path, mcp_csp = csp, mcp_host_metadata = metadata\<rparr>)))))"

text \<open>\<^verbatim>\<open>model_dump(mode="json")\<close>; a browser Surface without PWA has no such entry.\<close>

definition csp_json :: "surface_csp_config \<Rightarrow> json" where
  "csp_json c = JObj [(''connect_domains'', JArr (map JStr (csp_connect_domains c))),
     (''resource_domains'', JArr (map JStr (csp_resource_domains c)))]"

definition browser_dump :: "browser_surface_config \<Rightarrow> (string, json) dict" where
  "browser_dump c =
     [(''mount_path'', JStr (browser_mount_path c)), (''build_profile'', JObj (browser_build_profile c)),
      (''fallback'', json_opt (browser_fallback c)), (''csp'', csp_json (browser_csp c)),
      (''host_metadata'', JObj (browser_host_metadata c))] @
     (case browser_pwa c of None \<Rightarrow> [] | Some p \<Rightarrow> [(''pwa'', JObj [(''manifest_path'', JStr p)])])"

definition mcp_app_dump :: "mcp_app_surface_config \<Rightarrow> (string, json) dict" where
  "mcp_app_dump c =
     [(''metadata'', JObj (mcp_metadata c)), (''related_browser_path'', json_opt (mcp_related_browser_path c)),
      (''csp'', csp_json (mcp_csp c)), (''host_metadata'', JObj (mcp_host_metadata c))]"

section \<open>The registry\<close>

type_synonym config_validator = "(string, json) dict \<Rightarrow> exn + (string, json) dict"
type_synonym surface_registry = "(string \<times> int, config_validator) dict"

definition register_type :: "string \<Rightarrow> int \<Rightarrow> config_validator \<Rightarrow> surface_registry \<Rightarrow> exn + surface_registry" where
  "register_type ty version validate reg =
     (if strip ty = [] then Inl (ValueError ''surface_type must not be empty'')
      else if version < 1 then Inl (ValueError ''surface_type version must be positive'')
      else if dict_get reg (ty, version) \<noteq> None
      then Inl (ValueError (''Surface type already registered: '' @ ty @ ''@'' @ int_text version))
      else Inr (dict_set (ty, version) validate reg))"

definition registered :: "surface_registry \<Rightarrow> string \<Rightarrow> int \<Rightarrow> exn + config_validator" where
  "registered reg ty version =
     (case dict_get reg (ty, version) of
        None \<Rightarrow> Inl (ValueError (''unsupported Surface type: '' @ ty @ ''@'' @ int_text version))
      | Some v \<Rightarrow> Inr v)"

definition validate_config ::
  "surface_registry \<Rightarrow> string \<Rightarrow> int \<Rightarrow> (string, json) dict \<Rightarrow> exn + (string, json) dict" where
  "validate_config reg ty version config = rbind (registered reg ty version) (\<lambda>validate. validate config)"

definition surface_types :: "(string \<Rightarrow> bool) \<Rightarrow> exn + surface_registry" where
  "surface_types netloc_ok =
     rbind (register_type ''browser'' 1 (\<lambda>d. rbind (parse_browser netloc_ok d) (\<lambda>c. Inr (browser_dump c))) []) (\<lambda>reg.
     register_type ''mcp_app'' 1 (\<lambda>d. rbind (parse_mcp_app netloc_ok d) (\<lambda>c. Inr (mcp_app_dump c))) reg)"

section \<open>Links to an instance\<close>

definition is_loopback_origin :: "(string \<Rightarrow> bool) \<Rightarrow> string \<Rightarrow> exn + bool" where
  "is_loopback_origin netloc_ok origin =
     (case urlsplit netloc_ok (rstrip_slashes origin) of
        None \<Rightarrow> Inl (ValueError ''Invalid URL'')
      | Some u \<Rightarrow> Inr (url_hostname u \<in> {''127.0.0.1'', ''localhost'', ''::1''}))"

record instance_link_view =
  link_url :: string
  link_origin_kind :: string
  link_host_bind_url :: string

definition instance_link :: "(string \<Rightarrow> bool) \<Rightarrow> string \<Rightarrow> string \<Rightarrow> string \<Rightarrow> exn + instance_link_view" where
  "instance_link netloc_ok public_origin path host_bind =
     (let origin = rstrip_slashes public_origin;
          bind = rstrip_slashes host_bind;
          path = (if starts_with ''/'' path then path else CHR ''/'' # path);
          url = origin @ path
      in rbind (is_loopback_origin netloc_ok origin) (\<lambda>loopback.
         Inr (if loopback
           then \<lparr>link_url = url, link_origin_kind = ''host_bind'', link_host_bind_url = url\<rparr>
           else \<lparr>link_url = url, link_origin_kind = ''public'', link_host_bind_url = bind @ path\<rparr>)))"

section \<open>Laws\<close>

lemma split_on_nonempty: "split_on d s \<noteq> []"
  by (induction s) (auto split: list.splits)

lemma split_on_append: "split_on d (s @ d # t) = split_on d s @ split_on d t"
proof (induction s)
  case (Cons a s)
  then show ?case using split_on_nonempty [of d s] by (cases "split_on d s") auto
qed simp

lemma rstrip_slashes_decomp: "\<exists>k. v = rstrip_slashes v @ replicate k CHR ''/''"
proof (induction v rule: rev_induct)
  case Nil
  then show ?case by (simp add: rstrip_slashes_def)
next
  case (snoc c v)
  show ?case
  proof (cases "c = CHR ''/''")
    case True
    from snoc obtain k where "v = rstrip_slashes v @ replicate k CHR ''/''" by blast
    then have "v @ [c] = rstrip_slashes v @ replicate (Suc k) CHR ''/''"
      using True by (metis append_assoc replicate_Suc replicate_append_same)
    moreover have "rstrip_slashes (v @ [c]) = rstrip_slashes v" using True by (simp add: rstrip_slashes_def)
    ultimately show ?thesis by metis
  next
    case False
    then have "rstrip_slashes (v @ [c]) = v @ [c]" by (simp add: rstrip_slashes_def)
    then show ?thesis by (metis append_Nil2 replicate_0)
  qed
qed

lemma rstrip_slashes_last: "rstrip_slashes v \<noteq> [] \<Longrightarrow> last (rstrip_slashes v) \<noteq> CHR ''/''"
  unfolding rstrip_slashes_def by (metis (full_types) hd_dropWhile last_rev rev_is_Nil_conv rev_rev_ident)

lemma split_on_rstrip: "set (split_on CHR ''/'' (rstrip_slashes v)) \<subseteq> set (split_on CHR ''/'' v)"
proof -
  obtain k where k: "v = rstrip_slashes v @ replicate k CHR ''/''" using rstrip_slashes_decomp by blast
  show ?thesis
  proof (cases k)
    case 0
    with k show ?thesis by simp
  next
    case (Suc n)
    with k have "v = rstrip_slashes v @ CHR ''/'' # replicate n CHR ''/''" by simp
    then have "split_on CHR ''/'' v = split_on CHR ''/'' (rstrip_slashes v) @ split_on CHR ''/'' (replicate n CHR ''/'')"
      by (metis split_on_append)
    then show ?thesis by simp
  qed
qed

text \<open>Validating a path that was validated changes nothing.\<close>

lemma absolute_path_fixed:
  assumes "validate_absolute_path f v = Inr w" shows "validate_absolute_path f w = Inr w"
proof (cases "v \<noteq> ''/'' \<and> v \<noteq> [] \<and> last v = CHR ''/''")
  case False
  with assms show ?thesis by (auto simp: validate_absolute_path_def split: if_splits)
next
  case True
  with assms have w: "w = rstrip_slashes v" and s: "starts_with ''/'' v" "\<not> starts_with ''//'' v"
    and ok: "CHR ''?'' \<notin> set v" "CHR ''#'' \<notin> set v" "\<forall>p\<in>set (split_on CHR ''/'' v). p \<notin> {''.'', ''..''}"
    by (auto simp: validate_absolute_path_def list_ex_iff split: if_splits)
  from s(1) obtain rest where r: "v = CHR ''/'' # rest" by (cases v) auto
  with True s(2) obtain c cs where c: "v = CHR ''/'' # c # cs" "c \<noteq> CHR ''/''" by (cases rest) auto
  obtain k where k: "v = rstrip_slashes v @ replicate k CHR ''/''" using rstrip_slashes_decomp by blast
  have "\<exists>cs'. rstrip_slashes v = CHR ''/'' # c # cs'"
  proof (cases "rstrip_slashes v" rule: remdups_adj.cases)
    case 1
    with k have "v = replicate k CHR ''/''" by simp
    with c show ?thesis by (cases k; cases "k - 1") auto
  next
    case (2 x)
    with k have "v = x # replicate k CHR ''/''" by simp
    with c show ?thesis by (cases k) auto
  next
    case (3 x y xs)
    with k have "v = x # y # (xs @ replicate k CHR ''/'')" by simp
    with c 3 show ?thesis by simp
  qed
  then obtain cs' where cs': "w = CHR ''/'' # c # cs'" using w by blast
  have sub: "set w \<subseteq> set v" by (subst k) (simp add: w)
  have "last w \<noteq> CHR ''/''" using rstrip_slashes_last [of v, folded w] cs' by blast
  moreover have "\<forall>p\<in>set (split_on CHR ''/'' w). p \<notin> {''.'', ''..''}" using ok(3) split_on_rstrip w by blast
  ultimately show ?thesis
    using sub ok(1,2) cs' c(2) by (auto simp: validate_absolute_path_def list_ex_iff)
qed

lemma origins_fixed: "validate_origins ok vs = Inr ws \<Longrightarrow> ws = vs"
  by (auto simp: validate_origins_def split: if_splits option.splits)

lemma to_strings_map: "to_strings js = Inr ss \<Longrightarrow> js = map JStr ss"
  by (induction js arbitrary: ss) (auto simp: rbind_eq_Inr to_string_def wrong_type_def split: json.splits)

lemma to_strings_JStr [simp]: "to_strings (map JStr ss) = Inr ss"
  by (induction ss) (simp_all add: to_string_def)

text \<open>The configurations that parsing returns.\<close>

definition csp_ok :: "(string \<Rightarrow> bool) \<Rightarrow> surface_csp_config \<Rightarrow> bool" where
  "csp_ok netloc_ok c \<longleftrightarrow>
     validate_origins netloc_ok (csp_connect_domains c) = Inr (csp_connect_domains c) \<and>
     validate_origins netloc_ok (csp_resource_domains c) = Inr (csp_resource_domains c)"

definition browser_ok :: "(string \<Rightarrow> bool) \<Rightarrow> browser_surface_config \<Rightarrow> bool" where
  "browser_ok netloc_ok c \<longleftrightarrow>
     validate_absolute_path ''mount_path'' (browser_mount_path c) = Inr (browser_mount_path c) \<and>
     (case browser_fallback c of None \<Rightarrow> True | Some p \<Rightarrow> validate_absolute_path ''fallback'' p = Inr p) \<and>
     csp_ok netloc_ok (browser_csp c) \<and>
     (case browser_pwa c of None \<Rightarrow> True
      | Some p \<Rightarrow> browser_mount_path c = ''/'' \<and> validate_artifact_relative_path ''manifest_path'' p = Inr p)"

lemma field_orE:
  assumes "field_or d k v f = Inr x" and "Q v" and "\<And>j y. f j = Inr y \<Longrightarrow> Q y" shows "Q x"
  using assms by (auto simp: field_or_def split: option.splits)

lemma parse_csp_ok: "parse_csp netloc_ok j = Inr c \<Longrightarrow> csp_ok netloc_ok c"
proof -
  assume "parse_csp netloc_ok j = Inr c"
  then obtain d a b where
    a: "field_or d ''connect_domains'' [] (\<lambda>v. rbind (to_string_list v) (validate_origins netloc_ok)) = Inr a" and
    b: "field_or d ''resource_domains'' [] (\<lambda>v. rbind (to_string_list v) (validate_origins netloc_ok)) = Inr b" and
    c: "c = \<lparr>csp_connect_domains = a, csp_resource_domains = b\<rparr>"
    by (auto simp: parse_csp_def rbind_eq_Inr)
  have f: "rbind (to_string_list j) (validate_origins netloc_ok) = Inr y \<Longrightarrow> validate_origins netloc_ok y = Inr y" for j y
    using origins_fixed by (auto simp: rbind_eq_Inr)
  have e: "validate_origins netloc_ok [] = Inr []" by (simp add: validate_origins_def)
  let ?Q = "\<lambda>y. validate_origins netloc_ok y = Inr y"
  show ?thesis using field_orE [where Q = ?Q, OF a e f] field_orE [where Q = ?Q, OF b e f] by (simp add: c csp_ok_def)
qed

lemma default_csp_ok: "csp_ok netloc_ok default_csp"
  by (simp add: csp_ok_def default_csp_def validate_origins_def)

lemma artifact_path_fixed: "validate_artifact_relative_path f v = Inr w \<Longrightarrow> w = v"
  by (simp add: validate_artifact_relative_path_def split: if_splits)

lemma default_pwa_ok: "validate_artifact_relative_path ''manifest_path'' default_pwa_manifest_path = Inr default_pwa_manifest_path"
  by (simp add: validate_artifact_relative_path_def default_pwa_manifest_path_def)

lemma parse_pwa_ok: "parse_pwa j = Inr p \<Longrightarrow> validate_artifact_relative_path ''manifest_path'' p = Inr p"
proof -
  assume "parse_pwa j = Inr p"
  then obtain d where d: "field_or d ''manifest_path'' default_pwa_manifest_path
       (\<lambda>v. rbind (to_string v) (validate_artifact_relative_path ''manifest_path'')) = Inr p"
    by (auto simp: parse_pwa_def rbind_eq_Inr)
  show ?thesis
    by (rule field_orE [OF d, where Q = "\<lambda>p. validate_artifact_relative_path ''manifest_path'' p = Inr p"])
      (auto simp: rbind_eq_Inr default_pwa_ok dest: artifact_path_fixed)
qed

lemma parse_browser_ok:
  assumes "parse_browser netloc_ok d = Inr c" shows "browser_ok netloc_ok c"
proof -
  from assms obtain mount profile fallback csp metadata pwa where
    m: "field_or d ''mount_path'' ''/'' (\<lambda>v. rbind (to_string v) (validate_absolute_path ''mount_path'')) = Inr mount" and
    f: "field_or d ''fallback'' None
       (to_optional (\<lambda>v. rbind (to_string v) (validate_absolute_path ''fallback''))) = Inr fallback" and
    s: "field_or d ''csp'' default_csp (parse_csp netloc_ok) = Inr csp" and
    p: "field_or d ''pwa'' None (to_optional parse_pwa) = Inr pwa" and
    n: "pwa = None \<or> mount = ''/''" and
    c: "c = \<lparr>browser_mount_path = mount, browser_build_profile = profile, browser_fallback = fallback,
       browser_csp = csp, browser_host_metadata = metadata, browser_pwa = pwa\<rparr>"
    by (auto simp: parse_browser_def rbind_eq_Inr split: if_split_asm)
  have "validate_absolute_path ''mount_path'' mount = Inr mount"
    by (rule field_orE [OF m, where Q = "\<lambda>p. validate_absolute_path ''mount_path'' p = Inr p"])
      (auto simp: rbind_eq_Inr validate_absolute_path_def [of _ "''/''"] intro: absolute_path_fixed)
  moreover have "case fallback of None \<Rightarrow> True | Some p \<Rightarrow> validate_absolute_path ''fallback'' p = Inr p"
    by (rule field_orE [OF f, where Q = "\<lambda>x. case x of None \<Rightarrow> True | Some p \<Rightarrow> validate_absolute_path ''fallback'' p = Inr p"])
      (auto simp: rbind_eq_Inr to_optional_def split: json.splits option.splits intro: absolute_path_fixed)
  moreover have "csp_ok netloc_ok csp"
    by (rule field_orE [OF s, where Q = "csp_ok netloc_ok"]) (auto intro: default_csp_ok parse_csp_ok)
  moreover have "case pwa of None \<Rightarrow> True | Some p \<Rightarrow> validate_artifact_relative_path ''manifest_path'' p = Inr p"
    by (rule field_orE [OF p, where Q = "\<lambda>x. case x of None \<Rightarrow> True | Some p \<Rightarrow> validate_artifact_relative_path ''manifest_path'' p = Inr p"])
      (auto simp: rbind_eq_Inr to_optional_def split: json.splits option.splits intro: parse_pwa_ok)
  ultimately show ?thesis using n by (auto simp: browser_ok_def c split: option.splits)
qed

text \<open>What is dumped parses to the same configuration.\<close>

lemma csp_read_back: "csp_ok netloc_ok c \<Longrightarrow> parse_csp netloc_ok (csp_json c) = Inr c"
  by (simp add: parse_csp_def csp_json_def to_dict_def only_fields_def field_or_def to_string_list_def csp_ok_def)

lemma browser_read_back:
  assumes "browser_ok netloc_ok c" shows "parse_browser netloc_ok (browser_dump c) = Inr c"
proof -
  let ?d = "browser_dump c"
  have "only_fields [''mount_path'', ''build_profile'', ''fallback'', ''csp'', ''host_metadata'', ''pwa''] ?d = Inr ()"
    by (simp add: only_fields_def browser_dump_def split: option.splits)
  moreover have "field_or ?d ''mount_path'' ''/'' (\<lambda>v. rbind (to_string v) (validate_absolute_path ''mount_path'')) =
      Inr (browser_mount_path c)"
    using assms by (simp add: field_or_def browser_dump_def to_string_def browser_ok_def)
  moreover have "field_or ?d ''build_profile'' [] to_dict = Inr (browser_build_profile c)"
    by (simp add: field_or_def browser_dump_def to_dict_def)
  moreover have "field_or ?d ''fallback'' None
       (to_optional (\<lambda>v. rbind (to_string v) (validate_absolute_path ''fallback''))) = Inr (browser_fallback c)"
    using assms by (auto simp: field_or_def browser_dump_def to_optional_def to_string_def json_opt_def browser_ok_def
        split: option.splits)
  moreover have "field_or ?d ''csp'' default_csp (parse_csp netloc_ok) = Inr (browser_csp c)"
    using assms csp_read_back [of netloc_ok "browser_csp c"] by (simp add: field_or_def browser_dump_def browser_ok_def)
  moreover have "field_or ?d ''host_metadata'' [] to_dict = Inr (browser_host_metadata c)"
    by (simp add: field_or_def browser_dump_def to_dict_def)
  moreover have "field_or ?d ''pwa'' None (to_optional parse_pwa) = Inr (browser_pwa c)"
    using assms by (auto simp: field_or_def browser_dump_def to_optional_def parse_pwa_def to_dict_def only_fields_def
        to_string_def browser_ok_def split: option.splits)
  ultimately show ?thesis
    using assms by (auto simp: parse_browser_def browser_ok_def split: option.splits)
qed

lemma validate_config_browser:
  "surface_types netloc_ok = Inr reg \<Longrightarrow>
     validate_config reg ''browser'' 1 d = rbind (parse_browser netloc_ok d) (\<lambda>c. Inr (browser_dump c))"
  by (auto simp: surface_types_def register_type_def validate_config_def registered_def strip_def is_space_def
      dict_simps rbind_eq_Inr split: if_splits)

end
