(* ===== verification/System_Experiences.thy ===== *)
theory System_Experiences
  imports System_Applications Surface_Types
begin

text \<open>
  Experiences, their drafts and access declarations (\<^verbatim>\<open>system/experiences.py\<close>) and the Surfaces a
  draft declares (\<^verbatim>\<open>system/surfaces.py\<close>, with the validators of \<^verbatim>\<open>ExperienceSurface\<close>).
\<close>

section \<open>Access declarations\<close>

text \<open>The validators of \<^verbatim>\<open>ApplicationAccessDeclaration\<close> and of the list of declarations.\<close>

definition identifiers_ok :: "string list option \<Rightarrow> bool" where
  "identifiers_ok ids \<longleftrightarrow> (case ids of None \<Rightarrow> True | Some xs \<Rightarrow> (\<forall>x\<in>set xs. strip x \<noteq> []) \<and> distinct xs)"

definition declaration_ok :: "application_access_declaration \<Rightarrow> bool" where
  "declaration_ok d \<longleftrightarrow> strip (access_application_id d) \<noteq> [] \<and> identifiers_ok (access_object_type_ids d) \<and>
     identifiers_ok (access_relation_type_ids d) \<and> identifiers_ok (access_action_ids d) \<and>
     identifiers_ok (access_secret_reference_ids d)"

definition check_declarations :: "application_access_declaration list \<Rightarrow> exn + unit" where
  "check_declarations ds =
     (if \<not> list_all declaration_ok ds then Inl (ValueError ''access allowlist identifiers'') else Inr ())"

definition check_unique :: "application_access_declaration list \<Rightarrow> exn + unit" where
  "check_unique ds =
     (if \<not> distinct (map access_application_id ds)
      then Inl (ValueError ''application_access application_ids must be unique'') else Inr ())"

text \<open>\<^verbatim>\<open>_validate_access_declarations\<close>: every name declared belongs to the Application.\<close>

definition check_targets ::
  "string \<Rightarrow> string \<Rightarrow> 'm collection \<Rightarrow> ('m \<Rightarrow> string) \<Rightarrow> string list option \<Rightarrow> node_value graph \<Rightarrow> exn + unit" where
  "check_targets kind app c owner ids g =
     (case find (\<lambda>i. case coll_get c (key i) g of None \<Rightarrow> True | Some m \<Rightarrow> owner m \<noteq> app)
         (case ids of None \<Rightarrow> [] | Some xs \<Rightarrow> xs) of
        Some i \<Rightarrow> Inl (ValueError (''invalid '' @ kind @ '' access declaration: '' @ i))
      | None \<Rightarrow> Inr ())"

definition validate_declaration :: "node_value graph \<Rightarrow> application_access_declaration \<Rightarrow> exn + unit" where
  "validate_declaration g d =
     (let app = access_application_id d in
      if coll_get applications_coll (key app) g = None
      then Inl (ValueError (''unknown application access target: '' @ app))
      else rbind (check_targets ''object type'' app object_types_coll otype_application_id (access_object_type_ids d) g) (\<lambda>_.
        rbind (check_targets ''relation type'' app relation_types_coll rtype_application_id (access_relation_type_ids d) g) (\<lambda>_.
        rbind (check_targets ''action'' app actions_coll act_application_id (access_action_ids d) g) (\<lambda>_.
        check_targets ''secret reference'' app secret_references_coll secret_application_id
          (access_secret_reference_ids d) g))))"

fun validate_access_declarations :: "application_access_declaration list \<Rightarrow> node_value graph \<Rightarrow> exn + unit" where
  "validate_access_declarations [] g = Inr ()"
| "validate_access_declarations (d # ds) g =
     rbind (validate_declaration g d) (\<lambda>_. validate_access_declarations ds g)"

definition link_access :: "experience_revision \<Rightarrow> ('z svc_scheme, unit) op" where
  "link_access r =
     (let ref = id_ref ''ExperienceRevision'' (exprev_id r) in
      bindE (writes (delete_edge ref ''USES_APPLICATION'' None None)) (\<lambda>_.
      for_each (\<lambda>d. link ref ''USES_APPLICATION'' (id_ref ''Application'' (access_application_id d)))
        (exprev_application_access r)))"

section \<open>Experiences\<close>

definition experience_create :: "string \<Rightarrow> string \<Rightarrow> string \<Rightarrow> ('z svc_scheme, experience) op" where
  "experience_create i name description = atomically
     (bindE now_utc (\<lambda>t.
      (let x = \<lparr>exp_id = i, exp_name = name, exp_description = description, exp_active_revision_id = None,
             exp_status = App_active, exp_created_at = t\<rparr> in
      bindE (save_to experiences_coll x) (\<lambda>_.
      bindE (writes (experience_attach_to_root i)) (\<lambda>_. ret x)))))"

definition experience_list :: "node_value graph \<Rightarrow> experience list" where
  "experience_list g = sort_key exp_id (filter (\<lambda>x. exp_status x \<noteq> App_disabled) (coll_values experiences_coll g))"

definition experience_retire :: "string \<Rightarrow> string option \<Rightarrow> ('z svc_scheme, experience) op" where
  "experience_retire i expected = atomically
     (bindE (item_of experiences_coll (key i)) (\<lambda>x.
      if exp_status x = App_disabled \<and> exp_active_revision_id x = None then ret x
      else bindE (require (expected = None \<or> exp_active_revision_id x = expected)
             (ConcurrentGraphUpdateError (''Experience '' @ i @ '' active revision changed before retirement''))) (\<lambda>_.
           bindE (store_op (experience_clear_active_revision i (exp_active_revision_id x))) (\<lambda>_.
           (let y = x\<lparr>exp_status := App_disabled, exp_active_revision_id := None\<rparr> in
            bindE (save_to experiences_coll y) (\<lambda>_. ret y))))))"

definition experience_draft :: "string \<Rightarrow> node_value graph \<Rightarrow> experience_revision option" where
  "experience_draft i g =
     first_max exprev_created_at (filter (\<lambda>r. exprev_status r = Rev_draft) (experience_list_revisions i g))"

definition experience_resolve_parent ::
  "experience \<Rightarrow> string option \<Rightarrow> node_value graph \<Rightarrow> exn + experience_revision option" where
  "experience_resolve_parent x p g =
     (case p of
        Some i \<Rightarrow>
          (case coll_get experience_revisions_coll (key i) g of
             Some r \<Rightarrow> if exprev_experience_id r = exp_id x then Inr (Some r)
               else Inl (ValidationFailure (''unknown parent revision: '' @ i))
           | None \<Rightarrow> Inl (ValidationFailure (''unknown parent revision: '' @ i)))
      | None \<Rightarrow>
          (case exp_active_revision_id x of
             None \<Rightarrow> Inr None
           | Some i \<Rightarrow> Inr (if i = [] then None else coll_get experience_revisions_coll (key i) g)))"

definition experience_copy_edges :: "string list" where
  "experience_copy_edges = [''HAS_SOURCE_TREE'', ''DECLARES_DEPENDENCY'', ''DECLARES_SURFACE'']"

definition experience_create_revision ::
  "(string \<Rightarrow> string) \<Rightarrow> string \<Rightarrow> string \<Rightarrow> ui_profile option \<Rightarrow> string option \<Rightarrow>
   application_access_declaration list option \<Rightarrow> ('z svc_scheme, experience_revision) op" where
  "experience_create_revision sha i created_by profile parent_id access = atomically
     (bindE (item_of experiences_coll (key i)) (\<lambda>x.
      bindE (asks (experience_draft (exp_id x))) (\<lambda>d.
      (case d of
         Some draft \<Rightarrow>
           if parent_id = None \<or> parent_id = Some (exprev_id draft) \<or> parent_id = exprev_parent_revision_id draft
           then ret draft
           else raise (ValidationFailure (''Experience '' @ i @ '' already has draft '' @ exprev_id draft @
             ''; call discard_experience_revision to start from a different parent''))
       | None \<Rightarrow>
           bindE (reads (experience_resolve_parent x parent_id)) (\<lambda>parent.
           (let ds = (case access of Some ds \<Rightarrow> ds
              | None \<Rightarrow> (case parent of Some p \<Rightarrow> exprev_application_access p | None \<Rightarrow> [])) in
           bindE (lift_result (check_declarations ds)) (\<lambda>_.
           bindE (reads (validate_access_declarations ds)) (\<lambda>_.
           bindE (asks (experience_list_revisions i)) (\<lambda>revs.
           bindE (lift_result (check_unique ds)) (\<lambda>_.
           bindE now_utc (\<lambda>t.
           (let r = \<lparr>exprev_id = i @ ''.experience@'' @ nat_text (Suc (length revs)), exprev_experience_id = i,
                  exprev_parent_revision_id = map_option exprev_id parent,
                  exprev_ui_profile = (case profile of Some u \<Rightarrow> u
                    | None \<Rightarrow> (case parent of Some p \<Rightarrow> exprev_ui_profile p | None \<Rightarrow> Ui_n4x_default)),
                  exprev_status = Rev_draft, exprev_created_at = t, exprev_created_by = created_by,
                  exprev_application_access = ds\<rparr> in
           bindE (save_to experience_revisions_coll r) (\<lambda>_.
           bindE (writes (experience_attach_revision i (exprev_id r))) (\<lambda>_.
           bindE (start_from sha ''ExperienceRevision'' experience_copy_edges (exprev_id r) (map_option exprev_id parent)) (\<lambda>_.
           bindE (link_access r) (\<lambda>_. ret r))))))))))))))))"

definition experience_discard_revision :: "string \<Rightarrow> ('z svc_scheme, unit) op" where
  "experience_discard_revision rid = atomically
     (bindE (require_experience rid) (\<lambda>r.
      bindE (reads (tree (exprev_id r))) (\<lambda>t.
      bindE (unbind_draft (id_ref ''Experience'' (exprev_experience_id r)) (id_ref ''ExperienceRevision'' (exprev_id r))
         (exprev_id r) t) (\<lambda>_.
      bindE (writes (coll_delete experience_revisions_coll (key (exprev_id r)))) (\<lambda>_.
      bindE (store_op delete_interned_orphans) (\<lambda>_. ret ()))))))"

definition set_application_access ::
  "string \<Rightarrow> application_access_declaration list \<Rightarrow> ('z svc_scheme, experience_revision) op" where
  "set_application_access rid ds = atomically
     (bindE (require_experience rid) (\<lambda>r.
      bindE (lift_result (check_declarations ds)) (\<lambda>_.
      bindE (reads (validate_access_declarations ds)) (\<lambda>_.
      bindE (lift_result (check_unique ds)) (\<lambda>_.
      (let u = r\<lparr>exprev_application_access := ds\<rparr> in
      bindE (save_to experience_revisions_coll u) (\<lambda>_.
      bindE (link_access u) (\<lambda>_. ret u))))))))"

definition experience_create_dependency ::
  "(string \<Rightarrow> string) \<Rightarrow> string \<Rightarrow> string \<Rightarrow> string \<Rightarrow> string \<Rightarrow> ('z svc_scheme, runtime_dependency) op" where
  "experience_create_dependency sha rid ecosystem package spec = atomically
     (bindE (require_experience rid) (\<lambda>_.
      bindE (require (ecosystem = ''javascript'')
        (ValueError (''ExperienceRevision dependencies must use the javascript '' @
           ''ecosystem; declare Python dependencies on an ApplicationRevision''))) (\<lambda>_.
      upsert_runtime_dependency sha rid Dep_javascript package spec)))"

text \<open>The paths of a draft that differ from its parent, in \<^verbatim>\<open>inspect_revision\<close>.\<close>

definition path_hashes :: "string \<Rightarrow> node_value graph \<Rightarrow> exn + (string, string) dict" where
  "path_hashes rid g =
     rbind (tree rid g) (\<lambda>t. rbind (list_source_tree (tree_id t) g) (\<lambda>fs.
     Inr (fold (\<lambda>f. dict_set (file_path f) (file_content_hash f)) fs [])))"

definition dirty_paths :: "experience_revision \<Rightarrow> node_value graph \<Rightarrow> exn + string list" where
  "dirty_paths r g =
     rbind (path_hashes (exprev_id r) g) (\<lambda>current.
     rbind (case exprev_parent_revision_id r of None \<Rightarrow> Inr [] | Some p \<Rightarrow> path_hashes p g) (\<lambda>previous.
     Inr (sort (remdups (filter (\<lambda>p. dict_get previous p \<noteq> dict_get current p) (map fst current) @
       filter (\<lambda>p. dict_get current p = None) (map fst previous))))))"

section \<open>Surfaces\<close>

definition relative_source_path :: "string \<Rightarrow> bool" where
  "relative_source_path p \<longleftrightarrow> p \<noteq> [] \<and> \<not> starts_with ''/'' p \<and> \<not> starts_with [CHR 0x5C] p \<and> CHR 0x5C \<notin> set p \<and>
     (\<forall>q\<in>set (split_on CHR ''/'' p). q \<notin> {[], ''.'', ''..''})"

text \<open>The validators of \<^verbatim>\<open>ExperienceSurface\<close>; the configuration becomes the normal form.\<close>

definition checked_surface :: "surface_registry \<Rightarrow> experience_surface \<Rightarrow> exn + experience_surface" where
  "checked_surface reg f =
     (if \<not> list_all (\<lambda>v. strip v \<noteq> []) [surf_id f, surf_surface_id f, surf_surface_type f, surf_entrypoint f]
      then Inl (ValueError ''Surface identifiers and source fields must not be empty'')
      else if surf_source_paths f = [] then Inl (ValueError ''Surface source_paths must not be empty'')
      else if \<not> distinct (surf_source_paths f) then Inl (ValueError ''Surface source_paths must be unique'')
      else if \<not> list_all relative_source_path (surf_source_paths f) \<or> \<not> relative_source_path (surf_entrypoint f)
      then Inl (ValueError ''Surface source paths must be traversal-safe relative paths'')
      else if surf_entrypoint f \<notin> set (surf_source_paths f)
      then Inl (ValueError ''Surface entrypoint must be included in source_paths'')
      else rbind (validate_config reg (surf_surface_type f) (surf_surface_type_version f) (surf_config f)) (\<lambda>c.
        Inr (f\<lparr>surf_config := c\<rparr>)))"

record surface_request =
  sreq_surface_id :: string
  sreq_surface_type :: string
  sreq_surface_type_version :: int
  sreq_entrypoint :: string
  sreq_source_paths :: "string list"
  sreq_title :: string
  sreq_description :: "string option"
  sreq_config :: "(string, json) dict"

definition surface_payload :: "surface_request \<Rightarrow> json" where
  "surface_payload q = JObj
     [(''surface_id'', JStr (sreq_surface_id q)), (''surface_type'', JStr (sreq_surface_type q)),
      (''surface_type_version'', JInt (sreq_surface_type_version q)), (''entrypoint'', JStr (sreq_entrypoint q)),
      (''source_paths'', JArr (map JStr (sreq_source_paths q))), (''title'', JStr (sreq_title q)),
      (''description'', json_opt (sreq_description q)), (''config'', JObj (sreq_config q))]"

definition upsert_surface ::
  "(string \<Rightarrow> string) \<Rightarrow> surface_registry \<Rightarrow> surface_request \<Rightarrow> string \<Rightarrow> ('z svc_scheme, experience_surface) op" where
  "upsert_surface sha reg q created_by =
     (let i = intern_id sha (surface_payload q) in
      bindE (asks (coll_get experience_surfaces_coll (key i))) (\<lambda>x.
      (case x of
         Some f \<Rightarrow> ret f
       | None \<Rightarrow>
           bindE now_utc (\<lambda>t.
           bindE (lift_result (checked_surface reg
             \<lparr>surf_id = i, surf_surface_id = sreq_surface_id q, surf_surface_type = sreq_surface_type q,
              surf_surface_type_version = sreq_surface_type_version q, surf_entrypoint = sreq_entrypoint q,
              surf_source_paths = sreq_source_paths q, surf_title = sreq_title q,
              surf_description = sreq_description q, surf_config = sreq_config q,
              surf_created_at = t, surf_created_by = created_by\<rparr>)) (\<lambda>f.
           bindE (save_to experience_surfaces_coll f) (\<lambda>_. ret f))))))"

definition validate_sources :: "string \<Rightarrow> experience_surface \<Rightarrow> ('z svc_scheme, unit) op" where
  "validate_sources rid f =
     bindE (reads (tree rid)) (\<lambda>t.
     for_each (\<lambda>p. bindE (reads (read_source_file (tree_id t) p)) (\<lambda>_. ret ())) (surf_source_paths f))"

definition surface_create ::
  "(string \<Rightarrow> string) \<Rightarrow> surface_registry \<Rightarrow> string \<Rightarrow> surface_request \<Rightarrow> string \<Rightarrow>
   ('z svc_scheme, experience_surface) op" where
  "surface_create sha reg rid q created_by = atomically
     (bindE (require_experience rid) (\<lambda>r.
      bindE (reads (named (exprev_id r) ''DECLARES_SURFACE'' experience_surfaces_coll surf_surface_id (sreq_surface_id q))) (\<lambda>x.
      bindE (require (x = None) (ValueError (''Surface already exists: '' @ rid @ ''/'' @ sreq_surface_id q))) (\<lambda>_.
      bindE (upsert_surface sha reg q created_by) (\<lambda>f.
      bindE (validate_sources (exprev_id r) f) (\<lambda>_.
      bindE (store_op (replace_named (exprev_id r) ''DECLARES_SURFACE'' None (surf_id f) ''ExperienceSurface'')) (\<lambda>_.
      ret f)))))))"

definition surface_list :: "string \<Rightarrow> node_value graph \<Rightarrow> exn + experience_surface list" where
  "surface_list rid g = rbind (surfaces rid g) (\<lambda>xs. Inr (sort_key surf_surface_id xs))"

text \<open>The fields that are given replace those of the current declaration.\<close>

record surface_change =
  new_surface_type :: "string option"
  new_surface_type_version :: "int option"
  new_entrypoint :: "string option"
  new_source_paths :: "string list option"
  new_title :: "string option"
  new_description :: "string option"
  new_config :: "(string, json) dict option"

definition given :: "'a option \<Rightarrow> 'a \<Rightarrow> 'a" where
  "given x d = (case x of None \<Rightarrow> d | Some v \<Rightarrow> v)"

definition changed_request :: "surface_change \<Rightarrow> experience_surface \<Rightarrow> string \<Rightarrow> surface_request" where
  "changed_request c f sid =
     \<lparr>sreq_surface_id = sid, sreq_surface_type = given (new_surface_type c) (surf_surface_type f),
      sreq_surface_type_version = given (new_surface_type_version c) (surf_surface_type_version f),
      sreq_entrypoint = given (new_entrypoint c) (surf_entrypoint f),
      sreq_source_paths = given (new_source_paths c) (surf_source_paths f),
      sreq_title = given (new_title c) (surf_title f),
      sreq_description = (if new_description c = None then surf_description f else new_description c),
      sreq_config = given (new_config c) (surf_config f)\<rparr>"

definition surface_update ::
  "(string \<Rightarrow> string) \<Rightarrow> surface_registry \<Rightarrow> string \<Rightarrow> string \<Rightarrow> surface_change \<Rightarrow>
   ('z svc_scheme, experience_surface) op" where
  "surface_update sha reg rid sid c = atomically
     (bindE (require_experience rid) (\<lambda>r.
      bindE (reads (surface (exprev_id r) sid)) (\<lambda>current.
      bindE (upsert_surface sha reg (changed_request c current sid) (surf_created_by current)) (\<lambda>f.
      bindE (validate_sources (exprev_id r) f) (\<lambda>_.
      bindE (store_op (replace_named (exprev_id r) ''DECLARES_SURFACE'' (Some (surf_id current)) (surf_id f) ''ExperienceSurface'')) (\<lambda>_.
      ret f))))))"

definition surface_delete :: "string \<Rightarrow> string \<Rightarrow> ('z svc_scheme, unit) op" where
  "surface_delete rid sid = atomically
     (bindE (require_experience rid) (\<lambda>r.
      bindE (reads (surface (exprev_id r) sid)) (\<lambda>current.
      store_op (remove_named (exprev_id r) ''DECLARES_SURFACE'' ''ExperienceSurface'' (surf_id current)))))"

end
