(* ===== verification/Experience_Activation.thy ===== *)
theory Experience_Activation
  imports System_Activation System_Experiences
begin

text \<open>
  Validation and activation of an experience revision (\<^verbatim>\<open>system/experience_activation.py\<close>):
  freeze the draft, build its Surfaces outside the unit of work, and move the active pointer if it
  is still the one read at the beginning. The builder, the artifact's manifest file and the
  notifier of the Surface catalogue are ports.
\<close>

section \<open>Validation\<close>

definition repr_text :: "string \<Rightarrow> string" where
  "repr_text s = [CHR 0x27] @ s @ [CHR 0x27]"

text \<open>An identifier of an access declaration is bound by the active revision of its Application.\<close>

definition access_error ::
  "'m collection \<Rightarrow> ('m \<Rightarrow> string) \<Rightarrow> ('m \<Rightarrow> string option) \<Rightarrow> 'r collection \<Rightarrow> ('r \<Rightarrow> string) \<Rightarrow>
   (string \<Rightarrow> node_value graph \<Rightarrow> exn + 'r list) \<Rightarrow> string \<Rightarrow> application \<Rightarrow> node_value graph \<Rightarrow> string \<Rightarrow>
   exn + string list" where
  "access_error c owner active rc the_id bound label a g i =
     (let stable = coll_get c (key i) g;
          current = (case Option.bind stable active of None \<Rightarrow> None | Some j \<Rightarrow> coll_get rc (key j) g)
      in rbind (case (app_active_revision_id a, current) of
             (Some rid, Some r) \<Rightarrow> rbind (bound rid g) (\<lambda>rs. Inr (the_id r \<in> set (map the_id rs)))
           | _ \<Rightarrow> Inr False) (\<lambda>is_bound. Inr
           (if stable = None \<or> owner (the stable) \<noteq> app_id a \<or> current = None \<or> \<not> is_bound
            then [i @ '': '' @ label @ '' is not active in Application '' @ app_id a] else [])))"

definition concat_result :: "(exn + 'a list) list \<Rightarrow> exn + 'a list" where
  "concat_result rs = rbind (map_result (\<lambda>r. r) rs) (\<lambda>xss. Inr (concat xss))"

definition listed :: "'a list option \<Rightarrow> 'a list" where
  "listed ids = (case ids of None \<Rightarrow> [] | Some xs \<Rightarrow> xs)"

definition access_errors :: "node_value graph \<Rightarrow> application_access_declaration \<Rightarrow> exn + string list" where
  "access_errors g d =
     (case coll_get applications_coll (key (access_application_id d)) g of
        None \<Rightarrow> Inr [access_application_id d @ '': application is not active'']
      | Some a \<Rightarrow>
          if app_active_revision_id a = None \<or> app_status a \<notin> {App_active, App_triggers_paused}
          then Inr [access_application_id d @ '': application is not active'']
          else concat_result
            (map (access_error object_types_coll otype_application_id otype_active_revision_id
                object_type_revisions_coll otrev_id object_type_revisions ''object type'' a g)
               (listed (access_object_type_ids d)) @
             map (access_error relation_types_coll rtype_application_id rtype_active_revision_id
                relation_type_revisions_coll rtrev_id relation_type_revisions ''relation type'' a g)
               (listed (access_relation_type_ids d)) @
             map (access_error actions_coll act_application_id act_active_revision_id
                action_revisions_coll actrev_id action_revisions ''action'' a g)
               (listed (access_action_ids d))))"

definition manifest_errors :: "(string \<Rightarrow> bool) \<Rightarrow> experience_surface \<Rightarrow> exn + string list" where
  "manifest_errors netloc_ok f =
     (if surf_surface_type f \<noteq> ''browser'' then Inr []
      else rbind (parse_browser netloc_ok (surf_config f)) (\<lambda>c. Inr
        (case browser_pwa c of
           None \<Rightarrow> []
         | Some p \<Rightarrow> if p \<in> set (surf_source_paths f) \<or> ''public/'' @ p \<in> set (surf_source_paths f) then []
             else [surf_surface_id f @ '': PWA requires SourceFile at '' @ repr_text p @ '' or '' @
               repr_text (''public/'' @ p)])))"

definition surface_errors :: "(string \<Rightarrow> bool) \<Rightarrow> string \<Rightarrow> node_value graph \<Rightarrow> experience_surface \<Rightarrow> exn + string list" where
  "surface_errors netloc_ok tid g f =
     rbind (manifest_errors netloc_ok f) (\<lambda>es.
     Inr (path_errors (surf_surface_id f) tid (surf_source_paths f) g @ es))"

definition experience_errors :: "(string \<Rightarrow> bool) \<Rightarrow> experience_revision \<Rightarrow> node_value graph \<Rightarrow> exn + string list" where
  "experience_errors netloc_ok r g =
     rbind (concat_result (map (access_errors g) (exprev_application_access r))) (\<lambda>es1.
     rbind (dependencies (exprev_id r) g) (\<lambda>deps.
     rbind (tree (exprev_id r) g) (\<lambda>t.
     rbind (surface_list (exprev_id r) g) (\<lambda>fs.
     rbind (concat_result (map (surface_errors netloc_ok (tree_id t) g) fs)) (\<lambda>es3.
     Inr (es1 @ map (\<lambda>d. dep_id d @ '': invalid Experience dependency ownership'')
         (filter (\<lambda>d. dep_ecosystem d \<noteq> Dep_javascript) deps) @ es3))))))"

definition validate_experience :: "(string \<Rightarrow> bool) \<Rightarrow> string \<Rightarrow> ('z svc_scheme, experience_validation_report) op" where
  "validate_experience netloc_ok rid = atomically
     (bindE (item_of experience_revisions_coll (key rid)) (\<lambda>r.
      bindE (reads (experience_errors netloc_ok r)) (\<lambda>errors.
      bindE new_uuid (\<lambda>i.
      bindE now_utc (\<lambda>t.
      (let report = \<lparr>xreport_id = i, xreport_experience_revision_id = exprev_id r,
             xreport_status = (if errors = [] then Report_passed else Report_failed),
             xreport_errors = errors, xreport_created_at = t\<rparr>
       in bindE (save_to experience_validation_reports_coll report) (\<lambda>_.
          bindE (link (id_ref ''ExperienceRevision'' (exprev_id r)) ''HAS_VALIDATION_REPORT''
             (id_ref ''ExperienceValidationReport'' i)) (\<lambda>_.
          ret report))))))))"

section \<open>Activation\<close>

text \<open>
  \<open>xport_manifest root path\<close> is the manifest file in an artifact: nothing if it is not a file, and
  no JSON if it does not parse.
\<close>

record 'z experience_ports =
  xport_build :: "string \<Rightarrow> experience_surface \<Rightarrow> ('z svc_scheme, build_artifact) op"
  xport_manifest :: "string \<Rightarrow> string \<Rightarrow> json option option"
  xport_notify :: "string \<Rightarrow> string \<Rightarrow> ('z svc_scheme, unit) op"
  xport_netloc_ok :: "string \<Rightarrow> bool"

definition experience_freeze :: "(string \<Rightarrow> string) \<Rightarrow> string \<Rightarrow> ('z svc_scheme, unit) op" where
  "experience_freeze sha rid =
     bindE (item_of experience_revisions_coll (key rid)) (\<lambda>r.
     bindE (require (exprev_status r \<in> {Rev_draft, Rev_validating})
        (ImmutableRevisionError ''Experience activation requires a draft revision'')) (\<lambda>_.
     bindE (if exprev_status r = Rev_draft
            then save_to experience_revisions_coll (r\<lparr>exprev_status := Rev_validating\<rparr>) else ret ()) (\<lambda>_.
     bindE (intern_revision_tree sha (exprev_id r)) (\<lambda>_. ret ()))))"

definition require_pwa_manifest :: "'z experience_ports \<Rightarrow> experience_surface \<Rightarrow> build_artifact \<Rightarrow> exn + unit" where
  "require_pwa_manifest ports f art =
     (if surf_surface_type f \<noteq> ''browser'' then Inr ()
      else rbind (parse_browser (xport_netloc_ok ports) (surf_config f)) (\<lambda>c.
        case browser_pwa c of
          None \<Rightarrow> Inr ()
        | Some p \<Rightarrow>
            (case Option.bind (art_manifest art) (\<lambda>m. dict_get m ''root'') of
               Some (JStr root) \<Rightarrow>
                 (case xport_manifest ports root p of
                    None \<Rightarrow> Inl (ValidationFailure (surf_surface_id f @ '': PWA manifest '' @ repr_text p @
                      '' is missing from the artifact''))
                  | Some None \<Rightarrow> Inl (ValidationFailure (surf_surface_id f @ '': PWA manifest is not valid JSON''))
                  | Some (Some (JObj _)) \<Rightarrow> Inr ()
                  | Some (Some _) \<Rightarrow> Inl (ValidationFailure (surf_surface_id f @ '': PWA manifest must be a JSON object'')))
             | _ \<Rightarrow> Inl (ValidationFailure (surf_surface_id f @ '': PWA Surface artifact is missing a root'')))))"

definition experience_build :: "'z experience_ports \<Rightarrow> string \<Rightarrow> ('z svc_scheme, unit) op" where
  "experience_build ports rid =
     bindE (reads (surface_list rid)) (\<lambda>fs.
     for_each (\<lambda>f. bindE (xport_build ports rid f) (\<lambda>art. lift_result (require_pwa_manifest ports f art))) fs)"

definition experience_activate_edges ::
  "string \<Rightarrow> string option \<Rightarrow> ('z svc_scheme, experience_revision) op" where
  "experience_activate_edges rid expected =
     bindE (item_of experience_revisions_coll (key rid)) (\<lambda>target.
     bindE (item_of experiences_coll (key (exprev_experience_id target))) (\<lambda>x.
     bindE (require (exp_active_revision_id x = expected)
        (ValidationFailure ''Experience active revision changed during activation'')) (\<lambda>_.
     bindE (case exp_active_revision_id x of
         None \<Rightarrow> ret ()
       | Some i \<Rightarrow> bindE (item_of experience_revisions_coll (key i)) (\<lambda>current.
           if exprev_id current \<noteq> exprev_id target
           then save_to experience_revisions_coll (current\<lparr>exprev_status := Rev_superseded\<rparr>) else ret ())) (\<lambda>_.
     (let activated = target\<lparr>exprev_status := Rev_active\<rparr> in
      bindE (save_to experience_revisions_coll activated) (\<lambda>_.
      bindE (save_to experiences_coll
        (x\<lparr>exp_active_revision_id := Some (exprev_id activated), exp_status := App_active\<rparr>)) (\<lambda>_.
      bindE (store_op (experience_replace_active_revision (exp_id x) (exprev_id activated) expected)) (\<lambda>_.
      ret activated))))))))"

definition experience_reject :: "string \<Rightarrow> ('z svc_scheme, unit) op" where
  "experience_reject rid = atomically
     (bindE (asks (coll_get experience_revisions_coll (key rid))) (\<lambda>x.
       (case x of
          None \<Rightarrow> ret ()
        | Some r \<Rightarrow> if exprev_status r = Rev_validating
            then save_to experience_revisions_coll (r\<lparr>exprev_status := Rev_rejected\<rparr>) else ret ())))"

text \<open>The code under \<^verbatim>\<open>try\<close> up to \<^verbatim>\<open>switched = True\<close>, and the handler before it.\<close>

definition experience_switch ::
  "(string \<Rightarrow> string) \<Rightarrow> 'z experience_ports \<Rightarrow> string \<Rightarrow> string option \<Rightarrow> ('z svc_scheme, experience_revision) op" where
  "experience_switch sha ports rid expected =
     bindE (atomically (experience_freeze sha rid)) (\<lambda>_.
     bindE (experience_build ports rid) (\<lambda>_.
     atomically (experience_activate_edges rid expected)))"

definition experience_abort :: "string \<Rightarrow> exn \<Rightarrow> ('z svc_scheme, 'a) op" where
  "experience_abort rid e =
     bindE (experience_reject rid) (\<lambda>_.
     case e of ValidationFailure m \<Rightarrow> raise (ValidationFailure m) | _ \<Rightarrow> raise (ValidationFailure (exn_text e)))"

definition experience_activate ::
  "(string \<Rightarrow> string) \<Rightarrow> 'z experience_ports \<Rightarrow> string \<Rightarrow> ('z svc_scheme, experience_revision) op" where
  "experience_activate sha ports rid =
     bindE (item_of experience_revisions_coll (key rid)) (\<lambda>r.
     bindE (item_of experiences_coll (key (exprev_experience_id r))) (\<lambda>x.
     bindE (try_catch (experience_switch sha ports rid (exp_active_revision_id x)) (experience_abort rid)) (\<lambda>activated.
     bindE (xport_notify ports (exprev_experience_id activated) (exprev_id activated)) (\<lambda>_.
     ret activated))))"

end
