(* ===== verification/Activation_Laws.thy ===== *)
theory Activation_Laws
  imports Experience_Activation
begin

text \<open>
  What activation keeps: the active pointer of an owner (an Application or an Experience), the
  edge that repeats it and the status of its revisions agree, so an owner has at most one active
  revision. Stated once over the views of a graph and used for both kinds of owner.
\<close>

section \<open>Pointers and statuses agree\<close>

definition pointers_ok ::
  "('r \<Rightarrow> string) \<Rightarrow> ('r \<Rightarrow> string) \<Rightarrow> ('r \<Rightarrow> bool) \<Rightarrow> ('o \<Rightarrow> string) \<Rightarrow> ('o \<Rightarrow> string option) \<Rightarrow> (string \<Rightarrow> node_ref) \<Rightarrow>
   (string \<Rightarrow> 'r option) \<Rightarrow> (string \<Rightarrow> 'o option) \<Rightarrow> (string \<Rightarrow> node_ref list) \<Rightarrow> bool" where
  "pointers_ok rid owner active oid ptr ref R A E \<longleftrightarrow>
     (\<forall>i r. R i = Some r \<longrightarrow> rid r = i) \<and>
     (\<forall>i a. A i = Some a \<longrightarrow> oid a = i \<and> E i = (case ptr a of None \<Rightarrow> [] | Some j \<Rightarrow> [ref j]) \<and>
        (\<forall>j. ptr a = Some j \<longrightarrow> (\<exists>r. R j = Some r \<and> owner r = i \<and> active r))) \<and>
     (\<forall>i r. R i = Some r \<and> active r \<longrightarrow> (\<exists>a. A (owner r) = Some a \<and> ptr a = Some i))"

lemma pointers_okD:
  assumes "pointers_ok rid owner active oid ptr ref R A E"
  shows "R i = Some r \<Longrightarrow> rid r = i" and "A i = Some a \<Longrightarrow> oid a = i"
    and "A i = Some a \<Longrightarrow> E i = (case ptr a of None \<Rightarrow> [] | Some j \<Rightarrow> [ref j])"
    and "A i = Some a \<Longrightarrow> ptr a = Some j \<Longrightarrow> \<exists>r. R j = Some r \<and> owner r = i \<and> active r"
    and "R i = Some r \<Longrightarrow> active r \<Longrightarrow> \<exists>a. A (owner r) = Some a \<and> ptr a = Some i"
  using assms unfolding pointers_ok_def by blast+

text \<open>At most one revision of an owner is active.\<close>

lemma one_active:
  assumes "pointers_ok rid owner active oid ptr ref R A E"
    and "R i = Some r" "active r" "R j = Some q" "active q" "owner r = owner q"
  shows "i = j"
proof -
  obtain a where "A (owner r) = Some a" "ptr a = Some i" using pointers_okD(5) [OF assms(1) assms(2,3)] by blast
  moreover obtain b where "A (owner q) = Some b" "ptr b = Some j" using pointers_okD(5) [OF assms(1) assms(4,5)] by blast
  ultimately show ?thesis using assms(6) by simp
qed

text \<open>A revision that is not active changes, and stays inactive.\<close>

lemma inactive_change:
  assumes "pointers_ok rid owner active oid ptr ref R A E" and "R i = Some r" and "\<not> active r"
    and "rid r' = rid r" and "\<not> active r'"
  shows "pointers_ok rid owner active oid ptr ref (R(i \<mapsto> r')) A E"
  unfolding pointers_ok_def
proof (intro conjI allI impI)
  note ok = assms(1)
  fix k q assume "(R(i \<mapsto> r')) k = Some q"
  then show "rid q = k" using pointers_okD(1) [OF ok] assms(2,4) by (auto split: if_splits)
next
  note ok = assms(1)
  fix k x assume x: "A k = Some x"
  show "oid x = k" by (rule pointers_okD(2) [OF ok x])
  show "E k = (case ptr x of None \<Rightarrow> [] | Some j \<Rightarrow> [ref j])" by (rule pointers_okD(3) [OF ok x])
  fix j assume "ptr x = Some j"
  from pointers_okD(4) [OF ok x this] obtain q where q: "R j = Some q" "owner q = k" "active q" by blast
  moreover from q assms(2,3) have "j \<noteq> i" by auto
  ultimately show "\<exists>q. (R(i \<mapsto> r')) j = Some q \<and> owner q = k \<and> active q" by auto
next
  fix k q assume q: "(R(i \<mapsto> r')) k = Some q \<and> active q"
  with assms(5) have "R k = Some q" by (auto split: if_splits)
  then show "\<exists>x. A (owner q) = Some x \<and> ptr x = Some k" using pointers_okD(5) [OF assms(1)] q by blast
qed

text \<open>The pointer moves to a revision, the revision it pointed to is no longer active.\<close>

definition superseding :: "string option \<Rightarrow> string \<Rightarrow> 'r \<Rightarrow> (string \<Rightarrow> 'r option) \<Rightarrow> string \<Rightarrow> 'r option" where
  "superseding old t cur R = (case old of None \<Rightarrow> R | Some c \<Rightarrow> if c = t then R else R(c \<mapsto> cur))"

lemma pointer_switch:
  assumes ok: "pointers_ok rid owner active oid ptr ref R A E"
    and t: "R t = Some target" "rid new = t" "owner new = owner target" "active new"
    and a: "A (owner target) = Some a" "oid a' = oid a" "ptr a' = Some t"
    and cur: "\<And>c. ptr a = Some c \<Longrightarrow> rid cur = c \<and> owner cur = owner target \<and> \<not> active cur"
  shows "pointers_ok rid owner active oid ptr ref ((superseding (ptr a) t cur R)(t \<mapsto> new))
    (A(owner target \<mapsto> a')) (E(owner target := [ref t]))"
proof -
  let ?R = "(superseding (ptr a) t cur R)(t \<mapsto> new)" and ?A = "A(owner target \<mapsto> a')"
  have R: "?R i = (if i = t then Some new else if ptr a = Some i then Some cur else R i)" for i
    by (cases "ptr a") (simp_all add: superseding_def)
  have own: "i = owner target" if x: "A i = Some x" "ptr x = Some j" "ptr a = Some j" for i x j
  proof -
    obtain r where "R j = Some r" "owner r = i" using pointers_okD(4) [OF ok x(1,2)] by blast
    moreover obtain q where "R j = Some q" "owner q = owner target" using pointers_okD(4) [OF ok a(1) x(3)] by blast
    ultimately show ?thesis by simp
  qed
  show ?thesis unfolding pointers_ok_def
  proof (intro conjI allI impI)
    fix i r assume "?R i = Some r"
    then show "rid r = i" using pointers_okD(1) [OF ok] t(2) cur unfolding R by (auto split: if_splits)
  next
    fix i x assume x: "?A i = Some x"
    show "oid x = i" using x a(1,2) pointers_okD(2) [OF ok] by (auto split: if_splits)
    show "(E(owner target := [ref t])) i = (case ptr x of None \<Rightarrow> [] | Some j \<Rightarrow> [ref j])"
      using x a(3) pointers_okD(3) [OF ok] by (auto split: if_splits)
    fix j assume j: "ptr x = Some j"
    show "\<exists>r. ?R j = Some r \<and> owner r = i \<and> active r"
    proof (cases "i = owner target")
      case True
      with x j a(3) t show ?thesis by (auto simp: R)
    next
      case False
      with x have ax: "A i = Some x" by simp
      obtain r where r: "R j = Some r" "owner r = i" "active r" using pointers_okD(4) [OF ok ax j] by blast
      have "j \<noteq> t" using r t(1) False by auto
      moreover have "ptr a \<noteq> Some j" using own [OF ax j] False by blast
      ultimately have "?R j = Some r" using r(1) R [of j] by simp
      with r show ?thesis by blast
    qed
  next
    fix i r assume r: "?R i = Some r \<and> active r"
    show "\<exists>x. ?A (owner r) = Some x \<and> ptr x = Some i"
    proof (cases "i = t")
      case True
      with r t(3) a(3) show ?thesis by (auto simp: R)
    next
      case False
      with r R [of i] have "(if ptr a = Some i then Some cur else R i) = Some r" by simp
      with r cur [of i] have i: "R i = Some r" "active r" "ptr a \<noteq> Some i" by (auto split: if_splits)
      obtain x where x: "A (owner r) = Some x" "ptr x = Some i" using pointers_okD(5) [OF ok i(1,2)] by blast
      with i(3) a(1) have "owner r \<noteq> owner target" by auto
      with x show ?thesis by auto
    qed
  qed
qed

section \<open>The view of a graph\<close>

definition node_view ::
  "string \<Rightarrow> string \<Rightarrow> node_value graph \<Rightarrow>
   (string \<Rightarrow> node_value option) \<times> (string \<Rightarrow> node_value option) \<times> (string \<Rightarrow> node_ref list)" where
  "node_view ol rl g = (\<lambda>i. get_node rl (key i) g, \<lambda>i. get_node ol (key i) g,
     \<lambda>i. edge_targets g (id_ref ol i) ''ACTIVE_REVISION'')"

text \<open>What the steps around a switch keep: the view, whose pointer edges lead to revisions.\<close>

definition view_is ::
  "string \<Rightarrow> string \<Rightarrow> (string \<Rightarrow> node_value option) \<times> (string \<Rightarrow> node_value option) \<times> (string \<Rightarrow> node_ref list) \<Rightarrow>
   node_value graph \<Rightarrow> bool" where
  "view_is ol rl v g \<longleftrightarrow> node_view ol rl g = v \<and> (\<forall>i. \<forall>r\<in>set (snd (snd v) i). ref_label r = rl)"

lemma view_upsert: "l \<notin> {ol, rl} \<Longrightarrow> view_is ol rl v g \<Longrightarrow> view_is ol rl v (upsert_node l i x g)"
  by (auto simp: view_is_def node_view_def graph_simps edge_targets_def)

lemma view_save: "coll_label c \<notin> {ol, rl} \<Longrightarrow> view_is ol rl v g \<Longrightarrow> view_is ol rl v (coll_save c m g)"
  by (simp add: coll_save_def view_upsert)

lemma view_create_edge:
  assumes "t \<noteq> ''ACTIVE_REVISION'' \<or> ref_label f \<noteq> ol" and "view_is ol rl v g"
  shows "view_is ol rl v (create_edge f t to p g)"
proof -
  have "(id_ref ol i, ''ACTIVE_REVISION'') \<noteq> (f, t)" for i using assms(1) by auto
  then show ?thesis using assms(2)
    by (simp add: view_is_def node_view_def edge_targets_def graph_simps list_edges_create_frame)
qed

lemma view_delete_edge:
  assumes "t \<noteq> ''ACTIVE_REVISION'' \<or> ref_label f \<noteq> ol" and "view_is ol rl v g"
  shows "view_is ol rl v (delete_edge f t to p g)"
proof -
  have "(id_ref ol i, ''ACTIVE_REVISION'') \<noteq> (f, t)" for i using assms(1) by auto
  then show ?thesis using assms(2)
    by (simp add: view_is_def node_view_def edge_targets_def graph_simps list_edges_delete_frame)
qed

lemma view_delete_node:
  assumes l: "l \<notin> {ol, rl}" and v: "view_is ol rl v g"
  shows "view_is ol rl v (delete_node l j g)"
proof -
  have to: "ref_label (edge_to e) = rl" if "e \<in> set (list_edges (Some (id_ref ol i)) (Some ''ACTIVE_REVISION'') None g)" for i e
    using v that by (auto simp: view_is_def node_view_def edge_targets_def)
  have "list_edges (Some (id_ref ol i)) (Some ''ACTIVE_REVISION'') None (delete_node l j g) =
      list_edges (Some (id_ref ol i)) (Some ''ACTIVE_REVISION'') None g" for i
  proof -
    have "matches_edge (Some (id_ref ol i)) (Some ''ACTIVE_REVISION'') None e \<and>
        edge_from e \<noteq> NodeRef l j \<and> edge_to e \<noteq> NodeRef l j \<longleftrightarrow>
        matches_edge (Some (id_ref ol i)) (Some ''ACTIVE_REVISION'') None e" if "e \<in> set (edges g)" for e
      using to [of e i] that l by (auto simp: list_edges_def matches_edge_def id_ref_def)
    then show ?thesis
      by (simp add: list_edges_def delete_node_def Let_def conj_commute cong: filter_cong)
  qed
  then show ?thesis using v l by (auto simp: view_is_def node_view_def edge_targets_def get_node_delete)
qed

lemma view_gc:
  assumes "{ol, rl} \<inter> set interned_labels = {}" and "view_is ol rl v g"
  shows "view_is ol rl v (snd (gc_loop fuel d g))"
  using assms(2)
proof (induction fuel arbitrary: d g)
  case 0
  then show ?case by simp
next
  case (Suc fuel)
  have step: "view_is ol rl v (delete_node l j h)" if "l \<in> set interned_labels" "view_is ol rl v h" for l j h
    by (rule view_delete_node [OF _ that(2)]) (use assms(1) that(1) in auto)
  have "view_is ol rl v (delete_batch b h)" if "fst ` set b \<subseteq> set interned_labels" "view_is ol rl v h" for b h
    using that unfolding delete_batch_def by (induction b arbitrary: h) (auto intro: step)
  moreover have "fst ` set (orphans g) \<subseteq> set interned_labels"
    by (auto simp: in_orphans_iff)
  ultimately show ?case using Suc.IH Suc.prems by (simp add: Let_def)
qed

lemma view_orphans:
  "{ol, rl} \<inter> set interned_labels = {} \<Longrightarrow> op_keeps (view_is ol rl v) delete_interned_orphans"
  unfolding op_keeps_def delete_interned_orphans_def by (intro allI impI view_gc)

section \<open>Steps that keep the view\<close>

text \<open>The labels of owners and of their revisions.\<close>

definition owner_labels :: "string \<Rightarrow> string \<Rightarrow> bool" where
  "owner_labels ol rl \<longleftrightarrow> (ol, rl) \<in> {(''Application'', ''ApplicationRevision''), (''Experience'', ''ExperienceRevision'')}"

lemma owner_labels_interned: "owner_labels ol rl \<Longrightarrow> {ol, rl} \<inter> set interned_labels = {}"
  by (auto simp: owner_labels_def interned_labels_def)

lemma op_keeps_if: "(b \<Longrightarrow> op_keeps P m) \<Longrightarrow> (\<not> b \<Longrightarrow> op_keeps P n) \<Longrightarrow> op_keeps P (if b then m else n)"
  by simp

lemma op_keeps_snd: "op_keeps P m \<Longrightarrow> P g \<Longrightarrow> P (snd (m g))"
  by (simp add: op_keeps_def)

lemma view_put_file:
  assumes "owner_labels ol rl" and "view_is ol rl v g" shows "view_is ol rl v (snd (put_file now tid f g))"
proof -
  have "view_is ol rl v (unlink_path tid (file_path f) g)"
    unfolding unlink_path_def by (rule view_delete_edge) (use assms in auto)
  then have "view_is ol rl v (ensure_blob now (file_content_hash f) (file_content f) (unlink_path tid (file_path f) g))"
    using assms(1) by (auto simp: ensure_blob_def owner_labels_def source_contents_coll_def intro!: view_save split: option.splits)
  then show ?thesis by (auto simp: put_file_def Let_def intro!: view_create_edge)
qed

lemma view_put_files: "owner_labels ol rl \<Longrightarrow> op_keeps (view_is ol rl v) (put_files now tid fs)"
  unfolding put_files_def
  by (intro op_keeps_for_each op_keeps_bindE op_keeps_ret) (simp add: op_keeps_def view_put_file)

lemma view_replace_single:
  "t \<noteq> ''ACTIVE_REVISION'' \<or> ref_label f \<noteq> ol \<Longrightarrow> op_keeps (view_is ol rl v) (replace_single_edge f t to p e b)"
  by (auto simp: op_keeps_def replace_single_edge_def intro!: view_create_edge view_delete_edge)

lemma view_set_tree: "op_keeps (view_is ol rl v) (set_tree rid tid)"
proof (rule op_keepsI)
  fix g assume "view_is ol rl v g"
  then show "view_is ol rl v (snd (set_tree rid tid g))"
    using view_replace_single [of "''HAS_SOURCE_TREE''" _ ol rl v]
    by (auto simp: set_tree_def op_keeps_def split: sum.split)
qed

lemma view_intern_tree:
  assumes o: "owner_labels ol rl" shows "op_keeps (view_is ol rl v) (intern_tree sha now rid)"
proof (rule op_keepsI)
  fix g assume g: "view_is ol rl v g"
  have tree: "view_is ol rl v (save_tree t h)" if "view_is ol rl v h" for t h
    using o that by (auto simp: save_tree_def owner_labels_def source_trees_coll_def intro!: view_save)
  have drop: "view_is ol rl v (delete_tree_node tid h)" if h: "view_is ol rl v h" for tid h
  proof -
    have "view_is ol rl v (delete_edge (tree_ref tid) ''HAS_FILE'' None None h)"
      by (rule view_delete_edge [OF _ h]) simp
    then show ?thesis using o unfolding delete_tree_node_def coll_delete_def
      by (auto simp: owner_labels_def source_trees_coll_def intro: view_delete_node)
  qed
  have look: "op_keeps (view_is ol rl v) (\<lambda>g. (list_source_tree i g, g))" for i by (simp add: op_keeps_def)
  show "view_is ol rl v (snd (intern_tree sha now rid g))"
  proof (cases "rbind (tree rid g) (\<lambda>t. rbind (list_source_tree (tree_id t) g) (\<lambda>fs. Inr (t, fs)))")
    case (Inl e)
    with g show ?thesis by (simp add: intern_tree_def)
  next
    case (Inr cf)
    obtain current fs where cf: "cf = (current, fs)" by (cases cf)
    show ?thesis unfolding intern_tree_def Inr cf sum.case prod.case Let_def
      by (rule op_keeps_snd [where P = "view_is ol rl v" and g = g, OF _ g])
        (intro op_keeps_bindE op_keeps_if op_keeps_ret op_keeps_modify look view_put_files [OF o] view_set_tree
          view_orphans [OF owner_labels_interned [OF o]] tree drop; assumption)
  qed
qed

section \<open>Applications\<close>

definition application_pointers_ok :: "node_value graph \<Rightarrow> bool" where
  "application_pointers_ok g \<longleftrightarrow>
     pointers_ok rev_id rev_application_id (\<lambda>r. rev_status r = Rev_active) app_id app_active_revision_id
       (id_ref ''ApplicationRevision'') (\<lambda>i. coll_get revisions_coll (key i) g)
       (\<lambda>i. coll_get applications_coll (key i) g)
       (\<lambda>i. edge_targets g (id_ref ''Application'' i) ''ACTIVE_REVISION'') \<and>
     (\<forall>i. \<forall>r\<in>set (edge_targets g (id_ref ''Application'' i) ''ACTIVE_REVISION''). ref_label r = ''ApplicationRevision'')"

abbreviation app_view :: "node_value graph \<Rightarrow> node_value graph \<Rightarrow> bool" where
  "app_view g \<equiv> view_is ''Application'' ''ApplicationRevision'' (node_view ''Application'' ''ApplicationRevision'' g)"

lemma app_view_eq:
  assumes "app_view g g'"
  shows "coll_get revisions_coll (key i) g' = coll_get revisions_coll (key i) g"
    and "coll_get applications_coll (key i) g' = coll_get applications_coll (key i) g"
    and "edge_targets g' (id_ref ''Application'' i) ''ACTIVE_REVISION'' = edge_targets g (id_ref ''Application'' i) ''ACTIVE_REVISION''"
  using assms unfolding view_is_def node_view_def prod.inject
  by (simp_all add: coll_get_def revisions_coll_def applications_coll_def fun_eq_iff)

lemma app_view_refl: "application_pointers_ok g \<Longrightarrow> app_view g g"
  by (simp add: application_pointers_ok_def view_is_def node_view_def)

lemma app_view_ok: "app_view g g' \<Longrightarrow> application_pointers_ok g \<Longrightarrow> application_pointers_ok g'"
  unfolding application_pointers_ok_def by (simp add: app_view_eq)

lemma keeps_view_ok:
  assumes "\<And>v. graph_keeps (view_is ''Application'' ''ApplicationRevision'' v) m"
  shows "graph_keeps application_pointers_ok m"
  unfolding graph_keeps_def
proof (rule op_keepsI)
  fix s :: "'a svc_scheme" assume s: "application_pointers_ok (svc_graph s)"
  have "app_view (svc_graph s) (svc_graph (snd (m s)))"
    using assms app_view_refl [OF s] unfolding graph_keeps_def op_keeps_def by blast
  then show "application_pointers_ok (svc_graph (snd (m s)))" using app_view_ok s by blast
qed

lemma revisions_save:
  "(\<lambda>i. coll_get revisions_coll (key i) (coll_save revisions_coll r g)) =
     (\<lambda>i. coll_get revisions_coll (key i) g)(rev_id r \<mapsto> r)"
proof
  have "coll_identity revisions_coll r = key (rev_id r)" by (simp add: revisions_coll_def)
  then show "coll_get revisions_coll (key i) (coll_save revisions_coll r g) =
      ((\<lambda>i. coll_get revisions_coll (key i) g)(rev_id r \<mapsto> r)) i" for i
    by (simp add: revisions.get_save)
qed

lemma applications_save:
  "(\<lambda>i. coll_get applications_coll (key i) (coll_save applications_coll a g)) =
     (\<lambda>i. coll_get applications_coll (key i) g)(app_id a \<mapsto> a)"
proof
  have "coll_identity applications_coll a = key (app_id a)" by (simp add: applications_coll_def)
  then show "coll_get applications_coll (key i) (coll_save applications_coll a g) =
      ((\<lambda>i. coll_get applications_coll (key i) g)(app_id a \<mapsto> a)) i" for i
    by (simp add: applications.get_save)
qed

lemma applications_save_revision:
  "coll_get applications_coll i (coll_save revisions_coll r g) = coll_get applications_coll i g"
  "coll_get revisions_coll i (coll_save applications_coll a g) = coll_get revisions_coll i g"
  by (simp_all add: coll_save_def applications.get_upsert_other revisions.get_upsert_other
      applications_coll_def revisions_coll_def coll_get_def get_node_upsert)

lemma targets_save: "edge_targets (coll_save c m g) f t = edge_targets g f t"
  by (simp add: edge_targets_def coll_save_def graph_simps)

text \<open>A revision that is saved in a state that is not active, when it was not active.\<close>

lemma save_inactive:
  assumes "application_pointers_ok g" and "coll_get revisions_coll (key i) g = Some r"
    and "rev_status r \<noteq> Rev_active" and "rev_id r' = rev_id r" and "rev_status r' \<noteq> Rev_active"
  shows "application_pointers_ok (coll_save revisions_coll r' g)"
proof -
  note ok = assms(1) [unfolded application_pointers_ok_def, THEN conjunct1]
  have "rev_id r = i" by (rule pointers_okD(1) [OF ok assms(2)])
  with inactive_change [OF ok assms(2,3,4,5)] assms(1,4) show ?thesis
    unfolding application_pointers_ok_def
    by (simp add: revisions_save applications_save_revision targets_save)
qed

lemma keeps_activate_set:
  assumes "coll_label c \<notin> {ol, rl}" and "label \<noteq> ol"
  shows "graph_keeps (view_is ol rl v) (activate_set c label rev_label owner the_id stable_id point revs)"
proof -
  have w: "graph_keeps (view_is ol rl v) (save_to c m)" for m
    by (rule graph_keeps_writes, rule view_save) (use assms in auto)
  have p: "graph_keeps (view_is ol rl v) (point_to (id_ref label i) ''ACTIVE_REVISION'' to)" for i to
    unfolding point_to_def
    by (rule graph_keeps_store_op, rule op_keepsD [OF view_replace_single]) (use assms in auto)
  show ?thesis unfolding activate_set_def
    by (intro graph_keeps_for_each graph_keeps_bindE graph_keeps_pure w p)
qed

lemma keeps_activate_definitions: "owner_labels ol rl \<Longrightarrow> graph_keeps (view_is ol rl v) (activate_definitions rid)"
  unfolding activate_definitions_def
  by (intro graph_keeps_bindE graph_keeps_pure keeps_activate_set)
    (auto simp: owner_labels_def actions_coll_def triggers_coll_def object_types_coll_def relation_types_coll_def)

text \<open>What a successful switch writes.\<close>

lemma supersede_Inr:
  assumes "supersede a target s = (Inr x, s1)"
  shows "(svc_graph s1 = svc_graph s \<and> (case app_active_revision_id a of None \<Rightarrow> True
        | Some i \<Rightarrow> \<exists>cur. coll_get revisions_coll (key i) (svc_graph s) = Some cur \<and> rev_id cur = rev_id target)) \<or>
    (\<exists>i cur. app_active_revision_id a = Some i \<and> coll_get revisions_coll (key i) (svc_graph s) = Some cur \<and>
       rev_id cur \<noteq> rev_id target \<and> x = Some (rev_id cur) \<and>
       svc_graph s1 = coll_save revisions_coll (cur\<lparr>rev_status := Rev_superseded\<rparr>) (svc_graph s))"
  using assms
  by (auto simp: supersede_def bindE_Inr_iff reads_apply coll_item_def writes_apply ret_apply
      split: option.split_asm if_split_asm)

lemma superseded_view:
  assumes ok: "application_pointers_ok g" and t: "coll_get revisions_coll (key rid) g = Some target"
    and a: "coll_get applications_coll (key (rev_application_id target)) g = Some a"
    and run: "supersede a target s = (Inr x, s1)" and s: "svc_graph s = g"
  obtains cur where "(\<lambda>i. coll_get revisions_coll (key i) (svc_graph s1)) =
      superseding (app_active_revision_id a) rid cur (\<lambda>i. coll_get revisions_coll (key i) g)"
    and "\<And>c. app_active_revision_id a = Some c \<Longrightarrow>
      rev_id cur = c \<and> rev_application_id cur = rev_application_id target \<and> \<not> rev_status cur = Rev_active"
    and "\<And>i. coll_get applications_coll i (svc_graph s1) = coll_get applications_coll i g"
    and "\<And>f e. edge_targets (svc_graph s1) f e = edge_targets g f e"
proof -
  note p = ok [unfolded application_pointers_ok_def, THEN conjunct1]
  have tid: "rev_id target = rid" by (rule pointers_okD(1) [OF p t])
  let ?R = "\<lambda>i. coll_get revisions_coll (key i) g"
  from supersede_Inr [OF run] show thesis
  proof (elim disjE exE conjE)
    assume g1: "svc_graph s1 = svc_graph s" and c: "case app_active_revision_id a of None \<Rightarrow> True
        | Some i \<Rightarrow> \<exists>cur. coll_get revisions_coll (key i) (svc_graph s) = Some cur \<and> rev_id cur = rev_id target"
    have old: "c = rid" if "app_active_revision_id a = Some c" for c
      using c that tid s pointers_okD(1) [OF p, of c] by auto
    then have "superseding (app_active_revision_id a) rid (target\<lparr>rev_status := Rev_superseded\<rparr>) ?R = ?R"
      by (cases "app_active_revision_id a") (auto simp: superseding_def)
    then show thesis
      using old tid g1 s by (intro that [of "target\<lparr>rev_status := Rev_superseded\<rparr>"]) auto
  next
    fix i cur assume i: "app_active_revision_id a = Some i" and cur: "coll_get revisions_coll (key i) (svc_graph s) = Some cur"
      and ne: "rev_id cur \<noteq> rev_id target"
      and g1: "svc_graph s1 = coll_save revisions_coll (cur\<lparr>rev_status := Rev_superseded\<rparr>) (svc_graph s)"
    have id: "rev_id cur = i" using pointers_okD(1) [OF p, of i] cur s by simp
    have "rev_application_id cur = rev_application_id target"
      using pointers_okD(4) [OF p a i] cur s by auto
    moreover have "(\<lambda>i. coll_get revisions_coll (key i) (svc_graph s1)) =
        superseding (app_active_revision_id a) rid (cur\<lparr>rev_status := Rev_superseded\<rparr>) ?R"
      using i id ne tid s by (simp add: g1 revisions_save superseding_def)
    ultimately show thesis
      using i id s by (intro that [of "cur\<lparr>rev_status := Rev_superseded\<rparr>"])
        (auto simp: g1 applications_save_revision targets_save)
  qed
qed

text \<open>A successful switch leaves the target active, the pointer and its edge on it, and one active revision.\<close>

lemma activate_edges_ok:
  assumes ok: "application_pointers_ok (svc_graph s)" and run: "activate_edges rid s = (Inr (activated, x), s')"
  shows "application_pointers_ok (svc_graph s')" and "coll_get revisions_coll (key rid) (svc_graph s') = Some activated"
    and "rev_status activated = Rev_active"
    and "\<exists>a. coll_get applications_coll (key (rev_application_id activated)) (svc_graph s') = Some a \<and>
      app_active_revision_id a = Some rid \<and> app_status a \<noteq> App_disabled"
proof -
  let ?g = "svc_graph s"
  note p = ok [unfolded application_pointers_ok_def, THEN conjunct1]
  from run obtain target a s1 g4 where
    t: "coll_get revisions_coll (key rid) ?g = Some target" and
    a: "coll_get applications_coll (key (rev_application_id target)) ?g = Some a" and
    sup: "supersede a target s = (Inr x, s1)" and act: "activated = target\<lparr>rev_status := Rev_active\<rparr>" and
    move: "application_replace_active_revision (app_id a) (rev_id activated) (app_active_revision_id a)
        (coll_save applications_coll (a\<lparr>app_active_revision_id := Some (rev_id activated),
           app_status := (if app_status a = App_disabled then App_triggers_paused else app_status a)\<rparr>)
          (coll_save revisions_coll activated (svc_graph s1))) = (Inr (), g4)" and
    defs: "activate_definitions (rev_id activated) (s1\<lparr>svc_graph := g4\<rparr>) = (Inr (), s')"
    unfolding activate_edges_def Let_def run_iffs by auto
  let ?a' = "a\<lparr>app_active_revision_id := Some (rev_id activated),
     app_status := (if app_status a = App_disabled then App_triggers_paused else app_status a)\<rparr>"
  let ?g3 = "coll_save applications_coll ?a' (coll_save revisions_coll activated (svc_graph s1))"
  have tid: "rev_id target = rid" by (rule pointers_okD(1) [OF p t])
  have aid: "app_id a = rev_application_id target" by (rule pointers_okD(2) [OF p a])
  obtain cur where R1: "(\<lambda>i. coll_get revisions_coll (key i) (svc_graph s1)) =
      superseding (app_active_revision_id a) rid cur (\<lambda>i. coll_get revisions_coll (key i) ?g)"
    and cur: "\<And>c. app_active_revision_id a = Some c \<Longrightarrow>
      rev_id cur = c \<and> rev_application_id cur = rev_application_id target \<and> \<not> rev_status cur = Rev_active"
    and A1: "\<And>i. coll_get applications_coll i (svc_graph s1) = coll_get applications_coll i ?g"
    and E1: "\<And>f e. edge_targets (svc_graph s1) f e = edge_targets ?g f e"
    using superseded_view [OF ok t a sup refl] by blast
  let ?ref = "id_ref ''Application'' (app_id a)" and ?to = "id_ref ''ApplicationRevision'' (rev_id activated)"
  have "edge_targets ?g3 ?ref ''ACTIVE_REVISION'' =
      (case map_option (id_ref ''ApplicationRevision'') (app_active_revision_id a) of None \<Rightarrow> [] | Some r \<Rightarrow> [r])"
    using pointers_okD(3) [OF p a] aid by (simp add: targets_save E1 split: option.split)
  from pointers.move_ok [of "''ACTIVE_REVISION''", OF _ this, of ?to] move
  have E4: "edge_targets g4 ?ref ''ACTIVE_REVISION'' = [?to]"
    by (simp add: application_replace_active_revision_def)
  have E4': "edge_targets g4 (id_ref ''Application'' i) ''ACTIVE_REVISION'' = edge_targets ?g (id_ref ''Application'' i) ''ACTIVE_REVISION''"
    if "i \<noteq> app_id a" for i
    using pointers.move_frame [of "''ACTIVE_REVISION''" "id_ref ''Application'' i" "''ACTIVE_REVISION''" ?ref ?to
        "map_option (id_ref ''ApplicationRevision'') (app_active_revision_id a)" ?g3] move that
    by (simp add: application_replace_active_revision_def targets_save E1)
  have nodes4: "coll_get c k g4 = coll_get c k ?g3" for c :: "'c collection" and k
    using move by (auto simp: application_replace_active_revision_def move_pointer_def replace_single_edge_def
        coll_get_def graph_simps split: if_splits)
  have R4: "(\<lambda>i. coll_get revisions_coll (key i) g4) =
      (superseding (app_active_revision_id a) rid cur (\<lambda>i. coll_get revisions_coll (key i) ?g))(rid \<mapsto> activated)"
    by (simp add: nodes4 applications_save_revision revisions_save R1 act tid)
  have A4: "(\<lambda>i. coll_get applications_coll (key i) g4) =
      (\<lambda>i. coll_get applications_coll (key i) ?g)(rev_application_id target \<mapsto> ?a')"
    by (simp add: nodes4 applications_save applications_save_revision A1 aid)
  have E4'': "(\<lambda>i. edge_targets g4 (id_ref ''Application'' i) ''ACTIVE_REVISION'') =
      (\<lambda>i. edge_targets ?g (id_ref ''Application'' i) ''ACTIVE_REVISION'')(rev_application_id target := [id_ref ''ApplicationRevision'' rid])"
    using E4 E4' aid tid act by (auto simp: fun_eq_iff)
  have ok4: "application_pointers_ok g4"
  proof -
    have "pointers_ok rev_id rev_application_id (\<lambda>r. rev_status r = Rev_active) app_id app_active_revision_id
       (id_ref ''ApplicationRevision'') (\<lambda>i. coll_get revisions_coll (key i) g4)
       (\<lambda>i. coll_get applications_coll (key i) g4)
       (\<lambda>i. edge_targets g4 (id_ref ''Application'' i) ''ACTIVE_REVISION'')"
      unfolding R4 A4 E4''
      by (rule pointer_switch [OF p t _ _ _ a]) (use tid act cur in auto)
    moreover have "\<forall>i. \<forall>r\<in>set (edge_targets g4 (id_ref ''Application'' i) ''ACTIVE_REVISION''). ref_label r = ''ApplicationRevision''"
      using ok fun_cong [OF E4''] unfolding application_pointers_ok_def by simp
    ultimately show ?thesis unfolding application_pointers_ok_def by blast
  qed
  have v: "app_view g4 (svc_graph s')"
    by (rule graph_keepsD [OF keeps_activate_definitions defs]) (simp_all add: owner_labels_def app_view_refl ok4)
  show "application_pointers_ok (svc_graph s')" by (rule app_view_ok [OF v ok4])
  show "coll_get revisions_coll (key rid) (svc_graph s') = Some activated"
    using app_view_eq(1) [OF v] fun_cong [OF R4, of rid] by simp
  show "rev_status activated = Rev_active" by (simp add: act)
  show "\<exists>a. coll_get applications_coll (key (rev_application_id activated)) (svc_graph s') = Some a \<and>
      app_active_revision_id a = Some rid \<and> app_status a \<noteq> App_disabled"
    using app_view_eq(2) [OF v] fun_cong [OF A4, of "rev_application_id target"] by (simp add: act tid)
qed

section \<open>An activation that fails\<close>

text \<open>The pointers are in order, and those of one graph, but for one revision.\<close>

definition same_pointers_but :: "string \<Rightarrow> node_value graph \<Rightarrow> node_value graph \<Rightarrow> bool" where
  "same_pointers_but rid g g' \<longleftrightarrow> application_pointers_ok g' \<and>
     (\<forall>i. i \<noteq> rid \<longrightarrow> coll_get revisions_coll (key i) g' = coll_get revisions_coll (key i) g) \<and>
     (\<forall>i. coll_get applications_coll (key i) g' = coll_get applications_coll (key i) g) \<and>
     (\<forall>i. edge_targets g' (id_ref ''Application'' i) ''ACTIVE_REVISION'' =
        edge_targets g (id_ref ''Application'' i) ''ACTIVE_REVISION'')"

lemma same_pointers_view: "app_view g1 g2 \<Longrightarrow> same_pointers_but rid g g1 \<Longrightarrow> same_pointers_but rid g g2"
  unfolding same_pointers_but_def using app_view_ok by (simp add: app_view_eq)

text \<open>An operation that has nothing to do with pointers.\<close>

definition off_pointers :: "('z svc_scheme, 'a) op \<Rightarrow> bool" where
  "off_pointers m \<longleftrightarrow> (\<forall>v. graph_keeps (view_is ''Application'' ''ApplicationRevision'' v) m)"

lemma off_pointersD:
  assumes "off_pointers m" and "m s = (r, t)" and "application_pointers_ok (svc_graph s)"
  shows "app_view (svc_graph s) (svc_graph t)"
  using graph_keepsD [of "app_view (svc_graph s)" m s r t] app_view_refl [OF assms(3)] assms(1,2)
  unfolding off_pointers_def by blast

lemma off_pointers_same:
  fixes m :: "('z svc_scheme, 'a) op"
  assumes m: "off_pointers m" shows "graph_keeps (same_pointers_but rid g) m"
  unfolding graph_keeps_def
proof (rule op_keepsI)
  fix s :: "'z svc_scheme" assume s: "same_pointers_but rid g (svc_graph s)"
  then have "application_pointers_ok (svc_graph s)" by (simp add: same_pointers_but_def)
  from off_pointersD [OF m, of s "fst (m s)" "snd (m s)"] this
  show "same_pointers_but rid g (svc_graph (snd (m s)))" using same_pointers_view s by simp
qed

lemma same_pointers_status:
  assumes "same_pointers_but rid g h" and "coll_get revisions_coll (key rid) h = Some r"
    and "rev_status r \<noteq> Rev_active" and "st \<noteq> Rev_active"
  shows "same_pointers_but rid g (coll_save revisions_coll (r\<lparr>rev_status := st\<rparr>) h)"
proof -
  have ok: "application_pointers_ok h" using assms(1) by (simp add: same_pointers_but_def)
  have id: "rev_id r = rid"
    by (rule pointers_okD(1) [OF ok [unfolded application_pointers_ok_def, THEN conjunct1] assms(2)])
  have "application_pointers_ok (coll_save revisions_coll (r\<lparr>rev_status := st\<rparr>) h)"
    by (rule save_inactive [OF ok assms(2,3)]) (simp_all add: assms(4))
  then show ?thesis
    using assms(1) id fun_cong [OF revisions_save [of "r\<lparr>rev_status := st\<rparr>" h]]
    by (simp add: same_pointers_but_def applications_save_revision targets_save)
qed

lemma off_pointers_intern: "off_pointers (intern_revision_tree sha rid)"
  unfolding off_pointers_def intern_revision_tree_def
  by (intro allI graph_keeps_bindE graph_keeps_pure, rule graph_keeps_store_op, rule op_keepsD [OF view_intern_tree])
    (simp_all add: owner_labels_def)

lemma freeze_same: "graph_keeps (same_pointers_but rid g) (atomically (freeze sha rid))"
  unfolding graph_keeps_def
proof (rule op_keepsI)
  fix s :: "'a svc_scheme" assume s: "same_pointers_but rid g (svc_graph s)"
  show "same_pointers_but rid g (svc_graph (snd (atomically (freeze sha rid) s)))"
  proof (cases "freeze sha rid s")
    case (Pair x t)
    show ?thesis
    proof (cases x)
      case (Inl e)
      with Pair s show ?thesis by (simp add: atomically_apply)
    next
      case (Inr u)
      with Pair obtain r s1 w where r: "coll_get revisions_coll (key rid) (svc_graph s) = Some r"
        and i: "intern_revision_tree sha (rev_id r) s1 = (Inr w, t)"
        and st: "rev_status r \<in> {Rev_draft, Rev_validating}"
        and s1: "svc_graph s1 = svc_graph s \<or> svc_graph s1 = coll_save revisions_coll (r\<lparr>rev_status := Rev_validating\<rparr>) (svc_graph s)"
        unfolding freeze_def run_iffs by (auto simp: run_iffs split: if_split_asm)
      have "same_pointers_but rid g (svc_graph s1)"
        using s1 s same_pointers_status [OF s r] st by auto
      then have "same_pointers_but rid g (svc_graph t)"
        using i graph_keepsD [OF off_pointers_same [OF off_pointers_intern]] by blast
      then show ?thesis using Pair Inr by (simp add: atomically_apply)
    qed
  qed
qed

lemma reject_same: "graph_keeps (same_pointers_but rid g) (reject_revision rid)"
  unfolding graph_keeps_def
proof (rule op_keepsI)
  fix s :: "'a svc_scheme" assume s: "same_pointers_but rid g (svc_graph s)"
  show "same_pointers_but rid g (svc_graph (snd (reject_revision rid s)))"
    using s same_pointers_status [OF s, of _ Rev_rejected]
    by (auto simp: reject_revision_def atomically_apply op_defs split: option.split)
qed

lemma edges_fail_same:
  "atomically (activate_edges rid) s = (Inl e, t) \<Longrightarrow> svc_graph t = svc_graph s"
  by (rule atomically_Inl)

section \<open>Activation and rollback\<close>

lemma keeps_switch_edges: "graph_keeps application_pointers_ok (atomically (activate_edges rid))"
  unfolding graph_keeps_def
proof (rule op_keepsI)
  fix s :: "'a svc_scheme" assume s: "application_pointers_ok (svc_graph s)"
  obtain x t where run: "atomically (activate_edges rid) s = (x, t)" by fastforce
  show "application_pointers_ok (svc_graph (snd (atomically (activate_edges rid) s)))"
  proof (cases x)
    case (Inl e)
    with run s atomically_Inl [of "activate_edges rid" s e t] show ?thesis by simp
  next
    case (Inr a)
    with run have "activate_edges rid s = (Inr (fst a, snd a), t)" by (simp add: atomically_Inr)
    from activate_edges_ok(1) [OF s this] run show ?thesis by simp
  qed
qed

definition ports_off :: "'z activation_ports \<Rightarrow> bool" where
  "ports_off ports \<longleftrightarrow> (\<forall>i. off_pointers (port_resolve ports i)) \<and> (\<forall>i. off_pointers (port_build ports i)) \<and>
     (\<forall>i j. off_pointers (port_migrate ports i j)) \<and> (\<forall>i. off_pointers (port_evict ports i)) \<and>
     off_pointers (port_remount ports)"

lemma off_pointers_rules:
  "off_pointers (ret a)" "off_pointers (reads f)" "off_pointers (raise e)"
  "off_pointers m \<Longrightarrow> (\<And>a. off_pointers (k a)) \<Longrightarrow> off_pointers (bindE m k)"
  "(\<And>x. off_pointers (h x)) \<Longrightarrow> off_pointers (for_each h xs)"
  by (auto simp: off_pointers_def intro: graph_keeps_pure graph_keeps_bindE graph_keeps_for_each)

lemma off_pointers_migrations: "ports_off ports \<Longrightarrow> off_pointers (run_migrations ports rid)"
  unfolding run_migrations_def by (intro off_pointers_rules) (simp add: ports_off_def)

lemma off_pointers_save:
  "coll_label c \<notin> {''Application'', ''ApplicationRevision''} \<Longrightarrow> off_pointers (save_to c m)"
  unfolding off_pointers_def by (intro allI graph_keeps_writes view_save) auto

lemma off_pointers_link: "t \<noteq> ''ACTIVE_REVISION'' \<Longrightarrow> off_pointers (link f t to)"
  unfolding off_pointers_def by (intro allI graph_keeps_writes view_create_edge) auto

lemma off_pointers_checkpoint: "off_pointers (checkpoint_create sha app level reason)"
proof -
  have p: "off_pointers now_utc" "off_pointers new_uuid" by (simp_all add: off_pointers_def graph_keeps_pure)
  have a: "off_pointers m \<Longrightarrow> off_pointers (atomically m)" for m :: "('z svc_scheme, 'b) op"
    by (simp add: off_pointers_def graph_keeps_atomically)
  have l: "off_pointers (case x of None \<Rightarrow> ret () | Some i \<Rightarrow> link f ''CAPTURES_REVISION'' (g i))" for x f g
    by (cases x) (simp_all add: off_pointers_rules off_pointers_link)
  show ?thesis unfolding checkpoint_create_def Let_def
    by (intro a p l off_pointers_rules off_pointers_save off_pointers_link)
      (simp_all add: checkpoints_coll_def checkpoint_snapshots_coll_def checkpoint_blobs_coll_def)
qed

lemma off_pointers_mutating: "off_pointers (checkpoint_if_mutating sha rid)"
  unfolding checkpoint_if_mutating_def
  by (intro off_pointers_rules) (auto intro!: off_pointers_rules off_pointers_checkpoint)

lemma prepare_same:
  assumes "ports_off ports" shows "graph_keeps (same_pointers_but rid g) (prepare sha ports policy rid)"
proof -
  have "off_pointers (if policy = Policy_package_install then ret None else checkpoint_if_mutating sha rid)"
    by (simp add: off_pointers_rules off_pointers_mutating)
  then show ?thesis using assms unfolding prepare_def ports_off_def
    by (intro graph_keeps_bindE freeze_same off_pointers_same) auto
qed

text \<open>An activation that returns has moved the pointer to its target.\<close>

lemma activate_returns:
  assumes ports: "ports_off ports" and ok: "application_pointers_ok (svc_graph s)"
    and run: "activate sha ports policy rid s = (Inr r, t)"
  shows "application_pointers_ok (svc_graph t)" and "coll_get revisions_coll (key rid) (svc_graph t) = Some r"
    and "rev_status r = Rev_active"
    and "\<exists>a. coll_get applications_coll (key (rev_application_id r)) (svc_graph t) = Some a \<and>
      app_active_revision_id a = Some rid"
proof -
  have same: "same_pointers_but rid (svc_graph s) (svc_graph s)" using ok by (simp add: same_pointers_but_def)
  have abort: "abort_activation sha ports rid c e u \<noteq> (Inr r, t)" for c e u
    by (auto simp: abort_activation_def op_defs bindE_def Let_def split: prod.splits sum.splits exn.splits)
  from run abort obtain c s1 s3 where p: "prepare sha ports policy rid s = (Inr c, s1)"
    and w: "switch ports policy rid s1 = (Inr r, s3)"
    and f: "(if policy = Policy_package_install then (Inr r, s3) else bindE (port_remount ports) (\<lambda>_. ret r) s3) = (Inr r, t)"
    by (auto simp: activate_def run_iffs split: prod.split_asm sum.split_asm if_split_asm)
  have s1: "application_pointers_ok (svc_graph s1)"
    using graph_keepsD [OF prepare_same [OF ports] p same] by (simp add: same_pointers_but_def)
  from w obtain s2 s4 x where m: "(if policy = Policy_package_install then ret () else run_migrations ports rid) s1 = (Inr (), s2)"
    and e: "activate_edges rid s2 = (Inr (r, x), s4)"
    and v: "(case x of None \<Rightarrow> ret () | Some i \<Rightarrow> port_evict ports i) s4 = (Inr (), s3)"
    by (auto simp: switch_def run_iffs atomically_Inr)
  have off: "off_pointers (if policy = Policy_package_install then ret () else run_migrations ports rid)"
    "off_pointers (case x of None \<Rightarrow> ret () | Some i \<Rightarrow> port_evict ports i)"
    using off_pointers_migrations [OF ports] ports by (simp_all add: off_pointers_rules ports_off_def split: option.split)
  have s2: "application_pointers_ok (svc_graph s2)" by (rule app_view_ok [OF off_pointersD [OF off(1) m s1] s1])
  note moved = activate_edges_ok [OF s2 e]
  have v3: "app_view (svc_graph s4) (svc_graph s3)" by (rule off_pointersD [OF off(2) v moved(1)])
  have s3: "application_pointers_ok (svc_graph s3)" by (rule app_view_ok [OF v3 moved(1)])
  have vt: "app_view (svc_graph s3) (svc_graph t)"
    using f off_pointersD [of "port_remount ports" s3 _ t] ports s3 app_view_refl
    by (auto simp: run_iffs ports_off_def split: if_split_asm)
  show "application_pointers_ok (svc_graph t)" by (rule app_view_ok [OF vt s3])
  show "coll_get revisions_coll (key rid) (svc_graph t) = Some r" "rev_status r = Rev_active"
    "\<exists>a. coll_get applications_coll (key (rev_application_id r)) (svc_graph t) = Some a \<and> app_active_revision_id a = Some rid"
    using moved(2-4) app_view_eq [OF vt] app_view_eq [OF v3] by auto
qed

definition never_raises :: "('z svc_scheme, 'a) op \<Rightarrow> bool" where
  "never_raises m \<longleftrightarrow> (\<forall>s. \<exists>a t. m s = (Inr a, t))"

lemma abort_same: "graph_keeps (same_pointers_but rid g) (abort_activation sha ports rid None e)"
  unfolding abort_activation_def restore_checkpoint_def option.case Let_def
  by (intro graph_keeps_bindE graph_keeps_pure reject_same) (auto intro: graph_keeps_pure split: exn.split)

text \<open>
  An activation that fails before a checkpoint was made leaves every pointer, and the status of
  every other revision, as it was.
\<close>

lemma activate_fails:
  assumes ports: "ports_off ports" "\<And>i. never_raises (port_evict ports i)" "never_raises (port_remount ports)"
    and ok: "application_pointers_ok (svc_graph s)" and none: "\<And>c. fst (prepare sha ports policy rid s) \<noteq> Inr (Some c)"
    and run: "activate sha ports policy rid s = (Inl e, t)"
  shows "same_pointers_but rid (svc_graph s) (svc_graph t)"
proof -
  let ?K = "same_pointers_but rid (svc_graph s)"
  have same: "?K (svc_graph s)" using ok by (simp add: same_pointers_but_def)
  obtain x s1 where p: "prepare sha ports policy rid s = (x, s1)" by fastforce
  have s1: "?K (svc_graph s1)" by (rule graph_keepsD [OF prepare_same [OF ports(1)] p same])
  have aborted: "?K (svc_graph t)" if "abort_activation sha ports rid None e' u = (Inl e, t)" "?K (svc_graph u)" for e' u
    by (rule graph_keepsD [OF abort_same that])
  show ?thesis
  proof (cases x)
    case (Inl e')
    with run p s1 aborted show ?thesis by (auto simp: activate_def split: if_split_asm)
  next
    case (Inr c)
    with none p have c: "c = None" by (cases c) auto
    obtain y u where w: "switch ports policy rid s1 = (y, u)" by fastforce
    obtain m2 s2 where m: "(if policy = Policy_package_install then ret () else run_migrations ports rid) s1 = (m2, s2)"
      by fastforce
    have off: "off_pointers (if policy = Policy_package_install then ret () else run_migrations ports rid)"
      using off_pointers_migrations [OF ports(1)] by (simp add: off_pointers_rules)
    have s2: "?K (svc_graph s2)" by (rule graph_keepsD [OF off_pointers_same [OF off] m s1])
    have u: "?K (svc_graph u)" if "y = Inl e'" for e'
    proof (cases "fst (atomically (activate_edges rid) s2)")
      case (Inl e2)
      then obtain s3 where "atomically (activate_edges rid) s2 = (Inl e2, s3)" by (metis prod.collapse)
      with w that m s2 edges_fail_same [OF this] show ?thesis
        by (cases m2) (auto simp: switch_def bindE_def)
    next
      case (Inr a)
      then obtain s3 where e3: "atomically (activate_edges rid) s2 = (Inr a, s3)" by (metis prod.collapse)
      have "never_raises (case snd a of None \<Rightarrow> ret () | Some i \<Rightarrow> port_evict ports i)"
        using ports(2) by (simp add: never_raises_def ret_apply split: option.split)
      then obtain b s4 where "(case snd a of None \<Rightarrow> ret () | Some i \<Rightarrow> port_evict ports i) s3 = (Inr b, s4)"
        unfolding never_raises_def by blast
      with w that m s2 e3 show ?thesis by (cases m2) (auto simp: switch_def bindE_def ret_apply case_prod_unfold)
    qed
    show ?thesis
    proof (cases y)
      case (Inl e')
      with run p Inr c w u aborted show ?thesis by (auto simp: activate_def split: if_split_asm)
    next
      case (Inr r)
      obtain b s4 where "port_remount ports u = (Inr b, s4)" using ports(3) unfolding never_raises_def by blast
      with run p \<open>x = Inr c\<close> c w Inr have False
        by (auto simp: activate_def bindE_def ret_apply split: if_split_asm)
      then show ?thesis ..
    qed
  qed
qed

text \<open>An eviction that fails after the switch is reported as a failure of an activation that took place.\<close>

lemma eviction_failure_after_switch:
  assumes "prepare sha ports policy rid s = (Inr None, s1)"
    and "(if policy = Policy_package_install then ret () else run_migrations ports rid) s1 = (Inr (), s2)"
    and "application_pointers_ok (svc_graph s2)"
    and "atomically (activate_edges rid) s2 = (Inr (r, Some old), s3)"
    and "port_evict ports old s3 = (Inl e, s3)" and "e \<noteq> DoesNotReturn"
  shows "\<exists>m. activate sha ports policy rid s = (Inl (ValidationFailure m), s3)"
    and "coll_get revisions_coll (key rid) (svc_graph s3) = Some r" and "rev_status r = Rev_active"
proof -
  have e: "activate_edges rid s2 = (Inr (r, Some old), s3)" using assms(4) by (simp add: atomically_Inr)
  note moved = activate_edges_ok [OF assms(3) e]
  show r: "coll_get revisions_coll (key rid) (svc_graph s3) = Some r" and st: "rev_status r = Rev_active"
    by (rule moved)+
  have sw: "switch ports policy rid s1 = (Inl e, s3)"
    using assms(2,4,5) by (auto simp: switch_def bindE_def)
  have "reject_revision rid s3 = (Inr (), s3)"
    using r st by (simp add: reject_revision_def atomically_apply op_defs)
  then show "\<exists>m. activate sha ports policy rid s = (Inl (ValidationFailure m), s3)"
    using assms(1,6) sw
    by (auto simp: activate_def abort_activation_def restore_checkpoint_def op_defs bindE_def Let_def split: exn.split)
qed

text \<open>A rollback returns only to a revision of the Application that was active before.\<close>

lemma rollback_returns:
  assumes "application_pointers_ok (svc_graph s)" and "\<And>i. off_pointers (port_evict ports i)"
    and "rollback ports app rid s = (Inr r, t)"
  shows "application_pointers_ok (svc_graph t)"
    and "\<exists>q. coll_get revisions_coll (key rid) (svc_graph s) = Some q \<and> rev_application_id q = app \<and>
      rev_status q \<in> {Rev_active, Rev_superseded}"
    and "coll_get revisions_coll (key rid) (svc_graph t) = Some r" and "rev_status r = Rev_active"
proof -
  from assms(3) obtain q x s1 where q: "coll_get revisions_coll (key rid) (svc_graph s) = Some q" "rev_application_id q = app"
      "rev_status q \<in> {Rev_active, Rev_superseded}"
    and e: "activate_edges rid s = (Inr (r, x), s1)"
    and v: "(case x of None \<Rightarrow> ret () | Some i \<Rightarrow> port_evict ports i) s1 = (Inr (), t)"
    unfolding rollback_def run_iffs atomically_Inr case_prod_unfold
    by (cases "coll_get revisions_coll (key rid) (svc_graph s)")
      (auto simp: asks_apply raise_apply ret_apply split: if_split_asm)
  note moved = activate_edges_ok [OF assms(1) e]
  have "off_pointers (case x of None \<Rightarrow> ret () | Some i \<Rightarrow> port_evict ports i)"
    using assms(2) by (simp add: off_pointers_rules split: option.split)
  from off_pointersD [OF this v moved(1)] have w: "app_view (svc_graph s1) (svc_graph t)" .
  show "application_pointers_ok (svc_graph t)" by (rule app_view_ok [OF w moved(1)])
  show "\<exists>q. coll_get revisions_coll (key rid) (svc_graph s) = Some q \<and> rev_application_id q = app \<and>
      rev_status q \<in> {Rev_active, Rev_superseded}" using q by blast
  show "coll_get revisions_coll (key rid) (svc_graph t) = Some r" "rev_status r = Rev_active"
    using moved(2,3) app_view_eq(1) [OF w] by auto
qed

end
