(* ===== verification/Checkpoint_Laws.thy ===== *)
theory Checkpoint_Laws
  imports System_Checkpoints
begin

text \<open>
  Restoring a checkpoint brings back what it captured: the active revision of the Application,
  the statuses of its revisions, and its production objects and relations.
\<close>

section \<open>Loops of writes\<close>

lemma for_each_writes:
  "for_each (\<lambda>x. writes (f x)) xs s = (Inr (), s\<lparr>svc_graph := fold f xs (svc_graph s)\<rparr>)"
  by (induction xs arbitrary: s) (simp_all add: op_defs)

lemma for_each_keeps:
  assumes "\<And>x s. x \<in> set xs \<Longrightarrow> I (svc_graph s) \<Longrightarrow> \<exists>g. f x s = (Inr (), s\<lparr>svc_graph := g\<rparr>) \<and> I g"
    and "I (svc_graph s)"
  shows "\<exists>g. for_each f xs s = (Inr (), s\<lparr>svc_graph := g\<rparr>) \<and> I g"
  using assms
proof (induction xs arbitrary: s)
  case Nil
  then show ?case by (auto simp: op_defs intro: exI [of _ "svc_graph s"])
next
  case (Cons x xs)
  from Cons.prems obtain g where g: "f x s = (Inr (), s\<lparr>svc_graph := g\<rparr>)" "I g" by (metis list.set_intros(1))
  from Cons.IH [of "s\<lparr>svc_graph := g\<rparr>"] Cons.prems(1) g(2) obtain h where
    "for_each f xs (s\<lparr>svc_graph := g\<rparr>) = (Inr (), s\<lparr>svc_graph := h\<rparr>)" "I h" by auto
  with g show ?case by (auto simp: op_defs)
qed

section \<open>Revision state\<close>

definition set_status :: "string \<times> revision_status \<Rightarrow> node_value graph \<Rightarrow> node_value graph" where
  "set_status entry g = (case coll_get revisions_coll (key (fst entry)) g of
     None \<Rightarrow> g | Some r \<Rightarrow> coll_save revisions_coll (r\<lparr>rev_status := snd entry\<rparr>) g)"

lemma restore_status_apply: "restore_status e s = (Inr (), s\<lparr>svc_graph := set_status e (svc_graph s)\<rparr>)"
  by (simp add: restore_status_def set_status_def op_defs split: option.splits)

lemma restore_statuses: "for_each restore_status es s = (Inr (), s\<lparr>svc_graph := fold set_status es (svc_graph s)\<rparr>)"
  by (induction es arbitrary: s) (simp_all add: op_defs restore_status_apply)

lemma revision_get_save:
  "coll_get revisions_coll (key i) (coll_save revisions_coll r g) =
     (if i = rev_id r then Some r else coll_get revisions_coll (key i) g)"
proof -
  have "coll_identity revisions_coll r = key (rev_id r)" by (simp add: revisions_coll_def)
  then show ?thesis by (simp add: revisions.get_save)
qed

lemma revision_get_id: "typed_graph g \<Longrightarrow> coll_get revisions_coll (key i) g = Some r \<Longrightarrow> rev_id r = i"
  using revisions.get_identity [of g "key i" r] by (simp add: revisions_coll_def)

lemma typed_set_status: "typed_graph g \<Longrightarrow> typed_graph (set_status e g)"
  by (simp add: set_status_def revisions.typed_save split: option.splits)

lemma get_set_status:
  assumes "typed_graph g"
  shows "coll_get revisions_coll (key i) (set_status e g) =
    map_option (\<lambda>r. if i = fst e then r\<lparr>rev_status := snd e\<rparr> else r) (coll_get revisions_coll (key i) g)"
  using revision_get_id [OF assms]
  by (cases "i = fst e"; cases "coll_get revisions_coll (key i) g"; cases "coll_get revisions_coll (key (fst e)) g")
    (auto simp: set_status_def revision_get_save)

lemma get_set_statuses:
  assumes "typed_graph g" and "distinct (map fst es)"
  shows "coll_get revisions_coll (key i) (fold set_status es g) =
    map_option (\<lambda>r. case map_of es i of None \<Rightarrow> r | Some st \<Rightarrow> r\<lparr>rev_status := st\<rparr>) (coll_get revisions_coll (key i) g)"
  using assms
proof (induction es arbitrary: g)
  case Nil
  then show ?case by (simp add: option.map_ident)
next
  case (Cons e es)
  then have IH: "coll_get revisions_coll (key i) (fold set_status es (set_status e g)) =
      map_option (\<lambda>r. case map_of es i of None \<Rightarrow> r | Some st \<Rightarrow> r\<lparr>rev_status := st\<rparr>)
        (coll_get revisions_coll (key i) (set_status e g))"
    by (simp add: typed_set_status)
  have "map_of es (fst e) = None" using Cons.prems(2) by (simp add: map_of_eq_None_iff)
  with IH get_set_status [OF Cons.prems(1), of i e] show ?case
    by (cases e; cases "coll_get revisions_coll (key i) g") auto
qed

text \<open>What the loop over the definitions leaves alone, and what it needs.\<close>

definition same_data :: "node_value graph \<Rightarrow> node_value graph \<Rightarrow> bool" where
  "same_data g g' \<longleftrightarrow> (\<forall>i. coll_get revisions_coll i g' = coll_get revisions_coll i g) \<and>
     (\<forall>i. coll_get objects_coll i g' = coll_get objects_coll i g) \<and>
     (\<forall>i. coll_get applications_coll i g' = coll_get applications_coll i g) \<and>
     app_relations g' = app_relations g"

lemma same_data_refl: "same_data g g"
  by (simp add: same_data_def)

lemma same_data_trans: "same_data g h \<Longrightarrow> same_data h k \<Longrightarrow> same_data g k"
  by (simp add: same_data_def)

lemma label_of [simp]:
  "coll_label revisions_coll = ''ApplicationRevision''" "coll_label objects_coll = ''ApplicationObject''"
  "coll_label applications_coll = ''Application''" "coll_label actions_coll = ''Action''"
  "coll_label triggers_coll = ''Trigger''" "coll_label object_types_coll = ''ObjectType''"
  "coll_label relation_types_coll = ''RelationType''"
  by (simp_all add: revisions_coll_def objects_coll_def applications_coll_def actions_coll_def triggers_coll_def
      object_types_coll_def relation_types_coll_def)

lemma same_data_upsert:
  assumes "l \<notin> {''ApplicationRevision'', ''ApplicationObject'', ''Application''}"
  shows "same_data g (upsert_node l i v g)"
proof -
  have "app_relations (upsert_node l i v g) = app_relations g" by (simp add: upsert_node_def)
  with assms show ?thesis
    by (auto simp: same_data_def intro!: revisions.get_upsert_other objects.get_upsert_other applications.get_upsert_other)
qed

lemma same_data_edges: "same_data g (create_edge f t to p g)" "same_data g (delete_edge f t to' p' g)"
  by (simp_all add: same_data_def revisions.get_create_edge objects.get_create_edge applications.get_create_edge
      revisions.get_delete_edge objects.get_delete_edge applications.get_delete_edge graph_simps)

definition has_stable :: "definition_pointer \<Rightarrow> node_value graph \<Rightarrow> bool" where
  "has_stable p g \<longleftrightarrow> ptr_label p \<in> {''Action'', ''Trigger'', ''ObjectType'', ''RelationType''} \<and>
     get_node (ptr_label p) (key (ptr_id p)) g \<noteq> None"

definition kept_by_pointers :: "node_value graph \<Rightarrow> definition_pointer list \<Rightarrow> node_value graph \<Rightarrow> bool" where
  "kept_by_pointers g ps h \<longleftrightarrow> typed_graph h \<and> wf_graph h \<and> same_data g h \<and> (\<forall>p\<in>set ps. has_stable p h)"

lemma stable_upsert: "has_stable p g \<Longrightarrow> has_stable p (upsert_node l i v g)"
  by (simp add: has_stable_def graph_simps)

lemma stable_edges [simp]: "has_stable p (create_edge f t to q g) = has_stable p g"
  "has_stable p (delete_edge f t to' q' g) = has_stable p g"
  by (simp_all add: has_stable_def graph_simps)

lemma kept_upsert:
  assumes "kept_by_pointers g ps h" and "node_label v \<notin> {''ApplicationRevision'', ''ApplicationObject'', ''Application''}"
  shows "kept_by_pointers g ps (upsert_node (node_label v) (node_identity v) v h)"
  using assms same_data_trans [OF _ same_data_upsert] by (auto simp: kept_by_pointers_def typed_upsert stable_upsert wf_upsert_node)

lemma kept_edges:
  "kept_by_pointers g ps h \<Longrightarrow> kept_by_pointers g ps (create_edge f t to [] h)"
  "kept_by_pointers g ps h \<Longrightarrow> kept_by_pointers g ps (delete_edge f t to' p' h)"
  using same_data_trans [OF _ same_data_edges(1)] same_data_trans [OF _ same_data_edges(2)]
  by (auto simp: kept_by_pointers_def wf_create_edge wf_delete_edge)

lemma reset_pointer_apply:
  "reset_pointer ref l a s = (Inr (), s\<lparr>svc_graph :=
     (case a of None \<Rightarrow> delete_edge ref ''ACTIVE_REVISION'' None None (svc_graph s)
      | Some i \<Rightarrow> create_edge ref ''ACTIVE_REVISION'' (id_ref l i) []
          (delete_edge ref ''ACTIVE_REVISION'' None None (svc_graph s)))\<rparr>)"
  by (simp add: reset_pointer_def op_defs split: option.splits)

lemma restore_pointer_keeps:
  assumes "p \<in> set ps" and "kept_by_pointers g ps (svc_graph s)"
  shows "\<exists>h. restore_pointer p s = (Inr (), s\<lparr>svc_graph := h\<rparr>) \<and> kept_by_pointers g ps h"
proof -
  let ?i = "key (ptr_id p)"
  have st: "has_stable p (svc_graph s)" and ty: "typed_graph (svc_graph s)"
    using assms by (auto simp: kept_by_pointers_def)
  have saved: "\<exists>h. bindE (item_of c ?i) (\<lambda>m. save_to c (f m)) s = (Inr (), s\<lparr>svc_graph := h\<rparr>) \<and> kept_by_pointers g ps h"
    if c: "record_collection c" and l: "coll_label c = ptr_label p" for c :: "'c collection" and f
  proof -
    from st l obtain v where "get_node (coll_label c) ?i (svc_graph s) = Some v" by (auto simp: has_stable_def)
    from record_collection.present_get [OF c ty this] obtain m where m: "coll_get c ?i (svc_graph s) = Some m" by blast
    have "node_label (coll_put c (f m)) = ptr_label p" using record_collection.label_put [OF c] l by simp
    then have "kept_by_pointers g ps (coll_save c (f m) (svc_graph s))"
      using kept_upsert [OF assms(2), of "coll_put c (f m)"] st l record_collection.label_put [OF c, of "f m"]
        record_collection.identity_put [OF c, of "f m"]
      by (auto simp: coll_save_def has_stable_def)
    with m show ?thesis by (auto simp: op_defs coll_item_def)
  qed
  from st consider "ptr_label p = ''Action''" | "ptr_label p = ''Trigger''" | "ptr_label p = ''ObjectType''"
    | "ptr_label p = ''RelationType''" by (auto simp: has_stable_def)
  then obtain h where h: "(if ptr_label p = ''Action''
             then bindE (item_of actions_coll ?i) (\<lambda>m. save_to actions_coll (m\<lparr>act_active_revision_id := ptr_active p\<rparr>))
             else if ptr_label p = ''Trigger''
             then bindE (item_of triggers_coll ?i) (\<lambda>m. save_to triggers_coll (m\<lparr>trig_active_revision_id := ptr_active p\<rparr>))
             else if ptr_label p = ''ObjectType''
             then bindE (item_of object_types_coll ?i) (\<lambda>m. save_to object_types_coll (m\<lparr>otype_active_revision_id := ptr_active p\<rparr>))
             else if ptr_label p = ''RelationType''
             then bindE (item_of relation_types_coll ?i) (\<lambda>m. save_to relation_types_coll (m\<lparr>rtype_active_revision_id := ptr_active p\<rparr>))
             else raise (KeyError (ptr_label p))) s = (Inr (), s\<lparr>svc_graph := h\<rparr>)" "kept_by_pointers g ps h"
    using saved [OF actions.record_collection_axioms, of "\<lambda>m. m\<lparr>act_active_revision_id := ptr_active p\<rparr>"]
      saved [OF triggers.record_collection_axioms, of "\<lambda>m. m\<lparr>trig_active_revision_id := ptr_active p\<rparr>"]
      saved [OF object_types.record_collection_axioms, of "\<lambda>m. m\<lparr>otype_active_revision_id := ptr_active p\<rparr>"]
      saved [OF relation_types.record_collection_axioms, of "\<lambda>m. m\<lparr>rtype_active_revision_id := ptr_active p\<rparr>"]
    by cases auto
  then show ?thesis
    unfolding restore_pointer_def Let_def bindE_apply h(1)
    by (auto simp: reset_pointer_apply kept_edges split: option.splits)
qed

lemma restore_pointers:
  assumes "kept_by_pointers g ps (svc_graph s)"
  shows "\<exists>h. for_each restore_pointer ps s = (Inr (), s\<lparr>svc_graph := h\<rparr>) \<and> kept_by_pointers g ps h"
  by (rule for_each_keeps [where I = "kept_by_pointers g ps", OF _ assms]) (rule restore_pointer_keeps)

section \<open>Application data\<close>

text \<open>Deleting the listed relations, then the listed objects.\<close>

lemma relations_after_delete:
  "app_relations (fold relation_delete rs g) = filter (\<lambda>kr. fst kr \<notin> rel_key_of ` set rs) (app_relations g)"
  by (induction rs arbitrary: g) (auto simp: relation_delete_def delete_app_relation_def AList.delete_eq intro!: filter_cong)

lemma nodes_relation_delete: "nodes (fold relation_delete rs g) = nodes g"
  by (induction rs arbitrary: g) (simp_all add: relation_delete_def delete_app_relation_def)

definition keyed_relations :: "node_value graph \<Rightarrow> bool" where
  "keyed_relations g \<longleftrightarrow> list_all (\<lambda>(k, r). k = rel_key_of r) (app_relations g)"

lemma relation_get_in:
  assumes "keyed_relations g" and "relation_get app i space g = Some r"
  shows "rel_key_of r = (app, space, i)" and "r \<in> set (relation_list app None None None space g)"
proof -
  have "((app, space, i), r) \<in> set (app_relations g)"
    using assms(2) by (simp add: relation_get_def get_app_relation_def map_of_SomeD)
  with assms(1) show "rel_key_of r = (app, space, i)" "r \<in> set (relation_list app None None None space g)"
    by (force simp: keyed_relations_def list_all_iff relation_list_def list_app_relations_def rel_key_of_def)+
qed

lemma relation_in_get:
  assumes "keyed_relations g" and "wf_graph g" and "r \<in> set (relation_list app None None None space g)"
  shows "relation_get app (rel_id r) space g = Some r" and "rel_key_of r = (app, space, rel_id r)"
proof -
  from assms(3) obtain k where "(k, r) \<in> set (app_relations g)" "rel_application_id r = app" "rel_data_space_id r = space"
    by (auto simp: relation_list_def list_app_relations_def)
  moreover from this assms(1) have "k = rel_key_of r" by (force simp: keyed_relations_def list_all_iff)
  ultimately show "relation_get app (rel_id r) space g = Some r" "rel_key_of r = (app, space, rel_id r)"
    using assms(2) by (simp_all add: relation_get_def get_app_relation_def wf_graph_def rel_key_of_def map_of_is_SomeI)
qed

lemma no_relations_after_delete:
  assumes "keyed_relations g"
  shows "relation_get app i space (fold relation_delete (relation_list app None None None space g) g) = None"
proof (rule ccontr)
  assume "relation_get app i space (fold relation_delete (relation_list app None None None space g) g) \<noteq> None"
  then obtain r where "((app, space, i), r) \<in> set (app_relations (fold relation_delete (relation_list app None None None space g) g))"
    by (auto simp: relation_get_def get_app_relation_def dest: map_of_SomeD)
  then have r: "((app, space, i), r) \<in> set (app_relations g)"
      "(app, space, i) \<notin> rel_key_of ` set (relation_list app None None None space g)"
    by (auto simp: relations_after_delete)
  then have "rel_key_of r = (app, space, i)" using assms by (force simp: keyed_relations_def list_all_iff)
  with r show False by (force simp: relation_list_def list_app_relations_def rel_key_of_def)
qed

text \<open>Objects.\<close>

abbreviation object_ident :: "application_object \<Rightarrow> ident" where
  "object_ident r \<equiv> object_key (obj_application_id r) (obj_data_space_id r) (obj_id r)"

lemma object_ident: "coll_identity objects_coll r = object_ident r"
  by (simp add: objects_coll_def object_key_def)

lemma object_delete_coll: "object_delete app i space g = coll_delete objects_coll (object_key app space i) g"
  by (simp add: object_delete_def coll_delete_def)

abbreviation delete_object :: "application_object \<Rightarrow> node_value graph \<Rightarrow> node_value graph" where
  "delete_object r \<equiv> object_delete (obj_application_id r) (obj_id r) (obj_data_space_id r)"

lemma get_after_deletes:
  "coll_get objects_coll k (fold delete_object os g) = (if k \<in> object_ident ` set os then None else coll_get objects_coll k g)"
  by (induction os arbitrary: g) (auto simp: object_delete_coll objects.get_delete)

lemma relations_after_object_deletes:
  "set (app_relations (fold delete_object os g)) \<subseteq> set (app_relations g)"
proof (induction os arbitrary: g)
  case (Cons r os)
  have "set (app_relations (delete_object r g)) \<subseteq> set (app_relations g)"
    by (auto simp: object_delete_def delete_node_def Let_def)
  with Cons [of "delete_object r g"] show ?case by auto
qed simp

lemma object_in_list:
  assumes "typed_graph g" and "wf_graph g"
  shows "r \<in> set (object_list app None space g) \<longleftrightarrow>
     object_get app (obj_id r) space g = Some r \<and> obj_application_id r = app \<and> obj_data_space_id r = space"
  using objects.values_iff [OF assms, of r] by (auto simp: object_list_def object_get_def object_ident)

lemma object_get_ident:
  assumes "typed_graph g" and "object_get app i space g = Some r"
  shows "obj_application_id r = app \<and> obj_data_space_id r = space \<and> obj_id r = i"
  using objects.get_identity [OF assms(1), of "object_key app space i" r] assms(2)
  by (simp add: object_get_def object_ident object_key_def)

lemma no_objects_after_delete:
  assumes "typed_graph g" and "wf_graph g"
  shows "object_get app i space (fold delete_object (object_list app None space g) g) = None"
proof (cases "object_get app i space g")
  case None
  then show ?thesis by (auto simp: object_get_def get_after_deletes)
next
  case (Some r)
  with object_get_ident [OF assms(1) Some] have "r \<in> set (object_list app None space g)"
    by (simp add: object_in_list [OF assms])
  with object_get_ident [OF assms(1) Some] show ?thesis by (force simp: object_get_def get_after_deletes)
qed

text \<open>Saving a list of objects with their edges.\<close>

abbreviation put_object :: "application_object \<Rightarrow> node_value graph \<Rightarrow> node_value graph" where
  "put_object r g \<equiv> object_attach r None (object_save r g)"

lemma object_attach_frame:
  "coll_get objects_coll k (object_attach r v g) = coll_get objects_coll k g"
  "app_relations (object_attach r v g) = app_relations g"
  "typed_graph (object_attach r v g) = typed_graph g"
  by (simp_all add: object_attach_def Let_def objects.get_create_edge graph_simps split: option.splits)

lemma get_put_object:
  "coll_get objects_coll k (put_object r g) = (if k = object_ident r then Some r else coll_get objects_coll k g)"
  by (simp add: object_attach_frame object_save_def objects.get_save object_ident)

lemma relations_put_objects: "app_relations (fold put_object os g) = app_relations g"
  by (induction os arbitrary: g) (simp_all add: object_attach_frame object_save_def coll_save_def upsert_node_def)

lemma get_put_objects_in:
  assumes "r \<in> set os" and "\<And>r'. r' \<in> set os \<Longrightarrow> object_ident r' = object_ident r \<Longrightarrow> r' = r"
  shows "coll_get objects_coll (object_ident r) (fold put_object os g) = Some r"
proof -
  have "coll_get objects_coll (object_ident r) (fold put_object os g) = Some r"
    if "r \<in> set os \<or> coll_get objects_coll (object_ident r) g = Some r"
      "\<And>r'. r' \<in> set os \<Longrightarrow> object_ident r' = object_ident r \<Longrightarrow> r' = r" for os g
    using that
  proof (induction os arbitrary: g)
    case (Cons x os)
    have "x = r" if "object_ident x = object_ident r" using Cons.prems(2) [of x] that by simp
    then have "r \<in> set os \<or> coll_get objects_coll (object_ident r) (put_object x g) = Some r"
      using Cons.prems(1) by (auto simp: get_put_object)
    from Cons.IH [OF this] Cons.prems(2) show ?case by simp
  qed simp
  with assms show ?thesis by blast
qed

lemma get_put_objects_out:
  "k \<notin> object_ident ` set os \<Longrightarrow> coll_get objects_coll k (fold put_object os g) = coll_get objects_coll k g"
  by (induction os arbitrary: g) (auto simp: get_put_object)

text \<open>Saving a list of relations.\<close>

lemma relation_save_apply:
  assumes "rel_physical_type r \<noteq> None"
  shows "\<exists>h. relation_save r g = (Inr (), h) \<and> app_relations h = dict_set (rel_key_of r) r (app_relations g) \<and> nodes h = nodes g"
  using assms by (auto simp: relation_save_def create_app_relation_def Let_def split: option.splits)

lemma save_relations:
  assumes "list_all (\<lambda>r. rel_physical_type r \<noteq> None) rs"
  shows "\<exists>h. for_each (\<lambda>r. store_op (relation_save r)) rs s = (Inr (), s\<lparr>svc_graph := h\<rparr>) \<and>
    app_relations h = fold (\<lambda>r. dict_set (rel_key_of r) r) rs (app_relations (svc_graph s)) \<and> nodes h = nodes (svc_graph s)"
  using assms
proof (induction rs arbitrary: s)
  case (Cons r rs)
  from relation_save_apply [of r "svc_graph s"] Cons.prems obtain h where h: "relation_save r (svc_graph s) = (Inr (), h)"
    "app_relations h = dict_set (rel_key_of r) r (app_relations (svc_graph s))" "nodes h = nodes (svc_graph s)" by auto
  from Cons.IH [of "s\<lparr>svc_graph := h\<rparr>"] Cons.prems h show ?case by (auto simp: op_defs)
next
  case Nil
  show ?case by (rule exI [of _ "svc_graph s"]) (simp add: op_defs)
qed

lemma get_set_relations:
  assumes "\<And>r r'. r \<in> set rs \<Longrightarrow> r' \<in> set rs \<Longrightarrow> rel_key_of r = rel_key_of r' \<Longrightarrow> r = r'"
  shows "dict_get (fold (\<lambda>r. dict_set (rel_key_of r) r) rs d) k =
    (case find (\<lambda>r. rel_key_of r = k) rs of Some r \<Rightarrow> Some r | None \<Rightarrow> dict_get d k)"
  using assms
proof (induction rs arbitrary: d)
  case (Cons r rs)
  then have IH: "dict_get (fold (\<lambda>r. dict_set (rel_key_of r) r) rs (dict_set (rel_key_of r) r d)) k =
      (case find (\<lambda>r. rel_key_of r = k) rs of Some r \<Rightarrow> Some r | None \<Rightarrow> dict_get (dict_set (rel_key_of r) r d) k)"
    by (metis (no_types, lifting) list.set_intros(2))
  show ?case
  proof (cases "rel_key_of r = k")
    case True
    then have "x = r" if "find (\<lambda>r. rel_key_of r = k) rs = Some x" for x
      using find_SomeD [OF that] Cons.prems by simp
    with True IH show ?thesis by (auto simp: dict_simps split: option.splits)
  next
    case False
    with IH show ?thesis by (auto simp: dict_simps split: option.splits)
  qed
qed simp

text \<open>The production data after a restoration is the captured one.\<close>

lemma put_objects_frame:
  "coll_get revisions_coll i (fold put_object os g) = coll_get revisions_coll i g \<and>
   coll_get applications_coll i (fold put_object os g) = coll_get applications_coll i g"
proof (induction os arbitrary: g)
  case (Cons r os)
  have "coll_get revisions_coll i (put_object r g) = coll_get revisions_coll i g"
    "coll_get applications_coll i (put_object r g) = coll_get applications_coll i g"
    by (simp_all add: object_attach_def Let_def revisions.get_create_edge applications.get_create_edge object_save_def
        coll_save_def revisions.get_upsert_other applications.get_upsert_other split: option.splits)
  with Cons [of "put_object r g"] show ?case by simp
qed simp

lemma delete_objects_frame:
  "coll_get revisions_coll i (fold delete_object os g) = coll_get revisions_coll i g \<and>
   coll_get applications_coll i (fold delete_object os g) = coll_get applications_coll i g"
  by (induction os arbitrary: g) (simp_all add: object_delete_def revisions.get_delete_node applications.get_delete_node)

lemma objects_restored:
  assumes os: "\<And>r. r \<in> set os \<Longrightarrow> obj_application_id r = app \<and> obj_data_space_id r = space"
      "\<And>r r'. r \<in> set os \<Longrightarrow> r' \<in> set os \<Longrightarrow> obj_id r = obj_id r' \<Longrightarrow> r = r'"
    and none: "object_get app i space g = None"
  shows "object_get app i space (fold put_object os g) = find (\<lambda>r. obj_id r = i) os"
proof (cases "find (\<lambda>r. obj_id r = i) os")
  case None
  then have "object_key app space i \<notin> object_ident ` set os" by (auto simp: find_None_ball object_key_def)
  with None none show ?thesis by (simp add: get_put_objects_out object_get_def)
next
  case (Some r)
  then have r: "r \<in> set os" "obj_id r = i" by (auto dest: find_SomeD)
  have "r' = r" if "r' \<in> set os" "object_ident r' = object_ident r" for r'
    using os(2) [OF that(1) r(1)] that(2) by (simp add: object_key_def)
  from get_put_objects_in [OF r(1) this] have "coll_get objects_coll (object_ident r) (fold put_object os g) = Some r" by blast
  with os(1) [OF r(1)] r(2) Some show ?thesis by (simp add: object_get_def)
qed

lemma relations_restored:
  assumes rs: "\<And>r. r \<in> set rs \<Longrightarrow> rel_key_of r = (app, space, rel_id r)"
      "\<And>r r'. r \<in> set rs \<Longrightarrow> r' \<in> set rs \<Longrightarrow> rel_id r = rel_id r' \<Longrightarrow> r = r'"
    and none: "dict_get d (app, space, i) = None"
  shows "dict_get (fold (\<lambda>r. dict_set (rel_key_of r) r) rs d) (app, space, i) = find (\<lambda>r. rel_id r = i) rs"
proof -
  have inj: "r = r'" if "r \<in> set rs" "r' \<in> set rs" "rel_key_of r = rel_key_of r'" for r r'
  proof -
    have "rel_id r = rel_id r'" using rs(1) [OF that(1)] rs(1) [OF that(2)] that(3) by simp
    then show ?thesis by (rule rs(2) [OF that(1,2)])
  qed
  have "find (\<lambda>r. rel_key_of r = (app, space, i)) rs = find (\<lambda>r. rel_id r = i) rs"
  proof (rule find_cong [OF refl])
    fix r assume "r \<in> set rs"
    from rs(1) [OF this] show "(rel_key_of r = (app, space, i)) = (rel_id r = i)" by simp
  qed
  moreover have "dict_get (fold (\<lambda>r. dict_set (rel_key_of r) r) rs d) (app, space, i) =
      (case find (\<lambda>r. rel_key_of r = (app, space, i)) rs of Some r \<Rightarrow> Some r | None \<Rightarrow> dict_get d (app, space, i))"
    using inj by (rule get_set_relations)
  ultimately show ?thesis using none by (cases "find (\<lambda>r. rel_id r = i) rs") simp_all
qed

lemma cleared_data:
  fixes app :: string and g :: "node_value graph"
  assumes ok: "typed_graph g" "wf_graph g" "keyed_relations g"
  defines "g1 \<equiv> fold relation_delete (relation_list app None None None ''production'' g) g"
  defines "g2 \<equiv> fold delete_object (object_list app None ''production'' g1) g1"
  shows "object_get app i ''production'' g2 = None" and "relation_get app i ''production'' g2 = None"
    and "coll_get revisions_coll k g2 = coll_get revisions_coll k g"
    and "coll_get applications_coll k g2 = coll_get applications_coll k g"
proof -
  have n1: "nodes g1 = nodes g" by (simp add: g1_def nodes_relation_delete)
  then have "object_list app None ''production'' g1 = object_list app None ''production'' g"
    "coll_get objects_coll k g1 = coll_get objects_coll k g" "coll_get revisions_coll k g1 = coll_get revisions_coll k g"
    "coll_get applications_coll k g1 = coll_get applications_coll k g" for k
    by (simp_all add: coll_get_def get_node_def object_list_def coll_values_def list_nodes_def)
  note eq = this
  show "object_get app i ''production'' g2 = None"
    using no_objects_after_delete [OF ok(1,2), of app i "''production''"]
    by (auto simp: g2_def eq object_get_def get_after_deletes split: if_splits)
  have "(app, ''production'', i) \<notin> fst ` set (app_relations g1)"
    using no_relations_after_delete [OF ok(3), of app i "''production''"]
    by (simp add: g1_def relation_get_def get_app_relation_def map_of_eq_None_iff)
  then have "(app, ''production'', i) \<notin> fst ` set (app_relations g2)"
    using relations_after_object_deletes [of "object_list app None ''production'' g1" g1] by (auto simp: g2_def)
  then show "relation_get app i ''production'' g2 = None"
    by (simp add: relation_get_def get_app_relation_def map_of_eq_None_iff)
  show "coll_get revisions_coll k g2 = coll_get revisions_coll k g"
    "coll_get applications_coll k g2 = coll_get applications_coll k g"
    by (simp_all add: g2_def delete_objects_frame eq)
qed

lemma restore_data:
  fixes os :: "application_object list" and rs :: "app_relation list"
  assumes ok: "typed_graph (svc_graph s)" "wf_graph (svc_graph s)" "keyed_relations (svc_graph s)"
    and os: "\<And>r. r \<in> set os \<Longrightarrow> obj_application_id r = app \<and> obj_data_space_id r = ''production''"
      "\<And>r r'. r \<in> set os \<Longrightarrow> r' \<in> set os \<Longrightarrow> obj_id r = obj_id r' \<Longrightarrow> r = r'"
    and rs: "list_all (\<lambda>r. rel_physical_type r \<noteq> None) rs"
      "\<And>r. r \<in> set rs \<Longrightarrow> rel_key_of r = (app, ''production'', rel_id r)"
      "\<And>r r'. r \<in> set rs \<Longrightarrow> r' \<in> set rs \<Longrightarrow> rel_id r = rel_id r' \<Longrightarrow> r = r'"
  shows "\<exists>h. restore_application_data app os rs s = (Inr (), s\<lparr>svc_graph := h\<rparr>) \<and>
    (\<forall>i. object_get app i ''production'' h = find (\<lambda>r. obj_id r = i) os) \<and>
    (\<forall>i. relation_get app i ''production'' h = find (\<lambda>r. rel_id r = i) rs) \<and>
    (\<forall>i. coll_get revisions_coll i h = coll_get revisions_coll i (svc_graph s)) \<and>
    (\<forall>i. coll_get applications_coll i h = coll_get applications_coll i (svc_graph s))"
proof -
  define g1 where "g1 = fold relation_delete (relation_list app None None None ''production'' (svc_graph s)) (svc_graph s)"
  define g2 where "g2 = fold delete_object (object_list app None ''production'' g1) g1"
  note clear = cleared_data [OF ok, where app = app, folded g1_def, folded g2_def]
  let ?g3 = "fold put_object os g2"
  from save_relations [OF rs(1), of "s\<lparr>svc_graph := ?g3\<rparr>"] obtain h where
    h: "for_each (\<lambda>r. store_op (relation_save r)) rs (s\<lparr>svc_graph := ?g3\<rparr>) = (Inr (), s\<lparr>svc_graph := h\<rparr>)"
      "app_relations h = fold (\<lambda>r. dict_set (rel_key_of r) r) rs (app_relations ?g3)" "nodes h = nodes ?g3" by auto
  have puts: "for_each (\<lambda>r. bindE (writes (object_save r)) (\<lambda>_. writes (object_attach r None))) os t =
      (Inr (), t\<lparr>svc_graph := fold put_object os (svc_graph t)\<rparr>)" for t :: "'a svc_scheme"
    by (induction os arbitrary: t) (simp_all add: op_defs)
  have "restore_application_data app os rs s = (Inr (), s\<lparr>svc_graph := h\<rparr>)"
    using h(1) by (simp add: restore_application_data_def op_defs for_each_writes puts g1_def g2_def)
  moreover have same: "coll_get objects_coll k h = coll_get objects_coll k ?g3"
      "coll_get revisions_coll k h = coll_get revisions_coll k ?g3"
      "coll_get applications_coll k h = coll_get applications_coll k ?g3" for k
    using h(3) by (simp_all add: coll_get_def get_node_def)
  moreover have "relation_get app i ''production'' h = find (\<lambda>r. rel_id r = i) rs" for i
  proof -
    have "dict_get (app_relations g2) (app, ''production'', i) = None"
      using clear(2) [of i] by (simp add: relation_get_def get_app_relation_def)
    with rs(2,3) have "dict_get (fold (\<lambda>r. dict_set (rel_key_of r) r) rs (app_relations g2)) (app, ''production'', i) =
        find (\<lambda>r. rel_id r = i) rs" by (rule relations_restored)
    with h(2) show ?thesis
      by (simp add: relation_get_def get_app_relation_def relations_put_objects)
  qed
  moreover have "object_get app i ''production'' h = find (\<lambda>r. obj_id r = i) os" for i
  proof -
    from os clear(1) have "object_get app i ''production'' ?g3 = find (\<lambda>r. obj_id r = i) os" by (rule objects_restored)
    with same(1) show ?thesis by (simp add: object_get_def)
  qed
  ultimately show ?thesis by (auto simp: put_objects_frame clear(3,4))
qed

section \<open>The round trip\<close>

context record_collection
begin

lemma values_distinct:
  assumes "typed_graph g" and "wf_graph g"
  shows "distinct (map (coll_identity c) (coll_values c g))"
proof -
  have decoded: "coll_decode c v = Some m \<Longrightarrow> coll_identity c m = node_identity v" for v m
    using decode_iff [of v m] identity_put [of m] by simp
  have "distinct (map (coll_identity c) (List.map_filter (coll_decode c) (map snd (filter (\<lambda>n. fst (fst n) = coll_label c) ns)))) \<and>
      set (map (coll_identity c) (List.map_filter (coll_decode c) (map snd (filter (\<lambda>n. fst (fst n) = coll_label c) ns))))
        \<subseteq> {j. (coll_label c, j) \<in> fst ` set ns}"
    if "list_all (\<lambda>n. fst n = (node_label (snd n), node_identity (snd n))) ns" "distinct (map fst ns)" for ns
    using that
  proof (induction ns)
    case (Cons n ns)
    obtain l i v where n: "n = ((l, i), v)" by (metis prod.collapse)
    show ?case
    proof (cases "l = coll_label c \<and> coll_decode c v \<noteq> None")
      case True
      then obtain m where m: "coll_decode c v = Some m" by blast
      moreover have "coll_identity c m = i" using decoded [OF m] Cons.prems(1) n by simp
      moreover have "(coll_label c, i) \<notin> fst ` set ns" using Cons.prems(2) n True by simp
      ultimately show ?thesis using Cons n True by (auto simp: List.map_filter_simps)
    next
      case False
      then show ?thesis using Cons n by (auto simp: List.map_filter_simps split: option.splits)
    qed
  qed (simp add: List.map_filter_simps)
  from this [of "nodes g"] show ?thesis
    using assms by (simp add: coll_values_def list_nodes_def typed_graph_def wf_graph_def)
qed

end

definition data_ok :: "node_value graph \<Rightarrow> bool" where
  "data_ok g \<longleftrightarrow> typed_graph g \<and> wf_graph g \<and> keyed_relations g"

text \<open>The production data of an Application consists of Python dictionaries; relations are typed.\<close>

definition data_values_ok :: "string \<Rightarrow> node_value graph \<Rightarrow> bool" where
  "data_values_ok app g \<longleftrightarrow>
     list_all (\<lambda>r. json_ok (JObj (obj_values r))) (object_list app None ''production'' g) \<and>
     list_all (\<lambda>r. json_ok (JObj (rel_values r)) \<and> rel_physical_type r \<noteq> None)
       (relation_list app None None None ''production'' g)"

lemma captured_payload_ok:
  assumes "data_ok g" and "data_values_ok app g" and "capture_payload app True g = Inr p"
  shows "payload_ok p"
proof -
  have "distinct (map (coll_identity revisions_coll) (coll_values revisions_coll g))"
    using assms(1) record_collection.values_distinct [OF revisions.record_collection_axioms] by (simp add: data_ok_def)
  then have "distinct (map rev_id (coll_values revisions_coll g))"
    by (simp add: revisions_coll_def distinct_map inj_on_def)
  then have "distinct (map rev_id (filter P (coll_values revisions_coll g)))" for P
    by (rule distinct_map_filter)
  with assms(2,3) show ?thesis
    by (auto simp: capture_payload_def rbind_eq_Inr payload_ok_def data_values_ok_def comp_def list_all_iff)
qed

lemma checkpoint_create_Inr:
  assumes "checkpoint_create sha app Level_application_data reason s = (Inr c, s1)"
  obtains p snap blob where "capture_payload app True (svc_graph s) = Inr p"
    and "ckpt_application_id c = app" and "ckpt_level c = Level_application_data"
    and "coll_get checkpoints_coll (key (ckpt_id c)) (svc_graph s1) = Some c"
    and "coll_get checkpoint_snapshots_coll (key (ckpt_snapshot_id c)) (svc_graph s1) = Some snap"
    and "snap_content_hash snap = sha256_text sha (stable_json (payload_json p))"
    and "coll_get checkpoint_blobs_coll (key (snap_blob_id snap)) (svc_graph s1) = Some blob"
    and "cblob_payload blob = b64encode (stable_json (payload_json p))"
proof -
  have l: "coll_label checkpoints_coll = ''GraphCheckpoint''" "coll_label checkpoint_snapshots_coll = ''CheckpointSnapshot''"
    "coll_label checkpoint_blobs_coll = ''CheckpointBlob''"
    "\<And>c. coll_identity checkpoints_coll c = key (ckpt_id c)" "\<And>c. coll_identity checkpoint_snapshots_coll c = key (snap_id c)"
    "\<And>c. coll_identity checkpoint_blobs_coll c = key (cblob_id c)"
    by (simp_all add: checkpoints_coll_def checkpoint_snapshots_coll_def checkpoint_blobs_coll_def)
  have other: "coll_get checkpoints_coll k (coll_save checkpoint_snapshots_coll m g) = coll_get checkpoints_coll k g"
    "coll_get checkpoints_coll k (coll_save checkpoint_blobs_coll b g) = coll_get checkpoints_coll k g"
    "coll_get checkpoint_snapshots_coll k (coll_save checkpoint_blobs_coll b g) = coll_get checkpoint_snapshots_coll k g" for k m b g
    by (simp_all add: coll_save_def l checkpoints.get_upsert_other checkpoint_snapshots.get_upsert_other)
  from assms obtain a p where a: "coll_item applications_coll (key app) (svc_graph s) = Inr a"
    and p: "capture_payload app True (svc_graph s) = Inr p"
    unfolding checkpoint_create_def atomically_Inr by (auto simp: bindE_Inr_iff reads_apply new_uuid_apply)
  define i where "i = svc_ids s (svc_drawn s)"
  let ?text = "stable_json (payload_json p)"
  define snap where "snap = \<lparr>snap_id = i @ ''.snapshot'', snap_checkpoint_id = i, snap_level = Level_application_data,
    snap_format_version = 1, snap_content_hash = sha256_text sha ?text, snap_blob_id = i @ ''.blob'',
    snap_object_count = (case pl_data p of None \<Rightarrow> 0 | Some (os, rs) \<Rightarrow> int (length os)),
    snap_relation_count = (case pl_data p of None \<Rightarrow> 0 | Some (os, rs) \<Rightarrow> int (length rs)),
    snap_created_at = svc_clock s (Suc (svc_ticks s))\<rparr>"
  define blob where "blob = \<lparr>cblob_id = i @ ''.blob'', cblob_checkpoint_id = i, cblob_snapshot_id = i @ ''.snapshot'',
    cblob_encoding = ''base64_json'', cblob_payload = b64encode ?text,
    cblob_created_at = svc_clock s (Suc (Suc (svc_ticks s)))\<rparr>"
  have c: "c = \<lparr>ckpt_id = i, ckpt_level = Level_application_data, ckpt_application_id = app,
      ckpt_application_revision_id = app_active_revision_id a, ckpt_snapshot_id = i @ ''.snapshot'',
      ckpt_created_at = svc_clock s (svc_ticks s), ckpt_reason = reason\<rparr>"
    using assms a p unfolding checkpoint_create_def atomically_Inr i_def
    by (cases "app_active_revision_id a") (simp_all add: op_defs Let_def)
  have n: "nodes (svc_graph s1) = nodes (coll_save checkpoint_blobs_coll blob
        (coll_save checkpoint_snapshots_coll snap (coll_save checkpoints_coll c (svc_graph s))))"
    using assms a p unfolding checkpoint_create_def atomically_Inr i_def snap_def blob_def
    by (cases "app_active_revision_id a") (auto simp: op_defs Let_def graph_simps)
  have b: "ckpt_application_id c = app" "ckpt_level c = Level_application_data" "ckpt_snapshot_id c = snap_id snap"
      "snap_content_hash snap = sha256_text sha ?text" "snap_blob_id snap = cblob_id blob" "cblob_payload blob = b64encode ?text"
    by (simp_all add: c snap_def blob_def)
  have same: "coll_get cc k (svc_graph s1) = coll_get cc k (coll_save checkpoint_blobs_coll blob
        (coll_save checkpoint_snapshots_coll snap (coll_save checkpoints_coll c (svc_graph s))))" for cc k
    using n by (simp add: coll_get_def get_node_def)
  show thesis
    by (rule that [OF p b(1,2) _ _ b(4) _ b(6)])
      (simp_all add: same other l b(3,5) checkpoints.get_save checkpoint_snapshots.get_save checkpoint_blobs.get_save)
qed

lemma find_map_injective:
  "(\<And>x. k (h x) = k x) \<Longrightarrow> find (\<lambda>x. k x = i) (map h xs) = map_option h (find (\<lambda>x. k x = i) xs)"
  by (induction xs) auto

text \<open>Looking an item up by id in the captured lists is looking it up in the graph.\<close>

lemma find_object:
  assumes "typed_graph g" and "wf_graph g"
  shows "find (\<lambda>r. obj_id r = i) (object_list app None space g) = object_get app i space g"
proof (cases "object_get app i space g")
  case None
  then show ?thesis using object_in_list [OF assms] by (auto simp: find_None_ball)
next
  case (Some r)
  with object_get_ident [OF assms(1) Some] have "r \<in> set (object_list app None space g)" "obj_id r = i"
    by (simp_all add: object_in_list [OF assms])
  then obtain r' where "find (\<lambda>r. obj_id r = i) (object_list app None space g) = Some r'"
    by (cases "find (\<lambda>r. obj_id r = i) (object_list app None space g)") (auto simp: find_None_ball)
  with find_SomeD [OF this] Some show ?thesis by (auto simp: object_in_list [OF assms])
qed

lemma find_relation:
  assumes "keyed_relations g" and "wf_graph g"
  shows "find (\<lambda>r. rel_id r = i) (relation_list app None None None space g) = relation_get app i space g"
proof (cases "relation_get app i space g")
  case None
  then show ?thesis using relation_in_get(1) [OF assms] by (fastforce simp: find_None_ball)
next
  case (Some r)
  then have "r \<in> set (relation_list app None None None space g)" "rel_id r = i"
    using relation_get_in [OF assms(1) Some] by (simp_all add: rel_key_of_def)
  then obtain r' where r': "find (\<lambda>r. rel_id r = i) (relation_list app None None None space g) = Some r'"
    by (cases "find (\<lambda>r. rel_id r = i) (relation_list app None None None space g)") (auto simp: find_None_ball)
  with find_SomeD [OF r'] Some relation_in_get(1) [OF assms, of r'] show ?thesis by simp
qed

lemma status_of_captured:
  assumes "typed_graph g" and "wf_graph g" and "coll_get revisions_coll (key i) g = Some r" and "rev_application_id r = app"
  shows "map_of (map (\<lambda>r. (rev_id r, rev_status r)) (filter (\<lambda>r. rev_application_id r = app) (coll_values revisions_coll g))) i
    = Some (rev_status r)"
proof -
  have id: "coll_identity revisions_coll x = key (rev_id x)" for x by (simp add: revisions_coll_def)
  have in_get: "x \<in> set (coll_values revisions_coll g) \<longleftrightarrow> coll_get revisions_coll (key (rev_id x)) g = Some x" for x
    using revisions.values_iff [OF assms(1,2), of x] by (simp add: id)
  have "rev_id r = i" using revision_get_id [OF assms(1,3)] .
  with assms(3,4) have "r \<in> set (filter (\<lambda>r. rev_application_id r = app) (coll_values revisions_coll g))" by (simp add: in_get)
  moreover have "distinct (map rev_id (filter (\<lambda>r. rev_application_id r = app) (coll_values revisions_coll g)))"
    using record_collection.values_distinct [OF revisions.record_collection_axioms assms(1,2)]
    by (intro distinct_map_filter) (simp add: id distinct_map inj_on_def)
  ultimately show ?thesis using \<open>rev_id r = i\<close> by (intro map_of_is_SomeI) (auto simp: comp_def)
qed

text \<open>The steps of a restoration up to the data, from a payload that was read back.\<close>

lemma application_get_save:
  "coll_get applications_coll (key i) (coll_save applications_coll a g) =
     (if i = app_id a then Some a else coll_get applications_coll (key i) g)"
proof -
  have "coll_identity applications_coll a = key (app_id a)" by (simp add: applications_coll_def)
  then show ?thesis by (simp add: applications.get_save)
qed

lemma application_get_id: "typed_graph g \<Longrightarrow> coll_get applications_coll (key i) g = Some a \<Longrightarrow> app_id a = i"
  using applications.get_identity [of g "key i" a] by (simp add: applications_coll_def)

text \<open>The state of the loops over statuses and pointers.\<close>

lemma set_statuses_frame:
  assumes "typed_graph g" and "wf_graph g"
  shows "typed_graph (fold set_status es g) \<and> wf_graph (fold set_status es g) \<and>
    app_relations (fold set_status es g) = app_relations g \<and>
    (\<forall>i. coll_get objects_coll i (fold set_status es g) = coll_get objects_coll i g) \<and>
    (\<forall>i. coll_get applications_coll i (fold set_status es g) = coll_get applications_coll i g) \<and>
    (\<forall>p. has_stable p g \<longrightarrow> has_stable p (fold set_status es g))"
  using assms
proof (induction es arbitrary: g)
  case (Cons e es)
  have o: "coll_get objects_coll i (set_status e g) = coll_get objects_coll i g"
    "coll_get applications_coll i (set_status e g) = coll_get applications_coll i g"
    "app_relations (set_status e g) = app_relations g" "has_stable p g \<Longrightarrow> has_stable p (set_status e g)"
    "wf_graph (set_status e g)" for i p
    using Cons.prems(2)
    by (simp_all add: set_status_def coll_save_def objects.get_upsert_other applications.get_upsert_other stable_upsert
        wf_upsert_node upsert_node_def [THEN arg_cong [of _ _ app_relations]] split: option.splits)
  from Cons.IH [OF typed_set_status [OF Cons.prems(1), of e] o(5)] o show ?case by simp
qed simp

definition with_application :: "application \<Rightarrow> string option \<Rightarrow> node_value graph \<Rightarrow> node_value graph" where
  "with_application a v g =
     (let g1 = delete_edge (id_ref ''Application'' (app_id a)) ''ACTIVE_REVISION'' None None
          (coll_save applications_coll (a\<lparr>app_active_revision_id := v\<rparr>) g)
      in case v of None \<Rightarrow> g1
       | Some i \<Rightarrow> create_edge (id_ref ''Application'' (app_id a)) ''ACTIVE_REVISION'' (id_ref ''ApplicationRevision'' i) [] g1)"

lemma with_application_frame:
  assumes "typed_graph g" and "wf_graph g"
  shows "typed_graph (with_application a v g)" and "wf_graph (with_application a v g)"
    and "app_relations (with_application a v g) = app_relations g"
    and "coll_get objects_coll i (with_application a v g) = coll_get objects_coll i g"
    and "coll_get revisions_coll i (with_application a v g) = coll_get revisions_coll i g"
    and "coll_get applications_coll (key (app_id a)) (with_application a v g) = Some (a\<lparr>app_active_revision_id := v\<rparr>)"
    and "has_stable p g \<Longrightarrow> has_stable p (with_application a v g)"
proof -
  let ?h = "coll_save applications_coll (a\<lparr>app_active_revision_id := v\<rparr>) g"
  have "coll_get objects_coll i ?h = coll_get objects_coll i g" "coll_get revisions_coll i ?h = coll_get revisions_coll i g"
    "app_relations ?h = app_relations g" "has_stable p g \<Longrightarrow> has_stable p ?h"
    by (simp_all add: coll_save_def objects.get_upsert_other revisions.get_upsert_other stable_upsert)
      (simp add: upsert_node_def)
  moreover have "coll_get applications_coll (key (app_id a)) ?h = Some (a\<lparr>app_active_revision_id := v\<rparr>)"
    by (simp add: application_get_save)
  ultimately show "typed_graph (with_application a v g)" "wf_graph (with_application a v g)"
    "app_relations (with_application a v g) = app_relations g"
    "coll_get objects_coll i (with_application a v g) = coll_get objects_coll i g"
    "coll_get revisions_coll i (with_application a v g) = coll_get revisions_coll i g"
    "coll_get applications_coll (key (app_id a)) (with_application a v g) = Some (a\<lparr>app_active_revision_id := v\<rparr>)"
    "has_stable p g \<Longrightarrow> has_stable p (with_application a v g)"
    using assms
    by (auto simp: with_application_def Let_def applications.typed_save applications.wf_save wf_create_edge wf_delete_edge
        graph_simps objects.get_create_edge objects.get_delete_edge revisions.get_create_edge revisions.get_delete_edge
        applications.get_create_edge applications.get_delete_edge split: option.splits)
qed

lemma restore_revision_state_outcome:
  assumes ok: "typed_graph (svc_graph s)" "wf_graph (svc_graph s)"
    and q: "pl_application_id q = app" "distinct (map fst (pl_revision_statuses q))"
    and a: "coll_get applications_coll (key app) (svc_graph s) = Some a"
    and st: "\<And>p. p \<in> set (pl_definitions q) \<Longrightarrow> has_stable p (svc_graph s)"
  shows "\<exists>h. restore_revision_state app q s = (Inr (), s\<lparr>svc_graph := h\<rparr>) \<and> typed_graph h \<and> wf_graph h \<and>
    app_relations h = app_relations (svc_graph s) \<and>
    coll_get applications_coll (key app) h = Some (a\<lparr>app_active_revision_id := pl_active_revision_id q\<rparr>) \<and>
    (\<forall>i. coll_get revisions_coll (key i) h = map_option (\<lambda>r. case map_of (pl_revision_statuses q) i of
        None \<Rightarrow> r | Some v \<Rightarrow> r\<lparr>rev_status := v\<rparr>) (coll_get revisions_coll (key i) (svc_graph s)))"
proof -
  have id: "app_id a = app" by (rule application_get_id [OF ok(1) a])
  define g1 where "g1 = with_application a (pl_active_revision_id q) (svc_graph s)"
  note f1 = with_application_frame [OF ok, where a = a and v = "pl_active_revision_id q", folded g1_def]
  define g2 where "g2 = fold set_status (pl_revision_statuses q) g1"
  note f2 = set_statuses_frame [OF f1(1,2), where es = "pl_revision_statuses q", folded g2_def]
  have "kept_by_pointers g2 (pl_definitions q) g2"
    using f2 f1(7) st by (auto simp: kept_by_pointers_def same_data_refl)
  then obtain h where h: "for_each restore_pointer (pl_definitions q) (s\<lparr>svc_graph := g2\<rparr>) = (Inr (), s\<lparr>svc_graph := h\<rparr>)"
    "kept_by_pointers g2 (pl_definitions q) h"
    using restore_pointers [of g2 "pl_definitions q" "s\<lparr>svc_graph := g2\<rparr>"] by auto
  have "restore_revision_state app q s = (Inr (), s\<lparr>svc_graph := h\<rparr>)"
    using h(1) q(1) a id
    by (cases "pl_active_revision_id q") (simp_all add: restore_revision_state_def op_defs coll_item_def
        reset_pointer_apply restore_statuses g2_def g1_def with_application_def Let_def)
  moreover have "coll_get revisions_coll (key i) g2 = map_option (\<lambda>r. case map_of (pl_revision_statuses q) i of
        None \<Rightarrow> r | Some v \<Rightarrow> r\<lparr>rev_status := v\<rparr>) (coll_get revisions_coll (key i) (svc_graph s))" for i
    unfolding g2_def get_set_statuses [OF f1(1) q(2)] f1(5) ..
  ultimately show ?thesis
    using h(2) f1 f2 id by (intro exI [of _ h]) (simp add: kept_by_pointers_def same_data_def)
qed

text \<open>What is restored, as a relation between the captured graph, the graph restored from and the result.\<close>

definition restored :: "string \<Rightarrow> node_value graph \<Rightarrow> node_value graph \<Rightarrow> node_value graph \<Rightarrow> bool" where
  "restored app g g2 h \<longleftrightarrow>
     map_option app_active_revision_id (coll_get applications_coll (key app) h) =
       map_option app_active_revision_id (coll_get applications_coll (key app) g) \<and>
     (\<forall>i. object_get app i ''production'' h = map_option canon_object (object_get app i ''production'' g)) \<and>
     (\<forall>i. relation_get app i ''production'' h = map_option canon_relation (relation_get app i ''production'' g)) \<and>
     (\<forall>i r r2. coll_get revisions_coll (key i) g = Some r \<and> rev_application_id r = app \<and>
        coll_get revisions_coll (key i) g2 = Some r2 \<longrightarrow>
        coll_get revisions_coll (key i) h = Some (r2\<lparr>rev_status := rev_status r\<rparr>))"

text \<open>The records of the checkpoint are still there, and so is what it points to.\<close>

definition checkpoint_kept :: "graph_checkpoint \<Rightarrow> node_value graph \<Rightarrow> node_value graph \<Rightarrow> bool" where
  "checkpoint_kept c g1 g2 \<longleftrightarrow> coll_get checkpoints_coll (key (ckpt_id c)) g2 = Some c \<and>
     (\<forall>i. coll_get checkpoint_snapshots_coll i g2 = coll_get checkpoint_snapshots_coll i g1) \<and>
     (\<forall>i. coll_get checkpoint_blobs_coll i g2 = coll_get checkpoint_blobs_coll i g1)"

lemma captured_lists:
  fixes app :: string and g :: "node_value graph"
  assumes "data_ok g" and "data_values_ok app g"
  defines "os \<equiv> map canon_object (object_list app None ''production'' g)"
  defines "rs \<equiv> map canon_relation (relation_list app None None None ''production'' g)"
  shows "r \<in> set os \<Longrightarrow> obj_application_id r = app \<and> obj_data_space_id r = ''production''"
    and "r \<in> set os \<Longrightarrow> r' \<in> set os \<Longrightarrow> obj_id r = obj_id r' \<Longrightarrow> r = r'"
    and "list_all (\<lambda>r. rel_physical_type r \<noteq> None) rs"
    and "x \<in> set rs \<Longrightarrow> rel_key_of x = (app, ''production'', rel_id x)"
    and "x \<in> set rs \<Longrightarrow> x' \<in> set rs \<Longrightarrow> rel_id x = rel_id x' \<Longrightarrow> x = x'"
proof -
  have ok: "typed_graph g" "wf_graph g" "keyed_relations g" using assms(1) by (simp_all add: data_ok_def)
  show "r \<in> set os \<Longrightarrow> obj_application_id r = app \<and> obj_data_space_id r = ''production''"
    "r \<in> set os \<Longrightarrow> r' \<in> set os \<Longrightarrow> obj_id r = obj_id r' \<Longrightarrow> r = r'"
    using object_in_list [OF ok(1,2)] by (auto simp: os_def canon_object_def)
  show "list_all (\<lambda>r. rel_physical_type r \<noteq> None) rs"
    using assms(2) by (auto simp: rs_def canon_relation_def data_values_ok_def list_all_iff)
  show "x \<in> set rs \<Longrightarrow> rel_key_of x = (app, ''production'', rel_id x)"
    using relation_in_get(2) [OF ok(3,2)] by (auto simp: rs_def canon_relation_def rel_key_of_def)
  assume "x \<in> set rs" "x' \<in> set rs" "rel_id x = rel_id x'"
  then obtain y y' where "x = canon_relation y" "x' = canon_relation y'" "rel_id y = rel_id y'"
    "y \<in> set (relation_list app None None None ''production'' g)" "y' \<in> set (relation_list app None None None ''production'' g)"
    by (auto simp: rs_def canon_relation_def)
  note y = this
  have "Some y = Some y'"
    using relation_in_get(1) [OF ok(3,2) y(4)] relation_in_get(1) [OF ok(3,2) y(5)] unfolding y(3) by (rule trans [OF sym])
  then show "x = x'" unfolding y(1,2) by simp
qed

lemma distinct_sorted_keys: "distinct (map fst (sort_key fst d)) = distinct (map fst d)"
  by (simp add: distinct_map)

lemma captured_payload:
  assumes "capture_payload app True g = Inr p"
  obtains a where "coll_get applications_coll (key app) g = Some a" and "pl_application_id (canon_payload p) = app"
    and "pl_active_revision_id (canon_payload p) = app_active_revision_id a"
    and "pl_data (canon_payload p) = Some (map canon_object (object_list app None ''production'' g),
      map canon_relation (relation_list app None None None ''production'' g))"
    and "set (pl_definitions (canon_payload p)) = set (captured_pointers app g)"
    and "pl_revision_statuses (canon_payload p) = sort_key fst (map (\<lambda>r. (rev_id r, rev_status r))
      (filter (\<lambda>r. rev_application_id r = app) (coll_values revisions_coll g)))"
proof -
  from assms obtain a where a: "coll_get applications_coll (key app) g = Some a"
    by (cases "coll_get applications_coll (key app) g") (simp_all add: capture_payload_def coll_item_def)
  with assms have "p = \<lparr>pl_application_id = app, pl_active_revision_id = app_active_revision_id a,
        pl_revision_statuses = map (\<lambda>r. (rev_id r, rev_status r))
          (filter (\<lambda>r. rev_application_id r = app) (coll_values revisions_coll g)),
        pl_definitions = sort_key (\<lambda>p. [ptr_label p, ptr_id p]) (captured_pointers app g),
        pl_data = Some (object_list app None ''production'' g, relation_list app None None None ''production'' g)\<rparr>"
    by (simp add: capture_payload_def coll_item_def)
  with a show thesis by (intro that) (simp_all add: canon_payload_def)
qed

lemma checkpoint_round_trip:
  assumes create: "checkpoint_create sha app Level_application_data reason s = (Inr c, s1)"
    and before: "data_ok (svc_graph s)" "data_values_ok app (svc_graph s)"
    and after: "data_ok (svc_graph s2)" "checkpoint_kept c (svc_graph s1) (svc_graph s2)"
      "coll_get applications_coll (key app) (svc_graph s2) = Some a2"
      "\<And>p. p \<in> set (captured_pointers app (svc_graph s)) \<Longrightarrow> has_stable p (svc_graph s2)"
  shows "\<exists>s3. checkpoint_restore sha (ckpt_id c) s2 = (Inr c, s3) \<and> restored app (svc_graph s) (svc_graph s2) (svc_graph s3)"
proof -
  let ?g = "svc_graph s" and ?g2 = "svc_graph s2"
  from checkpoint_create_Inr [OF create] obtain p snap blob where
    p: "capture_payload app True ?g = Inr p" and c: "ckpt_application_id c = app" "ckpt_level c = Level_application_data"
    and recs: "coll_get checkpoint_snapshots_coll (key (ckpt_snapshot_id c)) (svc_graph s1) = Some snap"
      "snap_content_hash snap = sha256_text sha (stable_json (payload_json p))"
      "coll_get checkpoint_blobs_coll (key (snap_blob_id snap)) (svc_graph s1) = Some blob"
      "cblob_payload blob = b64encode (stable_json (payload_json p))" by metis
  let ?q = "canon_payload p"
  from captured_payload [OF p] obtain a0 where a0: "coll_get applications_coll (key app) ?g = Some a0"
    and q: "pl_application_id ?q = app" "pl_active_revision_id ?q = app_active_revision_id a0"
    "pl_data ?q = Some (map canon_object (object_list app None ''production'' ?g),
      map canon_relation (relation_list app None None None ''production'' ?g))"
    "set (pl_definitions ?q) = set (captured_pointers app ?g)"
    "pl_revision_statuses ?q = sort_key fst (map (\<lambda>r. (rev_id r, rev_status r))
      (filter (\<lambda>r. rev_application_id r = app) (coll_values revisions_coll ?g)))" by blast
  have okp: "payload_ok p" by (rule captured_payload_ok [OF before p])
  then have dist1: "distinct (map fst (pl_revision_statuses ?q))" by (simp add: payload_ok_def canon_payload_def distinct_map)
  note dist = dist1 dist1 [unfolded q(5) distinct_sorted_keys]
  have ok2: "typed_graph ?g2" "wf_graph ?g2" "keyed_relations ?g2" and ok: "typed_graph ?g" "wf_graph ?g" "keyed_relations ?g"
    using after(1) before(1) by (simp_all add: data_ok_def)
  from restore_revision_state_outcome [OF ok2(1,2) q(1) dist(1) after(3)] after(4) q(4) obtain h1 where
    h1: "restore_revision_state app ?q s2 = (Inr (), s2\<lparr>svc_graph := h1\<rparr>)" "typed_graph h1" "wf_graph h1"
      "app_relations h1 = app_relations ?g2"
      "coll_get applications_coll (key app) h1 = Some (a2\<lparr>app_active_revision_id := app_active_revision_id a0\<rparr>)"
      "\<And>i. coll_get revisions_coll (key i) h1 = map_option (\<lambda>r. case map_of (pl_revision_statuses ?q) i of
        None \<Rightarrow> r | Some v \<Rightarrow> r\<lparr>rev_status := v\<rparr>) (coll_get revisions_coll (key i) ?g2)"
    unfolding q(2) by blast
  let ?s = "s2\<lparr>svc_graph := h1\<rparr>"
  have "typed_graph (svc_graph ?s)" "wf_graph (svc_graph ?s)" "keyed_relations (svc_graph ?s)"
    using h1(2-4) ok2(3) by (simp_all add: keyed_relations_def)
  from this captured_lists [OF before] have "\<exists>h. restore_application_data app
      (map canon_object (object_list app None ''production'' ?g)) (map canon_relation (relation_list app None None None ''production'' ?g)) ?s =
      (Inr (), ?s\<lparr>svc_graph := h\<rparr>) \<and>
    (\<forall>i. object_get app i ''production'' h = find (\<lambda>r. obj_id r = i) (map canon_object (object_list app None ''production'' ?g))) \<and>
    (\<forall>i. relation_get app i ''production'' h = find (\<lambda>r. rel_id r = i) (map canon_relation (relation_list app None None None ''production'' ?g))) \<and>
    (\<forall>i. coll_get revisions_coll i h = coll_get revisions_coll i (svc_graph ?s)) \<and>
    (\<forall>i. coll_get applications_coll i h = coll_get applications_coll i (svc_graph ?s))"
    by (rule restore_data)
  then obtain h where
    h: "restore_application_data app (map canon_object (object_list app None ''production'' ?g))
      (map canon_relation (relation_list app None None None ''production'' ?g)) ?s = (Inr (), s2\<lparr>svc_graph := h\<rparr>)"
    "\<And>i. object_get app i ''production'' h = map_option canon_object (object_get app i ''production'' ?g)"
    "\<And>i. relation_get app i ''production'' h = map_option canon_relation (relation_get app i ''production'' ?g)"
    "\<And>i. coll_get revisions_coll i h = coll_get revisions_coll i h1" "\<And>i. coll_get applications_coll i h = coll_get applications_coll i h1"
    by (auto simp: find_map_injective canon_object_def canon_relation_def find_object [OF ok(1,2)] find_relation [OF ok(3,2)])
  have "checkpoint_restore sha (ckpt_id c) s2 = (Inr c, s2\<lparr>svc_graph := h\<rparr>)"
    using after(2) recs c h1(1) h(1) q(3) payload_text_read_back [OF okp]
    by (auto simp: checkpoint_restore_def atomically_apply op_defs coll_item_def checkpoint_kept_def)
  moreover have "coll_get revisions_coll (key i) h = Some (r2\<lparr>rev_status := rev_status r\<rparr>)"
    if "coll_get revisions_coll (key i) ?g = Some r \<and> rev_application_id r = app \<and> coll_get revisions_coll (key i) ?g2 = Some r2"
    for i r r2
  proof -
    have "map_of (pl_revision_statuses ?q) i = Some (rev_status r)"
      using status_of_captured [OF ok(1,2), of i r app] that dist(2) by (simp only: q(5) map_of_sorted)
    with that show ?thesis by (simp add: h(4) h1(6))
  qed
  then have "restored app ?g ?g2 h" unfolding restored_def using h(2,3,5) h1(5) a0 by simp
  ultimately show ?thesis by auto
qed

end
