(* ===== verification/Lifecycle_Properties.thy ===== *)
theory Lifecycle_Properties
  imports Activation_Laws Checkpoint_Laws Job_Properties Source_Properties
begin

text \<open>
  The properties of the life of an Application: activation, its failures, rollback, and the
  checkpoints that bring its data back.
\<close>

section \<open>Activation\<close>

text \<open>C22: Activation moves an Application to its target: from a graph where pointers, edges and statuses
  agree, an activation that returns leaves a graph where they agree again, the revision it returns
  is stored, is active and is the one the Application points to, and no other revision of that
  Application is active. The steps of the runtime in between may do anything but move the pointers.\<close>

theorem activation_moves_the_pointer:
  assumes "ports_off ports" and "application_pointers_ok (svc_graph s)"
    and "activate sha ports policy rid s = (Inr r, t)"
  shows "application_pointers_ok (svc_graph t) \<and> coll_get revisions_coll (key rid) (svc_graph t) = Some r \<and>
    rev_status r = Rev_active \<and>
    (\<exists>a. coll_get applications_coll (key (rev_application_id r)) (svc_graph t) = Some a \<and>
      app_active_revision_id a = Some rid) \<and>
    (\<forall>i q. coll_get revisions_coll (key i) (svc_graph t) = Some q \<and> rev_status q = Rev_active \<and>
      rev_application_id q = rev_application_id r \<longrightarrow> i = rid)"
proof -
  note done_ = activate_returns [OF assms]
  have "i = rid" if "coll_get revisions_coll (key i) (svc_graph t) = Some q" "rev_status q = Rev_active"
    "rev_application_id q = rev_application_id r" for i q
    using one_active [OF done_(1) [unfolded application_pointers_ok_def, THEN conjunct1] that(1) _ done_(2)] that done_(3)
    by simp
  with done_ show ?thesis by blast
qed

definition quiet_ports :: "unit activation_ports" where
  "quiet_ports = \<lparr>port_resolve = (\<lambda>_. ret ()), port_build = (\<lambda>_. ret ()), port_migrate = (\<lambda>_ _. ret ()),
     port_evict = (\<lambda>_. ret ()), port_remount = ret ()\<rparr>"

lemma quiet_ports_off: "ports_off quiet_ports"
  by (simp add: ports_off_def quiet_ports_def off_pointers_rules)

text \<open>An Application with an active revision \<open>r\<close> and another one \<open>r2\<close> that has a working tree.\<close>

definition sample_other :: "revision_status \<Rightarrow> application_revision" where
  "sample_other st = sample_apprev\<lparr>rev_id := ''r2'', rev_parent_revision_id := Some ''r'', rev_status := st\<rparr>"

definition sample_release :: "revision_status \<Rightarrow> svc" where
  "sample_release st = sample_svc\<lparr>svc_graph :=
     create_edge (id_ref ''ApplicationRevision'' ''r2'') ''HAS_SOURCE_TREE'' (id_ref ''SourceTree'' ''t'') []
     (create_edge (id_ref ''Application'' ''a'') ''ACTIVE_REVISION'' (id_ref ''ApplicationRevision'' ''r'') []
     (coll_save source_trees_coll (sample_tree Tree_draft) (coll_save revisions_coll (sample_other st)
     (coll_save revisions_coll sample_apprev (coll_save applications_coll (sample_app App_active) empty_graph)))))\<rparr>"

lemma sample_release_get:
  "coll_get revisions_coll (key i) (svc_graph (sample_release st)) =
     (if i = ''r2'' then Some (sample_other st) else if i = ''r'' then Some sample_apprev else None)"
  "coll_get applications_coll (key i) (svc_graph (sample_release st)) = (if i = ''a'' then Some (sample_app App_active) else None)"
  "edge_targets (svc_graph (sample_release st)) (id_ref ''Application'' i) ''ACTIVE_REVISION'' =
     (if i = ''a'' then [id_ref ''ApplicationRevision'' ''r''] else [])"
  by (simp_all add: sample_release_def sample_svc_def coll_get_def coll_save_def get_node_def upsert_node_def empty_graph_def
      revisions_coll_def applications_coll_def source_trees_coll_def sample_other_def sample_apprev_def sample_app_def
      sample_tree_def create_edge_def new_edge_def same_edge_def edge_targets_def list_edges_def matches_edge_def dict_simps)

lemma sample_release_ok:
  assumes "st \<noteq> Rev_active" shows "application_pointers_ok (svc_graph (sample_release st))"
  using assms
  by (simp add: application_pointers_ok_def pointers_ok_def sample_release_get)
    (simp add: sample_other_def sample_apprev_def sample_app_def)

text \<open>\<open>returns\<close> tells whether an operation returned.\<close>

definition returns :: "exn + 'a \<Rightarrow> bool" where
  "returns r = (case r of Inl _ \<Rightarrow> False | Inr _ \<Rightarrow> True)"

lemma returns_run: "returns (fst p) \<Longrightarrow> \<exists>a t. p = (Inr a, t)" and raises_run: "\<not> returns (fst p) \<Longrightarrow> \<exists>e t. p = (Inl e, t)"
  by (cases p; cases "fst p"; simp add: returns_def)+

theorem activation_moves_the_pointer_witness:
  "\<exists>r t. activate (\<lambda>s. s) quiet_ports Policy_normal ''r2'' (sample_release Rev_draft) = (Inr r, t) \<and>
     rev_status r = Rev_active \<and> coll_get revisions_coll (key ''r2'') (svc_graph t) = Some r"
proof -
  have "returns (fst (activate (\<lambda>s. s) quiet_ports Policy_normal ''r2'' (sample_release Rev_draft)))"
    by code_simp
  from returns_run [OF this] obtain r t where
    run: "activate (\<lambda>s. s) quiet_ports Policy_normal ''r2'' (sample_release Rev_draft) = (Inr r, t)" by blast
  from activation_moves_the_pointer [OF quiet_ports_off sample_release_ok run] run show ?thesis by auto
qed


definition broken_build :: "unit activation_ports" where
  "broken_build = quiet_ports\<lparr>port_build := \<lambda>_. raise (RuntimeError ''build failed'')\<rparr>"


text \<open>A rollback that returns went to a revision of the same Application that had been active before,
  and leaves pointers, edges and statuses in agreement with that revision active.\<close>

theorem rollback_only_to_released_revisions:
  assumes "application_pointers_ok (svc_graph s)" and "\<And>i. off_pointers (port_evict ports i)"
    and "rollback ports app rid s = (Inr r, t)"
  shows "(\<exists>q. coll_get revisions_coll (key rid) (svc_graph s) = Some q \<and> rev_application_id q = app \<and>
      rev_status q \<in> {Rev_active, Rev_superseded}) \<and>
    application_pointers_ok (svc_graph t) \<and> coll_get revisions_coll (key rid) (svc_graph t) = Some r \<and>
    rev_status r = Rev_active"
  using rollback_returns [OF assms] by blast

theorem rollback_only_to_released_revisions_witness:
  "\<exists>r t. rollback quiet_ports ''a'' ''r2'' (sample_release Rev_superseded) = (Inr r, t) \<and>
     coll_get revisions_coll (key ''r2'') (svc_graph t) = Some r \<and> rev_status r = Rev_active"
proof -
  have "returns (fst (rollback quiet_ports ''a'' ''r2'' (sample_release Rev_superseded)))"
    by code_simp
  from returns_run [OF this] obtain r t where
    run: "rollback quiet_ports ''a'' ''r2'' (sample_release Rev_superseded) = (Inr r, t)" by blast
  have "off_pointers (port_evict quiet_ports i)" for i using quiet_ports_off by (simp add: ports_off_def)
  from rollback_only_to_released_revisions [OF sample_release_ok this run] run show ?thesis by auto
qed


definition stuck_pool :: "unit activation_ports" where
  "stuck_pool = quiet_ports\<lparr>port_evict := \<lambda>_. raise (TimeoutError ''pool'')\<rparr>"


section \<open>Checkpoints\<close>


definition sample_note :: "string \<Rightarrow> application_object" where
  "sample_note title = \<lparr>obj_id = ''n'', obj_application_id = ''a'', obj_data_space_id = ''production'',
     obj_object_type_id = ''ot'', obj_object_type_revision_id = None, obj_values = [(''title'', JStr title)],
     obj_created_at = 0, obj_updated_at = 0\<rparr>"

definition sample_notes :: "string \<Rightarrow> svc" where
  "sample_notes title = sample_svc\<lparr>svc_graph := coll_save objects_coll (sample_note title)
     (coll_save applications_coll (sample_app App_active) empty_graph)\<rparr>"

lemma sample_notes_capture:
  "\<exists>p. capture_payload ''a'' True (svc_graph (sample_notes t)) = Inr p \<and> pl_data p = Some ([sample_note t], [])"
  "captured_pointers ''a'' (svc_graph (sample_notes t)) = []"
  by (simp_all add: capture_payload_def captured_pointers_def pointers_of_def sample_notes_def sample_svc_def coll_item_def
      coll_get_def coll_save_def get_node_def upsert_node_def empty_graph_def objects_coll_def applications_coll_def
      revisions_coll_def actions_coll_def triggers_coll_def object_types_coll_def relation_types_coll_def key_def
      sample_app_def sample_note_def coll_values_def list_nodes_def object_list_def relation_list_def list_app_relations_def)

lemma sample_notes_data:
  "data_ok (svc_graph (sample_notes t))" "data_values_ok ''a'' (svc_graph (sample_notes t))"
proof -
  have "typed_graph (empty_graph :: node_value graph)" "wf_graph (empty_graph :: node_value graph)"
    by (simp_all add: empty_graph_def typed_graph_def wf_graph_def file_edges_def get_node_def)
  then show "data_ok (svc_graph (sample_notes t))"
    by (simp add: data_ok_def sample_notes_def applications.typed_save objects.typed_save applications.wf_save objects.wf_save
        keyed_relations_def) (simp add: coll_save_def upsert_node_def empty_graph_def)
  show "data_values_ok ''a'' (svc_graph (sample_notes t))"
    by (simp add: data_values_ok_def sample_notes_def sample_svc_def coll_save_def upsert_node_def empty_graph_def
        object_list_def relation_list_def list_app_relations_def coll_values_def list_nodes_def objects_coll_def
        applications_coll_def sample_note_def sample_app_def)
qed

lemma get_save_elsewhere: "coll_label c \<noteq> coll_label d \<Longrightarrow> coll_get c i (coll_save d m g) = coll_get c i g"
  by (simp add: coll_get_def coll_save_def get_node_def upsert_node_def dict_simps)

lemma coll_get_edge: "coll_get c i (create_edge f t to q g) = coll_get c i g"
  by (simp add: coll_get_def graph_simps)

lemma relations_of_writes:
  "app_relations (coll_save c m g) = app_relations g" "app_relations (create_edge f t to q g) = app_relations g"
  by (simp_all add: coll_save_def upsert_node_def graph_simps)

lemma checkpoint_labels [simp]:
  "coll_label checkpoints_coll = ''GraphCheckpoint''" "coll_label checkpoint_snapshots_coll = ''CheckpointSnapshot''"
  "coll_label checkpoint_blobs_coll = ''CheckpointBlob''"
  by (simp_all add: checkpoints_coll_def checkpoint_snapshots_coll_def checkpoint_blobs_coll_def)

lemma checkpoint_get_save: "ckpt_id c = i \<Longrightarrow> coll_get checkpoints_coll (key i) (coll_save checkpoints_coll c g) = Some c"
  using checkpoints.get_save [of "key i" c g] by (simp add: checkpoints_coll_def)

lemmas data_ok_writes = data_ok_def keyed_relations_def relations_of_writes wf_create_edge typed_create_edge
  objects.typed_save objects.wf_save checkpoints.typed_save checkpoints.wf_save
  checkpoint_snapshots.typed_save checkpoint_snapshots.wf_save checkpoint_blobs.typed_save checkpoint_blobs.wf_save


end
