(* ===== verification/Data_Spaces.thy ===== *)
theory Data_Spaces
  imports Checkpoint_Laws
begin

text \<open>
  The data spaces of an Application (\<^verbatim>\<open>system/data_spaces.py\<close>): the production space and the
  development spaces that clone a selection of its data. The rows a Cypher query returns are a
  parameter \<open>cypher\<close>; the check that the query is read-only is modelled.
\<close>

section \<open>Read-only queries\<close>

text \<open>What \<^verbatim>\<open>\w\<close> matches among the characters of Latin-1.\<close>

definition is_word_char :: "char \<Rightarrow> bool" where
  "is_word_char c \<longleftrightarrow> (let n = (of_char c :: nat) in
     is_ascii_alnum c \<or> n = 0x5F \<or> n \<in> {0xAA, 0xB2, 0xB3, 0xB5, 0xB9, 0xBA, 0xBC, 0xBD, 0xBE} \<or>
     0xC0 \<le> n \<and> n \<noteq> 0xD7 \<and> n \<noteq> 0xF7)"

text \<open>What follows a prefix, upper and lower case being the same.\<close>

fun after_prefix :: "string \<Rightarrow> string \<Rightarrow> string option" where
  "after_prefix [] s = Some s"
| "after_prefix (k # ks) [] = None"
| "after_prefix (k # ks) (c # s) = (if upper_char c = k then after_prefix ks s else None)"

definition ends_word :: "string \<Rightarrow> bool" where
  "ends_word s \<longleftrightarrow> (case s of [] \<Rightarrow> True | c # _ \<Rightarrow> \<not> is_word_char c)"

definition write_keywords :: "string list" where
  "write_keywords = [''CREATE'', ''MERGE'', ''DELETE'', ''SET'', ''REMOVE'', ''DROP'', ''FOREACH'']"

definition is_keyword_at :: "string \<Rightarrow> bool" where
  "is_keyword_at s \<longleftrightarrow>
     list_ex (\<lambda>k. case after_prefix k s of None \<Rightarrow> False | Some r \<Rightarrow> ends_word r) write_keywords \<or>
     (case after_prefix ''LOAD'' s of
        Some (c # r) \<Rightarrow> is_space c \<and>
          (case after_prefix ''CSV'' (dropWhile is_space r) of None \<Rightarrow> False | Some r' \<Rightarrow> ends_word r')
      | _ \<Rightarrow> False)"

text \<open>\<^verbatim>\<open>_WRITE_CLAUSE.search\<close>; \<open>inside\<close>: the character before is a word character.\<close>

fun finds_write_clause :: "bool \<Rightarrow> string \<Rightarrow> bool" where
  "finds_write_clause inside [] = False"
| "finds_write_clause inside (c # s) =
     (\<not> inside \<and> is_keyword_at (c # s) \<or> finds_write_clause (is_word_char c) s)"

definition has_write_clause :: "string \<Rightarrow> bool" where
  "has_write_clause q = finds_write_clause False q"

section \<open>Identity\<close>

definition space_key :: "string \<Rightarrow> string \<Rightarrow> ident" where
  "space_key app i = [(''application_id'', app), (''id'', i)]"

definition pair_text :: "string \<Rightarrow> string \<Rightarrow> string" where
  "pair_text a b = [CHR 0x28, CHR 0x27] @ a @ [CHR 0x27, CHR 0x2C, CHR 0x20, CHR 0x27] @ b @ [CHR 0x27, CHR 0x29]"

definition create_development ::
  "string \<Rightarrow> string option \<Rightarrow> int option \<Rightarrow> ('z svc_scheme, data_space) op" where
  "create_development app data_space_id expires_at = atomically
     (bindE (item_of applications_coll (key app)) (\<lambda>_.
      bindE (case data_space_id of None \<Rightarrow> new_uuid | Some i \<Rightarrow> if i = [] then new_uuid else ret i) (\<lambda>i.
      bindE now_utc (\<lambda>now.
      (let space = \<lparr>space_id = i, space_application_id = app, space_kind = Space_development,
             space_created_at = now, space_expires_at = expires_at\<rparr>
       in bindE (asks (coll_get data_spaces_coll (space_key app i))) (\<lambda>x.
          bindE (require (x = None) (ValueError (''DataSpace already exists: '' @ pair_text app i))) (\<lambda>_.
          bindE (save_to data_spaces_coll space) (\<lambda>_.
          bindE (link (id_ref ''Application'' app) ''HAS_DATA_SPACE'' (NodeRef ''DataSpace'' (space_key app i))) (\<lambda>_.
          ret space)))))))))"

definition get_space :: "string \<Rightarrow> string \<Rightarrow> node_value graph \<Rightarrow> exn + data_space" where
  "get_space app i g = (case coll_get data_spaces_coll (space_key app i) g of
     None \<Rightarrow> Inl (KeyError (pair_text app i)) | Some d \<Rightarrow> Inr d)"

definition production :: "string \<Rightarrow> node_value graph \<Rightarrow> exn + data_space" where
  "production app g = rbind (get_space app ''production'' g) (\<lambda>d.
     if space_kind d \<noteq> Space_production
     then Inl (ValueError (''Application production DataSpace is invalid: '' @ app)) else Inr d)"

definition list_spaces :: "string \<Rightarrow> node_value graph \<Rightarrow> data_space list" where
  "list_spaces app g = filter (\<lambda>d. space_application_id d = app) (coll_values data_spaces_coll g)"

section \<open>Cloning\<close>

definition clone_spec_ok :: "data_space_clone_spec \<Rightarrow> bool" where
  "clone_spec_ok spec \<longleftrightarrow> 1 \<le> clone_max_nodes spec \<and> clone_max_nodes spec \<le> 5000 \<and>
     0 \<le> clone_max_relations spec \<and> clone_max_relations spec \<le> 10000"

type_synonym 'z cypher_runner =
  "string \<Rightarrow> (string, json) dict \<Rightarrow> ('z svc_scheme, (string, json) dict list) op"

text \<open>
  The loop over the rows: \<open>chosen\<close> are the objects taken so far, in order. Later objects of the
  list replace earlier ones under an id, as in a dictionary.
\<close>

fun pick_rows ::
  "application_object list \<Rightarrow> (string, json) dict list \<Rightarrow> application_object list \<Rightarrow> exn + application_object list" where
  "pick_rows os [] chosen = Inr chosen"
| "pick_rows os (row # rows) chosen =
     (case dict_get row ''object_id'' of
        Some (JStr i) \<Rightarrow>
          if i \<in> set (map obj_id chosen) then pick_rows os rows chosen
          else (case find (\<lambda>r. obj_id r = i) (rev os) of
              None \<Rightarrow> Inl (ValidationFailure ''clone selection_query returned an object outside the production Application DataSpace'')
            | Some r \<Rightarrow> pick_rows os rows (chosen @ [r]))
      | _ \<Rightarrow> Inl (ValidationFailure ''clone selection_query must return object_id strings''))"

definition rstrip_semicolons :: "string \<Rightarrow> string" where
  "rstrip_semicolons s = rev (dropWhile (\<lambda>c. c = CHR 0x3B) (rev s))"

definition select_production_objects ::
  "'z cypher_runner \<Rightarrow> string \<Rightarrow> data_space_clone_spec \<Rightarrow> ('z svc_scheme, application_object list) op" where
  "select_production_objects cypher app spec =
     bindE (asks (object_list app None ''production'')) (\<lambda>production.
     case clone_selection_query spec of
       None \<Rightarrow> ret (take (nat (clone_max_nodes spec)) (rev (sort_key obj_updated_at (rev production))))
     | Some text \<Rightarrow>
         (let query = rstrip_semicolons (strip text) in
          if query = [] \<or> has_write_clause query
          then raise (ValidationFailure ''clone selection_query must be non-empty read-only Cypher'')
          else bindE (cypher
              (''CALL {'' @ [LF] @ query @ [LF] @ ''}'' @ [LF] @ ''RETURN object_id LIMIT $n4x_clone_limit'')
              (dict_set ''n4x_clone_limit'' (JInt (clone_max_nodes spec + 1)) (dict_set ''data_space_id'' (JStr ''production'')
                (dict_set ''application_id'' (JStr app) (clone_params spec))))) (\<lambda>rows.
            if int (length rows) > clone_max_nodes spec
            then raise (ValidationFailure ''clone object limit exceeded; narrow the selection query'')
            else lift_result (pick_rows production rows []))))"

definition selected_relations :: "string \<Rightarrow> application_object list \<Rightarrow> node_value graph \<Rightarrow> app_relation list" where
  "selected_relations app selected g =
     filter (\<lambda>r. rel_from_object_id r \<in> set (map obj_id selected) \<and> rel_to_object_id r \<in> set (map obj_id selected))
       (relation_list app None None None ''production'' g)"

definition clone_from_production ::
  "'z cypher_runner \<Rightarrow> string \<Rightarrow> string \<Rightarrow> data_space_clone_spec \<Rightarrow> ('z svc_scheme, nat \<times> nat) op" where
  "clone_from_production cypher app target spec = atomically
     (bindE (require (clone_spec_ok spec) (ValueError ''DataSpaceCloneSpec'')) (\<lambda>_.
      bindE (reads (get_space app target)) (\<lambda>d.
      bindE (require (space_kind d = Space_development)
         (ValidationFailure ''clone target must be a development DataSpace'')) (\<lambda>_.
      bindE (asks (object_list app None target)) (\<lambda>present.
      bindE (require (present = []) (ValidationFailure ''clone target DataSpace must be empty'')) (\<lambda>_.
      bindE (select_production_objects cypher app spec) (\<lambda>selected.
      bindE (asks (selected_relations app selected)) (\<lambda>relations.
      bindE (require (int (length relations) \<le> clone_max_relations spec)
         (ValidationFailure ''clone relation limit exceeded; narrow the selection query'')) (\<lambda>_.
      bindE (for_each (\<lambda>r. bindE (writes (object_save (r\<lparr>obj_data_space_id := target\<rparr>)))
         (\<lambda>_. writes (object_attach (r\<lparr>obj_data_space_id := target\<rparr>) None))) selected) (\<lambda>_.
      bindE (for_each (\<lambda>r. store_op (relation_save (r\<lparr>rel_data_space_id := target\<rparr>))) relations) (\<lambda>_.
      ret (length selected, length relations))))))))))))"

section \<open>Purging\<close>

definition purge_development :: "string \<Rightarrow> string \<Rightarrow> ('z svc_scheme, unit) op" where
  "purge_development app i = atomically
     (bindE (reads (get_space app i)) (\<lambda>d.
      bindE (require (space_kind d = Space_development)
         (ValidationFailure ''only development DataSpaces may be purged'')) (\<lambda>_.
      bindE (asks (relation_list app None None None i)) (\<lambda>rs.
      bindE (for_each (\<lambda>r. writes (relation_delete r)) rs) (\<lambda>_.
      bindE (asks (object_list app None i)) (\<lambda>os.
      bindE (for_each (\<lambda>r. writes (object_delete app (obj_id r) i)) os) (\<lambda>_.
      writes (coll_delete data_spaces_coll (space_key app i)))))))))"

section \<open>Laws: what deleting leaves\<close>

text \<open>A relation that is stored together with the edge it stands for.\<close>

definition stands :: "rel_key \<times> app_relation \<Rightarrow> node_value graph \<Rightarrow> bool" where
  "stands kr g \<longleftrightarrow> kr \<in> set (app_relations g) \<and> fst kr = rel_key_of (snd kr) \<and>
     (\<exists>e\<in>set (edges g). props_rel_key (edge_props e) = Some (fst kr) \<and>
        edge_from e = object_ref (rel_application_id (snd kr)) (rel_data_space_id (snd kr)) (rel_from_object_id (snd kr)) \<and>
        edge_to e = object_ref (rel_application_id (snd kr)) (rel_data_space_id (snd kr)) (rel_to_object_id (snd kr)))"

definition relations_stand :: "node_value graph \<Rightarrow> bool" where
  "relations_stand g \<longleftrightarrow> (\<forall>kr\<in>set (app_relations g). stands kr g)"

lemma standsI:
  assumes "(rel_key_of r, r) \<in> set (app_relations g)" and "e \<in> set (edges g)" and "props_rel_key (edge_props e) = Some (rel_key_of r)"
    and "edge_from e = object_ref (rel_application_id r) (rel_data_space_id r) (rel_from_object_id r)"
    and "edge_to e = object_ref (rel_application_id r) (rel_data_space_id r) (rel_to_object_id r)"
  shows "stands (rel_key_of r, r) g"
  using assms by (auto simp: stands_def)

lemma standsE:
  assumes "stands kr g"
  obtains r e where "kr = (rel_key_of r, r)" and "(rel_key_of r, r) \<in> set (app_relations g)" and "e \<in> set (edges g)"
    and "props_rel_key (edge_props e) = Some (rel_key_of r)"
    and "edge_from e = object_ref (rel_application_id r) (rel_data_space_id r) (rel_from_object_id r)"
    and "edge_to e = object_ref (rel_application_id r) (rel_data_space_id r) (rel_to_object_id r)"
  using assms by (cases kr) (auto simp: stands_def)

lemma stands_delete_relation:
  assumes "stands kr g" and "rel_key_of q \<noteq> fst kr" shows "stands kr (relation_delete q g)"
  using assms(1)
proof (rule standsE)
  fix r e
  assume kr: "kr = (rel_key_of r, r)" and i: "(rel_key_of r, r) \<in> set (app_relations g)" and e: "e \<in> set (edges g)"
    "props_rel_key (edge_props e) = Some (rel_key_of r)"
    "edge_from e = object_ref (rel_application_id r) (rel_data_space_id r) (rel_from_object_id r)"
    "edge_to e = object_ref (rel_application_id r) (rel_data_space_id r) (rel_to_object_id r)"
  have "\<not> (dict_get (edge_props e) ''id'' = Some (JStr (rel_id q)) \<and>
      dict_get (edge_props e) ''application_id'' = Some (JStr (rel_application_id q)) \<and>
      dict_get (edge_props e) ''data_space_id'' = Some (JStr (rel_data_space_id q)))"
    using e(2) assms(2) kr by (auto simp: props_rel_key_def rel_key_of_def)
  with e(1) have "e \<in> set (edges (relation_delete q g))" by (auto simp: relation_delete_def delete_app_relation_def)
  moreover have "(rel_key_of r, r) \<in> set (app_relations (relation_delete q g))"
    using i assms(2) kr by (auto simp: relation_delete_def delete_app_relation_def AList.delete_eq)
  ultimately show ?thesis unfolding kr by (intro standsI [OF _ _ e(2-4)])
qed

lemma stands_delete_node:
  assumes "stands kr g"
    and "NodeRef l i \<noteq> object_ref (rel_application_id (snd kr)) (rel_data_space_id (snd kr)) (rel_from_object_id (snd kr))"
    and "NodeRef l i \<noteq> object_ref (rel_application_id (snd kr)) (rel_data_space_id (snd kr)) (rel_to_object_id (snd kr))"
  shows "stands kr (delete_node l i g)"
  using assms(1)
proof (rule standsE)
  fix r e
  assume kr: "kr = (rel_key_of r, r)" and i: "(rel_key_of r, r) \<in> set (app_relations g)" and e: "e \<in> set (edges g)"
    "props_rel_key (edge_props e) = Some (rel_key_of r)"
    "edge_from e = object_ref (rel_application_id r) (rel_data_space_id r) (rel_from_object_id r)"
    "edge_to e = object_ref (rel_application_id r) (rel_data_space_id r) (rel_to_object_id r)"
  from e assms(2,3) kr have "e \<in> set (edges (delete_node l i g))" by (auto simp: delete_node_def Let_def)
  moreover have "(rel_key_of r, r) \<in> set (app_relations (delete_node l i g))"
    using i e assms(2,3) kr by (force simp: delete_node_def Let_def)
  ultimately show ?thesis unfolding kr by (intro standsI [OF _ _ e(2-4)])
qed

text \<open>What purging does to the graph.\<close>

definition purged :: "string \<Rightarrow> string \<Rightarrow> node_value graph \<Rightarrow> node_value graph" where
  "purged app i g = (let g1 = fold relation_delete (relation_list app None None None i g) g;
       g2 = fold (\<lambda>r. object_delete app (obj_id r) i) (object_list app None i g1) g1
     in coll_delete data_spaces_coll (space_key app i) g2)"

lemma purge_outcome:
  assumes "coll_get data_spaces_coll (space_key app i) (svc_graph s) = Some d" and "space_kind d = Space_development"
  shows "purge_development app i s = (Inr (), s\<lparr>svc_graph := purged app i (svc_graph s)\<rparr>)"
  using assms
  by (simp add: purge_development_def atomically_apply op_defs for_each_writes get_space_def purged_def Let_def)

lemma object_list_nodes: "nodes h = nodes g \<Longrightarrow> object_list app t sp h = object_list app t sp g"
  by (simp add: object_list_def coll_values_def list_nodes_def)

lemma object_get_nodes: "nodes h = nodes g \<Longrightarrow> object_get app i sp h = object_get app i sp g"
  by (simp add: object_get_def coll_get_def get_node_def)

lemma object_get_deletes:
  "object_get app' j sp' (fold (\<lambda>r. object_delete app (obj_id r) sp) os g) =
     (if app' = app \<and> sp' = sp \<and> j \<in> obj_id ` set os then None else object_get app' j sp' g)"
  by (induction os arbitrary: g) (auto simp: object_get_delete)

lemma purged_objects:
  assumes "data_ok g"
  shows "object_get app' j sp (purged app i g) = (if app' = app \<and> sp = i then None else object_get app' j sp g)"
proof -
  let ?g1 = "fold relation_delete (relation_list app None None None i g) g"
  have n: "nodes ?g1 = nodes g" by (rule nodes_relation_delete)
  have "j \<in> obj_id ` set (object_list app None i g)" if "object_get app j i g \<noteq> None" for j
  proof -
    from that obtain r where r: "object_get app j i g = Some r" by blast
    have "typed_graph g" "wf_graph g" using assms by (simp_all add: data_ok_def)
    with object_get_ident [OF this(1) r] r show ?thesis by (force simp: object_in_list)
  qed
  moreover have "object_get app' j sp (coll_delete data_spaces_coll (space_key app i) h) = object_get app' j sp h" for h
    by (simp add: object_get_def coll_delete_def objects.get_delete_node data_spaces_coll_def)
  ultimately show ?thesis
    by (cases "app' = app \<and> sp = i"; cases "object_get app j i g")
      (simp_all add: purged_def Let_def object_get_deletes object_list_nodes [OF n] object_get_nodes [OF n])
qed

lemma relations_delete_node:
  "set (app_relations (delete_node l i g)) \<subseteq> set (app_relations g)"
  "distinct (map fst (app_relations g)) \<Longrightarrow> distinct (map fst (app_relations (delete_node l i g)))"
  by (auto simp: delete_node_def Let_def distinct_map_filter)

lemma relations_object_delete:
  "set (app_relations (object_delete app j sp g)) \<subseteq> set (app_relations g)"
  "distinct (map fst (app_relations g)) \<Longrightarrow> distinct (map fst (app_relations (object_delete app j sp g)))"
  by (simp_all add: object_delete_def relations_delete_node)

lemma relations_object_deletes:
  "set (app_relations (fold (\<lambda>r. object_delete app (obj_id r) sp) os g)) \<subseteq> set (app_relations g)"
  by (induction os arbitrary: g) (use relations_object_delete(1) in fastforce)+

lemma distinct_object_deletes:
  "distinct (map fst (app_relations g)) \<Longrightarrow>
     distinct (map fst (app_relations (fold (\<lambda>r. object_delete app (obj_id r) sp) os g)))"
  by (induction os arbitrary: g) (simp_all add: relations_object_delete(2))

lemma stands_relation_deletes:
  "stands kr g \<Longrightarrow> fst kr \<notin> rel_key_of ` set rs \<Longrightarrow> stands kr (fold relation_delete rs g)"
  by (induction rs arbitrary: g) (simp_all add: stands_delete_relation [OF _ not_sym])

lemma stands_object_deletes:
  assumes "stands kr g" and "(rel_application_id (snd kr), rel_data_space_id (snd kr)) \<noteq> (app, sp)"
  shows "stands kr (fold (\<lambda>r. object_delete app (obj_id r) sp) os g)"
  using assms(1)
proof (induction os arbitrary: g)
  case (Cons r os)
  have "stands kr (object_delete app (obj_id r) sp g)"
    unfolding object_delete_def
    by (rule stands_delete_node [OF Cons.prems]) (use assms(2) in \<open>auto simp: object_key_def object_ref_def\<close>)
  then show ?case by (simp add: Cons.IH)
qed simp

lemma stands_purged:
  assumes "stands kr g" and "(rel_application_id (snd kr), rel_data_space_id (snd kr)) \<noteq> (app, i)"
  shows "stands kr (purged app i g)"
proof -
  have "fst kr \<notin> rel_key_of ` set (relation_list app None None None i g)"
    using assms by (auto simp: stands_def relation_list_def list_app_relations_def rel_key_of_def)
  then have "stands kr (fold relation_delete (relation_list app None None None i g) g)"
    using assms(1) by (intro stands_relation_deletes)
  note gone = stands_object_deletes [OF this assms(2)]
  show ?thesis
    unfolding purged_def Let_def coll_delete_def
    by (rule stands_delete_node [OF gone]) (simp_all add: object_ref_def data_spaces_coll_def)
qed

lemma purged_relations:
  assumes "data_ok g" and "relations_stand g"
  shows "relation_get app' j sp (purged app i g) = (if app' = app \<and> sp = i then None else relation_get app' j sp g)"
proof -
  define g1 where "g1 = fold relation_delete (relation_list app None None None i g) g"
  define g2 where "g2 = fold (\<lambda>r. object_delete app (obj_id r) i) (object_list app None i g1) g1"
  have p: "purged app i g = delete_node ''DataSpace'' (space_key app i) g2"
    by (simp add: purged_def Let_def g1_def g2_def coll_delete_def data_spaces_coll_def)
  have sub: "set (app_relations (purged app i g)) \<subseteq> set (app_relations g1)"
    "set (app_relations g1) \<subseteq> set (app_relations g)"
    unfolding p g2_def by (rule subset_trans [OF relations_delete_node(1) relations_object_deletes])
      (auto simp: g1_def relations_after_delete)
  have "distinct (map fst (app_relations g1))"
    using assms(1) by (simp add: g1_def relations_after_delete data_ok_def wf_graph_def distinct_map_filter)
  then have dist: "distinct (map fst (app_relations (purged app i g)))"
    unfolding p g2_def by (intro relations_delete_node(2) distinct_object_deletes)
  have none: "relation_get a k t (purged app i g) = None"
    if "relation_get a k t h = None" "set (app_relations (purged app i g)) \<subseteq> set (app_relations h)" for a k t h
    using that by (force simp: relation_get_def get_app_relation_def map_of_eq_None_iff)
  show ?thesis
  proof (cases "app' = app \<and> sp = i")
    case True
    have "relation_get app j i g1 = None"
      unfolding g1_def using assms(1) by (intro no_relations_after_delete) (simp add: data_ok_def)
    with True none sub(1) show ?thesis by simp
  next
    case False
    show ?thesis
    proof (cases "relation_get app' j sp g")
      case None
      with none [OF None subset_trans [OF sub]] False show ?thesis by simp
    next
      case (Some r)
      then have "((app', sp, j), r) \<in> set (app_relations g)"
        by (simp add: relation_get_def get_app_relation_def map_of_SomeD)
      then have st: "stands ((app', sp, j), r) g" using assms(2) by (simp add: relations_stand_def)
      then have k: "rel_application_id r = app'" "rel_data_space_id r = sp"
        by (auto simp: stands_def rel_key_of_def)
      then have "stands ((app', sp, j), r) (purged app i g)" using st False by (intro stands_purged) auto
      then have "((app', sp, j), r) \<in> set (app_relations (purged app i g))" by (simp only: stands_def)
      with dist have "relation_get app' j sp (purged app i g) = Some r"
        unfolding relation_get_def get_app_relation_def by (rule map_of_is_SomeI)
      with Some False show ?thesis by auto
    qed
  qed
qed

lemma purged_spaces:
  "coll_get data_spaces_coll k (purged app i g) = (if k = space_key app i then None else coll_get data_spaces_coll k g)"
proof -
  have label: "coll_label data_spaces_coll = ''DataSpace''" by (simp add: data_spaces_coll_def)
  have a: "coll_get data_spaces_coll k (fold relation_delete rs h) = coll_get data_spaces_coll k h" for rs h
    by (simp add: coll_get_def get_node_def nodes_relation_delete)
  have b: "coll_get data_spaces_coll k (fold (\<lambda>r. object_delete app (obj_id r) i) os h) = coll_get data_spaces_coll k h" for os h
    using label by (induction os arbitrary: h) (simp_all add: object_delete_def data_spaces.get_delete_node)
  show ?thesis by (simp add: purged_def Let_def data_spaces.get_delete a b)
qed

section \<open>Laws: what a clone holds\<close>

lemma pick_rows_Inr:
  assumes "pick_rows os rows chosen = Inr sel" and "distinct (map obj_id chosen)" and "set chosen \<subseteq> set os"
  shows "distinct (map obj_id sel) \<and> set sel \<subseteq> set os \<and> length sel \<le> length chosen + length rows"
  using assms
proof (induction os rows chosen rule: pick_rows.induct)
  case (2 os row rows chosen)
  from "2.prems"(1) obtain i where i: "dict_get row ''object_id'' = Some (JStr i)"
    by (auto split: option.split_asm json.split_asm)
  show ?case
  proof (cases "i \<in> set (map obj_id chosen)")
    case True
    with "2.IH"(1) [OF i refl] "2.prems" i show ?thesis by fastforce
  next
    case False
    with "2.prems"(1) i obtain r where r: "find (\<lambda>r. obj_id r = i) (rev os) = Some r"
      by (auto split: option.split_asm)
    then have "r \<in> set os" "obj_id r = i" by (auto dest: find_SomeD)
    with "2.IH"(2) [OF i refl] False r "2.prems" i show ?thesis by fastforce
  qed
qed simp

definition reads_only :: "'z cypher_runner \<Rightarrow> bool" where
  "reads_only cypher \<longleftrightarrow> (\<forall>q p s r t. cypher q p s = (r, t) \<longrightarrow> svc_graph t = svc_graph s)"

lemma selection_Inr:
  assumes "select_production_objects cypher app spec s = (Inr sel, t)" and "reads_only cypher"
    and "data_ok (svc_graph s)" and "0 \<le> clone_max_nodes spec"
  shows "distinct (map obj_id sel)" and "set sel \<subseteq> set (object_list app None ''production'' (svc_graph s))"
    and "int (length sel) \<le> clone_max_nodes spec" and "svc_graph t = svc_graph s"
proof -
  let ?os = "object_list app None ''production'' (svc_graph s)"
  have "typed_graph (svc_graph s)" "wf_graph (svc_graph s)" using assms(3) by (simp_all add: data_ok_def)
  note ok = this
  have d: "distinct (map obj_id ?os)"
  proof -
    have "distinct (map (coll_identity objects_coll) (coll_values objects_coll (svc_graph s)))"
      by (rule objects.values_distinct [OF ok])
    then have "distinct (map (coll_identity objects_coll) ?os)" by (simp add: object_list_def distinct_map_filter)
    moreover have "obj_application_id r = app \<and> obj_data_space_id r = ''production''" if "r \<in> set ?os" for r
      using that by (simp add: object_in_list [OF ok])
    ultimately show ?thesis by (auto simp: distinct_map inj_on_def objects_coll_def)
  qed
  have "distinct (map obj_id sel) \<and> set sel \<subseteq> set ?os \<and> int (length sel) \<le> clone_max_nodes spec \<and> svc_graph t = svc_graph s"
  proof (cases "clone_selection_query spec")
    case None
    let ?xs = "rev (sort_key obj_updated_at (rev ?os))"
    have "distinct (map obj_id ?xs)" "set ?xs = set ?os"
      using d by (simp_all add: distinct_map rev_map [symmetric])
    then have "distinct (map obj_id (take n ?xs))" "set (take n ?xs) \<subseteq> set ?os" for n
      using set_take_subset [of n ?xs] by (simp_all add: take_map [symmetric])
    with assms(1,4) None show ?thesis
      by (auto simp: select_production_objects_def bindE_apply asks_apply ret_Inr)
  next
    case (Some q)
    with assms(1) obtain rows t0 q' p where c: "cypher q' p s = (Inr rows, t0)" "int (length rows) \<le> clone_max_nodes spec"
      "pick_rows ?os rows [] = Inr sel" "t = t0"
      by (auto simp: select_production_objects_def Let_def bindE_Inr_iff asks_apply raise_apply lift_result_def split: if_split_asm)
    with pick_rows_Inr [OF c(3)] assms(2) show ?thesis by (fastforce simp: reads_only_def)
  qed
  then show "distinct (map obj_id sel)" "set sel \<subseteq> set ?os" "int (length sel) \<le> clone_max_nodes spec" "svc_graph t = svc_graph s"
    by simp_all
qed

definition object_in_space :: "string \<Rightarrow> application_object \<Rightarrow> application_object" where
  "object_in_space sp r = r\<lparr>obj_data_space_id := sp\<rparr>"

definition relation_in_space :: "string \<Rightarrow> app_relation \<Rightarrow> app_relation" where
  "relation_in_space sp r = r\<lparr>rel_data_space_id := sp\<rparr>"

text \<open>The data of a space after a selection was copied into it; the other spaces are as before.\<close>

definition holds_copy ::
  "string \<Rightarrow> string \<Rightarrow> application_object list \<Rightarrow> app_relation list \<Rightarrow> node_value graph \<Rightarrow> node_value graph \<Rightarrow> bool" where
  "holds_copy app sp os rs g h \<longleftrightarrow>
     (\<forall>j. object_get app j sp h = map_option (object_in_space sp) (find (\<lambda>r. obj_id r = j) os)) \<and>
     (\<forall>j. relation_get app j sp h = (case find (\<lambda>r. rel_id r = j) rs of
        Some r \<Rightarrow> Some (relation_in_space sp r) | None \<Rightarrow> relation_get app j sp g)) \<and>
     (\<forall>a j t. (a, t) \<noteq> (app, sp) \<longrightarrow> object_get a j t h = object_get a j t g \<and> relation_get a j t h = relation_get a j t g)"

lemma for_each_map: "for_each (\<lambda>r. f (h r)) xs = for_each f (map h xs)"
  by (induction xs) simp_all

lemma puts_apply:
  "for_each (\<lambda>r. bindE (writes (object_save r)) (\<lambda>_. writes (object_attach r None))) os t =
     (Inr (), t\<lparr>svc_graph := fold put_object os (svc_graph t)\<rparr>)"
  by (induction os arbitrary: t) (simp_all add: op_defs)

lemma ids_inject:
  assumes "distinct (map i xs)" and "\<And>x. i (f x) = i x" and "r \<in> set (map f xs)" "r' \<in> set (map f xs)" and "i r = i r'"
  shows "r = r'"
proof -
  from assms(3,4) obtain x x' where x: "x \<in> set xs" "x' \<in> set xs" "r = f x" "r' = f x'" by auto
  then have "i x = i x'" using assms(2,5) by simp
  then have "x = x'" using x(1,2) assms(1) unfolding distinct_map inj_on_def by blast
  then show ?thesis using x(3,4) by simp
qed

lemma copy_outcome:
  fixes s :: "'z svc_scheme"
  assumes os: "\<And>r. r \<in> set os \<Longrightarrow> obj_application_id r = app" "distinct (map obj_id os)"
    and rs: "\<And>r. r \<in> set rs \<Longrightarrow> rel_application_id r = app" "distinct (map rel_id rs)"
      "list_all (\<lambda>r. rel_physical_type r \<noteq> None) rs"
    and empty: "\<And>j. object_get app j sp (svc_graph s) = None"
  shows "\<exists>h. bindE (for_each (\<lambda>r. bindE (writes (object_save (r\<lparr>obj_data_space_id := sp\<rparr>)))
         (\<lambda>_. writes (object_attach (r\<lparr>obj_data_space_id := sp\<rparr>) None))) os) (\<lambda>_.
       for_each (\<lambda>r. store_op (relation_save (r\<lparr>rel_data_space_id := sp\<rparr>))) rs) s = (Inr (), s\<lparr>svc_graph := h\<rparr>) \<and>
     holds_copy app sp os rs (svc_graph s) h"
proof -
  let ?os = "map (object_in_space sp) os" and ?rs = "map (relation_in_space sp) rs"
  let ?g = "fold put_object ?os (svc_graph s)"
  have key: "rel_key_of r = (app, sp, rel_id r)" if "r \<in> set ?rs" for r
    using that rs(1) by (auto simp: relation_in_space_def rel_key_of_def)
  have inj: "r = r'" if "r \<in> set ?rs" "r' \<in> set ?rs" "rel_key_of r = rel_key_of r'" for r r'
  proof (rule ids_inject [OF rs(2) _ that(1,2)])
    show "rel_id r = rel_id r'" using that(3) key [OF that(1)] key [OF that(2)] by simp
  qed (simp add: relation_in_space_def)
  have "list_all (\<lambda>r. rel_physical_type r \<noteq> None) ?rs"
    using rs(3) by (auto simp: list_all_iff relation_in_space_def)
  from save_relations [OF this, of "s\<lparr>svc_graph := ?g\<rparr>"] obtain h where
    h: "for_each (\<lambda>r. store_op (relation_save r)) ?rs (s\<lparr>svc_graph := ?g\<rparr>) = (Inr (), s\<lparr>svc_graph := h\<rparr>)"
      "app_relations h = fold (\<lambda>r. dict_set (rel_key_of r) r) ?rs (app_relations (svc_graph s))" "nodes h = nodes ?g"
    by (auto simp: relations_put_objects)
  have "bindE (for_each (\<lambda>r. bindE (writes (object_save (r\<lparr>obj_data_space_id := sp\<rparr>)))
         (\<lambda>_. writes (object_attach (r\<lparr>obj_data_space_id := sp\<rparr>) None))) os) (\<lambda>_.
       for_each (\<lambda>r. store_op (relation_save (r\<lparr>rel_data_space_id := sp\<rparr>))) rs) s = (Inr (), s\<lparr>svc_graph := h\<rparr>)"
    using for_each_map [of "\<lambda>r. bindE (writes (object_save r)) (\<lambda>_. writes (object_attach r None)) :: ('z svc_scheme, unit) op" "object_in_space sp" os]
      for_each_map [of "\<lambda>r. store_op (relation_save r) :: ('z svc_scheme, unit) op" "relation_in_space sp" rs] h(1)
    by (simp add: object_in_space_def relation_in_space_def bindE_apply puts_apply)
  moreover have "relation_get a j t h = (case find (\<lambda>r. rel_key_of r = (a, t, j)) ?rs of
      Some r \<Rightarrow> Some r | None \<Rightarrow> relation_get a j t (svc_graph s))" for a j t
    unfolding relation_get_def get_app_relation_def h(2) by (rule get_set_relations) (rule inj)
  note rel = this
  have "find (\<lambda>r. rel_key_of r = (a, t, j)) ?rs = None" if "(a, t) \<noteq> (app, sp)" for a j t
    using that key by (auto simp: find_None_ball)
  moreover have "find (\<lambda>r. rel_key_of r = (app, sp, j)) ?rs = map_option (relation_in_space sp) (find (\<lambda>r. rel_id r = j) rs)" for j
    using rs(1) by (induction rs) (auto simp: relation_in_space_def rel_key_of_def)
  moreover have obj: "object_get a j t h = object_get a j t ?g" for a j t
    using h(3) by (simp add: object_get_def coll_get_def get_node_def)
  moreover have "object_get a j t ?g = object_get a j t (svc_graph s)" if "(a, t) \<noteq> (app, sp)" for a j t
    unfolding object_get_def
    by (rule get_put_objects_out) (use that os(1) in \<open>auto simp: object_in_space_def object_key_def\<close>)
  moreover have "object_get app j sp ?g = find (\<lambda>r. obj_id r = j) ?os" for j
  proof (rule objects_restored)
    show "object_get app j sp (svc_graph s) = None" by (rule empty)
    show "obj_application_id r = app \<and> obj_data_space_id r = sp" if "r \<in> set ?os" for r
      using that os(1) by (auto simp: object_in_space_def)
    show "r = r'" if "r \<in> set ?os" "r' \<in> set ?os" "obj_id r = obj_id r'" for r r'
      by (rule ids_inject [OF os(2) _ that]) (simp add: object_in_space_def)
  qed
  moreover have "find (\<lambda>r. obj_id r = j) ?os = map_option (object_in_space sp) (find (\<lambda>r. obj_id r = j) os)" for j
    by (induction os) (auto simp: object_in_space_def)
  ultimately show ?thesis
    by (intro exI [of _ h]) (auto simp: holds_copy_def rel split: option.split)
qed

lemma relation_list_ids:
  assumes "keyed_relations g" and "wf_graph g"
  shows "distinct (map rel_id (relation_list app None None None sp g))"
proof -
  let ?l = "relation_list app None None None sp g"
  have "distinct (map rel_key_of (map snd (app_relations g)))"
  proof -
    have "map rel_key_of (map snd (app_relations g)) = map fst (app_relations g)"
      using assms(1) by (auto simp: keyed_relations_def list_all_iff)
    then show ?thesis using assms(2) by (simp only: wf_graph_def)
  qed
  from distinct_map_filter [OF this, of "\<lambda>r. rel_application_id r = app \<and> rel_data_space_id r = sp"]
  have "distinct (map rel_key_of ?l)" by (simp add: relation_list_def list_app_relations_def distinct_map)
  moreover have "rel_key_of r = (app, sp, rel_id r)" if "r \<in> set ?l" for r
    by (rule relation_in_get(2) [OF assms that])
  ultimately show ?thesis by (simp add: distinct_map inj_on_def)
qed

lemma clone_Inr:
  assumes "clone_from_production cypher app target spec s = (Inr (n, m), t)" and "reads_only cypher"
    and ok: "data_ok (svc_graph s)"
    and typed: "list_all (\<lambda>r. rel_physical_type r \<noteq> None) (relation_list app None None None ''production'' (svc_graph s))"
  obtains d os where "coll_get data_spaces_coll (space_key app target) (svc_graph s) = Some d"
    and "space_kind d = Space_development" and "distinct (map obj_id os)"
    and "set os \<subseteq> set (object_list app None ''production'' (svc_graph s))"
    and "int (length os) \<le> clone_max_nodes spec" and "n = length os"
    and "m = length (selected_relations app os (svc_graph s))" and "int m \<le> clone_max_relations spec"
    and "holds_copy app target os (selected_relations app os (svc_graph s)) (svc_graph s) (svc_graph t)"
proof -
  have g: "typed_graph (svc_graph s)" "wf_graph (svc_graph s)" "keyed_relations (svc_graph s)" using ok by (simp_all add: data_ok_def)
  from assms(1) obtain d os s1 u1 u2 where spec: "clone_spec_ok spec" and d: "get_space app target (svc_graph s) = Inr d"
    "space_kind d = Space_development" and empty: "object_list app None target (svc_graph s) = []"
    and sel: "select_production_objects cypher app spec s = (Inr os, s1)"
    and max: "int (length (selected_relations app os (svc_graph s1))) \<le> clone_max_relations spec"
    and loops: "for_each (\<lambda>r. bindE (writes (object_save (r\<lparr>obj_data_space_id := target\<rparr>)))
         (\<lambda>_. writes (object_attach (r\<lparr>obj_data_space_id := target\<rparr>) None))) os s1 = (Inr u1, u2)"
      "for_each (\<lambda>r. store_op (relation_save (r\<lparr>rel_data_space_id := target\<rparr>)))
         (selected_relations app os (svc_graph s1)) u2 = (Inr (), t)"
    and n: "n = length os" "m = length (selected_relations app os (svc_graph s1))"
    unfolding clone_from_production_def atomically_Inr run_iffs by (auto simp: asks_apply)
  have "0 \<le> clone_max_nodes spec" using spec by (simp add: clone_spec_ok_def)
  note s = selection_Inr [OF sel assms(2) ok this]
  let ?rs = "selected_relations app os (svc_graph s)"
  have "object_get app j target (svc_graph s1) = None" for j
    using empty object_in_list [OF g(1,2), of _ app target] object_get_ident [OF g(1), of app j target] s(4)
    by (cases "object_get app j target (svc_graph s)") auto
  moreover have "obj_application_id r = app" if "r \<in> set os" for r
    using that s(2) object_in_list [OF g(1,2), of r app "''production''"] by blast
  moreover have "rel_application_id r = app" if "r \<in> set ?rs" for r
    using that by (auto simp: selected_relations_def relation_list_def list_app_relations_def)
  moreover have "distinct (map rel_id ?rs)"
    unfolding selected_relations_def by (rule distinct_map_filter) (rule relation_list_ids [OF g(3,2)])
  moreover have "list_all (\<lambda>r. rel_physical_type r \<noteq> None) ?rs"
    using typed by (auto simp: selected_relations_def list_all_iff)
  ultimately obtain h where h: "bindE (for_each (\<lambda>r. bindE (writes (object_save (r\<lparr>obj_data_space_id := target\<rparr>)))
         (\<lambda>_. writes (object_attach (r\<lparr>obj_data_space_id := target\<rparr>) None))) os) (\<lambda>_.
       for_each (\<lambda>r. store_op (relation_save (r\<lparr>rel_data_space_id := target\<rparr>))) ?rs) s1 = (Inr (), s1\<lparr>svc_graph := h\<rparr>)"
    "holds_copy app target os ?rs (svc_graph s) h"
    using copy_outcome [OF _ s(1), of app ?rs target s1] s(4) by auto
  have "t = s1\<lparr>svc_graph := h\<rparr>" using h(1) loops s(4) by (simp add: bindE_apply)
  with h(2) d s max n show thesis
    by (intro that [of d os]) (simp_all add: get_space_def split: option.split_asm)
qed

end
