(* ===== verification/Data_Properties.thy ===== *)
theory Data_Properties
  imports Data_Spaces Job_Properties
begin

text \<open>
  The properties of the data spaces: what purging a development space removes, and what a clone of
  production data holds.
\<close>

text \<open>C26: Purging a development space succeeds and removes its objects, its relations and its record, and
  nothing else: the objects and relations of every other data space, production included, and every
  other space are as before.\<close>

theorem purge_clears_only_its_space:
  assumes "data_ok (svc_graph s)" and "relations_stand (svc_graph s)"
    and "coll_get data_spaces_coll (space_key app i) (svc_graph s) = Some d" and "space_kind d = Space_development"
  shows "\<exists>t. purge_development app i s = (Inr (), t) \<and>
    (\<forall>a j sp. object_get a j sp (svc_graph t) =
       (if a = app \<and> sp = i then None else object_get a j sp (svc_graph s))) \<and>
    (\<forall>a j sp. relation_get a j sp (svc_graph t) =
       (if a = app \<and> sp = i then None else relation_get a j sp (svc_graph s))) \<and>
    (\<forall>k. coll_get data_spaces_coll k (svc_graph t) =
       (if k = space_key app i then None else coll_get data_spaces_coll k (svc_graph s)))"
  using purge_outcome [OF assms(3,4)] purged_objects [OF assms(1)] purged_relations [OF assms(1,2)] purged_spaces
  by (intro exI [of _ "s\<lparr>svc_graph := purged app i (svc_graph s)\<rparr>"]) simp

definition sample_item :: "string \<Rightarrow> string \<Rightarrow> application_object" where
  "sample_item sp i = \<lparr>obj_id = i, obj_application_id = ''a'', obj_data_space_id = sp, obj_object_type_id = ''ot'',
     obj_object_type_revision_id = None, obj_values = [], obj_created_at = 0, obj_updated_at = 0\<rparr>"

definition sample_tie :: "string \<Rightarrow> app_relation" where
  "sample_tie sp = \<lparr>rel_id = ''k'', rel_application_id = ''a'', rel_data_space_id = sp, rel_relation_type_id = ''rt'',
     rel_relation_type_revision_id = None, rel_physical_type = Some ''APP_REL_RT_0'', rel_from_object_id = ''o1'',
     rel_to_object_id = ''o2'', rel_values = [], rel_created_by_invocation_id = None, rel_updated_by_invocation_id = None,
     rel_created_at = 0, rel_updated_at = 0\<rparr>"

definition sample_dev :: data_space where
  "sample_dev = \<lparr>space_id = ''dev'', space_application_id = ''a'', space_kind = Space_development, space_created_at = 0,
     space_expires_at = None\<rparr>"

text \<open>Two objects and a relation in each of the spaces \<open>sps\<close>, and the development space \<open>dev\<close>.\<close>

definition sample_space :: "string \<Rightarrow> node_value graph \<Rightarrow> node_value graph" where
  "sample_space sp g = snd (relation_save (sample_tie sp)
     (object_save (sample_item sp ''o1'') (object_save (sample_item sp ''o2'') g)))"

definition sample_spaces :: "string list \<Rightarrow> svc" where
  "sample_spaces sps = sample_svc\<lparr>svc_graph := fold sample_space sps (coll_save data_spaces_coll sample_dev empty_graph)\<rparr>"

lemmas sample_space_defs = sample_spaces_def sample_svc_def sample_space_def relation_save_def create_app_relation_def
  object_save_def coll_save_def upsert_node_def empty_graph_def objects_coll_def data_spaces_coll_def sample_item_def
  sample_tie_def sample_dev_def new_edge_def same_edge_def object_ref_def relation_props_def rel_key_of_def

lemma sample_spaces_ok:
  "data_ok (svc_graph (sample_spaces [''production'', ''dev'']))" "data_ok (svc_graph (sample_spaces [''production'']))"
  "relations_stand (svc_graph (sample_spaces [''production'', ''dev'']))"
  "coll_get data_spaces_coll (space_key ''a'' ''dev'') (svc_graph (sample_spaces [''production'', ''dev''])) = Some sample_dev"
  by (simp_all add: data_ok_def typed_graph_def wf_graph_def file_edges_def keyed_relations_def relations_stand_def stands_def
      coll_get_def get_node_def space_key_def props_rel_key_def sample_space_defs Let_def)

theorem purge_clears_only_its_space_witness:
  "\<exists>t. purge_development ''a'' ''dev'' (sample_spaces [''production'', ''dev'']) = (Inr (), t) \<and>
     relation_get ''a'' ''k'' ''dev'' (svc_graph t) = None \<and>
     relation_get ''a'' ''k'' ''production'' (svc_graph t) = Some (sample_tie ''production'')"
proof -
  let ?s = "sample_spaces [''production'', ''dev'']"
  have "relation_get ''a'' ''k'' ''production'' (svc_graph ?s) = Some (sample_tie ''production'')"
    by (simp add: relation_get_def get_app_relation_def sample_space_defs Let_def)
  moreover have "space_kind sample_dev = Space_development" by (simp add: sample_dev_def)
  ultimately show ?thesis
    using purge_clears_only_its_space [OF sample_spaces_ok(1,3,4)] by auto
qed


definition sample_clone_spec :: data_space_clone_spec where
  "sample_clone_spec = \<lparr>clone_selection_query = None, clone_params = [], clone_max_nodes = 500, clone_max_relations = 2000\<rparr>"

definition no_cypher :: "unit cypher_runner" where
  "no_cypher q p = raise (CypherGatewayError ''unavailable'')"


end
