(* ===== verification/Package_Capture.thy ===== *)
theory Package_Capture
  imports Experience_Activation Secrets
begin

text \<open>
  Packages (\<^verbatim>\<open>system/packages.py\<close>, \<^verbatim>\<open>contracts/package.py\<close>), first part: what a Package holds and how
  the active working set of an Application or an Experience is captured. A payload keeps the records
  themselves where the code keeps their \<^verbatim>\<open>model_dump\<close>: members without a key of the record are not
  represented. The id of a revision names revisions of one kind only.
\<close>

section \<open>The contract of a Package\<close>

record secret_requirement =
  need_source_id :: string
  need_uri :: string
  need_name :: string
  need_description :: string

record package_application =
  pa_application :: application
  pa_revision :: application_revision
  pa_source_tree_id :: string
  pa_source_files :: "source_file list"
  pa_dependencies :: "runtime_dependency list"
  pa_object_types :: "(object_type \<times> object_type_revision) list"
  pa_relation_types :: "(relation_type \<times> relation_type_revision) list"
  pa_actions :: "(action \<times> action_revision) list"
  pa_triggers :: "(trigger \<times> trigger_revision) list"
  pa_tests :: "test_case list"
  pa_secret_requirements :: "secret_requirement list"
  pa_objects :: "application_object list"
  pa_relations :: "app_relation list"

record package_experience =
  px_experience :: experience
  px_revision :: experience_revision
  px_source_tree_id :: string
  px_source_files :: "source_file list"
  px_dependencies :: "runtime_dependency list"
  px_surfaces :: "experience_surface list"

record package_payload =
  pp_applications :: "package_application list"
  pp_experience :: "package_experience option"

datatype omitted_binding =
    Omitted_callback_routes string string
  | Omitted_credentials string

record package_entry =
  entry_path :: string
  entry_size :: int
  entry_content_hash :: string

record package_manifest =
  man_format_version :: string
  man_schema_fingerprint :: string
  man_graph_metamodel_version :: string
  man_graph_schema_fingerprint :: string
  man_action_context_version :: string
  man_subprocess_version :: string
  man_experience_bridge_version :: string
  man_root_kind :: pkg_root_kind
  man_root_id :: string
  man_include_data :: bool
  man_omitted_bindings :: "omitted_binding list"
  man_entries :: "package_entry list"
  man_package_hash :: string

definition package_format_version :: string where
  "package_format_version = ''n4x.package.v2''"

definition package_max_archive_bytes :: int where
  "package_max_archive_bytes = 256 * 1024 * 1024"

definition package_max_member_bytes :: int where
  "package_max_member_bytes = 192 * 1024 * 1024"

definition package_max_members :: nat where
  "package_max_members = 8"

section \<open>Capturing definitions\<close>

text \<open>\<^verbatim>\<open>_definition_pairs\<close>: the sort key is the stable id, then whether the revision is the active one.\<close>

definition definition_pairs ::
  "'m collection \<Rightarrow> ('m \<Rightarrow> string option) \<Rightarrow> ('r \<Rightarrow> string) \<Rightarrow> ('r \<Rightarrow> string) \<Rightarrow> 'r list \<Rightarrow>
   node_value graph \<Rightarrow> exn + ('m \<times> 'r) list" where
  "definition_pairs c active the_id owner rs g =
     rbind (map_result (\<lambda>r. rbind (coll_item c (key (owner r)) g) (\<lambda>m. Inr (m, r))) rs) (\<lambda>ps.
     Inr (sort_key (\<lambda>p. [owner (snd p), if active (fst p) = Some (the_id (snd p)) then ''1'' else ''0'']) ps))"

text \<open>
  \<^verbatim>\<open>_append_referenced_type_revisions\<close>: revisions that data refers to are appended; \<open>have\<close> are the
  revision ids met so far.
\<close>

fun append_referenced ::
  "'m collection \<Rightarrow> ('m \<Rightarrow> string) \<Rightarrow> 'r collection \<Rightarrow> ('r \<Rightarrow> string) \<Rightarrow> string \<Rightarrow> string \<Rightarrow> node_value graph \<Rightarrow>
   string list \<Rightarrow> ('m \<times> 'r) list \<Rightarrow> string option list \<Rightarrow> exn + ('m \<times> 'r) list" where
  "append_referenced c app_of rc owner app err g have pairs [] = Inr pairs"
| "append_referenced c app_of rc owner app err g have pairs (x # xs) =
     (case x of
        None \<Rightarrow> append_referenced c app_of rc owner app err g have pairs xs
      | Some i \<Rightarrow>
          if i \<in> set have then append_referenced c app_of rc owner app err g have pairs xs
          else (case coll_get rc (key i) g of
              None \<Rightarrow> Inl (ValidationFailure err)
            | Some r \<Rightarrow> (case coll_get c (key (owner r)) g of
                  None \<Rightarrow> Inl (ValidationFailure err)
                | Some m \<Rightarrow>
                    if app_of m \<noteq> app then Inl (ValidationFailure err)
                    else append_referenced c app_of rc owner app err g (i # have) (pairs @ [(m, r)]) xs)))"

definition object_data_error :: string where
  "object_data_error = ''object data references schema outside the active Package closure''"

definition relation_data_error :: string where
  "relation_data_error = ''relation data references schema outside the active Package closure''"

definition include_referenced_schema :: "package_application \<Rightarrow> node_value graph \<Rightarrow> exn + package_application" where
  "include_referenced_schema p g =
     (let app = app_id (pa_application p) in
      rbind (append_referenced object_types_coll otype_application_id object_type_revisions_coll otrev_object_type_id app
          object_data_error g (map (\<lambda>q. otrev_id (snd q)) (pa_object_types p)) (pa_object_types p)
          (map obj_object_type_revision_id (pa_objects p))) (\<lambda>ots.
      rbind (append_referenced relation_types_coll rtype_application_id relation_type_revisions_coll rtrev_relation_type_id app
          relation_data_error g (map (\<lambda>q. rtrev_id (snd q)) (pa_relation_types p)) (pa_relation_types p)
          (map rel_relation_type_revision_id (pa_relations p))) (\<lambda>rts.
      Inr (p\<lparr>pa_object_types := ots, pa_relation_types := rts\<rparr>))))"

text \<open>\<^verbatim>\<open>_validate_application_data\<close>: the first record whose reference leaves the Package.\<close>

definition check_object :: "package_application \<Rightarrow> application_object \<Rightarrow> exn + unit" where
  "check_object p x =
     (case obj_object_type_revision_id x of
        Some i \<Rightarrow> if i \<notin> set (map (\<lambda>q. otrev_id (snd q)) (pa_object_types p))
          then Inl (ValidationFailure object_data_error) else Inr ()
      | None \<Rightarrow> Inr ())"

definition check_relation :: "package_application \<Rightarrow> app_relation \<Rightarrow> exn + unit" where
  "check_relation p x =
     rbind (case rel_relation_type_revision_id x of
         Some i \<Rightarrow> if i \<notin> set (map (\<lambda>q. rtrev_id (snd q)) (pa_relation_types p))
           then Inl (ValidationFailure relation_data_error) else Inr ()
       | None \<Rightarrow> Inr ()) (\<lambda>_.
     if rel_from_object_id x \<notin> set (map obj_id (pa_objects p)) \<or> rel_to_object_id x \<notin> set (map obj_id (pa_objects p))
     then Inl (ValidationFailure ''relation data references an object outside the Package'') else Inr ())"

definition validate_application_data :: "package_application \<Rightarrow> exn + unit" where
  "validate_application_data p =
     rbind (map_result (check_object p) (pa_objects p)) (\<lambda>_.
     rbind (map_result (check_relation p) (pa_relations p)) (\<lambda>_. Inr ()))"

section \<open>Capturing an Application\<close>

definition secret_requirement_of :: "string \<Rightarrow> node_value graph \<Rightarrow> string \<Rightarrow> exn + secret_requirement" where
  "secret_requirement_of app g i =
     (case coll_get secret_references_coll (key i) g of
        None \<Rightarrow> Inl (ValidationFailure (''invalid secret reference: '' @ i))
      | Some s \<Rightarrow> if secret_application_id s \<noteq> app
          then Inl (ValidationFailure (''invalid secret reference: '' @ i))
          else Inr \<lparr>need_source_id = secret_id s, need_uri = secret_uri s, need_name = secret_name s,
            need_description = secret_description s\<rparr>)"

text \<open>The callback references of an Action are not carried; each loss is noted.\<close>

definition omitted_callbacks :: "string \<Rightarrow> (action \<times> action_revision) list \<Rightarrow> omitted_binding list" where
  "omitted_callbacks app ps =
     map (\<lambda>p. Omitted_callback_routes app (actrev_action_id (snd p)))
       (filter (\<lambda>p. actrev_callback_refs (snd p) \<noteq> []) ps)"

definition omitted_credentials :: "string \<Rightarrow> node_value graph \<Rightarrow> omitted_binding list" where
  "omitted_credentials app g =
     (if list_ex (\<lambda>c. cred_application_id c = app) (coll_values credential_records_coll g)
      then [Omitted_credentials app] else [])"

definition sorted_dependencies :: "string \<Rightarrow> node_value graph \<Rightarrow> exn + runtime_dependency list" where
  "sorted_dependencies rid g =
     rbind (dependencies rid g) (\<lambda>ds. Inr (sort_key (\<lambda>d. [dep_package d, dep_spec d, dep_id d]) ds))"

definition revision_files :: "string \<Rightarrow> node_value graph \<Rightarrow> exn + source_file list" where
  "revision_files rid g =
     rbind (tree rid g) (\<lambda>t. rbind (list_source_tree (tree_id t) g) (\<lambda>fs. Inr (sort_key file_path fs)))"

definition capture_application ::
  "string \<Rightarrow> bool \<Rightarrow> string list \<Rightarrow> node_value graph \<Rightarrow> exn + package_application \<times> omitted_binding list" where
  "capture_application app include_data required g =
     (case coll_get applications_coll (key app) g of
        None \<Rightarrow> Inl (ValidationFailure (''Application is not active: '' @ app))
      | Some a \<Rightarrow> (case app_active_revision_id a of
            None \<Rightarrow> Inl (ValidationFailure (''Application is not active: '' @ app))
          | Some active \<Rightarrow>
        rbind (coll_item revisions_coll (key active) g) (\<lambda>r.
        if rev_status r \<noteq> Rev_active
        then Inl (ValidationFailure (''Application revision is not active: '' @ rev_id r))
        else
        rbind (action_revisions (rev_id r) g) (\<lambda>acts.
        rbind (definition_pairs actions_coll act_active_revision_id actrev_id actrev_action_id acts g) (\<lambda>actions.
        rbind (map_result (secret_requirement_of app g)
            (sort (remdups (concat (map (\<lambda>q. actrev_secret_refs (snd q)) actions) @ required)))) (\<lambda>secrets.
        rbind (tree (rev_id r) g) (\<lambda>t.
        rbind (revision_files (rev_id r) g) (\<lambda>files.
        rbind (sorted_dependencies (rev_id r) g) (\<lambda>deps.
        rbind (object_type_revisions (rev_id r) g) (\<lambda>otrs.
        rbind (definition_pairs object_types_coll otype_active_revision_id otrev_id otrev_object_type_id otrs g) (\<lambda>ots.
        rbind (relation_type_revisions (rev_id r) g) (\<lambda>rtrs.
        rbind (definition_pairs relation_types_coll rtype_active_revision_id rtrev_id rtrev_relation_type_id rtrs g) (\<lambda>rts.
        rbind (trigger_revisions (rev_id r) g) (\<lambda>trs.
        rbind (definition_pairs triggers_coll trig_active_revision_id trigrev_id trigrev_trigger_id trs g) (\<lambda>triggers.
        rbind (test_cases (rev_id r) g) (\<lambda>tests.
        (let captured =
           \<lparr>pa_application = a, pa_revision = r, pa_source_tree_id = tree_id t, pa_source_files = files,
            pa_dependencies = deps, pa_object_types = ots, pa_relation_types = rts,
            pa_actions = map (\<lambda>q. (fst q, (snd q)\<lparr>actrev_callback_refs := []\<rparr>)) actions,
            pa_triggers = triggers, pa_tests = sort_key test_id tests, pa_secret_requirements = secrets,
            pa_objects = (if include_data then object_list app None ''production'' g else []),
            pa_relations = (if include_data then relation_list app None None None ''production'' g else [])\<rparr>
         in rbind (if include_data then include_referenced_schema captured g else Inr captured) (\<lambda>p.
            rbind (validate_application_data p) (\<lambda>_.
            Inr (p, omitted_callbacks app actions @ omitted_credentials app g))))))))))))))))))))"

section \<open>Capturing a working set\<close>

definition capture_experience ::
  "experience \<Rightarrow> experience_revision \<Rightarrow> node_value graph \<Rightarrow> exn + package_experience" where
  "capture_experience x r g =
     rbind (tree (exprev_id r) g) (\<lambda>t.
     rbind (revision_files (exprev_id r) g) (\<lambda>files.
     rbind (sorted_dependencies (exprev_id r) g) (\<lambda>deps.
     rbind (surface_list (exprev_id r) g) (\<lambda>fs.
     Inr \<lparr>px_experience = x, px_revision = r, px_source_tree_id = tree_id t, px_source_files = files,
          px_dependencies = deps, px_surfaces = fs\<rparr>))))"

definition unavailable :: "string \<Rightarrow> string list option \<Rightarrow> string list \<Rightarrow> exn + unit" where
  "unavailable what declared ids =
     (case declared of
        None \<Rightarrow> Inr ()
      | Some ds \<Rightarrow> if \<not> set ds \<subseteq> set ids
          then Inl (ValidationFailure (''Experience access references unavailable '' @ what)) else Inr ())"

definition check_access :: "package_application list \<Rightarrow> application_access_declaration \<Rightarrow> exn + unit" where
  "check_access apps d =
     (case find (\<lambda>p. app_id (pa_application p) = access_application_id d) (rev apps) of
        None \<Rightarrow> Inl (ValidationFailure ''declared Application is unavailable'')
      | Some p \<Rightarrow>
          rbind (unavailable ''object_type_ids'' (access_object_type_ids d) (map (\<lambda>q. otype_id (fst q)) (pa_object_types p))) (\<lambda>_.
          rbind (unavailable ''relation_type_ids'' (access_relation_type_ids d)
             (map (\<lambda>q. rtype_id (fst q)) (pa_relation_types p))) (\<lambda>_.
          rbind (unavailable ''action_ids'' (access_action_ids d) (map (\<lambda>q. act_id (fst q)) (pa_actions p))) (\<lambda>_.
          unavailable ''secret_reference_ids'' (access_secret_reference_ids d)
             (map need_source_id (pa_secret_requirements p))))))"

definition validate_experience_access ::
  "package_experience \<Rightarrow> package_application list \<Rightarrow> exn + unit" where
  "validate_experience_access x apps =
     rbind (map_result (check_access apps) (exprev_application_access (px_revision x))) (\<lambda>_. Inr ())"

text \<open>The Experience of the root and the Applications to capture, each with the secrets it must carry.\<close>

definition capture_root ::
  "string \<Rightarrow> string \<Rightarrow> node_value graph \<Rightarrow> exn + package_experience option \<times> (string \<times> string list) list" where
  "capture_root kind i g =
     (if kind = ''experience'' then
        (case coll_get experiences_coll (key i) g of
           None \<Rightarrow> Inl (ValidationFailure ''Experience root is not active'')
         | Some x \<Rightarrow> (case exp_active_revision_id x of
               None \<Rightarrow> Inl (ValidationFailure ''Experience root is not active'')
             | Some active \<Rightarrow>
                 rbind (coll_item experience_revisions_coll (key active) g) (\<lambda>r.
                 if exprev_status r \<noteq> Rev_active
                 then Inl (ValidationFailure ''Experience root revision is not active'')
                 else rbind (capture_experience x r g) (\<lambda>px.
                   Inr (Some px, map (\<lambda>d. (access_application_id d, listed (access_secret_reference_ids d)))
                     (exprev_application_access r))))))
      else Inr (None, [(i, [])]))"

definition capture ::
  "string \<Rightarrow> string \<Rightarrow> bool \<Rightarrow> node_value graph \<Rightarrow> exn + package_payload \<times> omitted_binding list" where
  "capture kind i include_data g =
     (if kind \<notin> {''application'', ''experience''}
      then Inl (ValueError ''root_kind must be application or experience'')
      else rbind (capture_root kind i g) (\<lambda>(px, members).
        rbind (map_result (\<lambda>m. capture_application (fst m) include_data (snd m) g) members) (\<lambda>captured.
        (let apps = map fst captured in
         rbind (case px of None \<Rightarrow> Inr () | Some x \<Rightarrow> validate_experience_access x apps) (\<lambda>_.
         Inr (\<lparr>pp_applications = apps, pp_experience = px\<rparr>, concat (map snd captured)))))))"

text \<open>What \<^verbatim>\<open>preview\<close> and \<^verbatim>\<open>export\<close> say of a payload.\<close>

record package_summary =
  sum_root_kind :: string
  sum_root_id :: string
  sum_include_data :: bool
  sum_application_ids :: "string list"
  sum_experience_id :: "string option"
  sum_object_count :: nat
  sum_relation_count :: nat
  sum_omitted_bindings :: "omitted_binding list"

definition application_ids_of :: "package_payload \<Rightarrow> string list" where
  "application_ids_of p = map (\<lambda>a. app_id (pa_application a)) (pp_applications p)"

definition summary_of :: "string \<Rightarrow> string \<Rightarrow> bool \<Rightarrow> package_payload \<Rightarrow> omitted_binding list \<Rightarrow> package_summary" where
  "summary_of kind i include_data p os =
     \<lparr>sum_root_kind = kind, sum_root_id = i, sum_include_data = include_data,
      sum_application_ids = application_ids_of p,
      sum_experience_id = map_option (\<lambda>x. exp_id (px_experience x)) (pp_experience p),
      sum_object_count = sum_list (map (\<lambda>a. length (pa_objects a)) (pp_applications p)),
      sum_relation_count = sum_list (map (\<lambda>a. length (pa_relations a)) (pp_applications p)),
      sum_omitted_bindings = os\<rparr>"

definition preview :: "string \<Rightarrow> string \<Rightarrow> bool \<Rightarrow> node_value graph \<Rightarrow> exn + package_summary" where
  "preview kind i include_data g =
     rbind (capture kind i include_data g) (\<lambda>(p, os). Inr (summary_of kind i include_data p os))"

end
