(* ===== verification/Package_Archive.thy ===== *)
theory Package_Archive
  imports Package_Capture
begin

text \<open>
  Package archives: the checks on names, entries and source paths, the content hash, and how an
  archive is exported, staged, listed and read. The directory of archives is a dictionary from names
  to files of a type \<open>'f\<close>; what the zip library does with such a file, and pydantic and the JSON
  library with the two members, are the functions of the records \<open>archive_format\<close> and
  \<open>package_codec\<close>.
\<close>

section \<open>Archives\<close>

text \<open>
  \<open>fmt_open\<close> is the list of the entries with their names, declared sizes and texts; \<open>fmt_digest\<close> the
  hexadecimal SHA-256 digest of a file.
\<close>

record 'f archive_format =
  fmt_size :: "'f \<Rightarrow> int"
  fmt_open :: "'f \<Rightarrow> exn + (string \<times> int \<times> string) list"
  fmt_make :: "(string \<times> string) list \<Rightarrow> 'f"
  fmt_digest :: "'f \<Rightarrow> string"

text \<open>
  \<^verbatim>\<open>stable_json(model.model_dump(mode="json"))\<close> and \<^verbatim>\<open>model_validate_json\<close> of both members, and the
  format version that a manifest text names.
\<close>

record package_codec =
  put_manifest :: "package_manifest \<Rightarrow> string"
  put_payload :: "package_payload \<Rightarrow> string"
  parse_format :: "string \<Rightarrow> exn + string option"
  parse_manifest :: "string \<Rightarrow> exn + package_manifest"
  parse_payload :: "string \<Rightarrow> exn + package_payload"

type_synonym 'f archive_dir = "(string, 'f) dict"

text \<open>\<^verbatim>\<open>_ARCHIVE_NAME.fullmatch\<close>.\<close>

definition name_char :: "char \<Rightarrow> bool" where
  "name_char c \<longleftrightarrow> is_ascii_alnum c \<or> c \<in> {CHR ''.'', CHR ''_'', CHR ''-''}"

definition archive_name_ok :: "string \<Rightarrow> bool" where
  "archive_name_ok s \<longleftrightarrow>
     (let stem = take (length s - 5) s in
      drop (length s - 5) s = ''.n4xp'' \<and> stem \<noteq> [] \<and> is_ascii_alnum (hd stem) \<and> list_all name_char stem)"

definition check_archive_name :: "string \<Rightarrow> exn + unit" where
  "check_archive_name s =
     (if archive_name_ok s then Inr () else Inl (ValueError ''archive_name must be a simple name ending in .n4xp''))"

definition normalize_sha256 :: "string \<Rightarrow> string" where
  "normalize_sha256 v = (let s = strip v in if starts_with ''sha256:'' s then s else ''sha256:'' @ s)"

definition file_sha256 :: "'f archive_format \<Rightarrow> 'f \<Rightarrow> string" where
  "file_sha256 fmt f = ''sha256:'' @ fmt_digest fmt f"

definition package_hash ::
  "(string \<Rightarrow> string) \<Rightarrow> package_codec \<Rightarrow> package_manifest \<Rightarrow> string \<Rightarrow> string" where
  "package_hash sha codec m payload_text =
     sha256_text sha (put_manifest codec (m\<lparr>man_package_hash := []\<rparr>) @ [LF] @ payload_text)"

section \<open>Contract versions\<close>

record contract_versions =
  ver_schema_fingerprint :: string
  ver_action_context :: string
  ver_subprocess :: string
  ver_experience_bridge :: string
  ver_graph_metamodel :: string
  ver_graph_schema_fingerprint :: string

definition materializable :: "contract_versions \<Rightarrow> package_manifest \<Rightarrow> bool" where
  "materializable v m \<longleftrightarrow> man_format_version m = package_format_version \<and>
     man_schema_fingerprint m = ver_schema_fingerprint v"

text \<open>The contract, what the Package has, what is current.\<close>

definition disagreements :: "contract_versions \<Rightarrow> package_manifest \<Rightarrow> (string \<times> string \<times> string) list" where
  "disagreements v m = filter (\<lambda>(name, got, expected). got \<noteq> expected)
     [(''format_version'', man_format_version m, package_format_version),
      (''schema_fingerprint'', man_schema_fingerprint m, ver_schema_fingerprint v),
      (''action_context_version'', man_action_context_version m, ver_action_context v),
      (''subprocess_version'', man_subprocess_version m, ver_subprocess v),
      (''experience_bridge_version'', man_experience_bridge_version m, ver_experience_bridge v),
      (''graph_metamodel_version'', man_graph_metamodel_version m, ver_graph_metamodel v),
      (''graph_schema_fingerprint'', man_graph_schema_fingerprint m, ver_graph_schema_fingerprint v)]"

section \<open>Writing\<close>

definition unsigned_manifest ::
  "(string \<Rightarrow> string) \<Rightarrow> contract_versions \<Rightarrow> string \<Rightarrow> string \<Rightarrow> bool \<Rightarrow> omitted_binding list \<Rightarrow> string \<Rightarrow>
   package_manifest" where
  "unsigned_manifest sha v kind i include_data omitted payload_text =
     \<lparr>man_format_version = package_format_version, man_schema_fingerprint = ver_schema_fingerprint v,
      man_graph_metamodel_version = ver_graph_metamodel v,
      man_graph_schema_fingerprint = ver_graph_schema_fingerprint v,
      man_action_context_version = ver_action_context v, man_subprocess_version = ver_subprocess v,
      man_experience_bridge_version = ver_experience_bridge v,
      man_root_kind = (if kind = ''experience'' then Pkg_experience else Pkg_application),
      man_root_id = i, man_include_data = include_data, man_omitted_bindings = omitted,
      man_entries = [\<lparr>entry_path = ''payload.json'', entry_size = utf8_len payload_text,
        entry_content_hash = sha256_text sha payload_text\<rparr>],
      man_package_hash = []\<rparr>"

text \<open>A file is written under a name that is free, or may be overwritten.\<close>

definition write_archive :: "string \<Rightarrow> 'f \<Rightarrow> bool \<Rightarrow> ('f archive_dir, unit) op" where
  "write_archive name f overwrite d =
     (if dict_get d name \<noteq> None \<and> \<not> overwrite then (Inl (FileExistsError name), d)
      else (Inr (), dict_set name f d))"

text \<open>The archive of a payload, and the hash it is signed with.\<close>

definition build_archive ::
  "(string \<Rightarrow> string) \<Rightarrow> package_codec \<Rightarrow> 'f archive_format \<Rightarrow> contract_versions \<Rightarrow> string \<Rightarrow> string \<Rightarrow> bool \<Rightarrow>
   package_payload \<times> omitted_binding list \<Rightarrow> 'f \<times> string" where
  "build_archive sha codec fmt v kind i include_data captured =
     (let text = put_payload codec (fst captured);
          m = unsigned_manifest sha v kind i include_data (snd captured) text;
          h = package_hash sha codec m text
      in (fmt_make fmt [(''manifest.json'', put_manifest codec (m\<lparr>man_package_hash := h\<rparr>)), (''payload.json'', text)], h))"

definition export ::
  "(string \<Rightarrow> string) \<Rightarrow> package_codec \<Rightarrow> 'f archive_format \<Rightarrow> contract_versions \<Rightarrow> string \<Rightarrow> string \<Rightarrow> string \<Rightarrow>
   bool \<Rightarrow> bool \<Rightarrow> node_value graph \<Rightarrow> ('f archive_dir, package_summary \<times> string) op" where
  "export sha codec fmt v kind i name include_data overwrite g =
     bindE (lift_result (check_archive_name name)) (\<lambda>_.
     bindE (lift_result (capture kind i include_data g)) (\<lambda>captured.
     (let built = build_archive sha codec fmt v kind i include_data captured in
      bindE (write_archive name (fst built) overwrite) (\<lambda>_.
      ret (summary_of kind i include_data (fst captured) (snd captured), snd built)))))"

record staged_archive =
  staged_name :: string
  staged_size :: int
  staged_sha256 :: string

definition staged_of :: "'f archive_format \<Rightarrow> string \<Rightarrow> 'f \<Rightarrow> staged_archive" where
  "staged_of fmt name f = \<lparr>staged_name = name, staged_size = fmt_size fmt f, staged_sha256 = file_sha256 fmt f\<rparr>"

definition too_large :: exn where
  "too_large = ValidationFailure ''package_corrupt: archive is too large''"

definition stage ::
  "'f archive_format \<Rightarrow> string \<Rightarrow> 'f \<Rightarrow> bool \<Rightarrow> ('f archive_dir, staged_archive) op" where
  "stage fmt name f overwrite =
     bindE (lift_result (check_archive_name name)) (\<lambda>_.
     bindE (if fmt_size fmt f > package_max_archive_bytes then raise too_large else ret ()) (\<lambda>_.
     bindE (write_archive name f overwrite) (\<lambda>_.
     ret (staged_of fmt name f))))"

text \<open>Where the source of \<^verbatim>\<open>stage_from_path\<close> lies: in the directory of archives, or elsewhere.\<close>

datatype 'f archive_source = In_packages string | Elsewhere "'f option"

definition source_content_of :: "'f archive_source \<Rightarrow> 'f archive_dir \<Rightarrow> exn + 'f" where
  "source_content_of src d =
     (case (case src of In_packages n \<Rightarrow> dict_get d n | Elsewhere f \<Rightarrow> f) of
        None \<Rightarrow> Inl (FileNotFoundError ''source'') | Some f \<Rightarrow> Inr f)"

definition stage_from_path ::
  "'f archive_format \<Rightarrow> string \<Rightarrow> 'f archive_source \<Rightarrow> bool \<Rightarrow> string option \<Rightarrow> ('f archive_dir, staged_archive) op" where
  "stage_from_path fmt name src overwrite expected =
     bindE (lift_result (check_archive_name name)) (\<lambda>_.
     bindE (\<lambda>d. (source_content_of src d, d)) (\<lambda>f.
     bindE (if fmt_size fmt f > package_max_archive_bytes then raise too_large else ret ()) (\<lambda>_.
     bindE (case expected of None \<Rightarrow> ret ()
        | Some h \<Rightarrow> if normalize_sha256 h \<noteq> file_sha256 fmt f
            then raise (ValidationFailure ''package_corrupt: content hash mismatch'') else ret ()) (\<lambda>_.
     bindE (\<lambda>d. (if dict_get d name \<noteq> None \<and> \<not> overwrite then Inl (FileExistsError name) else Inr (), d)) (\<lambda>_.
     bindE (modify (\<lambda>d. case src of
          In_packages n \<Rightarrow> if n = name then d else dict_set name f (dict_pop n d)
        | Elsewhere _ \<Rightarrow> dict_set name f d)) (\<lambda>_.
     ret (staged_of fmt name f)))))))"

definition list_archives :: "'f archive_format \<Rightarrow> 'f archive_dir \<Rightarrow> staged_archive list" where
  "list_archives fmt d = map (\<lambda>(n, f). staged_of fmt n f) (sort_key fst (filter (\<lambda>(n, _). archive_name_ok n) d))"

section \<open>Reading\<close>

definition path_parts :: "string \<Rightarrow> string list" where
  "path_parts p = filter (\<lambda>q. q \<notin> {[], ''.''}) (split_on CHR ''/'' p)"

definition unsafe_path :: "string \<Rightarrow> bool" where
  "unsafe_path p \<longleftrightarrow> starts_with ''/'' p \<or> CHR 0x5C \<in> set p \<or> ''..'' \<in> set (path_parts p)"

definition check_entries :: "(string \<times> int \<times> string) list \<Rightarrow> exn + unit" where
  "check_entries es =
     (if length es > package_max_members \<or> \<not> distinct (map fst es) \<or>
         set (map fst es) \<noteq> {''manifest.json'', ''payload.json''}
      then Inl (ValidationFailure ''package_corrupt: invalid archive entries'')
      else if list_ex (\<lambda>(n, size, _). size > package_max_member_bytes \<or> unsafe_path n) es
      then Inl (ValidationFailure ''package_corrupt: unsafe archive entry'') else Inr ())"

definition check_source_files :: "source_file list \<Rightarrow> exn + unit" where
  "check_source_files fs =
     (if \<not> distinct (map file_path fs) then Inl (ValueError ''duplicate source path'')
      else (case find (\<lambda>f. file_path f = [] \<or> unsafe_path (file_path f)) fs of
          Some f \<Rightarrow> Inl (ValueError (''unsafe source path: '' @ file_path f))
        | None \<Rightarrow> Inr ()))"

definition member_count :: "package_payload \<Rightarrow> nat" where
  "member_count p = length (pp_applications p) + (if pp_experience p = None then 0 else 1)"

definition source_groups :: "package_payload \<Rightarrow> source_file list list" where
  "source_groups p = map pa_source_files (pp_applications p) @
     (case pp_experience p of None \<Rightarrow> [] | Some x \<Rightarrow> [px_source_files x])"

definition validate_archive_payload :: "package_payload \<Rightarrow> exn + unit" where
  "validate_archive_payload p =
     (if member_count p > package_max_members then Inl (ValueError ''too many Package members'')
      else rbind (map_result check_source_files (source_groups p)) (\<lambda>_. Inr ()))"

definition content_hash_ok ::
  "(string \<Rightarrow> string) \<Rightarrow> package_codec \<Rightarrow> package_manifest \<Rightarrow> string \<Rightarrow> bool" where
  "content_hash_ok sha codec m text \<longleftrightarrow>
     (case man_entries m of
        [e] \<Rightarrow> entry_path e = ''payload.json'' \<and> entry_size e = utf8_len text \<and>
          entry_content_hash e = sha256_text sha text \<and> man_package_hash m = package_hash sha codec m text
      | _ \<Rightarrow> False)"

text \<open>Failures while the members are parsed become \<^verbatim>\<open>package_corrupt\<close>.\<close>

definition corrupt :: "exn + 'a \<Rightarrow> exn + 'a" where
  "corrupt r = (case r of
     Inl (ValidationFailure m) \<Rightarrow> Inl (ValidationFailure m)
   | Inl e \<Rightarrow> Inl (ValidationFailure (''package_corrupt: '' @ exn_message e))
   | Inr a \<Rightarrow> Inr a)"

definition parse_members :: "package_codec \<Rightarrow> string \<Rightarrow> string \<Rightarrow> exn + package_manifest \<times> package_payload" where
  "parse_members codec manifest_text payload_text =
     corrupt (rbind (parse_format codec manifest_text) (\<lambda>version.
       if version = Some ''n4x.package.v1''
       then Inl (ValidationFailure (''package_unsupported: n4x.package.v1 archives are not supported; '' @
         ''export a canonical Surface package''))
       else rbind (parse_manifest codec manifest_text) (\<lambda>m.
         rbind (parse_payload codec payload_text) (\<lambda>p.
         rbind (validate_archive_payload p) (\<lambda>_. Inr (m, p))))))"

definition archive_member :: "string \<Rightarrow> (string \<times> int \<times> string) list \<Rightarrow> string" where
  "archive_member n es = (case dict_get es n of None \<Rightarrow> [] | Some (_, t) \<Rightarrow> t)"

definition read_file ::
  "(string \<Rightarrow> string) \<Rightarrow> package_codec \<Rightarrow> 'f archive_format \<Rightarrow> 'f \<Rightarrow> exn + package_manifest \<times> package_payload" where
  "read_file sha codec fmt f =
     (if fmt_size fmt f > package_max_archive_bytes then Inl too_large
      else rbind (fmt_open fmt f) (\<lambda>es.
        rbind (check_entries es) (\<lambda>_.
        (let text = archive_member ''payload.json'' es in
         rbind (parse_members codec (archive_member ''manifest.json'' es) text) (\<lambda>(m, p).
         if content_hash_ok sha codec m text then Inr (m, p)
         else Inl (ValidationFailure ''package_corrupt: content hash mismatch''))))))"

definition read_archive ::
  "(string \<Rightarrow> string) \<Rightarrow> package_codec \<Rightarrow> 'f archive_format \<Rightarrow> string \<Rightarrow> 'f archive_dir \<Rightarrow>
   exn + package_manifest \<times> package_payload" where
  "read_archive sha codec fmt name d =
     rbind (check_archive_name name) (\<lambda>_.
     case dict_get d name of
       None \<Rightarrow> Inl (FileNotFoundError name)
     | Some f \<Rightarrow> read_file sha codec fmt f)"

end
