(* ===== verification/Package_Import.thy ===== *)
theory Package_Import
  imports Package_Archive
begin

text \<open>
  Importing a Package (\<^verbatim>\<open>PackageService.import_package\<close> and what it calls): one unit of work
  materialises the definitions under a durable attempt record, then data are restored and the
  Applications and the Experience activated, each step marked in the attempt, so that a failed import
  is resumed by importing the same archive again.
\<close>

text \<open>The collaborators of the service.\<close>

record 'z package_env =
  env_sha :: "string \<Rightarrow> string"
  env_cron_ok :: "string \<Rightarrow> bool"
  env_backend_kind :: secret_backend_kind
  env_registry :: surface_registry
  env_activation :: "'z activation_ports"
  env_experience :: "'z experience_ports"
  env_remount :: "('z svc_scheme, unit) op"
  env_versions :: contract_versions

section \<open>What an import has created\<close>

text \<open>\<^verbatim>\<open>id_map\<close> and \<^verbatim>\<open>created_ids\<close>, which the steps fill.\<close>

type_synonym ledger = "(string, (string, string) dict) dict \<times> (string, string list) dict"

definition dict_or :: "('k, 'v) dict \<Rightarrow> 'k \<Rightarrow> 'v \<Rightarrow> 'v" where
  "dict_or d k x = (case dict_get d k of None \<Rightarrow> x | Some v \<Rightarrow> v)"

definition mapped :: "string \<Rightarrow> string \<Rightarrow> string \<Rightarrow> ledger \<Rightarrow> ledger" where
  "mapped kind src dst l = (dict_set kind (dict_set src dst (dict_or (fst l) kind [])) (fst l), snd l)"

definition created :: "string \<Rightarrow> string \<Rightarrow> ledger \<Rightarrow> ledger" where
  "created kind i l = (fst l, dict_set kind (dict_or (snd l) kind [] @ [i]) (snd l))"

definition mapped_id :: "(string, (string, string) dict) dict \<Rightarrow> string \<Rightarrow> string \<Rightarrow> exn + string" where
  "mapped_id m kind src =
     (case dict_get m kind of
        None \<Rightarrow> Inl (KeyError kind)
      | Some d \<Rightarrow> (case dict_get d src of None \<Rightarrow> Inl (KeyError src) | Some i \<Rightarrow> Inr i))"

text \<open>A loop whose body updates a value.\<close>

fun thread_op :: "('x \<Rightarrow> 'a \<Rightarrow> ('s, 'a) op) \<Rightarrow> 'x list \<Rightarrow> 'a \<Rightarrow> ('s, 'a) op" where
  "thread_op f [] a = ret a"
| "thread_op f (x # xs) a = bindE (f x a) (\<lambda>b. thread_op f xs b)"

section \<open>Collisions\<close>

definition candidate_ids :: "package_payload \<Rightarrow> (string \<times> string) list" where
  "candidate_ids p = remdups
     (concat (map (\<lambda>a. (''Application'', app_id (pa_application a)) #
         map (\<lambda>q. (''ObjectType'', otype_id (fst q))) (pa_object_types a) @
         map (\<lambda>q. (''RelationType'', rtype_id (fst q))) (pa_relation_types a) @
         map (\<lambda>q. (''Action'', act_id (fst q))) (pa_actions a) @
         map (\<lambda>q. (''Trigger'', trig_id (fst q))) (pa_triggers a)) (pp_applications p)) @
      (case pp_experience p of None \<Rightarrow> [] | Some x \<Rightarrow> [(''Experience'', exp_id (px_experience x))]))"

definition data_collisions ::
  "(string, string list) dict \<Rightarrow> node_value graph \<Rightarrow> package_application \<Rightarrow> (string \<times> string) list" where
  "data_collisions owned g a =
     (let app = app_id (pa_application a) in
      map (\<lambda>x. (''ApplicationObject'', obj_id x))
        (filter (\<lambda>x. obj_id x \<notin> set (dict_or owned ''ApplicationObject'' []) \<and>
           get_node ''ApplicationObject'' (object_key app ''production'' (obj_id x)) g \<noteq> None) (pa_objects a)) @
      map (\<lambda>x. (''ApplicationRelation'', rel_id x))
        (filter (\<lambda>x. rel_id x \<notin> set (dict_or owned ''ApplicationRelation'' []) \<and>
           get_app_relation app ''production'' (rel_id x) g \<noteq> None) (pa_relations a)))"

definition secret_collisions ::
  "(string, string list) dict \<Rightarrow> node_value graph \<Rightarrow> package_application \<Rightarrow> (string \<times> string) list" where
  "secret_collisions owned g a =
     map (\<lambda>n. (''SecretReferenceUri'', need_uri n))
       (filter (\<lambda>n. need_uri n \<in> set (map secret_uri (coll_values secret_references_coll g)) \<and>
          need_uri n \<notin> set (dict_or owned ''SecretReferenceUri'' [])) (pa_secret_requirements a))"

definition collisions ::
  "package_payload \<Rightarrow> (string, string list) dict \<Rightarrow> node_value graph \<Rightarrow> (string \<times> string) list" where
  "collisions p owned g =
     sort_key (\<lambda>c. [fst c, snd c])
       (filter (\<lambda>c. snd c \<notin> set (dict_or owned (fst c) []) \<and> get_node (fst c) (key (snd c)) g \<noteq> None) (candidate_ids p) @
        concat (map (data_collisions owned g) (pp_applications p)) @
        concat (map (secret_collisions owned g) (pp_applications p)))"

definition conflict_error :: "(string \<times> string) list \<Rightarrow> exn" where
  "conflict_error cs = ValidationFailure (''package_conflict: '' @ join_with '', '' (map (\<lambda>c. fst c @ '':'' @ snd c) cs))"

definition owned_ids :: "package_import_attempt option \<Rightarrow> (string, string list) dict" where
  "owned_ids x = (case x of None \<Rightarrow> [] | Some t \<Rightarrow> pkg_created_ids t)"

text \<open>\<^verbatim>\<open>_attempt_by_hash\<close>: the latest attempt for the same archive.\<close>

definition attempt_by_hash :: "string \<Rightarrow> node_value graph \<Rightarrow> package_import_attempt option" where
  "attempt_by_hash h g =
     first_max pkg_started_at (filter (\<lambda>t. pkg_package_hash t = h) (coll_values package_import_attempts_coll g))"

section \<open>Materialising an Application\<close>

definition actor_of :: "string \<Rightarrow> string" where
  "actor_of rid = ''package:'' @ rid"

definition import_file :: "'z package_env \<Rightarrow> string \<Rightarrow> source_file \<Rightarrow> ('z svc_scheme, unit) op" where
  "import_file env rid f =
     bindE now_utc (\<lambda>now.
     bindE (store_op (write_source_file (env_sha env) now rid (file_path f) (file_content f) (file_role f)
        (file_language f) None)) (\<lambda>_. ret ()))"

definition import_dependency ::
  "'z package_env \<Rightarrow> string \<Rightarrow> runtime_dependency \<Rightarrow> ledger \<Rightarrow> ('z svc_scheme, ledger) op" where
  "import_dependency env rid d l =
     bindE (application_create_dependency (env_sha env) rid ''python'' (dep_package d) (dep_spec d)) (\<lambda>new.
     ret (mapped ''RuntimeDependency'' (dep_id d) (dep_id new) l))"

definition import_secret ::
  "'z package_env \<Rightarrow> string \<Rightarrow> secret_requirement \<Rightarrow> ledger \<Rightarrow> ('z svc_scheme, ledger) op" where
  "import_secret env app n l =
     bindE new_uuid (\<lambda>i. bindE now_utc (\<lambda>t1. bindE now_utc (\<lambda>t2.
     (let s = \<lparr>secret_id = i, secret_application_id = app, secret_uri = need_uri n,
            secret_backend = env_backend_kind env, secret_name = need_name n,
            secret_description = need_description n, secret_created_at = t1, secret_updated_at = t2\<rparr>
      in bindE (store_op (create_node ''SecretReference'' (key i) (SecretReferenceNode s))) (\<lambda>_.
         bindE (link (id_ref ''Application'' app) ''HAS_SECRET_REFERENCE'' (id_ref ''SecretReference'' i)) (\<lambda>_.
         ret (created ''SecretReferenceUri'' (secret_uri s)
           (created ''SecretReference'' i (mapped ''SecretReference'' (need_source_id n) i l)))))))))"

text \<open>The stable record of a definition is created once, for the first of its revisions.\<close>

definition import_stable ::
  "string \<Rightarrow> string \<Rightarrow> ('z svc_scheme, node_value) op \<Rightarrow> ledger \<Rightarrow> ('z svc_scheme, ledger) op" where
  "import_stable label i new l =
     (if i \<in> set (dict_or (snd l) label []) then ret l
      else bindE new (\<lambda>v. bindE (store_op (create_node label (key i) v)) (\<lambda>_. ret (created label i l))))"

definition import_object_type ::
  "'z package_env \<Rightarrow> string \<Rightarrow> string \<Rightarrow> object_type \<times> object_type_revision \<Rightarrow> ledger \<Rightarrow>
   ('z svc_scheme, ledger) op" where
  "import_object_type env app rid q l =
     (let sid = otype_id (fst q); src = snd q in
      bindE (import_stable ''ObjectType'' sid (bindE now_utc (\<lambda>t. ret (ObjectTypeNode
        \<lparr>otype_id = sid, otype_application_id = app, otype_active_revision_id = None, otype_created_at = t\<rparr>))) l) (\<lambda>l1.
      bindE (create_object_type (env_sha env) rid sid (otrev_name src) (otrev_properties src) (otrev_required src)) (\<lambda>new.
      ret (mapped ''ObjectTypeRevision'' (otrev_id src) (otrev_id new) l1))))"

definition import_relation_type ::
  "'z package_env \<Rightarrow> string \<Rightarrow> string \<Rightarrow> relation_type \<times> relation_type_revision \<Rightarrow> ledger \<Rightarrow>
   ('z svc_scheme, ledger) op" where
  "import_relation_type env app rid q l =
     (let sid = rtype_id (fst q); src = snd q in
      bindE (import_stable ''RelationType'' sid (bindE now_utc (\<lambda>t. ret (RelationTypeNode
        \<lparr>rtype_id = sid, rtype_application_id = app, rtype_active_revision_id = None, rtype_created_at = t\<rparr>))) l) (\<lambda>l1.
      bindE (create_relation_type (env_sha env) rid sid (rtrev_name src) (rtrev_from_object_type_id src)
        (rtrev_to_object_type_id src) (rtrev_properties src)) (\<lambda>new.
      ret (mapped ''RelationTypeRevision'' (rtrev_id src) (rtrev_id new) l1))))"

definition action_request_of :: "string \<Rightarrow> action_revision \<Rightarrow> string list \<Rightarrow> string list \<Rightarrow> action_request" where
  "action_request_of sid src deps secrets =
     \<lparr>areq_action_id = sid, areq_kind = action_kind_text (actrev_kind src), areq_entrypoint = actrev_entrypoint src,
      areq_source_paths = actrev_source_paths src, areq_input_schema = actrev_input_schema src,
      areq_output_schema = actrev_output_schema src, areq_dependency_ids = deps, areq_secret_ref_ids = secrets,
      areq_callback_refs = [], areq_capabilities = actrev_declared_capabilities src,
      areq_timeout_seconds = actrev_timeout_seconds src, areq_concurrency_policy = actrev_concurrency_policy src,
      areq_retry_policy = actrev_retry_policy src, areq_idempotency_key_policy = actrev_idempotency_key_policy src,
      areq_migration_metadata = actrev_migration_metadata src\<rparr>"

definition import_action ::
  "'z package_env \<Rightarrow> string \<Rightarrow> string \<Rightarrow> action \<times> action_revision \<Rightarrow> ledger \<Rightarrow> ('z svc_scheme, ledger) op" where
  "import_action env app rid q l =
     (let sid = act_id (fst q); src = snd q in
      bindE (import_stable ''Action'' sid (ret (ActionNode
        \<lparr>act_id = sid, act_application_id = app, act_active_revision_id = None\<rparr>)) l) (\<lambda>l1.
      bindE (lift_result (map_result (mapped_id (fst l1) ''RuntimeDependency'') (actrev_runtime_dependency_ids src))) (\<lambda>deps.
      bindE (lift_result (map_result (mapped_id (fst l1) ''SecretReference'') (actrev_secret_refs src))) (\<lambda>secrets.
      bindE (create_action (env_sha env) rid (action_request_of sid src deps secrets) (actor_of (actrev_id src))) (\<lambda>new.
      ret (mapped ''ActionRevision'' (actrev_id src) (actrev_id new) l1))))))"

definition trigger_request_of :: "string \<Rightarrow> trigger_revision \<Rightarrow> trigger_request" where
  "trigger_request_of sid src =
     \<lparr>treq_trigger_id = sid, treq_trigger_type = trigrev_trigger_type src, treq_action_id = trigrev_action_id src,
      treq_config = trigrev_config src, treq_input_template = trigrev_input_template src,
      treq_overlap_policy = Some (trigrev_overlap_policy src), treq_misfire_policy = trigrev_misfire_policy src,
      treq_max_attempts = trigrev_max_attempts src, treq_retry_policy = trigrev_retry_policy src,
      treq_enabled = trigrev_enabled src\<rparr>"

definition import_trigger ::
  "'z package_env \<Rightarrow> string \<Rightarrow> string \<Rightarrow> trigger \<times> trigger_revision \<Rightarrow> ledger \<Rightarrow> ('z svc_scheme, ledger) op" where
  "import_trigger env app rid q l =
     (let sid = trig_id (fst q); src = snd q in
      bindE (import_stable ''Trigger'' sid (bindE now_utc (\<lambda>t. ret (TriggerNode
        \<lparr>trig_id = sid, trig_application_id = app, trig_active_revision_id = None, trig_created_at = t\<rparr>))) l) (\<lambda>l1.
      bindE (create_trigger (env_sha env) (env_cron_ok env) rid (trigger_request_of sid src) ''system'') (\<lambda>new.
      ret (mapped ''TriggerRevision'' (trigrev_id src) (trigrev_id new) l1))))"

definition import_test :: "'z package_env \<Rightarrow> string \<Rightarrow> test_case \<Rightarrow> ledger \<Rightarrow> ('z svc_scheme, ledger) op" where
  "import_test env rid t l =
     bindE (create_test_case (env_sha env) rid (test_action_id t) (test_input t) (test_expected_output t)) (\<lambda>new.
     ret (mapped ''TestCase'' (test_id t) (test_id new) l))"

text \<open>The revision of the Package, the one that was created, and its source tree.\<close>

definition note_revision :: "string \<Rightarrow> string \<Rightarrow> string \<Rightarrow> string \<Rightarrow> string \<Rightarrow> ledger \<Rightarrow> ledger" where
  "note_revision label src rid src_tree tid l =
     mapped ''SourceTree'' (if src_tree = [] then rid else src_tree) tid (mapped label src rid l)"

definition materialize_application ::
  "'z package_env \<Rightarrow> package_application \<Rightarrow> ledger \<Rightarrow> ('z svc_scheme, ledger) op" where
  "materialize_application env p l =
     (let app = app_id (pa_application p); src = rev_id (pa_revision p) in
      bindE (application_create app (app_name (pa_application p)) (app_description (pa_application p))) (\<lambda>a.
      bindE (application_set_status app ''importing'' (Some [application_status_text (app_status a)])) (\<lambda>_.
      bindE (application_create_revision (env_sha env) app (actor_of src) (Some (rev_ui_profile (pa_revision p))) None) (\<lambda>r.
      bindE (reads (tree (rev_id r))) (\<lambda>t.
      bindE (for_each (import_file env (rev_id r)) (pa_source_files p)) (\<lambda>_.
      bindE (thread_op (import_dependency env (rev_id r)) (pa_dependencies p)
        (note_revision ''ApplicationRevision'' src (rev_id r) (pa_source_tree_id p) (tree_id t)
          (created ''Application'' app l))) (\<lambda>l1.
      bindE (thread_op (import_secret env app) (pa_secret_requirements p) l1) (\<lambda>l2.
      bindE (thread_op (import_object_type env app (rev_id r)) (pa_object_types p) l2) (\<lambda>l3.
      bindE (thread_op (import_relation_type env app (rev_id r)) (pa_relation_types p) l3) (\<lambda>l4.
      bindE (thread_op (import_action env app (rev_id r)) (pa_actions p) l4) (\<lambda>l5.
      bindE (thread_op (import_trigger env app (rev_id r)) (pa_triggers p) l5) (\<lambda>l6.
      thread_op (import_test env (rev_id r)) (pa_tests p) l6))))))))))))"

section \<open>Materialising an Experience\<close>

definition import_access ::
  "(string, (string, string) dict) dict \<Rightarrow> application_access_declaration \<Rightarrow> exn + application_access_declaration" where
  "import_access m d =
     (case access_secret_reference_ids d of
        None \<Rightarrow> Inr d
      | Some is \<Rightarrow> rbind (map_result (mapped_id m ''SecretReference'') is) (\<lambda>js.
          Inr (d\<lparr>access_secret_reference_ids := Some js\<rparr>)))"

definition import_javascript ::
  "'z package_env \<Rightarrow> string \<Rightarrow> runtime_dependency \<Rightarrow> ledger \<Rightarrow> ('z svc_scheme, ledger) op" where
  "import_javascript env rid d l =
     bindE (experience_create_dependency (env_sha env) rid ''javascript'' (dep_package d) (dep_spec d)) (\<lambda>new.
     ret (mapped ''RuntimeDependency'' (dep_id d) (dep_id new) l))"

definition surface_request_of :: "experience_surface \<Rightarrow> surface_request" where
  "surface_request_of f =
     \<lparr>sreq_surface_id = surf_surface_id f, sreq_surface_type = surf_surface_type f,
      sreq_surface_type_version = surf_surface_type_version f, sreq_entrypoint = surf_entrypoint f,
      sreq_source_paths = surf_source_paths f, sreq_title = surf_title f, sreq_description = surf_description f,
      sreq_config = surf_config f\<rparr>"

definition import_surface ::
  "'z package_env \<Rightarrow> string \<Rightarrow> string \<Rightarrow> experience_surface \<Rightarrow> ledger \<Rightarrow> ('z svc_scheme, ledger) op" where
  "import_surface env rid created_by f l =
     bindE (surface_create (env_sha env) (env_registry env) rid (surface_request_of f) created_by) (\<lambda>new.
     ret (mapped ''ExperienceSurface'' (surf_id f) (surf_id new) l))"

definition materialize_experience ::
  "'z package_env \<Rightarrow> package_experience \<Rightarrow> ledger \<Rightarrow> ('z svc_scheme, ledger) op" where
  "materialize_experience env p l =
     (let i = exp_id (px_experience p); src = px_revision p; actor = actor_of (exprev_id src) in
      bindE now_utc (\<lambda>now.
      bindE (store_op (create_node ''Experience'' (key i) (ExperienceNode ((px_experience p)
         \<lparr>exp_active_revision_id := None, exp_status := App_active, exp_created_at := now\<rparr>)))) (\<lambda>_.
      bindE (writes (experience_attach_to_root i)) (\<lambda>_.
      bindE (lift_result (map_result (import_access (fst l)) (exprev_application_access src))) (\<lambda>access.
      bindE (experience_create_revision (env_sha env) i actor (Some (exprev_ui_profile src)) None (Some access)) (\<lambda>r.
      bindE (reads (tree (exprev_id r))) (\<lambda>t.
      bindE (for_each (import_file env (exprev_id r)) (px_source_files p)) (\<lambda>_.
      bindE (thread_op (import_javascript env (exprev_id r)) (px_dependencies p)
        (note_revision ''ExperienceRevision'' (exprev_id src) (exprev_id r) (px_source_tree_id p) (tree_id t)
          (created ''Experience'' i l))) (\<lambda>l1.
      thread_op (import_surface env (exprev_id r) actor) (px_surfaces p) l1)))))))))"

section \<open>The attempt\<close>

definition source_ids_of :: "package_payload \<Rightarrow> (string, json) dict" where
  "source_ids_of p =
     [(''applications'', JArr (map (\<lambda>a. JStr (rev_id (pa_revision a))) (pp_applications p))),
      (''experience'', json_opt (map_option (\<lambda>x. exprev_id (px_revision x)) (pp_experience p)))]"

definition new_attempt :: "package_manifest \<Rightarrow> bool \<Rightarrow> ('z svc_scheme, package_import_attempt) op" where
  "new_attempt m restore =
     bindE new_uuid (\<lambda>i. bindE now_utc (\<lambda>t.
     ret \<lparr>pkg_id = i, pkg_package_hash = man_package_hash m, pkg_status = Import_running, pkg_phase = ''created'',
       pkg_root_kind = man_root_kind m, pkg_root_id = man_root_id m, pkg_include_data = man_include_data m,
       pkg_restore_data = restore, pkg_source_ids = [], pkg_id_map = [], pkg_created_ids = [],
       pkg_completed_members = [], pkg_data_counts = [], pkg_error = None, pkg_started_at = t,
       pkg_completed_at = None\<rparr>))"

definition begin_attempt ::
  "package_manifest \<Rightarrow> package_import_attempt option \<Rightarrow> bool \<Rightarrow> ('z svc_scheme, package_import_attempt) op" where
  "begin_attempt m existing restore =
     (case existing of
        Some t \<Rightarrow> ret t
      | None \<Rightarrow> bindE (new_attempt m restore) (\<lambda>t.
          bindE (store_op (create_node ''PackageImportAttempt'' (key (pkg_id t)) (PackageImportAttemptNode t))) (\<lambda>_.
          bindE (link root_ref ''HAS_PACKAGE_IMPORT_ATTEMPT'' (id_ref ''PackageImportAttempt'' (pkg_id t))) (\<lambda>_.
          ret t))))"

definition materialize ::
  "'z package_env \<Rightarrow> package_manifest \<Rightarrow> package_payload \<Rightarrow> package_import_attempt option \<Rightarrow> bool \<Rightarrow>
   ('z svc_scheme, package_import_attempt) op" where
  "materialize env m p existing restore = atomically
     (bindE (asks (collisions p (owned_ids existing))) (\<lambda>cs.
      bindE (require (cs = []) (conflict_error cs)) (\<lambda>_.
      bindE (begin_attempt m existing restore) (\<lambda>t.
      bindE (thread_op (materialize_application env) (pp_applications p) (pkg_id_map t, pkg_created_ids t)) (\<lambda>l1.
      bindE (case pp_experience p of None \<Rightarrow> ret l1 | Some x \<Rightarrow> materialize_experience env x l1) (\<lambda>l2.
      (let u = t\<lparr>pkg_phase := ''materialized'', pkg_id_map := fst l2, pkg_created_ids := snd l2,
             pkg_source_ids := source_ids_of p\<rparr>
       in bindE (save_to package_import_attempts_coll u) (\<lambda>_. ret u))))))))"

definition materialize_or_resume ::
  "'z package_env \<Rightarrow> package_manifest \<Rightarrow> package_payload \<Rightarrow> package_import_attempt option \<Rightarrow> bool \<Rightarrow>
   ('z svc_scheme, package_import_attempt) op" where
  "materialize_or_resume env m p existing restore =
     (case existing of
        Some t \<Rightarrow>
          if pkg_phase t \<noteq> ''created''
          then atomically (let u = t\<lparr>pkg_status := Import_running, pkg_error := None, pkg_completed_at := None\<rparr>
            in bindE (save_to package_import_attempts_coll u) (\<lambda>_. ret u))
          else materialize env m p existing restore
      | None \<Rightarrow> materialize env m p existing restore)"

section \<open>Restoring data\<close>

definition import_object ::
  "string \<Rightarrow> package_import_attempt \<Rightarrow> application_object \<Rightarrow> ledger \<Rightarrow> ('z svc_scheme, ledger) op" where
  "import_object app current x l =
     bindE (lift_result (case obj_object_type_revision_id x of
        None \<Rightarrow> Inr None
      | Some i \<Rightarrow> rbind (mapped_id (pkg_id_map current) ''ObjectTypeRevision'' i) (\<lambda>j. Inr (Some j)))) (\<lambda>tr.
     (let y = x\<lparr>obj_application_id := app, obj_data_space_id := ''production'', obj_object_type_revision_id := tr\<rparr> in
      bindE (store_op (create_node ''ApplicationObject'' (object_key app ''production'' (obj_id y))
        (ApplicationObjectNode y))) (\<lambda>_.
      bindE (writes (object_attach y None)) (\<lambda>_.
      ret (created ''ApplicationObject'' (obj_id y) l)))))"

definition import_relation ::
  "(string \<Rightarrow> string) \<Rightarrow> string \<Rightarrow> package_import_attempt \<Rightarrow> app_relation \<Rightarrow> ledger \<Rightarrow> ('z svc_scheme, ledger) op" where
  "import_relation sha app current x l =
     bindE (lift_result (case rel_relation_type_revision_id x of
        None \<Rightarrow> Inr None
      | Some i \<Rightarrow> rbind (mapped_id (pkg_id_map current) ''RelationTypeRevision'' i) (\<lambda>j. Inr (Some j)))) (\<lambda>tr.
     (let y = x\<lparr>rel_application_id := app, rel_data_space_id := ''production'', rel_relation_type_revision_id := tr,
            rel_physical_type := Some (relation_physical_type sha (rel_relation_type_id x)),
            rel_created_by_invocation_id := None, rel_updated_by_invocation_id := None\<rparr> in
      bindE (store_op (relation_save y)) (\<lambda>_.
      ret (created ''ApplicationRelation'' (rel_id y) l))))"

definition restore_application ::
  "'z package_env \<Rightarrow> package_import_attempt \<Rightarrow> package_application \<Rightarrow> ('z svc_scheme, package_import_attempt) op" where
  "restore_application env attempt p =
     (let app = app_id (pa_application p); marker = ''data:'' @ app in
      if marker \<in> set (pkg_completed_members attempt) then ret attempt
      else atomically
        (bindE (item_of package_import_attempts_coll (key (pkg_id attempt))) (\<lambda>current.
         bindE (for_each (\<lambda>x. bindE (asks (get_node ''ApplicationObject'' (object_key app ''production'' (obj_id x)))) (\<lambda>n.
           require (n = None) (ValidationFailure (''package_conflict: ApplicationObject:'' @ obj_id x)))) (pa_objects p)) (\<lambda>_.
         bindE (for_each (\<lambda>x. bindE (asks (get_app_relation app ''production'' (rel_id x))) (\<lambda>n.
           require (n = None) (ValidationFailure (''package_conflict: ApplicationRelation:'' @ rel_id x)))) (pa_relations p)) (\<lambda>_.
         bindE (thread_op (import_object app current) (pa_objects p) (pkg_id_map current, pkg_created_ids current)) (\<lambda>l1.
         bindE (thread_op (import_relation (env_sha env) app current) (pa_relations p) l1) (\<lambda>l2.
         (let u = current\<lparr>pkg_phase := ''data_restored'',
                pkg_completed_members := pkg_completed_members current @ [marker],
                pkg_data_counts := dict_set (app @ ''.relations'') (int (length (pa_relations p)))
                  (dict_set (app @ ''.objects'') (int (length (pa_objects p))) (pkg_data_counts current)),
                pkg_created_ids := snd l2\<rparr>
          in bindE (save_to package_import_attempts_coll u) (\<lambda>_. ret u)))))))))"

definition restore_data ::
  "'z package_env \<Rightarrow> package_payload \<Rightarrow> bool \<Rightarrow> package_import_attempt \<Rightarrow> ('z svc_scheme, package_import_attempt) op" where
  "restore_data env p restore attempt =
     (if restore then thread_op (\<lambda>a t. restore_application env t a) (pp_applications p) attempt else ret attempt)"

section \<open>Activation\<close>

definition reopen_application :: "string \<Rightarrow> ('z svc_scheme, unit) op" where
  "reopen_application rid = atomically
     (bindE (item_of revisions_coll (key rid)) (\<lambda>r.
      if rev_status r = Rev_rejected then save_to revisions_coll (r\<lparr>rev_status := Rev_validating\<rparr>) else ret ()))"

definition reopen_experience :: "string \<Rightarrow> ('z svc_scheme, unit) op" where
  "reopen_experience rid = atomically
     (bindE (item_of experience_revisions_coll (key rid)) (\<lambda>r.
      if exprev_status r = Rev_rejected
      then save_to experience_revisions_coll (r\<lparr>exprev_status := Rev_validating\<rparr>) else ret ()))"

text \<open>The attempt with one more completed member and its phase.\<close>

definition complete_member ::
  "string \<Rightarrow> string \<Rightarrow> package_import_attempt \<Rightarrow> ('z svc_scheme, package_import_attempt) op" where
  "complete_member phase marker current =
     (let u = current\<lparr>pkg_phase := phase, pkg_completed_members := pkg_completed_members current @ [marker]\<rparr>
      in bindE (save_to package_import_attempts_coll u) (\<lambda>_. ret u))"

definition activate_imported ::
  "'z package_env \<Rightarrow> package_import_attempt \<Rightarrow> package_application \<Rightarrow> ('z svc_scheme, package_import_attempt) op" where
  "activate_imported env attempt p =
     (let app = app_id (pa_application p); marker = ''application:'' @ app in
      if marker \<in> set (pkg_completed_members attempt) then ret attempt
      else
        bindE (lift_result (mapped_id (pkg_id_map attempt) ''ApplicationRevision'' (rev_id (pa_revision p)))) (\<lambda>rid.
        bindE (reopen_application rid) (\<lambda>_.
        bindE (activate (env_sha env) (env_activation env) Policy_package_install rid) (\<lambda>_.
        atomically
          (bindE (item_of package_import_attempts_coll (key (pkg_id attempt))) (\<lambda>current.
           bindE (application_set_status app ''triggers_paused'' (Some [''importing''])) (\<lambda>_.
           complete_member ''applications_activated'' marker current)))))))"

definition activate_applications ::
  "'z package_env \<Rightarrow> package_payload \<Rightarrow> package_import_attempt \<Rightarrow> ('z svc_scheme, package_import_attempt) op" where
  "activate_applications env p attempt = thread_op (\<lambda>a t. activate_imported env t a) (pp_applications p) attempt"

definition activate_experience ::
  "'z package_env \<Rightarrow> package_payload \<Rightarrow> package_import_attempt \<Rightarrow> ('z svc_scheme, package_import_attempt) op" where
  "activate_experience env p attempt =
     (case pp_experience p of
        None \<Rightarrow> ret attempt
      | Some x \<Rightarrow>
          if ''experience'' \<in> set (pkg_completed_members attempt) then ret attempt
          else
            bindE (lift_result (mapped_id (pkg_id_map attempt) ''ExperienceRevision'' (exprev_id (px_revision x)))) (\<lambda>rid.
            bindE (reopen_experience rid) (\<lambda>_.
            bindE (experience_activate (env_sha env) (env_experience env) rid) (\<lambda>_.
            atomically
              (bindE (item_of package_import_attempts_coll (key (pkg_id attempt))) (\<lambda>current.
               complete_member ''experience_activated'' ''experience'' current))))))"

definition disable_imported ::
  "package_payload \<Rightarrow> package_import_attempt \<Rightarrow> ('z svc_scheme, package_import_attempt) op" where
  "disable_imported p attempt = atomically
     (bindE (item_of package_import_attempts_coll (key (pkg_id attempt))) (\<lambda>current.
      bindE (for_each (\<lambda>a. bindE (application_set_status (app_id (pa_application a)) ''disabled''
         (Some [''disabled'', ''importing''])) (\<lambda>_. ret ())) (pp_applications p)) (\<lambda>_.
      bindE (case pp_experience p of
          None \<Rightarrow> ret ()
        | Some x \<Rightarrow> bindE (item_of experiences_coll (key (exp_id (px_experience x)))) (\<lambda>e.
            if exp_status e \<noteq> App_disabled then save_to experiences_coll (e\<lparr>exp_status := App_disabled\<rparr>) else ret ())) (\<lambda>_.
      (let u = current\<lparr>pkg_phase := ''disabled''\<rparr>
       in bindE (save_to package_import_attempts_coll u) (\<lambda>_. ret u))))))"

section \<open>The import\<close>

record import_result =
  imp_attempt :: package_import_attempt
  imp_package_hash :: string
  imp_omitted_bindings :: "omitted_binding list"
  imp_unbound_secret_uris :: "string list"
  imp_paused_application_ids :: "string list"
  imp_activated :: bool

definition attempt_result :: "package_import_attempt \<Rightarrow> package_manifest \<Rightarrow> bool \<Rightarrow> import_result" where
  "attempt_result t m compatible =
     \<lparr>imp_attempt = t, imp_package_hash = man_package_hash m, imp_omitted_bindings = man_omitted_bindings m,
      imp_unbound_secret_uris = sort (dict_or (pkg_created_ids t) ''SecretReferenceUri'' []),
      imp_paused_application_ids = sort (dict_or (pkg_created_ids t) ''Application'' []),
      imp_activated = compatible\<rparr>"

datatype import_outcome =
    Dry_run "(string \<times> string \<times> string) list" bool "(string \<times> string) list" "string option"
  | Imported import_result

definition end_attempt ::
  "package_import_status \<Rightarrow> (package_import_attempt \<Rightarrow> package_import_attempt) \<Rightarrow> string \<Rightarrow>
   ('z svc_scheme, package_import_attempt) op" where
  "end_attempt st change i = atomically
     (bindE (item_of package_import_attempts_coll (key i)) (\<lambda>current.
      bindE now_utc (\<lambda>t.
      (let u = (change current)\<lparr>pkg_status := st, pkg_completed_at := Some t\<rparr>
       in bindE (save_to package_import_attempts_coll u) (\<lambda>_. ret u)))))"

text \<open>The code under \<^verbatim>\<open>try\<close>, and its handler.\<close>

definition carry_out ::
  "'z package_env \<Rightarrow> package_manifest \<Rightarrow> package_payload \<Rightarrow> bool \<Rightarrow> bool \<Rightarrow> package_import_attempt \<Rightarrow>
   ('z svc_scheme, import_outcome) op" where
  "carry_out env m p compatible restore attempt =
     bindE (if compatible
       then bindE (restore_data env p restore attempt) (\<lambda>t1.
            bindE (activate_applications env p t1) (\<lambda>t2.
            activate_experience env p t2))
       else disable_imported p attempt) (\<lambda>t.
     bindE (end_attempt Import_succeeded
       (\<lambda>c. c\<lparr>pkg_phase := (if compatible then ''completed'' else ''completed_disabled''), pkg_error := None\<rparr>)
       (pkg_id t)) (\<lambda>u.
     bindE (if compatible then env_remount env else ret ()) (\<lambda>_.
     ret (Imported (attempt_result u m compatible)))))"

definition fail_attempt :: "string \<Rightarrow> exn \<Rightarrow> ('z svc_scheme, 'a) op" where
  "fail_attempt i e =
     bindE (end_attempt Import_failed (\<lambda>c. c\<lparr>pkg_error := Some (exn_text e)\<rparr>) i) (\<lambda>_.
     raise (ValidationFailure (''package_import_failed: '' @ exn_text e)))"

text \<open>\<open>restore_arg\<close> is the optional argument \<^verbatim>\<open>restore_data\<close>.\<close>

definition restores :: "package_manifest \<Rightarrow> bool \<Rightarrow> bool option \<Rightarrow> bool" where
  "restores m compatible restore_arg \<longleftrightarrow>
     compatible \<and> (case restore_arg of None \<Rightarrow> man_include_data m | Some b \<Rightarrow> b)"

definition import_payload ::
  "'z package_env \<Rightarrow> bool \<Rightarrow> bool option \<Rightarrow> bool \<Rightarrow> package_manifest \<times> package_payload \<Rightarrow>
   ('z svc_scheme, import_outcome) op" where
  "import_payload env dry_run restore_arg allow_incompatible mp =
     (let m = fst mp; p = snd mp;
          disagree = disagreements (env_versions env) m; compatible = (disagree = []);
          ready = materializable (env_versions env) m; restore = restores m compatible restore_arg
      in if \<not> compatible \<and> \<not> (dry_run \<or> allow_incompatible \<and> ready)
         then raise (ValidationFailure ''package_incompatible'')
         else if restore \<and> \<not> man_include_data m then raise (ValidationFailure ''Package contains no data'')
         else
           bindE (asks (attempt_by_hash (man_package_hash m))) (\<lambda>existing.
           bindE (asks (collisions p (owned_ids existing))) (\<lambda>cs.
           if dry_run then ret (Dry_run disagree ready cs (map_option pkg_id existing))
           else if cs \<noteq> [] then raise (conflict_error cs)
           else bindE (materialize_or_resume env m p existing restore) (\<lambda>attempt.
                try_catch (carry_out env m p compatible restore attempt) (fail_attempt (pkg_id attempt))))))"

record ('b, 'f) package_world = "'b secret_world" +
  pkg_dir :: "'f archive_dir"

definition on_archives :: "('f archive_dir, 'a) op \<Rightarrow> (('b, 'f, 'z) package_world_scheme, 'a) op" where
  "on_archives m s = (case m (pkg_dir s) of (r, d) \<Rightarrow> (r, s\<lparr>pkg_dir := d\<rparr>))"

definition import_package where
  "import_package env codec fmt name dry_run restore_arg allow_incompatible =
     bindE (\<lambda>s. (read_archive (env_sha env) codec fmt name (pkg_dir s), s)) (\<lambda>mp.
     import_payload env dry_run restore_arg allow_incompatible mp)"

section \<open>Inspection\<close>

definition inspect_import :: "string \<Rightarrow> node_value graph \<Rightarrow> exn + package_import_attempt" where
  "inspect_import i g = coll_item package_import_attempts_coll (key i) g"

record package_inspection =
  insp_manifest :: package_manifest
  insp_compatible :: bool
  insp_materializable :: bool
  insp_disagreements :: "(string \<times> string \<times> string) list"
  insp_collisions :: "(string \<times> string) list"
  insp_summary :: package_summary

definition inspect_archive where
  "inspect_archive env codec fmt name s =
     rbind (read_archive (env_sha env) codec fmt name (pkg_dir s)) (\<lambda>(m, p).
     (let ds = disagreements (env_versions env) m in
      Inr \<lparr>insp_manifest = m, insp_compatible = (ds = []), insp_materializable = materializable (env_versions env) m,
           insp_disagreements = ds, insp_collisions = collisions p [] (svc_graph s),
           insp_summary = summary_of (if man_root_kind m = Pkg_experience then ''experience'' else ''application'')
             (man_root_id m) (man_include_data m) p (man_omitted_bindings m)\<rparr>))"

end
