(* ===== verification/Package_Deletion.thy ===== *)
theory Package_Deletion
  imports Package_Import
begin

text \<open>
  Deleting a working set (\<^verbatim>\<open>PackageService.delete_working_set\<close>): refused while an Experience that
  stays refers to an Application that goes; the set is exported with its data first, the values of
  its secrets are deleted from the backend, and one unit of work removes every record it owns.
\<close>

section \<open>Refusals\<close>

definition experience_references :: "string \<Rightarrow> string option \<Rightarrow> node_value graph \<Rightarrow> string list" where
  "experience_references app ignored g =
     map exprev_id (filter (\<lambda>r. (ignored = None \<or> ignored \<noteq> Some (exprev_experience_id r)) \<and>
         list_ex (\<lambda>d. access_application_id d = app) (exprev_application_access r))
       (coll_values experience_revisions_coll g))"

definition refuse_if_experience_references :: "string \<Rightarrow> string option \<Rightarrow> node_value graph \<Rightarrow> exn + unit" where
  "refuse_if_experience_references app ignored g =
     (let rs = experience_references app ignored g in
      if rs \<noteq> [] then Inl (ValidationFailure (''application is referenced by Experience revisions: '' @ join_with '', '' rs))
      else Inr ())"

definition refuse_if_shared_applications :: "string \<Rightarrow> node_value graph \<Rightarrow> exn + unit" where
  "refuse_if_shared_applications xid g =
     (case coll_get experiences_coll (key xid) g of
        None \<Rightarrow> Inr ()
      | Some x \<Rightarrow> (case exp_active_revision_id x of
            None \<Rightarrow> Inr ()
          | Some rid \<Rightarrow> (case coll_get experience_revisions_coll (key rid) g of
                None \<Rightarrow> Inr ()
              | Some r \<Rightarrow> rbind (map_result (\<lambda>d. refuse_if_experience_references (access_application_id d) (Some xid) g)
                  (exprev_application_access r)) (\<lambda>_. Inr ()))))"

definition refuse_deletion :: "string \<Rightarrow> string \<Rightarrow> node_value graph \<Rightarrow> exn + unit" where
  "refuse_deletion kind i g =
     (if kind = ''application'' then refuse_if_experience_references i None g
      else if kind = ''experience'' then refuse_if_shared_applications i g else Inr ())"

section \<open>Removing records\<close>

definition delete_where :: "'m collection \<Rightarrow> ('m \<Rightarrow> bool) \<Rightarrow> node_value graph \<Rightarrow> node_value graph" where
  "delete_where c P g = fold (\<lambda>m. coll_delete c (coll_identity c m)) (filter P (coll_values c g)) g"

text \<open>Steps on the graph, one after the other.\<close>

definition steps :: "(node_value graph \<Rightarrow> node_value graph) list \<Rightarrow> node_value graph \<Rightarrow> node_value graph" where
  "steps fs g = fold (\<lambda>f. f) fs g"

definition owned_secret_uris :: "string list \<Rightarrow> node_value graph \<Rightarrow> string list" where
  "owned_secret_uris apps g =
     map secret_uri (filter (\<lambda>s. secret_application_id s \<in> set apps) (coll_values secret_references_coll g))"

definition pins_working_set :: "string list \<Rightarrow> string list \<Rightarrow> development_deployment \<Rightarrow> bool" where
  "pins_working_set apps xrevs d \<longleftrightarrow>
     (\<exists>a\<in>set apps. a \<in> set (map fst (deploy_application_revision_ids d)) \<or> a \<in> set (map fst (deploy_data_space_ids d))) \<or>
     deploy_experience_revision_id d \<in> set xrevs"

definition delete_pinning_deployments ::
  "string list \<Rightarrow> string option \<Rightarrow> node_value graph \<Rightarrow> node_value graph" where
  "delete_pinning_deployments apps xid g =
     (let xrevs = (case xid of None \<Rightarrow> []
          | Some i \<Rightarrow> map exprev_id (filter (\<lambda>r. exprev_experience_id r = i) (coll_values experience_revisions_coll g)))
      in fold (\<lambda>d. coll_delete development_deployments_coll (key (deploy_id d)))
           (filter (pins_working_set apps xrevs) (coll_values development_deployments_coll g)) g)"

definition drop_draft_trees :: "string list \<Rightarrow> node_value graph \<Rightarrow> node_value graph" where
  "drop_draft_trees rids g =
     fold (\<lambda>t. coll_delete source_trees_coll (key (tree_id t)))
       (filter (\<lambda>t. tree_status t = Tree_draft \<and> (case tree_owner_id t of None \<Rightarrow> False | Some o' \<Rightarrow> o' \<in> set rids))
          (coll_values source_trees_coll g)) g"

definition delete_owned_revision_runtime :: "string list \<Rightarrow> node_value graph \<Rightarrow> node_value graph" where
  "delete_owned_revision_runtime rids = steps
     [drop_draft_trees rids,
      delete_where python_environments_coll (\<lambda>e. pyenv_application_revision_id e \<in> set rids),
      delete_where javascript_environments_coll (\<lambda>e. jsenv_owner_id e \<in> set rids),
      delete_where build_artifacts_coll (\<lambda>a. art_owner_id a \<in> set rids),
      delete_where build_invocations_coll (\<lambda>b. binv_owner_id b \<in> set rids)]"

text \<open>The ids the predicates of \<^verbatim>\<open>_delete_application_subgraph\<close> use, computed before anything is deleted.\<close>

record owned_members =
  mem_revisions :: "string list"
  mem_object_types :: "string list"
  mem_relation_types :: "string list"
  mem_actions :: "string list"
  mem_triggers :: "string list"
  mem_action_revisions :: "string list"
  mem_jobs :: "string list"
  mem_checkpoints :: "string list"

definition ids_where :: "'m collection \<Rightarrow> ('m \<Rightarrow> string) \<Rightarrow> ('m \<Rightarrow> bool) \<Rightarrow> node_value graph \<Rightarrow> string list" where
  "ids_where c the_id P g = map the_id (filter P (coll_values c g))"

definition application_members :: "string \<Rightarrow> node_value graph \<Rightarrow> exn + owned_members" where
  "application_members app g =
     (let rids = ids_where revisions_coll rev_id (\<lambda>r. rev_application_id r = app) g in
      rbind (map_result (\<lambda>rid. action_revisions rid g) rids) (\<lambda>bound.
      Inr \<lparr>mem_revisions = rids,
           mem_object_types = ids_where object_types_coll otype_id (\<lambda>t. otype_application_id t = app) g,
           mem_relation_types = ids_where relation_types_coll rtype_id (\<lambda>t. rtype_application_id t = app) g,
           mem_actions = ids_where actions_coll act_id (\<lambda>t. act_application_id t = app) g,
           mem_triggers = ids_where triggers_coll trig_id (\<lambda>t. trig_application_id t = app) g,
           mem_action_revisions = map actrev_id (concat bound),
           mem_jobs = ids_where job_records_coll job_id (\<lambda>j. job_application_id j = app) g,
           mem_checkpoints = ids_where checkpoints_coll ckpt_id (\<lambda>c. ckpt_application_id c = app) g\<rparr>))"

definition drop_relations :: "string \<Rightarrow> node_value graph \<Rightarrow> node_value graph" where
  "drop_relations app g =
     fold relation_delete (filter (\<lambda>r. rel_application_id r = app) (relation_list_all g)) g"

definition drop_steps :: "string \<Rightarrow> owned_members \<Rightarrow> (node_value graph \<Rightarrow> node_value graph) list" where
  "drop_steps app m =
     [drop_relations app,
      delete_where objects_coll (\<lambda>x. obj_application_id x = app),
      delete_where data_spaces_coll (\<lambda>x. space_application_id x = app),
      delete_where job_attempts_coll (\<lambda>x. att_job_id x \<in> set (mem_jobs m)),
      delete_where job_records_coll (\<lambda>x. job_application_id x = app),
      delete_where cypher_audits_coll (\<lambda>x. audit_application_id x = app),
      delete_where invocations_coll (\<lambda>x. inv_action_revision_id x \<in> set (mem_action_revisions m)),
      delete_where checkpoint_blobs_coll (\<lambda>x. cblob_checkpoint_id x \<in> set (mem_checkpoints m)),
      delete_where checkpoint_snapshots_coll (\<lambda>x. snap_checkpoint_id x \<in> set (mem_checkpoints m)),
      delete_where checkpoints_coll (\<lambda>x. ckpt_application_id x = app),
      delete_where credential_records_coll (\<lambda>x. cred_application_id x = app),
      delete_where callback_routes_coll (\<lambda>x. route_application_id x = app),
      delete_where secret_references_coll (\<lambda>x. secret_application_id x = app),
      delete_where validation_reports_coll (\<lambda>x. report_application_revision_id x \<in> set (mem_revisions m)),
      delete_owned_revision_runtime (mem_revisions m),
      delete_where triggers_coll (\<lambda>x. trig_id x \<in> set (mem_triggers m)),
      delete_where actions_coll (\<lambda>x. act_id x \<in> set (mem_actions m)),
      delete_where object_types_coll (\<lambda>x. otype_id x \<in> set (mem_object_types m)),
      delete_where relation_types_coll (\<lambda>x. rtype_id x \<in> set (mem_relation_types m)),
      steps (map (\<lambda>i. coll_delete revisions_coll (key i)) (mem_revisions m)),
      coll_delete applications_coll (key app)]"

definition drop_application :: "string \<Rightarrow> owned_members \<Rightarrow> node_value graph \<Rightarrow> node_value graph" where
  "drop_application app m = steps (drop_steps app m)"

definition delete_application_subgraph :: "string \<Rightarrow> ('z svc_scheme, unit) op" where
  "delete_application_subgraph app =
     bindE (reads (application_members app)) (\<lambda>m. writes (drop_application app m))"

definition drop_experience :: "string \<Rightarrow> node_value graph \<Rightarrow> node_value graph" where
  "drop_experience xid g =
     (let rids = ids_where experience_revisions_coll exprev_id (\<lambda>r. exprev_experience_id r = xid) g
      in steps
        [delete_where experience_validation_reports_coll (\<lambda>x. xreport_experience_revision_id x \<in> set rids),
         delete_owned_revision_runtime rids,
         steps (map (\<lambda>i. coll_delete experience_revisions_coll (key i)) rids),
         coll_delete experiences_coll (key xid)] g)"

definition delete_experience_subgraph :: "string \<Rightarrow> ('z svc_scheme, unit) op" where
  "delete_experience_subgraph xid = writes (drop_experience xid)"

section \<open>The deletion\<close>

definition delete_records :: "string list \<Rightarrow> string option \<Rightarrow> ('z svc_scheme, unit) op" where
  "delete_records apps xid = atomically
     (bindE (writes (delete_pinning_deployments apps xid)) (\<lambda>_.
      bindE (for_each delete_application_subgraph apps) (\<lambda>_.
      bindE (case xid of None \<Rightarrow> ret () | Some i \<Rightarrow> delete_experience_subgraph i) (\<lambda>_.
      bindE (store_op delete_interned_orphans) (\<lambda>_. ret ())))))"

definition delete_owned_secret_values ::
  "(string \<Rightarrow> ('b, unit) op) \<Rightarrow> string list \<Rightarrow> (('b, 'z) secret_world_scheme, unit) op" where
  "delete_owned_secret_values bdelete apps =
     bindE (asks (owned_secret_uris apps)) (\<lambda>uris. for_each (\<lambda>u. on_backend (bdelete u)) uris)"

definition export_here where
  "export_here env codec fmt kind i name include_data overwrite s =
     on_archives (export (env_sha env) codec fmt (env_versions env) kind i name include_data overwrite (svc_graph s)) s"

definition delete_working_set where
  "delete_working_set env codec fmt bdelete kind i name confirmation overwrite =
     bindE (require (confirmation = i) (ValidationFailure (''confirmation_root_id does not match root_id: '' @ i))) (\<lambda>_.
     bindE (reads (refuse_deletion kind i)) (\<lambda>_.
     bindE (export_here env codec fmt kind i name True overwrite) (\<lambda>exported.
     (let apps = sum_application_ids (fst exported); xid = sum_experience_id (fst exported) in
      bindE (delete_owned_secret_values bdelete apps) (\<lambda>_.
      bindE (delete_records apps xid) (\<lambda>_.
      bindE (env_remount env) (\<lambda>_.
      ret exported)))))))"

end
