(* ===== verification/Binding_Laws.thy ===== *)
theory Binding_Laws
  imports System_Definitions
begin

text \<open>
  What a declaration does to a draft: the draft is bound to the declared revision in place of the one
  it was bound to under that name, and to every other revision as before. Proved once for the
  declarations that go through \<^verbatim>\<open>RevisionBindings\<close> (\<^verbatim>\<open>graph/bindings.py\<close>), as a locale over the
  collection of the revisions, with an interpretation for each kind of declaration.
\<close>

section \<open>Mapping over results, pointwise\<close>

lemma map_result_all2: "map_result f xs = Inr ys \<longleftrightarrow> list_all2 (\<lambda>x y. f x = Inr y) xs ys"
  by (induction xs arbitrary: ys) (auto simp: rbind_eq_Inr list_all2_Cons1)

lemma list_all2_filter:
  assumes "list_all2 R xs ys" and "\<And>x y. x \<in> set xs \<Longrightarrow> R x y \<Longrightarrow> P x \<longleftrightarrow> Q y"
  shows "list_all2 R (filter P xs) (filter Q ys)"
  using assms by (induction rule: list_all2_induct) auto

lemma list_all2_in: "list_all2 R xs ys \<Longrightarrow> y \<in> set ys \<Longrightarrow> \<exists>x\<in>set xs. R x y"
  by (induction rule: list_all2_induct) auto

lemma list_all2_in1: "list_all2 R xs ys \<Longrightarrow> x \<in> set xs \<Longrightarrow> \<exists>y\<in>set ys. R x y"
  by (induction rule: list_all2_induct) auto

section \<open>The collection keeps what a revision binds\<close>

lemma map_of_filter_key: "map_of (filter (\<lambda>n. P (fst n)) d) k = (if P k then map_of d k else None)"
  by (induction d) auto

lemma revision_not_interned: "l \<in> set revision_labels \<Longrightarrow> l \<notin> set interned_labels"
  by (auto simp: revision_labels_def interned_labels_def)

lemma gc_keeps_bindings:
  assumes t: "typed_graph g" and run: "delete_interned_orphans g = (Inr d, g')" and l: "l \<in> set revision_labels"
  shows "list_edges (Some (id_ref l rid)) (Some et) None g' = list_edges (Some (id_ref l rid)) (Some et) None g"
    and "e \<in> set (list_edges (Some (id_ref l rid)) (Some et) None g) \<Longrightarrow> edge_to e = id_ref k i \<Longrightarrow>
      get_node k (key i) g' = get_node k (key i) g"
proof -
  have "gc_loop (Suc (node_count g)) [] g = (Inr d, g')" using run by (simp only: delete_interned_orphans_def)
  from gc_loop_prunes [OF t this] obtain S where S: "S \<subseteq> dead_refs g" "pruned S g g'" by blast
  have live: "edge_to e \<notin> S" if "e \<in> set (list_edges (Some (id_ref l rid)) (Some et) None g)" for e
  proof -
    from that have "e \<in> set (edges g)" "edge_from e = id_ref l rid" by (auto simp: list_edges_def matches_edge_def)
    then have "live g (edge_to e)" using l by (intro live.from_revision) (auto simp: revision_labels_def)
    with S(1) show ?thesis by (auto simp: dead_refs_def)
  qed
  have from_kept: "id_ref l rid \<notin> S"
    using S(1) revision_not_interned [OF l] by (auto simp: dead_refs_def)
  have "matches_edge (Some (id_ref l rid)) (Some et) None e \<and> edge_from e \<notin> S \<and> edge_to e \<notin> S \<longleftrightarrow>
      matches_edge (Some (id_ref l rid)) (Some et) None e" if "e \<in> set (edges g)" for e
    using that live [of e] from_kept by (auto simp: list_edges_def matches_edge_def)
  then show "list_edges (Some (id_ref l rid)) (Some et) None g' = list_edges (Some (id_ref l rid)) (Some et) None g"
    using S(2) by (simp add: list_edges_def pruned_def conj_commute cong: filter_cong)
  show "get_node k (key i) g' = get_node k (key i) g"
    if "e \<in> set (list_edges (Some (id_ref l rid)) (Some et) None g)" and "edge_to e = id_ref k i"
    using live [OF that(1)] that(2) S(2) map_of_filter_key [of "\<lambda>li. NodeRef (fst li) (snd li) \<notin> S" "nodes g" "(k, key i)"]
    by (simp add: pruned_def get_node_def id_ref_key)
qed

text \<open>The edges of a type lead to nodes of one label.\<close>

definition targets_labelled :: "string \<Rightarrow> string \<Rightarrow> node_value graph \<Rightarrow> bool" where
  "targets_labelled et label g \<longleftrightarrow> (\<forall>e\<in>set (edges g). edge_type e = et \<longrightarrow> (\<exists>i. edge_to e = id_ref label i))"

lemma targets_labelledD:
  "targets_labelled et label g \<Longrightarrow> e \<in> set (list_edges f (Some et) None g) \<Longrightarrow> edge_to e = id_ref label (ref_id (edge_to e))"
  by (auto simp: targets_labelled_def list_edges_def matches_edge_def)

lemma list_edges_create_new:
  assumes "t \<noteq> ''HAS_FILE''" and "\<forall>e\<in>set (list_edges (Some f) (Some t) None g). edge_to e \<noteq> to"
  shows "list_edges (Some f) (Some t) None (create_edge f t to [] g) =
    list_edges (Some f) (Some t) None g @ [new_edge f t to []]"
proof -
  have "find (same_edge f t to) (edges g) = None"
    using assms(2) by (auto simp: find_None_ball list_edges_def matches_edge_def same_edge_def)
  with assms(1) show ?thesis
    by (simp add: create_edge_def list_edges_def matches_edge_def new_edge_def)
qed

lemma list_edges_delete_to:
  "list_edges (Some f) (Some t) None (delete_edge f t (Some to) None g) =
     filter (\<lambda>e. edge_to e \<noteq> to) (list_edges (Some f) (Some t) None g)"
  by (auto simp: list_edges_def delete_edge_def matches_edge_def filter_filter intro!: filter_cong)

section \<open>Binding under a name\<close>

locale named_binding = record_collection c for c :: "'m collection" +
  fixes id_field name_field :: "'m \<Rightarrow> string" and et :: string
  assumes identity: "coll_identity c m = key (id_field m)"
    and interned: "coll_label c \<in> set interned_labels"
    and no_file: "et \<noteq> ''HAS_FILE''"
begin

lemma bound_iff:
  "bound_targets l rid et c g = Inr xs \<longleftrightarrow>
     list_all2 (\<lambda>e x. coll_get c (key (ref_id (edge_to e))) g = Some x)
       (list_edges (Some (id_ref l rid)) (Some et) None g) xs"
  by (simp add: bound_targets_def map_result_all2 coll_item_Inr)

lemma get_id: "typed_graph g \<Longrightarrow> coll_get c (key i) g = Some x \<Longrightarrow> id_field x = i"
  using get_identity [of g "key i" x] identity by simp

text \<open>Two graphs with the same edges of the revision and the same records behind them bind the same.\<close>

lemma bound_cong:
  assumes "list_edges (Some (id_ref l rid)) (Some et) None h = list_edges (Some (id_ref l rid)) (Some et) None g"
    and "\<And>e. e \<in> set (list_edges (Some (id_ref l rid)) (Some et) None g) \<Longrightarrow>
      coll_get c (key (ref_id (edge_to e))) h = coll_get c (key (ref_id (edge_to e))) g"
  shows "bound_targets l rid et c h = Inr xs \<longleftrightarrow> bound_targets l rid et c g = Inr xs"
  unfolding bound_iff assms(1) by (rule list.rel_cong) (simp_all add: assms(2))

lemma rebind_binds:
  assumes t: "typed_graph g" and tl: "targets_labelled et (coll_label c) g"
    and l: "resolve rid g = Inr l"
    and x: "coll_get c (key (id_field x)) g = Some x" "name_field x = n"
    and run: "rebind rid et c id_field name_field n (id_field x) (coll_label c) s = (Inr (), s')"
    and s: "svc_graph s = g"
  obtains xs ys where "bound_targets l rid et c g = Inr xs" and "bound_targets l rid et c (svc_graph s') = Inr ys"
    and "filter (\<lambda>y. name_field y = n) ys = [x]"
    and "filter (\<lambda>y. name_field y \<noteq> n) ys = filter (\<lambda>y. name_field y \<noteq> n) xs"
proof -
  let ?f = "id_ref l rid" and ?L = "coll_label c"
  let ?es = "list_edges (Some ?f) (Some et) None g"
  let ?R = "\<lambda>(e :: edge) y. coll_get c (key (ref_id (edge_to e))) g = Some y"
  have lab: "l \<in> set revision_labels" using resolve_label [OF l] by simp
  from run s obtain cur where nm: "named rid et c name_field n g = Inr cur"
    and rep: "store_op (replace_named rid et (map_option id_field cur) (id_field x) ?L) s = (Inr (), s')"
    by (auto simp: rebind_def bindE_Inr_iff reads_Inr)
  from nm l obtain xs where xs: "bound_targets l rid et c g = Inr xs"
    by (auto simp: named_def rbind_eq_Inr)
  have cur: "filter (\<lambda>y. name_field y = n) xs = (case cur of None \<Rightarrow> [] | Some y \<Rightarrow> [y])"
    using nm l xs by (auto simp: named_def split: list.splits)
  have all: "list_all2 ?R ?es xs" using xs by (simp add: bound_iff)
  have idf: "id_field y = ref_id (edge_to e)" if "?R e y" for e y using get_id [OF t that] by simp
  have mem: "coll_get c (key (id_field y)) g = Some y" if "y \<in> set xs" for y
  proof -
    from list_all2_in [OF all that] obtain e where e: "?R e y" by blast
    with idf [OF e] show ?thesis by simp
  qed
  show thesis
  proof (cases "cur = Some x")
    case True
    with rep s l have "svc_graph s' = g" by (auto simp: store_op_Inr replace_named_def)
    with xs True cur show ?thesis by (intro that [OF xs]) simp_all
  next
    case False
    have other: "id_field y \<noteq> id_field x" if "y \<in> set xs" "name_field y = n" for y
    proof
      assume "id_field y = id_field x"
      then have "y = x" using mem [OF that(1)] x(1) by (metis option.inject)
      with that have "x \<in> set (filter (\<lambda>y. name_field y = n) xs)" by simp
      with False show False unfolding cur by (auto split: option.splits)
    qed
    then have not_x: "x \<notin> set xs" using x(2) by auto
    have ne: "map_option id_field cur \<noteq> Some (id_field x)"
    proof
      assume "map_option id_field cur = Some (id_field x)"
      then obtain y where "cur = Some y" "id_field y = id_field x" by auto
      then have "y \<in> set (filter (\<lambda>y. name_field y = n) xs)" unfolding cur by simp
      with other [of y] \<open>id_field y = id_field x\<close> show False by simp
    qed
    let ?keep = "\<lambda>e. case cur of None \<Rightarrow> True | Some y \<Rightarrow> edge_to e \<noteq> id_ref ?L (id_field y)"
    let ?g1 = "case cur of None \<Rightarrow> g | Some y \<Rightarrow> delete_edge ?f et (Some (id_ref ?L (id_field y))) None g"
    let ?g2 = "create_edge ?f et (id_ref ?L (id_field x)) [] ?g1"
    have e1: "list_edges (Some ?f) (Some et) None ?g1 = filter ?keep ?es"
      by (cases cur) (simp_all add: list_edges_delete_to)
    have new: "edge_to e \<noteq> id_ref ?L (id_field x)" if "e \<in> set ?es" for e
    proof
      assume "edge_to e = id_ref ?L (id_field x)"
      moreover from list_all2_in1 [OF all \<open>e \<in> set ?es\<close>] obtain y where "y \<in> set xs" "?R e y" by blast
      ultimately show False using x(1) not_x by simp
    qed
    have e2: "list_edges (Some ?f) (Some et) None ?g2 = filter ?keep ?es @ [new_edge ?f et (id_ref ?L (id_field x)) []]"
      using list_edges_create_new [OF no_file, of ?f ?g1 "id_ref ?L (id_field x)"] new by (simp add: e1)
    have n2: "coll_get c i ?g2 = coll_get c i g" for i
      by (cases cur) (simp_all add: get_create_edge get_delete_edge)
    have t2: "typed_graph ?g2" using t by (cases cur) simp_all
    from rep s l ne obtain d where gc: "delete_interned_orphans ?g2 = (Inr d, svc_graph s')"
      by (auto simp: store_op_Inr replace_named_def Let_def bindE_Inr_iff ret_Inr split: option.splits if_split_asm)
    let ?ys = "filter (\<lambda>y. case cur of None \<Rightarrow> True | Some z \<Rightarrow> id_field y \<noteq> id_field z) xs"
    have keep: "?keep e \<longleftrightarrow> (case cur of None \<Rightarrow> True | Some z \<Rightarrow> id_field y \<noteq> id_field z)" if "e \<in> set ?es" "?R e y" for e y
    proof -
      from targets_labelledD [OF tl that(1)] idf [OF that(2)] have "edge_to e = id_ref ?L (id_field y)" by metis
      then show ?thesis by (simp split: option.split)
    qed
    have "list_all2 (\<lambda>e y. coll_get c (key (ref_id (edge_to e))) ?g2 = Some y)
        (filter ?keep ?es @ [new_edge ?f et (id_ref ?L (id_field x)) []]) (?ys @ [x])"
      unfolding n2 using list_all2_filter [OF all keep] x(1)
      by (intro list_all2_appendI) (simp_all add: new_edge_def)
    then have b2: "bound_targets l rid et c ?g2 = Inr (?ys @ [x])" by (simp only: bound_iff e2)
    have lbl: "edge_to e = id_ref ?L (ref_id (edge_to e))" if "e \<in> set (list_edges (Some ?f) (Some et) None ?g2)" for e
      using that unfolding e2 by (auto simp: new_edge_def intro: targets_labelledD [OF tl])
    have "bound_targets l rid et c (svc_graph s') = Inr (?ys @ [x])"
    proof (rule iffD2 [OF bound_cong b2])
      show "list_edges (Some ?f) (Some et) None (svc_graph s') = list_edges (Some ?f) (Some et) None ?g2"
        by (rule gc_keeps_bindings(1) [OF t2 gc lab])
      show "coll_get c (key (ref_id (edge_to e))) (svc_graph s') = coll_get c (key (ref_id (edge_to e))) ?g2"
        if "e \<in> set (list_edges (Some ?f) (Some et) None ?g2)" for e
        unfolding coll_get_def gc_keeps_bindings(2) [OF t2 gc lab that lbl [OF that]] ..
    qed
    moreover have "filter (\<lambda>y. name_field y = n) (?ys @ [x]) = [x]"
    proof -
      have "\<not> (name_field y = n \<and> (case cur of None \<Rightarrow> True | Some z \<Rightarrow> id_field y \<noteq> id_field z))" if "y \<in> set xs" for y
      proof
        assume a: "name_field y = n \<and> (case cur of None \<Rightarrow> True | Some z \<Rightarrow> id_field y \<noteq> id_field z)"
        with that have "y \<in> set (filter (\<lambda>y. name_field y = n) xs)" by simp
        with a show False unfolding cur by (auto split: option.splits)
      qed
      with x(2) show ?thesis by (auto simp: filter_empty_conv)
    qed
    moreover have "filter (\<lambda>y. name_field y \<noteq> n) (?ys @ [x]) = filter (\<lambda>y. name_field y \<noteq> n) xs"
    proof -
      have "name_field z = n" if "cur = Some z" for z
        using that cur by (auto simp: filter_eq_Cons_iff)
      moreover have "y = z" if "y \<in> set xs" "cur = Some z" "id_field y = id_field z" for y z
      proof -
        have "z \<in> set (filter (\<lambda>y. name_field y = n) xs)" unfolding cur that(2) by simp
        then have "z \<in> set xs" by simp
        with mem [OF that(1)] mem [of z] that(3) show ?thesis by (metis option.inject)
      qed
      ultimately show ?thesis using x(2) by (auto simp: filter_filter intro!: filter_cong split: option.splits)
    qed
    ultimately show ?thesis by (rule that [OF xs])
  qed
qed

end

interpretation object_type_bindings: named_binding object_type_revisions_coll otrev_id otrev_object_type_id "''HAS_OBJECT_TYPE_REVISION''"
  by unfold_locales (auto simp: object_type_revisions_coll_def interned_labels_def)

interpretation relation_type_bindings: named_binding relation_type_revisions_coll rtrev_id rtrev_relation_type_id "''HAS_RELATION_TYPE_REVISION''"
  by unfold_locales (auto simp: relation_type_revisions_coll_def interned_labels_def)

interpretation action_bindings: named_binding action_revisions_coll actrev_id actrev_action_id "''HAS_ACTION_REVISION''"
  by unfold_locales (auto simp: action_revisions_coll_def interned_labels_def)

interpretation trigger_bindings: named_binding trigger_revisions_coll trigrev_id trigrev_trigger_id "''HAS_TRIGGER_REVISION''"
  by unfold_locales (auto simp: trigger_revisions_coll_def interned_labels_def)

section \<open>What comes before the binding\<close>

definition binding_types :: "(string \<times> string) list" where
  "binding_types = [(''HAS_OBJECT_TYPE_REVISION'', ''ObjectTypeRevision''), (''HAS_RELATION_TYPE_REVISION'', ''RelationTypeRevision''),
     (''HAS_ACTION_REVISION'', ''ActionRevision''), (''HAS_TRIGGER_REVISION'', ''TriggerRevision'')]"

definition declared_ok :: "node_value graph \<Rightarrow> bool" where
  "declared_ok g \<longleftrightarrow> typed_graph g \<and> (\<forall>(et, label)\<in>set binding_types. targets_labelled et label g)"

lemma targets_labelled_upsert [simp]: "targets_labelled et l (upsert_node k i v g) = targets_labelled et l g"
  by (simp add: targets_labelled_def graph_simps)

lemma targets_labelled_save [simp]: "targets_labelled et l (coll_save c m g) = targets_labelled et l g"
  by (simp add: coll_save_def)

lemma targets_labelled_edges_sub: "set (edges h) \<subseteq> set (edges g) \<Longrightarrow> targets_labelled et l g \<Longrightarrow> targets_labelled et l h"
  by (auto simp: targets_labelled_def)

lemma targets_labelled_delete_edge: "targets_labelled et l g \<Longrightarrow> targets_labelled et l (delete_edge f t to p g)"
  by (rule targets_labelled_edges_sub) (auto simp: delete_edge_def)

lemma targets_labelled_delete_node: "targets_labelled et l g \<Longrightarrow> targets_labelled et l (delete_node k i g)"
  by (rule targets_labelled_edges_sub) (auto simp: delete_node_def Let_def)

lemma update_first_in: "x \<in> set (update_first P f xs) \<Longrightarrow> x \<in> set xs \<or> (\<exists>y\<in>set xs. P y \<and> x = f y)"
  by (induction xs) (auto split: if_splits)

lemma bound_edges_create:
  "e \<in> set (edges (create_edge f t to p g)) \<Longrightarrow>
     (\<exists>e'\<in>set (edges g). edge_type e = edge_type e' \<and> edge_to e = edge_to e') \<or> edge_type e = t \<and> edge_to e = to"
  by (auto simp: create_edge_def Let_def new_edge_def same_path_def split: if_splits option.splits dest!: update_first_in)

lemma targets_labelled_create_edge:
  "targets_labelled et l g \<Longrightarrow> t \<noteq> et \<or> (\<exists>i. to = id_ref l i) \<Longrightarrow> targets_labelled et l (create_edge f t to p g)"
  unfolding targets_labelled_def by (fastforce dest: bound_edges_create)

text \<open>What precedes the binding only adds.\<close>

definition adds_records :: "'m collection \<Rightarrow> string \<Rightarrow> node_value graph \<Rightarrow> node_value graph \<Rightarrow> bool" where
  "adds_records c et g h \<longleftrightarrow>
     (declared_ok g \<longrightarrow> declared_ok h) \<and>
     (\<forall>i m. coll_get c (key i) g = Some m \<longrightarrow> coll_get c (key i) h = Some m) \<and>
     (\<forall>rid. list_edges (Some (id_ref ''ApplicationRevision'' rid)) (Some et) None h =
        list_edges (Some (id_ref ''ApplicationRevision'' rid)) (Some et) None g) \<and>
     (\<forall>rid. coll_get revisions_coll (key rid) h = coll_get revisions_coll (key rid) g)"

lemma adds_refl: "adds_records c et g g"
  by (simp add: adds_records_def)

lemma adds_trans: "adds_records c et g h \<Longrightarrow> adds_records c et h k \<Longrightarrow> adds_records c et g k"
  by (simp add: adds_records_def)

lemma adds_edge:
  assumes "t \<noteq> et" and "t \<notin> set (map fst binding_types)"
  shows "adds_records c et g (create_edge f t to p g)"
  using assms
  by (auto simp: adds_records_def declared_ok_def coll_get_def graph_simps intro!: targets_labelled_create_edge)
    (force simp: image_iff)+

lemma adds_edge_drop:
  assumes "t \<noteq> et" shows "adds_records c et g (delete_edge f t to p g)"
  using assms
  by (auto simp: adds_records_def declared_ok_def coll_get_def graph_simps intro: targets_labelled_delete_edge)

lemma adds_save:
  assumes "record_collection d" and "coll_label d \<noteq> ''ApplicationRevision''"
    and "coll_label d = coll_label c \<Longrightarrow> get_node (coll_label d) (coll_identity d m) g = None"
  shows "adds_records c et g (coll_save d m g)"
  using assms record_collection.typed_save [OF assms(1)]
  by (auto simp: adds_records_def declared_ok_def coll_save_def coll_get_def graph_simps revisions_coll_def)

lemma interned_record_Inr:
  assumes "interned_record c i new s = (Inr r, s')"
  shows "coll_get c (key i) (svc_graph s) = Some r \<and> s' = s \<or>
    coll_get c (key i) (svc_graph s) = None \<and> (\<exists>t. r = new t) \<and> svc_graph s' = coll_save c r (svc_graph s)"
  using assms
  by (auto simp: interned_record_def bindE_Inr_iff asks_apply now_utc_apply writes_Inr ret_Inr split: option.splits)

lemma stable_record_Inr:
  assumes "stable_record c i new s = (Inr m, s')" and "\<And>u v x. new u = (Inr x, v) \<Longrightarrow> svc_graph v = svc_graph u"
  shows "svc_graph s' = coll_save c m (svc_graph s)"
  using assms(1)
  by (auto simp: stable_record_def bindE_Inr_iff asks_apply writes_Inr ret_Inr split: option.splits dest!: assms(2))

lemma link_definition_Inr:
  "link_definition owner oe sl sid rl rid s = (Inr u, s') \<Longrightarrow>
     svc_graph s' = create_edge (id_ref sl sid) ''HAS_REVISION'' (id_ref rl rid) []
       (create_edge (id_ref ''Application'' owner) oe (id_ref sl sid) [] (svc_graph s))"
  by (auto simp: link_definition_def bindE_Inr_iff writes_Inr)

lemma require_application_Inr:
  "require_application rid s = (Inr r, s') \<Longrightarrow>
     coll_get revisions_coll (key rid) (svc_graph s) = Some r \<and> rev_status r = Rev_draft \<and> s' = s"
  by (auto simp: require_application_def bindE_Inr_iff reads_Inr coll_item_Inr ret_Inr raise_apply split: if_split_asm)

lemma resolve_application:
  assumes "coll_get revisions_coll (key rid) g = Some r" shows "resolve rid g = Inr ''ApplicationRevision''"
proof -
  have "get_node ''ApplicationRevision'' (key rid) g \<noteq> None"
    using assms revisions.get_Some_node [of "key rid" g r] by (simp add: revisions_coll_def)
  then show ?thesis by (simp add: resolve_def revision_labels_def)
qed

section \<open>The binding keeps the shape\<close>

lemma declared_ok_delete_node: "declared_ok g \<Longrightarrow> declared_ok (delete_node l i g)"
  by (auto simp: declared_ok_def intro: typed_delete_node targets_labelled_delete_node)

lemma declared_ok_delete_edge: "declared_ok g \<Longrightarrow> declared_ok (delete_edge f t to p g)"
  by (auto simp: declared_ok_def intro: targets_labelled_delete_edge)

lemma declared_ok_create_edge:
  "declared_ok g \<Longrightarrow> \<forall>l. (t, l) \<in> set binding_types \<longrightarrow> (\<exists>i. to = id_ref l i) \<Longrightarrow> declared_ok (create_edge f t to p g)"
  by (auto simp: declared_ok_def intro!: targets_labelled_create_edge)

lemma replace_named_keeps:
  assumes "\<And>l i g. P g \<Longrightarrow> P (delete_node l i g)" and "\<And>f t to g. P g \<Longrightarrow> P (delete_edge f t to None g)"
    and "\<And>f i g. P g \<Longrightarrow> P (create_edge f et (id_ref label i) [] g)"
  shows "op_keeps P (replace_named rid et current next_id label)"
proof (rule op_keepsI)
  fix g assume g: "P g"
  have "op_keeps P delete_interned_orphans"
    unfolding op_keeps_def delete_interned_orphans_def by (intro allI impI gc_loop_keeps [of P] assms(1))
  then have k: "op_keeps P (bindE delete_interned_orphans (\<lambda>_. ret ()))"
    by (intro op_keeps_bindE op_keeps_ret)
  have "P (case current of Some c \<Rightarrow> if c \<noteq> next_id then delete_edge f et (Some (id_ref label c)) None g else g | None \<Rightarrow> g)" for f
    using g assms(2) by (auto split: option.split)
  with k g assms(3) show "P (snd (replace_named rid et current next_id label g))"
    by (auto simp: replace_named_def Let_def op_keeps_def split: sum.split)
qed

lemma binding_types_fun: "(et, l) \<in> set binding_types \<Longrightarrow> (et, l') \<in> set binding_types \<Longrightarrow> l' = l"
  by (auto simp: binding_types_def)

lemma declared_ok_replace_named:
  "(et, label) \<in> set binding_types \<Longrightarrow> op_keeps declared_ok (replace_named rid et current next_id label)"
  by (rule replace_named_keeps [of declared_ok])
    (auto intro: declared_ok_delete_node declared_ok_delete_edge declared_ok_create_edge dest: binding_types_fun)

lemma declared_ok_rebind:
  assumes "(et, label) \<in> set binding_types"
  shows "graph_keeps declared_ok (rebind rid et c id_field name_field name next_id label)"
  unfolding rebind_def
  by (intro graph_keeps_bindE graph_keeps_pure graph_keeps_store_op)
    (rule op_keepsD [OF declared_ok_replace_named [OF assms]])

section \<open>Declarations\<close>

context named_binding
begin

lemma declare_binds:
  assumes a: "adds_records c et g (svc_graph s)" and g: "declared_ok g" and m: "(et, coll_label c) \<in> set binding_types"
    and r: "coll_get revisions_coll (key rid) g = Some r"
    and x: "coll_get c (key (id_field x)) (svc_graph s) = Some x" "name_field x = n"
    and run: "rebind rid et c id_field name_field n (id_field x) (coll_label c) s = (Inr (), s')"
  shows "declared_ok (svc_graph s')"
    and "\<exists>ys. bound_targets ''ApplicationRevision'' rid et c (svc_graph s') = Inr ys \<and>
      filter (\<lambda>y. name_field y = n) ys = [x] \<and>
      (\<forall>xs. bound_targets ''ApplicationRevision'' rid et c g = Inr xs \<longrightarrow>
         filter (\<lambda>y. name_field y \<noteq> n) ys = filter (\<lambda>y. name_field y \<noteq> n) xs)"
proof -
  let ?h = "svc_graph s"
  have h: "declared_ok ?h" using a g by (simp add: adds_records_def)
  then show "declared_ok (svc_graph s')" using graph_keepsD [OF declared_ok_rebind [OF m] run] by simp
  have t: "typed_graph ?h" "targets_labelled et (coll_label c) ?h" using h m by (auto simp: declared_ok_def)
  have l: "resolve rid ?h = Inr ''ApplicationRevision''"
    using a r by (intro resolve_application) (simp add: adds_records_def)
  obtain xs ys where xy: "bound_targets ''ApplicationRevision'' rid et c ?h = Inr xs"
    "bound_targets ''ApplicationRevision'' rid et c (svc_graph s') = Inr ys"
    "filter (\<lambda>y. name_field y = n) ys = [x]" "filter (\<lambda>y. name_field y \<noteq> n) ys = filter (\<lambda>y. name_field y \<noteq> n) xs"
    by (rule rebind_binds [OF t l x run refl])
  have "zs = xs" if zs: "bound_targets ''ApplicationRevision'' rid et c g = Inr zs" for zs
  proof -
    have "bound_targets ''ApplicationRevision'' rid et c ?h = Inr zs"
      using zs a unfolding bound_iff adds_records_def by (auto elim: list_all2_mono)
    with xy(1) show ?thesis by simp
  qed
  with xy show "\<exists>ys. bound_targets ''ApplicationRevision'' rid et c (svc_graph s') = Inr ys \<and>
      filter (\<lambda>y. name_field y = n) ys = [x] \<and>
      (\<forall>xs. bound_targets ''ApplicationRevision'' rid et c g = Inr xs \<longrightarrow>
         filter (\<lambda>y. name_field y \<noteq> n) ys = filter (\<lambda>y. name_field y \<noteq> n) xs)"
    by auto
qed

lemma interned_adds:
  assumes "interned_record c i new s = (Inr r, s')" and "\<And>t. id_field (new t) = i" and "typed_graph (svc_graph s)"
    and "coll_label c \<noteq> ''ApplicationRevision''"
  shows "adds_records c et (svc_graph s) (svc_graph s') \<and> coll_get c (key (id_field r)) (svc_graph s') = Some r"
  using interned_record_Inr [OF assms(1)]
proof
  assume a: "coll_get c (key i) (svc_graph s) = Some r \<and> s' = s"
  with get_id [OF assms(3), of i r] show ?thesis by (simp add: adds_refl)
next
  assume a: "coll_get c (key i) (svc_graph s) = None \<and> (\<exists>t. r = new t) \<and> svc_graph s' = coll_save c r (svc_graph s)"
  then have i: "id_field r = i" using assms(2) by auto
  have "get_node (coll_label c) (key i) (svc_graph s) = None"
    using a present_get [OF assms(3), of "key i"] by (metis option.distinct(1) option.exhaust)
  with a i identity show ?thesis
    by (auto simp: get_save intro!: adds_save assms(4) record_collection_axioms)
qed

end

lemma draft_get_id: "typed_graph g \<Longrightarrow> coll_get revisions_coll (key i) g = Some r \<Longrightarrow> rev_id r = i"
  using revisions.get_identity [of g "key i" r] by (simp add: revisions_coll_def)

lemma then_edge:
  "adds_records c et g h \<Longrightarrow> t \<noteq> et \<Longrightarrow> t \<notin> set (map fst binding_types) \<Longrightarrow> adds_records c et g (create_edge f t to p h)"
  by (rule adds_trans [OF _ adds_edge])

lemma then_drop: "adds_records c et g h \<Longrightarrow> t \<noteq> et \<Longrightarrow> adds_records c et g (delete_edge f t to p h)"
  by (rule adds_trans [OF _ adds_edge_drop])

lemma then_save:
  "adds_records c et g h \<Longrightarrow> record_collection d \<Longrightarrow> coll_label d \<notin> {''ApplicationRevision'', coll_label c} \<Longrightarrow>
     adds_records c et g (coll_save d m h)"
  by (rule adds_trans [OF _ adds_save]) auto

lemma create_object_type_Inr:
  assumes run: "create_object_type sha rid otid name properties required s = (Inr r, s')"
    and ok: "declared_ok (svc_graph s)" and n: "otrev_object_type_id r = otid"
  shows "declared_ok (svc_graph s')"
    and "\<exists>ys. object_type_revisions rid (svc_graph s') = Inr ys \<and>
      filter (\<lambda>y. otrev_object_type_id y = otid) ys = [r] \<and>
      (\<forall>xs. object_type_revisions rid (svc_graph s) = Inr xs \<longrightarrow>
         filter (\<lambda>y. otrev_object_type_id y \<noteq> otid) ys = filter (\<lambda>y. otrev_object_type_id y \<noteq> otid) xs)"
proof -
  let ?i = "intern_id sha (object_type_payload otid name properties required)"
  from run obtain draft s0 s1 st s2 s3 where
    d: "require_application rid s = (Inr draft, s0)"
    and i: "interned_record object_type_revisions_coll ?i (\<lambda>t.
         \<lparr>otrev_id = ?i, otrev_object_type_id = otid, otrev_name = name, otrev_properties = properties,
          otrev_required = required, otrev_created_at = t, otrev_content_hash = ?i\<rparr>) s0 = (Inr r, s1)"
    and st: "stable_record object_types_coll otid (bindE now_utc (\<lambda>t. ret
         \<lparr>otype_id = otid, otype_application_id = rev_application_id draft,
          otype_active_revision_id = None, otype_created_at = t\<rparr>)) s1 = (Inr st, s2)"
    and ln: "link_definition (rev_application_id draft) ''DEFINES_OBJECT_TYPE'' ''ObjectType'' (otype_id st)
         ''ObjectTypeRevision'' (otrev_id r) s2 = (Inr (), s3)"
    and re: "rebind (rev_id draft) ''HAS_OBJECT_TYPE_REVISION'' object_type_revisions_coll
         otrev_id otrev_object_type_id otid (otrev_id r) ''ObjectTypeRevision'' s3 = (Inr (), s')"
    by (auto simp: create_object_type_def atomically_Inr bindE_Inr_iff ret_Inr Let_def)
  note dr = require_application_Inr [OF d]
  have t: "typed_graph (svc_graph s)" using ok by (simp add: declared_ok_def)
  have rid: "rev_id draft = rid" using draft_get_id [OF t] dr by simp
  have a1: "adds_records object_type_revisions_coll ''HAS_OBJECT_TYPE_REVISION'' (svc_graph s) (svc_graph s1) \<and>
      coll_get object_type_revisions_coll (key (otrev_id r)) (svc_graph s1) = Some r"
    using object_type_bindings.interned_adds [OF i] t dr by (simp add: object_type_revisions_coll_def)
  have g2: "svc_graph s2 = coll_save object_types_coll st (svc_graph s1)"
    by (rule stable_record_Inr [OF st]) (auto simp: bindE_Inr_iff now_utc_apply ret_Inr)
  have "adds_records object_type_revisions_coll ''HAS_OBJECT_TYPE_REVISION'' (svc_graph s1) (svc_graph s3)"
    unfolding link_definition_Inr [OF ln] g2
    by (intro then_edge then_save adds_refl object_types.record_collection_axioms)
      (simp_all add: object_types_coll_def object_type_revisions_coll_def binding_types_def)
  with a1 have a: "adds_records object_type_revisions_coll ''HAS_OBJECT_TYPE_REVISION'' (svc_graph s) (svc_graph s3)"
    "coll_get object_type_revisions_coll (key (otrev_id r)) (svc_graph s3) = Some r"
    by (auto intro: adds_trans simp: adds_records_def)
  have m: "(''HAS_OBJECT_TYPE_REVISION'', coll_label object_type_revisions_coll) \<in> set binding_types"
    by (simp add: binding_types_def object_type_revisions_coll_def)
  from re rid have re: "rebind rid ''HAS_OBJECT_TYPE_REVISION'' object_type_revisions_coll
         otrev_id otrev_object_type_id otid (otrev_id r) (coll_label object_type_revisions_coll) s3 = (Inr (), s')"
    by (simp add: object_type_revisions_coll_def)
  from object_type_bindings.declare_binds [OF a(1) ok m _ a(2) n re] dr
  show "declared_ok (svc_graph s')"
    "\<exists>ys. object_type_revisions rid (svc_graph s') = Inr ys \<and>
      filter (\<lambda>y. otrev_object_type_id y = otid) ys = [r] \<and>
      (\<forall>xs. object_type_revisions rid (svc_graph s) = Inr xs \<longrightarrow>
         filter (\<lambda>y. otrev_object_type_id y \<noteq> otid) ys = filter (\<lambda>y. otrev_object_type_id y \<noteq> otid) xs)"
    unfolding object_type_revisions_def by blast+
qed

end
