(* ===== verification/Package_Laws.thy ===== *)
theory Package_Laws
  imports Package_Deletion Data_Spaces Binding_Laws
begin

text \<open>
  Laws of Packages: what a captured payload holds, when an archive reads back, what an import and a
  deletion change.
\<close>

section \<open>Mapping over results\<close>

lemma map_result_unit: "map_result f xs = Inr ys \<Longrightarrow> \<forall>x\<in>set xs. \<exists>y. f x = Inr y \<and> y \<in> set ys"
  by (induction xs arbitrary: ys) (fastforce simp: rbind_eq_Inr)+

lemma map_result_in: "map_result f xs = Inr ys \<Longrightarrow> y \<in> set ys \<Longrightarrow> \<exists>x\<in>set xs. f x = Inr y"
  by (induction xs arbitrary: ys) (auto simp: rbind_eq_Inr)

lemma map_result_total: "(\<And>x. x \<in> set xs \<Longrightarrow> \<exists>y. f x = Inr y) \<Longrightarrow> \<exists>ys. map_result f xs = Inr ys"
  by (induction xs) (fastforce simp: rbind_eq_Inr)+

lemma map_result_ok: "(\<exists>ys. map_result f xs = Inr ys) \<longleftrightarrow> (\<forall>x\<in>set xs. \<exists>y. f x = Inr y)"
  using map_result_unit map_result_total by meson

section \<open>What a captured payload holds\<close>

text \<open>What \<^verbatim>\<open>_validate_application_data\<close> checks: data refer only to what the Package carries.\<close>

definition closed_member :: "package_application \<Rightarrow> bool" where
  "closed_member p \<longleftrightarrow>
     (\<forall>x\<in>set (pa_objects p). \<forall>i. obj_object_type_revision_id x = Some i \<longrightarrow>
        i \<in> set (map (\<lambda>q. otrev_id (snd q)) (pa_object_types p))) \<and>
     (\<forall>x\<in>set (pa_relations p).
        (\<forall>i. rel_relation_type_revision_id x = Some i \<longrightarrow> i \<in> set (map (\<lambda>q. rtrev_id (snd q)) (pa_relation_types p))) \<and>
        rel_from_object_id x \<in> set (map obj_id (pa_objects p)) \<and> rel_to_object_id x \<in> set (map obj_id (pa_objects p)))"

lemma validate_data_iff: "validate_application_data p = Inr u \<longleftrightarrow> closed_member p"
proof -
  have o: "(\<exists>y. check_object p x = Inr y) \<longleftrightarrow> (\<forall>i. obj_object_type_revision_id x = Some i \<longrightarrow>
      i \<in> set (map (\<lambda>q. otrev_id (snd q)) (pa_object_types p)))" for x
    by (auto simp: check_object_def split: option.split)
  have r: "(\<exists>y. check_relation p x = Inr y) \<longleftrightarrow>
      (\<forall>i. rel_relation_type_revision_id x = Some i \<longrightarrow> i \<in> set (map (\<lambda>q. rtrev_id (snd q)) (pa_relation_types p))) \<and>
      rel_from_object_id x \<in> set (map obj_id (pa_objects p)) \<and> rel_to_object_id x \<in> set (map obj_id (pa_objects p))" for x
    by (auto simp: check_relation_def split: option.split)
  have "validate_application_data p = Inr u \<longleftrightarrow>
      (\<exists>ys. map_result (check_object p) (pa_objects p) = Inr ys) \<and> (\<exists>ys. map_result (check_relation p) (pa_relations p) = Inr ys)"
    by (auto simp: validate_application_data_def rbind_eq_Inr)
  then show ?thesis unfolding map_result_ok o r closed_member_def by blast
qed

text \<open>The Application is active in the graph, and a secret it carries by name is its own.\<close>

definition captured_from :: "node_value graph \<Rightarrow> package_application \<Rightarrow> bool" where
  "captured_from g p \<longleftrightarrow> (let a = pa_application p in
     coll_get applications_coll (key (app_id a)) g = Some a \<and>
     app_active_revision_id a = Some (rev_id (pa_revision p)) \<and> rev_status (pa_revision p) = Rev_active \<and>
     coll_get revisions_coll (key (rev_id (pa_revision p))) g = Some (pa_revision p) \<and>
     (\<forall>n\<in>set (pa_secret_requirements p). \<exists>s. coll_get secret_references_coll (key (need_source_id n)) g = Some s \<and>
        secret_application_id s = app_id a \<and> secret_uri s = need_uri n))"

lemma secret_get_id: "typed_graph g \<Longrightarrow> coll_get secret_references_coll (key i) g = Some s \<Longrightarrow> secret_id s = i"
  using secret_references.get_identity [of g "key i" s] by (simp add: secret_references_coll_def)

lemma secret_requirement_sound:
  assumes "typed_graph g" and "secret_requirement_of app g i = Inr n"
  shows "\<exists>s. coll_get secret_references_coll (key (need_source_id n)) g = Some s \<and>
    secret_application_id s = app \<and> secret_uri s = need_uri n"
  using assms secret_get_id [of g i]
  by (auto simp: secret_requirement_of_def split: option.splits if_splits)

lemma include_referenced_frame:
  assumes "include_referenced_schema p g = Inr q"
  shows "pa_application q = pa_application p" and "pa_revision q = pa_revision p"
    and "pa_secret_requirements q = pa_secret_requirements p" and "pa_objects q = pa_objects p"
    and "pa_relations q = pa_relations p"
  using assms by (auto simp: include_referenced_schema_def Let_def rbind_eq_Inr)

lemma capture_application_sound:
  assumes t: "typed_graph g" and c: "capture_application app inc req g = Inr (p, os)"
  shows "closed_member p \<and> captured_from g p \<and> app_id (pa_application p) = app"
proof -
  note rev_id = revision_get_id [OF t]
  note app_id = application_get_id [OF t]
  have "\<exists>a active r secrets q. coll_get applications_coll (key app) g = Some a \<and> app_active_revision_id a = Some active \<and>
      coll_get revisions_coll (key active) g = Some r \<and> rev_status r = Rev_active \<and>
      (\<exists>ids. map_result (secret_requirement_of app g) ids = Inr secrets) \<and>
      (if inc then include_referenced_schema q g else Inr q) = Inr p \<and> pa_application q = a \<and> pa_revision q = r \<and>
      pa_secret_requirements q = secrets \<and> validate_application_data p = Inr ()"
    using c unfolding capture_application_def Let_def
    by (clarsimp simp: rbind_eq_Inr coll_item_Inr split: option.splits if_split_asm)
      (intro exI conjI; (assumption | rule refl)?; simp; blast)+
  then obtain a active r secrets q ids where
    a: "coll_get applications_coll (key app) g = Some a" "app_active_revision_id a = Some active"
    and r: "coll_get revisions_coll (key active) g = Some r" "rev_status r = Rev_active"
    and s: "map_result (secret_requirement_of app g) ids = Inr secrets"
    and q: "(if inc then include_referenced_schema q g else Inr q) = Inr p" "pa_application q = a" "pa_revision q = r"
      "pa_secret_requirements q = secrets"
    and v: "validate_application_data p = Inr ()" by (elim exE conjE) (rule that)
  have same: "pa_application p = a" "pa_revision p = r" "pa_secret_requirements p = secrets"
    using q include_referenced_frame by (simp_all split: if_split_asm)
  have "\<exists>s. coll_get secret_references_coll (key (need_source_id n)) g = Some s \<and>
      secret_application_id s = app \<and> secret_uri s = need_uri n" if "n \<in> set (pa_secret_requirements p)" for n
  proof -
    from map_result_in [OF s] that same(3) obtain i where "secret_requirement_of app g i = Inr n" by auto
    then show ?thesis by (rule secret_requirement_sound [OF t])
  qed
  with a r v same rev_id [OF r(1)] app_id [OF a(1)] show ?thesis
    by (auto simp: captured_from_def Let_def validate_data_iff)
qed


text \<open>The names an Experience declares are in the Applications of the Package.\<close>

definition declared_in :: "package_application list \<Rightarrow> application_access_declaration \<Rightarrow> bool" where
  "declared_in apps d \<longleftrightarrow> (\<exists>p\<in>set apps. app_id (pa_application p) = access_application_id d \<and>
     set (listed (access_object_type_ids d)) \<subseteq> set (map (\<lambda>q. otype_id (fst q)) (pa_object_types p)) \<and>
     set (listed (access_relation_type_ids d)) \<subseteq> set (map (\<lambda>q. rtype_id (fst q)) (pa_relation_types p)) \<and>
     set (listed (access_action_ids d)) \<subseteq> set (map (\<lambda>q. act_id (fst q)) (pa_actions p)) \<and>
     set (listed (access_secret_reference_ids d)) \<subseteq> set (map need_source_id (pa_secret_requirements p)))"

lemma unavailable_Inr: "unavailable what ds ids = Inr u \<longleftrightarrow> set (listed ds) \<subseteq> set ids"
  by (auto simp: unavailable_def listed_def split: option.splits)

lemma check_access_Inr: "check_access apps d = Inr u \<Longrightarrow> declared_in apps d"
  by (auto simp: check_access_def declared_in_def rbind_eq_Inr unavailable_Inr split: option.splits dest!: find_SomeD)

lemma experience_access_Inr:
  "validate_experience_access x apps = Inr u \<Longrightarrow>
     \<forall>d\<in>set (exprev_application_access (px_revision x)). declared_in apps d"
  by (auto simp: validate_experience_access_def rbind_eq_Inr dest!: map_result_unit check_access_Inr)

lemma capture_closed:
  assumes t: "typed_graph g" and c: "capture kind i inc g = Inr (p, os)"
  shows "\<forall>a\<in>set (pp_applications p). closed_member a \<and> captured_from g a"
    and "\<forall>x. pp_experience p = Some x \<longrightarrow>
      (\<forall>d\<in>set (exprev_application_access (px_revision x)). declared_in (pp_applications p) d)"
proof -
  from c obtain px members cs where m: "map_result (\<lambda>m. capture_application (fst m) inc (snd m) g) members = Inr cs"
    and p: "p = \<lparr>pp_applications = map fst cs, pp_experience = px\<rparr>"
    and v: "(case px of None \<Rightarrow> Inr () | Some x \<Rightarrow> validate_experience_access x (map fst cs)) = Inr ()"
    by (auto simp: capture_def rbind_eq_Inr Let_def split: if_split_asm)
  have "closed_member (fst k) \<and> captured_from g (fst k)" if "k \<in> set cs" for k
    using map_result_in [OF m that] capture_application_sound [OF t] by (metis prod.collapse)
  then show "\<forall>a\<in>set (pp_applications p). closed_member a \<and> captured_from g a" by (auto simp: p)
  show "\<forall>x. pp_experience p = Some x \<longrightarrow>
      (\<forall>d\<in>set (exprev_application_access (px_revision x)). declared_in (pp_applications p) d)"
    using v experience_access_Inr by (auto simp: p)
qed

section \<open>Archives\<close>

definition signed_manifest ::
  "(string \<Rightarrow> string) \<Rightarrow> package_codec \<Rightarrow> contract_versions \<Rightarrow> string \<Rightarrow> string \<Rightarrow> bool \<Rightarrow>
   package_payload \<times> omitted_binding list \<Rightarrow> package_manifest" where
  "signed_manifest sha codec v kind i inc captured =
     (let text = put_payload codec (fst captured); m = unsigned_manifest sha v kind i inc (snd captured) text
      in m\<lparr>man_package_hash := package_hash sha codec m text\<rparr>)"

text \<open>The libraries give back this manifest and this payload.\<close>

definition lossless :: "package_codec \<Rightarrow> 'f archive_format \<Rightarrow> package_manifest \<Rightarrow> package_payload \<Rightarrow> bool" where
  "lossless codec fmt m p \<longleftrightarrow>
     (let es = [(''manifest.json'', put_manifest codec m), (''payload.json'', put_payload codec p)] in
      parse_format codec (put_manifest codec m) = Inr (Some (man_format_version m)) \<and>
      parse_manifest codec (put_manifest codec m) = Inr m \<and> parse_payload codec (put_payload codec p) = Inr p \<and>
      fmt_open fmt (fmt_make fmt es) = Inr (map (\<lambda>(n, t). (n, utf8_len t, t)) es))"

definition within_bounds :: "package_codec \<Rightarrow> 'f archive_format \<Rightarrow> package_manifest \<Rightarrow> package_payload \<Rightarrow> bool" where
  "within_bounds codec fmt m p \<longleftrightarrow>
     fmt_size fmt (fmt_make fmt [(''manifest.json'', put_manifest codec m), (''payload.json'', put_payload codec p)])
       \<le> package_max_archive_bytes \<and>
     utf8_len (put_manifest codec m) \<le> package_max_member_bytes \<and> utf8_len (put_payload codec p) \<le> package_max_member_bytes"

lemma export_Inr:
  assumes "export sha codec fmt v kind i name inc ow g d = (Inr (s, h), d')"
  obtains captured where "capture kind i inc g = Inr captured" and "archive_name_ok name"
    and "d' = dict_set name (fst (build_archive sha codec fmt v kind i inc captured)) d"
    and "h = snd (build_archive sha codec fmt v kind i inc captured)"
    and "s = summary_of kind i inc (fst captured) (snd captured)" and "ow \<or> dict_get d name = None"
  using assms
  by (auto simp: export_def bindE_Inr_iff lift_result_apply check_archive_name_def write_archive_def Let_def ret_apply
      split: if_split_asm)

lemma build_archive_parts:
  "build_archive sha codec fmt v kind i inc captured =
     (fmt_make fmt [(''manifest.json'', put_manifest codec (signed_manifest sha codec v kind i inc captured)),
        (''payload.json'', put_payload codec (fst captured))], man_package_hash (signed_manifest sha codec v kind i inc captured))"
  by (simp add: build_archive_def signed_manifest_def Let_def)

lemma signed_content:
  "content_hash_ok sha codec (signed_manifest sha codec v kind i inc captured) (put_payload codec (fst captured))"
  by (simp add: content_hash_ok_def signed_manifest_def unsigned_manifest_def package_hash_def Let_def)

lemma check_own_entries:
  "utf8_len a \<le> package_max_member_bytes \<Longrightarrow> utf8_len b \<le> package_max_member_bytes \<Longrightarrow>
     check_entries [(''manifest.json'', utf8_len a, a), (''payload.json'', utf8_len b, b)] = Inr ()"
  by (simp add: check_entries_def package_max_members_def unsafe_path_def path_parts_def)

lemma validate_payload_error: "validate_archive_payload p = Inl e \<Longrightarrow> \<exists>m. e = ValueError m"
proof -
  have "check_source_files fs = Inl e \<Longrightarrow> \<exists>m. e = ValueError m" for fs
    by (auto simp: check_source_files_def split: if_split_asm option.splits)
  then have "map_result check_source_files fss = Inl e \<Longrightarrow> \<exists>m. e = ValueError m" for fss
    by (induction fss) (auto simp: rbind_def split: sum.splits)
  then show "validate_archive_payload p = Inl e \<Longrightarrow> \<exists>m. e = ValueError m"
    by (auto simp: validate_archive_payload_def rbind_def split: if_split_asm sum.splits)
qed

lemma read_built:
  assumes l: "lossless codec fmt m p" and b: "within_bounds codec fmt m p"
    and h: "content_hash_ok sha codec m (put_payload codec p)" and f: "man_format_version m = package_format_version"
  shows "read_file sha codec fmt (fmt_make fmt [(''manifest.json'', put_manifest codec m), (''payload.json'', put_payload codec p)])
    = (case validate_archive_payload p of
         Inr _ \<Rightarrow> Inr (m, p)
       | Inl e \<Rightarrow> Inl (ValidationFailure (''package_corrupt: '' @ exn_message e)))"
proof -
  have "parse_members codec (put_manifest codec m) (put_payload codec p) =
      corrupt (rbind (validate_archive_payload p) (\<lambda>_. Inr (m, p)))"
    using l f by (simp add: parse_members_def lossless_def Let_def package_format_version_def)
  then show ?thesis
    using l b h check_own_entries validate_payload_error [of p]
    by (cases "validate_archive_payload p")
      (auto simp: read_file_def lossless_def within_bounds_def Let_def archive_member_def corrupt_def)
qed

lemma export_read_back:
  assumes e: "export sha codec fmt v kind i name inc ow g d = (Inr (s, h), d')"
    and c: "capture kind i inc g = Inr captured"
    and l: "lossless codec fmt (signed_manifest sha codec v kind i inc captured) (fst captured)"
    and b: "within_bounds codec fmt (signed_manifest sha codec v kind i inc captured) (fst captured)"
  shows "read_archive sha codec fmt name d' =
      (case validate_archive_payload (fst captured) of
         Inr _ \<Rightarrow> Inr (signed_manifest sha codec v kind i inc captured, fst captured)
       | Inl e \<Rightarrow> Inl (ValidationFailure (''package_corrupt: '' @ exn_message e)))"
    and "man_package_hash (signed_manifest sha codec v kind i inc captured) = h"
    and "n \<noteq> name \<Longrightarrow> dict_get d' n = dict_get d n"
proof -
  from export_Inr [OF e] c have d: "archive_name_ok name"
    "d' = dict_set name (fst (build_archive sha codec fmt v kind i inc captured)) d"
    "h = snd (build_archive sha codec fmt v kind i inc captured)" by (metis sum.inject(2))+
  have "man_format_version (signed_manifest sha codec v kind i inc captured) = package_format_version"
    by (simp add: signed_manifest_def unsigned_manifest_def Let_def)
  from read_built [OF l b signed_content this] d
  show "read_archive sha codec fmt name d' =
      (case validate_archive_payload (fst captured) of
         Inr _ \<Rightarrow> Inr (signed_manifest sha codec v kind i inc captured, fst captured)
       | Inl e \<Rightarrow> Inl (ValidationFailure (''package_corrupt: '' @ exn_message e)))"
    by (simp add: read_archive_def check_archive_name_def build_archive_parts dict_simps)
  show "man_package_hash (signed_manifest sha codec v kind i inc captured) = h"
    "n \<noteq> name \<Longrightarrow> dict_get d' n = dict_get d n"
    using d by (simp_all add: build_archive_parts dict_simps)
qed

text \<open>What an archive that is read has passed.\<close>

definition safe_files :: "source_file list \<Rightarrow> bool" where
  "safe_files fs \<longleftrightarrow> distinct (map file_path fs) \<and> (\<forall>f\<in>set fs. file_path f \<noteq> [] \<and> \<not> unsafe_path (file_path f))"

lemma check_source_files_Inr: "check_source_files fs = Inr u \<longleftrightarrow> safe_files fs"
  by (auto simp: check_source_files_def safe_files_def find_None_ball split: option.split dest!: find_SomeD)

lemma validate_payload_Inr:
  "validate_archive_payload p = Inr u \<longleftrightarrow> member_count p \<le> package_max_members \<and> (\<forall>fs\<in>set (source_groups p). safe_files fs)"
  using map_result_ok [of check_source_files "source_groups p"]
  by (auto simp: validate_archive_payload_def rbind_eq_Inr check_source_files_Inr)

lemma read_archive_Inr:
  assumes "read_archive sha codec fmt name d = Inr (m, p)"
  obtains f mt t where "archive_name_ok name" and "dict_get d name = Some f" and "parse_manifest codec mt = Inr m"
    and "parse_payload codec t = Inr p" and "content_hash_ok sha codec m t" and "validate_archive_payload p = Inr ()"
proof -
  from assms obtain f where f: "archive_name_ok name" "dict_get d name = Some f" "read_file sha codec fmt f = Inr (m, p)"
    by (auto simp: read_archive_def rbind_eq_Inr check_archive_name_def split: option.splits if_split_asm)
  then obtain es where h: "content_hash_ok sha codec m (archive_member ''payload.json'' es)"
    and q: "parse_members codec (archive_member ''manifest.json'' es) (archive_member ''payload.json'' es) = Inr (m, p)"
    by (auto simp: read_file_def rbind_eq_Inr Let_def split: if_split_asm)
  from q have "parse_manifest codec (archive_member ''manifest.json'' es) = Inr m"
    "parse_payload codec (archive_member ''payload.json'' es) = Inr p" "validate_archive_payload p = Inr ()"
    by (auto simp: parse_members_def corrupt_def rbind_eq_Inr split: sum.splits exn.splits if_split_asm)
  with f h show thesis by (rule_tac that) auto
qed

lemma hash_determines:
  assumes "inj sha" and "LF \<notin> set (put_manifest codec (m1\<lparr>man_package_hash := []\<rparr>))"
    and "LF \<notin> set (put_manifest codec (m2\<lparr>man_package_hash := []\<rparr>))"
    and "package_hash sha codec m1 t1 = package_hash sha codec m2 t2"
  shows "put_manifest codec (m1\<lparr>man_package_hash := []\<rparr>) = put_manifest codec (m2\<lparr>man_package_hash := []\<rparr>) \<and> t1 = t2"
proof -
  have parts: "a = b \<and> x = y" if "a @ LF # x = b @ LF # y" and "LF \<notin> set a" and "LF \<notin> set b" for a b x y :: string
    using that
  proof (induction a arbitrary: b)
    case Nil
    then show ?case by (cases b) auto
  next
    case (Cons c a)
    then show ?case by (cases b) auto
  qed
  from assms(1,4) have "put_manifest codec (m1\<lparr>man_package_hash := []\<rparr>) @ LF # t1 =
      put_manifest codec (m2\<lparr>man_package_hash := []\<rparr>) @ LF # t2"
    by (auto simp: package_hash_def sha256_text_def dest: injD)
  then show ?thesis using assms(2,3) by (rule parts)
qed

lemma same_hash_same_content:
  assumes "inj sha"
    and "read_archive sha codec fmt n1 d1 = Inr (m1, p1)" and "read_archive sha codec fmt n2 d2 = Inr (m2, p2)"
    and "man_package_hash m1 = man_package_hash m2"
    and lf: "\<And>m. m \<in> {m1, m2} \<Longrightarrow> LF \<notin> set (put_manifest codec (m\<lparr>man_package_hash := []\<rparr>))"
    and parse: "\<And>m. m \<in> {m1, m2} \<Longrightarrow>
      parse_manifest codec (put_manifest codec (m\<lparr>man_package_hash := []\<rparr>)) = Inr (m\<lparr>man_package_hash := []\<rparr>)"
  shows "m1 = m2 \<and> p1 = p2"
proof -
  have hash: "man_package_hash m = package_hash sha codec m t" if "content_hash_ok sha codec m t" for m t
    using that by (auto simp: content_hash_ok_def split: list.splits)
  obtain t1 where 1: "parse_payload codec t1 = Inr p1" "content_hash_ok sha codec m1 t1"
    using assms(2) by (rule read_archive_Inr)
  obtain t2 where 2: "parse_payload codec t2 = Inr p2" "content_hash_ok sha codec m2 t2"
    using assms(3) by (rule read_archive_Inr)
  have "package_hash sha codec m1 t1 = package_hash sha codec m2 t2"
    using hash [OF 1(2)] hash [OF 2(2)] assms(4) by metis
  from hash_determines [OF assms(1) lf lf this]
  have eq: "put_manifest codec (m1\<lparr>man_package_hash := []\<rparr>) = put_manifest codec (m2\<lparr>man_package_hash := []\<rparr>)" "t1 = t2"
    by simp_all
  from eq(1) parse [of m1] parse [of m2] have "m1\<lparr>man_package_hash := []\<rparr> = m2\<lparr>man_package_hash := []\<rparr>"
    by (metis insertI1 insertI2 sum.inject(2) singletonI)
  with assms(4) have "m1 = m2" by (cases m1; cases m2) simp
  with eq(2) 1(1) 2(1) show ?thesis by simp
qed

section \<open>Imports\<close>

lemma dry_run_pure: "snd (import_payload env True arg allow mp s) = s"
  by (simp add: import_payload_def Let_def op_defs)

lemma import_refused:
  assumes "disagreements (env_versions env) (fst mp) \<noteq> []"
    and "\<not> (allow \<and> materializable (env_versions env) (fst mp))"
  shows "import_payload env False arg allow mp s = (Inl (ValidationFailure ''package_incompatible''), s)"
  using assms by (simp add: import_payload_def Let_def op_defs)

lemma import_conflict:
  assumes "disagreements (env_versions env) (fst mp) = [] \<or> allow \<and> materializable (env_versions env) (fst mp)"
    and "restores (fst mp) (disagreements (env_versions env) (fst mp) = []) arg \<longrightarrow> man_include_data (fst mp)"
    and "cs = collisions (snd mp) (owned_ids (attempt_by_hash (man_package_hash (fst mp)) (svc_graph s))) (svc_graph s)"
    and "cs \<noteq> []"
  shows "import_payload env False arg allow mp s = (Inl (conflict_error cs), s)"
  using assms by (auto simp: import_payload_def Let_def op_defs)

text \<open>The attempt after an import that had nothing left to do.\<close>

definition ended_attempt :: "package_import_attempt \<Rightarrow> int \<Rightarrow> package_import_attempt" where
  "ended_attempt t now = t\<lparr>pkg_phase := ''completed'', pkg_error := None, pkg_status := Import_succeeded,
     pkg_completed_at := Some now\<rparr>"

definition all_members_done :: "package_payload \<Rightarrow> bool \<Rightarrow> package_import_attempt \<Rightarrow> bool" where
  "all_members_done p restore t \<longleftrightarrow>
     (\<forall>a\<in>set (pp_applications p). ''application:'' @ app_id (pa_application a) \<in> set (pkg_completed_members t) \<and>
        (restore \<longrightarrow> ''data:'' @ app_id (pa_application a) \<in> set (pkg_completed_members t))) \<and>
     (pp_experience p \<noteq> None \<longrightarrow> ''experience'' \<in> set (pkg_completed_members t))"

lemma thread_op_skip: "(\<And>x. x \<in> set xs \<Longrightarrow> f x a = ret a) \<Longrightarrow> thread_op f xs a = ret a"
  by (induction xs) simp_all

lemma save_save: "coll_identity c m = coll_identity c n \<Longrightarrow> coll_save c m (coll_save c n g) = coll_save c m g"
  by (simp add: coll_save_def upsert_node_def update_last)

lemma attempt_identity: "coll_identity package_import_attempts_coll t = key (pkg_id t)"
  by (simp add: package_import_attempts_coll_def)

lemma get_attempt_save:
  "coll_get package_import_attempts_coll (key i) (coll_save package_import_attempts_coll t g) =
     (if i = pkg_id t then Some t else coll_get package_import_attempts_coll (key i) g)"
  by (simp add: package_import_attempts.get_save attempt_identity)

lemma resume_done:
  fixes env :: "'z package_env" and s :: "'z svc_scheme"
  assumes c: "disagreements (env_versions env) m = []"
    and d: "restores m True arg \<longrightarrow> man_include_data m"
    and t: "attempt_by_hash (man_package_hash m) (svc_graph s) = Some t" "pkg_phase t \<noteq> ''created''"
    and f: "collisions p (pkg_created_ids t) (svc_graph s) = []"
    and all: "all_members_done p (restores m True arg) t"
    and remount: "env_remount env = ret ()"
  defines "now \<equiv> svc_clock s (svc_ticks s)"
  shows "import_payload env False arg allow (m, p) s =
    (Inr (Imported (attempt_result (ended_attempt t now) m True)),
     s\<lparr>svc_ticks := Suc (svc_ticks s), svc_graph := coll_save package_import_attempts_coll (ended_attempt t now) (svc_graph s)\<rparr>)"
proof -
  let ?u = "t\<lparr>pkg_status := Import_running, pkg_error := None, pkg_completed_at := None\<rparr>"
  let ?s = "s\<lparr>svc_graph := coll_save package_import_attempts_coll ?u (svc_graph s)\<rparr>"
  have resume: "materialize_or_resume env m p (Some t) r s = (Inr ?u, ?s)" for r
    using t(2) by (simp add: materialize_or_resume_def atomically_apply op_defs Let_def)
  have "restore_data env p (restores m True arg) ?u = (ret ?u :: ('z svc_scheme, _) op)"
    using all by (auto simp: restore_data_def all_members_done_def restore_application_def Let_def intro!: thread_op_skip)
  moreover have "activate_applications env p ?u = (ret ?u :: ('z svc_scheme, _) op)"
    using all by (auto simp: activate_applications_def all_members_done_def activate_imported_def Let_def intro!: thread_op_skip)
  moreover have "activate_experience env p ?u = (ret ?u :: ('z svc_scheme, _) op)"
    using all by (auto simp: activate_experience_def all_members_done_def split: option.split)
  ultimately have "carry_out env m p True (restores m True arg) ?u ?s =
      (Inr (Imported (attempt_result (ended_attempt t now) m True)),
       s\<lparr>svc_ticks := Suc (svc_ticks s), svc_graph := coll_save package_import_attempts_coll (ended_attempt t now) (svc_graph s)\<rparr>)"
    by (simp add: carry_out_def end_attempt_def atomically_apply op_defs Let_def remount coll_item_def get_attempt_save
        ended_attempt_def save_save attempt_identity now_def)
  then show ?thesis
    using c d t(1) f by (simp add: import_payload_def Let_def op_defs owned_ids_def resume try_catch_def)
qed

lemma keeps_option: "graph_keeps P m \<Longrightarrow> (\<And>y. graph_keeps P (n y)) \<Longrightarrow> graph_keeps P (case x of None \<Rightarrow> m | Some y \<Rightarrow> n y)"
  by (simp split: option.split)

lemma keeps_cond: "graph_keeps P m \<Longrightarrow> graph_keeps P n \<Longrightarrow> graph_keeps P (if b then m else n)"
  by simp

section \<open>Importing the types of a Package\<close>

text \<open>
  The shape that imports keep: the bindings are labelled, and a type revision stored under the id \<open>i\<close>
  is one of the type \<open>T\<close>.
\<close>

definition type_named :: "string \<Rightarrow> string \<Rightarrow> node_value graph \<Rightarrow> bool" where
  "type_named i T g \<longleftrightarrow> declared_ok g \<and>
     (\<forall>x. coll_get object_type_revisions_coll (key i) g = Some x \<longrightarrow> otrev_object_type_id x = T)"

definition declared_type_id :: "(string \<Rightarrow> string) \<Rightarrow> string \<Rightarrow> object_type_revision \<Rightarrow> string" where
  "declared_type_id sha T src =
     intern_id sha (object_type_payload T (otrev_name src) (otrev_properties src) (otrev_required src))"

lemma type_named_delete_node: "type_named i T g \<Longrightarrow> type_named i T (delete_node l j g)"
  by (auto simp: type_named_def object_type_revisions.get_delete_node intro: declared_ok_delete_node split: if_splits)

lemma type_named_delete_edge: "type_named i T g \<Longrightarrow> type_named i T (delete_edge f t to p g)"
  by (auto simp: type_named_def object_type_revisions.get_delete_edge intro: declared_ok_delete_edge)

lemma type_named_create_edge:
  "type_named i T g \<Longrightarrow> \<forall>l. (t, l) \<in> set binding_types \<longrightarrow> (\<exists>i. to = id_ref l i) \<Longrightarrow> type_named i T (create_edge f t to p g)"
  by (auto simp: type_named_def object_type_revisions.get_create_edge intro: declared_ok_create_edge)

lemma declared_ok_save: "record_collection d \<Longrightarrow> declared_ok g \<Longrightarrow> declared_ok (coll_save d m g)"
  by (auto simp: declared_ok_def record_collection.typed_save)

lemma type_named_save_stable: "type_named i T g \<Longrightarrow> type_named i T (coll_save object_types_coll m g)"
  using object_type_revisions.get_upsert_other [of "''ObjectType''" "key i"]
  by (auto simp: type_named_def object_types_coll_def coll_save_def object_type_revisions_coll_def
      intro!: declared_ok_save [OF object_types.record_collection_axioms, unfolded coll_save_def object_types_coll_def, simplified])

lemma type_named_save_revision:
  "type_named i T g \<Longrightarrow> otrev_id x = i \<longrightarrow> otrev_object_type_id x = T \<Longrightarrow>
     type_named i T (coll_save object_type_revisions_coll x g)"
  by (auto simp: type_named_def object_type_revisions.get_save object_type_bindings.identity
      intro: declared_ok_save [OF object_type_revisions.record_collection_axioms])

lemma type_named_rebind:
  "graph_keeps (type_named i T) (rebind rid ''HAS_OBJECT_TYPE_REVISION'' c idf nf n next_id ''ObjectTypeRevision'')"
  unfolding rebind_def
  by (intro graph_keeps_bindE graph_keeps_pure graph_keeps_store_op, rule op_keepsD [OF replace_named_keeps])
    (auto intro: type_named_delete_node type_named_delete_edge type_named_create_edge simp: binding_types_def)

lemma type_named_create:
  assumes "intern_id sha (object_type_payload otid name props req) = i \<longrightarrow> otid = T"
  shows "graph_keeps (type_named i T) (create_object_type sha rid otid name props req)"
proof -
  have edge: "graph_keeps (type_named i T) (link f t to)" if "t \<notin> set (map fst binding_types)" for f t to
    using that by (intro graph_keeps_writes type_named_create_edge) (force simp: image_iff)+
  have ir: "graph_keeps (type_named i T) (interned_record object_type_revisions_coll j new)"
    if "\<And>t. otrev_id (new t) = i \<longrightarrow> otrev_object_type_id (new t) = T" for j new
    unfolding interned_record_def
    by (intro graph_keeps_bindE keeps_option graph_keeps_pure graph_keeps_writes type_named_save_revision that)
  show ?thesis
    unfolding create_object_type_def require_application_def stable_record_def link_definition_def Let_def
    by (intro graph_keeps_atomically graph_keeps_bindE keeps_cond keeps_option graph_keeps_pure type_named_rebind edge
        graph_keeps_writes type_named_save_stable) (use assms in \<open>auto simp: binding_types_def intro!: ir\<close>)
qed

lemma type_named_stable:
  "graph_keeps (type_named i T) (import_stable ''ObjectType'' sid (bindE now_utc (\<lambda>t. ret (ObjectTypeNode
     \<lparr>otype_id = sid, otype_application_id = app, otype_active_revision_id = None, otype_created_at = t\<rparr>))) l)"
proof -
  have c: "create_node ''ObjectType'' (key sid) (ObjectTypeNode m) g = (r, h) \<Longrightarrow> otype_id m = sid \<Longrightarrow>
      h = g \<or> h = coll_save object_types_coll m g" for m g h and r :: "exn + unit"
    by (auto simp: create_node_def coll_save_def object_types_coll_def split: option.splits)
  have "graph_keeps (type_named i T) (bindE (bindE now_utc (\<lambda>t. ret (ObjectTypeNode
     \<lparr>otype_id = sid, otype_application_id = app, otype_active_revision_id = None, otype_created_at = t\<rparr>))) (\<lambda>v.
     bindE (store_op (create_node ''ObjectType'' (key sid) v)) (\<lambda>_. ret (created ''ObjectType'' sid l))))"
    unfolding bindE_assoc bindE_ret
    by (intro graph_keeps_bindE graph_keeps_pure graph_keeps_store_op) (auto dest!: c intro: type_named_save_stable)
  then show ?thesis unfolding import_stable_def by (intro keeps_cond graph_keeps_pure)
qed

lemma type_named_import:
  assumes "declared_type_id (env_sha env) (otype_id (fst q)) (snd q) = i \<longrightarrow> otype_id (fst q) = T"
  shows "graph_keeps (type_named i T) (import_object_type env app rid q l)"
  unfolding import_object_type_def Let_def
  by (intro graph_keeps_bindE graph_keeps_pure type_named_stable type_named_create)
    (use assms in \<open>auto simp: declared_type_id_def\<close>)

lemma keeps_thread: "(\<And>x a. x \<in> set xs \<Longrightarrow> graph_keeps P (f x a)) \<Longrightarrow> graph_keeps P (thread_op f xs a)"
  by (induction xs arbitrary: a) (auto intro!: graph_keeps_bindE graph_keeps_pure)

lemma thread_op_append: "thread_op f (xs @ ys) a = bindE (thread_op f xs a) (thread_op f ys)"
  by (induction xs arbitrary: a) (simp_all add: bindE_assoc fun_eq_iff op_defs split: prod.split sum.split)

lemma thread_op_single: "thread_op f [x] = f x"
  by (simp add: fun_eq_iff op_defs split: prod.split sum.split)

lemma create_object_type_id:
  assumes "create_object_type sha rid otid name props req s = (Inr r, s')" and "typed_graph (svc_graph s)"
  shows "otrev_id r = intern_id sha (object_type_payload otid name props req)"
    and "otrev_object_type_id r = otid \<or>
      coll_get object_type_revisions_coll (key (otrev_id r)) (svc_graph s) = Some r"
proof -
  from assms(1) obtain draft s0 s1 where
    d: "require_application rid s = (Inr draft, s0)"
    and i: "interned_record object_type_revisions_coll (intern_id sha (object_type_payload otid name props req)) (\<lambda>t.
         \<lparr>otrev_id = intern_id sha (object_type_payload otid name props req), otrev_object_type_id = otid, otrev_name = name,
          otrev_properties = props, otrev_required = req, otrev_created_at = t,
          otrev_content_hash = intern_id sha (object_type_payload otid name props req)\<rparr>) s0 = (Inr r, s1)"
    by (auto simp: create_object_type_def atomically_Inr bindE_Inr_iff ret_Inr Let_def)
  have "s0 = s" using require_application_Inr [OF d] by simp
  with interned_record_Inr [OF i] object_type_bindings.get_id [OF assms(2)]
  show "otrev_id r = intern_id sha (object_type_payload otid name props req)"
    "otrev_object_type_id r = otid \<or> coll_get object_type_revisions_coll (key (otrev_id r)) (svc_graph s) = Some r"
    by auto
qed

lemma last_type_bound:
  assumes run: "thread_op (import_object_type env app rid) (qs @ [q]) l s = (Inr l', s')"
    and ok: "type_named i T (svc_graph s)" and i: "i = declared_type_id (env_sha env) T (snd q)" and T: "T = otype_id (fst q)"
    and apart: "\<And>p. p \<in> set qs \<Longrightarrow> declared_type_id (env_sha env) (otype_id (fst p)) (snd p) = i \<Longrightarrow> otype_id (fst p) = T"
  obtains r ys where "otrev_id r = i" and "object_type_revisions rid (svc_graph s') = Inr ys"
    and "filter (\<lambda>y. otrev_object_type_id y = T) ys = [r]"
    and "mapped_id (fst l') ''ObjectTypeRevision'' (otrev_id (snd q)) = Inr i"
proof -
  from run obtain l1 s1 where qs: "thread_op (import_object_type env app rid) qs l s = (Inr l1, s1)"
    and q: "import_object_type env app rid q l1 s1 = (Inr l', s')"
    by (auto simp: thread_op_append thread_op_single bindE_Inr_iff)
  have "graph_keeps (type_named i T) (thread_op (import_object_type env app rid) qs l)"
    by (intro keeps_thread type_named_import) (use apart in blast)
  from graph_keepsD [OF this qs ok] have ok1: "type_named i T (svc_graph s1)" .
  from q T obtain l2 s2 r where
    st: "import_stable ''ObjectType'' T (bindE now_utc (\<lambda>t. ret (ObjectTypeNode
        \<lparr>otype_id = T, otype_application_id = app, otype_active_revision_id = None, otype_created_at = t\<rparr>))) l1 s1 = (Inr l2, s2)"
    and cr: "create_object_type (env_sha env) rid T (otrev_name (snd q)) (otrev_properties (snd q)) (otrev_required (snd q)) s2
      = (Inr r, s')"
    and l': "l' = mapped ''ObjectTypeRevision'' (otrev_id (snd q)) (otrev_id r) l2"
    by (auto simp: import_object_type_def Let_def bindE_Inr_iff ret_Inr)
  have ok2: "type_named i T (svc_graph s2)" by (rule graph_keepsD [OF type_named_stable st ok1])
  then have d2: "declared_ok (svc_graph s2)" by (simp add: type_named_def)
  then have t2: "typed_graph (svc_graph s2)" by (simp add: declared_ok_def)
  have r: "otrev_id r = i" using create_object_type_id(1) [OF cr t2] i by (simp add: declared_type_id_def)
  have n: "otrev_object_type_id r = T"
    using create_object_type_id(2) [OF cr t2] ok2 r by (auto simp: type_named_def)
  have "mapped_id (fst l') ''ObjectTypeRevision'' (otrev_id (snd q)) = Inr i"
    by (simp add: l' mapped_def mapped_id_def dict_simps r)
  with create_object_type_Inr(2) [OF cr d2 n] r show thesis by (elim exE conjE) (rule that)
qed

text \<open>The revisions that only data refer to come after those the active revision binds.\<close>

lemma append_referenced_last:
  "append_referenced c app_of rc owner app err g seen pairs xs = Inr qs \<Longrightarrow> \<exists>more. qs = pairs @ more"
  by (induction c app_of rc owner app err g seen pairs xs rule: append_referenced.induct)
    (fastforce split: option.splits if_split_asm)+

end
