(* ===== verification/Deletion_Laws.thy ===== *)
theory Deletion_Laws
  imports Package_Laws Checkpoint_Laws
begin

text \<open>
  What deleting a working set leaves: no record and no relation of a deleted Application, nothing
  of the deleted Experience, and every record of the other Applications.
\<close>


section \<open>Deleting a working set\<close>

text \<open>The Application a record names as its owner.\<close>

fun owner_of :: "node_value \<Rightarrow> string option" where
  "owner_of (ApplicationNode r) = Some (app_id r)"
| "owner_of (DataSpaceNode r) = Some (space_application_id r)"
| "owner_of (ApplicationRevisionNode r) = Some (rev_application_id r)"
| "owner_of (ApplicationObjectNode r) = Some (obj_application_id r)"
| "owner_of (ObjectTypeNode r) = Some (otype_application_id r)"
| "owner_of (RelationTypeNode r) = Some (rtype_application_id r)"
| "owner_of (SecretReferenceNode r) = Some (secret_application_id r)"
| "owner_of (CredentialRecordNode r) = Some (cred_application_id r)"
| "owner_of (CallbackRouteNode r) = Some (route_application_id r)"
| "owner_of (ActionNode r) = Some (act_application_id r)"
| "owner_of (TriggerNode r) = Some (trig_application_id r)"
| "owner_of (JobRecordNode r) = Some (job_application_id r)"
| "owner_of (CypherAuditRecordNode r) = Some (audit_application_id r)"
| "owner_of (GraphCheckpointNode r) = Some (ckpt_application_id r)"
| "owner_of _ = None"

text \<open>Steps that only delete nodes of well-formed graphs.\<close>

definition well_kept :: "node_value graph \<Rightarrow> bool" where
  "well_kept g \<longleftrightarrow> typed_graph g \<and> wf_graph g"

definition shrinks :: "(node_value graph \<Rightarrow> node_value graph) \<Rightarrow> bool" where
  "shrinks f \<longleftrightarrow> (\<forall>g. well_kept g \<longrightarrow> well_kept (f g) \<and>
     set (nodes (f g)) \<subseteq> set (nodes g) \<and> set (app_relations (f g)) \<subseteq> set (app_relations g))"

definition lacks :: "(node_value \<Rightarrow> bool) \<Rightarrow> node_value graph \<Rightarrow> bool" where
  "lacks Q g \<longleftrightarrow> (\<forall>n\<in>set (nodes g). \<not> Q (snd n))"

lemma shrinks_delete_node: "shrinks (delete_node l i)"
  unfolding shrinks_def well_kept_def nodes_delete_node
  by (intro allI impI conjI set_dict_pop typed_delete_node wf_delete_node relations_delete_node(1)) auto

lemma shrinks_comp: "shrinks f \<Longrightarrow> shrinks h \<Longrightarrow> shrinks (\<lambda>g. h (f g))"
  unfolding shrinks_def by blast

lemma shrinks_fold: "(\<And>x. x \<in> set xs \<Longrightarrow> shrinks (f x)) \<Longrightarrow> shrinks (fold f xs)"
proof (induction xs)
  case Nil
  then show ?case by (simp add: shrinks_def)
next
  case (Cons x xs)
  then have "shrinks (f x)" "shrinks (fold f xs)" by auto
  from shrinks_comp [OF this] show ?case by (simp add: comp_def)
qed

lemma shrinks_dep: "(\<And>x. shrinks (f x)) \<Longrightarrow> shrinks (\<lambda>g. f (h g) g)"
  by (simp add: shrinks_def)

lemma shrinks_steps: "(\<And>f. f \<in> set fs \<Longrightarrow> shrinks f) \<Longrightarrow> shrinks (steps fs)"
  unfolding steps_def using shrinks_fold [of fs "\<lambda>f. f"] by simp

lemma shrinks_coll_delete: "shrinks (coll_delete c i)"
  using shrinks_delete_node [of "coll_label c" i] by (simp add: shrinks_def coll_delete_def)

lemma shrinks_delete_where: "shrinks (delete_where c P)"
  unfolding delete_where_def
  using shrinks_dep [of "\<lambda>ms. fold (\<lambda>m. coll_delete c (coll_identity c m)) ms" "\<lambda>g. filter P (coll_values c g)"]
  by (simp add: shrinks_fold shrinks_coll_delete)

lemma lacks_shrinks: "shrinks f \<Longrightarrow> well_kept g \<Longrightarrow> lacks Q g \<Longrightarrow> lacks Q (f g)"
  unfolding shrinks_def lacks_def by blast

lemma lacks_steps:
  assumes "\<And>f. f \<in> set fs \<Longrightarrow> shrinks f" and "f \<in> set fs" and "\<And>h. well_kept h \<Longrightarrow> lacks Q (f h)" and "well_kept g"
  shows "lacks Q (steps fs g)"
proof -
  from assms(2) obtain as bs where fs: "fs = as @ f # bs" by (meson split_list)
  have sh: "shrinks (steps as)" "shrinks (steps bs)" "shrinks f" using assms(1) fs by (auto intro!: shrinks_steps)
  have wa: "well_kept (steps as g)" using sh(1) assms(4) by (simp add: shrinks_def)
  then have wf: "well_kept (f (steps as g))" using sh(3) by (simp add: shrinks_def)
  have "lacks Q (steps bs (f (steps as g)))" by (rule lacks_shrinks [OF sh(2) wf assms(3) [OF wa]])
  then show ?thesis by (simp add: fs steps_def)
qed

text \<open>What \<^verbatim>\<open>_delete_where\<close> leaves of the collection.\<close>

lemma nodes_fold_delete:
  "nodes (fold (\<lambda>m. coll_delete c (coll_identity c m)) ms g) =
     filter (\<lambda>n. fst n \<notin> (\<lambda>m. (coll_label c, coll_identity c m)) ` set ms) (nodes g)"
  by (induction ms arbitrary: g)
    (auto simp: coll_delete_def nodes_delete_node AList.delete_eq filter_filter intro!: filter_cong)

lemma node_in: "well_kept g \<Longrightarrow> (k, v) \<in> set (nodes g) \<longleftrightarrow> get_node (fst k) (snd k) g = Some v"
  by (simp add: get_node_def well_kept_def wf_graph_def)

context record_collection
begin

lemma value_node: "well_kept g \<Longrightarrow> m \<in> set (coll_values c g) \<longleftrightarrow> ((coll_label c, coll_identity c m), coll_put c m) \<in> set (nodes g)"
  by (simp add: node_in values_iff well_kept_def get_Some_node)

lemma node_value:
  assumes "well_kept g" and "(k, coll_put c m) \<in> set (nodes g)"
  shows "k = (coll_label c, coll_identity c m)"
  using assms label_put identity_put by (auto simp: well_kept_def typed_graph_def list_all_iff)

lemma lacks_where:
  assumes g: "well_kept g" shows "lacks (\<lambda>v. \<exists>m. v = coll_put c m \<and> P m) (delete_where c P g)"
proof -
  have "fst n \<in> (\<lambda>m. (coll_label c, coll_identity c m)) ` set (filter P (coll_values c g))"
    if "n \<in> set (nodes g)" "snd n = coll_put c m" "P m" for n m
  proof -
    have n: "(fst n, coll_put c m) \<in> set (nodes g)" using that(1,2) by (metis prod.collapse)
    from node_value [OF g n] n value_node [OF g, of m] that(3) show ?thesis by auto
  qed
  then show ?thesis unfolding lacks_def delete_where_def nodes_fold_delete by auto
qed

text \<open>A record the predicate does not hold for stays, and so does every other node.\<close>

lemma stays_where:
  assumes g: "well_kept g" and n: "n \<in> set (nodes g)" and P: "\<And>m. snd n = coll_put c m \<Longrightarrow> \<not> P m"
  shows "n \<in> set (nodes (delete_where c P g))"
proof -
  have "fst n \<noteq> (coll_label c, coll_identity c m)" if "m \<in> set (filter P (coll_values c g))" for m
  proof
    assume "fst n = (coll_label c, coll_identity c m)"
    moreover have "((coll_label c, coll_identity c m), coll_put c m) \<in> set (nodes g)" using that value_node [OF g] by simp
    ultimately have "snd n = coll_put c m"
      using n g by (cases n) (simp add: node_in)
    with P that show False by simp
  qed
  with n show ?thesis by (auto simp: delete_where_def nodes_fold_delete)
qed

end

section \<open>What is left of an Application\<close>

lemma shrinks_relation_delete: "shrinks (relation_delete r)"
  unfolding shrinks_def well_kept_def relation_delete_def delete_app_relation_def
  by (auto simp: typed_graph_def wf_graph_def file_edges_def dict_simps distinct_map_filter_comm
      dest: set_dict_pop [THEN subsetD] simp del: filter_filter)

lemma shrinks_drop_relations: "shrinks (drop_relations app)"
  unfolding drop_relations_def
  using shrinks_dep [of "\<lambda>rs. fold relation_delete rs" "\<lambda>g. filter (\<lambda>r. rel_application_id r = app) (relation_list_all g)"]
  by (simp add: shrinks_fold shrinks_relation_delete)

lemma shrinks_id: "shrinks (\<lambda>g. g)"
  by (simp add: shrinks_def)

lemma shrinks_draft_trees: "shrinks (drop_draft_trees rids)"
  unfolding drop_draft_trees_def
  using shrinks_dep [of "\<lambda>ts. fold (\<lambda>t. coll_delete source_trees_coll (key (tree_id t))) ts"
      "\<lambda>g. filter (\<lambda>t. tree_status t = Tree_draft \<and> (case tree_owner_id t of None \<Rightarrow> False | Some o' \<Rightarrow> o' \<in> set rids))
          (coll_values source_trees_coll g)"]
  by (simp add: shrinks_fold shrinks_coll_delete)

lemma shrinks_runtime: "shrinks (delete_owned_revision_runtime rids)"
  unfolding delete_owned_revision_runtime_def
  by (rule shrinks_steps) (auto simp: shrinks_draft_trees shrinks_delete_where)

lemma drop_steps_shrink: "f \<in> set (drop_steps app m) \<Longrightarrow> shrinks f"
  by (auto simp: drop_steps_def shrinks_drop_relations shrinks_delete_where shrinks_runtime shrinks_coll_delete
      intro!: shrinks_steps)

lemma shrinks_drop_application: "shrinks (drop_application app m)"
  unfolding drop_application_def by (rule shrinks_steps) (rule drop_steps_shrink)

lemma drop_lacks:
  assumes "f \<in> set (drop_steps app m)" and "\<And>h. well_kept h \<Longrightarrow> lacks Q (f h)" and "well_kept g"
  shows "lacks Q (drop_application app m g)"
  unfolding drop_application_def by (rule lacks_steps [OF drop_steps_shrink assms])

context record_collection
begin

lemma lacks_delete: "well_kept g \<Longrightarrow> lacks (\<lambda>v. \<exists>x. v = coll_put c x \<and> coll_identity c x = i) (coll_delete c i g)"
  using node_value [of g] by (fastforce simp: lacks_def coll_delete_def nodes_delete_node AList.delete_eq)

lemma lacks_deletes:
  assumes "well_kept g"
  shows "lacks (\<lambda>v. \<exists>x. v = coll_put c x \<and> coll_identity c x \<in> key ` set rids) (steps (map (\<lambda>i. coll_delete c (key i)) rids) g)"
proof -
  have "lacks (\<lambda>v. \<exists>x. v = coll_put c x \<and> coll_identity c x = key i) (steps (map (\<lambda>i. coll_delete c (key i)) rids) g)"
    if "i \<in> set rids" for i
    by (rule lacks_steps [of _ "coll_delete c (key i)"]) (use that assms in \<open>auto simp: shrinks_coll_delete intro: lacks_delete\<close>)
  then show ?thesis by (auto simp: lacks_def)
qed

lemma members_nodes:
  assumes "well_kept g" and "(k, coll_put c x) \<in> set (nodes g)" and "P x" shows "the_id x \<in> set (ids_where c the_id P g)"
  using assms node_value [OF assms(1,2)] value_node [OF assms(1), of x] by (auto simp: ids_where_def)

end

lemma drop_where:
  assumes "delete_where c P \<in> set (drop_steps app m)" and "record_collection c" and "well_kept g"
  shows "lacks (\<lambda>v. \<exists>x. v = coll_put c x \<and> P x) (drop_application app m g)"
  by (rule drop_lacks [OF assms(1) record_collection.lacks_where [OF assms(2)] assms(3)])

lemma drop_application_lacks:
  assumes g: "well_kept g" and m: "application_members app g = Inr m"
  shows "lacks (\<lambda>v. owner_of v = Some app) (drop_application app m g)"
proof -
  let ?h = "drop_application app m g"
  note w = drop_where [OF _ _ g, of _ _ app m]
  have sub: "n \<in> set (nodes g)" if "n \<in> set (nodes ?h)" for n
    using that shrinks_drop_application g by (auto simp: shrinks_def)
  have ids: "mem_revisions m = ids_where revisions_coll rev_id (\<lambda>r. rev_application_id r = app) g"
    "mem_object_types m = ids_where object_types_coll otype_id (\<lambda>t. otype_application_id t = app) g"
    "mem_relation_types m = ids_where relation_types_coll rtype_id (\<lambda>t. rtype_application_id t = app) g"
    "mem_actions m = ids_where actions_coll act_id (\<lambda>t. act_application_id t = app) g"
    "mem_triggers m = ids_where triggers_coll trig_id (\<lambda>t. trig_application_id t = app) g"
    using m by (auto simp: application_members_def Let_def rbind_eq_Inr)
  have mem: "f \<in> set (drop_steps app m) \<Longrightarrow> (\<And>h. well_kept h \<Longrightarrow> lacks Q (f h)) \<Longrightarrow> lacks Q ?h" for f Q
    by (rule drop_lacks [OF _ _ g])
  have direct: "lacks (\<lambda>v. \<exists>x. v = coll_put data_spaces_coll x \<and> space_application_id x = app) ?h"
    "lacks (\<lambda>v. \<exists>x. v = coll_put objects_coll x \<and> obj_application_id x = app) ?h"
    "lacks (\<lambda>v. \<exists>x. v = coll_put secret_references_coll x \<and> secret_application_id x = app) ?h"
    "lacks (\<lambda>v. \<exists>x. v = coll_put credential_records_coll x \<and> cred_application_id x = app) ?h"
    "lacks (\<lambda>v. \<exists>x. v = coll_put callback_routes_coll x \<and> route_application_id x = app) ?h"
    "lacks (\<lambda>v. \<exists>x. v = coll_put job_records_coll x \<and> job_application_id x = app) ?h"
    "lacks (\<lambda>v. \<exists>x. v = coll_put cypher_audits_coll x \<and> audit_application_id x = app) ?h"
    "lacks (\<lambda>v. \<exists>x. v = coll_put checkpoints_coll x \<and> ckpt_application_id x = app) ?h"
    "lacks (\<lambda>v. \<exists>x. v = coll_put object_types_coll x \<and> otype_id x \<in> set (mem_object_types m)) ?h"
    "lacks (\<lambda>v. \<exists>x. v = coll_put relation_types_coll x \<and> rtype_id x \<in> set (mem_relation_types m)) ?h"
    "lacks (\<lambda>v. \<exists>x. v = coll_put actions_coll x \<and> act_id x \<in> set (mem_actions m)) ?h"
    "lacks (\<lambda>v. \<exists>x. v = coll_put triggers_coll x \<and> trig_id x \<in> set (mem_triggers m)) ?h"
    by (rule w; simp add: drop_steps_def data_spaces.record_collection_axioms objects.record_collection_axioms
        secret_references.record_collection_axioms credential_records.record_collection_axioms
        callback_routes.record_collection_axioms job_records.record_collection_axioms
        cypher_audits.record_collection_axioms checkpoints.record_collection_axioms object_types.record_collection_axioms
        relation_types.record_collection_axioms actions.record_collection_axioms triggers.record_collection_axioms)+
  have revs: "lacks (\<lambda>v. \<exists>x. v = coll_put revisions_coll x \<and> coll_identity revisions_coll x \<in> key ` set (mem_revisions m)) ?h"
    by (rule mem [of "steps (map (\<lambda>i. coll_delete revisions_coll (key i)) (mem_revisions m))"])
      (simp add: drop_steps_def, rule revisions.lacks_deletes)
  have apps: "lacks (\<lambda>v. \<exists>x. v = coll_put applications_coll x \<and> coll_identity applications_coll x = key app) ?h"
    by (rule mem [of "coll_delete applications_coll (key app)"]) (simp add: drop_steps_def, rule applications.lacks_delete)
  show ?thesis
    unfolding lacks_def
  proof (intro ballI notI)
    fix n assume n: "n \<in> set (nodes ?h)" and own: "owner_of (snd n) = Some app"
    have ng: "(fst n, snd n) \<in> set (nodes g)" using sub [OF n] by simp
    note put = applications_coll_def data_spaces_coll_def revisions_coll_def objects_coll_def object_types_coll_def
      relation_types_coll_def secret_references_coll_def credential_records_coll_def callback_routes_coll_def
      actions_coll_def triggers_coll_def job_records_coll_def cypher_audits_coll_def checkpoints_coll_def
    have "\<forall>Q. lacks Q ?h \<longrightarrow> \<not> Q (snd n)" using n by (auto simp: lacks_def)
    note no = this [rule_format]
    have rev: "rev_id x \<in> set (mem_revisions m)" if "snd n = coll_put revisions_coll x" "rev_application_id x = app" for x
      using revisions.members_nodes [OF g, of "fst n" x] ng that by (simp add: ids)
    have types: "snd n = coll_put object_types_coll x \<Longrightarrow> otype_application_id x = app \<Longrightarrow> otype_id x \<in> set (mem_object_types m)"
      "snd n = coll_put relation_types_coll y \<Longrightarrow> rtype_application_id y = app \<Longrightarrow> rtype_id y \<in> set (mem_relation_types m)"
      "snd n = coll_put actions_coll z \<Longrightarrow> act_application_id z = app \<Longrightarrow> act_id z \<in> set (mem_actions m)"
      "snd n = coll_put triggers_coll t \<Longrightarrow> trig_application_id t = app \<Longrightarrow> trig_id t \<in> set (mem_triggers m)" for x y z t
      using object_types.members_nodes [OF g, of "fst n" x] relation_types.members_nodes [OF g, of "fst n" y]
        actions.members_nodes [OF g, of "fst n" z] triggers.members_nodes [OF g, of "fst n" t] ng by (simp_all add: ids)
    show False
      using own no [OF apps] no [OF revs] rev types direct [THEN no]
      by (cases "snd n") (auto simp: put)
  qed
qed

section \<open>What stays\<close>

definition preserves :: "(node_value graph \<Rightarrow> bool) \<Rightarrow> (node_value graph \<Rightarrow> node_value graph) \<Rightarrow> bool" where
  "preserves P f \<longleftrightarrow> (\<forall>g. P g \<longrightarrow> P (f g))"

lemma preserves_fold: "(\<And>x. x \<in> set xs \<Longrightarrow> preserves P (f x)) \<Longrightarrow> preserves P (fold f xs)"
  by (induction xs) (auto simp: preserves_def)

lemma preserves_steps: "(\<And>f. f \<in> set fs \<Longrightarrow> preserves P f) \<Longrightarrow> preserves P (steps fs)"
  unfolding steps_def using preserves_fold [of fs P "\<lambda>f. f"] by simp

lemma preserves_dep: "(\<And>g. P g \<Longrightarrow> preserves P (f (h g))) \<Longrightarrow> preserves P (\<lambda>g. f (h g) g)"
  by (simp add: preserves_def)

text \<open>A node of another Application, in a graph that only lost nodes since \<open>g0\<close>.\<close>

definition holds_node :: "node_value graph \<Rightarrow> (string \<times> ident) \<times> node_value \<Rightarrow> node_value graph \<Rightarrow> bool" where
  "holds_node g0 n h \<longleftrightarrow> well_kept h \<and> set (nodes h) \<subseteq> set (nodes g0) \<and> n \<in> set (nodes h)"

lemma holds_where:
  assumes "record_collection c" and "\<And>m. snd n = coll_put c m \<Longrightarrow> \<not> P m"
  shows "preserves (holds_node g0 n) (delete_where c P)"
proof -
  have "n \<in> set (nodes (delete_where c P h))" if "well_kept h" "n \<in> set (nodes h)" for h
    by (rule record_collection.stays_where [OF assms(1) that assms(2)])
  then show ?thesis using shrinks_delete_where [of c P] unfolding preserves_def holds_node_def shrinks_def by blast
qed

lemma holds_delete:
  assumes "record_collection c" and "\<And>m. snd n = coll_put c m \<Longrightarrow> coll_identity c m \<noteq> i"
    and "fst n = (node_label (snd n), node_identity (snd n))"
  shows "preserves (holds_node g0 n) (coll_delete c i)"
proof -
  have "fst n \<noteq> (coll_label c, i)"
  proof
    assume a: "fst n = (coll_label c, i)"
    with assms(3) have "node_label (snd n) = coll_label c" by simp
    then obtain m where "snd n = coll_put c m" using record_collection.label_only [OF assms(1)] by blast
    with a assms(2,3) record_collection.identity_put [OF assms(1)] show False by simp
  qed
  then have "n \<in> set (nodes (coll_delete c i h))" if "n \<in> set (nodes h)" for h
    using that by (cases n) (auto simp: coll_delete_def nodes_delete_node AList.delete_eq)
  then show ?thesis using shrinks_coll_delete [of c i] unfolding preserves_def holds_node_def shrinks_def by blast
qed

lemma holds_relation_delete: "preserves (holds_node g0 n) (relation_delete r)"
  unfolding preserves_def holds_node_def
  using shrinks_relation_delete by (auto simp: shrinks_def relation_delete_def delete_app_relation_def)

lemma holds_draft_trees:
  assumes "fst n = (node_label (snd n), node_identity (snd n))" and "\<And>t. snd n \<noteq> SourceTreeNode t"
  shows "preserves (holds_node g0 n) (drop_draft_trees rids)"
proof -
  have "preserves (holds_node g0 n) (coll_delete source_trees_coll (key i))" for i
    by (rule holds_delete [OF source_trees.record_collection_axioms _ assms(1)]) (simp add: source_trees_coll_def assms(2))
  then have "preserves (holds_node g0 n) (fold (\<lambda>t. coll_delete source_trees_coll (key (tree_id t))) ts)" for ts
    by (rule preserves_fold)
  then show ?thesis unfolding drop_draft_trees_def preserves_def by blast
qed

lemma id_where_unique:
  assumes "record_collection c" and g: "well_kept g" and "n \<in> set (nodes g)" and "snd n = coll_put c x"
    and "the_id x \<in> set (ids_where c the_id P g)" and "\<And>y. coll_identity c y = key (the_id y)"
  shows "P x"
proof -
  note rc = assms(1)
  from assms(5) obtain y where y: "y \<in> set (coll_values c g)" "P y" "the_id y = the_id x" by (auto simp: ids_where_def)
  have "((coll_label c, coll_identity c y), coll_put c y) \<in> set (nodes g)"
    using record_collection.value_node [OF rc g] y(1) by simp
  moreover have "((coll_label c, coll_identity c x), coll_put c x) \<in> set (nodes g)"
    using assms(3,4) record_collection.node_value [OF rc g, of "fst n" x] by (metis prod.collapse)
  ultimately have "coll_put c y = coll_put c x" using assms(6) y(3) g by (simp add: node_in)
  then have "y = x" using record_collection.decode_iff [OF rc] by (metis option.inject)
  with y(2) show ?thesis by simp
qed

lemmas deleted_collections =
  objects.record_collection_axioms
  data_spaces.record_collection_axioms
  job_attempts.record_collection_axioms
  job_records.record_collection_axioms
  cypher_audits.record_collection_axioms
  invocations.record_collection_axioms
  checkpoint_blobs.record_collection_axioms
  checkpoint_snapshots.record_collection_axioms
  checkpoints.record_collection_axioms
  credential_records.record_collection_axioms
  callback_routes.record_collection_axioms
  secret_references.record_collection_axioms
  validation_reports.record_collection_axioms
  triggers.record_collection_axioms
  actions.record_collection_axioms
  object_types.record_collection_axioms
  relation_types.record_collection_axioms
  python_environments.record_collection_axioms
  javascript_environments.record_collection_axioms
  build_artifacts.record_collection_axioms
  build_invocations.record_collection_axioms
  revisions.record_collection_axioms
  applications.record_collection_axioms

lemmas deleted_puts =
  objects_coll_def data_spaces_coll_def job_attempts_coll_def job_records_coll_def cypher_audits_coll_def invocations_coll_def checkpoint_blobs_coll_def checkpoint_snapshots_coll_def checkpoints_coll_def credential_records_coll_def callback_routes_coll_def secret_references_coll_def validation_reports_coll_def triggers_coll_def actions_coll_def object_types_coll_def relation_types_coll_def python_environments_coll_def javascript_environments_coll_def build_artifacts_coll_def build_invocations_coll_def revisions_coll_def applications_coll_def

lemma drop_application_holds:
  assumes g: "well_kept g" and m: "application_members app g = Inr m"
    and n: "n \<in> set (nodes g)" and own: "owner_of (snd n) = Some a" and a: "a \<noteq> app"
  shows "n \<in> set (nodes (drop_application app m g))"
proof -
  have nl: "fst n = (node_label (snd n), node_identity (snd n))"
    using g n by (auto simp: well_kept_def typed_graph_def list_all_iff)
  have ids: "mem_revisions m = ids_where revisions_coll rev_id (\<lambda>r. rev_application_id r = app) g"
    "mem_object_types m = ids_where object_types_coll otype_id (\<lambda>t. otype_application_id t = app) g"
    "mem_relation_types m = ids_where relation_types_coll rtype_id (\<lambda>t. rtype_application_id t = app) g"
    "mem_actions m = ids_where actions_coll act_id (\<lambda>t. act_application_id t = app) g"
    "mem_triggers m = ids_where triggers_coll trig_id (\<lambda>t. trig_application_id t = app) g"
    using m by (auto simp: application_members_def Let_def rbind_eq_Inr)
  have rev: "rev_id x \<notin> set (mem_revisions m)" if "snd n = ApplicationRevisionNode x" for x
    using id_where_unique [OF revisions.record_collection_axioms g n, of x rev_id "\<lambda>r. rev_application_id r = app"] that own a ids
    by (auto simp: revisions_coll_def)
  have types: "snd n = ObjectTypeNode x \<Longrightarrow> otype_id x \<notin> set (mem_object_types m)"
    "snd n = RelationTypeNode y \<Longrightarrow> rtype_id y \<notin> set (mem_relation_types m)"
    "snd n = ActionNode z \<Longrightarrow> act_id z \<notin> set (mem_actions m)"
    "snd n = TriggerNode t \<Longrightarrow> trig_id t \<notin> set (mem_triggers m)" for x y z t
    using id_where_unique [OF object_types.record_collection_axioms g n, of x otype_id "\<lambda>r. otype_application_id r = app"]
      id_where_unique [OF relation_types.record_collection_axioms g n, of y rtype_id "\<lambda>r. rtype_application_id r = app"]
      id_where_unique [OF actions.record_collection_axioms g n, of z act_id "\<lambda>r. act_application_id r = app"]
      id_where_unique [OF triggers.record_collection_axioms g n, of t trig_id "\<lambda>r. trig_application_id r = app"] own a ids
    by (auto simp: object_types_coll_def relation_types_coll_def actions_coll_def triggers_coll_def)
  have "preserves (holds_node g n) f" if "f \<in> set (drop_steps app m)" for f
  proof -
    have w: "preserves (holds_node g n) (delete_where objects_coll (\<lambda>x. obj_application_id x = app))"
      "preserves (holds_node g n) (delete_where data_spaces_coll (\<lambda>x. space_application_id x = app))"
      "preserves (holds_node g n) (delete_where job_attempts_coll (\<lambda>x. att_job_id x \<in> set (mem_jobs m)))"
      "preserves (holds_node g n) (delete_where job_records_coll (\<lambda>x. job_application_id x = app))"
      "preserves (holds_node g n) (delete_where cypher_audits_coll (\<lambda>x. audit_application_id x = app))"
      "preserves (holds_node g n) (delete_where invocations_coll (\<lambda>x. inv_action_revision_id x \<in> set (mem_action_revisions m)))"
      "preserves (holds_node g n) (delete_where checkpoint_blobs_coll (\<lambda>x. cblob_checkpoint_id x \<in> set (mem_checkpoints m)))"
      "preserves (holds_node g n) (delete_where checkpoint_snapshots_coll (\<lambda>x. snap_checkpoint_id x \<in> set (mem_checkpoints m)))"
      "preserves (holds_node g n) (delete_where checkpoints_coll (\<lambda>x. ckpt_application_id x = app))"
      "preserves (holds_node g n) (delete_where credential_records_coll (\<lambda>x. cred_application_id x = app))"
      "preserves (holds_node g n) (delete_where callback_routes_coll (\<lambda>x. route_application_id x = app))"
      "preserves (holds_node g n) (delete_where secret_references_coll (\<lambda>x. secret_application_id x = app))"
      "preserves (holds_node g n) (delete_where validation_reports_coll (\<lambda>x. report_application_revision_id x \<in> set (mem_revisions m)))"
      "preserves (holds_node g n) (delete_where triggers_coll (\<lambda>x. trig_id x \<in> set (mem_triggers m)))"
      "preserves (holds_node g n) (delete_where actions_coll (\<lambda>x. act_id x \<in> set (mem_actions m)))"
      "preserves (holds_node g n) (delete_where object_types_coll (\<lambda>x. otype_id x \<in> set (mem_object_types m)))"
      "preserves (holds_node g n) (delete_where relation_types_coll (\<lambda>x. rtype_id x \<in> set (mem_relation_types m)))"
      "preserves (holds_node g n) (delete_where python_environments_coll (\<lambda>e. pyenv_application_revision_id e \<in> set (mem_revisions m)))"
      "preserves (holds_node g n) (delete_where javascript_environments_coll (\<lambda>e. jsenv_owner_id e \<in> set (mem_revisions m)))"
      "preserves (holds_node g n) (delete_where build_artifacts_coll (\<lambda>a. art_owner_id a \<in> set (mem_revisions m)))"
      "preserves (holds_node g n) (delete_where build_invocations_coll (\<lambda>b. binv_owner_id b \<in> set (mem_revisions m)))"
      by ((rule holds_where, rule deleted_collections, (use own a types in \<open>auto simp: deleted_puts\<close>)[1])+)
    have d: "preserves (holds_node g n) (coll_delete applications_coll (key app))"
      "i \<in> set (mem_revisions m) \<Longrightarrow> preserves (holds_node g n) (coll_delete revisions_coll (key i))" for i
      by ((rule holds_delete [OF _ _ nl], rule deleted_collections, (use own a rev in \<open>auto simp: deleted_puts\<close>)[1])+)
    have t: "preserves (holds_node g n) (drop_draft_trees (mem_revisions m))"
      by (rule holds_draft_trees [OF nl]) (use own in auto)
    have r: "preserves (holds_node g n) (drop_relations app)"
      using preserves_fold [of _ "holds_node g n" relation_delete] holds_relation_delete
      unfolding drop_relations_def preserves_def by blast
    have rt: "preserves (holds_node g n) (delete_owned_revision_runtime (mem_revisions m))"
      unfolding delete_owned_revision_runtime_def by (rule preserves_steps) (use w t in auto)
    have rv: "preserves (holds_node g n) (steps (map (\<lambda>i. coll_delete revisions_coll (key i)) (mem_revisions m)))"
      by (rule preserves_steps) (use d in auto)
    show ?thesis using that w d(1) r rt rv by (auto simp: drop_steps_def)
  qed
  then have "preserves (holds_node g n) (drop_application app m)"
    unfolding drop_application_def by (rule preserves_steps)
  moreover have "holds_node g n g" using g n by (simp add: holds_node_def)
  ultimately show ?thesis by (auto simp: preserves_def holds_node_def)
qed

section \<open>The deletion as a whole\<close>

definition lacks_relations :: "string \<Rightarrow> node_value graph \<Rightarrow> bool" where
  "lacks_relations app g \<longleftrightarrow> (\<forall>kr\<in>set (app_relations g). rel_application_id (snd kr) \<noteq> app)"

lemma lacks_relations_drop: "keyed_relations g \<Longrightarrow> lacks_relations app (drop_relations app g)"
  by (force simp: lacks_relations_def drop_relations_def relations_after_delete keyed_relations_def list_all_iff
      relation_list_all_def list_all_app_relations_def)

text \<open>What is gone stays gone.\<close>

definition kept_relations :: "node_value graph \<Rightarrow> bool" where
  "kept_relations g \<longleftrightarrow> well_kept g \<and> keyed_relations g"

definition gone :: "(node_value \<Rightarrow> bool) \<Rightarrow> string set \<Rightarrow> node_value graph \<Rightarrow> bool" where
  "gone Q R g \<longleftrightarrow> kept_relations g \<and> lacks Q g \<and> (\<forall>app\<in>R. lacks_relations app g)"

lemma kept_shrinks: "shrinks f \<Longrightarrow> kept_relations g \<Longrightarrow> kept_relations (f g)"
  unfolding shrinks_def kept_relations_def keyed_relations_def list_all_iff by blast

lemma gone_shrinks:
  assumes f: "shrinks f" and g: "gone Q R g"
  shows "gone Q R (f g)"
proof -
  from g have k: "kept_relations g" and w: "well_kept g" and l: "lacks Q g" and r: "\<forall>app\<in>R. lacks_relations app g"
    by (simp_all add: gone_def kept_relations_def)
  from f w have "set (app_relations (f g)) \<subseteq> set (app_relations g)" by (simp add: shrinks_def)
  with r have "\<forall>app\<in>R. lacks_relations app (f g)" unfolding lacks_relations_def by blast
  with kept_shrinks [OF f k] lacks_shrinks [OF f w l] show ?thesis by (simp add: gone_def)
qed

lemma gone_drop:
  assumes "kept_relations g" and "application_members app g = Inr m"
  shows "gone (\<lambda>v. owner_of v = Some app) {app} (drop_application app m g)"
proof -
  have sh: "shrinks (drop_relations app)" by (rule shrinks_drop_relations)
  have h: "gone (\<lambda>_. False) {app} (drop_relations app g)"
    using kept_shrinks [OF sh assms(1)] assms(1) by (simp add: gone_def lacks_def lacks_relations_drop kept_relations_def)
  have "shrinks (steps (tl (drop_steps app m)))"
    by (rule shrinks_steps) (rule drop_steps_shrink [of _ app m], simp add: drop_steps_def)
  from gone_shrinks [OF this h] have "gone (\<lambda>_. False) {app} (drop_application app m g)"
    by (simp add: drop_application_def steps_def drop_steps_def)
  with drop_application_lacks [OF _ assms(2)] assms(1) show ?thesis by (simp add: gone_def kept_relations_def)
qed

lemma drop_application_kept: "kept_relations g \<Longrightarrow> kept_relations (drop_application app m g)"
  by (rule kept_shrinks [OF shrinks_drop_application])

text \<open>Properties that survive: the loop over the Applications, the Experience and the collection.\<close>

lemma shrinks_pinning: "shrinks (delete_pinning_deployments apps xid)"
  unfolding delete_pinning_deployments_def Let_def
  using shrinks_dep [of "\<lambda>ds. fold (\<lambda>d. coll_delete development_deployments_coll (key (deploy_id d))) ds"]
  by (rule shrinks_dep) (simp add: shrinks_fold shrinks_coll_delete)

lemma shrinks_drop_experience: "shrinks (drop_experience xid)"
  unfolding drop_experience_def Let_def
  by (rule shrinks_dep) (rule shrinks_steps, auto simp: shrinks_delete_where shrinks_runtime shrinks_coll_delete intro!: shrinks_steps)

lemma gone_collected: "gone Q R g \<Longrightarrow> delete_interned_orphans g = (r, h) \<Longrightarrow> gone Q R h"
  using gc_loop_keeps [of "gone Q R", OF gone_shrinks [OF shrinks_delete_node]]
  by (metis delete_interned_orphans_def snd_conv)

lemma subgraph_keeps: "(\<And>m. graph_keeps P (writes (drop_application app m) :: ('z svc_scheme, unit) op)) \<Longrightarrow>
    graph_keeps P (delete_application_subgraph app :: ('z svc_scheme, unit) op)"
  unfolding delete_application_subgraph_def by (intro graph_keeps_bindE graph_keeps_pure)

lemma gone_subgraph: "graph_keeps (gone Q R) (delete_application_subgraph app)"
  by (intro subgraph_keeps graph_keeps_writes gone_shrinks [OF shrinks_drop_application])

lemma deleted_each:
  assumes "for_each delete_application_subgraph apps s = (Inr (), s')" and "app \<in> set apps" and "kept_relations (svc_graph s)"
  shows "gone (\<lambda>v. owner_of v = Some app) {app} (svc_graph s')"
  using assms
proof (induction apps arbitrary: s)
  case Nil
  then show ?case by simp
next
  case (Cons a apps)
  from Cons.prems(1) obtain s1 where run: "delete_application_subgraph a s = (Inr (), s1)" "for_each delete_application_subgraph apps s1 = (Inr (), s')"
    by (auto simp: bindE_Inr_iff)
  then obtain m where s1: "application_members a (svc_graph s) = Inr m"
    "svc_graph s1 = drop_application a m (svc_graph s)" "for_each delete_application_subgraph apps s1 = (Inr (), s')"
    by (auto simp: delete_application_subgraph_def run_iffs)
  show ?case
  proof (cases "a = app")
    case True
    with gone_drop [OF Cons.prems(3) s1(1)] s1(2) have "gone (\<lambda>v. owner_of v = Some app) {app} (svc_graph s1)" by simp
    with graph_keepsD [OF graph_keeps_for_each [OF gone_subgraph] s1(3)] show ?thesis by blast
  next
    case False
    with Cons.prems(2,3) s1 show ?thesis by (intro Cons.IH [OF s1(3)]) (simp_all add: drop_application_kept)
  qed
qed

text \<open>A record of an Application outside the set stays.\<close>

lemma owner_not_interned: "owner_of v = Some a \<Longrightarrow> node_label v \<notin> set interned_labels"
  by (cases v) (auto simp: interned_labels_def)

definition stays :: "(string \<times> ident) \<times> node_value \<Rightarrow> node_value graph \<Rightarrow> bool" where
  "stays n g \<longleftrightarrow> kept_relations g \<and> n \<in> set (nodes g)"

lemma stays_step:
  assumes "shrinks f" and "\<And>g. well_kept g \<Longrightarrow> n \<in> set (nodes g) \<Longrightarrow> preserves (holds_node g n) f"
  shows "graph_keeps (stays n) (writes f)"
proof (rule graph_keeps_writes)
  fix g assume g: "stays n g"
  then have "well_kept g" "n \<in> set (nodes g)" by (simp_all add: stays_def kept_relations_def)
  with assms(2) [OF this] have "n \<in> set (nodes (f g))" by (auto simp: preserves_def holds_node_def)
  with kept_shrinks [OF assms(1)] g show "stays n (f g)" by (simp add: stays_def)
qed

lemma stays_collected:
  assumes "stays n g" and "owner_of (snd n) = Some a" and "delete_interned_orphans g = (r, h)"
  shows "stays n h"
proof -
  have "kept_relations h"
    using gc_loop_keeps [of kept_relations, OF kept_shrinks [OF shrinks_delete_node]] assms(1,3)
    by (metis delete_interned_orphans_def snd_conv stays_def)
  moreover have t: "typed_graph g" using assms(1) by (simp add: stays_def kept_relations_def well_kept_def)
  then obtain d where run: "gc_loop (Suc (node_count g)) [] g = (Inr d, h)"
    using gc_loop_returns [OF t, of "Suc (node_count g)" "[]"] assms(3) by (auto simp: delete_interned_orphans_def)
  from gc_loop_prunes [OF t this] obtain S where S: "S \<subseteq> dead_refs g" "pruned S g h" by blast
  have "fst n = (node_label (snd n), node_identity (snd n))"
    using assms(1) by (auto simp: stays_def kept_relations_def well_kept_def typed_graph_def list_all_iff)
  with S(1) owner_not_interned [OF assms(2)] have "NodeRef (fst (fst n)) (snd (fst n)) \<notin> S" by (auto simp: dead_refs_def id_ref_def)
  with S(2) assms(1) have "n \<in> set (nodes h)" by (simp add: pruned_def stays_def)
  ultimately show ?thesis by (simp add: stays_def)
qed

lemma stays_subgraph:
  assumes "owner_of (snd n) = Some a" and "a \<noteq> app"
  shows "graph_keeps (stays n) (delete_application_subgraph app :: ('z svc_scheme, unit) op)"
proof -
  have "stays n (svc_graph (snd (delete_application_subgraph app s)))" if s: "stays n (svc_graph s)" for s :: "'z svc_scheme"
  proof (cases "application_members app (svc_graph s)")
    case (Inl e)
    with s show ?thesis by (simp add: delete_application_subgraph_def op_defs)
  next
    case (Inr m)
    from s have "well_kept (svc_graph s)" "n \<in> set (nodes (svc_graph s))" by (simp_all add: stays_def kept_relations_def)
    from drop_application_holds [OF this(1) Inr this(2) assms] s Inr show ?thesis
      by (simp add: delete_application_subgraph_def op_defs stays_def drop_application_kept)
  qed
  then show ?thesis by (simp add: graph_keeps_def op_keeps_def)
qed

lemma nodes_labelled: "well_kept g \<Longrightarrow> n \<in> set (nodes g) \<Longrightarrow> fst n = (node_label (snd n), node_identity (snd n))"
  by (auto simp: well_kept_def typed_graph_def list_all_iff)

lemmas experience_collections =
  development_deployments.record_collection_axioms experience_validation_reports.record_collection_axioms
  experience_revisions.record_collection_axioms experiences.record_collection_axioms

lemmas experience_puts =
  development_deployments_coll_def experience_validation_reports_coll_def experience_revisions_coll_def experiences_coll_def

lemma holds_pinning:
  assumes "owner_of (snd n) = Some a" and nl: "fst n = (node_label (snd n), node_identity (snd n))"
  shows "preserves (holds_node g n) (delete_pinning_deployments apps xid)"
proof -
  have "preserves (holds_node g n) (coll_delete development_deployments_coll (key i))" for i
    by (rule holds_delete [OF _ _ nl], rule experience_collections) (use assms(1) in \<open>auto simp: experience_puts\<close>)
  then have "preserves (holds_node g n) (fold (\<lambda>d. coll_delete development_deployments_coll (key (deploy_id d))) ds)" for ds
    by (rule preserves_fold)
  then show ?thesis unfolding delete_pinning_deployments_def Let_def preserves_def by blast
qed

lemma holds_runtime:
  assumes "owner_of (snd n) = Some a" and nl: "fst n = (node_label (snd n), node_identity (snd n))"
  shows "preserves (holds_node g n) (delete_owned_revision_runtime rids)"
proof -
  have w: "preserves (holds_node g n) (delete_where python_environments_coll P1)"
    "preserves (holds_node g n) (delete_where javascript_environments_coll P2)"
    "preserves (holds_node g n) (delete_where build_artifacts_coll P3)"
    "preserves (holds_node g n) (delete_where build_invocations_coll P4)" for P1 P2 P3 P4
    by ((rule holds_where, rule deleted_collections, (use assms(1) in \<open>auto simp: deleted_puts\<close>)[1])+)
  have "preserves (holds_node g n) (drop_draft_trees rids)" by (rule holds_draft_trees [OF nl]) (use assms(1) in auto)
  with w show ?thesis unfolding delete_owned_revision_runtime_def by (intro preserves_steps) auto
qed

lemma holds_experience:
  assumes own: "owner_of (snd n) = Some a" and nl: "fst n = (node_label (snd n), node_identity (snd n))"
  shows "preserves (holds_node g n) (drop_experience xid)"
proof -
  have d: "preserves (holds_node g n) (coll_delete experience_revisions_coll (key i))"
    "preserves (holds_node g n) (coll_delete experiences_coll (key i))" for i
    by ((rule holds_delete [OF _ _ nl], rule experience_collections, (use own in \<open>auto simp: experience_puts\<close>)[1])+)
  have w: "preserves (holds_node g n) (delete_where experience_validation_reports_coll P)" for P
    by (rule holds_where, rule experience_collections) (use own in \<open>auto simp: experience_puts\<close>)
  have "preserves (holds_node g n) (steps (map (\<lambda>i. coll_delete experience_revisions_coll (key i)) rids))" for rids
    by (rule preserves_steps) (use d in auto)
  then have "preserves (holds_node g n) (steps
      [delete_where experience_validation_reports_coll (\<lambda>x. xreport_experience_revision_id x \<in> set rids),
       delete_owned_revision_runtime rids, steps (map (\<lambda>i. coll_delete experience_revisions_coll (key i)) rids),
       coll_delete experiences_coll (key xid)])" for rids
    using d w holds_runtime [OF own nl] by (intro preserves_steps) auto
  then show ?thesis unfolding drop_experience_def Let_def preserves_def by blast
qed

text \<open>Nothing of the Experience is left.\<close>

fun experience_of :: "node_value \<Rightarrow> string option" where
  "experience_of (ExperienceNode r) = Some (exp_id r)"
| "experience_of (ExperienceRevisionNode r) = Some (exprev_experience_id r)"
| "experience_of _ = None"

lemma drop_experience_gone:
  assumes "kept_relations g"
  shows "gone (\<lambda>v. experience_of v = Some xid) {} (drop_experience xid g)"
proof -
  define rids where "rids = ids_where experience_revisions_coll exprev_id (\<lambda>r. exprev_experience_id r = xid) g"
  define fs where "fs =
    [delete_where experience_validation_reports_coll (\<lambda>x. xreport_experience_revision_id x \<in> set rids),
     delete_owned_revision_runtime rids, steps (map (\<lambda>i. coll_delete experience_revisions_coll (key i)) rids),
     coll_delete experiences_coll (key xid)]"
  have sh: "shrinks f" if "f \<in> set fs" for f
    using that by (auto simp: fs_def shrinks_delete_where shrinks_runtime shrinks_coll_delete intro!: shrinks_steps)
  have eq: "drop_experience xid g = steps fs g" by (simp only: drop_experience_def Let_def rids_def fs_def)
  have g: "well_kept g" using assms by (simp add: kept_relations_def)
  have revs: "lacks (\<lambda>v. \<exists>x. v = coll_put experience_revisions_coll x \<and> coll_identity experience_revisions_coll x \<in> key ` set rids) (steps fs g)"
    by (rule lacks_steps [where f = "steps (map (\<lambda>i. coll_delete experience_revisions_coll (key i)) rids)", OF sh _ _ g])
      (simp_all add: fs_def experience_revisions.lacks_deletes)
  have exps: "lacks (\<lambda>v. \<exists>x. v = coll_put experiences_coll x \<and> coll_identity experiences_coll x = key xid) (steps fs g)"
    by (rule lacks_steps [where f = "coll_delete experiences_coll (key xid)", OF sh _ _ g])
      (simp_all add: fs_def experiences.lacks_delete)
  have sub: "set (nodes (steps fs g)) \<subseteq> set (nodes g)" using shrinks_steps [OF sh] g by (auto simp: shrinks_def)
  have "experience_of (snd n) \<noteq> Some xid" if n: "n \<in> set (nodes (steps fs g))" for n
  proof
    assume x: "experience_of (snd n) = Some xid"
    have "(fst n, snd n) \<in> set (nodes g)" using n sub by auto
    then have "exprev_id r \<in> set rids" if "snd n = coll_put experience_revisions_coll r" "exprev_experience_id r = xid" for r
      using experience_revisions.members_nodes [OF g, of "fst n" r] that by (simp add: rids_def)
    with x revs exps n show False
      by (cases "snd n") (auto simp: lacks_def experience_puts)
  qed
  then show ?thesis using kept_shrinks [OF shrinks_steps [OF sh] assms] by (simp add: gone_def lacks_def eq)
qed

section \<open>What the unit of work leaves\<close>

lemma delete_records_parts:
  fixes s :: "'z svc_scheme"
  assumes "delete_records apps xid s = (Inr (), s')"
  obtains s1 s2 s3 :: "'z svc_scheme" and d where "svc_graph s1 = delete_pinning_deployments apps xid (svc_graph s)"
    and "for_each delete_application_subgraph apps s1 = (Inr (), s2)"
    and "svc_graph s3 = (case xid of None \<Rightarrow> svc_graph s2 | Some i \<Rightarrow> drop_experience i (svc_graph s2))"
    and "delete_interned_orphans (svc_graph s3) = (Inr d, svc_graph s')"
proof -
  from assms obtain s2 where
    a: "for_each delete_application_subgraph apps (s\<lparr>svc_graph := delete_pinning_deployments apps xid (svc_graph s)\<rparr>) = (Inr (), s2)"
    and b: "bindE (case xid of None \<Rightarrow> ret () | Some i \<Rightarrow> delete_experience_subgraph i)
      (\<lambda>_. bindE (store_op delete_interned_orphans) (\<lambda>_. ret ())) s2 = (Inr (), s')"
    by (auto simp: delete_records_def atomically_Inr bindE_Inr_iff writes_Inr)
  from b obtain d where "delete_interned_orphans (case xid of None \<Rightarrow> svc_graph s2 | Some i \<Rightarrow> drop_experience i (svc_graph s2)) =
      (Inr d, svc_graph s')"
    by (auto simp: delete_experience_subgraph_def run_iffs split: option.splits)
  with a show thesis
    by (intro that [of "s\<lparr>svc_graph := delete_pinning_deployments apps xid (svc_graph s)\<rparr>" s2
        "s2\<lparr>svc_graph := (case xid of None \<Rightarrow> svc_graph s2 | Some i \<Rightarrow> drop_experience i (svc_graph s2))\<rparr>" d]) simp_all
qed

lemma delete_records_kept:
  fixes s :: "'z svc_scheme"
  assumes "delete_records apps xid s = (Inr (), s')" and ok: "kept_relations (svc_graph s)"
  shows "app \<in> set apps \<Longrightarrow> gone (\<lambda>v. owner_of v = Some app) {app} (svc_graph s')"
    and "xid = Some i \<Longrightarrow> gone (\<lambda>v. experience_of v = Some i) {} (svc_graph s')"
    and "n \<in> set (nodes (svc_graph s)) \<Longrightarrow> owner_of (snd n) = Some a \<Longrightarrow> a \<notin> set apps \<Longrightarrow> n \<in> set (nodes (svc_graph s'))"
proof -
  obtain s1 s2 s3 :: "'z svc_scheme" and d where s1: "svc_graph s1 = delete_pinning_deployments apps xid (svc_graph s)"
    and s2: "for_each delete_application_subgraph apps s1 = (Inr (), s2)"
    and s3: "svc_graph s3 = (case xid of None \<Rightarrow> svc_graph s2 | Some i \<Rightarrow> drop_experience i (svc_graph s2))"
    and s': "delete_interned_orphans (svc_graph s3) = (Inr d, svc_graph s')"
    by (rule delete_records_parts [OF assms(1)])
  have k1: "kept_relations (svc_graph s1)" unfolding s1 by (rule kept_shrinks [OF shrinks_pinning ok])
  have "graph_keeps kept_relations (delete_application_subgraph x)" for x
    by (intro subgraph_keeps graph_keeps_writes drop_application_kept)
  from graph_keepsD [OF graph_keeps_for_each [OF this] s2 k1] have k2: "kept_relations (svc_graph s2)" .
  show "gone (\<lambda>v. owner_of v = Some app) {app} (svc_graph s')" if "app \<in> set apps"
  proof -
    have "gone (\<lambda>v. owner_of v = Some app) {app} (svc_graph s3)"
      using deleted_each [OF s2 that k1] gone_shrinks [OF shrinks_drop_experience] unfolding s3 by (simp split: option.split)
    from gone_collected [OF this s'] show ?thesis .
  qed
  show "gone (\<lambda>v. experience_of v = Some i) {} (svc_graph s')" if "xid = Some i"
    by (rule gone_collected [OF _ s']) (use that s3 drop_experience_gone [OF k2] in simp)
  show "n \<in> set (nodes (svc_graph s'))"
    if n: "n \<in> set (nodes (svc_graph s))" and own: "owner_of (snd n) = Some a" and a: "a \<notin> set apps"
  proof -
    have g: "well_kept (svc_graph s)" using ok by (simp add: kept_relations_def)
    note nl = nodes_labelled [OF g n]
    have "stays n (svc_graph s1)"
      using holds_pinning [OF own nl, of "svc_graph s" apps xid] n g k1 by (simp add: stays_def s1 preserves_def holds_node_def)
    moreover have "graph_keeps (stays n) (for_each delete_application_subgraph apps :: ('z svc_scheme, unit) op)"
      using a
    proof (induction apps)
      case (Cons x xs)
      then show ?case by (auto intro!: graph_keeps_intros stays_subgraph [OF own])
    qed (simp add: graph_keeps_intros)
    ultimately have "stays n (svc_graph s2)" using s2 by (blast dest: graph_keepsD)
    then have "stays n (svc_graph s3)"
      using holds_experience [OF own nl, of "svc_graph s2"] kept_shrinks [OF shrinks_drop_experience] unfolding s3
      by (simp add: stays_def preserves_def holds_node_def kept_relations_def split: option.split)
    from stays_collected [OF this own s'] show ?thesis by (simp add: stays_def)
  qed
qed

end
