(* ===== verification/Package_Properties.thy ===== *)
theory Package_Properties
  imports Deletion_Laws Lifecycle_Properties Service_Properties
begin

text \<open>
  The properties of Packages: what an export carries and an archive gives back, what an import and
  its resumption do, and what the deletion of a working set leaves.
\<close>

section \<open>Capturing and exporting\<close>

text \<open>C28: What a captured working set carries is closed: every Application in it is the stored one with
  its active revision, its data refer only to type revisions and objects in the payload, a secret
  requirement names a secret of that Application, and an Experience declares only Applications,
  types, Actions and secrets that are in the payload.\<close>

theorem captured_working_set_is_closed:
  assumes "typed_graph g" and "capture kind i include_data g = Inr (p, omitted)"
  shows "(\<forall>a\<in>set (pp_applications p). closed_member a \<and> captured_from g a) \<and>
    (\<forall>x. pp_experience p = Some x \<longrightarrow>
      (\<forall>d\<in>set (exprev_application_access (px_revision x)). declared_in (pp_applications p) d))"
  using capture_closed [OF assms] by blast

text \<open>An active Application with a typed object.\<close>

definition sample_otype :: object_type where
  "sample_otype = \<lparr>otype_id = ''ot'', otype_application_id = ''a'', otype_active_revision_id = Some ''otr'', otype_created_at = 0\<rparr>"

definition sample_otrev :: object_type_revision where
  "sample_otrev = \<lparr>otrev_id = ''otr'', otrev_object_type_id = ''ot'', otrev_name = ''Note'', otrev_properties = [],
     otrev_required = [], otrev_created_at = 0, otrev_content_hash = ''otr''\<rparr>"

definition sample_typed_note :: application_object where
  "sample_typed_note = (sample_note ''x'')\<lparr>obj_object_type_revision_id := Some ''otr''\<rparr>"

definition sample_working_set :: "node_value graph" where
  "sample_working_set =
     create_edge (id_ref ''ApplicationRevision'' ''r'') ''HAS_OBJECT_TYPE_REVISION'' (id_ref ''ObjectTypeRevision'' ''otr'') []
     (create_edge (id_ref ''ApplicationRevision'' ''r'') ''HAS_SOURCE_TREE'' (id_ref ''SourceTree'' ''t'') []
     (coll_save objects_coll sample_typed_note
     (coll_save object_type_revisions_coll sample_otrev (coll_save object_types_coll sample_otype
     (coll_save source_trees_coll (sample_tree Tree_interned)
     (coll_save revisions_coll sample_apprev (coll_save applications_coll (sample_app App_active) empty_graph)))))))"

definition sample_member :: package_application where
  "sample_member = \<lparr>pa_application = sample_app App_active, pa_revision = sample_apprev, pa_source_tree_id = ''t'',
     pa_source_files = [], pa_dependencies = [], pa_object_types = [(sample_otype, sample_otrev)], pa_relation_types = [],
     pa_actions = [], pa_triggers = [], pa_tests = [], pa_secret_requirements = [], pa_objects = [sample_typed_note],
     pa_relations = []\<rparr>"

definition sample_payload :: package_payload where
  "sample_payload = \<lparr>pp_applications = [sample_member], pp_experience = None\<rparr>"

lemmas sample_working_set_defs = sample_working_set_def sample_typed_note_def sample_note_def sample_otype_def
  sample_otrev_def sample_tree_def sample_apprev_def sample_app_def coll_save_def upsert_node_def empty_graph_def
  applications_coll_def revisions_coll_def source_trees_coll_def object_types_coll_def object_type_revisions_coll_def
  objects_coll_def create_edge_def new_edge_def same_edge_def key_def object_key_def

lemmas sample_reads = coll_item_def coll_get_def get_node_def coll_values_def list_nodes_def list_edges_def matches_edge_def
  bound_targets_def resolve_def revision_labels_def

lemma sample_working_set_typed: "typed_graph sample_working_set"
  by (simp add: typed_graph_def sample_working_set_defs)

lemma sample_working_set_reads:
  "coll_get applications_coll (key ''a'') sample_working_set = Some (sample_app App_active)"
  "coll_item revisions_coll (key ''r'') sample_working_set = Inr sample_apprev"
  "action_revisions ''r'' sample_working_set = Inr []" "relation_type_revisions ''r'' sample_working_set = Inr []"
  "trigger_revisions ''r'' sample_working_set = Inr []" "test_cases ''r'' sample_working_set = Inr []"
  "dependencies ''r'' sample_working_set = Inr []"
  "object_type_revisions ''r'' sample_working_set = Inr [sample_otrev]"
  "coll_item object_types_coll (key ''ot'') sample_working_set = Inr sample_otype"
  "tree ''r'' sample_working_set = Inr (sample_tree Tree_interned)"
  "file_rows ''t'' sample_working_set = []"
  "object_list ''a'' None ''production'' sample_working_set = [sample_typed_note]"
  "relation_list ''a'' None None None ''production'' sample_working_set = []"
  "coll_values credential_records_coll sample_working_set = []"
  by (simp_all add: sample_reads action_revisions_def relation_type_revisions_def trigger_revisions_def test_cases_def
      dependencies_def object_type_revisions_def tree_def Let_def file_rows_def object_list_def relation_list_def
      list_app_relations_def credential_records_coll_def sample_working_set_defs)

lemma sample_capture: "capture ''application'' ''a'' True sample_working_set = Inr (sample_payload, [])"
proof -
  have ids: "app_id (sample_app App_active) = ''a''" "app_active_revision_id (sample_app App_active) = Some ''r''"
    "rev_id sample_apprev = ''r''" "rev_status sample_apprev = Rev_active" "tree_id (sample_tree Tree_interned) = ''t''"
    "otrev_id sample_otrev = ''otr''" "otrev_object_type_id sample_otrev = ''ot''"
    "obj_object_type_revision_id sample_typed_note = Some ''otr''"
    by (simp_all add: sample_app_def sample_apprev_def sample_tree_def sample_otrev_def sample_typed_note_def)
  have "capture_application ''a'' True [] sample_working_set = Inr (sample_member, [])"
    by (simp add: capture_application_def sample_working_set_reads ids definition_pairs_def revision_files_def
        list_source_tree_def sorted_dependencies_def include_referenced_schema_def validate_application_data_def
        check_object_def omitted_callbacks_def omitted_credentials_def sample_member_def Let_def)
  then show ?thesis by (simp add: capture_def capture_root_def sample_payload_def)
qed

theorem captured_working_set_is_closed_witness:
  "capture ''application'' ''a'' True sample_working_set = Inr (sample_payload, []) \<and>
   closed_member sample_member \<and> captured_from sample_working_set sample_member"
  using captured_working_set_is_closed [OF sample_working_set_typed sample_capture] sample_capture
  by (simp add: sample_payload_def)

text \<open>C29: An exported archive reads back: when the libraries are lossless on what was written and the archive
  is within the size limits, the archive that an export wrote under a name holds the captured payload
  and a manifest with the hash the export returned, and every other archive is as before. The reader
  also checks the number of members and their source paths, which the export does not: a payload
  that fails there is rejected as corrupt.\<close>

theorem exported_archive_reads_back:
  assumes "export sha codec fmt v kind i name inc ow g d = (Inr (summary, h), d')"
    and "capture kind i inc g = Inr captured"
    and "lossless codec fmt (signed_manifest sha codec v kind i inc captured) (fst captured)"
    and "within_bounds codec fmt (signed_manifest sha codec v kind i inc captured) (fst captured)"
  shows "(member_count (fst captured) \<le> package_max_members \<and> (\<forall>fs\<in>set (source_groups (fst captured)). safe_files fs) \<longrightarrow>
      read_archive sha codec fmt name d' = Inr (signed_manifest sha codec v kind i inc captured, fst captured)) \<and>
    (\<not> (member_count (fst captured) \<le> package_max_members \<and> (\<forall>fs\<in>set (source_groups (fst captured)). safe_files fs)) \<longrightarrow>
      (\<exists>e. read_archive sha codec fmt name d' = Inl (ValidationFailure (''package_corrupt: '' @ e)))) \<and>
    man_package_hash (signed_manifest sha codec v kind i inc captured) = h \<and>
    (\<forall>n. n \<noteq> name \<longrightarrow> dict_get d' n = dict_get d n)"
  using export_read_back [OF assms] validate_payload_Inr [of "fst captured"]
  by (cases "validate_archive_payload (fst captured)") auto

text \<open>Libraries that are lossless on the payload above.\<close>

definition sample_versions :: contract_versions where
  "sample_versions = \<lparr>ver_schema_fingerprint = ''f'', ver_action_context = ''1'', ver_subprocess = ''1'',
     ver_experience_bridge = ''1'', ver_graph_metamodel = ''1'', ver_graph_schema_fingerprint = ''g''\<rparr>"

definition sample_plain_codec :: package_codec where
  "sample_plain_codec = \<lparr>put_manifest = (\<lambda>m. if man_package_hash m = [] then ''u'' else ''s''), put_payload = (\<lambda>_. ''p''),
     parse_format = (\<lambda>_. Inr (Some package_format_version)), parse_manifest = (\<lambda>_. Inl (ValueError ''m'')),
     parse_payload = (\<lambda>_. Inr sample_payload)\<rparr>"

definition sample_signed :: package_manifest where
  "sample_signed = signed_manifest (\<lambda>x. x) sample_plain_codec sample_versions ''application'' ''a'' True (sample_payload, [])"

definition sample_codec :: package_codec where
  "sample_codec = sample_plain_codec\<lparr>parse_manifest := (\<lambda>t.
     Inr (if t = ''u'' then sample_signed\<lparr>man_package_hash := []\<rparr> else sample_signed))\<rparr>"

definition sample_format :: "(string \<times> string) list archive_format" where
  "sample_format = \<lparr>fmt_size = (\<lambda>es. int (length es)), fmt_open = (\<lambda>es. Inr (map (\<lambda>(n, t). (n, utf8_len t, t)) es)),
     fmt_make = (\<lambda>es. es), fmt_digest = (\<lambda>_. ''d'')\<rparr>"

lemma sample_signed_again: "signed_manifest (\<lambda>x. x) sample_codec sample_versions ''application'' ''a'' True (sample_payload, []) = sample_signed"
  by (simp add: sample_signed_def signed_manifest_def sample_codec_def unsigned_manifest_def package_hash_def
      sample_plain_codec_def Let_def)

lemma sample_signed_hash: "man_package_hash sample_signed \<noteq> []" "man_format_version sample_signed = package_format_version"
  by (simp_all add: sample_signed_def signed_manifest_def unsigned_manifest_def package_hash_def sha256_text_def Let_def)

lemma sample_lossless: "lossless sample_codec sample_format sample_signed sample_payload"
  using sample_signed_hash by (simp add: lossless_def sample_codec_def sample_plain_codec_def sample_format_def Let_def)

lemma sample_within: "within_bounds sample_codec sample_format sample_signed sample_payload"
  using sample_signed_hash
  by (simp add: within_bounds_def sample_codec_def sample_plain_codec_def sample_format_def package_max_archive_bytes_def
      package_max_member_bytes_def utf8_len_def)

definition sample_archive :: "(string \<times> string) list" where
  "sample_archive = [(''manifest.json'', ''s''), (''payload.json'', ''p'')]"

lemma sample_export:
  assumes "archive_name_ok name"
  shows "export (\<lambda>x. x) sample_codec sample_format sample_versions ''application'' ''a'' name True False sample_working_set [] =
    (Inr (summary_of ''application'' ''a'' True sample_payload [], man_package_hash sample_signed), [(name, sample_archive)])"
proof -
  have "build_archive (\<lambda>x. x) sample_codec sample_format sample_versions ''application'' ''a'' True (sample_payload, []) =
      (sample_archive, man_package_hash sample_signed)"
    using sample_signed_hash(1)
    by (simp add: build_archive_parts sample_signed_again sample_archive_def)
      (simp add: sample_codec_def sample_plain_codec_def sample_format_def)
  then show ?thesis
    using assms
    by (simp add: export_def sample_capture check_archive_name_def write_archive_def lift_result_apply ret_apply bindE_apply)
qed

lemma sample_payload_safe: "member_count sample_payload \<le> package_max_members" "source_groups sample_payload = [[]]"
  by (simp_all add: member_count_def source_groups_def sample_payload_def sample_member_def package_max_members_def)

theorem exported_archive_reads_back_witness:
  "\<exists>d. export (\<lambda>x. x) sample_codec sample_format sample_versions ''application'' ''a'' ''x.n4xp'' True False sample_working_set [] =
      (Inr (summary_of ''application'' ''a'' True sample_payload [], man_package_hash sample_signed), d) \<and>
    read_archive (\<lambda>x. x) sample_codec sample_format ''x.n4xp'' d = Inr (sample_signed, sample_payload)"
proof -
  have "archive_name_ok ''x.n4xp''" by (simp add: archive_name_ok_def name_char_def is_ascii_alnum_def Let_def)
  note e = sample_export [OF this]
  from exported_archive_reads_back [OF e sample_capture] e show ?thesis
    by (simp add: sample_signed_again sample_lossless sample_within sample_payload_safe safe_files_def)
qed

text \<open>The hash of a Package identifies it: when the digest has no collisions, and the text of a manifest
  is parsed back and has no line feed, two archives that are read and whose manifests name the same
  hash hold the same manifest and the same payload.\<close>

theorem package_hash_identifies_content:
  assumes "inj sha"
    and "read_archive sha codec fmt n1 d1 = Inr (m1, p1)" and "read_archive sha codec fmt n2 d2 = Inr (m2, p2)"
    and "man_package_hash m1 = man_package_hash m2"
    and "\<forall>m\<in>{m1, m2}. LF \<notin> set (put_manifest codec (m\<lparr>man_package_hash := []\<rparr>)) \<and>
      parse_manifest codec (put_manifest codec (m\<lparr>man_package_hash := []\<rparr>)) = Inr (m\<lparr>man_package_hash := []\<rparr>)"
  shows "m1 = m2 \<and> p1 = p2"
  using assms(5) by (intro same_hash_same_content [OF assms(1-4)]) blast+

lemma sample_read:
  "archive_name_ok n \<Longrightarrow> read_archive (\<lambda>x. x) sample_codec sample_format n [(n, sample_archive)] = Inr (sample_signed, sample_payload)"
  using export_read_back(1) [OF sample_export sample_capture] validate_payload_Inr [of sample_payload "()"]
  by (simp add: sample_signed_again sample_lossless sample_within sample_payload_safe safe_files_def)

theorem package_hash_identifies_content_witness:
  "\<exists>m p. read_archive (\<lambda>x. x) sample_codec sample_format ''x.n4xp'' [(''x.n4xp'', sample_archive)] = Inr (m, p) \<and>
     read_archive (\<lambda>x. x) sample_codec sample_format ''y.n4xp'' [(''y.n4xp'', sample_archive)] = Inr (m, p)"
proof -
  have "archive_name_ok ''x.n4xp''" "archive_name_ok ''y.n4xp''"
    by (simp_all add: archive_name_ok_def name_char_def is_ascii_alnum_def Let_def)
  note r = this [THEN sample_read]
  have "inj (\<lambda>x :: string. x)" by (simp add: inj_on_def)
  moreover have "\<forall>m\<in>{sample_signed, sample_signed}. LF \<notin> set (put_manifest sample_codec (m\<lparr>man_package_hash := []\<rparr>)) \<and>
      parse_manifest sample_codec (put_manifest sample_codec (m\<lparr>man_package_hash := []\<rparr>)) = Inr (m\<lparr>man_package_hash := []\<rparr>)"
    by (simp add: sample_codec_def sample_plain_codec_def)
  ultimately have "sample_signed = sample_signed \<and> sample_payload = sample_payload"
    by (intro package_hash_identifies_content [OF _ r refl])
  with r show ?thesis by simp
qed

section \<open>Imports\<close>

text \<open>C30: A dry run changes nothing; an import whose contract versions disagree is refused unless it is allowed
  and can be materialised, and one whose records collide with stored ones is refused: both raise and
  change nothing.\<close>

theorem refused_import_changes_nothing:
  "snd (import_payload env True arg allow mp s) = s \<and>
   (disagreements (env_versions env) (fst mp) \<noteq> [] \<and> \<not> (allow \<and> materializable (env_versions env) (fst mp)) \<longrightarrow>
      import_payload env False arg allow mp s = (Inl (ValidationFailure ''package_incompatible''), s)) \<and>
   (collisions (snd mp) (owned_ids (attempt_by_hash (man_package_hash (fst mp)) (svc_graph s))) (svc_graph s) \<noteq> [] \<longrightarrow>
      (\<exists>e. import_payload env False arg allow mp s = (Inl e, s)))"
proof -
  let ?c = "disagreements (env_versions env) (fst mp) = [] \<or> allow \<and> materializable (env_versions env) (fst mp)"
  let ?d = "restores (fst mp) (disagreements (env_versions env) (fst mp) = []) arg \<longrightarrow> man_include_data (fst mp)"
  have "\<exists>e. import_payload env False arg allow mp s = (Inl e, s)"
    if "collisions (snd mp) (owned_ids (attempt_by_hash (man_package_hash (fst mp)) (svc_graph s))) (svc_graph s) \<noteq> []"
  proof (cases "?c \<and> ?d")
    case True
    with import_conflict [OF _ _ refl that] show ?thesis by blast
  next
    case False
    then show ?thesis by (auto simp: import_payload_def Let_def raise_apply)
  qed
  with dry_run_pure import_refused show ?thesis by blast
qed

definition sample_package_env :: "unit package_env" where
  "sample_package_env = \<lparr>env_sha = (\<lambda>x. x), env_cron_ok = (\<lambda>_. True), env_backend_kind = undefined, env_registry = undefined,
     env_activation = quiet_ports, env_experience = undefined, env_remount = ret (), env_versions = sample_versions\<rparr>"

definition sample_sets :: "node_value graph \<Rightarrow> svc" where
  "sample_sets g = sample_svc\<lparr>svc_graph := g\<rparr>"

lemma sample_attempts: "attempt_by_hash h sample_working_set = None"
  by (simp add: attempt_by_hash_def coll_values_def list_nodes_def package_import_attempts_coll_def sample_working_set_defs)

theorem refused_import_changes_nothing_witness:
  "\<exists>e. import_payload sample_package_env False None False (sample_signed, sample_payload) (sample_sets sample_working_set) =
     (Inl e, sample_sets sample_working_set)"
proof -
  have "get_node ''Application'' (key ''a'') sample_working_set \<noteq> None"
    using sample_working_set_reads(1) by (cases "get_node ''Application'' (key ''a'') sample_working_set") (auto simp: coll_get_def applications_coll_def)
  then have "(''Application'', ''a'') \<in> set (collisions sample_payload (owned_ids None) sample_working_set)"
    unfolding collisions_def set_sort
    by (simp add: candidate_ids_def sample_payload_def sample_member_def sample_app_def owned_ids_def dict_or_def)
  then have "collisions sample_payload (owned_ids (attempt_by_hash (man_package_hash sample_signed) (svc_graph (sample_sets sample_working_set))))
      (svc_graph (sample_sets sample_working_set)) \<noteq> []"
    by (auto simp: sample_sets_def sample_attempts)
  with refused_import_changes_nothing [of sample_package_env None False "(sample_signed, sample_payload)"]
  show ?thesis by simp
qed

text \<open>An import that its attempt shows carried out is not repeated: importing the same archive again
  returns a success and changes the attempt record and nothing else, whatever the graph holds of the
  working set by then.\<close>

theorem finished_import_is_not_repeated:
  fixes env :: "'z package_env" and s :: "'z svc_scheme"
  assumes "disagreements (env_versions env) m = []" and "restores m True arg \<longrightarrow> man_include_data m"
    and "attempt_by_hash (man_package_hash m) (svc_graph s) = Some t" and "pkg_phase t \<noteq> ''created''"
    and "collisions p (pkg_created_ids t) (svc_graph s) = []"
    and "all_members_done p (restores m True arg) t" and "env_remount env = ret ()"
  shows "\<exists>now. import_payload env False arg allow (m, p) s =
    (Inr (Imported (attempt_result (ended_attempt t now) m True)),
     s\<lparr>svc_ticks := Suc (svc_ticks s), svc_graph := coll_save package_import_attempts_coll (ended_attempt t now) (svc_graph s)\<rparr>)"
  using resume_done [OF assms] by blast

definition sample_attempt :: package_import_attempt where
  "sample_attempt = \<lparr>pkg_id = ''i'', pkg_package_hash = man_package_hash sample_signed, pkg_status = Import_succeeded,
     pkg_phase = ''completed'', pkg_root_kind = Pkg_application, pkg_root_id = ''a'', pkg_include_data = True,
     pkg_restore_data = True, pkg_source_ids = [], pkg_id_map = [], pkg_created_ids = [],
     pkg_completed_members = [''data:a'', ''application:a''], pkg_data_counts = [], pkg_error = None,
     pkg_started_at = 0, pkg_completed_at = Some 0\<rparr>"

text \<open>The working set is gone; the attempt that imported it is still stored.\<close>

definition sample_leftover :: "node_value graph" where
  "sample_leftover = coll_save package_import_attempts_coll sample_attempt empty_graph"

theorem finished_import_is_not_repeated_witness:
  "\<exists>t now. import_payload sample_package_env False None False (sample_signed, sample_payload) (sample_sets sample_leftover) =
     (Inr (Imported (attempt_result (ended_attempt sample_attempt now) sample_signed True)), t) \<and>
     coll_get applications_coll (key ''a'') (svc_graph t) = None"
proof -
  have v: "disagreements (env_versions sample_package_env) sample_signed = []" "man_include_data sample_signed"
    by (simp_all add: disagreements_def sample_package_env_def sample_signed_def signed_manifest_def unsigned_manifest_def Let_def)
  have a: "attempt_by_hash (man_package_hash sample_signed) (svc_graph (sample_sets sample_leftover)) = Some sample_attempt"
    by (simp add: attempt_by_hash_def sample_sets_def sample_leftover_def coll_values_def list_nodes_def coll_save_def
        upsert_node_def empty_graph_def package_import_attempts_coll_def sample_attempt_def)
  have "collisions sample_payload (pkg_created_ids sample_attempt) (svc_graph (sample_sets sample_leftover)) = []"
    by (simp add: collisions_def candidate_ids_def data_collisions_def secret_collisions_def sample_payload_def sample_member_def
        sample_app_def dict_or_def sample_attempt_def sample_sets_def sample_leftover_def coll_save_def upsert_node_def
        empty_graph_def package_import_attempts_coll_def get_node_def sample_otype_def sample_typed_note_def sample_note_def
        secret_references_coll_def coll_values_def list_nodes_def Let_def)
  moreover have "all_members_done sample_payload r sample_attempt" for r
    by (simp add: all_members_done_def sample_payload_def sample_member_def sample_app_def sample_attempt_def)
  moreover have "pkg_phase sample_attempt \<noteq> ''created''" "env_remount sample_package_env = ret ()"
    by (simp_all add: sample_attempt_def sample_package_env_def)
  ultimately obtain now where
    "import_payload sample_package_env False None False (sample_signed, sample_payload) (sample_sets sample_leftover) =
      (Inr (Imported (attempt_result (ended_attempt sample_attempt now) sample_signed True)),
       (sample_sets sample_leftover)\<lparr>svc_ticks := Suc (svc_ticks (sample_sets sample_leftover)),
         svc_graph := coll_save package_import_attempts_coll (ended_attempt sample_attempt now) (svc_graph (sample_sets sample_leftover))\<rparr>)"
    using finished_import_is_not_repeated [OF v(1) _ a] v(2) by blast
  moreover have "coll_get applications_coll (key ''a'') (coll_save package_import_attempts_coll x
      (svc_graph (sample_sets sample_leftover))) = None" for x
    by (simp add: coll_get_def get_node_def applications_coll_def coll_save_def upsert_node_def sample_sets_def
        sample_leftover_def empty_graph_def package_import_attempts_coll_def)
  moreover define u where "u = (sample_sets sample_leftover)\<lparr>svc_ticks := Suc (svc_ticks (sample_sets sample_leftover)),
         svc_graph := coll_save package_import_attempts_coll (ended_attempt sample_attempt now) (svc_graph (sample_sets sample_leftover))\<rparr>"
  ultimately have "import_payload sample_package_env False None False (sample_signed, sample_payload) (sample_sets sample_leftover) =
      (Inr (Imported (attempt_result (ended_attempt sample_attempt now) sample_signed True)), u) \<and>
      coll_get applications_coll (key ''a'') (svc_graph u) = None" by (simp add: u_def)
  then show ?thesis by blast
qed

text \<open>Declaring an object type in a draft binds the declared revision, the only one of its type, and leaves the
  revisions of the other types that the draft binds as they were.\<close>

theorem declared_type_is_bound_once:
  assumes "create_object_type sha rid otid name properties required s = (Inr r, s')"
    and "declared_ok (svc_graph s)" and "otrev_object_type_id r = otid"
  shows "declared_ok (svc_graph s') \<and> (\<exists>ys. object_type_revisions rid (svc_graph s') = Inr ys \<and>
      filter (\<lambda>y. otrev_object_type_id y = otid) ys = [r] \<and>
      (\<forall>xs. object_type_revisions rid (svc_graph s) = Inr xs \<longrightarrow>
         filter (\<lambda>y. otrev_object_type_id y \<noteq> otid) ys = filter (\<lambda>y. otrev_object_type_id y \<noteq> otid) xs))"
  using create_object_type_Inr [OF assms] by blast

definition sample_memo :: object_type_revision where
  "sample_memo = \<lparr>otrev_id = ''sha256:h'', otrev_object_type_id = ''ot'', otrev_name = ''Memo'', otrev_properties = [],
     otrev_required = [], otrev_created_at = 0, otrev_content_hash = ''sha256:h''\<rparr>"

definition sample_draft_set :: "node_value graph" where
  "sample_draft_set = coll_save revisions_coll (sample_apprev\<lparr>rev_status := Rev_draft\<rparr>) sample_working_set"

text \<open>The graph before the draft is rebound.\<close>

definition sample_declared :: "node_value graph" where
  "sample_declared =
     create_edge (id_ref ''ObjectType'' ''ot'') ''HAS_REVISION'' (id_ref ''ObjectTypeRevision'' ''sha256:h'') []
     (create_edge (id_ref ''Application'' ''a'') ''DEFINES_OBJECT_TYPE'' (id_ref ''ObjectType'' ''ot'') []
     (coll_save object_types_coll sample_otype (coll_save object_type_revisions_coll sample_memo sample_draft_set)))"

lemma sample_draft_reads:
  "coll_get revisions_coll (key ''r'') sample_draft_set = Some (sample_apprev\<lparr>rev_status := Rev_draft\<rparr>)"
  "coll_get object_type_revisions_coll (key ''sha256:h'') sample_draft_set = None"
  "coll_get object_types_coll (key ''ot'') (coll_save object_type_revisions_coll sample_memo sample_draft_set) = Some sample_otype"
  "declared_ok sample_draft_set"
  by (simp_all add: sample_reads declared_ok_def targets_labelled_def binding_types_def typed_graph_def sample_draft_set_def
      sample_memo_def sample_working_set_defs)

lemma sample_declared_named:
  "named ''r'' ''HAS_OBJECT_TYPE_REVISION'' object_type_revisions_coll otrev_object_type_id ''ot'' sample_declared =
     Inr (Some sample_otrev)"
  "resolve ''r'' sample_declared = Inr ''ApplicationRevision''"
  "typed_graph sample_declared"
  by (simp_all add: named_def sample_reads typed_graph_def sample_declared_def sample_draft_set_def sample_memo_def sample_working_set_defs)

lemma sample_declares:
  "\<exists>t. create_object_type (\<lambda>_. ''h'') ''r'' ''ot'' ''Memo'' [] [] (sample_sets sample_draft_set) = (Inr sample_memo, t)"
proof -
  let ?g = "create_edge (id_ref ''ApplicationRevision'' ''r'') ''HAS_OBJECT_TYPE_REVISION'' (id_ref ''ObjectTypeRevision'' ''sha256:h'') []
     (delete_edge (id_ref ''ApplicationRevision'' ''r'') ''HAS_OBJECT_TYPE_REVISION'' (Some (id_ref ''ObjectTypeRevision'' ''otr'')) None sample_declared)"
  have "typed_graph ?g" using sample_declared_named(3) by (simp add: typed_graph_def graph_simps)
  from gc_loop_returns [OF this, of "Suc (node_count ?g)" "[]"]
  obtain d where "fst (delete_interned_orphans ?g) = Inr d" by (auto simp: delete_interned_orphans_def)
  then obtain h where h: "delete_interned_orphans ?g = (Inr d, h)" by (cases "delete_interned_orphans ?g") simp
  have i: "intern_id (\<lambda>_. ''h'') p = ''sha256:h''" for p by (simp add: intern_id_def sha256_json_def sha256_text_def)
  have ids: "otrev_id sample_memo = ''sha256:h''" "otrev_id sample_otrev = ''otr''" "otype_id sample_otype = ''ot''"
    "rev_id sample_apprev = ''r''" "rev_application_id sample_apprev = ''a''"
    by (simp_all add: sample_memo_def sample_otrev_def sample_otype_def sample_apprev_def)
  have re: "replace_named ''r'' ''HAS_OBJECT_TYPE_REVISION'' (Some ''otr'') ''sha256:h'' ''ObjectTypeRevision'' sample_declared = (Inr (), h)"
    by (simp add: replace_named_def sample_declared_named(2) h bindE_apply ret_apply Let_def)
  have memo: "\<lparr>otrev_id = ''sha256:h'', otrev_object_type_id = ''ot'', otrev_name = ''Memo'', otrev_properties = [],
     otrev_required = [], otrev_created_at = 0, otrev_content_hash = ''sha256:h''\<rparr> = sample_memo"
    by (simp add: sample_memo_def)
  show ?thesis
    using re sample_declared_named(1)
    by (simp add: create_object_type_def atomically_apply require_application_def coll_item_def
        interned_record_def stable_record_def link_definition_def rebind_def op_defs i memo ids
        sample_draft_reads sample_sets_def sample_svc_def Let_def sample_declared_def [symmetric])
qed

theorem declared_type_is_bound_once_witness:
  "\<exists>t. create_object_type (\<lambda>_. ''h'') ''r'' ''ot'' ''Memo'' [] [] (sample_sets sample_draft_set) = (Inr sample_memo, t) \<and>
     (\<exists>ys. object_type_revisions ''r'' (svc_graph t) = Inr ys \<and>
       filter (\<lambda>y. otrev_object_type_id y = ''ot'') ys = [sample_memo])"
proof -
  obtain t where t: "create_object_type (\<lambda>_. ''h'') ''r'' ''ot'' ''Memo'' [] [] (sample_sets sample_draft_set) = (Inr sample_memo, t)"
    using sample_declares by blast
  have "declared_ok (svc_graph (sample_sets sample_draft_set))" "otrev_object_type_id sample_memo = ''ot''"
    using sample_draft_reads(4) by (simp_all add: sample_sets_def sample_memo_def)
  from declared_type_is_bound_once [OF t this] t show ?thesis by blast
qed

text \<open>C32: The last revision of an object type in a Package wins: when the import has declared the pairs of a type
  in their order, the draft binds the declaration of the last one and no other of its type, and the
  ledger maps the last source revision to it. (The active revision comes first in a captured payload,
  revisions that only data refer to come after it.)\<close>

theorem last_imported_type_is_bound:
  assumes "thread_op (import_object_type env app rid) (qs @ [(t, src)]) l s = (Inr l', s')"
    and "type_named (declared_type_id (env_sha env) (otype_id t) src) (otype_id t) (svc_graph s)"
    and "\<forall>p\<in>set qs. declared_type_id (env_sha env) (otype_id (fst p)) (snd p) = declared_type_id (env_sha env) (otype_id t) src \<longrightarrow>
      otype_id (fst p) = otype_id t"
  shows "\<exists>r ys. otrev_id r = declared_type_id (env_sha env) (otype_id t) src \<and>
    object_type_revisions rid (svc_graph s') = Inr ys \<and> filter (\<lambda>y. otrev_object_type_id y = otype_id t) ys = [r] \<and>
    mapped_id (fst l') ''ObjectTypeRevision'' (otrev_id src) = Inr (otrev_id r)"
proof -
  have apart: "otype_id (fst p) = otype_id t" if "p \<in> set qs"
    "declared_type_id (env_sha env) (otype_id (fst p)) (snd p) = declared_type_id (env_sha env) (otype_id t) src" for p
    using assms(3) that by blast
  have "declared_type_id (env_sha env) (otype_id t) src = declared_type_id (env_sha env) (otype_id t) (snd (t, src))"
    "otype_id t = otype_id (fst (t, src))" by simp_all
  from last_type_bound [OF assms(1,2) this apart] obtain r ys where "otrev_id r = declared_type_id (env_sha env) (otype_id t) src"
    "object_type_revisions rid (svc_graph s') = Inr ys" "filter (\<lambda>y. otrev_object_type_id y = otype_id t) ys = [r]"
    "mapped_id (fst l') ''ObjectTypeRevision'' (otrev_id src) = Inr (declared_type_id (env_sha env) (otype_id t) src)"
    by (metis snd_conv)
  then show ?thesis by (intro exI [of _ r] exI [of _ ys]) simp
qed

text \<open>The draft binds the type already; the Package carries another revision of it.\<close>

theorem last_imported_type_is_bound_witness:
  "\<exists>l' t. thread_op (import_object_type (sample_package_env\<lparr>env_sha := (\<lambda>_. ''h'')\<rparr>) ''a'' ''r'')
       [(sample_otype, sample_memo\<lparr>otrev_id := ''old''\<rparr>)] ([], [(''ObjectType'', [''ot''])]) (sample_sets sample_draft_set) = (Inr l', t) \<and>
     mapped_id (fst l') ''ObjectTypeRevision'' ''old'' = Inr ''sha256:h''"
proof -
  let ?e = "sample_package_env\<lparr>env_sha := (\<lambda>_. ''h'')\<rparr>" and ?src = "sample_memo\<lparr>otrev_id := ''old''\<rparr>"
  let ?l = "([], [(''ObjectType'', [''ot''])]) :: ledger"
  obtain t where c: "create_object_type (\<lambda>_. ''h'') ''r'' ''ot'' ''Memo'' [] [] (sample_sets sample_draft_set) = (Inr sample_memo, t)"
    using sample_declares by blast
  have ids: "otype_id sample_otype = ''ot''" "otrev_name sample_memo = ''Memo''" "otrev_properties sample_memo = []"
    "otrev_required sample_memo = []" "otrev_id sample_memo = ''sha256:h''"
    by (simp_all add: sample_otype_def sample_memo_def)
  have i: "declared_type_id (env_sha ?e) (otype_id sample_otype) ?src = ''sha256:h''"
    by (simp add: declared_type_id_def intern_id_def sha256_json_def sha256_text_def)
  have "thread_op (import_object_type ?e ''a'' ''r'') ([] @ [(sample_otype, ?src)]) ?l (sample_sets sample_draft_set) =
      (Inr (mapped ''ObjectTypeRevision'' ''old'' ''sha256:h'' ?l), t)"
    using c by (simp add: import_object_type_def import_stable_def dict_or_def ids bindE_apply ret_apply Let_def)
  moreover have "type_named (declared_type_id (env_sha ?e) (otype_id sample_otype) ?src) (otype_id sample_otype)
      (svc_graph (sample_sets sample_draft_set))"
    unfolding i using sample_draft_reads(2,4) by (simp add: type_named_def sample_sets_def)
  ultimately show ?thesis
    using last_imported_type_is_bound [of ?e "''a''" "''r''" "[]" sample_otype ?src ?l "sample_sets sample_draft_set"] i by (auto simp del: thread_op.simps)
qed

section \<open>Deletion\<close>


text \<open>The working set above next to an object of another Application.\<close>

definition sample_two_sets :: svc where
  "sample_two_sets = sample_sets (coll_save objects_coll (sample_typed_note\<lparr>obj_application_id := ''b''\<rparr>) sample_working_set)"

lemma sample_two_kept: "kept_relations (svc_graph sample_two_sets)"
  by (simp add: kept_relations_def well_kept_def typed_graph_def wf_graph_def file_edges_def keyed_relations_def
      sample_two_sets_def sample_sets_def sample_svc_def sample_working_set_defs)

lemma sample_deletes: "\<exists>t. delete_records [''a''] None sample_two_sets = (Inr (), t)"
proof -
  have "action_revisions ''r'' (svc_graph sample_two_sets) = Inr []"
    by (simp add: action_revisions_def sample_reads sample_two_sets_def sample_sets_def sample_working_set_defs)
  moreover have "ids_where revisions_coll rev_id (\<lambda>r. rev_application_id r = ''a'') (svc_graph sample_two_sets) = [''r'']"
    by (simp add: ids_where_def coll_values_def list_nodes_def sample_two_sets_def sample_sets_def sample_working_set_defs)
  ultimately obtain m where m: "application_members ''a'' (svc_graph sample_two_sets) = Inr m"
    by (simp add: application_members_def)
  have nod: "delete_pinning_deployments [''a''] None (svc_graph sample_two_sets) = svc_graph sample_two_sets"
    by (simp add: delete_pinning_deployments_def coll_values_def list_nodes_def development_deployments_coll_def
        sample_two_sets_def sample_sets_def sample_working_set_defs)
  let ?g = "drop_application ''a'' m (svc_graph sample_two_sets)"
  have "typed_graph ?g" using drop_application_kept [OF sample_two_kept] by (simp add: kept_relations_def well_kept_def)
  from gc_loop_returns [OF this, of "Suc (node_count ?g)" "[]"]
  obtain d where "fst (delete_interned_orphans ?g) = Inr d" by (auto simp: delete_interned_orphans_def)
  then obtain h where "delete_interned_orphans ?g = (Inr d, h)" by (cases "delete_interned_orphans ?g") simp
  with nod m show ?thesis
    by (simp add: delete_records_def delete_application_subgraph_def atomically_apply op_defs)
qed


lemma refusal_by_reference:
  assumes "r \<in> set (coll_values experience_revisions_coll g)" and "ignored \<noteq> Some (exprev_experience_id r)"
    and "d \<in> set (exprev_application_access r)" and "access_application_id d = app"
  shows "\<exists>e. refuse_if_experience_references app ignored g = Inl e"
proof -
  have "exprev_id r \<in> set (experience_references app ignored g)"
    using assms by (auto simp: experience_references_def list_ex_iff)
  then have "experience_references app ignored g \<noteq> []" by auto
  then show ?thesis by (simp add: refuse_if_experience_references_def)
qed

lemma refusal_of_experience:
  assumes "coll_get experiences_coll (key i) g = Some x" and "exp_active_revision_id x = Some rid"
    and "coll_get experience_revisions_coll (key rid) g = Some r" and d: "d \<in> set (exprev_application_access r)"
    and "\<exists>e. refuse_if_experience_references (access_application_id d) (Some i) g = Inl e"
  shows "\<exists>e. refuse_if_shared_applications i g = Inl e"
proof -
  let ?f = "\<lambda>d. refuse_if_experience_references (access_application_id d) (Some i) g"
  have "\<not> (\<exists>ys. map_result ?f (exprev_application_access r) = Inr ys)"
    unfolding map_result_ok using d assms(5) by (metis Inl_Inr_False)
  then obtain e where "map_result ?f (exprev_application_access r) = Inl e"
    by (cases "map_result ?f (exprev_application_access r)") auto
  with assms(1-3) show ?thesis by (simp add: refuse_if_shared_applications_def rbind_def)
qed

text \<open>A deletion is refused, and changes nothing, when the confirmation is not the id of the root, when an
  Experience revision declares access to the Application to delete, and when the active revision of
  the Experience to delete declares an Application that a revision of another Experience declares.\<close>

theorem refused_deletion_changes_nothing:
  assumes "confirmation \<noteq> i \<or>
    kind = ''application'' \<and> (\<exists>r\<in>set (coll_values experience_revisions_coll (svc_graph s)).
      \<exists>d\<in>set (exprev_application_access r). access_application_id d = i) \<or>
    kind = ''experience'' \<and> (\<exists>x rid r. coll_get experiences_coll (key i) (svc_graph s) = Some x \<and>
      exp_active_revision_id x = Some rid \<and> coll_get experience_revisions_coll (key rid) (svc_graph s) = Some r \<and>
      (\<exists>d\<in>set (exprev_application_access r). \<exists>q\<in>set (coll_values experience_revisions_coll (svc_graph s)).
         exprev_experience_id q \<noteq> i \<and> (\<exists>e\<in>set (exprev_application_access q). access_application_id e = access_application_id d)))"
  shows "\<exists>e. delete_working_set env codec fmt bdelete kind i name confirmation overwrite s = (Inl e, s)"
proof (cases "confirmation = i")
  case False
  then show ?thesis by (simp add: delete_working_set_def require_apply bindE_apply)
next
  case True
  have "\<exists>e. refuse_deletion kind i (svc_graph s) = Inl e"
    using assms True
  proof (elim disjE exE conjE bexE)
    fix r d assume "kind = ''application''" "r \<in> set (coll_values experience_revisions_coll (svc_graph s))"
      "d \<in> set (exprev_application_access r)" "access_application_id d = i"
    with refusal_by_reference [of r _ None d i] show ?thesis by (simp add: refuse_deletion_def)
  next
    fix x rid r d q e assume k: "kind = ''experience''" "exprev_experience_id q \<noteq> i"
      and x: "coll_get experiences_coll (key i) (svc_graph s) = Some x" "exp_active_revision_id x = Some rid"
        "coll_get experience_revisions_coll (key rid) (svc_graph s) = Some r" "d \<in> set (exprev_application_access r)"
      and q: "q \<in> set (coll_values experience_revisions_coll (svc_graph s))" "e \<in> set (exprev_application_access q)"
        "access_application_id e = access_application_id d"
    have "\<exists>e. refuse_if_experience_references (access_application_id d) (Some i) (svc_graph s) = Inl e"
      by (rule refusal_by_reference [OF q(1) _ q(2,3)]) (use k in simp)
    from refusal_of_experience [OF x this] k show ?thesis by (simp add: refuse_deletion_def)
  qed simp_all
  with True show ?thesis by (auto simp: delete_working_set_def require_apply reads_apply bindE_apply)
qed

definition sample_world :: "(unit, (string \<times> string) list) package_world" where
  "sample_world = \<lparr>svc_graph = svc_graph sample_bridge, svc_clock = (\<lambda>_. 0), svc_ticks = 0, svc_ids = (\<lambda>_. []), svc_drawn = 0,
     backend = (), pkg_dir = []\<rparr>"

theorem refused_deletion_changes_nothing_witness:
  "\<forall>env. \<exists>e. delete_working_set env sample_codec sample_format (\<lambda>_. ret ()) ''application'' ''a''
     ''x.n4xp'' ''a'' False sample_world = (Inl e, sample_world)"
proof (rule allI, rule refused_deletion_changes_nothing, rule disjI2, rule disjI1, intro conjI refl)
  have "sample_exprev \<in> set (coll_values experience_revisions_coll (svc_graph sample_world))"
    by (simp add: sample_world_def sample_bridge_def coll_values_def list_nodes_def coll_save_def upsert_node_def empty_graph_def
        experience_revisions_coll_def experiences_coll_def objects_coll_def revisions_coll_def applications_coll_def)
  moreover have "sample_access \<in> set (exprev_application_access sample_exprev)" "access_application_id sample_access = ''a''"
    by (simp_all add: sample_exprev_def sample_access_def)
  ultimately show "\<exists>r\<in>set (coll_values experience_revisions_coll (svc_graph sample_world)).
      \<exists>d\<in>set (exprev_application_access r). access_application_id d = ''a''" by blast
qed

end
