(* ===== verification/Development_Deployments.thy ===== *)
theory Development_Deployments
  imports Data_Spaces Experience_Access
begin

text \<open>
  \<^verbatim>\<open>DevelopmentDeploymentService\<close> of \<^verbatim>\<open>system/development_deployments.py\<close>: a deployment pins the draft of
  an Experience and one revision of every Application it declares, gives each a data space of its own
  that may hold a clone of production data, and runs and reads only there while the pinned candidates
  are unchanged. The runtime, the cancellation of its work and the eviction of processes are ports.
\<close>

section \<open>Creation\<close>

definition default_clone_spec :: data_space_clone_spec where
  "default_clone_spec = \<lparr>clone_selection_query = None, clone_params = [], clone_max_nodes = 500, clone_max_relations = 2000\<rparr>"

text \<open>The pinned revision of an Application, and the entry of its tree in \<^verbatim>\<open>candidate_hashes\<close>.\<close>

definition application_hash_key :: "string \<Rightarrow> string" where
  "application_hash_key app = ''application:'' @ app"

definition candidate_of ::
  "string \<times> string \<Rightarrow> node_value graph \<Rightarrow> exn + (string \<times> application_revision) \<times> (string \<times> string)" where
  "candidate_of pin g =
     (case pin of (app, rid) \<Rightarrow>
        rbind (coll_item revisions_coll (key rid) g) (\<lambda>r.
        if rev_application_id r \<noteq> app
        then Inl (ValidationFailure (''ApplicationRevision owner mismatch: '' @ rid))
        else if rev_status r \<notin> {Rev_draft, Rev_active}
        then Inl (ValidationFailure (''ApplicationRevision is not deployable: '' @ rid))
        else rbind (tree (rev_id r) g) (\<lambda>t. Inr ((app, r), (application_hash_key app, tree_tree_hash t)))))"

definition experience_hash :: "string \<Rightarrow> node_value graph \<Rightarrow> exn + string \<times> string" where
  "experience_hash rid g = rbind (tree rid g) (\<lambda>t. Inr (''experience:'' @ rid, tree_tree_hash t))"

definition create_spaces ::
  "string \<Rightarrow> int \<Rightarrow> string list \<Rightarrow> ('z svc_scheme, (string, string) dict) op" where
  "create_spaces i expires apps =
     bindE (map_op (\<lambda>app. bindE (create_development app (Some i) (Some expires)) (\<lambda>d. ret (app, space_id d))) apps) ret"

definition clone_spaces ::
  "'z cypher_runner \<Rightarrow> (string, data_space_clone_spec) dict \<Rightarrow> (string, string) dict \<Rightarrow> string list \<Rightarrow>
   ('z svc_scheme, unit) op" where
  "clone_spaces cypher specs spaces apps =
     bindE (require (set (dict_keys specs) \<subseteq> set apps)
       (ValidationFailure (''clone_specs contains undeclared Applications: '' @
          join_with '', '' (sort (filter (\<lambda>a. a \<notin> set apps) (dict_keys specs)))))) (\<lambda>_.
     for_each (\<lambda>app. bindE (clone_from_production cypher app (case dict_get spaces app of None \<Rightarrow> [] | Some i \<Rightarrow> i)
         (case dict_get specs app of None \<Rightarrow> default_clone_spec | Some c \<Rightarrow> c)) (\<lambda>_. ret ())) apps)"

text \<open>\<^verbatim>\<open>_clone_secret_reference_ids\<close>: the loop over the declared ids, with those bound so far.\<close>

fun bind_secrets ::
  "node_value graph \<Rightarrow> string \<Rightarrow> string list \<Rightarrow> string list \<Rightarrow> exn + string list" where
  "bind_secrets g app [] bound = Inr bound"
| "bind_secrets g app (i # is) bound =
     (if i = [] \<or> i \<in> set bound then bind_secrets g app is bound
      else (case coll_get secret_references_coll (key i) g of
          None \<Rightarrow> Inl (ValidationFailure (''unknown secret reference: '' @ i))
        | Some r \<Rightarrow> if secret_application_id r \<noteq> app
            then Inl (ValidationFailure (''secret reference owner mismatch: '' @ i))
            else bind_secrets g app is (bound @ [i])))"

fun clone_secret_reference_ids ::
  "node_value graph \<Rightarrow> application_access_declaration list \<Rightarrow> string list \<Rightarrow> exn + string list" where
  "clone_secret_reference_ids g [] bound = Inr bound"
| "clone_secret_reference_ids g (d # ds) bound =
     rbind (bind_secrets g (access_application_id d)
       (case access_secret_reference_ids d of None \<Rightarrow> [] | Some is \<Rightarrow> is) bound) (clone_secret_reference_ids g ds)"

definition link_deployment ::
  "development_deployment \<Rightarrow> (string \<times> application_revision) list \<Rightarrow> ('z svc_scheme, unit) op" where
  "link_deployment d pins =
     (let ref = id_ref ''DevelopmentDeployment'' (deploy_id d) in
      bindE (link root_ref ''HAS_DEVELOPMENT_DEPLOYMENT'' ref) (\<lambda>_.
      bindE (link ref ''PINS_EXPERIENCE_REVISION'' (id_ref ''ExperienceRevision'' (deploy_experience_revision_id d))) (\<lambda>_.
      for_each (\<lambda>(app, r).
        bindE (link ref ''PINS_APPLICATION_REVISION'' (id_ref ''ApplicationRevision'' (rev_id r))) (\<lambda>_.
        link ref ''BINDS_DATA_SPACE'' (NodeRef ''DataSpace''
          (space_key app (case dict_get (deploy_data_space_ids d) app of None \<Rightarrow> [] | Some i \<Rightarrow> i))))) pins)))"

definition create_deployment ::
  "'z cypher_runner \<Rightarrow> string \<Rightarrow> (string, string) dict \<Rightarrow> int \<Rightarrow> string \<Rightarrow> (string, data_space_clone_spec) dict \<Rightarrow>
   ('z svc_scheme, development_deployment) op" where
  "create_deployment cypher xrid pins ttl initialization specs = atomically
     (bindE (require (1 \<le> ttl) (ValidationFailure ''ttl_seconds must be positive'')) (\<lambda>_.
      bindE (require (initialization \<in> {''empty'', ''clone''})
         (ValidationFailure (''unsupported DataSpace initialization: '' @ initialization))) (\<lambda>_.
      bindE (item_of experience_revisions_coll (key xrid)) (\<lambda>x.
      bindE (require (exprev_status x = Rev_draft)
         (ValidationFailure ''development deployment requires a draft ExperienceRevision'')) (\<lambda>_.
      bindE (require (set (dict_keys pins) = set (map access_application_id (exprev_application_access x)))
         (ValidationFailure ''candidate Applications must exactly match Experience access'')) (\<lambda>_.
      bindE (reads (experience_hash (exprev_id x))) (\<lambda>xh.
      bindE (reads (\<lambda>g. map_result (\<lambda>pin. candidate_of pin g) pins)) (\<lambda>cs.
      bindE new_uuid (\<lambda>i.
      bindE now_utc (\<lambda>now.
      (let expires = now + ttl * 1000000; apps = sort (map (\<lambda>c. fst (fst c)) cs) in
      bindE (create_spaces i expires apps) (\<lambda>spaces.
      bindE (if initialization = ''clone'' then clone_spaces cypher specs spaces apps else ret ()) (\<lambda>_.
      bindE (if initialization = ''clone''
        then reads (\<lambda>g. clone_secret_reference_ids g (exprev_application_access x) []) else ret []) (\<lambda>secrets.
      bindE now_utc (\<lambda>made.
      (let d = \<lparr>deploy_id = i, deploy_experience_revision_id = xrid, deploy_application_revision_ids = pins,
             deploy_data_space_ids = spaces, deploy_candidate_hashes = xh # map snd cs,
             deploy_secret_reference_ids = secrets, deploy_status = Deploy_active, deploy_created_at = made,
             deploy_expires_at = expires\<rparr> in
       bindE (save_to development_deployments_coll d) (\<lambda>_.
       bindE (link_deployment d (map fst cs)) (\<lambda>_. ret d))))))))))))))))))"

section \<open>Availability\<close>

definition get_deployment :: "string \<Rightarrow> node_value graph \<Rightarrow> exn + development_deployment" where
  "get_deployment i g = (case coll_get development_deployments_coll (key i) g of
     None \<Rightarrow> Inl (KeyError i) | Some d \<Rightarrow> Inr d)"

text \<open>Equality of dictionaries.\<close>

definition dict_eq :: "(string, string) dict \<Rightarrow> (string, string) dict \<Rightarrow> bool" where
  "dict_eq a b \<longleftrightarrow> set (dict_keys a) = set (dict_keys b) \<and> list_all (\<lambda>k. dict_get a k = dict_get b k) (dict_keys a)"

definition current_hashes :: "development_deployment \<Rightarrow> node_value graph \<Rightarrow> exn + (string, string) dict" where
  "current_hashes d g =
     rbind (coll_item experience_revisions_coll (key (deploy_experience_revision_id d)) g) (\<lambda>x.
     rbind (experience_hash (exprev_id x) g) (\<lambda>xh.
     rbind (map_result (\<lambda>(app, rid). rbind (coll_item revisions_coll (key rid) g) (\<lambda>r.
         rbind (tree (rev_id r) g) (\<lambda>t. Inr (application_hash_key app, tree_tree_hash t))))
       (deploy_application_revision_ids d)) (\<lambda>hs. Inr (xh # hs))))"

definition require_unchanged :: "development_deployment \<Rightarrow> node_value graph \<Rightarrow> exn + unit" where
  "require_unchanged d g = rbind (current_hashes d g) (\<lambda>hs.
     if dict_eq hs (deploy_candidate_hashes d) then Inr ()
     else Inl (ValidationFailure ''development deployment candidate changed; redeploy required''))"

definition superseded_candidate :: exn where
  "superseded_candidate = ValidationFailure ''development deployment candidate superseded; redeploy required''"

definition require_current_pins :: "development_deployment \<Rightarrow> node_value graph \<Rightarrow> exn + unit" where
  "require_current_pins d g =
     rbind (coll_item experience_revisions_coll (key (deploy_experience_revision_id d)) g) (\<lambda>x.
     if exprev_status x \<notin> {Rev_draft, Rev_active} then Inl superseded_candidate
     else rbind (map_result (\<lambda>(_, rid). rbind (coll_item revisions_coll (key rid) g) (\<lambda>r.
         if rev_status r \<notin> {Rev_draft, Rev_active} then Inl superseded_candidate else Inr ()))
       (deploy_application_revision_ids d)) (\<lambda>_. Inr ()))"

definition require_available :: "string \<Rightarrow> ('z svc_scheme, development_deployment) op" where
  "require_available i =
     bindE (reads (get_deployment i)) (\<lambda>d.
     bindE (if deploy_status d = Deploy_active then bindE now_utc (\<lambda>now. ret (deploy_expires_at d \<le> now)) else ret True) (\<lambda>expired.
     bindE (require (\<not> expired) (ValidationFailure (''development deployment is expired: '' @ i))) (\<lambda>_.
     bindE (reads (require_unchanged d)) (\<lambda>_.
     bindE (reads (require_current_pins d)) (\<lambda>_.
     ret d)))))"

definition deployment_context :: "string \<Rightarrow> string \<Rightarrow> string option \<Rightarrow> ('z svc_scheme, execution_context) op" where
  "deployment_context i app correlation =
     bindE (require_available i) (\<lambda>d.
     (case (dict_get (deploy_application_revision_ids d) app, dict_get (deploy_data_space_ids d) app) of
        (Some rid, Some sp) \<Rightarrow>
          bindE (case correlation of None \<Rightarrow> new_uuid | Some c \<Rightarrow> if c = [] then new_uuid else ret c) (\<lambda>corr.
          ret \<lparr>ctx_mode = Ctx_development, ctx_deployment_id = Some (deploy_id d), ctx_correlation_id = corr,
               ctx_experience_revision_id = Some (deploy_experience_revision_id d), ctx_application_revision_id = rid,
               ctx_application_id = app, ctx_data_space_id = sp\<rparr>)
      | _ \<Rightarrow> raise (ValidationFailure (''Application is not bound to deployment: '' @ app))))"

definition deployment_experience_revision :: "string \<Rightarrow> string \<Rightarrow> ('z svc_scheme, experience_revision) op" where
  "deployment_experience_revision i xid =
     bindE (require_available i) (\<lambda>d.
     bindE (item_of experience_revisions_coll (key (deploy_experience_revision_id d))) (\<lambda>x.
     bindE (require (exprev_experience_id x = xid)
       (ValidationFailure ''Experience is not bound to development deployment'')) (\<lambda>_. ret x)))"

definition deployment_access :: "string \<Rightarrow> string \<Rightarrow> ('z svc_scheme, application_access_declaration) op" where
  "deployment_access i app =
     bindE (require_available i) (\<lambda>d.
     bindE (item_of experience_revisions_coll (key (deploy_experience_revision_id d))) (\<lambda>x.
     (case find (\<lambda>a. access_application_id a = app) (exprev_application_access x) of
        None \<Rightarrow> raise (ValidationFailure (''Application is not declared by Experience: '' @ app))
      | Some a \<Rightarrow> ret a)))"

section \<open>Running and reading\<close>

definition resolve_candidate_action :: "execution_context \<Rightarrow> string \<Rightarrow> ('z svc_scheme, action_revision) op" where
  "resolve_candidate_action ctx aid =
     bindE (deployment_access (case ctx_deployment_id ctx of None \<Rightarrow> [] | Some i \<Rightarrow> i) (ctx_application_id ctx)) (\<lambda>a.
     bindE (require (allows (access_action_ids a) aid)
       (ValidationFailure (''Action is not allowed by Experience: '' @ aid))) (\<lambda>_.
     bindE (asks (coll_get actions_coll (key aid))) (\<lambda>x.
     bindE (require (case x of None \<Rightarrow> False | Some m \<Rightarrow> act_application_id m = ctx_application_id ctx)
       (ValidationFailure (''Action does not belong to Application: '' @ aid))) (\<lambda>_.
     bindE (reads (\<lambda>g. case bound_action_revision (ctx_application_revision_id ctx) aid g of
         Inl (KeyError _) \<Rightarrow> Inl (ValidationFailure (''Action has no candidate revision: '' @ aid)) | r \<Rightarrow> r)) (\<lambda>r.
     bindE (require (actrev_kind r \<noteq> Act_migration)
       (ValidationFailure ''migration revisions run only through activation'')) (\<lambda>_. ret r))))))"

text \<open>What a development call runs, and in which context.\<close>

definition development_call ::
  "string \<Rightarrow> string \<Rightarrow> string \<Rightarrow> ('z svc_scheme, action_revision \<times> execution_context) op" where
  "development_call i app aid =
     bindE (deployment_context i app None) (\<lambda>ctx.
     bindE (resolve_candidate_action ctx aid) (\<lambda>r. ret (r, ctx)))"

definition deployment_scope :: "execution_context \<Rightarrow> string \<Rightarrow> string \<Rightarrow> string \<Rightarrow> scope" where
  "deployment_scope ctx i app exp = \<lparr>scope_application = app, scope_experience = exp,
     scope_revision = (case ctx_experience_revision_id ctx of None \<Rightarrow> [] | Some r \<Rightarrow> r),
     scope_space = ctx_data_space_id ctx, scope_deployment = Some i\<rparr>"

definition development_run_action ::
  "'z action_runtime \<Rightarrow> delivery_env \<Rightarrow> (json \<Rightarrow> delivery_request option) \<Rightarrow> string \<Rightarrow> string \<Rightarrow> string \<Rightarrow>
   (string, json) dict \<Rightarrow> ('z svc_scheme, invocation) op" where
  "development_run_action run env parse i app aid input =
     bindE (development_call i app aid) (\<lambda>(r, ctx).
     bindE (run r input InvKind_draft ctx) (\<lambda>inv.
     bindE (item_of experience_revisions_coll (key (case ctx_experience_revision_id ctx of None \<Rightarrow> [] | Some x \<Rightarrow> x))) (\<lambda>x.
     bindE (case prepare_output env parse (deployment_scope ctx i app (exprev_experience_id x)) (inv_output inv) of
         Inr out \<Rightarrow> ret out
       | Inl (FileDeliveryError _ _ _) \<Rightarrow> ret (strip_delivery_fields (inv_output inv))
       | Inl e \<Rightarrow> raise e) (\<lambda>out.
     if out \<noteq> inv_output inv
     then bindE (atomically (save_to invocations_coll (inv\<lparr>inv_output := out\<rparr>))) (\<lambda>_. ret (inv\<lparr>inv_output := out\<rparr>))
     else ret inv))))"

definition development_submit_action ::
  "'z action_runtime \<Rightarrow> string \<Rightarrow> string \<Rightarrow> string \<Rightarrow> (string, json) dict \<Rightarrow> ('z svc_scheme, invocation) op" where
  "development_submit_action submit i app aid input =
     bindE (development_call i app aid) (\<lambda>(r, ctx). submit r input InvKind_draft ctx)"

definition development_list_objects ::
  "string \<Rightarrow> string \<Rightarrow> string option \<Rightarrow> ('z svc_scheme, application_object list) op" where
  "development_list_objects i app otype =
     bindE (deployment_context i app None) (\<lambda>ctx.
     bindE (deployment_access i app) (\<lambda>a.
     bindE (case otype of None \<Rightarrow> ret () | Some t \<Rightarrow> require (allows (access_object_type_ids a) t)
       (ValidationFailure (''ObjectType is not allowed by Experience: '' @ t))) (\<lambda>_.
     bindE (asks (object_list app otype (ctx_data_space_id ctx))) (\<lambda>xs.
     ret (filter (\<lambda>x. allows (access_object_type_ids a) (obj_object_type_id x)) xs)))))"

definition development_list_relations ::
  "string \<Rightarrow> string \<Rightarrow> string option \<Rightarrow> string option \<Rightarrow> string option \<Rightarrow> ('z svc_scheme, app_relation list) op" where
  "development_list_relations i app rtype from_id to_id =
     bindE (deployment_context i app None) (\<lambda>ctx.
     bindE (deployment_access i app) (\<lambda>a.
     bindE (case rtype of None \<Rightarrow> ret () | Some t \<Rightarrow> require (allows (access_relation_type_ids a) t)
       (ValidationFailure (''RelationType is not allowed by Experience: '' @ t))) (\<lambda>_.
     bindE (asks (relation_list app rtype from_id to_id (ctx_data_space_id ctx))) (\<lambda>xs.
     ret (filter (\<lambda>x. allows (access_relation_type_ids a) (rel_relation_type_id x)) xs)))))"

definition development_deliver_file ::
  "delivery_env \<Rightarrow> string \<Rightarrow> string \<Rightarrow> string \<Rightarrow> ('z svc_scheme, delivered_file) op" where
  "development_deliver_file env i app token =
     bindE (deployment_context i app None) (\<lambda>ctx.
     bindE (item_of experience_revisions_coll (key (case ctx_experience_revision_id ctx of None \<Rightarrow> [] | Some x \<Rightarrow> x))) (\<lambda>x.
     lift_result (resolve_token env ((deployment_scope ctx i app (exprev_experience_id x))\<lparr>scope_revision := exprev_id x\<rparr>) token)))"

definition bound_secret_reference_ids :: "string \<Rightarrow> string \<Rightarrow> ('z svc_scheme, string list) op" where
  "bound_secret_reference_ids i app =
     bindE (require_available i) (\<lambda>d.
     bindE (deployment_access i app) (\<lambda>a.
     ret (filter (\<lambda>j. j \<in> set (deploy_secret_reference_ids d))
       (case access_secret_reference_ids a of None \<Rightarrow> [] | Some is \<Rightarrow> is))))"

section \<open>Expiry\<close>

record 'z deployment_ports =
  dport_cancel :: "string \<Rightarrow> ('z svc_scheme, unit) op"
  dport_evict :: "string \<Rightarrow> ('z svc_scheme, unit) op"

text \<open>The unit of work that marks the deployment: \<open>None\<close> when it is marked already.\<close>

definition mark_expired :: "string \<Rightarrow> ('z svc_scheme, development_deployment \<times> bool) op" where
  "mark_expired i = atomically
     (bindE (reads (get_deployment i)) (\<lambda>d.
      if deploy_status d = Deploy_expired then ret (d, False)
      else bindE (save_to development_deployments_coll (d\<lparr>deploy_status := Deploy_expired\<rparr>)) (\<lambda>_.
        ret (d\<lparr>deploy_status := Deploy_expired\<rparr>, True))))"

definition expire_deployment :: "'z deployment_ports \<Rightarrow> string \<Rightarrow> ('z svc_scheme, development_deployment) op" where
  "expire_deployment ports i =
     bindE (mark_expired i) (\<lambda>(d, fresh).
     if \<not> fresh then ret d
     else bindE (dport_cancel ports i) (\<lambda>_.
       bindE (for_each (\<lambda>(app, sp). bindE (dport_evict ports sp) (\<lambda>_. purge_development app sp)) (deploy_data_space_ids d)) (\<lambda>_.
       ret d)))"

end
