(* ===== verification/Deployment_Laws.thy ===== *)
theory Deployment_Laws
  imports Development_Deployments
begin

text \<open>
  Laws of development deployments: what an available deployment guarantees, what a development call
  runs and where, that a new deployment is available, and what expiry leaves.
\<close>

section \<open>Available deployments\<close>

definition deployable :: "revision_status \<Rightarrow> bool" where
  "deployable st \<longleftrightarrow> st \<in> {Rev_draft, Rev_active}"

text \<open>The pins of a deployment are the stored candidates, unchanged since it was made.\<close>

definition pins_current :: "development_deployment \<Rightarrow> node_value graph \<Rightarrow> bool" where
  "pins_current d g \<longleftrightarrow>
     (\<exists>x. coll_get experience_revisions_coll (key (deploy_experience_revision_id d)) g = Some x \<and> deployable (exprev_status x)) \<and>
     (\<forall>(app, rid)\<in>set (deploy_application_revision_ids d).
        \<exists>r. coll_get revisions_coll (key rid) g = Some r \<and> deployable (rev_status r)) \<and>
     (\<exists>hs. current_hashes d g = Inr hs \<and> dict_eq hs (deploy_candidate_hashes d))"

lemma map_result_all: "map_result f xs = Inr ys \<Longrightarrow> x \<in> set xs \<Longrightarrow> \<exists>y. f x = Inr y"
  by (induction xs arbitrary: ys) (auto simp: rbind_eq_Inr)

lemma require_unchanged_Inr: "require_unchanged d g = Inr u \<longleftrightarrow> (\<exists>hs. current_hashes d g = Inr hs \<and> dict_eq hs (deploy_candidate_hashes d))"
  by (auto simp: require_unchanged_def rbind_eq_Inr)

lemma require_current_Inr:
  assumes "require_current_pins d g = Inr u"
  shows "\<exists>x. coll_get experience_revisions_coll (key (deploy_experience_revision_id d)) g = Some x \<and> deployable (exprev_status x)"
    and "(app, rid) \<in> set (deploy_application_revision_ids d) \<Longrightarrow>
      \<exists>r. coll_get revisions_coll (key rid) g = Some r \<and> deployable (rev_status r)"
proof -
  from assms show "\<exists>x. coll_get experience_revisions_coll (key (deploy_experience_revision_id d)) g = Some x \<and> deployable (exprev_status x)"
    by (auto simp: require_current_pins_def rbind_eq_Inr coll_item_Inr deployable_def split: if_split_asm)
  from assms obtain ys where "map_result (\<lambda>(_ :: string, rid). rbind (coll_item revisions_coll (key rid) g) (\<lambda>r.
      if rev_status r \<notin> {Rev_draft, Rev_active} then Inl superseded_candidate else Inr ()))
      (deploy_application_revision_ids d) = Inr ys"
    by (auto simp: require_current_pins_def rbind_eq_Inr split: if_split_asm)
  from map_result_all [OF this] show "\<exists>r. coll_get revisions_coll (key rid) g = Some r \<and> deployable (rev_status r)"
    if "(app, rid) \<in> set (deploy_application_revision_ids d)"
    using that by (force simp: rbind_eq_Inr coll_item_Inr deployable_def split: if_split_asm)
qed

lemma get_deployment_Inr: "get_deployment i g = Inr d \<longleftrightarrow> coll_get development_deployments_coll (key i) g = Some d"
  by (simp add: get_deployment_def split: option.split)

lemma require_available_Inr:
  assumes "require_available i s = (Inr d, t)"
  shows "coll_get development_deployments_coll (key i) (svc_graph s) = Some d" and "deploy_status d = Deploy_active"
    and "svc_clock s (svc_ticks s) < deploy_expires_at d" and "pins_current d (svc_graph s)"
    and "t = s\<lparr>svc_ticks := Suc (svc_ticks s)\<rparr>"
proof -
  have d: "get_deployment i (svc_graph s) = Inr d" using assms by (auto simp: require_available_def run_iffs)
  have a: "deploy_status d = Deploy_active" using assms d by (auto simp: require_available_def run_iffs split: if_split_asm)
  with assms d have e: "svc_clock s (svc_ticks s) < deploy_expires_at d" and u: "require_unchanged d (svc_graph s) = Inr ()"
    and p: "require_current_pins d (svc_graph s) = Inr ()" and t: "t = s\<lparr>svc_ticks := Suc (svc_ticks s)\<rparr>"
    by (auto simp: require_available_def run_iffs now_utc_apply)
  show "coll_get development_deployments_coll (key i) (svc_graph s) = Some d" using d by (simp add: get_deployment_Inr)
  show "deploy_status d = Deploy_active" by (rule a)
  show "svc_clock s (svc_ticks s) < deploy_expires_at d" by (rule e)
  show "pins_current d (svc_graph s)"
    using require_current_Inr [OF p] u unfolding pins_current_def require_unchanged_Inr by blast
  show "t = s\<lparr>svc_ticks := Suc (svc_ticks s)\<rparr>" by (rule t)
qed

lemma require_availableI:
  assumes "coll_get development_deployments_coll (key i) (svc_graph s) = Some d" and "deploy_status d = Deploy_active"
    and "svc_clock s (svc_ticks s) < deploy_expires_at d" and "require_unchanged d (svc_graph s) = Inr ()"
    and "require_current_pins d (svc_graph s) = Inr ()"
  shows "require_available i s = (Inr d, s\<lparr>svc_ticks := Suc (svc_ticks s)\<rparr>)"
  using assms by (simp add: require_available_def get_deployment_def op_defs)

lemma pins_current_passes:
  assumes "pins_current d g"
  shows "require_unchanged d g = Inr ()" and "require_current_pins d g = Inr ()"
proof -
  have "\<exists>ys. map_result (\<lambda>(_ :: string, rid). rbind (coll_item revisions_coll (key rid) g) (\<lambda>r.
      if rev_status r \<notin> {Rev_draft, Rev_active} then Inl superseded_candidate else Inr ())) pins = Inr ys"
    if "\<forall>(app, rid)\<in>set pins. \<exists>r. coll_get revisions_coll (key rid) g = Some r \<and> deployable (rev_status r)" for pins
    using that by (induction pins) (auto simp: coll_item_def deployable_def rbind_eq_Inr)
  with assms show "require_unchanged d g = Inr ()" "require_current_pins d g = Inr ()"
    unfolding pins_current_def by (fastforce simp: require_unchanged_def require_current_pins_def coll_item_def deployable_def)+
qed

section \<open>Development calls\<close>

lemma deployment_context_Inr:
  assumes "deployment_context i app c s = (Inr ctx, t)"
  obtains d rid sp where "require_available i s = (Inr d, s\<lparr>svc_ticks := Suc (svc_ticks s)\<rparr>)"
    and "dict_get (deploy_application_revision_ids d) app = Some rid" and "dict_get (deploy_data_space_ids d) app = Some sp"
    and "ctx_mode ctx = Ctx_development" and "ctx_deployment_id ctx = Some (deploy_id d)"
    and "ctx_experience_revision_id ctx = Some (deploy_experience_revision_id d)"
    and "ctx_application_revision_id ctx = rid" and "ctx_application_id ctx = app" and "ctx_data_space_id ctx = sp"
    and "svc_graph t = svc_graph s"
proof -
  from assms obtain d s1 where a: "require_available i s = (Inr d, s1)"
    and k: "(case (dict_get (deploy_application_revision_ids d) app, dict_get (deploy_data_space_ids d) app) of
        (Some rid, Some sp) \<Rightarrow>
          bindE (case c of None \<Rightarrow> new_uuid | Some c \<Rightarrow> if c = [] then new_uuid else ret c) (\<lambda>corr.
          ret \<lparr>ctx_mode = Ctx_development, ctx_deployment_id = Some (deploy_id d), ctx_correlation_id = corr,
               ctx_experience_revision_id = Some (deploy_experience_revision_id d), ctx_application_revision_id = rid,
               ctx_application_id = app, ctx_data_space_id = sp\<rparr>)
      | _ \<Rightarrow> raise (ValidationFailure (''Application is not bound to deployment: '' @ app))) s1 = (Inr ctx, t)"
    by (auto simp: deployment_context_def bindE_Inr_iff)
  have s1: "s1 = s\<lparr>svc_ticks := Suc (svc_ticks s)\<rparr>" by (rule require_available_Inr(5) [OF a])
  from k show thesis
    by (auto simp: raise_apply bindE_Inr_iff ret_Inr new_uuid_apply s1 split: option.split_asm if_split_asm
        intro!: that [OF a [unfolded s1]])
qed

lemma deployment_access_Inr:
  assumes "deployment_access i app s = (Inr a, t)"
  obtains d x where "require_available i s = (Inr d, s\<lparr>svc_ticks := Suc (svc_ticks s)\<rparr>)"
    and "coll_get experience_revisions_coll (key (deploy_experience_revision_id d)) (svc_graph s) = Some x"
    and "a \<in> set (exprev_application_access x)" and "access_application_id a = app" and "svc_graph t = svc_graph s"
proof -
  from assms obtain d s1 x where d: "require_available i s = (Inr d, s1)"
    and x: "coll_get experience_revisions_coll (key (deploy_experience_revision_id d)) (svc_graph s1) = Some x"
    and f: "(case find (\<lambda>a. access_application_id a = app) (exprev_application_access x) of
        None \<Rightarrow> raise (ValidationFailure (''Application is not declared by Experience: '' @ app)) | Some a \<Rightarrow> ret a) s1 = (Inr a, t)"
    by (auto simp: deployment_access_def run_iffs)
  have s1: "s1 = s\<lparr>svc_ticks := Suc (svc_ticks s)\<rparr>" by (rule require_available_Inr(5) [OF d])
  from f have "find (\<lambda>a. access_application_id a = app) (exprev_application_access x) = Some a" "t = s1"
    by (auto simp: raise_apply ret_Inr split: option.split_asm)
  with d x s1 show thesis by (intro that [of d x]) (auto dest: find_SomeD)
qed

text \<open>What a development call may run: an allowed Action of the Application in the pinned revision.\<close>

definition candidate_action :: "development_deployment \<Rightarrow> string \<Rightarrow> string \<Rightarrow> action_revision \<Rightarrow> node_value graph \<Rightarrow> bool" where
  "candidate_action d app aid r g \<longleftrightarrow>
     (\<exists>x a m rid. coll_get experience_revisions_coll (key (deploy_experience_revision_id d)) g = Some x \<and>
        a \<in> set (exprev_application_access x) \<and> access_application_id a = app \<and> allows (access_action_ids a) aid \<and>
        coll_get actions_coll (key aid) g = Some m \<and> act_application_id m = app \<and>
        dict_get (deploy_application_revision_ids d) app = Some rid \<and> bound_action_revision rid aid g = Inr r \<and>
        actrev_kind r \<noteq> Act_migration)"

lemma deployment_id_get:
  "typed_graph g \<Longrightarrow> coll_get development_deployments_coll (key i) g = Some d \<Longrightarrow> deploy_id d = i"
  using development_deployments.get_identity [of g "key i" d] by (simp add: development_deployments_coll_def)

lemma development_call_Inr:
  assumes t: "typed_graph (svc_graph s)" and c: "development_call i app aid s = (Inr (r, ctx), u)"
  obtains d sp where "coll_get development_deployments_coll (key i) (svc_graph s) = Some d" and "deploy_status d = Deploy_active"
    and "pins_current d (svc_graph s)" and "candidate_action d app aid r (svc_graph s)"
    and "dict_get (deploy_data_space_ids d) app = Some sp" and "ctx_mode ctx = Ctx_development"
    and "ctx_application_id ctx = app" and "ctx_data_space_id ctx = sp" and "ctx_deployment_id ctx = Some i"
    and "svc_graph u = svc_graph s"
proof -
  from c obtain s1 where ctx: "deployment_context i app None s = (Inr ctx, s1)"
    and rc: "resolve_candidate_action ctx aid s1 = (Inr r, u)"
    by (auto simp: development_call_def run_iffs)
  obtain d rid sp where d: "require_available i s = (Inr d, s\<lparr>svc_ticks := Suc (svc_ticks s)\<rparr>)"
    "dict_get (deploy_application_revision_ids d) app = Some rid" "dict_get (deploy_data_space_ids d) app = Some sp"
    "ctx_mode ctx = Ctx_development" "ctx_deployment_id ctx = Some (deploy_id d)"
    "ctx_experience_revision_id ctx = Some (deploy_experience_revision_id d)"
    "ctx_application_revision_id ctx = rid" "ctx_application_id ctx = app" "ctx_data_space_id ctx = sp"
    "svc_graph s1 = svc_graph s" by (rule deployment_context_Inr [OF ctx])
  note av = require_available_Inr [OF d(1)]
  have i: "deploy_id d = i" by (rule deployment_id_get [OF t av(1)])
  from rc d(5,7,8) i obtain a s2 m where a: "deployment_access i app s1 = (Inr a, s2)"
    and ok: "allows (access_action_ids a) aid" and m: "coll_get actions_coll (key aid) (svc_graph s2) = Some m" "act_application_id m = app"
    and rev: "bound_action_revision rid aid (svc_graph s2) = Inr r" "actrev_kind r \<noteq> Act_migration" and u: "u = s2"
    by (auto simp: resolve_candidate_action_def run_iffs asks_apply split: option.split_asm sum.split_asm exn.split_asm)
  obtain d' x where x: "require_available i s1 = (Inr d', s1\<lparr>svc_ticks := Suc (svc_ticks s1)\<rparr>)"
    "coll_get experience_revisions_coll (key (deploy_experience_revision_id d')) (svc_graph s1) = Some x"
    "a \<in> set (exprev_application_access x)" "access_application_id a = app" "svc_graph s2 = svc_graph s1"
    by (rule deployment_access_Inr [OF a])
  have "d' = d" using require_available_Inr(1) [OF x(1)] av(1) d(10) by simp
  with x d m rev ok have "candidate_action d app aid r (svc_graph s)" unfolding candidate_action_def by auto
  then show thesis using that [OF av(1,2,4)] d x(5) u i by simp
qed

section \<open>A new deployment\<close>

text \<open>The revisions, their trees and the declared secrets are as before.\<close>

definition candidate_labels :: "string set" where
  "candidate_labels = {''ApplicationRevision'', ''ExperienceRevision'', ''SystemRevision'', ''SourceTree''}"

definition same_candidates :: "node_value graph \<Rightarrow> node_value graph \<Rightarrow> bool" where
  "same_candidates g h \<longleftrightarrow> (\<forall>l\<in>candidate_labels. \<forall>i. get_node l i h = get_node l i g) \<and>
     (\<forall>l\<in>candidate_labels. \<forall>i. list_edges (Some (id_ref l i)) (Some ''HAS_SOURCE_TREE'') None h =
        list_edges (Some (id_ref l i)) (Some ''HAS_SOURCE_TREE'') None g)"

lemma same_candidates_refl: "same_candidates g g"
  by (simp add: same_candidates_def)

lemma same_candidates_upsert: "same_candidates g h \<Longrightarrow> l \<notin> candidate_labels \<Longrightarrow> same_candidates g (upsert_node l i v h)"
  by (auto simp: same_candidates_def graph_simps)

lemma same_candidates_save: "same_candidates g h \<Longrightarrow> coll_label c \<notin> candidate_labels \<Longrightarrow> same_candidates g (coll_save c m h)"
  by (simp add: coll_save_def same_candidates_upsert)

lemma same_candidates_edge: "same_candidates g h \<Longrightarrow> t \<noteq> ''HAS_SOURCE_TREE'' \<Longrightarrow> same_candidates g (create_edge f t to p h)"
  by (simp add: same_candidates_def graph_simps)

lemma same_candidates_relation:
  assumes "same_candidates g h" and "create_app_relation r h = (x, h')" shows "same_candidates g h'"
proof -
  have n: "nodes h' = nodes h"
    using assms(2) by (auto simp: create_app_relation_def Let_def split: option.splits)
  have "filter (matches_edge (Some (id_ref l i)) (Some ''HAS_SOURCE_TREE'') None) (edges h') =
      filter (matches_edge (Some (id_ref l i)) (Some ''HAS_SOURCE_TREE'') None) (edges h)" for l i
    using assms(2)
    by (auto simp: create_app_relation_def Let_def matches_edge_def new_edge_def object_ref_def id_ref_def same_edge_def
        split: option.splits intro!: filter_update_first_frame)
  with n assms(1) show ?thesis by (simp add: same_candidates_def get_node_def list_edges_def)
qed

lemma same_candidates_attach: "same_candidates g h \<Longrightarrow> same_candidates g (object_attach r v h)"
  by (simp add: object_attach_def Let_def same_candidates_edge split: option.split)

lemma same_candidates_get:
  assumes "same_candidates g h"
  shows "coll_get revisions_coll k h = coll_get revisions_coll k g"
    and "coll_get experience_revisions_coll k h = coll_get experience_revisions_coll k g"
    and "tree rid h = tree rid g"
proof -
  have n: "get_node l i h = get_node l i g" if "l \<in> candidate_labels" for l i using assms that by (simp add: same_candidates_def)
  show "coll_get revisions_coll k h = coll_get revisions_coll k g"
    "coll_get experience_revisions_coll k h = coll_get experience_revisions_coll k g"
    by (simp_all add: coll_get_def revisions_coll_def experience_revisions_coll_def n candidate_labels_def)
  have "resolve rid h = resolve rid g" by (simp add: resolve_def revision_labels_def n candidate_labels_def)
  moreover have "coll_item source_trees_coll k h = coll_item source_trees_coll k g" for k
    by (simp add: coll_item_def coll_get_def source_trees_coll_def n candidate_labels_def)
  moreover have "l \<in> candidate_labels" if "resolve rid g = Inr l" for l
    using resolve_label [OF that] by (auto simp: revision_labels_def candidate_labels_def)
  ultimately show "tree rid h = tree rid g"
    using assms by (cases "resolve rid g") (simp_all add: tree_def same_candidates_def Let_def split: list.split)
qed

lemma keeps_create_development: "graph_keeps (same_candidates g) (create_development app x e)"
proof -
  have "graph_keeps (same_candidates g) (save_to data_spaces_coll d)" for d
    by (intro graph_keeps_writes same_candidates_save) (simp_all add: data_spaces_coll_def candidate_labels_def)
  moreover have "graph_keeps (same_candidates g) (link f ''HAS_DATA_SPACE'' to)" for f to
    by (intro graph_keeps_writes same_candidates_edge) simp_all
  ultimately show ?thesis
    unfolding create_development_def Let_def
    by (intro graph_keeps_atomically graph_keeps_bindE graph_keeps_pure) (auto intro: graph_keeps_pure split: option.split)
qed

lemma keeps_runner: "reads_only cypher \<Longrightarrow> graph_keeps P (cypher q p)"
  unfolding graph_keeps_def op_keeps_def reads_only_def by (metis prod.collapse)

lemma keeps_selection: "reads_only cypher \<Longrightarrow> graph_keeps P (select_production_objects cypher app spec)"
  unfolding select_production_objects_def Let_def
  by (intro graph_keeps_bindE graph_keeps_pure) (auto intro!: graph_keeps_bindE graph_keeps_pure keeps_runner split: option.split)

lemma keeps_clone: "reads_only cypher \<Longrightarrow> graph_keeps (same_candidates g) (clone_from_production cypher app target spec)"
proof -
  assume c: "reads_only cypher"
  have "graph_keeps (same_candidates g) (writes (object_save r))" for r
    unfolding object_save_def
    by (intro graph_keeps_writes same_candidates_save) (simp_all add: objects_coll_def candidate_labels_def)
  moreover have "graph_keeps (same_candidates g) (writes (object_attach r v))" for r v
    by (intro graph_keeps_writes same_candidates_attach)
  moreover have "graph_keeps (same_candidates g) (store_op (relation_save r))" for r
    unfolding relation_save_def by (rule graph_keeps_store_op) (rule same_candidates_relation)
  ultimately show ?thesis
    unfolding clone_from_production_def
    by (intro graph_keeps_atomically graph_keeps_bindE graph_keeps_pure graph_keeps_for_each keeps_selection [OF c])
qed

lemma keeps_create_spaces: "graph_keeps (same_candidates g) (create_spaces i e apps)"
  unfolding create_spaces_def
  by (intro graph_keeps_bindE graph_keeps_map_op keeps_create_development graph_keeps_pure)

lemma keeps_clone_spaces: "reads_only cypher \<Longrightarrow> graph_keeps (same_candidates g) (clone_spaces cypher specs spaces apps)"
  unfolding clone_spaces_def
  by (intro graph_keeps_bindE graph_keeps_for_each keeps_clone graph_keeps_pure)

lemma created_spaces:
  "create_spaces i e apps s = (Inr spaces, t) \<Longrightarrow> i \<noteq> [] \<Longrightarrow> spaces = map (\<lambda>app. (app, i)) apps"
proof -
  have "map_op (\<lambda>app. bindE (create_development app (Some i) (Some e)) (\<lambda>d. ret (app, space_id d))) apps s = (Inr spaces, t) \<Longrightarrow>
      i \<noteq> [] \<Longrightarrow> spaces = map (\<lambda>app. (app, i)) apps" for s t spaces
  proof (induction apps arbitrary: s spaces)
    case (Cons app apps)
    from Cons.prems(1) obtain d s1 ys where d: "create_development app (Some i) (Some e) s = (Inr d, s1)"
      and ys: "map_op (\<lambda>app. bindE (create_development app (Some i) (Some e)) (\<lambda>d. ret (app, space_id d))) apps s1 = (Inr ys, t)"
      and sp: "spaces = (app, space_id d) # ys"
      by (auto simp: bindE_Inr_iff ret_Inr)
    from d Cons.prems(2) have "space_id d = i" by (auto simp: create_development_def atomically_Inr run_iffs Let_def)
    with Cons.IH [OF ys Cons.prems(2)] sp show ?case by simp
  qed (simp add: ret_Inr)
  then show "create_spaces i e apps s = (Inr spaces, t) \<Longrightarrow> i \<noteq> [] \<Longrightarrow> spaces = map (\<lambda>app. (app, i)) apps"
    by (auto simp: create_spaces_def bindE_Inr_iff ret_Inr)
qed

text \<open>The record that is saved stays while the edges are added.\<close>

lemma link_deployment_graph:
  assumes "link_deployment d pins s = (Inr (), t)"
  shows "same_candidates (svc_graph s) (svc_graph t)"
    and "coll_get development_deployments_coll k (svc_graph t) = coll_get development_deployments_coll k (svc_graph s)"
proof -
  have l: "graph_keeps P (link f t to)" if "\<And>g. P g \<Longrightarrow> P (create_edge f t to [] g)" for P f t to
    by (rule graph_keeps_writes) (rule that)
  have k: "graph_keeps P (link_deployment d pins)" if "\<And>f t to g. t \<noteq> ''HAS_SOURCE_TREE'' \<Longrightarrow> P g \<Longrightarrow> P (create_edge f t to [] g)" for P
    unfolding link_deployment_def Let_def
    by (intro graph_keeps_bindE graph_keeps_for_each l that; (simp split: prod.split)?; (intro allI impI graph_keeps_bindE l that)?; simp?)
  show "same_candidates (svc_graph s) (svc_graph t)"
    by (rule graph_keepsD [OF k assms]) (simp_all add: same_candidates_edge same_candidates_refl)
  show "coll_get development_deployments_coll k (svc_graph t) = coll_get development_deployments_coll k (svc_graph s)"
    by (rule graph_keepsD [of "\<lambda>g. coll_get development_deployments_coll k g = coll_get development_deployments_coll k (svc_graph s)", OF k assms])
      (simp_all add: coll_get_def graph_simps)
qed

lemma map_candidates:
  "map_result (\<lambda>pin. candidate_of pin g) pins = Inr cs \<Longrightarrow>
     map_result (\<lambda>(app, rid). rbind (coll_item revisions_coll (key rid) g) (\<lambda>r.
         rbind (tree (rev_id r) g) (\<lambda>t. Inr (application_hash_key app, tree_tree_hash t)))) pins = Inr (map snd cs) \<and>
     (\<exists>ys. map_result (\<lambda>(_, rid). rbind (coll_item revisions_coll (key rid) g) (\<lambda>r.
         if rev_status r \<notin> {Rev_draft, Rev_active} then Inl superseded_candidate else Inr ())) pins = Inr ys) \<and>
     map (\<lambda>c. fst (fst c)) cs = map fst pins"
proof (induction pins arbitrary: cs)
  case (Cons pin pins)
  then show ?case
    by (cases pin) (auto simp: rbind_eq_Inr candidate_of_def split: if_split_asm)
qed simp

lemma same_hashes:
  assumes "same_candidates g h"
  shows "current_hashes d h = current_hashes d g" and "require_current_pins d h = require_current_pins d g"
  using same_candidates_get [OF assms]
  by (simp_all add: current_hashes_def require_current_pins_def experience_hash_def coll_item_def cong: if_cong)

lemma create_deployment_Inr:
  assumes run: "create_deployment cypher xrid pins ttl init specs s = (Inr d, t)" and c: "reads_only cypher"
    and ok: "typed_graph (svc_graph s)"
  shows "deploy_experience_revision_id d = xrid" and "deploy_application_revision_ids d = pins" and "deploy_status d = Deploy_active"
    and "\<exists>now. deploy_expires_at d = now + ttl * 1000000" and "1 \<le> ttl"
    and "coll_get development_deployments_coll (key (deploy_id d)) (svc_graph t) = Some d"
    and "require_unchanged d (svc_graph t) = Inr ()" and "require_current_pins d (svc_graph t) = Inr ()"
    and "deploy_id d \<noteq> [] \<Longrightarrow> deploy_data_space_ids d = map (\<lambda>app. (app, deploy_id d)) (sort (map fst pins))"
proof -
  from run obtain x xh cs i now spaces s1 s2 s3 secrets made s4 where
    x: "coll_get experience_revisions_coll (key xrid) (svc_graph s) = Some x" "exprev_status x = Rev_draft" "1 \<le> ttl"
    and xh: "experience_hash (exprev_id x) (svc_graph s) = Inr xh"
    and cs: "map_result (\<lambda>pin. candidate_of pin (svc_graph s)) pins = Inr cs"
    and s1: "svc_graph s1 = svc_graph s"
    and sp: "create_spaces i (now + ttl * 1000000) (sort (map (\<lambda>c. fst (fst c)) cs)) s1 = (Inr spaces, s2)"
    and cl: "init = ''clone'' \<longrightarrow> clone_spaces cypher specs spaces (sort (map (\<lambda>c. fst (fst c)) cs)) s2 = (Inr (), s3)"
      "init \<noteq> ''clone'' \<longrightarrow> s3 = s2"
    and s4: "svc_graph s4 = coll_save development_deployments_coll d (svc_graph s3)"
    and d: "d = \<lparr>deploy_id = i, deploy_experience_revision_id = xrid, deploy_application_revision_ids = pins,
             deploy_data_space_ids = spaces, deploy_candidate_hashes = xh # map snd cs,
             deploy_secret_reference_ids = secrets, deploy_status = Deploy_active, deploy_created_at = made,
             deploy_expires_at = now + ttl * 1000000\<rparr>"
    and ln: "link_deployment d (map fst cs) s4 = (Inr (), t)"
    unfolding create_deployment_def atomically_Inr Let_def
    by (clarsimp simp: run_iffs now_utc_apply new_uuid_apply) (cases "init = ''clone''"; clarsimp simp: run_iffs; rule that; (assumption | simp)?)
  have "graph_keeps (same_candidates (svc_graph s)) (create_spaces i (now + ttl * 1000000) (sort (map (\<lambda>c. fst (fst c)) cs)) :: ('a svc_scheme, _) op)"
    by (rule keeps_create_spaces)
  from graph_keepsD [OF this sp] s1 have "same_candidates (svc_graph s) (svc_graph s2)" by (simp add: same_candidates_refl)
  then have "same_candidates (svc_graph s) (svc_graph s3)"
    using cl graph_keepsD [OF keeps_clone_spaces [OF c]] by (cases "init = ''clone''") blast+
  then have "same_candidates (svc_graph s) (svc_graph s4)"
    unfolding s4 by (rule same_candidates_save) (simp add: development_deployments_coll_def candidate_labels_def)
  with link_deployment_graph(1) [OF ln] have same: "same_candidates (svc_graph s) (svc_graph t)"
    by (simp add: same_candidates_def)
  have xid: "exprev_id x = xrid"
    using experience_revisions.get_identity [OF ok x(1)] by (simp add: experience_revisions_coll_def)
  note cand = map_candidates [OF cs]
  have "current_hashes d (svc_graph s) = Inr (deploy_candidate_hashes d)"
    using x(1) xh cand by (simp add: current_hashes_def d coll_item_def xid)
  then show "require_unchanged d (svc_graph t) = Inr ()"
    by (simp add: require_unchanged_def same_hashes [OF same] dict_eq_def list_all_iff)
  have "require_current_pins d (svc_graph s) = Inr ()"
    using x(1,2) cand by (auto simp: require_current_pins_def d coll_item_def)
  then show "require_current_pins d (svc_graph t) = Inr ()" by (simp add: same_hashes [OF same])
  show "coll_get development_deployments_coll (key (deploy_id d)) (svc_graph t) = Some d"
    by (simp add: link_deployment_graph(2) [OF ln] s4 development_deployments.get_save) (simp add: development_deployments_coll_def)
  show "deploy_experience_revision_id d = xrid" "deploy_application_revision_ids d = pins" "deploy_status d = Deploy_active"
    "\<exists>now. deploy_expires_at d = now + ttl * 1000000" "1 \<le> ttl" using d x(3) by auto
  show "deploy_data_space_ids d = map (\<lambda>app. (app, deploy_id d)) (sort (map fst pins))" if "deploy_id d \<noteq> []"
    using created_spaces [OF sp] that cand by (simp add: d)
qed

section \<open>Expiry\<close>

lemma wf_relation_delete: "wf_graph g \<Longrightarrow> wf_graph (relation_delete r g)"
  by (simp add: wf_graph_def relation_delete_def delete_app_relation_def file_edges_def dict_simps distinct_map_filter_comm
      del: filter_filter)

lemma purged_invariant:
  assumes "P g" and "\<And>r g. P g \<Longrightarrow> P (relation_delete r g)"
    and "\<And>l k g. l \<in> {''ApplicationObject'', ''DataSpace''} \<Longrightarrow> P g \<Longrightarrow> P (delete_node l k g)"
  shows "P (purged app i g)"
  unfolding purged_def Let_def coll_delete_def object_delete_def
  by (rule assms(3), simp add: data_spaces_coll_def)
    (rule fold_invariant [where Q = "\<lambda>_. True"], simp, rule fold_invariant [where Q = "\<lambda>_. True"];
      simp add: assms objects_coll_def)

lemma purged_keeps:
  assumes "data_ok g" and "relations_stand g"
  shows "data_ok (purged app i g)" and "relations_stand (purged app i g)"
proof -
  have sub: "set (app_relations (purged app i g)) \<subseteq> set (app_relations g)"
    by (rule purged_invariant) (auto simp: relation_delete_def delete_app_relation_def AList.delete_eq delete_node_def Let_def)
  have "typed_graph (purged app i g) \<and> wf_graph (purged app i g)"
    by (rule purged_invariant)
      (use assms in \<open>auto simp: data_ok_def typed_delete_node wf_delete_node wf_relation_delete,
        simp add: typed_graph_def relation_delete_def delete_app_relation_def\<close>)
  with sub assms(1) show ok: "data_ok (purged app i g)" by (auto simp: data_ok_def keyed_relations_def list_all_iff)
  show "relations_stand (purged app i g)"
    unfolding relations_stand_def
  proof
    fix kr assume kr: "kr \<in> set (app_relations (purged app i g))"
    with sub assms(2) have st: "stands kr g" by (auto simp: relations_stand_def)
    obtain a sp j where k: "fst kr = (a, sp, j)" by (cases kr) auto
    have "relation_get a j sp (purged app i g) \<noteq> None"
      using kr k ok by (auto simp: relation_get_def get_app_relation_def map_of_eq_None_iff image_iff intro!: bexI [of _ kr])
    then have "\<not> (a = app \<and> sp = i)" using purged_relations [OF assms, of a j sp app i] by auto
    moreover have "(rel_application_id (snd kr), rel_data_space_id (snd kr)) = (a, sp)"
      using st k by (auto simp: stands_def rel_key_of_def)
    ultimately show "stands kr (purged app i g)" by (intro stands_purged [OF st]) simp
  qed
qed

lemma purged_nodes:
  "l \<noteq> ''ApplicationObject'' \<Longrightarrow> l \<noteq> ''DataSpace'' \<Longrightarrow> get_node l k (purged app i g) = get_node l k g"
  by (rule purged_invariant [of "\<lambda>h. get_node l k h = get_node l k g"])
    (auto simp: get_node_def relation_delete_def delete_app_relation_def delete_node_def Let_def dict_simps)

text \<open>The spaces of a deployment are purged one after the other.\<close>

definition purged_all :: "(string \<times> string) list \<Rightarrow> node_value graph \<Rightarrow> node_value graph" where
  "purged_all spaces g = fold (\<lambda>(app, sp). purged app sp) spaces g"

lemma purged_all_simps [simp]:
  "purged_all [] g = g" "purged_all ((app, sp) # ps) g = purged_all ps (purged app sp g)"
  by (simp_all add: purged_all_def)

lemma purged_all_get:
  assumes "data_ok g" and "relations_stand g"
  shows "object_get a j sp (purged_all ps g) = (if (a, sp) \<in> set ps then None else object_get a j sp g)"
    and "relation_get a j sp (purged_all ps g) = (if (a, sp) \<in> set ps then None else relation_get a j sp g)"
    and "coll_get data_spaces_coll k (purged_all ps g) =
      (if k \<in> (\<lambda>(a, sp). space_key a sp) ` set ps then None else coll_get data_spaces_coll k g)"
    and "l \<noteq> ''ApplicationObject'' \<Longrightarrow> l \<noteq> ''DataSpace'' \<Longrightarrow> get_node l k (purged_all ps g) = get_node l k g"
proof -
  have "(object_get a j sp (purged_all ps g) = (if (a, sp) \<in> set ps then None else object_get a j sp g)) \<and>
    (relation_get a j sp (purged_all ps g) = (if (a, sp) \<in> set ps then None else relation_get a j sp g)) \<and>
    (coll_get data_spaces_coll k (purged_all ps g) =
      (if k \<in> (\<lambda>(a, sp). space_key a sp) ` set ps then None else coll_get data_spaces_coll k g)) \<and>
    (l \<noteq> ''ApplicationObject'' \<longrightarrow> l \<noteq> ''DataSpace'' \<longrightarrow> get_node l k (purged_all ps g) = get_node l k g)"
    using assms
  proof (induction ps arbitrary: g)
    case (Cons p ps)
    obtain app i where p: "p = (app, i)" by (cases p)
    from Cons.IH [OF purged_keeps [OF Cons.prems]] show ?case
      by (auto simp: p purged_objects [OF Cons.prems(1)] purged_relations [OF Cons.prems] purged_spaces purged_nodes)
  qed simp
  then show "object_get a j sp (purged_all ps g) = (if (a, sp) \<in> set ps then None else object_get a j sp g)"
    and "relation_get a j sp (purged_all ps g) = (if (a, sp) \<in> set ps then None else relation_get a j sp g)"
    and "coll_get data_spaces_coll k (purged_all ps g) =
      (if k \<in> (\<lambda>(a, sp). space_key a sp) ` set ps then None else coll_get data_spaces_coll k g)"
    and "l \<noteq> ''ApplicationObject'' \<Longrightarrow> l \<noteq> ''DataSpace'' \<Longrightarrow> get_node l k (purged_all ps g) = get_node l k g"
    by blast+
qed

text \<open>Cancelling and evicting return, and leave the graph alone.\<close>

definition harmless_ports :: "'z deployment_ports \<Rightarrow> bool" where
  "harmless_ports ports \<longleftrightarrow>
     (\<forall>i s. \<exists>u. dport_cancel ports i s = (Inr (), u) \<and> svc_graph u = svc_graph s) \<and>
     (\<forall>sp s. \<exists>u. dport_evict ports sp s = (Inr (), u) \<and> svc_graph u = svc_graph s)"

definition has_spaces :: "(string \<times> string) list \<Rightarrow> node_value graph \<Rightarrow> bool" where
  "has_spaces ps g \<longleftrightarrow> distinct (map (\<lambda>(app, sp). space_key app sp) ps) \<and>
     (\<forall>(app, sp)\<in>set ps. \<exists>d. coll_get data_spaces_coll (space_key app sp) g = Some d \<and> space_kind d = Space_development)"

lemma purge_spaces_outcome:
  assumes "harmless_ports ports" and "has_spaces ps (svc_graph s)"
  shows "\<exists>t. for_each (\<lambda>(app, sp). bindE (dport_evict ports sp) (\<lambda>_. purge_development app sp)) ps s = (Inr (), t) \<and>
    svc_graph t = purged_all ps (svc_graph s)"
  using assms(2)
proof (induction ps arbitrary: s)
  case (Cons p ps)
  obtain app sp where p: "p = (app, sp)" by (cases p)
  from assms(1) obtain u where u: "dport_evict ports sp s = (Inr (), u)" "svc_graph u = svc_graph s"
    unfolding harmless_ports_def by blast
  from Cons.prems obtain d where d: "coll_get data_spaces_coll (space_key app sp) (svc_graph u) = Some d"
    "space_kind d = Space_development" by (auto simp: has_spaces_def p u(2))
  have "has_spaces ps (purged app sp (svc_graph s))"
    using Cons.prems by (fastforce simp: has_spaces_def p purged_spaces image_iff)
  then show ?case
    using Cons.IH [of "u\<lparr>svc_graph := purged app sp (svc_graph u)\<rparr>"]
    by (simp add: p u bindE_apply purge_outcome [OF d])
qed (simp add: ret_def)

lemma expire_outcome:
  assumes "harmless_ports ports" and "coll_get development_deployments_coll (key i) (svc_graph s) = Some d"
    and "deploy_id d = i" and "deploy_status d \<noteq> Deploy_expired" and "has_spaces (deploy_data_space_ids d) (svc_graph s)"
  shows "\<exists>t. expire_deployment ports i s = (Inr (d\<lparr>deploy_status := Deploy_expired\<rparr>), t) \<and>
    svc_graph t = purged_all (deploy_data_space_ids d)
      (coll_save development_deployments_coll (d\<lparr>deploy_status := Deploy_expired\<rparr>) (svc_graph s))"
proof -
  let ?d = "d\<lparr>deploy_status := Deploy_expired\<rparr>"
  let ?s = "s\<lparr>svc_graph := coll_save development_deployments_coll ?d (svc_graph s)\<rparr>"
  have m: "mark_expired i s = (Inr (?d, True), ?s)"
    using assms(2,4) by (simp add: mark_expired_def atomically_apply get_deployment_def op_defs)
  from assms(1) obtain u where u: "dport_cancel ports i ?s = (Inr (), u)" "svc_graph u = svc_graph ?s"
    unfolding harmless_ports_def by blast
  have "has_spaces (deploy_data_space_ids d) (svc_graph u)"
    using assms(5) by (simp add: u(2) has_spaces_def coll_get_def coll_save_def graph_simps data_spaces_coll_def
        development_deployments_coll_def)
  from purge_spaces_outcome [OF assms(1) this] show ?thesis
    by (auto simp: expire_deployment_def bindE_apply m u ret_def)
qed

end
