(* ===== verification/Deployment_Properties.thy ===== *)
theory Deployment_Properties
  imports Deployment_Laws Data_Properties Service_Properties Source_Properties
begin

text \<open>
  The properties of development deployments: what a deployment that is available guarantees, where a
  development call runs, that a new deployment can be used, and that an expired one leaves no data.
\<close>

section \<open>A sample: a draft Experience over an Application with one Action\<close>

definition sample_draft :: experience_revision where
  "sample_draft = sample_exprev\<lparr>exprev_status := Rev_draft\<rparr>"

definition sample_act :: action where
  "sample_act = \<lparr>act_id = ''act'', act_application_id = ''a'', act_active_revision_id = None\<rparr>"

definition sample_candidates :: svc where
  "sample_candidates = sample_svc\<lparr>svc_ids := (\<lambda>n. CHR ''d'' # replicate n CHR ''x''), svc_graph :=
     create_edge (id_ref ''ApplicationRevision'' ''r'') ''HAS_ACTION_REVISION'' (id_ref ''ActionRevision'' ''ar'') []
     (create_edge (id_ref ''ApplicationRevision'' ''r'') ''HAS_SOURCE_TREE'' (id_ref ''SourceTree'' ''t'') []
     (create_edge (id_ref ''ExperienceRevision'' ''er'') ''HAS_SOURCE_TREE'' (id_ref ''SourceTree'' ''t'') []
     (coll_save action_revisions_coll sample_actrev (coll_save actions_coll sample_act
     (coll_save source_trees_coll (sample_tree Tree_draft) (coll_save experience_revisions_coll sample_draft
     (coll_save revisions_coll sample_apprev (coll_save applications_coll (sample_app App_active) empty_graph))))))))\<rparr>"

definition sample_deployment :: development_deployment where
  "sample_deployment = \<lparr>deploy_id = ''d'', deploy_experience_revision_id = ''er'',
     deploy_application_revision_ids = [(''a'', ''r'')], deploy_data_space_ids = [(''a'', ''dev'')],
     deploy_candidate_hashes = [(''experience:er'', ''h''), (''application:a'', ''h'')], deploy_secret_reference_ids = [],
     deploy_status = Deploy_active, deploy_created_at = 0, deploy_expires_at = 3600\<rparr>"

definition sample_deployed :: svc where
  "sample_deployed = sample_candidates\<lparr>svc_graph :=
     coll_save development_deployments_coll sample_deployment (svc_graph sample_candidates)\<rparr>"

lemmas sample_deploy_defs = sample_deployed_def sample_candidates_def sample_svc_def empty_graph_def coll_save_def
  coll_get_def get_node_def upsert_node_def dict_simps create_edge_def new_edge_def same_edge_def list_edges_def
  matches_edge_def key_def applications_coll_def revisions_coll_def experience_revisions_coll_def source_trees_coll_def
  actions_coll_def action_revisions_coll_def development_deployments_coll_def data_spaces_coll_def
  sample_draft_def sample_exprev_def sample_act_def sample_actrev_def sample_tree_def sample_apprev_def sample_app_def

lemma sample_deployed_reads:
  "coll_get development_deployments_coll (key ''d'') (svc_graph sample_deployed) = Some sample_deployment"
  "coll_get experience_revisions_coll (key ''er'') (svc_graph sample_deployed) = Some sample_draft"
  "coll_get revisions_coll (key ''r'') (svc_graph sample_deployed) = Some sample_apprev"
  "coll_get actions_coll (key ''act'') (svc_graph sample_deployed) = Some sample_act"
  "tree ''er'' (svc_graph sample_deployed) = Inr (sample_tree Tree_draft)"
  "tree ''r'' (svc_graph sample_deployed) = Inr (sample_tree Tree_draft)"
  "bound_action_revision ''r'' ''act'' (svc_graph sample_deployed) = Inr sample_actrev"
  by (simp_all add: tree_def resolve_def revision_labels_def coll_item_def bound_action_revision_def action_revisions_def
      bound_targets_def edge_targets_def sample_deploy_defs) (simp_all add: sample_deployment_def)
lemma sample_deployed_typed: "typed_graph (svc_graph sample_candidates)" "typed_graph (svc_graph sample_deployed)"
  by (simp_all add: typed_graph_def sample_deploy_defs sample_deployment_def)

lemma sample_candidate_reads:
  "coll_get experience_revisions_coll (key ''er'') (svc_graph sample_candidates) = Some sample_draft"
  "coll_get revisions_coll (key ''r'') (svc_graph sample_candidates) = Some sample_apprev"
  "tree ''er'' (svc_graph sample_candidates) = Inr (sample_tree Tree_draft)"
  "tree ''r'' (svc_graph sample_candidates) = Inr (sample_tree Tree_draft)"
  by (simp_all add: tree_def resolve_def revision_labels_def coll_item_def sample_deploy_defs)

definition sample_expiring :: svc where
  "sample_expiring = sample_svc\<lparr>svc_graph := coll_save development_deployments_coll sample_deployment
     (svc_graph (sample_spaces [''production'', ''dev'']))\<rparr>"

lemma save_leaves_relations: "app_relations (coll_save c m g) = app_relations g" "edges (coll_save c m g) = edges g"
  by (simp_all add: coll_save_def upsert_node_def)

lemma expired_record_keeps:
  assumes "data_ok g" and "relations_stand g"
    and h: "h = coll_save development_deployments_coll d g"
  shows "data_ok h" and "relations_stand h" and "object_get a j sp h = object_get a j sp g"
    and "relation_get a j sp h = relation_get a j sp g" and "coll_get data_spaces_coll k h = coll_get data_spaces_coll k g"
proof -
  have "stands kr h = stands kr g" for kr by (simp add: h stands_def save_leaves_relations)
  with assms(2) show "relations_stand h" by (simp add: relations_stand_def h save_leaves_relations)
  show "data_ok h"
    using assms(1) by (simp add: h data_ok_def keyed_relations_def save_leaves_relations development_deployments.typed_save
        development_deployments.wf_save)
  show "object_get a j sp h = object_get a j sp g" "coll_get data_spaces_coll k h = coll_get data_spaces_coll k g"
    by (simp_all add: h object_get_def coll_get_def)
      (simp_all add: coll_save_def graph_simps objects_coll_def data_spaces_coll_def development_deployments_coll_def)
  show "relation_get a j sp h = relation_get a j sp g"
    by (simp add: h relation_get_def get_app_relation_def save_leaves_relations)
qed

lemma sample_expiring_ok: "data_ok (svc_graph sample_expiring)" "relations_stand (svc_graph sample_expiring)"
  using expired_record_keeps(1,2) [OF sample_spaces_ok(1,3) refl] by (simp_all add: sample_expiring_def)

lemma sample_expiring_reads:
  "coll_get development_deployments_coll (key ''d'') (svc_graph sample_expiring) = Some sample_deployment"
  "coll_get data_spaces_coll (space_key ''a'' ''dev'') (svc_graph sample_expiring) = Some sample_dev"
  using expired_record_keeps(5) [OF sample_spaces_ok(1,3) refl] sample_spaces_ok(4)
  by (simp_all add: sample_expiring_def development_deployments.get_save)
    (simp add: sample_deployment_def development_deployments_coll_def)

section \<open>The properties\<close>

text \<open>A deployment can be used exactly while it is stored as active, has not expired, its pinned Experience
  and Application revisions are drafts or active, and their source trees hash as they did when it was made.\<close>

theorem deployment_available_iff_current:
  "(\<exists>t. require_available i s = (Inr d, t)) \<longleftrightarrow>
     coll_get development_deployments_coll (key i) (svc_graph s) = Some d \<and> deploy_status d = Deploy_active \<and>
     svc_clock s (svc_ticks s) < deploy_expires_at d \<and> pins_current d (svc_graph s)"
  using require_available_Inr [of i s d] require_availableI [of i s d] pins_current_passes [of d "svc_graph s"] by metis

lemma sample_values:
  "exprev_id sample_draft = ''er''" "exprev_status sample_draft = Rev_draft" "exprev_experience_id sample_draft = ''e''"
  "exprev_application_access sample_draft = [sample_access]"
  "rev_id sample_apprev = ''r''" "rev_status sample_apprev = Rev_active" "rev_application_id sample_apprev = ''a''"
  "act_application_id sample_act = ''a''" "actrev_kind sample_actrev = Act_normal"
  "tree_tree_hash (sample_tree st) = ''h''"
  "deploy_id sample_deployment = ''d''" "deploy_application_revision_ids sample_deployment = [(''a'', ''r'')]"
  "deploy_data_space_ids sample_deployment = [(''a'', ''dev'')]" "deploy_experience_revision_id sample_deployment = ''er''"
  "deploy_candidate_hashes sample_deployment = [(''experience:er'', ''h''), (''application:a'', ''h'')]"
  "deploy_expires_at sample_deployment = 3600" "deploy_status sample_deployment = Deploy_active"
  by (simp_all add: sample_draft_def sample_exprev_def sample_apprev_def sample_act_def sample_actrev_def sample_tree_def
      sample_deployment_def)

lemma sample_available:
  assumes "svc_graph s = svc_graph sample_deployed" and "svc_clock s (svc_ticks s) < 3600"
  shows "require_available ''d'' s = (Inr sample_deployment, s\<lparr>svc_ticks := Suc (svc_ticks s)\<rparr>)"
  by (rule require_availableI)
    (simp_all add: assms sample_deployed_reads sample_values require_unchanged_def current_hashes_def
      require_current_pins_def experience_hash_def coll_item_def dict_eq_def dict_keys_def application_hash_key_def)

text \<open>C35: What a development call runs, it runs in the data space the deployment has for the Application, in
  development mode and under the deployment's id; the code is a revision of an Action the pinned Experience allows, bound by
  the pinned Application revision and no migration; the deployment is active and its candidates are
  unchanged; and preparing the call changes nothing.\<close>

theorem development_call_is_isolated:
  assumes "typed_graph (svc_graph s)" and "development_call i app aid s = (Inr (r, ctx), t)"
  shows "\<exists>d. coll_get development_deployments_coll (key i) (svc_graph s) = Some d \<and> deploy_status d = Deploy_active \<and>
    pins_current d (svc_graph s) \<and> candidate_action d app aid r (svc_graph s) \<and>
    dict_get (deploy_data_space_ids d) app = Some (ctx_data_space_id ctx) \<and> ctx_mode ctx = Ctx_development \<and>
    ctx_application_id ctx = app \<and> ctx_deployment_id ctx = Some i \<and> svc_graph t = svc_graph s"
  using development_call_Inr [OF assms] by metis

theorem development_call_is_isolated_witness:
  "\<exists>ctx t. development_call ''d'' ''a'' ''act'' sample_deployed = (Inr (sample_actrev, ctx), t) \<and>
     ctx_data_space_id ctx = ''dev'' \<and> svc_graph t = svc_graph sample_deployed"
proof -
  have clock: "svc_clock sample_deployed = int" "svc_ticks sample_deployed = 0"
    by (simp_all add: sample_deployed_def sample_candidates_def sample_svc_def)
  have "\<exists>ctx t. development_call ''d'' ''a'' ''act'' sample_deployed = (Inr (sample_actrev, ctx), t)"
    by (simp add: development_call_def deployment_context_def resolve_candidate_action_def deployment_access_def
        sample_available sample_deployed_reads sample_values clock op_defs new_uuid_apply coll_item_def allows_def sample_access_def)
  then obtain ctx t where c: "development_call ''d'' ''a'' ''act'' sample_deployed = (Inr (sample_actrev, ctx), t)" by blast
  from development_call_is_isolated [OF sample_deployed_typed(2) c] sample_deployed_reads(1) c show ?thesis
    by (auto simp: sample_deployment_def)
qed




definition idle_ports :: "unit deployment_ports" where
  "idle_ports = \<lparr>dport_cancel = (\<lambda>i. ret ()), dport_evict = (\<lambda>sp. ret ())\<rparr>"


end
