(* ===== verification/Cypher_Gateway.thy ===== *)
theory Cypher_Gateway
  imports Data_Spaces Unit_Of_Work
begin

text \<open>
  The Cypher gateway of \<^verbatim>\<open>runtime/cypher_gateway.py\<close>: what a child process asks over its connection is
  answered in a state \<open>world\<close> (the graph, the transaction and the unit of work of the connection).
  Sockets, framing and threads are not modelled: a connection is the list of its requests, each with
  the context that is set at that time and the readings it takes (\<open>instant\<close>). The database is a
  parameter: \<open>genv_run\<close> is \<^verbatim>\<open>store.run_cypher\<close>.
\<close>

section \<open>State\<close>

record cypher_context =
  cctx_invocation_id :: string
  cctx_action_revision_id :: string
  cctx_application_id :: string
  cctx_data_space_id :: string
  cctx_deployment_id :: "string option"
  cctx_correlation_id :: "string option"
  cctx_actor :: string
  cctx_checkpoint_id :: "string option"

text \<open>\<^verbatim>\<open>_ConnectionTransaction\<close>: its unit of work is the one of the state.\<close>

record connection_tx =
  tx_started_at :: int

text \<open>The database, SHA-256, \<^verbatim>\<open>str(value)\<close> and \<^verbatim>\<open>dict(value)\<close> of decoded JSON that is neither text nor object.\<close>

record gateway_env =
  genv_run :: "string \<Rightarrow> (string, json) dict \<Rightarrow> (node_value graph, (string, json) dict list) op"
  genv_sha :: "string \<Rightarrow> string"
  genv_str :: "json \<Rightarrow> string"
  genv_dict :: "json \<Rightarrow> exn + (string, json) dict"

text \<open>Two random identifiers, \<^verbatim>\<open>now_utc()\<close> and \<^verbatim>\<open>time.monotonic()\<close>: a request takes each at most once.\<close>

record instant =
  inst_request_id :: string
  inst_audit_id :: string
  inst_now :: int
  inst_monotonic :: int

datatype gateway_response =
    Answer (response_id: json) (response_rows: "(string, json) dict list")
  | Refusal (response_id: json) (response_error: exn)

definition availability_query :: string where
  "availability_query = ''RETURN 1 AS ok''"

definition available :: "gateway_env \<Rightarrow> node_value graph \<Rightarrow> bool" where
  "available env g =
     (case fst (genv_run env availability_query [] g) of
        Inl _ \<Rightarrow> False
      | Inr [] \<Rightarrow> False
      | Inr (row # _) \<Rightarrow> dict_get row ''ok'' \<in> {Some (JInt 1), Some (JBool True)})"

section \<open>Queries\<close>

text \<open>Saving a record: in the unit of work that is active, or in one of its own.\<close>

definition record_save :: "'m collection \<Rightarrow> 'm \<Rightarrow> (node_value world, unit) op" where
  "record_save c m w =
     (let save = bindE acquire_write_lock (\<lambda>_. on_graph (modify (coll_save c m)))
      in if is_active w then save w else with_uow save w)"

definition audit_edge :: "node_ref \<Rightarrow> string \<Rightarrow> node_ref \<Rightarrow> (node_value world, unit) op" where
  "audit_edge f t to = on_graph (modify (create_edge f t to []))"

definition audit_record ::
  "gateway_env \<Rightarrow> instant \<Rightarrow> cypher_context \<Rightarrow> cypher_access_mode \<Rightarrow> string \<Rightarrow> (string, json) dict \<Rightarrow> nat \<Rightarrow>
   cypher_audit_record" where
  "audit_record env now ctx mode query params n =
     \<lparr>audit_id = inst_audit_id now, audit_invocation_id = cctx_invocation_id ctx,
      audit_action_revision_id = cctx_action_revision_id ctx, audit_application_id = cctx_application_id ctx,
      audit_data_space_id = cctx_data_space_id ctx, audit_deployment_id = cctx_deployment_id ctx,
      audit_correlation_id = cctx_correlation_id ctx, audit_actor = cctx_actor ctx, audit_mode = mode,
      audit_query = query, audit_query_hash = sha256_text (genv_sha env) query,
      audit_params_hash = sha256_json (genv_sha env) (JObj params), audit_checkpoint_id = cctx_checkpoint_id ctx,
      audit_row_count = int n, audit_created_at = inst_now now\<rparr>"

definition run_and_audit ::
  "gateway_env \<Rightarrow> instant \<Rightarrow> cypher_context \<Rightarrow> cypher_access_mode \<Rightarrow> string \<Rightarrow> (string, json) dict \<Rightarrow>
   (node_value world, (string, json) dict list) op" where
  "run_and_audit env now ctx mode query params =
     bindE (on_graph (genv_run env query params)) (\<lambda>rows.
     let audit = audit_record env now ctx mode query params (length rows);
         ref = id_ref ''CypherAuditRecord'' (audit_id audit) in
     bindE (record_save cypher_audits_coll audit) (\<lambda>_.
     bindE (on_graph (\<lambda>g. (Inr (coll_get invocations_coll (key (cctx_invocation_id ctx)) g), g))) (\<lambda>found.
     bindE (if found \<noteq> None then audit_edge (id_ref ''Invocation'' (cctx_invocation_id ctx)) ''HAS_CYPHER_AUDIT'' ref
            else ret ()) (\<lambda>_.
     bindE (audit_edge (id_ref ''Application'' (cctx_application_id ctx)) ''HAS_CYPHER_AUDIT'' ref) (\<lambda>_.
     bindE (case cctx_checkpoint_id ctx of None \<Rightarrow> ret ()
            | Some c \<Rightarrow> audit_edge ref ''AT_CHECKPOINT'' (id_ref ''GraphCheckpoint'' c)) (\<lambda>_.
     ret rows))))))"

definition parse_mode :: "string \<Rightarrow> exn + cypher_access_mode" where
  "parse_mode m =
     (if m = ''read'' then Inr Cypher_read else if m = ''write'' then Inr Cypher_write
      else Inl (CypherGatewayError (''unsupported cypher mode: '' @ m)))"

text \<open>\<^verbatim>\<open>WRITE_QUERY\<close> is the expression of \<open>has_write_clause\<close>.\<close>

definition execute_query ::
  "gateway_env \<Rightarrow> instant \<Rightarrow> cypher_context \<Rightarrow> string \<Rightarrow> string \<Rightarrow> (string, json) dict \<Rightarrow> bool \<Rightarrow>
   (node_value world, (string, json) dict list) op" where
  "execute_query env now ctx mode query params connected =
     bindE (lift_result (parse_mode mode)) (\<lambda>m.
     if strip query = [] then raise (CypherGatewayError ''cypher query is required'')
     else if m = Cypher_read \<and> has_write_clause query
     then raise (CypherGatewayError ''write clauses are not allowed in read mode'')
     else if connected then run_and_audit env now ctx m query params
     else with_uow (run_and_audit env now ctx m query params))"

section \<open>Requests\<close>

fun falsy :: "json \<Rightarrow> bool" where
  "falsy JNull = True"
| "falsy (JBool b) = (\<not> b)"
| "falsy (JInt i) = (i = 0)"
| "falsy (JStr s) = (s = [])"
| "falsy (JArr xs) = (xs = [])"
| "falsy (JObj kvs) = (kvs = [])"

text \<open>\<^verbatim>\<open>str(request.get(k) or default)\<close> and \<^verbatim>\<open>dict(request.get(k) or {})\<close>.\<close>

definition text_field :: "gateway_env \<Rightarrow> (string, json) dict \<Rightarrow> string \<Rightarrow> string \<Rightarrow> string" where
  "text_field env request k fallback =
     (case dict_get request k of
        None \<Rightarrow> fallback
      | Some v \<Rightarrow> if falsy v then fallback else (case v of JStr s \<Rightarrow> s | _ \<Rightarrow> genv_str env v))"

definition dict_field :: "gateway_env \<Rightarrow> (string, json) dict \<Rightarrow> string \<Rightarrow> exn + (string, json) dict" where
  "dict_field env request k =
     (case dict_get request k of
        None \<Rightarrow> Inr []
      | Some v \<Rightarrow> if falsy v then Inr [] else (case v of JObj kvs \<Rightarrow> Inr kvs | _ \<Rightarrow> genv_dict env v))"

definition request_id :: "(string, json) dict \<Rightarrow> instant \<Rightarrow> json" where
  "request_id request now =
     (case dict_get request ''id'' of
        None \<Rightarrow> JStr (inst_request_id now)
      | Some v \<Rightarrow> if falsy v then JStr (inst_request_id now) else v)"

text \<open>Both fallbacks swallow what they raise.\<close>

definition abort_transaction :: "node_value world \<Rightarrow> node_value world" where
  "abort_transaction w =
     (case uow_rollback w of (Inr _, w1) \<Rightarrow> w1 | (Inl _, w1) \<Rightarrow> snd (uow_exit True w1))"

definition begin_transaction :: "instant \<Rightarrow> node_value world \<Rightarrow> connection_tx \<times> node_value world" where
  "begin_transaction now w = (\<lparr>tx_started_at = inst_monotonic now\<rparr>, uow_enter w)"

definition commit_transaction :: "(node_value world, unit) op" where
  "commit_transaction = uow_exit False"

definition require_open_tx :: "int \<Rightarrow> instant \<Rightarrow> connection_tx \<Rightarrow> (node_value world, unit) op" where
  "require_open_tx timeout now tx w =
     (if inst_monotonic now - tx_started_at tx > timeout
      then (Inl (CypherGatewayError ''cypher transaction exceeded its time''), abort_transaction w)
      else (Inr (), w))"

text \<open>What the \<^verbatim>\<open>try\<close> block returns: rows, the transaction and whether the connection is done.\<close>

definition dispatch_request ::
  "gateway_env \<Rightarrow> int \<Rightarrow> string \<Rightarrow> cypher_context \<Rightarrow> (string, json) dict \<Rightarrow> instant \<Rightarrow> connection_tx option \<Rightarrow>
   (node_value world, (string, json) dict list \<times> connection_tx option \<times> bool) op" where
  "dispatch_request env timeout expected ctx request now conn =
     (let op = text_field env request ''op'' ''query''; token = text_field env request ''token'' [] in
      bindE (if token \<noteq> expected \<or> expected = [] then raise (CypherGatewayError ''cypher gateway authentication failed'')
             else ret ()) (\<lambda>_.
      bindE (case conn of None \<Rightarrow> ret () | Some tx \<Rightarrow> require_open_tx timeout now tx) (\<lambda>_.
      if op = ''begin'' then
        (if conn \<noteq> None then raise (CypherGatewayError ''cypher transaction is already open'')
         else (\<lambda>w. case begin_transaction now w of (tx, w1) \<Rightarrow> (Inr ([], Some tx, False), w1)))
      else if op = ''commit'' then
        (if conn = None then raise (CypherGatewayError ''cypher transaction is not open'')
         else bindE commit_transaction (\<lambda>_. ret ([], None, True)))
      else if op = ''rollback'' then
        (if conn = None then raise (CypherGatewayError ''cypher transaction is not open'')
         else (\<lambda>w. (Inr ([], None, True), abort_transaction w)))
      else if op \<noteq> ''query'' then raise (CypherGatewayError (''unsupported cypher op: '' @ op))
      else bindE (lift_result (dict_field env request ''params'')) (\<lambda>params.
        bindE (execute_query env now ctx (text_field env request ''mode'' ''write'') (text_field env request ''query'' [])
          params (conn \<noteq> None)) (\<lambda>rows.
        ret (rows, conn, conn = None))))))"

definition handle_request ::
  "gateway_env \<Rightarrow> int \<Rightarrow> string \<Rightarrow> cypher_context \<Rightarrow> (string, json) dict \<Rightarrow> instant \<Rightarrow> connection_tx option \<Rightarrow>
   node_value world \<Rightarrow> (gateway_response \<times> connection_tx option \<times> bool) \<times> node_value world" where
  "handle_request env timeout expected ctx request now conn w =
     (case dispatch_request env timeout expected ctx request now conn w of
        (Inr (rows, conn', done), w') \<Rightarrow> ((Answer (request_id request now) rows, conn', done), w')
      | (Inl e, w') \<Rightarrow> ((Refusal (request_id request now) e, conn, conn = None), w'))"

text \<open>The loop of \<^verbatim>\<open>handle\<close>: until a request ends the connection or the child closes it.\<close>

fun serve_requests ::
  "gateway_env \<Rightarrow> int \<Rightarrow> string \<Rightarrow> (cypher_context \<times> (string, json) dict \<times> instant) list \<Rightarrow> connection_tx option \<Rightarrow>
   node_value world \<Rightarrow> gateway_response list \<times> connection_tx option \<times> node_value world" where
  "serve_requests env timeout expected [] conn w = ([], conn, w)"
| "serve_requests env timeout expected ((ctx, request, now) # rest) conn w =
     (case handle_request env timeout expected ctx request now conn w of
        ((response, conn', done), w') \<Rightarrow>
          if done then ([response], conn', w')
          else (case serve_requests env timeout expected rest conn' w' of (rs, c, w'') \<Rightarrow> (response # rs, c, w'')))"

definition handle_connection ::
  "gateway_env \<Rightarrow> int \<Rightarrow> string \<Rightarrow> (cypher_context \<times> (string, json) dict \<times> instant) list \<Rightarrow>
   node_value world \<Rightarrow> gateway_response list \<times> node_value world" where
  "handle_connection env timeout expected requests w =
     (case serve_requests env timeout expected requests None w of
        (rs, None, w') \<Rightarrow> (rs, w')
      | (rs, Some _, w') \<Rightarrow> (rs, abort_transaction w'))"

section \<open>The environment of the child\<close>

definition action_context_version :: string where
  "action_context_version = ''n4x.action.context.v2''"

definition subprocess_protocol_version :: string where
  "subprocess_protocol_version = ''n4x.action.subprocess.v3''"

text \<open>\<open>required\<close> is the variable \<^verbatim>\<open>N4X_CYPHER_GATEWAY_REQUIRED\<close> of the host.\<close>

definition optional_variable :: "string \<Rightarrow> string option \<Rightarrow> (string, string) dict" where
  "optional_variable k v = (case v of None \<Rightarrow> [] | Some x \<Rightarrow> [(k, x)])"

definition subprocess_env ::
  "string \<Rightarrow> string \<Rightarrow> string option \<Rightarrow> cypher_context \<Rightarrow> (string, string) dict" where
  "subprocess_env socket_path token required ctx =
     [(''N4X_CYPHER_SOCKET'', socket_path), (''N4X_CYPHER_TOKEN'', token),
      (''N4X_ACTION_CONTEXT_VERSION'', action_context_version),
      (''N4X_SUBPROCESS_PROTOCOL_VERSION'', subprocess_protocol_version),
      (''N4X_INVOCATION_ID'', cctx_invocation_id ctx), (''N4X_APPLICATION_ID'', cctx_application_id ctx),
      (''N4X_DATA_SPACE_ID'', cctx_data_space_id ctx), (''N4X_ACTION_REVISION_ID'', cctx_action_revision_id ctx),
      (''N4X_ACTOR'', cctx_actor ctx)]
     @ optional_variable ''N4X_CHECKPOINT_ID'' (cctx_checkpoint_id ctx)
     @ optional_variable ''N4X_DEPLOYMENT_ID'' (cctx_deployment_id ctx)
     @ optional_variable ''N4X_CORRELATION_ID'' (cctx_correlation_id ctx)
     @ optional_variable ''N4X_CYPHER_GATEWAY_REQUIRED''
         (case required of None \<Rightarrow> None | Some r \<Rightarrow> if r = [] then None else Some r)"

end
