(* ===== verification/Gateway_Laws.thy ===== *)
theory Gateway_Laws
  imports Cypher_Gateway
begin

text \<open>
  Laws of the Cypher gateway: what a request does to the transaction of its connection, and what a
  query that was answered leaves behind.
\<close>

section \<open>Steady operations\<close>

text \<open>What runs inside an open unit of work leaves it and the store transaction as they are.\<close>

definition steady :: "('v world, 'a) op \<Rightarrow> bool" where
  "steady m \<longleftrightarrow> (\<forall>w. uow w \<noteq> None \<longrightarrow> uow (snd (m w)) = uow w \<and> txn (snd (m w)) = txn w)"

named_theorems steady_intros

lemma steadyD: "steady m \<Longrightarrow> m w = (r, w') \<Longrightarrow> uow w \<noteq> None \<Longrightarrow> uow w' = uow w \<and> txn w' = txn w"
  unfolding steady_def by (metis snd_conv)

lemma steady_on_graph [steady_intros]: "steady (on_graph m)"
  by (auto simp: steady_def on_graph_def split: prod.split)

lemma steady_pure [steady_intros]: "steady (ret a)" "steady (raise e)" "steady (lift_result r)" "steady acquire_write_lock"
  by (auto simp: steady_def ret_def raise_def lift_result_def acquire_write_lock_def)

lemma steady_bindE [steady_intros]: "steady m \<Longrightarrow> (\<And>a. steady (k a)) \<Longrightarrow> steady (bindE m k)"
  unfolding steady_def bindE_def by (fastforce split: prod.split sum.split)

lemma steady_record_save [steady_intros]: "steady (record_save c m)"
proof -
  have "steady (bindE acquire_write_lock (\<lambda>_. on_graph (modify (coll_save c m))))" by (intro steady_intros)
  then show ?thesis by (auto simp: steady_def record_save_def Let_def is_active_def)
qed

lemma steady_run_and_audit [steady_intros]: "steady (run_and_audit env now ctx mode query params)"
  unfolding run_and_audit_def Let_def audit_edge_def
  by (intro steady_intros) (auto intro: steady_intros split: option.split)

section \<open>The state of a connection\<close>

definition open_on :: "'v graph \<Rightarrow> 'v world \<Rightarrow> bool" where
  "open_on g w \<longleftrightarrow> uow w = Some \<lparr>uow_depth = 1, uow_rollback_only = False\<rparr> \<and>
     txn w = Some \<lparr>txn_depth = 1, txn_rollback_only = False, txn_snapshot = g\<rparr>"

definition lost_on :: "'v graph \<Rightarrow> 'v world \<Rightarrow> bool" where
  "lost_on g w \<longleftrightarrow> idle w \<and> graph w = g"

lemma open_after_begin: "idle w \<Longrightarrow> open_on (graph w) (uow_enter w)"
  by (simp add: open_on_def idle_def uow_enter_def txn_enter_def)

lemma abort_outcome:
  "open_on g w \<Longrightarrow> lost_on g (abort_transaction w)" "lost_on g w \<Longrightarrow> abort_transaction w = w"
  by (auto simp: open_on_def lost_on_def idle_def abort_transaction_def uow_rollback_def uow_exit_def txn_exit_def)

lemma commit_outcome:
  "open_on g w \<Longrightarrow> \<exists>w'. commit_transaction w = (Inr (), w') \<and> idle w' \<and> graph w' = graph w"
  by (auto simp: open_on_def idle_def commit_transaction_def uow_exit_def txn_exit_def)

lemma steady_open: "steady m \<Longrightarrow> m w = (r, w') \<Longrightarrow> open_on g w \<Longrightarrow> open_on g w'"
  using steadyD [of m w r w'] by (auto simp: open_on_def)

section \<open>Requests\<close>

definition request_op :: "gateway_env \<Rightarrow> (string, json) dict \<Rightarrow> string" where
  "request_op env request = text_field env request ''op'' ''query''"

definition authenticated :: "gateway_env \<Rightarrow> string \<Rightarrow> (string, json) dict \<Rightarrow> bool" where
  "authenticated env expected request \<longleftrightarrow> text_field env request ''token'' [] = expected \<and> expected \<noteq> []"

definition expired :: "int \<Rightarrow> instant \<Rightarrow> connection_tx \<Rightarrow> bool" where
  "expired timeout now tx \<longleftrightarrow> inst_monotonic now - tx_started_at tx > timeout"

definition answered :: "gateway_response \<Rightarrow> bool" where
  "answered r = (case r of Answer _ _ \<Rightarrow> True | Refusal _ _ \<Rightarrow> False)"

lemma answered_simps [simp]: "answered (Answer i rows)" "\<not> answered (Refusal i e)"
  by (simp_all add: answered_def)

lemma handle_unauthenticated:
  "\<not> authenticated env expected request \<Longrightarrow>
     handle_request env timeout expected ctx request now conn w =
       ((Refusal (request_id request now) (CypherGatewayError ''cypher gateway authentication failed''), conn, conn = None), w)"
  by (auto simp: handle_request_def dispatch_request_def authenticated_def Let_def op_defs)

lemma handle_expired:
  "authenticated env expected request \<Longrightarrow> expired timeout now tx \<Longrightarrow>
     handle_request env timeout expected ctx request now (Some tx) w =
       ((Refusal (request_id request now) (CypherGatewayError ''cypher transaction exceeded its time''), Some tx, False),
        abort_transaction w)"
  by (auto simp: handle_request_def dispatch_request_def authenticated_def expired_def require_open_tx_def Let_def op_defs)

text \<open>A request in an open transaction keeps it open, commits it or rolls it back.\<close>

lemma handle_open:
  assumes "open_on g w" and "\<not> expired timeout now tx"
    and "handle_request env timeout expected ctx request now (Some tx) w = ((r, conn, done), w')"
  shows "(conn = Some tx \<and> \<not> done \<and> open_on g w') \<or>
    (conn = None \<and> done \<and> request_op env request = ''commit'' \<and> answered r \<and> idle w' \<and> graph w' = graph w) \<or>
    (conn = None \<and> done \<and> request_op env request = ''rollback'' \<and> lost_on g w')"
proof (cases "authenticated env expected request")
  case False
  with assms(1,3) show ?thesis by (simp add: handle_unauthenticated)
next
  case True
  have q: "steady (bindE (lift_result (dict_field env request ''params'')) (\<lambda>params.
        bindE (execute_query env now ctx (text_field env request ''mode'' ''write'') (text_field env request ''query'' []) params True)
          (\<lambda>rows. ret (rows, Some tx, False))))"
    unfolding execute_query_def by (intro steady_intros) (auto intro: steady_intros)
  have start: "dispatch_request env timeout expected ctx request now (Some tx) w =
      (let op = request_op env request in
       if op = ''begin'' then (Inl (CypherGatewayError ''cypher transaction is already open''), w)
       else if op = ''commit'' then bindE commit_transaction (\<lambda>_. ret ([], None, True)) w
       else if op = ''rollback'' then (Inr ([], None, True), abort_transaction w)
       else if op \<noteq> ''query'' then (Inl (CypherGatewayError (''unsupported cypher op: '' @ op)), w)
       else bindE (lift_result (dict_field env request ''params'')) (\<lambda>params.
        bindE (execute_query env now ctx (text_field env request ''mode'' ''write'') (text_field env request ''query'' []) params True)
          (\<lambda>rows. ret (rows, Some tx, False))) w)"
    using True assms(2)
    by (simp add: dispatch_request_def authenticated_def expired_def require_open_tx_def request_op_def bindE_apply ret_apply
        raise_apply Let_def)
  consider (commit) "request_op env request = ''commit''" | (rollback) "request_op env request = ''rollback''"
    | (query) "request_op env request = ''query''"
    | (other) "request_op env request \<notin> {''commit'', ''rollback'', ''query''}" by auto
  then show ?thesis
  proof cases
    case commit
    from commit_outcome [OF assms(1)] obtain w1 where "commit_transaction w = (Inr (), w1)" "idle w1" "graph w1 = graph w" by blast
    with commit assms(3) start show ?thesis by (auto simp: handle_request_def bindE_apply ret_apply)
  next
    case rollback
    with assms(1,3) start abort_outcome(1) show ?thesis by (auto simp: handle_request_def)
  next
    case query
    let ?q = "bindE (lift_result (dict_field env request ''params'')) (\<lambda>params.
        bindE (execute_query env now ctx (text_field env request ''mode'' ''write'') (text_field env request ''query'' []) params True)
          (\<lambda>rows. ret (rows, Some tx, False)))"
    obtain z w1 where run: "?q w = (z, w1)" by fastforce
    have "open_on g w1" by (rule steady_open [OF q run assms(1)])
    moreover have "z = Inr x \<Longrightarrow> snd x = (Some tx, False)" for x
      using run by (auto simp: bindE_Inr_iff ret_Inr)
    ultimately show ?thesis
      using assms(3) start query run by (cases z) (auto simp: handle_request_def)
  next
    case other
    with assms(1,3) start show ?thesis by (auto simp: handle_request_def Let_def split: if_split_asm)
  qed
qed

section \<open>Sessions\<close>

type_synonym gateway_request = "cypher_context \<times> (string, json) dict \<times> instant"

definition asked_at :: "gateway_request \<Rightarrow> int" where
  "asked_at q = inst_monotonic (snd (snd q))"

text \<open>Some request to commit was answered.\<close>

definition committed :: "gateway_env \<Rightarrow> gateway_request list \<Rightarrow> gateway_response list \<Rightarrow> bool" where
  "committed env qs rs \<longleftrightarrow> list_ex (\<lambda>((_, request, _), r). request_op env request = ''commit'' \<and> answered r) (zip qs rs)"

lemma committed_Cons:
  "committed env ((ctx, request, now) # qs) (r # rs) \<longleftrightarrow>
     request_op env request = ''commit'' \<and> answered r \<or> committed env qs rs"
  by (simp add: committed_def)

text \<open>Once a transaction has timed out, it stays lost: the clock does not go back.\<close>

lemma serve_lost:
  assumes "lost_on g w" and "\<forall>q\<in>set qs. inst_monotonic (snd (snd q)) - tx_started_at tx > timeout"
    and "serve_requests env timeout expected qs (Some tx) w = (rs, c, w')"
  shows "c = Some tx \<and> w' = w \<and> \<not> committed env qs rs"
  using assms(2,3)
proof (induction qs arbitrary: rs)
  case (Cons q qs)
  obtain ctx request now where q: "q = (ctx, request, now)" by (cases q)
  have "\<exists>e. handle_request env timeout expected ctx request now (Some tx) w = ((Refusal (request_id request now) e, Some tx, False), w)"
  proof (cases "authenticated env expected request")
    case True
    have "expired timeout now tx" using Cons.prems(1) by (simp add: expired_def q)
    with True abort_outcome(2) [OF assms(1)] show ?thesis by (simp add: handle_expired)
  qed (simp add: handle_unauthenticated)
  with Cons show ?case by (auto simp: q committed_Cons split: prod.splits)
qed (simp add: committed_def)

lemma serve_open:
  assumes "open_on g w" and "sorted (map asked_at qs)"
    and "serve_requests env timeout expected qs (Some tx) w = (rs, c, w')"
  shows "case c of
      None \<Rightarrow> idle w' \<and> (graph w' = g \<or> committed env qs rs)
    | Some tx' \<Rightarrow> idle (abort_transaction w') \<and> graph (abort_transaction w') = g"
  using assms
proof (induction qs arbitrary: rs w)
  case Nil
  then show ?case using abort_outcome(1) [of g w] by (auto simp: lost_on_def)
next
  case (Cons q qs)
  obtain ctx request now where q: "q = (ctx, request, now)" by (cases q)
  obtain r conn fin w1 where h: "handle_request env timeout expected ctx request now (Some tx) w = ((r, conn, fin), w1)"
    by (metis prod_cases3 surj_pair)
  show ?case
  proof (cases "authenticated env expected request \<and> expired timeout now tx")
    case True
    have w1: "conn = Some tx" "\<not> fin" "lost_on g w1"
      using h True abort_outcome(1) [OF Cons.prems(1)] by (auto simp: handle_expired)
    obtain rs' where rest: "serve_requests env timeout expected qs (Some tx) w1 = (rs', c, w')"
      using Cons.prems(3) h w1 by (auto simp: q split: prod.splits)
    have "\<forall>q\<in>set qs. inst_monotonic (snd (snd q)) - tx_started_at tx > timeout"
      using Cons.prems(2) True by (auto simp: q asked_at_def expired_def)
    from serve_lost [OF w1(3) this rest] w1(3) abort_outcome(2) [OF w1(3)] show ?thesis by (simp add: lost_on_def)
  next
    case False
    have o: "(conn = Some tx \<and> \<not> fin \<and> open_on g w1) \<or>
      (conn = None \<and> fin \<and> request_op env request = ''commit'' \<and> answered r \<and> idle w1 \<and> graph w1 = graph w) \<or>
      (conn = None \<and> fin \<and> request_op env request = ''rollback'' \<and> lost_on g w1)"
    proof (cases "authenticated env expected request")
      case True
      with False show ?thesis using handle_open [OF Cons.prems(1) _ h] by blast
    next
      case unauth: False
      with h Cons.prems(1) show ?thesis by (auto simp: handle_unauthenticated)
    qed
    show ?thesis
    proof (cases fin)
      case True
      with o h Cons.prems(3) show ?thesis by (auto simp: q committed_Cons lost_on_def)
    next
      case False
      with o h Cons.prems(3) obtain rs' where "serve_requests env timeout expected qs (Some tx) w1 = (rs', c, w')"
        and "open_on g w1" and rs: "rs = r # rs'" by (auto simp: q split: prod.splits)
      with Cons.IH [of w1 rs'] Cons.prems(2) show ?thesis by (auto simp: q committed_Cons split: option.split)
    qed
  qed
qed

section \<open>What a query leaves\<close>

text \<open>The record that audits a query, and the edge to it from the Application.\<close>

definition audited :: "gateway_env \<Rightarrow> cypher_context \<Rightarrow> (string, json) dict \<Rightarrow> instant \<Rightarrow> nat \<Rightarrow> node_value graph \<Rightarrow> bool" where
  "audited env ctx request now n g \<longleftrightarrow>
     (\<exists>mode params. dict_field env request ''params'' = Inr params \<and>
        parse_mode (text_field env request ''mode'' ''write'') = Inr mode \<and>
        coll_get cypher_audits_coll (key (inst_audit_id now)) g =
          Some (audit_record env now ctx mode (text_field env request ''query'' []) params n)) \<and>
     id_ref ''CypherAuditRecord'' (inst_audit_id now) \<in>
       set (edge_targets g (id_ref ''Application'' (cctx_application_id ctx)) ''HAS_CYPHER_AUDIT'')"

lemma audit_record_id [simp]: "audit_id (audit_record env now ctx mode query params n) = inst_audit_id now"
  by (simp add: audit_record_def)

text \<open>In an active unit of work the audit is a function on the graph.\<close>

lemma record_save_active:
  "is_active w \<Longrightarrow> txn w \<noteq> None \<Longrightarrow> record_save c m w = (Inr (), w\<lparr>graph := coll_save c m (graph w)\<rparr>)"
  by (simp add: record_save_def acquire_write_lock_def on_graph_def bindE_apply modify_def)

definition audit_graph ::
  "gateway_env \<Rightarrow> instant \<Rightarrow> cypher_context \<Rightarrow> cypher_audit_record \<Rightarrow> node_value graph \<Rightarrow> node_value graph" where
  "audit_graph env now ctx audit g =
     (let ref = id_ref ''CypherAuditRecord'' (audit_id audit); g1 = coll_save cypher_audits_coll audit g;
          g2 = (if coll_get invocations_coll (key (cctx_invocation_id ctx)) g1 \<noteq> None
                then create_edge (id_ref ''Invocation'' (cctx_invocation_id ctx)) ''HAS_CYPHER_AUDIT'' ref [] g1 else g1);
          g3 = create_edge (id_ref ''Application'' (cctx_application_id ctx)) ''HAS_CYPHER_AUDIT'' ref [] g2
      in case cctx_checkpoint_id ctx of None \<Rightarrow> g3
         | Some c \<Rightarrow> create_edge ref ''AT_CHECKPOINT'' (id_ref ''GraphCheckpoint'' c) [] g3)"

lemma run_and_audit_apply:
  assumes "uow w \<noteq> None" and "txn w \<noteq> None"
  shows "run_and_audit env now ctx mode query params w =
     (case genv_run env query params (graph w) of
        (Inl e, g) \<Rightarrow> (Inl e, w\<lparr>graph := g\<rparr>)
      | (Inr rows, g) \<Rightarrow>
          (Inr rows, w\<lparr>graph := audit_graph env now ctx (audit_record env now ctx mode query params (length rows)) g\<rparr>))"
  using assms
  by (auto simp: run_and_audit_def bindE_apply on_graph_def audit_edge_def record_save_active is_active_def modify_def ret_apply
      audit_graph_def Let_def split: prod.split sum.split option.split)

lemma coll_get_linked: "coll_get c k (create_edge f t to p g) = coll_get c k g"
  by (simp add: coll_get_def graph_simps)

lemma audit_graph_holds:
  "coll_get cypher_audits_coll (key (audit_id a)) (audit_graph env now ctx a g) = Some a"
  "id_ref ''CypherAuditRecord'' (audit_id a) \<in>
     set (edge_targets (audit_graph env now ctx a g) (id_ref ''Application'' (cctx_application_id ctx)) ''HAS_CYPHER_AUDIT'')"
proof -
  have "coll_identity cypher_audits_coll a = key (audit_id a)" by (simp add: cypher_audits_coll_def)
  then show "coll_get cypher_audits_coll (key (audit_id a)) (audit_graph env now ctx a g) = Some a"
    by (simp add: audit_graph_def Let_def cypher_audits.get_save coll_get_linked split: option.split)
  show "id_ref ''CypherAuditRecord'' (audit_id a) \<in>
     set (edge_targets (audit_graph env now ctx a g) (id_ref ''Application'' (cctx_application_id ctx)) ''HAS_CYPHER_AUDIT'')"
    by (simp add: audit_graph_def Let_def edge_targets_grow split: option.split)
qed

section \<open>Queries as a whole\<close>

lemma audited_by:
  assumes "dict_field env request ''params'' = Inr params" and "parse_mode (text_field env request ''mode'' ''write'') = Inr mode"
  shows "audited env ctx request now n
     (audit_graph env now ctx (audit_record env now ctx mode (text_field env request ''query'' []) params n) g)"
  using assms audit_graph_holds [of "audit_record env now ctx mode (text_field env request ''query'' []) params n" env now ctx g]
  by (auto simp: audited_def)

text \<open>The query of a connection without transaction runs in a unit of work of its own.\<close>

lemma outer_query:
  assumes "idle w"
  shows "with_uow (run_and_audit env now ctx mode query params) w =
     (case genv_run env query params (graph w) of
        (Inl e, g) \<Rightarrow> (Inl e, w)
      | (Inr rows, g) \<Rightarrow>
          (Inr rows, w\<lparr>graph := audit_graph env now ctx (audit_record env now ctx mode query params (length rows)) g\<rparr>))"
proof -
  have "uow (uow_enter w) = Some \<lparr>uow_depth = 1, uow_rollback_only = False\<rparr>" "graph (uow_enter w) = graph w"
    "txn (uow_enter w) = Some \<lparr>txn_depth = 1, txn_rollback_only = False, txn_snapshot = graph w\<rparr>"
    using assms by (simp_all add: uow_enter_def txn_enter_def idle_def)
  moreover have "(uow_enter w)\<lparr>graph := h, txn := None, uow := None\<rparr> = w\<lparr>graph := h\<rparr>"
    "(uow_enter w)\<lparr>uow := None, graph := h, txn := None\<rparr> = w\<lparr>graph := h\<rparr>" for h
    using assms by (cases w; simp add: uow_enter_def txn_enter_def idle_def)+
  moreover have "w\<lparr>graph := graph w\<rparr> = w" by simp
  ultimately show ?thesis
    by (auto simp: with_uow_def run_and_audit_apply uow_exit_def txn_exit_def Let_def split: prod.split sum.split)
qed

lemma handle_query:
  assumes "authenticated env expected request" and "request_op env request = ''query''"
    and "case conn of None \<Rightarrow> idle w | Some tx \<Rightarrow> open_on g w \<and> \<not> expired timeout now tx"
    and "handle_request env timeout expected ctx request now conn w = ((r, conn', fin), w')"
  shows "answered r \<and> audited env ctx request now (length (response_rows r)) (graph w') \<or>
    \<not> answered r \<and> (conn = None \<longrightarrow> w' = w)"
proof -
  let ?query = "text_field env request ''query'' []" and ?mode = "text_field env request ''mode'' ''write''"
  have start: "dispatch_request env timeout expected ctx request now conn w =
     bindE (lift_result (dict_field env request ''params'')) (\<lambda>params.
        bindE (execute_query env now ctx ?mode ?query params (conn \<noteq> None)) (\<lambda>rows. ret (rows, conn, conn = None))) w"
    using assms(1-3)
    by (cases conn) (simp_all add: dispatch_request_def authenticated_def expired_def require_open_tx_def request_op_def
        bindE_apply ret_apply Let_def)
  show ?thesis
  proof (cases "dict_field env request ''params''")
    case (Inl e)
    with start assms(4) show ?thesis by (auto simp: handle_request_def bindE_apply lift_result_def)
  next
    case params: (Inr params)
    show ?thesis
    proof (cases "parse_mode ?mode")
      case (Inl e)
      with params start assms(4) show ?thesis by (auto simp: handle_request_def bindE_apply lift_result_def execute_query_def)
    next
      case mode: (Inr m)
      have ex: "execute_query env now ctx ?mode ?query params c =
         (if strip ?query = [] then raise (CypherGatewayError ''cypher query is required'')
          else if m = Cypher_read \<and> has_write_clause ?query
          then raise (CypherGatewayError ''write clauses are not allowed in read mode'')
          else if c then run_and_audit env now ctx m ?query params else with_uow (run_and_audit env now ctx m ?query params))" for c
        by (simp add: execute_query_def mode lift_result_def fun_eq_iff bindE_apply)
      note aud = audited_by [OF params mode]
      show ?thesis
      proof (cases "genv_run env ?query params (graph w)")
        case (Pair z h)
        with assms(3,4) start params mode ex aud show ?thesis
          by (cases conn; cases z)
            (auto simp: handle_request_def bindE_apply lift_result_def raise_apply ret_apply outer_query open_on_def
              run_and_audit_apply split: if_split_asm)
      qed
    qed
  qed
qed

text \<open>What is refused before the database is asked.\<close>

definition acceptable :: "gateway_env \<Rightarrow> string \<Rightarrow> (string, json) dict \<Rightarrow> bool" where
  "acceptable env expected request \<longleftrightarrow> authenticated env expected request \<and>
     (request_op env request \<in> {''begin'', ''commit'', ''rollback''} \<or>
      request_op env request = ''query'' \<and> strip (text_field env request ''query'' []) \<noteq> [] \<and>
      (text_field env request ''mode'' ''write'' = ''write'' \<or>
       text_field env request ''mode'' ''write'' = ''read'' \<and> \<not> has_write_clause (text_field env request ''query'' [])))"

lemma handle_unacceptable:
  assumes "\<not> acceptable env expected request" and "case conn of None \<Rightarrow> True | Some tx \<Rightarrow> \<not> expired timeout now tx"
  shows "\<exists>e. handle_request env timeout expected ctx request now conn w =
     ((Refusal (request_id request now) e, conn, conn = None), w)"
proof (cases "authenticated env expected request")
  case True
  with assms show ?thesis
    by (cases conn; cases "dict_field env request ''params''")
      (auto simp: handle_request_def dispatch_request_def acceptable_def authenticated_def expired_def require_open_tx_def
        request_op_def execute_query_def parse_mode_def lift_result_def bindE_apply raise_apply ret_apply Let_def)
qed (simp add: handle_unauthenticated)

end
