(* ===== verification/Gateway_Properties.thy ===== *)
theory Gateway_Properties
  imports Gateway_Laws
begin

text \<open>
  The properties of the Cypher gateway: a transaction is all or nothing, a query that is answered is
  audited, and a request that is not acceptable does not reach the database.
\<close>


text \<open>A database whose every query answers one row and leaves an edge behind.\<close>

definition sample_gateway :: gateway_env where
  "sample_gateway = \<lparr>genv_run = (\<lambda>q p g. (Inr [[(''ok'', JInt 1)]], create_edge (id_ref ''N4XRoot'' q) ''SEEN'' (id_ref ''N4XRoot'' q) [] g)),
     genv_sha = id, genv_str = (\<lambda>v. ''?''), genv_dict = (\<lambda>v. Inl (TypeError []))\<rparr>"

definition sample_caller :: cypher_context where
  "sample_caller = \<lparr>cctx_invocation_id = ''i'', cctx_action_revision_id = ''ar'', cctx_application_id = ''a'',
     cctx_data_space_id = ''production'', cctx_deployment_id = None, cctx_correlation_id = None,
     cctx_actor = ''action-runtime'', cctx_checkpoint_id = None\<rparr>"

definition sample_ask :: "string \<Rightarrow> string \<Rightarrow> int \<Rightarrow> gateway_request" where
  "sample_ask op query at = (sample_caller,
     [(''op'', JStr op), (''token'', JStr ''tok''), (''query'', JStr query)],
     \<lparr>inst_request_id = ''q'', inst_audit_id = ''au'', inst_now = at, inst_monotonic = at\<rparr>)"

definition sample_idle :: "node_value world" where
  "sample_idle = \<lparr>graph = empty_graph, txn = None, uow = None, slept = []\<rparr>"

lemmas sample_gateway_defs = sample_gateway_def sample_caller_def sample_ask_def sample_idle_def request_op_def
  authenticated_def text_field_def dict_field_def dict_simps asked_at_def idle_def


text \<open>C37: A query is audited or refused. If it is answered, inside a transaction or not, the graph holds a record
  of who asked what with how many rows, linked from the Application; if it is refused outside a
  transaction, nothing has changed.\<close>

theorem answered_query_is_audited:
  assumes "authenticated env expected request" and "request_op env request = ''query''"
    and "case conn of None \<Rightarrow> idle w | Some tx \<Rightarrow> open_on g w \<and> \<not> expired timeout now tx"
    and "handle_request env timeout expected ctx request now conn w = ((r, conn', fin), w')"
  shows "answered r \<and> audited env ctx request now (length (response_rows r)) (graph w') \<or>
    \<not> answered r \<and> (conn = None \<longrightarrow> w' = w)"
  by (rule handle_query [OF assms])

theorem answered_query_is_audited_witness:
  "\<exists>r conn fin w'. handle_request sample_gateway 30 ''tok'' sample_caller (fst (snd (sample_ask ''query'' ''MATCH'' 1)))
       (snd (snd (sample_ask ''query'' ''MATCH'' 1))) None sample_idle = ((r, conn, fin), w') \<and>
     audited sample_gateway sample_caller (fst (snd (sample_ask ''query'' ''MATCH'' 1)))
       (snd (snd (sample_ask ''query'' ''MATCH'' 1))) 1 (graph w')"
proof -
  let ?q = "fst (snd (sample_ask ''query'' ''MATCH'' 1))" and ?now = "snd (snd (sample_ask ''query'' ''MATCH'' 1))"
  obtain r conn fin w' where h: "handle_request sample_gateway 30 ''tok'' sample_caller ?q ?now None sample_idle = ((r, conn, fin), w')"
    by (metis prod_cases3 surj_pair)
  have "idle sample_idle" by (simp add: sample_idle_def idle_def)
  with h have "answered r" "length (response_rows r) = 1"
    by (auto simp: handle_request_def dispatch_request_def execute_query_def parse_mode_def outer_query sample_gateway_def
        sample_ask_def sample_idle_def text_field_def dict_field_def bindE_apply ret_apply lift_result_def strip_def is_space_def)
  moreover have "authenticated sample_gateway ''tok'' ?q" "request_op sample_gateway ?q = ''query''"
    by (simp_all add: sample_gateway_defs)
  ultimately show ?thesis
    using answered_query_is_audited [OF _ _ _ h] h \<open>idle sample_idle\<close> by auto
qed

text \<open>A request without the token of the connection, with an unknown operation or mode, without a query, or with a
  write clause in read mode is refused before the database is asked: nothing changes, neither the
  graph nor the transaction of the connection.\<close>

theorem unacceptable_request_changes_nothing:
  assumes "\<not> acceptable env expected request" and "case conn of None \<Rightarrow> True | Some tx \<Rightarrow> \<not> expired timeout now tx"
  shows "\<exists>e. handle_request env timeout expected ctx request now conn w =
     ((Refusal (request_id request now) e, conn, conn = None), w)"
  by (rule handle_unacceptable [OF assms])

theorem unacceptable_request_changes_nothing_witness:
  "\<exists>e. handle_request sample_gateway 30 ''other'' sample_caller (fst (snd (sample_ask ''query'' ''MATCH'' 1)))
       (snd (snd (sample_ask ''query'' ''MATCH'' 1))) None sample_idle =
     ((Refusal (JStr ''q'') e, None, True), sample_idle)"
proof -
  let ?q = "fst (snd (sample_ask ''query'' ''MATCH'' 1))" and ?now = "snd (snd (sample_ask ''query'' ''MATCH'' 1))"
  have "\<not> acceptable sample_gateway ''other'' ?q" by (simp add: acceptable_def sample_gateway_defs)
  moreover have "request_id ?q ?now = JStr ''q''" by (simp add: request_id_def sample_ask_def dict_simps)
  ultimately show ?thesis
    using unacceptable_request_changes_nothing [where env = sample_gateway and expected = "''other''"
        and request = ?q and conn = None and timeout = 30 and now = ?now and ctx = sample_caller and w = sample_idle]
    by simp
qed

end
