(* ===== verification/Graph_Integrity.thy ===== *)
theory Graph_Integrity
  imports System_Definitions Platform_Collections
begin

text \<open>
  The audit of the graph's shape of \<^verbatim>\<open>graph/integrity.py\<close>: the plan of nodes and edges that the records
  call for, the comparison of the plan with the edges that are there, and the repair. What a message
  says is a constructor of \<open>shape_message\<close>.
\<close>

type_synonym plan_edge = "node_ref \<times> string \<times> node_ref"

section \<open>Declarations\<close>

definition record_ref :: "'m collection \<Rightarrow> 'm \<Rightarrow> node_ref" where
  "record_ref c m = NodeRef (coll_label c) (coll_identity c m)"

definition declared_nodes :: "'m collection \<Rightarrow> node_value graph \<Rightarrow> node_ref list" where
  "declared_nodes c g = map (record_ref c) (coll_values c g)"

text \<open>\<^verbatim>\<open>NODE_DECLARATIONS\<close>, each with the loop of \<^verbatim>\<open>_build_plan\<close> over its collection.\<close>

definition node_declarations :: "(node_value graph \<Rightarrow> node_ref list) list" where
  "node_declarations =
     [declared_nodes systems_coll, declared_nodes system_revisions_coll, declared_nodes applications_coll,
      declared_nodes data_spaces_coll, declared_nodes development_deployments_coll, declared_nodes revisions_coll,
      declared_nodes experiences_coll, declared_nodes experience_revisions_coll, declared_nodes experience_surfaces_coll,
      declared_nodes experience_validation_reports_coll, declared_nodes authoring_guides_coll,
      declared_nodes authoring_guide_revisions_coll, declared_nodes ui_themes_coll, declared_nodes ui_theme_revisions_coll,
      declared_nodes app_blueprints_coll, declared_nodes blueprint_revisions_coll, declared_nodes source_trees_coll,
      declared_nodes source_contents_coll, declared_nodes objects_coll, declared_nodes object_types_coll,
      declared_nodes object_type_revisions_coll, declared_nodes relation_types_coll,
      declared_nodes relation_type_revisions_coll, declared_nodes secret_references_coll,
      declared_nodes credential_records_coll, declared_nodes callback_routes_coll, declared_nodes runtime_dependencies_coll,
      declared_nodes python_environments_coll, declared_nodes javascript_environments_coll,
      declared_nodes build_invocations_coll, declared_nodes build_artifacts_coll, declared_nodes actions_coll,
      declared_nodes action_revisions_coll, declared_nodes triggers_coll, declared_nodes trigger_revisions_coll,
      declared_nodes job_records_coll, declared_nodes job_attempts_coll, declared_nodes cypher_audits_coll,
      declared_nodes invocations_coll, declared_nodes test_cases_coll, declared_nodes checkpoints_coll,
      declared_nodes checkpoint_snapshots_coll, declared_nodes checkpoint_blobs_coll, declared_nodes validation_reports_coll,
      declared_nodes package_import_attempts_coll]"

text \<open>An edge from the owner of every record of a collection. No owner is optional.\<close>

definition owned :: "'m collection \<Rightarrow> string \<Rightarrow> ('m \<Rightarrow> node_ref) \<Rightarrow> node_value graph \<Rightarrow> plan_edge list" where
  "owned c et owner g = map (\<lambda>m. (owner m, et, record_ref c m)) (coll_values c g)"

definition owned_by_root :: "'m collection \<Rightarrow> string \<Rightarrow> node_value graph \<Rightarrow> plan_edge list" where
  "owned_by_root c et = owned c et (\<lambda>_. root_ref)"

definition owned_by :: "'m collection \<Rightarrow> string \<Rightarrow> string \<Rightarrow> ('m \<Rightarrow> string) \<Rightarrow> node_value graph \<Rightarrow> plan_edge list" where
  "owned_by c et owner_label field = owned c et (\<lambda>m. id_ref owner_label (field m))"

fun owner_kind_label :: "revision_owner_kind \<Rightarrow> string" where
  "owner_kind_label Owner_ApplicationRevision = ''ApplicationRevision''"
| "owner_kind_label Owner_ExperienceRevision = ''ExperienceRevision''"
| "owner_kind_label Owner_SystemRevision = ''SystemRevision''"

definition ownership_declarations :: "(node_value graph \<Rightarrow> plan_edge list) list" where
  "ownership_declarations =
     [owned_by_root systems_coll ''HAS_SYSTEM'',
      owned_by_root applications_coll ''HAS_APPLICATION'',
      owned_by data_spaces_coll ''HAS_DATA_SPACE'' ''Application'' space_application_id,
      owned_by_root development_deployments_coll ''HAS_DEVELOPMENT_DEPLOYMENT'',
      owned_by_root experiences_coll ''HAS_EXPERIENCE'',
      owned_by_root authoring_guides_coll ''HAS_AUTHORING_GUIDE'',
      owned_by_root ui_themes_coll ''HAS_UI_THEME'',
      owned_by_root app_blueprints_coll ''HAS_BLUEPRINT'',
      owned_by object_types_coll ''DEFINES_OBJECT_TYPE'' ''Application'' otype_application_id,
      owned_by relation_types_coll ''DEFINES_RELATION_TYPE'' ''Application'' rtype_application_id,
      owned_by actions_coll ''DEFINES_ACTION'' ''Application'' act_application_id,
      owned_by triggers_coll ''DEFINES_TRIGGER'' ''Application'' trig_application_id,
      owned objects_coll ''OWNS_OBJECT''
        (\<lambda>x. NodeRef ''DataSpace'' [(''application_id'', obj_application_id x), (''id'', obj_data_space_id x)]),
      owned_by secret_references_coll ''HAS_SECRET_REFERENCE'' ''Application'' secret_application_id,
      owned_by credential_records_coll ''HAS_CREDENTIAL'' ''Application'' cred_application_id,
      owned_by callback_routes_coll ''HAS_CALLBACK_ROUTE'' ''Application'' route_application_id,
      owned_by validation_reports_coll ''HAS_VALIDATION_REPORT'' ''ApplicationRevision'' report_application_revision_id,
      owned_by experience_validation_reports_coll ''HAS_VALIDATION_REPORT'' ''ExperienceRevision'' xreport_experience_revision_id,
      owned_by checkpoints_coll ''HAS_CHECKPOINT'' ''Application'' ckpt_application_id,
      owned_by checkpoint_snapshots_coll ''HAS_SNAPSHOT'' ''GraphCheckpoint'' snap_checkpoint_id,
      owned_by checkpoint_blobs_coll ''HAS_BLOB'' ''CheckpointSnapshot'' cblob_snapshot_id,
      owned_by_root package_import_attempts_coll ''HAS_PACKAGE_IMPORT_ATTEMPT'',
      owned_by invocations_coll ''HAS_INVOCATION'' ''ActionRevision'' inv_action_revision_id,
      owned_by job_records_coll ''HAS_JOB'' ''Application'' job_application_id,
      owned_by job_records_coll ''HAS_JOB'' ''TriggerRevision'' job_trigger_revision_id,
      owned_by job_attempts_coll ''HAS_ATTEMPT'' ''JobRecord'' att_job_id,
      owned_by cypher_audits_coll ''HAS_CYPHER_AUDIT'' ''Application'' audit_application_id,
      owned_by python_environments_coll ''USES_PYTHON_ENV'' ''ApplicationRevision'' pyenv_application_revision_id,
      owned javascript_environments_coll ''USES_JAVASCRIPT_ENV''
        (\<lambda>x. id_ref (owner_kind_label (jsenv_owner_kind x)) (jsenv_owner_id x)),
      owned build_invocations_coll ''HAS_BUILD_INVOCATION''
        (\<lambda>x. id_ref (owner_kind_label (binv_owner_kind x)) (binv_owner_id x)),
      owned build_artifacts_coll ''HAS_BUILD_ARTIFACT''
        (\<lambda>x. id_ref (owner_kind_label (art_owner_kind x)) (art_owner_id x)),
      owned_by build_artifacts_coll ''PRODUCED'' ''BuildInvocation'' art_build_invocation_id]"

text \<open>\<^verbatim>\<open>REVISION_DECLARATIONS\<close>: the edges to the revisions of what exists, and the active pointers.\<close>

definition revised ::
  "'s collection \<Rightarrow> 'r collection \<Rightarrow> ('r \<Rightarrow> string) \<Rightarrow> node_value graph \<Rightarrow> plan_edge list" where
  "revised subject revision owner g =
     map (\<lambda>r. (id_ref (coll_label subject) (owner r), ''HAS_REVISION'', record_ref revision r))
       (filter (\<lambda>r. coll_get subject (key (owner r)) g \<noteq> None) (coll_values revision g))"

type_synonym active_edge = "node_ref \<times> string \<times> node_ref option"

definition active_of ::
  "'s collection \<Rightarrow> 'r collection \<Rightarrow> ('s \<Rightarrow> string option) \<Rightarrow> node_value graph \<Rightarrow> active_edge list" where
  "active_of subject revision active g =
     map (\<lambda>m. (record_ref subject m, ''ACTIVE_REVISION'', map_option (id_ref (coll_label revision)) (active m)))
       (coll_values subject g)"

definition revision_declarations ::
  "((node_value graph \<Rightarrow> plan_edge list) \<times> (node_value graph \<Rightarrow> active_edge list)) list" where
  "revision_declarations =
     [(revised systems_coll system_revisions_coll sysrev_system_id,
        active_of systems_coll system_revisions_coll sys_active_revision_id),
      (revised applications_coll revisions_coll rev_application_id,
        active_of applications_coll revisions_coll app_active_revision_id),
      (revised experiences_coll experience_revisions_coll exprev_experience_id,
        active_of experiences_coll experience_revisions_coll exp_active_revision_id),
      (revised authoring_guides_coll authoring_guide_revisions_coll guiderev_guide_id,
        active_of authoring_guides_coll authoring_guide_revisions_coll guide_active_revision_id),
      (revised ui_themes_coll ui_theme_revisions_coll themerev_theme_id,
        active_of ui_themes_coll ui_theme_revisions_coll theme_active_revision_id),
      (revised app_blueprints_coll blueprint_revisions_coll bprev_blueprint_id,
        active_of app_blueprints_coll blueprint_revisions_coll bp_active_revision_id),
      (revised object_types_coll object_type_revisions_coll otrev_object_type_id,
        active_of object_types_coll object_type_revisions_coll otype_active_revision_id),
      (revised relation_types_coll relation_type_revisions_coll rtrev_relation_type_id,
        active_of relation_types_coll relation_type_revisions_coll rtype_active_revision_id),
      (revised actions_coll action_revisions_coll actrev_action_id,
        active_of actions_coll action_revisions_coll act_active_revision_id),
      (revised triggers_coll trigger_revisions_coll trigrev_trigger_id,
        active_of triggers_coll trigger_revisions_coll trig_active_revision_id)]"

definition singleton_edge_types :: "string list" where
  "singleton_edge_types = [''HAS_SOURCE_TREE'', ''FROM_TYPE'', ''TO_TYPE'', ''INVOKES'', ''TARGETS'', ''TESTS'', ''RAN'',
     ''INSTANCE_OF'', ''CONFORMS_TO'', ''CAPTURES_REVISION'', ''HAS_SNAPSHOT'', ''HAS_BLOB'']"

section \<open>References\<close>

text \<open>Edges the store has the authority over: the plan takes them as they are.\<close>

definition kept_edges :: "node_ref \<Rightarrow> string \<Rightarrow> node_value graph \<Rightarrow> plan_edge list" where
  "kept_edges f et g = map (\<lambda>e. (f, et, edge_to e)) (list_edges (Some f) (Some et) None g)"

definition binding_edge_types :: "string list" where
  "binding_edge_types = [''HAS_SOURCE_TREE'', ''HAS_ACTION_REVISION'', ''HAS_OBJECT_TYPE_REVISION'',
     ''HAS_RELATION_TYPE_REVISION'', ''HAS_TRIGGER_REVISION'', ''HAS_TEST'', ''DECLARES_DEPENDENCY'', ''DECLARES_SURFACE'']"

definition bound_edges :: "'m collection \<Rightarrow> node_value graph \<Rightarrow> plan_edge list" where
  "bound_edges c g =
     concat (map (\<lambda>r. concat (map (\<lambda>t. kept_edges (record_ref c r) t g) binding_edge_types)) (coll_values c g))"

text \<open>An edge from every record that has a value.\<close>

definition optional_edges ::
  "'m collection \<Rightarrow> string \<Rightarrow> string \<Rightarrow> ('m \<Rightarrow> string option) \<Rightarrow> node_value graph \<Rightarrow> plan_edge list" where
  "optional_edges c et label field g =
     List.map_filter (\<lambda>m. map_option (\<lambda>i. (record_ref c m, et, id_ref label i)) (field m)) (coll_values c g)"

text \<open>The value, when a record of that id exists.\<close>

definition if_stored :: "'t collection \<Rightarrow> node_value graph \<Rightarrow> string \<Rightarrow> string option" where
  "if_stored c g i = (if coll_get c (key i) g \<noteq> None then Some i else None)"

definition experience_edges :: "node_value graph \<Rightarrow> plan_edge list" where
  "experience_edges g = concat (map (\<lambda>r.
       (case exprev_parent_revision_id r of None \<Rightarrow> []
        | Some p \<Rightarrow> [(record_ref experience_revisions_coll r, ''PARENT_REVISION'', id_ref ''ExperienceRevision'' p)])
       @ map (\<lambda>a. (record_ref experience_revisions_coll r, ''USES_APPLICATION'', id_ref ''Application'' (access_application_id a)))
           (exprev_application_access r))
     (coll_values experience_revisions_coll g))"

definition relation_type_edges :: "node_value graph \<Rightarrow> plan_edge list" where
  "relation_type_edges g = concat (map (\<lambda>r.
       (case if_stored object_types_coll g (rtrev_from_object_type_id r) of None \<Rightarrow> []
        | Some i \<Rightarrow> [(record_ref relation_type_revisions_coll r, ''FROM_TYPE'', id_ref ''ObjectType'' i)])
       @ (case if_stored object_types_coll g (rtrev_to_object_type_id r) of None \<Rightarrow> []
        | Some i \<Rightarrow> [(record_ref relation_type_revisions_coll r, ''TO_TYPE'', id_ref ''ObjectType'' i)]))
     (coll_values relation_type_revisions_coll g))"

definition action_edges :: "node_value graph \<Rightarrow> plan_edge list" where
  "action_edges g = concat (map (\<lambda>r.
       map (\<lambda>i. (record_ref action_revisions_coll r, ''DEPENDS_ON'', id_ref ''RuntimeDependency'' i))
         (filter (\<lambda>i. coll_get runtime_dependencies_coll (key i) g \<noteq> None) (actrev_runtime_dependency_ids r))
       @ map (\<lambda>i. (record_ref action_revisions_coll r, ''USES_SECRET'', id_ref ''SecretReference'' i))
         (filter (\<lambda>i. coll_get secret_references_coll (key i) g \<noteq> None) (actrev_secret_refs r)))
     (coll_values action_revisions_coll g))"

definition object_edges :: "node_value graph \<Rightarrow> plan_edge list" where
  "object_edges g = concat (map (\<lambda>x.
       (record_ref objects_coll x, ''INSTANCE_OF'', id_ref ''ObjectType'' (obj_object_type_id x))
       # (case obj_object_type_revision_id x of None \<Rightarrow> []
          | Some i \<Rightarrow> [(record_ref objects_coll x, ''CONFORMS_TO'', id_ref ''ObjectTypeRevision'' i)]))
     (coll_values objects_coll g))"

definition credential_edges :: "node_value graph \<Rightarrow> plan_edge list" where
  "credential_edges g = concat (map (\<lambda>c.
       map (\<lambda>i. (record_ref credential_records_coll c, ''USES_SECRET'', id_ref ''SecretReference'' i)) (cred_secret_reference_ids c))
     (coll_values credential_records_coll g))"

definition route_edges :: "node_value graph \<Rightarrow> plan_edge list" where
  "route_edges g = concat (map (\<lambda>r.
       (record_ref callback_routes_coll r, ''TARGETS'', id_ref ''ActionRevision'' (route_target_action_revision_id r))
       # (case dict_get (route_metadata r) ''invocation_id'' of
            Some (JStr i) \<Rightarrow> [(record_ref callback_routes_coll r, ''INVOKED'', id_ref ''Invocation'' i)]
          | _ \<Rightarrow> []))
     (coll_values callback_routes_coll g))"

definition job_edges :: "node_value graph \<Rightarrow> plan_edge list" where
  "job_edges g = concat (map (\<lambda>j.
       (case job_invocation_id j of None \<Rightarrow> []
        | Some i \<Rightarrow> [(record_ref job_records_coll j, ''INVOKED'', id_ref ''Invocation'' i)])
       @ (case job_current_attempt_id j of None \<Rightarrow> []
        | Some i \<Rightarrow> [(record_ref job_records_coll j, ''CURRENT_ATTEMPT'', id_ref ''JobAttempt'' i)]))
     (coll_values job_records_coll g))"

definition audit_edges :: "node_value graph \<Rightarrow> plan_edge list" where
  "audit_edges g = concat (map (\<lambda>a.
       (case if_stored invocations_coll g (audit_invocation_id a) of None \<Rightarrow> []
        | Some i \<Rightarrow> [(id_ref ''Invocation'' i, ''HAS_CYPHER_AUDIT'', record_ref cypher_audits_coll a)])
       @ (case audit_checkpoint_id a of None \<Rightarrow> []
        | Some i \<Rightarrow> [(record_ref cypher_audits_coll a, ''AT_CHECKPOINT'', id_ref ''GraphCheckpoint'' i)]))
     (coll_values cypher_audits_coll g))"

definition reference_edges :: "node_value graph \<Rightarrow> plan_edge list" where
  "reference_edges g =
     bound_edges system_revisions_coll g @ bound_edges revisions_coll g @ bound_edges experience_revisions_coll g
     @ optional_edges revisions_coll ''PARENT_REVISION'' ''ApplicationRevision'' rev_parent_revision_id g
     @ experience_edges g @ relation_type_edges g @ action_edges g
     @ optional_edges trigger_revisions_coll ''INVOKES'' ''Action'' (\<lambda>r. if_stored actions_coll g (trigrev_action_id r)) g
     @ object_edges g @ credential_edges g @ route_edges g
     @ optional_edges test_cases_coll ''TESTS'' ''Action'' (\<lambda>t. if_stored actions_coll g (test_action_id t)) g
     @ optional_edges checkpoints_coll ''CAPTURES_REVISION'' ''ApplicationRevision'' ckpt_application_revision_id g
     @ optional_edges invocations_coll ''RAN'' ''ActionRevision'' (\<lambda>i. Some (inv_action_revision_id i)) g
     @ job_edges g @ optional_edges job_attempts_coll ''INVOKED'' ''Invocation'' att_invocation_id g @ audit_edges g"

record integrity_plan =
  plan_nodes :: "node_ref list"
  plan_edges :: "plan_edge list"
  plan_active :: "active_edge list"

text \<open>\<^verbatim>\<open>_dedupe\<close>, \<^verbatim>\<open>_dedupe_refs\<close>, \<^verbatim>\<open>_dedupe_edges\<close>: the first of every value stays.\<close>

fun dedupe_from :: "'a list \<Rightarrow> 'a list \<Rightarrow> 'a list" where
  "dedupe_from seen [] = []"
| "dedupe_from seen (x # xs) = (if x \<in> set seen then dedupe_from seen xs else x # dedupe_from (x # seen) xs)"

definition dedupe :: "'a list \<Rightarrow> 'a list" where
  "dedupe xs = dedupe_from [] xs"

definition build_plan :: "node_value graph \<Rightarrow> integrity_plan" where
  "build_plan g =
     \<lparr>plan_nodes = dedupe (root_ref # concat (map (\<lambda>d. d g) node_declarations)),
      plan_edges = dedupe (concat (map (\<lambda>d. d g) ownership_declarations)
        @ concat (map (\<lambda>d. fst d g) revision_declarations) @ reference_edges g),
      plan_active = concat (map (\<lambda>d. snd d g) revision_declarations)\<rparr>"

section \<open>Messages\<close>

datatype shape_message =
    Legacy_edge string
  | Missing_source node_ref
  | Missing_target node_ref
  | Missing_edge node_ref string node_ref
  | Singleton_count string node_ref nat
  | Active_count nat string node_ref nat
  | Active_target string node_ref node_ref
  | Missing_root
  | Unreachable node_ref
  | Unrecognized_relation string
  | Relation_ownership string
  | Relation_revision string
  | Relation_physical_type string
  | Relation_endpoints string
  | Relation_endpoint_types string
  | Access_target string string
  | Access_reference string string string
  | Source_tree_count string string
  | Source_tree_missing string string
  | Source_tree_working string string string
  | Source_tree_interned string string string
  | File_path string string
  | Surface_missing string
  | Surface_duplicate string string
  | Surface_mount string json string string
  | Surface_revised string

record shape_report =
  shape_errors :: "shape_message list"
  shape_warnings :: "shape_message list"

definition matching_edges :: "edge list \<Rightarrow> node_ref \<Rightarrow> string \<Rightarrow> node_ref option \<Rightarrow> edge list" where
  "matching_edges es f t to =
     filter (\<lambda>e. edge_from e = f \<and> edge_type e = t \<and> (to = None \<or> to = Some (edge_to e))) es"

definition edge_messages :: "node_ref list \<Rightarrow> edge list \<Rightarrow> plan_edge \<Rightarrow> shape_message list" where
  "edge_messages known actual p =
     (case p of (f, t, to) \<Rightarrow>
        if f \<notin> set known then [Missing_source f]
        else if to \<notin> set known then [Missing_target to]
        else (if matching_edges actual f t (Some to) = [] then [Missing_edge f t to] else [])
          @ (if t \<in> set singleton_edge_types \<and> length (matching_edges actual f t None) \<noteq> 1
             then [Singleton_count t f (length (matching_edges actual f t None))] else []))"

definition active_messages :: "edge list \<Rightarrow> active_edge \<Rightarrow> shape_message list" where
  "active_messages actual p =
     (case p of (f, t, expected) \<Rightarrow>
        let outgoing = matching_edges actual f t None; n = (case expected of None \<Rightarrow> 0 | Some _ \<Rightarrow> 1) in
        if length outgoing \<noteq> n then [Active_count n t f (length outgoing)]
        else (case (expected, outgoing) of
            (Some to, e # _) \<Rightarrow> if edge_to e \<noteq> to then [Active_target t f (edge_to e)] else []
          | _ \<Rightarrow> []))"

section \<open>Reachability\<close>

definition targets_of :: "edge list \<Rightarrow> node_ref \<Rightarrow> node_ref list" where
  "targets_of es f = map edge_to (filter (\<lambda>e. edge_from e = f) es)"

text \<open>The loop over \<^verbatim>\<open>pending\<close>: the head of the list is the end of the Python stack.\<close>

function reach_loop :: "edge list \<Rightarrow> node_ref list \<Rightarrow> node_ref list \<Rightarrow> node_ref list" where
  "reach_loop es [] reached = reached"
| "reach_loop es (f # pending) reached =
     (let new = filter (\<lambda>r. r \<notin> set reached) (remdups (targets_of es f))
      in reach_loop es (rev new @ pending) (reached @ new))"
  by pat_completeness auto

lemma reach_measure:
  assumes "new = filter (\<lambda>r. r \<notin> set reached) (remdups (targets_of es f))"
  shows "card (edge_to ` set es - set (reached @ new)) + length new = card (edge_to ` set es - set reached)"
proof -
  have d: "distinct new" and n: "set new \<subseteq> edge_to ` set es - set reached"
    using assms by (auto simp: targets_of_def)
  have "edge_to ` set es - set (reached @ new) = (edge_to ` set es - set reached) - set new" by auto
  then have "card (edge_to ` set es - set (reached @ new)) = card (edge_to ` set es - set reached) - card (set new)"
    using n by (simp add: card_Diff_subset)
  moreover have "card (set new) \<le> card (edge_to ` set es - set reached)" by (rule card_mono [OF _ n]) simp
  ultimately show ?thesis using distinct_card [OF d] by simp
qed

termination reach_loop
proof (relation "measure (\<lambda>(es, pending, reached). card (edge_to ` set es - set reached) + length pending)", goal_cases)
  case 1
  show ?case by simp
next
  case (2 es f pending reached new)
  from reach_measure [OF 2] show ?case by simp
qed

definition optional_labels :: "string list" where
  "optional_labels = [''SourceContent'', ''ActionRevision'', ''ObjectTypeRevision'', ''RelationTypeRevision'',
     ''TriggerRevision'', ''TestCase'', ''RuntimeDependency'', ''ExperienceSurface'']"

definition may_be_unreachable :: "node_value graph \<Rightarrow> node_ref \<Rightarrow> bool" where
  "may_be_unreachable g r \<longleftrightarrow> ref_label r \<in> set optional_labels \<or>
     ref_label r = ''SourceTree'' \<and>
       (case coll_get source_trees_coll (key (ref_id r)) g of None \<Rightarrow> False | Some t \<Rightarrow> tree_status t = Tree_interned)"

definition validate_reachability :: "node_ref list \<Rightarrow> node_value graph \<Rightarrow> shape_message list \<times> shape_message list" where
  "validate_reachability known g =
     (if root_ref \<notin> set known \<or> get_node ''N4XRoot'' (key ''n4x'') g = None then ([Missing_root], [])
      else (let reachable = reach_loop (edges g) [root_ref] [root_ref];
                lost = filter (\<lambda>r. r \<noteq> root_ref \<and> r \<notin> set reachable) known
            in (map Unreachable (filter (\<lambda>r. \<not> may_be_unreachable g r) lost),
                map Unreachable (filter (may_be_unreachable g) lost))))"

section \<open>Validation of records and edges\<close>

definition validate_app_relations :: "(string \<Rightarrow> string) \<Rightarrow> node_value graph \<Rightarrow> shape_message list" where
  "validate_app_relations sha g =
     (let relations = relation_list_all g in
      concat (map (\<lambda>e.
          if \<not> starts_with ''APP_REL_'' (edge_type e) then []
          else (case props_rel_key (edge_props e) of
              None \<Rightarrow> [Unrecognized_relation (edge_type e)]
            | Some k \<Rightarrow> if k \<in> rel_key_of ` set relations then [] else [Unrecognized_relation (edge_type e)])) (edges g))
      @ concat (map (\<lambda>r.
          (case coll_get relation_types_coll (key (rel_relation_type_id r)) g of
             None \<Rightarrow> [Relation_ownership (rel_id r)]
           | Some rt \<Rightarrow>
             if rtype_application_id rt \<noteq> rel_application_id r then [Relation_ownership (rel_id r)]
             else (case (case rel_relation_type_revision_id r of None \<Rightarrow> None
                         | Some i \<Rightarrow> coll_get relation_type_revisions_coll (key i) g) of
                 None \<Rightarrow> [Relation_revision (rel_id r)]
               | Some rr \<Rightarrow>
                 (let expected = relation_physical_type sha (rel_relation_type_id r) in
                  (if rel_physical_type r \<noteq> Some expected \<or> rtrev_physical_type rr \<noteq> expected
                   then [Relation_physical_type (rel_id r)] else [])
                  @ (case (object_get (rel_application_id r) (rel_from_object_id r) (rel_data_space_id r) g,
                           object_get (rel_application_id r) (rel_to_object_id r) (rel_data_space_id r) g) of
                      (Some x, Some y) \<Rightarrow>
                        if obj_application_id x \<noteq> rel_application_id r \<or> obj_application_id y \<noteq> rel_application_id r
                        then [Relation_endpoints (rel_id r)]
                        else if obj_object_type_id x \<noteq> rtrev_from_object_type_id rr \<or>
                                obj_object_type_id y \<noteq> rtrev_to_object_type_id rr
                        then [Relation_endpoint_types (rel_id r)] else []
                    | _ \<Rightarrow> [Relation_endpoints (rel_id r)]))))) relations))"

text \<open>The declared ids of one kind: what they name must belong to the Application.\<close>

definition access_messages ::
  "string \<Rightarrow> string \<Rightarrow> string list option \<Rightarrow> (string \<Rightarrow> string option) \<Rightarrow> string \<Rightarrow> shape_message list" where
  "access_messages kind rid ids owner app =
     (case ids of None \<Rightarrow> []
      | Some is \<Rightarrow> map (\<lambda>i. Access_reference kind rid i) (filter (\<lambda>i. owner i \<noteq> Some app) is))"

definition validate_experience_references :: "node_value graph \<Rightarrow> shape_message list" where
  "validate_experience_references g =
     concat (map (\<lambda>r. concat (map (\<lambda>a.
         (case coll_get applications_coll (key (access_application_id a)) g of
            None \<Rightarrow> [Access_target (exprev_id r) (access_application_id a)]
          | Some p \<Rightarrow>
              access_messages ''object type'' (exprev_id r) (access_object_type_ids a)
                (\<lambda>i. map_option otype_application_id (coll_get object_types_coll (key i) g)) (app_id p)
              @ access_messages ''relation type'' (exprev_id r) (access_relation_type_ids a)
                (\<lambda>i. map_option rtype_application_id (coll_get relation_types_coll (key i) g)) (app_id p)
              @ access_messages ''action'' (exprev_id r) (access_action_ids a)
                (\<lambda>i. map_option act_application_id (coll_get actions_coll (key i) g)) (app_id p)
              @ access_messages ''secret reference'' (exprev_id r) (access_secret_reference_ids a)
                (\<lambda>i. map_option secret_application_id (coll_get secret_references_coll (key i) g)) (app_id p)))
         (exprev_application_access r)))
       (coll_values experience_revisions_coll g))"

definition source_tree_messages :: "node_value graph \<Rightarrow> string \<Rightarrow> string \<Rightarrow> shape_message list" where
  "source_tree_messages g label rid =
     (case matching_edges (edges g) (id_ref label rid) ''HAS_SOURCE_TREE'' None of
        [e] \<Rightarrow>
          (case coll_get source_trees_coll (key (ref_id (edge_to e))) g of
             None \<Rightarrow> [Source_tree_missing label rid]
           | Some t \<Rightarrow>
             (case tree_status t of
                Tree_draft \<Rightarrow> if tree_id t \<noteq> rid @ ''.source'' \<or> tree_owner_id t \<noteq> Some rid
                  then [Source_tree_working label rid (tree_id t)] else []
              | Tree_interned \<Rightarrow> if tree_id t \<noteq> tree_tree_hash t
                  then [Source_tree_interned label rid (tree_id t)] else []))
      | _ \<Rightarrow> [Source_tree_count label rid])"

text \<open>The loop over the files of a tree; a path that is no text counts as empty.\<close>

fun file_messages :: "string \<Rightarrow> string list \<Rightarrow> edge list \<Rightarrow> shape_message list" where
  "file_messages tid paths [] = []"
| "file_messages tid paths (e # es) =
     (let path = (case dict_get (edge_props e) ''path'' of Some (JStr p) \<Rightarrow> p | _ \<Rightarrow> []) in
      (if path = [] \<or> path \<in> set paths then [File_path tid path] else []) @ file_messages tid (path # paths) es)"

definition validate_revision_source_ownership :: "node_value graph \<Rightarrow> shape_message list" where
  "validate_revision_source_ownership g =
     concat (map (\<lambda>r. source_tree_messages g ''SystemRevision'' (sysrev_id r)) (coll_values system_revisions_coll g))
     @ concat (map (\<lambda>r. source_tree_messages g ''ApplicationRevision'' (rev_id r)) (coll_values revisions_coll g))
     @ concat (map (\<lambda>r. source_tree_messages g ''ExperienceRevision'' (exprev_id r)) (coll_values experience_revisions_coll g))
     @ concat (map (\<lambda>t. file_messages (tree_id t) []
           (matching_edges (edges g) (id_ref ''SourceTree'' (tree_id t)) ''HAS_FILE'' None)) (coll_values source_trees_coll g))"

text \<open>
  The loop over the surfaces one revision declares, with the surface ids and the mounts seen so far. A
  browser surface without \<^verbatim>\<open>mount_path\<close> in its configuration raises \<^verbatim>\<open>KeyError\<close>.
\<close>

fun surface_messages ::
  "node_value graph \<Rightarrow> string \<Rightarrow> string list \<Rightarrow> (json, string) dict \<Rightarrow> edge list \<Rightarrow> exn + shape_message list" where
  "surface_messages g rid ids mounts [] = Inr []"
| "surface_messages g rid ids mounts (e # es) =
     (case coll_get experience_surfaces_coll (key (ref_id (edge_to e))) g of
        None \<Rightarrow> rbind (surface_messages g rid ids mounts es) (\<lambda>ms. Inr (Surface_missing rid # ms))
      | Some s \<Rightarrow>
          (let i = surf_surface_id s;
               twice = (if i \<in> set ids then [Surface_duplicate i rid] else []);
               revised = (if list_ex (\<lambda>x. (edge_from x = edge_to e \<or> edge_to x = edge_to e) \<and>
                   edge_type x \<in> {''HAS_REVISION'', ''ACTIVE_REVISION''}) (edges g) then [Surface_revised i] else [])
           in if surf_surface_type s = ''browser''
              then (case dict_get (surf_config s) ''mount_path'' of
                  None \<Rightarrow> Inl (KeyError ''mount_path'')
                | Some m \<Rightarrow>
                    rbind (surface_messages g rid (i # ids) (dict_set m i mounts) es) (\<lambda>ms.
                    Inr (twice @ (case dict_get mounts m of None \<Rightarrow> [] | Some j \<Rightarrow> [Surface_mount rid m j i]) @ revised @ ms)))
              else rbind (surface_messages g rid (i # ids) mounts es) (\<lambda>ms. Inr (twice @ revised @ ms))))"

definition validate_surfaces :: "node_value graph \<Rightarrow> exn + shape_message list" where
  "validate_surfaces g =
     rbind (map_result (\<lambda>r. surface_messages g (exprev_id r) [] []
         (matching_edges (edges g) (id_ref ''ExperienceRevision'' (exprev_id r)) ''DECLARES_SURFACE'' None))
       (coll_values experience_revisions_coll g)) (\<lambda>mss. Inr (concat mss))"

section \<open>The report and the repair\<close>

definition legacy_edge_types :: "string list" where
  "legacy_edge_types = [''N4X_KERNEL'', ''N4X_RELATION'']"

definition validate_shape :: "(string \<Rightarrow> string) \<Rightarrow> node_value graph \<Rightarrow> exn + shape_report" where
  "validate_shape sha g =
     (let plan = build_plan g; (unreachable, warned) = validate_reachability (plan_nodes plan) g in
      rbind (validate_surfaces g) (\<lambda>surfaces.
      Inr \<lparr>shape_errors = dedupe
             (map Legacy_edge (validate_graph_shape g)
              @ concat (map (edge_messages (plan_nodes plan) (edges g)) (plan_edges plan))
              @ concat (map (active_messages (edges g)) (plan_active plan))
              @ unreachable @ validate_app_relations sha g @ validate_experience_references g
              @ validate_revision_source_ownership g @ surfaces),
           shape_warnings = dedupe warned\<rparr>))"

definition drop_legacy_edges :: "node_value graph \<Rightarrow> node_value graph" where
  "drop_legacy_edges g =
     fold (\<lambda>e. if edge_type e \<in> set legacy_edge_types then delete_edge (edge_from e) (edge_type e) (Some (edge_to e)) None else id)
       (edges g) g"

definition repair_edge :: "node_ref list \<Rightarrow> plan_edge \<Rightarrow> node_value graph \<Rightarrow> node_value graph" where
  "repair_edge known p g =
     (case p of (f, t, to) \<Rightarrow>
        if f \<notin> set known \<or> to \<notin> set known then g
        else create_edge f t to [] (if t \<in> set singleton_edge_types then delete_edge f t None None g else g))"

definition repair_active :: "node_ref list \<Rightarrow> active_edge \<Rightarrow> node_value graph \<Rightarrow> node_value graph" where
  "repair_active known p g =
     (case p of (f, t, expected) \<Rightarrow>
        let g1 = delete_edge f t None None g in
        (case expected of None \<Rightarrow> g1 | Some to \<Rightarrow> if to \<in> set known then create_edge f t to [] g1 else g1))"

definition repaired :: "node_value graph \<Rightarrow> node_value graph" where
  "repaired g =
     (let plan = build_plan g in
      fold (repair_active (plan_nodes plan)) (plan_active plan)
        (fold (repair_edge (plan_nodes plan)) (plan_edges plan) (drop_legacy_edges g)))"

definition repair_graph_edges :: "(string \<Rightarrow> string) \<Rightarrow> (node_value graph, shape_report) op" where
  "repair_graph_edges sha g =
     (let h = repaired (bootstrap_schema RootNode g) in (validate_shape sha h, h))"

section \<open>The version of the graph\<close>

definition graph_metamodel_version :: string where
  "graph_metamodel_version = ''n4x.graph.metamodel.v6''"

text \<open>The version is a property of the root node, kept here beside the graph.\<close>

record versioned =
  ver_graph :: "node_value graph"
  ver_version :: "string option"

definition initialize_graph_root :: "(versioned, bool) op" where
  "initialize_graph_root s =
     (let root = get_node ''N4XRoot'' (key ''n4x'') (ver_graph s);
          version = (case root of None \<Rightarrow> None | Some _ \<Rightarrow> ver_version s) in
      if version = Some graph_metamodel_version then (Inr False, s)
      else if version = None \<and> node_count (ver_graph s) = (case root of None \<Rightarrow> 0 | Some _ \<Rightarrow> 1)
      then (Inr True, \<lparr>ver_graph = upsert_node ''N4XRoot'' (key ''n4x'')
             (case root of None \<Rightarrow> RootNode | Some v \<Rightarrow> v) (ver_graph s), ver_version = Some graph_metamodel_version\<rparr>)
      else (Inl (GraphMetamodelVersionError (''graph reset required: expected graph metamodel '' @ graph_metamodel_version)), s))"

definition bootstrap_root :: "(versioned, bool) op" where
  "bootstrap_root s = initialize_graph_root (s\<lparr>ver_graph := bootstrap_schema RootNode (ver_graph s)\<rparr>)"

definition reset_dev_graph :: "(string \<Rightarrow> string) \<Rightarrow> (versioned, shape_report) op" where
  "reset_dev_graph sha =
     bindE (\<lambda>s. (Inr (), \<lparr>ver_graph = bootstrap_schema RootNode (bootstrap_schema RootNode empty_graph), ver_version = None\<rparr>)) (\<lambda>_.
     bindE initialize_graph_root (\<lambda>_.
     (\<lambda>s. (validate_shape sha (ver_graph s), s))))"

end
