(* ===== verification/Integrity_Laws.thy ===== *)
theory Integrity_Laws
  imports Graph_Integrity
begin

text \<open>
  Laws of the audit: the worklist computes reachability, a report without errors says what the graph
  is like, and what the repair establishes.
\<close>

section \<open>Reachability\<close>

definition edge_step :: "edge list \<Rightarrow> (node_ref \<times> node_ref) set" where
  "edge_step es = {(edge_from e, edge_to e) |e. e \<in> set es}"

lemma targets_step: "t \<in> set (targets_of es f) \<longleftrightarrow> (f, t) \<in> edge_step es"
  by (auto simp: targets_of_def edge_step_def image_iff)

text \<open>What is reached but no longer pending has all its successors reached.\<close>

definition closed_but :: "edge list \<Rightarrow> node_ref list \<Rightarrow> node_ref list \<Rightarrow> bool" where
  "closed_but es pending reached \<longleftrightarrow>
     set pending \<subseteq> set reached \<and> (\<forall>f\<in>set reached - set pending. \<forall>t. (f, t) \<in> edge_step es \<longrightarrow> t \<in> set reached)"

lemma reach_loop_closed:
  "closed_but es pending reached \<Longrightarrow> closed_but es [] (reach_loop es pending reached) \<and>
     set reached \<subseteq> set (reach_loop es pending reached)"
proof (induction es pending reached rule: reach_loop.induct)
  case (2 es f pending reached)
  let ?new = "filter (\<lambda>r. r \<notin> set reached) (remdups (targets_of es f))"
  have "closed_but es (rev ?new @ pending) (reached @ ?new)"
    using 2(2) by (auto simp: closed_but_def targets_step)
  from 2(1) [OF refl this] show ?case by (auto simp: Let_def)
qed auto

lemma reach_loop_sound:
  "set reached \<subseteq> (edge_step es)\<^sup>* `` A \<Longrightarrow> set pending \<subseteq> set reached \<Longrightarrow> set (reach_loop es pending reached) \<subseteq> (edge_step es)\<^sup>* `` A"
proof (induction es pending reached rule: reach_loop.induct)
  case (2 es f pending reached)
  let ?new = "filter (\<lambda>r. r \<notin> set reached) (remdups (targets_of es f))"
  have "f \<in> (edge_step es)\<^sup>* `` A" using 2(2,3) by auto
  then have "set ?new \<subseteq> (edge_step es)\<^sup>* `` A" by (auto simp: targets_step intro: rtrancl_into_rtrancl)
  with 2(2,3) have "set (reached @ ?new) \<subseteq> (edge_step es)\<^sup>* `` A" "set (rev ?new @ pending) \<subseteq> set (reached @ ?new)" by auto
  from 2(1) [OF refl this] show ?case by (simp add: Let_def)
qed simp

theorem reach_loop_exact: "set (reach_loop es [r] [r]) = {x. (r, x) \<in> (edge_step es)\<^sup>*}"
proof
  show "set (reach_loop es [r] [r]) \<subseteq> {x. (r, x) \<in> (edge_step es)\<^sup>*}"
    using reach_loop_sound [of "[r]" es "{r}" "[r]"] by auto
  have closed: "closed_but es [] (reach_loop es [r] [r])" "r \<in> set (reach_loop es [r] [r])"
    using reach_loop_closed [of es "[r]" "[r]"] by (auto simp: closed_but_def)
  have "x \<in> set (reach_loop es [r] [r])" if "(r, x) \<in> (edge_step es)\<^sup>*" for x
    using that by (induction rule: rtrancl_induct) (use closed in \<open>auto simp: closed_but_def\<close>)
  then show "{x. (r, x) \<in> (edge_step es)\<^sup>*} \<subseteq> set (reach_loop es [r] [r])" by auto
qed

section \<open>Reports\<close>

lemma set_dedupe [simp]: "set (dedupe xs) = set xs"
proof -
  have "set (dedupe_from seen xs) = set xs - set seen" for seen
    by (induction xs arbitrary: seen) auto
  then show ?thesis by (simp add: dedupe_def)
qed

lemma dedupe_Nil [simp]: "dedupe xs = [] \<longleftrightarrow> xs = []"
  using set_dedupe [of xs] by (metis set_empty2)

lemma matching_list: "matching_edges (edges g) f t to = list_edges (Some f) (Some t) to g"
  by (auto simp: matching_edges_def list_edges_def matches_edge_def intro!: filter_cong)

lemma clean_report:
  assumes "validate_shape sha g = Inr r" and "shape_errors r = []"
  shows "\<And>p. p \<in> set (plan_edges (build_plan g)) \<Longrightarrow> edge_messages (plan_nodes (build_plan g)) (edges g) p = []"
    and "\<And>p. p \<in> set (plan_active (build_plan g)) \<Longrightarrow> active_messages (edges g) p = []"
    and "fst (validate_reachability (plan_nodes (build_plan g)) g) = []" and "validate_app_relations sha g = []"
    and "validate_experience_references g = []" and "validate_revision_source_ownership g = []"
    and "validate_surfaces g = Inr []" and "validate_graph_shape g = []"
  using assms by (auto simp: validate_shape_def Let_def rbind_eq_Inr split: prod.split_asm)

lemma edge_messages_clean:
  "edge_messages known (edges g) (f, t, to) = [] \<longleftrightarrow>
     f \<in> set known \<and> to \<in> set known \<and> has_edge f t (Some to) g \<and>
     (t \<in> set singleton_edge_types \<longrightarrow> length (list_edges (Some f) (Some t) None g) = 1)"
  by (auto simp: edge_messages_def matching_list has_edge_def)

lemma active_messages_clean:
  "active_messages (edges g) (f, t, x) = [] \<longleftrightarrow> edge_targets g f t = (case x of None \<Rightarrow> [] | Some to \<Rightarrow> [to])"
  by (auto simp: active_messages_def matching_list edge_targets_def Let_def length_Suc_conv split: option.split list.split)

lemma validate_reachability_clean:
  "fst (validate_reachability known g) = [] \<longleftrightarrow>
     root_ref \<in> set known \<and> get_node ''N4XRoot'' (key ''n4x'') g \<noteq> None \<and>
     (\<forall>r\<in>set known. (root_ref, r) \<in> (edge_step (edges g))\<^sup>* \<or> may_be_unreachable g r)"
  by (auto simp: validate_reachability_def Let_def filter_empty_conv reach_loop_exact
      simp del: reach_loop.simps)

text \<open>A relation between two objects of the types its revision names.\<close>

definition relation_shaped :: "node_value graph \<Rightarrow> app_relation \<Rightarrow> bool" where
  "relation_shaped g r \<longleftrightarrow>
     (\<exists>rt rr i x y. coll_get relation_types_coll (key (rel_relation_type_id r)) g = Some rt \<and>
        rtype_application_id rt = rel_application_id r \<and> rel_relation_type_revision_id r = Some i \<and>
        coll_get relation_type_revisions_coll (key i) g = Some rr \<and>
        object_get (rel_application_id r) (rel_from_object_id r) (rel_data_space_id r) g = Some x \<and>
        object_get (rel_application_id r) (rel_to_object_id r) (rel_data_space_id r) g = Some y \<and>
        obj_object_type_id x = rtrev_from_object_type_id rr \<and> obj_object_type_id y = rtrev_to_object_type_id rr \<and>
        rel_physical_type r = Some (rtrev_physical_type rr))"

lemma validate_relations_clean:
  assumes "validate_app_relations sha g = []" and "r \<in> set (relation_list_all g)"
  shows "relation_shaped g r"
proof -
  let ?m = "\<lambda>r. (case coll_get relation_types_coll (key (rel_relation_type_id r)) g of
             None \<Rightarrow> [Relation_ownership (rel_id r)]
           | Some rt \<Rightarrow>
             if rtype_application_id rt \<noteq> rel_application_id r then [Relation_ownership (rel_id r)]
             else (case (case rel_relation_type_revision_id r of None \<Rightarrow> None
                         | Some i \<Rightarrow> coll_get relation_type_revisions_coll (key i) g) of
                 None \<Rightarrow> [Relation_revision (rel_id r)]
               | Some rr \<Rightarrow>
                 (let expected = relation_physical_type sha (rel_relation_type_id r) in
                  (if rel_physical_type r \<noteq> Some expected \<or> rtrev_physical_type rr \<noteq> expected
                   then [Relation_physical_type (rel_id r)] else [])
                  @ (case (object_get (rel_application_id r) (rel_from_object_id r) (rel_data_space_id r) g,
                           object_get (rel_application_id r) (rel_to_object_id r) (rel_data_space_id r) g) of
                      (Some x, Some y) \<Rightarrow>
                        if obj_application_id x \<noteq> rel_application_id r \<or> obj_application_id y \<noteq> rel_application_id r
                        then [Relation_endpoints (rel_id r)]
                        else if obj_object_type_id x \<noteq> rtrev_from_object_type_id rr \<or>
                                obj_object_type_id y \<noteq> rtrev_to_object_type_id rr
                        then [Relation_endpoint_types (rel_id r)] else []
                    | _ \<Rightarrow> [Relation_endpoints (rel_id r)]))))"
  have "?m r = []" using assms by (auto simp: validate_app_relations_def Let_def)
  then show ?thesis
    by (auto simp: relation_shaped_def Let_def split: option.split_asm if_split_asm)
qed

section \<open>What the plan contains\<close>

definition plan_edge_types :: "string set" where
  "plan_edge_types = {''HAS_SYSTEM'', ''HAS_APPLICATION'', ''HAS_DATA_SPACE'', ''HAS_DEVELOPMENT_DEPLOYMENT'', ''HAS_EXPERIENCE'',
     ''HAS_AUTHORING_GUIDE'', ''HAS_UI_THEME'', ''HAS_BLUEPRINT'', ''DEFINES_OBJECT_TYPE'', ''DEFINES_RELATION_TYPE'',
     ''DEFINES_ACTION'', ''DEFINES_TRIGGER'', ''OWNS_OBJECT'', ''HAS_SECRET_REFERENCE'', ''HAS_CREDENTIAL'',
     ''HAS_CALLBACK_ROUTE'', ''HAS_VALIDATION_REPORT'', ''HAS_CHECKPOINT'', ''HAS_SNAPSHOT'', ''HAS_BLOB'',
     ''HAS_PACKAGE_IMPORT_ATTEMPT'', ''HAS_INVOCATION'', ''HAS_JOB'', ''HAS_ATTEMPT'', ''HAS_CYPHER_AUDIT'',
     ''USES_PYTHON_ENV'', ''USES_JAVASCRIPT_ENV'', ''HAS_BUILD_INVOCATION'', ''HAS_BUILD_ARTIFACT'', ''PRODUCED'',
     ''HAS_REVISION'', ''HAS_SOURCE_TREE'', ''HAS_ACTION_REVISION'', ''HAS_OBJECT_TYPE_REVISION'',
     ''HAS_RELATION_TYPE_REVISION'', ''HAS_TRIGGER_REVISION'', ''HAS_TEST'', ''DECLARES_DEPENDENCY'', ''DECLARES_SURFACE'',
     ''PARENT_REVISION'', ''USES_APPLICATION'', ''FROM_TYPE'', ''TO_TYPE'', ''DEPENDS_ON'', ''USES_SECRET'', ''INVOKES'',
     ''INSTANCE_OF'', ''CONFORMS_TO'', ''TARGETS'', ''INVOKED'', ''TESTS'', ''CAPTURES_REVISION'', ''RAN'',
     ''CURRENT_ATTEMPT'', ''AT_CHECKPOINT''}"

definition types_in :: "string set \<Rightarrow> plan_edge list \<Rightarrow> bool" where
  "types_in T ps \<longleftrightarrow> (\<forall>(f, t, to)\<in>set ps. t \<in> T)"

lemma types_in_simps:
  "types_in T []" "types_in T (p # ps) \<longleftrightarrow> fst (snd p) \<in> T \<and> types_in T ps"
  "types_in T (ps @ qs) \<longleftrightarrow> types_in T ps \<and> types_in T qs"
  "types_in T (concat pss) \<longleftrightarrow> (\<forall>ps\<in>set pss. types_in T ps)"
  by (auto simp: types_in_def ball_Un)

lemma types_in_map: "(\<And>x. x \<in> set xs \<Longrightarrow> fst (snd (k x)) \<in> T) \<Longrightarrow> types_in T (map k xs)"
  by (auto simp: types_in_def) (metis fst_conv snd_conv)

lemma types_in_owned: "t \<in> T \<Longrightarrow> types_in T (owned c t owner g)"
  and types_in_root: "t \<in> T \<Longrightarrow> types_in T (owned_by_root c t g)"
  and types_in_by: "t \<in> T \<Longrightarrow> types_in T (owned_by c t l field g)"
  and types_in_revised: "''HAS_REVISION'' \<in> T \<Longrightarrow> types_in T (revised s r own g)"
  and types_in_optional: "t \<in> T \<Longrightarrow> types_in T (optional_edges c t l val g)"
  and types_in_kept: "t \<in> T \<Longrightarrow> types_in T (kept_edges f t g)"
  by (auto simp: types_in_def owned_def owned_by_root_def owned_by_def revised_def optional_edges_def kept_edges_def
      List.map_filter_def)

lemma types_in_bound: "set binding_edge_types \<subseteq> T \<Longrightarrow> types_in T (bound_edges c g)"
  by (auto simp: bound_edges_def types_in_simps intro!: types_in_kept)

lemma plan_types:
  "types_in plan_edge_types (plan_edges (build_plan g))"
proof -
  have own: "types_in plan_edge_types (concat (map (\<lambda>d. d g) ownership_declarations))"
    unfolding ownership_declarations_def
    by (simp add: types_in_simps) (intro conjI types_in_owned types_in_root types_in_by; simp add: plan_edge_types_def)
  have rev: "types_in plan_edge_types (concat (map (\<lambda>d. fst d g) revision_declarations))"
    unfolding revision_declarations_def
    by (simp add: types_in_simps) (intro conjI types_in_revised; simp add: plan_edge_types_def)
  have bind: "set binding_edge_types \<subseteq> plan_edge_types" by (simp add: binding_edge_types_def plan_edge_types_def)
  have m: "''PARENT_REVISION'' \<in> plan_edge_types" "''USES_APPLICATION'' \<in> plan_edge_types" "''FROM_TYPE'' \<in> plan_edge_types"
    "''TO_TYPE'' \<in> plan_edge_types" "''DEPENDS_ON'' \<in> plan_edge_types" "''USES_SECRET'' \<in> plan_edge_types"
    "''INVOKES'' \<in> plan_edge_types" "''INSTANCE_OF'' \<in> plan_edge_types" "''CONFORMS_TO'' \<in> plan_edge_types"
    "''TARGETS'' \<in> plan_edge_types" "''INVOKED'' \<in> plan_edge_types" "''TESTS'' \<in> plan_edge_types"
    "''CAPTURES_REVISION'' \<in> plan_edge_types" "''RAN'' \<in> plan_edge_types" "''CURRENT_ATTEMPT'' \<in> plan_edge_types"
    "''HAS_CYPHER_AUDIT'' \<in> plan_edge_types" "''AT_CHECKPOINT'' \<in> plan_edge_types" by (simp_all add: plan_edge_types_def)
  have "types_in plan_edge_types (reference_edges g)"
    unfolding reference_edges_def experience_edges_def relation_type_edges_def action_edges_def object_edges_def
      credential_edges_def route_edges_def job_edges_def audit_edges_def
    by (simp add: types_in_simps types_in_bound [OF bind] types_in_optional m)
      (auto simp: types_in_simps types_in_map m split: option.split json.split)
  with own rev show ?thesis by (auto simp: build_plan_def types_in_def)
qed

section \<open>Repair\<close>

lemma targets_delete:
  "edge_targets (delete_edge f t None None g) f' t' = (if (f', t') = (f, t) then [] else edge_targets g f' t')"
  by (simp add: edge_targets_def graph_simps)

lemma targets_create_other:
  "(f', t') \<noteq> (f, t) \<Longrightarrow> edge_targets (create_edge f t to p g) f' t' = edge_targets g f' t'"
  by (simp add: edge_targets_def list_edges_create_frame)

lemma targets_create_first:
  "t \<noteq> ''HAS_FILE'' \<Longrightarrow> edge_targets g f t = [] \<Longrightarrow> edge_targets (create_edge f t to p g) f t = [to]"
  by (simp add: edge_targets_def targets_create_edge Let_def)

lemma repair_edge_other: "(f', t') \<noteq> (f, t) \<Longrightarrow> edge_targets (repair_edge K (f, t, to) g) f' t' = edge_targets g f' t'"
  by (auto simp: repair_edge_def targets_delete targets_create_other)

lemma repair_edge_targets:
  assumes "t \<noteq> ''HAS_FILE''"
  shows "t \<notin> set singleton_edge_types \<Longrightarrow> set (edge_targets (repair_edge K (f, t, to) g) f' t') =
      set (edge_targets g f' t') \<union> (if f = f' \<and> t = t' \<and> f \<in> set K \<and> to \<in> set K then {to} else {})"
    and "t \<in> set singleton_edge_types \<Longrightarrow> edge_targets (repair_edge K (f, t, to) g) f' t' =
      (if f = f' \<and> t = t' \<and> f \<in> set K \<and> to \<in> set K then [to] else edge_targets g f' t')"
proof -
  show "set (edge_targets (repair_edge K (f, t, to) g) f' t') =
      set (edge_targets g f' t') \<union> (if f = f' \<and> t = t' \<and> f \<in> set K \<and> to \<in> set K then {to} else {})"
    if "t \<notin> set singleton_edge_types"
    using that assms by (auto simp: repair_edge_def edge_targets_grow)
  show "edge_targets (repair_edge K (f, t, to) g) f' t' =
      (if f = f' \<and> t = t' \<and> f \<in> set K \<and> to \<in> set K then [to] else edge_targets g f' t')"
    if "t \<in> set singleton_edge_types"
    using that assms by (auto simp: repair_edge_def targets_delete targets_create_other targets_create_first)
qed

text \<open>The planned targets of a type from a node, as far as both ends are known.\<close>

definition planned :: "node_ref list \<Rightarrow> plan_edge list \<Rightarrow> node_ref \<Rightarrow> string \<Rightarrow> node_ref list" where
  "planned K ps f t = map (\<lambda>p. snd (snd p)) (filter (\<lambda>p. fst p = f \<and> fst (snd p) = t \<and> f \<in> set K \<and> snd (snd p) \<in> set K) ps)"

lemma planned_simps:
  "planned K [] f t = []"
  "planned K ((f', t', to) # ps) f t = (if f' = f \<and> t' = t \<and> f \<in> set K \<and> to \<in> set K then to # planned K ps f t else planned K ps f t)"
  by (auto simp: planned_def)

lemma repair_edges_targets:
  assumes "types_in T ps" and "''HAS_FILE'' \<notin> T"
  shows "t \<notin> set singleton_edge_types \<Longrightarrow>
      set (edge_targets (fold (repair_edge K) ps g) f t) = set (edge_targets g f t) \<union> set (planned K ps f t)"
    and "t \<in> set singleton_edge_types \<Longrightarrow> edge_targets (fold (repair_edge K) ps g) f t =
      (if planned K ps f t = [] then edge_targets g f t else [last (planned K ps f t)])"
proof -
  have "(t \<notin> set singleton_edge_types \<longrightarrow>
      set (edge_targets (fold (repair_edge K) ps g) f t) = set (edge_targets g f t) \<union> set (planned K ps f t)) \<and>
    (t \<in> set singleton_edge_types \<longrightarrow> edge_targets (fold (repair_edge K) ps g) f t =
      (if planned K ps f t = [] then edge_targets g f t else [last (planned K ps f t)]))"
    using assms(1)
  proof (induction ps arbitrary: g)
    case (Cons p ps)
    obtain f' t' to where p: "p = (f', t', to)" by (cases p)
    have h: "t' \<noteq> ''HAS_FILE''" and ps: "types_in T ps" using Cons.prems assms(2) by (auto simp: types_in_simps p)
    note one = repair_edge_targets [OF h, of K f' to g f t]
    show ?case
    proof (cases "f' = f \<and> t' = t")
      case True
      with Cons.IH [OF ps, of "repair_edge K p g"] one show ?thesis by (auto simp: p planned_simps)
    next
      case False
      then have "edge_targets (repair_edge K p g) f t = edge_targets g f t" by (auto simp: p repair_edge_other)
      with Cons.IH [OF ps, of "repair_edge K p g"] False show ?thesis by (auto simp: p planned_simps)
    qed
  qed (simp add: planned_simps)
  then show "t \<notin> set singleton_edge_types \<Longrightarrow>
      set (edge_targets (fold (repair_edge K) ps g) f t) = set (edge_targets g f t) \<union> set (planned K ps f t)"
    and "t \<in> set singleton_edge_types \<Longrightarrow> edge_targets (fold (repair_edge K) ps g) f t =
      (if planned K ps f t = [] then edge_targets g f t else [last (planned K ps f t)])" by blast+
qed

lemma repair_active_targets:
  assumes "t \<noteq> ''HAS_FILE''"
  shows "edge_targets (repair_active K (f, t, x) g) f' t' =
     (if f = f' \<and> t = t' then (case x of None \<Rightarrow> [] | Some to \<Rightarrow> if to \<in> set K then [to] else []) else edge_targets g f' t')"
  using assms by (auto simp: repair_active_def Let_def targets_delete targets_create_other targets_create_first split: option.split)

lemma repair_actives_other:
  assumes "\<forall>p\<in>set ps. fst (snd p) = ''ACTIVE_REVISION''" and "f \<notin> fst ` set ps \<or> t \<noteq> ''ACTIVE_REVISION''"
  shows "edge_targets (fold (repair_active K) ps g) f t = edge_targets g f t"
  using assms
proof (induction ps arbitrary: g)
  case (Cons p ps)
  then show ?case by (cases p) (auto simp: repair_active_targets)
qed simp

lemma repair_actives_targets:
  assumes "\<forall>p\<in>set ps. fst (snd p) = ''ACTIVE_REVISION''" and "(f, t, x) \<in> set ps"
    and "\<And>y. (f, t, y) \<in> set ps \<Longrightarrow> y = x"
  shows "edge_targets (fold (repair_active K) ps g) f t = (case x of None \<Rightarrow> [] | Some to \<Rightarrow> if to \<in> set K then [to] else [])"
  using assms
proof (induction ps arbitrary: g)
  case (Cons p ps)
  obtain f' t' y where p: "p = (f', t', y)" by (cases p)
  show ?case
  proof (cases "(f, t, x) \<in> set ps")
    case True
    have "edge_targets (fold (repair_active K) ps (repair_active K p g)) f t =
        (case x of None \<Rightarrow> [] | Some to \<Rightarrow> if to \<in> set K then [to] else [])"
    proof (rule Cons.IH [OF _ True])
      show "\<forall>p\<in>set ps. fst (snd p) = ''ACTIVE_REVISION''" using Cons.prems(1) by simp
      show "y = x" if "(f, t, y) \<in> set ps" for y by (rule Cons.prems(3)) (simp add: that)
    qed
    then show ?thesis by simp
  next
    case False
    from Cons.prems(2) False have p: "p = (f, t, x)" by simp
    with Cons.prems(1) have t: "t = ''ACTIVE_REVISION''" by simp
    have "f \<notin> fst ` set ps"
    proof
      assume "f \<in> fst ` set ps"
      then obtain y where "(f, t, y) \<in> set ps" using Cons.prems(1) t by force
      with Cons.prems(3) False show False by auto
    qed
    with Cons.prems(1) show ?thesis by (simp add: p t repair_actives_other repair_active_targets)
  qed
qed simp

lemma legacy_fold:
  "edges (fold (\<lambda>e. if edge_type e \<in> set legacy_edge_types then delete_edge (edge_from e) (edge_type e) (Some (edge_to e)) None else id) es g) =
     filter (\<lambda>x. \<not> (edge_type x \<in> set legacy_edge_types \<and>
       (\<exists>e\<in>set es. edge_from e = edge_from x \<and> edge_type e = edge_type x \<and> edge_to e = edge_to x))) (edges g)"
proof (induction es arbitrary: g)
  case (Cons e es)
  have del: "edges (delete_edge f t (Some to) None g) = filter (\<lambda>x. \<not> (edge_from x = f \<and> edge_type x = t \<and> edge_to x = to)) (edges g)"
    for f t to by (auto simp: delete_edge_def matches_edge_def intro!: filter_cong)
  show ?case
    by (simp add: Cons.IH del) (intro impI conjI filter_cong refl; auto)
qed simp

lemma drop_legacy: "edges (drop_legacy_edges g) = filter (\<lambda>x. edge_type x \<notin> set legacy_edge_types) (edges g)"
  unfolding drop_legacy_edges_def legacy_fold by (auto intro!: filter_cong)

lemma repair_frame:
  "nodes (drop_legacy_edges g) = nodes g" "app_relations (drop_legacy_edges g) = app_relations g"
  "nodes (repair_edge K p g) = nodes g" "app_relations (repair_edge K p g) = app_relations g"
  "nodes (repair_active K q g) = nodes g" "app_relations (repair_active K q g) = app_relations g"
proof -
  have "nodes (fold (\<lambda>e. if edge_type e \<in> set legacy_edge_types then delete_edge (edge_from e) (edge_type e) (Some (edge_to e)) None else id) es g) = nodes g \<and>
    app_relations (fold (\<lambda>e. if edge_type e \<in> set legacy_edge_types then delete_edge (edge_from e) (edge_type e) (Some (edge_to e)) None else id) es g) = app_relations g" for es
    by (induction es arbitrary: g) (simp_all add: graph_simps)
  from this [of "edges g"] show "nodes (drop_legacy_edges g) = nodes g" "app_relations (drop_legacy_edges g) = app_relations g"
    unfolding drop_legacy_edges_def by blast+
  show "nodes (repair_edge K p g) = nodes g" "app_relations (repair_edge K p g) = app_relations g"
    by (simp_all add: repair_edge_def graph_simps split: prod.split)
  show "nodes (repair_active K q g) = nodes g" "app_relations (repair_active K q g) = app_relations g"
    by (simp_all add: repair_active_def graph_simps Let_def split: prod.split option.split)
qed

lemma repaired_frame: "nodes (repaired g) = nodes g" "app_relations (repaired g) = app_relations g"
proof -
  have a: "nodes (fold (repair_active K) ps h) = nodes h \<and> app_relations (fold (repair_active K) ps h) = app_relations h" for K ps h
    by (induction ps arbitrary: h) (simp_all add: repair_frame)
  have "nodes (fold (repair_edge K) ps h) = nodes h \<and> app_relations (fold (repair_edge K) ps h) = app_relations h" for K ps h
    by (induction ps arbitrary: h) (simp_all add: repair_frame)
  with a show "nodes (repaired g) = nodes g" "app_relations (repaired g) = app_relations g"
    by (simp_all add: repaired_def Let_def repair_frame)
qed

text \<open>A node has one entry in the active pointers of the plan: the one its record asks for.\<close>

fun active_pointer :: "node_value \<Rightarrow> node_ref option" where
  "active_pointer (SystemNode m) = map_option (id_ref ''SystemRevision'') (sys_active_revision_id m)"
| "active_pointer (ApplicationNode m) = map_option (id_ref ''ApplicationRevision'') (app_active_revision_id m)"
| "active_pointer (ExperienceNode m) = map_option (id_ref ''ExperienceRevision'') (exp_active_revision_id m)"
| "active_pointer (AuthoringGuideNode m) = map_option (id_ref ''AuthoringGuideRevision'') (guide_active_revision_id m)"
| "active_pointer (UiThemeNode m) = map_option (id_ref ''UiThemeRevision'') (theme_active_revision_id m)"
| "active_pointer (AppBlueprintNode m) = map_option (id_ref ''BlueprintRevision'') (bp_active_revision_id m)"
| "active_pointer (ObjectTypeNode m) = map_option (id_ref ''ObjectTypeRevision'') (otype_active_revision_id m)"
| "active_pointer (RelationTypeNode m) = map_option (id_ref ''RelationTypeRevision'') (rtype_active_revision_id m)"
| "active_pointer (ActionNode m) = map_option (id_ref ''ActionRevision'') (act_active_revision_id m)"
| "active_pointer (TriggerNode m) = map_option (id_ref ''TriggerRevision'') (trig_active_revision_id m)"
| "active_pointer _ = None"

lemma active_of_entry:
  assumes "record_collection c" and "typed_graph g" and "wf_graph g"
    and "\<And>m. active_pointer (coll_put c m) = map_option (id_ref (coll_label r)) (field m)"
    and "(f, t, x) \<in> set (active_of c r field g)"
  shows "t = ''ACTIVE_REVISION'' \<and> (\<exists>v. get_node (ref_label f) (ref_identity f) g = Some v \<and> active_pointer v = x)"
proof -
  from assms(5) obtain m where m: "m \<in> set (coll_values c g)" and e: "f = record_ref c m" "t = ''ACTIVE_REVISION''"
    "x = map_option (id_ref (coll_label r)) (field m)" by (auto simp: active_of_def)
  have "get_node (coll_label c) (coll_identity c m) g = Some (coll_put c m)"
    using m record_collection.values_iff [OF assms(1-3)] record_collection.get_Some_node [OF assms(1)] by blast
  with e assms(4) show ?thesis by (auto simp: record_ref_def)
qed

lemma plan_active_entry:
  assumes ok: "typed_graph g" "wf_graph g" and "(f, t, x) \<in> set (plan_active (build_plan g))"
  shows "t = ''ACTIVE_REVISION'' \<and> (\<exists>v. get_node (ref_label f) (ref_identity f) g = Some v \<and> active_pointer v = x)"
proof -
  note entry = active_of_entry [OF _ ok]
  from assms(3) consider
      "(f, t, x) \<in> set (active_of systems_coll system_revisions_coll sys_active_revision_id g)"
    | "(f, t, x) \<in> set (active_of applications_coll revisions_coll app_active_revision_id g)"
    | "(f, t, x) \<in> set (active_of experiences_coll experience_revisions_coll exp_active_revision_id g)"
    | "(f, t, x) \<in> set (active_of authoring_guides_coll authoring_guide_revisions_coll guide_active_revision_id g)"
    | "(f, t, x) \<in> set (active_of ui_themes_coll ui_theme_revisions_coll theme_active_revision_id g)"
    | "(f, t, x) \<in> set (active_of app_blueprints_coll blueprint_revisions_coll bp_active_revision_id g)"
    | "(f, t, x) \<in> set (active_of object_types_coll object_type_revisions_coll otype_active_revision_id g)"
    | "(f, t, x) \<in> set (active_of relation_types_coll relation_type_revisions_coll rtype_active_revision_id g)"
    | "(f, t, x) \<in> set (active_of actions_coll action_revisions_coll act_active_revision_id g)"
    | "(f, t, x) \<in> set (active_of triggers_coll trigger_revisions_coll trig_active_revision_id g)"
    by (auto simp: build_plan_def revision_declarations_def)
  then show ?thesis
  proof cases
    case 1 show ?thesis by (rule entry [OF systems.record_collection_axioms _ 1]) (simp add: systems_coll_def system_revisions_coll_def)
  next
    case 2 show ?thesis by (rule entry [OF applications.record_collection_axioms _ 2]) (simp add: applications_coll_def revisions_coll_def)
  next
    case 3 show ?thesis
      by (rule entry [OF experiences.record_collection_axioms _ 3]) (simp add: experiences_coll_def experience_revisions_coll_def)
  next
    case 4 show ?thesis
      by (rule entry [OF authoring_guides.record_collection_axioms _ 4]) (simp add: authoring_guides_coll_def authoring_guide_revisions_coll_def)
  next
    case 5 show ?thesis by (rule entry [OF ui_themes.record_collection_axioms _ 5]) (simp add: ui_themes_coll_def ui_theme_revisions_coll_def)
  next
    case 6 show ?thesis
      by (rule entry [OF app_blueprints.record_collection_axioms _ 6]) (simp add: app_blueprints_coll_def blueprint_revisions_coll_def)
  next
    case 7 show ?thesis
      by (rule entry [OF object_types.record_collection_axioms _ 7]) (simp add: object_types_coll_def object_type_revisions_coll_def)
  next
    case 8 show ?thesis
      by (rule entry [OF relation_types.record_collection_axioms _ 8]) (simp add: relation_types_coll_def relation_type_revisions_coll_def)
  next
    case 9 show ?thesis by (rule entry [OF actions.record_collection_axioms _ 9]) (simp add: actions_coll_def action_revisions_coll_def)
  next
    case 10 show ?thesis by (rule entry [OF triggers.record_collection_axioms _ 10]) (simp add: triggers_coll_def trigger_revisions_coll_def)
  qed
qed

lemma planned_iff: "to \<in> set (planned K ps f t) \<longleftrightarrow> (f, t, to) \<in> set ps \<and> f \<in> set K \<and> to \<in> set K"
  by (force simp: planned_def)

lemma repaired_targets:
  assumes ok: "typed_graph g" "wf_graph g"
  defines "K \<equiv> plan_nodes (build_plan g)"
  shows "(f, t, to) \<in> set (plan_edges (build_plan g)) \<Longrightarrow> f \<in> set K \<Longrightarrow> to \<in> set K \<Longrightarrow> t \<notin> set singleton_edge_types \<Longrightarrow>
      to \<in> set (edge_targets (repaired g) f t)"
    and "(f, t, to) \<in> set (plan_edges (build_plan g)) \<Longrightarrow> f \<in> set K \<Longrightarrow> to \<in> set K \<Longrightarrow> t \<in> set singleton_edge_types \<Longrightarrow>
      \<exists>to'. edge_targets (repaired g) f t = [to'] \<and> (f, t, to') \<in> set (plan_edges (build_plan g)) \<and> to' \<in> set K"
    and "(f, t, x) \<in> set (plan_active (build_plan g)) \<Longrightarrow>
      edge_targets (repaired g) f t = (case x of None \<Rightarrow> [] | Some to \<Rightarrow> if to \<in> set K then [to] else [])"
proof -
  let ?ps = "plan_edges (build_plan g)" and ?as = "plan_active (build_plan g)"
  have as: "\<forall>p\<in>set ?as. fst (snd p) = ''ACTIVE_REVISION''" using plan_active_entry [OF ok] by auto
  have T: "''HAS_FILE'' \<notin> plan_edge_types" "''ACTIVE_REVISION'' \<notin> plan_edge_types" by (simp_all add: plan_edge_types_def)
  have kind: "t \<noteq> ''ACTIVE_REVISION''" if "(f, t, to) \<in> set ?ps" for f t to
    using plan_types [of g] that T(2) by (auto simp: types_in_def)
  have split: "edge_targets (repaired g) f t = edge_targets (fold (repair_edge K) ?ps (drop_legacy_edges g)) f t"
    if "t \<noteq> ''ACTIVE_REVISION''" for f t
    using that as by (simp add: repaired_def Let_def K_def repair_actives_other)
  note edges = repair_edges_targets [OF plan_types [of g] T(1)]
  show "to \<in> set (edge_targets (repaired g) f t)"
    if "(f, t, to) \<in> set ?ps" "f \<in> set K" "to \<in> set K" "t \<notin> set singleton_edge_types"
    using that kind [OF that(1)] by (simp add: split edges(1) planned_iff)
  show "\<exists>to'. edge_targets (repaired g) f t = [to'] \<and> (f, t, to') \<in> set ?ps \<and> to' \<in> set K"
    if p: "(f, t, to) \<in> set ?ps" "f \<in> set K" "to \<in> set K" "t \<in> set singleton_edge_types"
  proof -
    have "to \<in> set (planned K ?ps f t)" using p by (simp add: planned_iff)
    then have ne: "planned K ?ps f t \<noteq> []" by auto
    then have "last (planned K ?ps f t) \<in> set (planned K ?ps f t)" by simp
    with ne p kind [OF p(1)] show ?thesis by (simp add: split edges(2) planned_iff)
  qed
  show "edge_targets (repaired g) f t = (case x of None \<Rightarrow> [] | Some to \<Rightarrow> if to \<in> set K then [to] else [])"
    if a: "(f, t, x) \<in> set ?as"
  proof -
    have "y = x" if "(f, t, y) \<in> set ?as" for y
      using plan_active_entry [OF ok a] plan_active_entry [OF ok that] by auto
    from repair_actives_targets [OF as a this, where K = K] show ?thesis unfolding repaired_def Let_def K_def by simp
  qed
qed

text \<open>No legacy edge is left, and none is made.\<close>

definition edge_types :: "node_value graph \<Rightarrow> string set" where
  "edge_types g = edge_type ` set (edges g)"

lemma edge_types_create: "edge_types (create_edge f t to p g) \<subseteq> insert t (edge_types g)"
proof -
  have upd: "edge_type ` set (update_first P h es) \<subseteq> edge_type ` set es" if "\<And>x. edge_type (h x) = edge_type x" for P h and es :: "edge list"
    using that by (induction es) auto
  show ?thesis
    using upd [of "\<lambda>e. e\<lparr>edge_to := to, edge_props := dict_merge (edge_props e) p\<rparr>"]
      upd [of "\<lambda>e. e\<lparr>edge_props := dict_merge (edge_props e) p\<rparr>"]
    by (simp add: edge_types_def create_edge_def new_edge_def Let_def subset_insertI2 subset_insertI split: option.split)
qed

lemma edge_types_delete: "edge_types (delete_edge f t to p g) \<subseteq> edge_types g"
  by (auto simp: edge_types_def delete_edge_def)

lemma edge_types_repair:
  "edge_types (repair_edge K p g) \<subseteq> insert (fst (snd p)) (edge_types g)"
  "edge_types (repair_active K q g) \<subseteq> insert (fst (snd q)) (edge_types g)"
proof -
  note step = subset_trans [OF edge_types_create insert_mono [OF edge_types_delete]]
  show "edge_types (repair_edge K p g) \<subseteq> insert (fst (snd p)) (edge_types g)"
    by (cases p) (simp add: repair_edge_def edge_types_create step subset_insertI)
  show "edge_types (repair_active K q g) \<subseteq> insert (fst (snd q)) (edge_types g)"
    by (cases q) (simp add: repair_active_def Let_def step subset_insertI2 edge_types_delete split: option.split)
qed

lemma edge_types_fold:
  assumes "\<And>p g. edge_types (h p g) \<subseteq> insert (fst (snd p)) (edge_types g)"
  shows "edge_types (fold h ps g) \<subseteq> edge_types g \<union> (\<lambda>p. fst (snd p)) ` set ps"
proof (induction ps arbitrary: g)
  case (Cons p ps)
  have "edge_types (fold h ps (h p g)) \<subseteq> edge_types (h p g) \<union> (\<lambda>p. fst (snd p)) ` set ps" by (rule Cons.IH)
  then show ?case using assms [of p g] by auto
qed simp

lemma repaired_no_legacy:
  assumes "typed_graph g" and "wf_graph g"
  shows "validate_graph_shape (repaired g) = []"
proof -
  have ps: "(\<lambda>p. fst (snd p)) ` set (plan_edges (build_plan g)) \<subseteq> plan_edge_types"
    using plan_types [of g] by (auto simp: types_in_def)
  have as: "(\<lambda>p. fst (snd p)) ` set (plan_active (build_plan g)) \<subseteq> {''ACTIVE_REVISION''}"
    using plan_active_entry [OF assms] by auto
  have "edge_types (repaired g) \<subseteq> edge_types (drop_legacy_edges g) \<union> (\<lambda>p. fst (snd p)) ` set (plan_edges (build_plan g))
      \<union> (\<lambda>p. fst (snd p)) ` set (plan_active (build_plan g))"
    unfolding repaired_def Let_def
    by (rule subset_trans [OF edge_types_fold [OF edge_types_repair(2)] Un_mono [OF edge_types_fold [OF edge_types_repair(1)] subset_refl]])
  then have sub: "edge_types (repaired g) \<subseteq> edge_types (drop_legacy_edges g) \<union> plan_edge_types \<union> {''ACTIVE_REVISION''}"
    by (rule subset_trans [OF _ Un_mono [OF Un_mono [OF subset_refl ps] as]])
  have "t \<notin> edge_types (repaired g)" if "t \<in> set legacy_edge_types" for t
  proof -
    have "t \<notin> edge_types (drop_legacy_edges g)" using that by (auto simp: edge_types_def drop_legacy)
    moreover have "t \<notin> plan_edge_types" "t \<noteq> ''ACTIVE_REVISION''"
      using that by (auto simp: legacy_edge_types_def plan_edge_types_def)
    ultimately show ?thesis using sub by blast
  qed
  from this [of "''N4X_KERNEL''"] this [of "''N4X_RELATION''"]
  have "\<forall>e\<in>set (edges (repaired g)). edge_type e \<notin> {''N4X_KERNEL'', ''N4X_RELATION''}"
    by (auto simp: legacy_edge_types_def edge_types_def image_iff)
  then show ?thesis by (simp add: validate_graph_shape_def filter_empty_conv)
qed

section \<open>The root\<close>

lemma bootstrap_ok:
  assumes "typed_graph g" and "wf_graph g"
  shows "typed_graph (bootstrap_schema RootNode g)" and "wf_graph (bootstrap_schema RootNode g)"
proof -
  let ?v = "case get_node ''N4XRoot'' [(''id'', ''n4x'')] g of Some v \<Rightarrow> v | None \<Rightarrow> RootNode"
  have "node_label ?v = ''N4XRoot''" "node_identity ?v = [(''id'', ''n4x'')]"
    using typed_get_node [OF assms(1)] by (auto split: option.split)
  with typed_upsert [OF assms(1), of ?v] show "typed_graph (bootstrap_schema RootNode g)" by (simp add: bootstrap_schema_def)
  show "wf_graph (bootstrap_schema RootNode g)" using assms(2) by (simp add: bootstrap_schema_def wf_upsert_node)
qed

end
