(* ===== verification/Integrity_Properties.thy ===== *)
theory Integrity_Properties
  imports Integrity_Laws Job_Properties
begin

text \<open>
  The properties of the audit of the graph's shape: it finds exactly the nodes that cannot be reached, a
  report without errors vouches for the shape of the graph, and the repair establishes the plan.
\<close>

lemma root_planned: "root_ref \<in> set (plan_nodes (build_plan g))"
  by (simp add: build_plan_def)

text \<open>A graph with one Application, linked to the root or not.\<close>

definition sample_plain :: application where
  "sample_plain = (sample_app App_active)\<lparr>app_active_revision_id := None\<rparr>"

definition sample_shape :: "bool \<Rightarrow> node_value graph" where
  "sample_shape linked = (let g = coll_save applications_coll sample_plain (bootstrap_schema RootNode empty_graph) in
     if linked then create_edge root_ref ''HAS_APPLICATION'' (id_ref ''Application'' ''a'') [] g else g)"

lemma sample_shape_nodes:
  "nodes (sample_shape l) = [((''N4XRoot'', key ''n4x''), RootNode), ((''Application'', key ''a''), ApplicationNode sample_plain)]"
  "edges (sample_shape l) = (if l then [\<lparr>edge_from = root_ref, edge_type = ''HAS_APPLICATION'',
     edge_to = id_ref ''Application'' ''a'', edge_props = []\<rparr>] else [])"
  "app_relations (sample_shape l) = []"
  by (simp_all add: sample_shape_def Let_def coll_save_def bootstrap_schema_def upsert_node_def empty_graph_def get_node_def key_def
      applications_coll_def sample_plain_def sample_app_def create_edge_def new_edge_def)

lemma sample_shape_values:
  "coll_values c (sample_shape l) = List.map_filter (coll_decode c)
     (if coll_label c = ''N4XRoot'' then [RootNode] else if coll_label c = ''Application'' then [ApplicationNode sample_plain] else [])"
  by (simp add: coll_values_def list_nodes_def sample_shape_nodes)

lemmas sample_colls = systems_coll_def system_revisions_coll_def applications_coll_def data_spaces_coll_def
  development_deployments_coll_def revisions_coll_def experiences_coll_def experience_revisions_coll_def
  experience_surfaces_coll_def experience_validation_reports_coll_def authoring_guides_coll_def
  authoring_guide_revisions_coll_def ui_themes_coll_def ui_theme_revisions_coll_def app_blueprints_coll_def
  blueprint_revisions_coll_def source_trees_coll_def source_contents_coll_def objects_coll_def object_types_coll_def
  object_type_revisions_coll_def relation_types_coll_def relation_type_revisions_coll_def secret_references_coll_def
  credential_records_coll_def callback_routes_coll_def runtime_dependencies_coll_def python_environments_coll_def
  javascript_environments_coll_def build_invocations_coll_def build_artifacts_coll_def actions_coll_def
  action_revisions_coll_def triggers_coll_def trigger_revisions_coll_def job_records_coll_def job_attempts_coll_def
  cypher_audits_coll_def invocations_coll_def test_cases_coll_def checkpoints_coll_def checkpoint_snapshots_coll_def
  checkpoint_blobs_coll_def validation_reports_coll_def package_import_attempts_coll_def

lemma sample_empty:
  "coll_label c \<notin> {''N4XRoot'', ''Application''} \<Longrightarrow> coll_values c (sample_shape l) = []"
  by (simp add: sample_shape_values List.map_filter_def)

lemma sample_applications: "coll_values applications_coll (sample_shape l) = [sample_plain]"
  by (simp add: sample_shape_values List.map_filter_def applications_coll_def)

lemma sample_plan_nodes:
  "plan_nodes (build_plan (sample_shape l)) = [root_ref, id_ref ''Application'' ''a'']"
proof -
  have "concat (map (\<lambda>d. d (sample_shape l)) node_declarations) = [id_ref ''Application'' ''a'']"
    unfolding node_declarations_def
    by (simp add: declared_nodes_def sample_applications record_ref_def, simp add: sample_empty sample_colls)
      (simp add: sample_plain_def sample_app_def id_ref_def key_def)
  then show ?thesis by (simp add: build_plan_def dedupe_def root_ref_def)
qed

lemma sample_plan_edges:
  "plan_edges (build_plan (sample_shape l)) = [(root_ref, ''HAS_APPLICATION'', id_ref ''Application'' ''a'')]"
  "plan_active (build_plan (sample_shape l)) = [(id_ref ''Application'' ''a'', ''ACTIVE_REVISION'', None)]"
proof -
  have a: "record_ref applications_coll sample_plain = id_ref ''Application'' ''a''" "app_active_revision_id sample_plain = None"
    by (simp_all add: record_ref_def applications_coll_def sample_plain_def sample_app_def id_ref_def key_def)
  have "concat (map (\<lambda>d. d (sample_shape l)) ownership_declarations) = [(root_ref, ''HAS_APPLICATION'', id_ref ''Application'' ''a'')]"
    unfolding ownership_declarations_def
    by (simp add: owned_def owned_by_def owned_by_root_def sample_applications a, simp add: sample_empty sample_colls)
  moreover have "concat (map (\<lambda>d. fst d (sample_shape l)) revision_declarations) = []"
    unfolding revision_declarations_def by (simp add: revised_def, simp add: sample_empty sample_colls)
  moreover have "reference_edges (sample_shape l) = []"
    unfolding reference_edges_def bound_edges_def optional_edges_def experience_edges_def relation_type_edges_def
      action_edges_def object_edges_def credential_edges_def route_edges_def job_edges_def audit_edges_def
    by (simp add: sample_empty sample_colls List.map_filter_def)
  ultimately show "plan_edges (build_plan (sample_shape l)) = [(root_ref, ''HAS_APPLICATION'', id_ref ''Application'' ''a'')]"
    by (simp only: build_plan_def integrity_plan.simps) (simp add: dedupe_def del: concat_eq_Nil_conv)
  have "concat (map (\<lambda>d. snd d (sample_shape l)) revision_declarations) = [(id_ref ''Application'' ''a'', ''ACTIVE_REVISION'', None)]"
    unfolding revision_declarations_def
    by (simp add: active_of_def sample_applications a, simp add: sample_empty sample_colls)
  then show "plan_active (build_plan (sample_shape l)) = [(id_ref ''Application'' ''a'', ''ACTIVE_REVISION'', None)]"
    by (simp add: build_plan_def)
qed

lemma sample_root: "get_node ''N4XRoot'' (key ''n4x'') (sample_shape l) = Some RootNode"
  by (simp add: get_node_def sample_shape_nodes)

lemma sample_step: "edge_step (edges (sample_shape l)) = (if l then {(root_ref, id_ref ''Application'' ''a'')} else {})"
  by (simp add: edge_step_def sample_shape_nodes)

lemma sample_may: "\<not> may_be_unreachable g (id_ref ''Application'' ''a'')"
  by (simp add: may_be_unreachable_def optional_labels_def)

section \<open>The properties\<close>

text \<open>C38: The audit reports exactly the nodes that no path of edges leads to from the root of the graph: as errors,
  or, if they are interned records, which the collector may have left behind, as warnings.\<close>

theorem audit_reports_exactly_the_unreachable:
  assumes "get_node ''N4XRoot'' (key ''n4x'') g \<noteq> None"
  defines "lost \<equiv> {r \<in> set (plan_nodes (build_plan g)). (root_ref, r) \<notin> (edge_step (edges g))\<^sup>*}"
  shows "set (fst (validate_reachability (plan_nodes (build_plan g)) g)) = Unreachable ` {r \<in> lost. \<not> may_be_unreachable g r} \<and>
    set (snd (validate_reachability (plan_nodes (build_plan g)) g)) = Unreachable ` {r \<in> lost. may_be_unreachable g r}"
  using assms(1) root_planned [of g]
  by (auto simp: validate_reachability_def Let_def reach_loop_exact lost_def image_iff simp del: reach_loop.simps)

theorem audit_reports_exactly_the_unreachable_witness:
  "Unreachable (id_ref ''Application'' ''a'')
     \<in> set (fst (validate_reachability (plan_nodes (build_plan (sample_shape False))) (sample_shape False)))"
proof -
  have "root_ref \<noteq> id_ref ''Application'' ''a''" by (simp add: root_ref_def)
  then show ?thesis
    using audit_reports_exactly_the_unreachable [of "sample_shape False"] sample_may
    by (simp add: sample_root sample_plan_nodes sample_step)
qed

text \<open>C39: A report without errors vouches for the graph: every edge its records call for is there, every active pointer
  leads to exactly the revision its record names, every node but interned records can be reached from
  the root, and every relation connects objects of the types its revision names, with its physical type.\<close>

theorem clean_report_vouches_for_the_shape:
  assumes "validate_shape sha g = Inr report" and "shape_errors report = []"
  shows "(\<forall>(f, t, to)\<in>set (plan_edges (build_plan g)). has_edge f t (Some to) g) \<and>
    (\<forall>(f, t, x)\<in>set (plan_active (build_plan g)). edge_targets g f t = (case x of None \<Rightarrow> [] | Some to \<Rightarrow> [to])) \<and>
    (\<forall>r\<in>set (plan_nodes (build_plan g)). (root_ref, r) \<in> (edge_step (edges g))\<^sup>* \<or> may_be_unreachable g r) \<and>
    (\<forall>r\<in>set (relation_list_all g). relation_shaped g r)"
proof -
  note clean = clean_report [OF assms]
  have "\<forall>(f, t, to)\<in>set (plan_edges (build_plan g)). has_edge f t (Some to) g"
    using clean(1) by (auto simp: edge_messages_clean)
  moreover have "\<forall>(f, t, x)\<in>set (plan_active (build_plan g)). edge_targets g f t = (case x of None \<Rightarrow> [] | Some to \<Rightarrow> [to])"
    using clean(2) by (auto simp: active_messages_clean)
  moreover note clean(3) [unfolded validate_reachability_clean] validate_relations_clean [OF clean(4)]
  ultimately show ?thesis by blast
qed

theorem clean_report_vouches_for_the_shape_witness:
  "\<exists>report. validate_shape id (sample_shape True) = Inr report \<and> shape_errors report = [] \<and>
     has_edge root_ref ''HAS_APPLICATION'' (Some (id_ref ''Application'' ''a'')) (sample_shape True)"
proof -
  let ?g = "sample_shape True"
  have "validate_surfaces ?g = Inr []" "validate_revision_source_ownership ?g = []" "validate_experience_references ?g = []"
    by (simp_all add: validate_surfaces_def validate_revision_source_ownership_def validate_experience_references_def
        sample_empty sample_colls)
  moreover have "validate_app_relations id ?g = []" "validate_graph_shape ?g = []"
    by (simp_all add: validate_app_relations_def validate_graph_shape_def relation_list_all_def list_all_app_relations_def
        sample_shape_nodes Let_def)
  moreover have "fst (validate_reachability (plan_nodes (build_plan ?g)) ?g) = []"
    unfolding validate_reachability_clean by (auto simp: sample_root sample_plan_nodes sample_step intro: r_into_rtrancl)
  ultimately have "\<exists>report. validate_shape id ?g = Inr report \<and> shape_errors report = []"
    by (auto simp: validate_shape_def sample_plan_edges sample_plan_nodes edge_messages_def active_messages_def matching_edges_def
        sample_shape_nodes singleton_edge_types_def split: prod.split)
  then obtain report where r: "validate_shape id ?g = Inr report" "shape_errors report = []" by blast
  from clean_report_vouches_for_the_shape [OF r] r show ?thesis by (auto simp: sample_plan_edges)
qed

text \<open>C40: A repair leaves the records and relations alone and establishes the plan: no legacy edge is left; a
  planned edge between stored nodes is there, and where only one of its type may leave a node it is the
  only one (one of the planned ones); the active pointers lead to the revisions the records name, if
  these are stored, and nowhere otherwise.\<close>

theorem repair_establishes_the_plan:
  assumes "typed_graph g" and "wf_graph g" and "repair_graph_edges sha g = (r, h)"
  defines "b \<equiv> bootstrap_schema RootNode g"
  defines "known \<equiv> set (plan_nodes (build_plan b))"
  shows "nodes h = nodes b \<and> app_relations h = app_relations b \<and> validate_graph_shape h = [] \<and>
    (\<forall>(f, t, to)\<in>set (plan_edges (build_plan b)). f \<in> known \<and> to \<in> known \<longrightarrow>
       (if t \<in> set singleton_edge_types
        then \<exists>to'. edge_targets h f t = [to'] \<and> (f, t, to') \<in> set (plan_edges (build_plan b)) \<and> to' \<in> known
        else to \<in> set (edge_targets h f t))) \<and>
    (\<forall>(f, t, x)\<in>set (plan_active (build_plan b)).
       edge_targets h f t = (case x of None \<Rightarrow> [] | Some to \<Rightarrow> if to \<in> known then [to] else []))"
proof -
  have h: "h = repaired b" using assms(3) by (simp add: repair_graph_edges_def Let_def b_def)
  have ok: "typed_graph b" "wf_graph b" using bootstrap_ok [OF assms(1,2)] by (simp_all add: b_def)
  note edges = repaired_targets(1,2) [OF ok] and active = repaired_targets(3) [OF ok]
  show ?thesis
    unfolding h known_def
    by (intro conjI ballI repaired_frame repaired_no_legacy [OF ok]) (use edges active in \<open>auto\<close>)
qed

theorem repair_establishes_the_plan_witness:
  "\<exists>r h. repair_graph_edges id (sample_shape False) = (r, h) \<and>
     id_ref ''Application'' ''a'' \<in> set (edge_targets h root_ref ''HAS_APPLICATION'')"
proof -
  obtain r h where run: "repair_graph_edges id (sample_shape False) = (r, h)" by fastforce
  have b: "bootstrap_schema RootNode (sample_shape False) = sample_shape False"
    by (simp add: bootstrap_schema_def sample_shape_def Let_def coll_save_def upsert_node_def empty_graph_def get_node_def
        key_def applications_coll_def sample_plain_def sample_app_def)
  have ok: "typed_graph (sample_shape False)" "wf_graph (sample_shape False)"
    by (simp_all add: typed_graph_def wf_graph_def file_edges_def sample_shape_nodes)
      (simp add: key_def sample_plain_def sample_app_def)
  from repair_establishes_the_plan [OF ok run] run show ?thesis
    by (auto simp: b sample_plan_nodes sample_plan_edges singleton_edge_types_def)
qed

end
