(* ===== verification/Platform_Authoring.thy ===== *)
theory Platform_Authoring
  imports System_Definitions Json_Text
begin

text \<open>
  The authoring release the platform ships: \<^verbatim>\<open>PlatformAuthoringService\<close> of
  \<^verbatim>\<open>system/authoring.py\<close>. A packaged release is a UI theme and an authoring guide under one
  version. Publishing it finds or makes the two owners and the two revisions, whose ids are the
  owner and the version, and moves the two \<^verbatim>\<open>ACTIVE_REVISION\<close> pointers. A version that was
  published is never published with other content.
\<close>

section \<open>The packaged release and its two kinds of record\<close>

record packaged_release =
  seed_release_version :: string
  seed_theme_id :: string
  seed_theme_title :: string
  seed_css_text :: string
  seed_theme_provenance :: "(string, json) dict"
  seed_theme_license :: "(string, json) dict"
  seed_guide_id :: string
  seed_guide_title :: string
  seed_guide_content :: string
  seed_guide_provenance :: "(string, json) dict"
  seed_guide_license :: "(string, json) dict"
  seed_references :: "(string, json) dict list"

text \<open>
  The code reads the fields that differ between themes and guides by name
  (\<^verbatim>\<open>owner_field\<close>, \<^verbatim>\<open>content_field\<close>) or has two copies of the same lines; here a kind carries
  its fields.
\<close>

record ('o, 'r) release_kind =
  kind_name :: string
  kind_owners :: "'o collection"
  kind_revisions :: "'r collection"
  kind_owner_id :: "'o \<Rightarrow> string"
  kind_active :: "'o \<Rightarrow> string option"
  kind_point :: "string \<Rightarrow> int \<Rightarrow> 'o \<Rightarrow> 'o"
  kind_rev_id :: "'r \<Rightarrow> string"
  kind_rev_owner :: "'r \<Rightarrow> string"
  kind_rev_version :: "'r \<Rightarrow> string"
  kind_rev_hash :: "'r \<Rightarrow> string"
  kind_rev_content :: "'r \<Rightarrow> string"
  kind_status :: "'r \<Rightarrow> platform_revision_status"
  kind_set_status :: "platform_revision_status \<Rightarrow> 'r \<Rightarrow> 'r"

definition theme_kind :: "(ui_theme, ui_theme_revision) release_kind" where
  "theme_kind = \<lparr>kind_name = ''UI theme'', kind_owners = ui_themes_coll, kind_revisions = ui_theme_revisions_coll,
     kind_owner_id = theme_id, kind_active = theme_active_revision_id,
     kind_point = (\<lambda>i t o'. o'\<lparr>theme_active_revision_id := Some i, theme_updated_at := t\<rparr>),
     kind_rev_id = themerev_id, kind_rev_owner = themerev_theme_id, kind_rev_version = themerev_release_version,
     kind_rev_hash = themerev_content_hash, kind_rev_content = themerev_css_text,
     kind_status = themerev_status, kind_set_status = (\<lambda>st r. r\<lparr>themerev_status := st\<rparr>)\<rparr>"

definition guide_kind :: "(authoring_guide, authoring_guide_revision) release_kind" where
  "guide_kind = \<lparr>kind_name = ''authoring guide'', kind_owners = authoring_guides_coll,
     kind_revisions = authoring_guide_revisions_coll,
     kind_owner_id = guide_id, kind_active = guide_active_revision_id,
     kind_point = (\<lambda>i t o'. o'\<lparr>guide_active_revision_id := Some i, guide_updated_at := t\<rparr>),
     kind_rev_id = guiderev_id, kind_rev_owner = guiderev_guide_id, kind_rev_version = guiderev_release_version,
     kind_rev_hash = guiderev_content_hash, kind_rev_content = guiderev_content,
     kind_status = guiderev_status, kind_set_status = (\<lambda>st r. r\<lparr>guiderev_status := st\<rparr>)\<rparr>"

section \<open>The revision a version already has\<close>

text \<open>\<^verbatim>\<open>repr\<close> of a plain name.\<close>

definition quoted :: "string \<Rightarrow> string" where
  "quoted s = [CHR 0x27] @ s @ [CHR 0x27]"

definition of_release :: "('o, 'r) release_kind \<Rightarrow> string \<Rightarrow> string \<Rightarrow> 'r \<Rightarrow> bool" where
  "of_release k owner version r \<longleftrightarrow> kind_rev_owner k r = owner \<and> kind_rev_version k r = version"

definition existing_release_revision ::
  "(string \<Rightarrow> string) \<Rightarrow> ('o, 'r) release_kind \<Rightarrow> string \<Rightarrow> string \<Rightarrow> string \<Rightarrow> string \<Rightarrow>
   node_value graph \<Rightarrow> exn + 'r option" where
  "existing_release_revision sha k owner version rid expected g =
     (let matching = filter (of_release k owner version) (coll_values (kind_revisions k) g) in
      if length matching > 1 \<or> (matching \<noteq> [] \<and> kind_rev_id k (hd matching) \<noteq> rid)
      then Inl (PlatformReleaseConflictError (kind_name k @ '' release '' @ quoted version @
        '' does not use deterministic revision id '' @ quoted rid))
      else (case (if matching \<noteq> [] then Some (hd matching) else coll_get (kind_revisions k) (key rid) g) of
          None \<Rightarrow> Inr None
        | Some r \<Rightarrow>
            if \<not> of_release k owner version r
            then Inl (PlatformReleaseConflictError (kind_name k @ '' deterministic revision id is already in use: '' @ rid))
            else if kind_rev_hash k r \<noteq> expected \<or> sha256_text sha (kind_rev_content k r) \<noteq> expected
            then Inl (PlatformReleaseConflictError (kind_name k @ '' release '' @ quoted version @
              '' content hash changed; publish a new release version''))
            else Inr (Some r)))"

section \<open>Activation\<close>

definition supersede_previous :: "('o, 'r) release_kind \<Rightarrow> 'o \<Rightarrow> 'r \<Rightarrow> ('z svc_scheme, unit) op" where
  "supersede_previous k owner r =
     (case kind_active k owner of
        None \<Rightarrow> ret ()
      | Some i \<Rightarrow>
          if i = kind_rev_id k r then ret ()
          else bindE (asks (coll_get (kind_revisions k) (key i))) (\<lambda>previous.
            (case previous of
               None \<Rightarrow> ret ()
             | Some p \<Rightarrow> if kind_status k p \<noteq> PlatRev_superseded
                 then save_to (kind_revisions k) (kind_set_status k PlatRev_superseded p) else ret ())))"

definition mark_active :: "('o, 'r) release_kind \<Rightarrow> 'r \<Rightarrow> ('z svc_scheme, unit) op" where
  "mark_active k r =
     (if kind_status k r \<noteq> PlatRev_active
      then save_to (kind_revisions k) (kind_set_status k PlatRev_active r) else ret ())"

definition record_active :: "('o, 'r) release_kind \<Rightarrow> 'o \<Rightarrow> 'r \<Rightarrow> ('z svc_scheme, unit) op" where
  "record_active k owner r =
     (if kind_active k owner \<noteq> Some (kind_rev_id k r)
      then bindE now_utc (\<lambda>t. save_to (kind_owners k) (kind_point k (kind_rev_id k r) t owner)) else ret ())"

definition activate_release :: "('o, 'r) release_kind \<Rightarrow> 'o \<Rightarrow> 'r \<Rightarrow> ('z svc_scheme, unit) op" where
  "activate_release k owner r =
     bindE (supersede_previous k owner r) (\<lambda>_.
     bindE (mark_active k r) (\<lambda>_.
     bindE (record_active k owner r) (\<lambda>_.
     point_to (id_ref (coll_label (kind_owners k)) (kind_owner_id k owner)) ''ACTIVE_REVISION''
       (id_ref (coll_label (kind_revisions k)) (kind_rev_id k r)))))"

definition activate_theme :: "ui_theme \<Rightarrow> ui_theme_revision \<Rightarrow> ('z svc_scheme, unit) op" where
  "activate_theme = activate_release theme_kind"

definition activate_guide :: "authoring_guide \<Rightarrow> authoring_guide_revision \<Rightarrow> ('z svc_scheme, unit) op" where
  "activate_guide = activate_release guide_kind"

section \<open>Publishing\<close>

definition found_or_new ::
  "'m collection \<Rightarrow> string \<Rightarrow> (int \<Rightarrow> int \<Rightarrow> 'm) \<Rightarrow> ('z svc_scheme, 'm) op" where
  "found_or_new c i new =
     bindE (asks (coll_get c (key i))) (\<lambda>x.
       (case x of
          Some m \<Rightarrow> ret m
        | None \<Rightarrow> bindE now_utc (\<lambda>t1. bindE now_utc (\<lambda>t2.
            bindE (save_to c (new t1 t2)) (\<lambda>_. ret (new t1 t2))))))"

definition kept_or_new :: "'m collection \<Rightarrow> 'm option \<Rightarrow> (int \<Rightarrow> 'm) \<Rightarrow> ('z svc_scheme, 'm) op" where
  "kept_or_new c x new =
     (case x of
        Some m \<Rightarrow> ret m
      | None \<Rightarrow> bindE now_utc (\<lambda>t. bindE (save_to c (new t)) (\<lambda>_. ret (new t))))"

definition release_id :: "string \<Rightarrow> packaged_release \<Rightarrow> string" where
  "release_id owner seed = owner @ ''@'' @ seed_release_version seed"

text \<open>Two dictionaries are equal whatever the order of their keys.\<close>

definition same_dict :: "(string, json) dict \<Rightarrow> (string, json) dict \<Rightarrow> bool" where
  "same_dict a b \<longleftrightarrow> canon (JObj a) = canon (JObj b)"

definition new_theme_revision :: "(string \<Rightarrow> string) \<Rightarrow> packaged_release \<Rightarrow> int \<Rightarrow> ui_theme_revision" where
  "new_theme_revision sha seed t =
     \<lparr>themerev_id = release_id (seed_theme_id seed) seed, themerev_theme_id = seed_theme_id seed,
      themerev_release_version = seed_release_version seed, themerev_status = PlatRev_active,
      themerev_css_text = seed_css_text seed, themerev_content_hash = sha256_text sha (seed_css_text seed),
      themerev_provenance = seed_theme_provenance seed, themerev_license = seed_theme_license seed,
      themerev_created_at = t, themerev_created_by = ''system''\<rparr>"

definition new_guide_revision :: "(string \<Rightarrow> string) \<Rightarrow> packaged_release \<Rightarrow> int \<Rightarrow> authoring_guide_revision" where
  "new_guide_revision sha seed t =
     \<lparr>guiderev_id = release_id (seed_guide_id seed) seed, guiderev_guide_id = seed_guide_id seed,
      guiderev_release_version = seed_release_version seed, guiderev_status = PlatRev_active,
      guiderev_content = seed_guide_content seed, guiderev_content_hash = sha256_text sha (seed_guide_content seed),
      guiderev_references = seed_references seed, guiderev_provenance = seed_guide_provenance seed,
      guiderev_license = seed_guide_license seed,
      guiderev_created_at = t, guiderev_created_by = ''system''\<rparr>"

definition theme_metadata_ok :: "packaged_release \<Rightarrow> ui_theme_revision option \<Rightarrow> bool" where
  "theme_metadata_ok seed r \<longleftrightarrow> (case r of None \<Rightarrow> True | Some r \<Rightarrow>
     same_dict (themerev_provenance r) (seed_theme_provenance seed) \<and>
     same_dict (themerev_license r) (seed_theme_license seed))"

definition guide_metadata_ok :: "packaged_release \<Rightarrow> authoring_guide_revision option \<Rightarrow> bool" where
  "guide_metadata_ok seed r \<longleftrightarrow> (case r of None \<Rightarrow> True | Some r \<Rightarrow>
     list_all2 same_dict (guiderev_references r) (seed_references seed) \<and>
     same_dict (guiderev_provenance r) (seed_guide_provenance seed) \<and>
     same_dict (guiderev_license r) (seed_guide_license seed))"

record published =
  pub_release_version :: string
  pub_theme_revision_id :: string
  pub_guide_revision_id :: string
  pub_theme_content_hash :: string
  pub_guide_content_hash :: string

text \<open>What is looked up before anything is written.\<close>

definition find_release ::
  "(string \<Rightarrow> string) \<Rightarrow> packaged_release \<Rightarrow>
   ('z svc_scheme, ui_theme_revision option \<times> authoring_guide_revision option) op" where
  "find_release sha seed =
     bindE (asks (get_node ''N4XRoot'' (key ''n4x''))) (\<lambda>root.
     bindE (require (root \<noteq> None)
       (PlatformReleaseConflictError ''platform authoring release requires N4XRoot id=n4x'')) (\<lambda>_.
     bindE (reads (existing_release_revision sha theme_kind (seed_theme_id seed) (seed_release_version seed)
       (release_id (seed_theme_id seed) seed) (sha256_text sha (seed_css_text seed)))) (\<lambda>tr.
     bindE (reads (existing_release_revision sha guide_kind (seed_guide_id seed) (seed_release_version seed)
       (release_id (seed_guide_id seed) seed) (sha256_text sha (seed_guide_content seed)))) (\<lambda>gr.
     bindE (require (theme_metadata_ok seed tr)
       (PlatformReleaseConflictError (''UI theme release '' @ quoted (seed_release_version seed) @
         '' metadata changed; publish a new release version''))) (\<lambda>_.
     bindE (require (guide_metadata_ok seed gr)
       (PlatformReleaseConflictError (''authoring guide release '' @ quoted (seed_release_version seed) @
         '' metadata changed; publish a new release version''))) (\<lambda>_.
     ret (tr, gr)))))))"

definition bootstrap_packaged_release ::
  "(string \<Rightarrow> string) \<Rightarrow> packaged_release \<Rightarrow> ('z svc_scheme, published) op" where
  "bootstrap_packaged_release sha seed = atomically
     (bindE (find_release sha seed) (\<lambda>(tr, gr).
      bindE (found_or_new ui_themes_coll (seed_theme_id seed) (\<lambda>t1 t2.
        \<lparr>theme_id = seed_theme_id seed, theme_active_revision_id = None,
         theme_created_at = t1, theme_updated_at = t2\<rparr>)) (\<lambda>theme.
      bindE (found_or_new authoring_guides_coll (seed_guide_id seed) (\<lambda>t1 t2.
        \<lparr>guide_id = seed_guide_id seed, guide_title = seed_guide_title seed, guide_active_revision_id = None,
         guide_created_at = t1, guide_updated_at = t2\<rparr>)) (\<lambda>guide.
      bindE (link root_ref ''HAS_UI_THEME'' (id_ref ''UiTheme'' (theme_id theme))) (\<lambda>_.
      bindE (link root_ref ''HAS_AUTHORING_GUIDE'' (id_ref ''AuthoringGuide'' (guide_id guide))) (\<lambda>_.
      bindE (kept_or_new ui_theme_revisions_coll tr (new_theme_revision sha seed)) (\<lambda>tr'.
      bindE (kept_or_new authoring_guide_revisions_coll gr (new_guide_revision sha seed)) (\<lambda>gr'.
      bindE (link (id_ref ''UiTheme'' (theme_id theme)) ''HAS_REVISION''
        (id_ref ''UiThemeRevision'' (themerev_id tr'))) (\<lambda>_.
      bindE (link (id_ref ''AuthoringGuide'' (guide_id guide)) ''HAS_REVISION''
        (id_ref ''AuthoringGuideRevision'' (guiderev_id gr'))) (\<lambda>_.
      bindE (activate_theme theme tr') (\<lambda>_.
      bindE (activate_guide guide gr') (\<lambda>_.
      ret \<lparr>pub_release_version = seed_release_version seed, pub_theme_revision_id = themerev_id tr',
        pub_guide_revision_id = guiderev_id gr', pub_theme_content_hash = sha256_text sha (seed_css_text seed),
        pub_guide_content_hash = sha256_text sha (seed_guide_content seed)\<rparr>))))))))))))"

section \<open>Inspection\<close>

text \<open>
  Every inspection publishes the packaged release first. The sub-records of an answer are returned
  as records; the fixed texts of the design context (guidance, workflow, checklists) are left out.
\<close>

definition canonical_guide_id :: "packaged_release \<Rightarrow> string option \<Rightarrow> exn + string" where
  "canonical_guide_id seed g =
     (if g \<in> {None, Some ''n4x.v1'', Some (seed_guide_id seed)} then Inr (seed_guide_id seed)
      else Inl (KeyError (case g of Some i \<Rightarrow> i | None \<Rightarrow> [])))"

definition inspect_authoring_guide ::
  "(string \<Rightarrow> string) \<Rightarrow> packaged_release \<Rightarrow> string option \<Rightarrow>
   ('z svc_scheme, authoring_guide \<times> authoring_guide_revision) op" where
  "inspect_authoring_guide sha seed gid =
     bindE (bootstrap_packaged_release sha seed) (\<lambda>_.
     bindE (lift_result (canonical_guide_id seed gid)) (\<lambda>i. atomically
       (bindE (item_of authoring_guides_coll (key i)) (\<lambda>g.
        (case guide_active_revision_id g of
           None \<Rightarrow> raise (PlatformReleaseConflictError (''authoring guide has no active revision: '' @ i))
         | Some r \<Rightarrow> bindE (item_of authoring_guide_revisions_coll (key r)) (\<lambda>rev. ret (g, rev)))))))"

definition active_theme_revision ::
  "(string \<Rightarrow> string) \<Rightarrow> packaged_release \<Rightarrow> ('z svc_scheme, ui_theme_revision) op" where
  "active_theme_revision sha seed =
     bindE (bootstrap_packaged_release sha seed) (\<lambda>_. atomically
       (bindE (item_of ui_themes_coll (key (seed_theme_id seed))) (\<lambda>th.
        (case theme_active_revision_id th of
           None \<Rightarrow> raise (PlatformReleaseConflictError (''UI theme has no active revision: '' @ theme_id th))
         | Some r \<Rightarrow> item_of ui_theme_revisions_coll (key r)))))"

definition inspect_surface_theme ::
  "(string \<Rightarrow> string) \<Rightarrow> packaged_release \<Rightarrow> ('z svc_scheme, ui_theme \<times> ui_theme_revision) op" where
  "inspect_surface_theme sha seed =
     bindE (active_theme_revision sha seed) (\<lambda>r. atomically
       (bindE (item_of ui_themes_coll (key (themerev_theme_id r))) (\<lambda>th. ret (th, r))))"

definition component_palette :: "string list" where
  "component_palette = [''Accordion'', ''Alert'', ''AlertDialog'', ''AspectRatio'', ''Avatar'', ''Badge'', ''Breadcrumb'',
     ''Button'', ''Calendar'', ''Card'', ''Carousel'', ''Checkbox'', ''Collapsible'', ''Command'', ''ContextMenu'',
     ''DataTable'', ''DatePicker'', ''Dialog'', ''Drawer'', ''DropdownMenu'', ''Form'', ''HoverCard'', ''Input'',
     ''InputOTP'', ''Label'', ''Menubar'', ''NavigationMenu'', ''Pagination'', ''Popover'', ''Progress'', ''RadioGroup'',
     ''Resizable'', ''ScrollArea'', ''Select'', ''Separator'', ''Sheet'', ''Sidebar'', ''Skeleton'', ''Slider'', ''Sonner'',
     ''Switch'', ''Table'', ''Tabs'', ''Textarea'', ''Toggle'', ''ToggleGroup'', ''Tooltip'']"

record palette =
  pal_release_version :: string
  pal_theme_revision_id :: "string option"
  pal_theme_content_hash :: string
  pal_components :: "(string \<times> string) list"

definition inspect_component_palette ::
  "(string \<Rightarrow> string) \<Rightarrow> packaged_release \<Rightarrow> ('z svc_scheme, palette) op" where
  "inspect_component_palette sha seed =
     bindE (inspect_surface_theme sha seed) (\<lambda>(th, r).
     ret \<lparr>pal_release_version = themerev_release_version r, pal_theme_revision_id = theme_active_revision_id th,
       pal_theme_content_hash = themerev_content_hash r,
       pal_components = map (\<lambda>n. (n, ''import { '' @ n @ '' } from '' @ quoted ''./components/ui'' @ '';'')) component_palette\<rparr>)"

section \<open>The design context of an Experience revision\<close>

record design_context =
  ctxt_unchanged :: bool
  ctxt_content_hash :: string
  ctxt_revision :: experience_revision
  ctxt_guide_hash :: string
  ctxt_theme_hash :: string
  ctxt_guide :: "authoring_guide_revision option"
  ctxt_theme :: "ui_theme_revision option"
  ctxt_content :: "(string \<times> string) option"

definition ui_profile_text :: "ui_profile \<Rightarrow> string" where
  "ui_profile_text p = (case p of Ui_n4x_default \<Rightarrow> ''n4x-default'' | Ui_custom \<Rightarrow> ''custom'' | Ui_none \<Rightarrow> ''none'')"

definition inspect_experience_design_context ::
  "(string \<Rightarrow> string) \<Rightarrow> packaged_release \<Rightarrow> string \<Rightarrow> bool \<Rightarrow> string option \<Rightarrow> ('z svc_scheme, design_context) op" where
  "inspect_experience_design_context sha seed rid include_content last_seen =
     bindE (bootstrap_packaged_release sha seed) (\<lambda>_. atomically
       (bindE (item_of experience_revisions_coll (key rid)) (\<lambda>rev.
        bindE (item_of authoring_guides_coll (key (seed_guide_id seed))) (\<lambda>g.
        bindE (item_of ui_themes_coll (key (seed_theme_id seed))) (\<lambda>th.
        (case (guide_active_revision_id g, theme_active_revision_id th) of
           (None, _) \<Rightarrow> raise (PlatformReleaseConflictError (''authoring guide has no active revision: '' @ guide_id g))
         | (_, None) \<Rightarrow> raise (PlatformReleaseConflictError (''UI theme has no active revision: '' @ theme_id th))
         | (Some gi, Some ti) \<Rightarrow>
             bindE (item_of authoring_guide_revisions_coll (key gi)) (\<lambda>gr.
             bindE (item_of ui_theme_revisions_coll (key ti)) (\<lambda>tr.
             (let h = guiderev_content_hash gr @ '':'' @ themerev_content_hash tr @ '':'' @ ui_profile_text (exprev_ui_profile rev)
              in if last_seen = Some h
                 then ret \<lparr>ctxt_unchanged = True, ctxt_content_hash = h, ctxt_revision = rev,
                   ctxt_guide_hash = guiderev_content_hash gr, ctxt_theme_hash = themerev_content_hash tr, ctxt_guide = None,
                   ctxt_theme = None, ctxt_content = None\<rparr>
                 else ret \<lparr>ctxt_unchanged = False, ctxt_content_hash = h, ctxt_revision = rev,
                   ctxt_guide_hash = guiderev_content_hash gr, ctxt_theme_hash = themerev_content_hash tr, ctxt_guide = Some gr,
                   ctxt_theme = Some tr,
                   ctxt_content = (if include_content then Some (guiderev_content gr, themerev_css_text tr) else None)\<rparr>)))))))))"

end
