(* ===== verification/Authoring_Laws.thy ===== *)
theory Authoring_Laws
  imports Platform_Authoring Checkpoint_Laws
begin

text \<open>
  Laws of the authoring release. The locale states what a kind of release promises (its two
  collections and its fields); themes and guides are its interpretations. What is shown: when the
  look-up of a version succeeds, what an activation leaves behind, and that activating the active
  revision again only rewrites its pointer.
\<close>

section \<open>Rewriting a pointer\<close>

definition repoint :: "node_ref \<Rightarrow> node_ref \<Rightarrow> edge list \<Rightarrow> edge list" where
  "repoint f to es = filter (\<lambda>e. \<not> (edge_from e = f \<and> edge_type e = ''ACTIVE_REVISION'')) es @
     [new_edge f ''ACTIVE_REVISION'' to []]"

lemma point_to_repoint:
  "point_to f ''ACTIVE_REVISION'' to s = (Inr (), s\<lparr>svc_graph := svc_graph s\<lparr>edges := repoint f to (edges (svc_graph s))\<rparr>\<rparr>)"
proof -
  have "delete_edge f ''ACTIVE_REVISION'' None None g =
      g\<lparr>edges := filter (\<lambda>e. \<not> (edge_from e = f \<and> edge_type e = ''ACTIVE_REVISION'')) (edges g)\<rparr>" for g :: "node_value graph"
    by (auto simp: delete_edge_def matches_edge_def intro!: arg_cong [where f = "\<lambda>x. g\<lparr>edges := x\<rparr>"] filter_cong)
  moreover have "find (same_edge f ''ACTIVE_REVISION'' to)
      (filter (\<lambda>e. \<not> (edge_from e = f \<and> edge_type e = ''ACTIVE_REVISION'')) es) = None" for es
    by (auto simp: find_None_iff same_edge_def)
  ultimately show ?thesis
    by (simp add: point_to_def op_defs replace_single_edge_def create_edge_def Let_def repoint_def)
qed

lemma repoint_twice:
  "f \<noteq> f' \<Longrightarrow> repoint f' to' (repoint f to (repoint f' to' (repoint f to es))) = repoint f' to' (repoint f to es)"
  by (simp add: repoint_def new_edge_def) (auto intro!: filter_cong)

definition edge_there :: "node_ref \<Rightarrow> string \<Rightarrow> node_ref \<Rightarrow> edge list \<Rightarrow> bool" where
  "edge_there f t to es \<longleftrightarrow> (\<exists>e \<in> set es. same_edge f t to e)"

lemma edge_there_repoint: "t \<noteq> ''ACTIVE_REVISION'' \<Longrightarrow> edge_there f t to (repoint f' to' es) = edge_there f t to es"
  by (auto simp: edge_there_def repoint_def new_edge_def same_edge_def)

lemma update_first_id: "(\<And>x. h x = x) \<Longrightarrow> update_first P h xs = xs"
  by (induction xs) auto

lemma create_edge_again:
  assumes "edge_there f t to (edges g)" and "t \<noteq> ''HAS_FILE''"
  shows "create_edge f t to [] g = g"
proof -
  have "find (same_edge f t to) (edges g) \<noteq> None" using assms(1) by (auto simp: find_None_iff edge_there_def)
  with assms(2) show ?thesis by (auto simp: create_edge_def Let_def update_first_id)
qed

lemma edge_there_create: "t \<noteq> ''HAS_FILE'' \<Longrightarrow> edge_there f t to (edges (create_edge f t to p g))"
  and edge_there_grows: "t' \<noteq> ''HAS_FILE'' \<Longrightarrow> edge_there f t to (edges g) \<Longrightarrow> edge_there f t to (edges (create_edge f' t' to' p g))"
proof -
  have upd: "edge_there f t to (update_first P (\<lambda>e. e\<lparr>edge_props := dict_merge (edge_props e) p\<rparr>) es) = edge_there f t to es"
    for f t to P es
  proof -
    have "map (\<lambda>e. (edge_from e, edge_type e, edge_to e)) (update_first P (\<lambda>e. e\<lparr>edge_props := dict_merge (edge_props e) p\<rparr>) es) =
        map (\<lambda>e. (edge_from e, edge_type e, edge_to e)) es"
      by (rule map_update_first) simp
    moreover have "edge_there f t to es \<longleftrightarrow> (f, t, to) \<in> set (map (\<lambda>e. (edge_from e, edge_type e, edge_to e)) es)" for es
      by (auto simp: edge_there_def same_edge_def image_iff)
    ultimately show ?thesis by (simp only:)
  qed
  show "edge_there f t to (edges (create_edge f t to p g))" if "t \<noteq> ''HAS_FILE''"
  proof (cases "find (same_edge f t to) (edges g)")
    case None
    with that show ?thesis by (simp add: create_edge_def edge_there_def new_edge_def same_edge_def)
  next
    case (Some e)
    then have "edge_there f t to (edges g)" by (auto simp: edge_there_def dest: find_SomeD)
    with Some that show ?thesis by (simp add: create_edge_def upd)
  qed
  show "t' \<noteq> ''HAS_FILE'' \<Longrightarrow> edge_there f t to (edges g) \<Longrightarrow> edge_there f t to (edges (create_edge f' t' to' p g))"
    by (auto simp: create_edge_def Let_def upd split: option.splits) (simp add: edge_there_def)
qed

section \<open>What a kind of release promises\<close>

locale release_records = owners: record_collection "kind_owners k" + revs: record_collection "kind_revisions k"
  for k :: "('o, 'r) release_kind" +
  assumes labels: "coll_label (kind_owners k) \<noteq> coll_label (kind_revisions k)"
    and owner_identity: "coll_identity (kind_owners k) x = key (kind_owner_id k x)"
    and rev_identity: "coll_identity (kind_revisions k) r = key (kind_rev_id k r)"
    and point: "kind_owner_id k (kind_point k i t x) = kind_owner_id k x" "kind_active k (kind_point k i t x) = Some i"
    and status: "kind_status k (kind_set_status k st r) = st"
    and kept: "kind_rev_id k (kind_set_status k st r) = kind_rev_id k r"
      "kind_rev_owner k (kind_set_status k st r) = kind_rev_owner k r"
      "kind_rev_version k (kind_set_status k st r) = kind_rev_version k r"
      "kind_rev_hash k (kind_set_status k st r) = kind_rev_hash k r"
      "kind_rev_content k (kind_set_status k st r) = kind_rev_content k r"
begin

definition owner_at :: "string \<Rightarrow> node_value graph \<Rightarrow> 'o option" where
  "owner_at i g = coll_get (kind_owners k) (key i) g"

definition rev_at :: "string \<Rightarrow> node_value graph \<Rightarrow> 'r option" where
  "rev_at i g = coll_get (kind_revisions k) (key i) g"

lemma of_release_status [simp]: "of_release k w v (kind_set_status k st r) = of_release k w v r"
  by (simp add: of_release_def kept)

lemma rev_at_id: "typed_graph g \<Longrightarrow> rev_at i g = Some r \<Longrightarrow> kind_rev_id k r = i"
  using revs.get_identity [of g "key i" r] by (simp add: rev_at_def rev_identity)

lemma owner_at_id: "typed_graph g \<Longrightarrow> owner_at i g = Some x \<Longrightarrow> kind_owner_id k x = i"
  using owners.get_identity [of g "key i" x] by (simp add: owner_at_def owner_identity)

lemma rev_at_save: "rev_at i (coll_save (kind_revisions k) r g) = (if i = kind_rev_id k r then Some r else rev_at i g)"
  by (simp add: rev_at_def revs.get_save rev_identity)

lemma owner_at_save: "owner_at i (coll_save (kind_owners k) x g) = (if i = kind_owner_id k x then Some x else owner_at i g)"
  by (simp add: owner_at_def owners.get_save owner_identity)

lemma at_other:
  "coll_label c \<noteq> coll_label (kind_owners k) \<Longrightarrow> owner_at i (coll_save c m g) = owner_at i g"
  "coll_label c \<noteq> coll_label (kind_revisions k) \<Longrightarrow> rev_at i (coll_save c m g) = rev_at i g"
  by (auto simp: owner_at_def rev_at_def coll_save_def owners.get_upsert_other revs.get_upsert_other)

lemma at_edges [simp]:
  "owner_at i (g\<lparr>edges := es\<rparr>) = owner_at i g" "rev_at i (g\<lparr>edges := es\<rparr>) = rev_at i g"
  "owner_at i (create_edge f t to p g) = owner_at i g" "rev_at i (create_edge f t to p g) = rev_at i g"
  by (simp_all add: owner_at_def rev_at_def coll_get_def get_node_def graph_simps)

text \<open>The look-up of a version succeeds when no other revision has the version and content agrees.\<close>

lemma existing_iff:
  assumes ok: "typed_graph g" "wf_graph g"
  shows "existing_release_revision sha k w v rid h g = Inr x \<longleftrightarrow>
    (\<forall>i r. rev_at i g = Some r \<and> of_release k w v r \<longrightarrow> i = rid) \<and> x = rev_at rid g \<and>
    (\<forall>r. x = Some r \<longrightarrow> of_release k w v r \<and> kind_rev_hash k r = h \<and> sha256_text sha (kind_rev_content k r) = h)"
proof -
  let ?m = "filter (of_release k w v) (coll_values (kind_revisions k) g)"
  have mem: "r \<in> set ?m \<longleftrightarrow> of_release k w v r \<and> rev_at (kind_rev_id k r) g = Some r" for r
    using revs.values_iff [OF ok, of r] by (auto simp: rev_at_def rev_identity)
  have d: "distinct (map (kind_rev_id k) ?m)"
  proof -
    have "distinct (map (coll_identity (kind_revisions k)) ?m)"
      using revs.values_distinct [OF ok] by (simp add: distinct_map_filter)
    moreover have "coll_identity (kind_revisions k) = (\<lambda>r. key (kind_rev_id k r))" using rev_identity by blast
    ultimately have "distinct (map (\<lambda>r. key (kind_rev_id k r)) ?m)" by (simp only:)
    then show ?thesis by (auto simp: distinct_map inj_on_def)
  qed
  have only: "(\<forall>i r. rev_at i g = Some r \<and> of_release k w v r \<longrightarrow> i = rid) \<longleftrightarrow> (\<forall>r \<in> set ?m. kind_rev_id k r = rid)"
  proof (intro iffI allI ballI impI)
    fix i r assume a: "\<forall>r \<in> set ?m. kind_rev_id k r = rid" and r: "rev_at i g = Some r \<and> of_release k w v r"
    then have "kind_rev_id k r = i" using rev_at_id [OF ok(1)] by blast
    with r have "r \<in> set ?m" unfolding mem by simp
    with a \<open>kind_rev_id k r = i\<close> show "i = rid" by blast
  next
    fix r assume "\<forall>i r. rev_at i g = Some r \<and> of_release k w v r \<longrightarrow> i = rid" and "r \<in> set ?m"
    then show "kind_rev_id k r = rid" unfolding mem by blast
  qed
  show ?thesis
  proof (cases ?m)
    case Nil
    then have "\<not> of_release k w v r" if "rev_at rid g = Some r" for r
      using mem [of r] that rev_at_id [OF ok(1) that] by auto
    then show ?thesis
      unfolding existing_release_revision_def Let_def only Nil
      by (auto simp: rev_at_def split: option.splits)
  next
    case (Cons r rs)
    show ?thesis
    proof (cases "rs = [] \<and> kind_rev_id k r = rid")
      case True
      then have "rev_at rid g = Some r" "of_release k w v r" using mem [of r] Cons by auto
      with True Cons show ?thesis
        unfolding existing_release_revision_def Let_def only by auto
    next
      case False
      then have "\<not> (\<forall>r \<in> set ?m. kind_rev_id k r = rid)"
        using d Cons by (cases rs) auto
      then show ?thesis
        using False Cons unfolding existing_release_revision_def Let_def only by (cases rs) auto
    qed
  qed
qed

lemma existing_error: "existing_release_revision sha k w v rid h g = Inl e \<Longrightarrow> \<exists>m. e = PlatformReleaseConflictError m"
  by (auto simp: existing_release_revision_def Let_def split: if_splits option.splits)

text \<open>
  Two graphs that differ in the records of this kind only, with the same edges, both well formed.
\<close>

definition same_else :: "node_value graph \<Rightarrow> node_value graph \<Rightarrow> bool" where
  "same_else g h \<longleftrightarrow> edges h = edges g \<and> (typed_graph g \<longrightarrow> typed_graph h) \<and> (wf_graph g \<longrightarrow> wf_graph h) \<and>
     (\<forall>l i. l \<notin> {coll_label (kind_owners k), coll_label (kind_revisions k)} \<longrightarrow> get_node l i h = get_node l i g)"

lemma same_else_refl: "same_else g g"
  by (simp add: same_else_def)

lemma same_else_get:
  "same_else g h \<Longrightarrow> l \<noteq> coll_label (kind_owners k) \<Longrightarrow> l \<noteq> coll_label (kind_revisions k) \<Longrightarrow>
   get_node l i h = get_node l i g"
  by (simp only: same_else_def) simp

lemma same_else_trans: "same_else g h \<Longrightarrow> same_else h u \<Longrightarrow> same_else g u"
  by (auto simp: same_else_def)

lemma save_frame:
  "edges (coll_save c m g) = edges g"
  "l \<noteq> coll_label c \<Longrightarrow> get_node l i (coll_save c m g) = get_node l i g"
  by (simp_all add: coll_save_def graph_simps)

lemma same_else_save: "same_else g (coll_save (kind_owners k) x g)" "same_else g (coll_save (kind_revisions k) r g)"
  by (auto simp: same_else_def owners.typed_save owners.wf_save revs.typed_save revs.wf_save save_frame)

lemma supersedes:
  assumes "typed_graph (svc_graph s)"
  shows "\<exists>t. supersede_previous k x r s = (Inr (), t) \<and> same_else (svc_graph s) (svc_graph t) \<and>
    (\<forall>j. owner_at j (svc_graph t) = owner_at j (svc_graph s)) \<and>
    (\<forall>j. rev_at j (svc_graph t) =
       (if kind_active k x = Some j \<and> j \<noteq> kind_rev_id k r
        then map_option (\<lambda>p. if kind_status k p \<noteq> PlatRev_superseded then kind_set_status k PlatRev_superseded p else p)
          (rev_at j (svc_graph s)) else rev_at j (svc_graph s)))"
proof (cases "kind_active k x")
  case None
  then show ?thesis by (simp add: supersede_previous_def op_defs same_else_refl)
next
  case (Some i)
  show ?thesis
  proof (cases "i = kind_rev_id k r")
    case True
    with Some show ?thesis by (auto simp: supersede_previous_def op_defs same_else_refl)
  next
    case False
    show ?thesis
    proof (cases "rev_at i (svc_graph s)")
      case None
      with Some False show ?thesis by (auto simp: supersede_previous_def op_defs same_else_refl rev_at_def)
    next
      case (Some p)
      then have "kind_rev_id k p = i" by (rule rev_at_id [OF assms])
      with Some \<open>kind_active k x = Some i\<close> False show ?thesis
        using labels
        by (auto simp: supersede_previous_def op_defs same_else_refl same_else_save rev_at_save at_other kept
            simp flip: rev_at_def)
    qed
  qed
qed

lemma marks:
  assumes "typed_graph (svc_graph s)" and "rev_at (kind_rev_id k r) (svc_graph s) = Some r"
  shows "\<exists>t. mark_active k r s = (Inr (), t) \<and> same_else (svc_graph s) (svc_graph t) \<and>
    (\<forall>j. owner_at j (svc_graph t) = owner_at j (svc_graph s)) \<and>
    (\<forall>j. rev_at j (svc_graph t) = (if j = kind_rev_id k r
       then Some (if kind_status k r \<noteq> PlatRev_active then kind_set_status k PlatRev_active r else r)
       else rev_at j (svc_graph s)))"
  using assms labels
  by (auto simp: mark_active_def op_defs same_else_refl same_else_save rev_at_save at_other kept)

lemma records:
  assumes "typed_graph (svc_graph s)" and "owner_at (kind_owner_id k x) (svc_graph s) = Some x"
  shows "\<exists>t y. record_active k x r s = (Inr (), t) \<and> same_else (svc_graph s) (svc_graph t) \<and>
    (\<forall>j. rev_at j (svc_graph t) = rev_at j (svc_graph s)) \<and>
    kind_active k y = Some (kind_rev_id k r) \<and>
    (\<forall>j. owner_at j (svc_graph t) = (if j = kind_owner_id k x then Some y else owner_at j (svc_graph s)))"
proof (cases "kind_active k x = Some (kind_rev_id k r)")
  case True
  with assms show ?thesis by (intro exI [of _ s] exI [of _ x]) (auto simp: record_active_def op_defs same_else_refl)
next
  case False
  let ?y = "kind_point k (kind_rev_id k r) (svc_clock s (svc_ticks s)) x"
  from False show ?thesis
    using labels
    by (intro exI [of _ "s\<lparr>svc_ticks := Suc (svc_ticks s), svc_graph := coll_save (kind_owners k) ?y (svc_graph s)\<rparr>"] exI [of _ ?y])
      (auto simp: record_active_def op_defs same_else_save owner_at_save at_other point)
qed

lemma finds:
  assumes "typed_graph (svc_graph s)" and "\<And>a b. kind_owner_id k (new a b) = w"
  shows "\<exists>t x. found_or_new (kind_owners k) w new s = (Inr x, t) \<and> same_else (svc_graph s) (svc_graph t) \<and>
    kind_owner_id k x = w \<and> (owner_at w (svc_graph s) = Some x \<or> owner_at w (svc_graph s) = None \<and> (\<exists>a b. x = new a b)) \<and>
    (\<forall>j. owner_at j (svc_graph t) = (if j = w then Some x else owner_at j (svc_graph s))) \<and>
    (\<forall>j. rev_at j (svc_graph t) = rev_at j (svc_graph s))"
proof (cases "owner_at w (svc_graph s)")
  case None
  then show ?thesis
    using labels assms(2)
    by (auto simp: found_or_new_def op_defs same_else_save owner_at_save at_other simp flip: owner_at_def)
next
  case (Some x)
  then have "kind_owner_id k x = w" by (rule owner_at_id [OF assms(1)])
  with Some show ?thesis by (auto simp: found_or_new_def op_defs same_else_refl simp flip: owner_at_def)
qed

lemma keeps:
  assumes "typed_graph (svc_graph s)" and "\<And>a. kind_rev_id k (new a) = rid" and "x = rev_at rid (svc_graph s)"
  shows "\<exists>t r. kept_or_new (kind_revisions k) x new s = (Inr r, t) \<and> same_else (svc_graph s) (svc_graph t) \<and>
    kind_rev_id k r = rid \<and> (x = Some r \<or> x = None \<and> (\<exists>a. r = new a)) \<and>
    (\<forall>j. rev_at j (svc_graph t) = (if j = rid then Some r else rev_at j (svc_graph s))) \<and>
    (\<forall>j. owner_at j (svc_graph t) = owner_at j (svc_graph s))"
proof (cases x)
  case None
  then show ?thesis
    using labels assms(2) by (auto simp: kept_or_new_def op_defs same_else_save rev_at_save at_other)
next
  case (Some r)
  then have "kind_rev_id k r = rid" using rev_at_id [OF assms(1)] assms(3) by simp
  with Some assms(3) show ?thesis by (auto simp: kept_or_new_def op_defs same_else_refl)
qed

subsection \<open>What an activation leaves behind\<close>

definition owner_ref :: "string \<Rightarrow> node_ref" where
  "owner_ref w = id_ref (coll_label (kind_owners k)) w"

definition rev_ref :: "string \<Rightarrow> node_ref" where
  "rev_ref rid = id_ref (coll_label (kind_revisions k)) rid"

definition as_active :: "'r \<Rightarrow> 'r" where
  "as_active r = (if kind_status k r \<noteq> PlatRev_active then kind_set_status k PlatRev_active r else r)"

definition advanced :: "string \<Rightarrow> 'r \<Rightarrow> node_value graph \<Rightarrow> node_value graph \<Rightarrow> bool" where
  "advanced w r g h \<longleftrightarrow>
     edges h = repoint (owner_ref w) (rev_ref (kind_rev_id k r)) (edges g) \<and>
     (\<forall>l i. l \<notin> {coll_label (kind_owners k), coll_label (kind_revisions k)} \<longrightarrow> get_node l i h = get_node l i g) \<and>
     (\<exists>y. owner_at w h = Some y \<and> kind_active k y = Some (kind_rev_id k r)) \<and>
     (\<forall>j. j \<noteq> w \<longrightarrow> owner_at j h = owner_at j g) \<and>
     rev_at (kind_rev_id k r) h = Some (as_active r) \<and>
     (\<forall>j p. j \<noteq> kind_rev_id k r \<longrightarrow> rev_at j h = Some p \<longrightarrow>
        (\<exists>q. rev_at j g = Some q \<and> (p = q \<or> p = kind_set_status k PlatRev_superseded q)) \<and>
        (kind_status k p = PlatRev_active \<longrightarrow>
           rev_at j g = Some p \<and> \<not> (\<exists>x. owner_at w g = Some x \<and> kind_active k x = Some j)))"

lemma advanced_active: "advanced w r g h \<Longrightarrow> rev_at (kind_rev_id k r) h = Some (as_active r)"
  and advanced_edges: "advanced w r g h \<Longrightarrow> edges h = repoint (owner_ref w) (rev_ref (kind_rev_id k r)) (edges g)"
  and advanced_owner: "advanced w r g h \<Longrightarrow> \<exists>y. owner_at w h = Some y \<and> kind_active k y = Some (kind_rev_id k r)"
  and advanced_frame: "advanced w r g h \<Longrightarrow> l \<noteq> coll_label (kind_owners k) \<Longrightarrow> l \<noteq> coll_label (kind_revisions k) \<Longrightarrow>
    get_node l i h = get_node l i g"
  by (simp_all only: advanced_def) simp

lemma advanced_rest:
  assumes "advanced w r g h" and "j \<noteq> kind_rev_id k r" and "rev_at j h = Some p"
  shows "\<exists>q. rev_at j g = Some q \<and> (p = q \<or> p = kind_set_status k PlatRev_superseded q)"
    and "kind_status k p = PlatRev_active \<Longrightarrow>
      rev_at j g = Some p \<and> \<not> (\<exists>x. owner_at w g = Some x \<and> kind_active k x = Some j)"
proof -
  from assms(1) have "\<forall>j p. j \<noteq> kind_rev_id k r \<longrightarrow> rev_at j h = Some p \<longrightarrow>
     (\<exists>q. rev_at j g = Some q \<and> (p = q \<or> p = kind_set_status k PlatRev_superseded q)) \<and>
     (kind_status k p = PlatRev_active \<longrightarrow>
        rev_at j g = Some p \<and> \<not> (\<exists>x. owner_at w g = Some x \<and> kind_active k x = Some j))"
    unfolding advanced_def by (elim conjE)
  from this [THEN spec, THEN spec, THEN mp, THEN mp, OF assms(2,3)]
  show "\<exists>q. rev_at j g = Some q \<and> (p = q \<or> p = kind_set_status k PlatRev_superseded q)"
    "kind_status k p = PlatRev_active \<Longrightarrow>
      rev_at j g = Some p \<and> \<not> (\<exists>x. owner_at w g = Some x \<and> kind_active k x = Some j)" by blast+
qed

lemma repointed_ok [simp]:
  "typed_graph (g\<lparr>edges := es\<rparr>) = typed_graph g"
  "wf_graph (g\<lparr>edges := repoint f to (edges g)\<rparr>) = wf_graph g"
  "get_node l i (g\<lparr>edges := es\<rparr>) = get_node l i g"
proof -
  have "filter (\<lambda>e. edge_type e = ''HAS_FILE'') (repoint f to es) = filter (\<lambda>e. edge_type e = ''HAS_FILE'') es" for es
    by (auto simp: repoint_def new_edge_def intro!: filter_cong)
  then show "wf_graph (g\<lparr>edges := repoint f to (edges g)\<rparr>) = wf_graph g"
    by (simp add: wf_graph_def file_edges_def)
qed (simp_all add: typed_graph_def get_node_def)

lemma activates:
  assumes g: "typed_graph (svc_graph s)" and x: "owner_at w (svc_graph s) = Some x"
    and r: "rev_at (kind_rev_id k r) (svc_graph s) = Some r"
  shows "\<exists>t. activate_release k x r s = (Inr (), t) \<and> advanced w r (svc_graph s) (svc_graph t) \<and>
    typed_graph (svc_graph t) \<and> (wf_graph (svc_graph s) \<longrightarrow> wf_graph (svc_graph t))"
proof -
  have w: "kind_owner_id k x = w" by (rule owner_at_id [OF g x])
  from supersedes [OF g, of x r] obtain s1 where s1: "supersede_previous k x r s = (Inr (), s1)"
    "same_else (svc_graph s) (svc_graph s1)" "\<And>j. owner_at j (svc_graph s1) = owner_at j (svc_graph s)"
    and v1: "\<And>j. rev_at j (svc_graph s1) =
       (if kind_active k x = Some j \<and> j \<noteq> kind_rev_id k r
        then map_option (\<lambda>p. if kind_status k p \<noteq> PlatRev_superseded then kind_set_status k PlatRev_superseded p else p)
          (rev_at j (svc_graph s)) else rev_at j (svc_graph s))" by blast
  have g1: "typed_graph (svc_graph s1)" using s1(2) g by (simp add: same_else_def)
  have "rev_at (kind_rev_id k r) (svc_graph s1) = Some r" by (simp add: v1 r)
  from marks [OF g1 this] obtain s2 where s2: "mark_active k r s1 = (Inr (), s2)"
    "same_else (svc_graph s1) (svc_graph s2)" "\<And>j. owner_at j (svc_graph s2) = owner_at j (svc_graph s1)"
    and v2: "\<And>j. rev_at j (svc_graph s2) = (if j = kind_rev_id k r then Some (as_active r) else rev_at j (svc_graph s1))"
    unfolding as_active_def by blast
  have g2: "typed_graph (svc_graph s2)" using s2(2) g1 by (simp add: same_else_def)
  have "owner_at (kind_owner_id k x) (svc_graph s2) = Some x" by (simp add: s2(3) s1(3) x w)
  from records [OF g2 this, of r] obtain s3 y where s3: "record_active k x r s2 = (Inr (), s3)"
    "same_else (svc_graph s2) (svc_graph s3)" "\<And>j. rev_at j (svc_graph s3) = rev_at j (svc_graph s2)"
    "kind_active k y = Some (kind_rev_id k r)"
    and o3: "\<And>j. owner_at j (svc_graph s3) = (if j = w then Some y else owner_at j (svc_graph s2))"
    unfolding w by blast
  let ?h = "svc_graph s3\<lparr>edges := repoint (owner_ref w) (rev_ref (kind_rev_id k r)) (edges (svc_graph s3))\<rparr>"
  have run: "activate_release k x r s = (Inr (), s3\<lparr>svc_graph := ?h\<rparr>)"
    by (simp add: activate_release_def bindE_apply s1(1) s2(1) s3(1) point_to_repoint owner_ref_def rev_ref_def w)
  have e: "same_else (svc_graph s) (svc_graph s3)" using s1(2) s2(2) s3(2) same_else_trans by blast
  have "advanced w r (svc_graph s) ?h"
    unfolding advanced_def
  proof (intro conjI allI impI)
    fix j p assume "j \<noteq> kind_rev_id k r" "rev_at j ?h = Some p"
    then show "\<exists>q. rev_at j (svc_graph s) = Some q \<and> (p = q \<or> p = kind_set_status k PlatRev_superseded q)"
      by (auto simp: s3(3) v2 v1 split: if_splits)
  next
    fix j p assume "j \<noteq> kind_rev_id k r" "rev_at j ?h = Some p" "kind_status k p = PlatRev_active"
    then show "rev_at j (svc_graph s) = Some p"
      "\<not> (\<exists>x. owner_at w (svc_graph s) = Some x \<and> kind_active k x = Some j)"
      by (auto simp: s3(3) v2 v1 x status split: if_splits)
        (metis status platform_revision_status.distinct(1))
  qed (use e in \<open>simp_all add: s3(3,4) o3 v2 s2(3) s1(3) same_else_def\<close>)
  moreover have "typed_graph ?h" using e g by (simp add: same_else_def)
  moreover have "wf_graph (svc_graph s) \<longrightarrow> wf_graph ?h"
    using e unfolding repointed_ok(2) same_else_def by blast
  ultimately show ?thesis using run by simp
qed

lemma at_frame:
  assumes "\<And>l i. l \<in> {coll_label (kind_owners k), coll_label (kind_revisions k)} \<Longrightarrow> get_node l i h = get_node l i g"
  shows "owner_at j h = owner_at j g" "rev_at j h = rev_at j g"
  using assms by (simp_all add: owner_at_def rev_at_def coll_get_def)

text \<open>A revision that is active already is activated again: only its pointer is written.\<close>

lemma activates_again:
  assumes "kind_active k x = Some (kind_rev_id k r)" and "kind_status k r = PlatRev_active"
  shows "activate_release k x r s = (Inr (), s\<lparr>svc_graph := svc_graph s\<lparr>edges :=
    repoint (owner_ref (kind_owner_id k x)) (rev_ref (kind_rev_id k r)) (edges (svc_graph s))\<rparr>\<rparr>)"
  using assms
  by (simp add: activate_release_def supersede_previous_def mark_active_def record_active_def op_defs
      point_to_repoint owner_ref_def rev_ref_def)

text \<open>The look-up finds the revision that was activated.\<close>

lemma found_afterwards:
  assumes g: "typed_graph g" "wf_graph g" and h: "typed_graph h" "wf_graph h"
    and before: "existing_release_revision sha k w v rid c g0 = Inr x" and g0: "typed_graph g0" "wf_graph g0"
    and same: "\<And>j. j \<noteq> rid \<Longrightarrow> rev_at j g = rev_at j g0"
    and r: "kind_rev_id k r = rid" "x = Some r \<or> of_release k w v r \<and> kind_rev_hash k r = c \<and> sha256_text sha (kind_rev_content k r) = c"
    and adv: "advanced w r g h"
  shows "existing_release_revision sha k w v rid c h = Inr (Some (as_active r))"
proof -
  from before have only: "\<And>i q. rev_at i g0 = Some q \<Longrightarrow> of_release k w v q \<Longrightarrow> i = rid"
    and x: "\<And>q. x = Some q \<Longrightarrow> of_release k w v q \<and> kind_rev_hash k q = c \<and> sha256_text sha (kind_rev_content k q) = c"
    unfolding existing_iff [OF g0] by blast+
  have good: "of_release k w v (as_active r) \<and> kind_rev_hash k (as_active r) = c \<and> sha256_text sha (kind_rev_content k (as_active r)) = c"
    using r(2) x by (auto simp: as_active_def kept)
  have "i = rid" if "rev_at i h = Some q" "of_release k w v q" for i q
  proof (rule ccontr)
    assume "i \<noteq> rid"
    then have "i \<noteq> kind_rev_id k r" using r(1) by simp
    from advanced_rest(1) [OF adv this that(1)]
    obtain q' where "rev_at i g = Some q'" "q = q' \<or> q = kind_set_status k PlatRev_superseded q'" by blast
    then have "rev_at i g0 = Some q'" "of_release k w v q'" using same [OF \<open>i \<noteq> rid\<close>] that(2) by auto
    with only \<open>i \<noteq> rid\<close> show False by blast
  qed
  moreover have "rev_at rid h = Some (as_active r)" using advanced_active [OF adv] r(1) by simp
  ultimately show ?thesis unfolding existing_iff [OF h] using good by (metis option.inject)
qed

text \<open>If only the recorded revision of an owner was active, only the published one is.\<close>

lemma active_is_published:
  assumes adv: "advanced w r g h"
    and before: "\<And>j p. rev_at j g = Some p \<Longrightarrow> kind_rev_owner k p = w \<Longrightarrow> kind_status k p = PlatRev_active \<Longrightarrow>
      j = kind_rev_id k r \<or> (\<exists>x. owner_at w g = Some x \<and> kind_active k x = Some j)"
    and p: "rev_at j h = Some p" "kind_rev_owner k p = w" "kind_status k p = PlatRev_active"
  shows "j = kind_rev_id k r"
proof (rule ccontr)
  assume j: "j \<noteq> kind_rev_id k r"
  from advanced_rest(2) [OF adv j p(1) p(3)] have "rev_at j g = Some p" "\<not> (\<exists>x. owner_at w g = Some x \<and> kind_active k x = Some j)" by simp_all
  from before [OF this(1) p(2,3)] this(2) j show False by blast
qed

lemma existing_frame:
  assumes "typed_graph g" "wf_graph g" "typed_graph h" "wf_graph h" and "\<And>j. rev_at j h = rev_at j g"
    and "existing_release_revision sha k w v rid c g = Inr x"
  shows "existing_release_revision sha k w v rid c h = Inr x"
  using assms(6) unfolding existing_iff [OF assms(1,2)] existing_iff [OF assms(3,4)] assms(5) .

end

interpretation themes: release_records theme_kind
  by unfold_locales (auto simp: theme_kind_def ui_themes.decode_iff ui_themes.label_put ui_themes.identity_put
      ui_theme_revisions.decode_iff ui_theme_revisions.label_put ui_theme_revisions.identity_put
      dest: ui_themes.label_only ui_theme_revisions.label_only, simp_all add: ui_themes_coll_def ui_theme_revisions_coll_def)

interpretation guides: release_records guide_kind
  by unfold_locales (auto simp: guide_kind_def authoring_guides.decode_iff authoring_guides.label_put
      authoring_guides.identity_put authoring_guide_revisions.decode_iff authoring_guide_revisions.label_put
      authoring_guide_revisions.identity_put
      dest: authoring_guides.label_only authoring_guide_revisions.label_only,
      simp_all add: authoring_guides_coll_def authoring_guide_revisions_coll_def)

lemma kind_simps [simp]:
  "kind_owners theme_kind = ui_themes_coll" "kind_revisions theme_kind = ui_theme_revisions_coll"
  "kind_owner_id theme_kind = theme_id" "kind_active theme_kind = theme_active_revision_id"
  "kind_rev_id theme_kind = themerev_id" "kind_rev_owner theme_kind = themerev_theme_id"
  "kind_rev_version theme_kind = themerev_release_version" "kind_rev_hash theme_kind = themerev_content_hash"
  "kind_rev_content theme_kind = themerev_css_text" "kind_status theme_kind = themerev_status"
  "kind_owners guide_kind = authoring_guides_coll" "kind_revisions guide_kind = authoring_guide_revisions_coll"
  "kind_owner_id guide_kind = guide_id" "kind_active guide_kind = guide_active_revision_id"
  "kind_rev_id guide_kind = guiderev_id" "kind_rev_owner guide_kind = guiderev_guide_id"
  "kind_rev_version guide_kind = guiderev_release_version" "kind_rev_hash guide_kind = guiderev_content_hash"
  "kind_rev_content guide_kind = guiderev_content" "kind_status guide_kind = guiderev_status"
  by (simp_all add: theme_kind_def guide_kind_def)

lemma kind_set:
  "kind_set_status theme_kind st a = a\<lparr>themerev_status := st\<rparr>" "kind_set_status guide_kind st b = b\<lparr>guiderev_status := st\<rparr>"
  by (simp_all add: theme_kind_def guide_kind_def)

lemma kind_labels [simp]:
  "coll_label ui_themes_coll = ''UiTheme''" "coll_label ui_theme_revisions_coll = ''UiThemeRevision''"
  "coll_label authoring_guides_coll = ''AuthoringGuide''"
  "coll_label authoring_guide_revisions_coll = ''AuthoringGuideRevision''"
  by (simp_all add: ui_themes_coll_def ui_theme_revisions_coll_def authoring_guides_coll_def authoring_guide_revisions_coll_def)

lemma kind_refs:
  "themes.owner_ref i = id_ref ''UiTheme'' i" "themes.rev_ref i = id_ref ''UiThemeRevision'' i"
  "guides.owner_ref i = id_ref ''AuthoringGuide'' i" "guides.rev_ref i = id_ref ''AuthoringGuideRevision'' i"
  by (simp_all add: themes.owner_ref_def themes.rev_ref_def guides.owner_ref_def guides.rev_ref_def)

section \<open>The look-up\<close>

lemma find_release_Inr:
  "find_release sha seed s = (Inr x, t) \<longleftrightarrow> t = s \<and> get_node ''N4XRoot'' (key ''n4x'') (svc_graph s) \<noteq> None \<and>
     existing_release_revision sha theme_kind (seed_theme_id seed) (seed_release_version seed)
       (release_id (seed_theme_id seed) seed) (sha256_text sha (seed_css_text seed)) (svc_graph s) = Inr (fst x) \<and>
     existing_release_revision sha guide_kind (seed_guide_id seed) (seed_release_version seed)
       (release_id (seed_guide_id seed) seed) (sha256_text sha (seed_guide_content seed)) (svc_graph s) = Inr (snd x) \<and>
     theme_metadata_ok seed (fst x) \<and> guide_metadata_ok seed (snd x)"
  by (cases x) (auto simp: find_release_def run_iffs asks_apply)

lemma find_release_Inl: "find_release sha seed s = (Inl e, t) \<Longrightarrow> t = s \<and> (\<exists>m. e = PlatformReleaseConflictError m)"
  by (auto simp: find_release_def bindE_apply op_defs dest: themes.existing_error guides.existing_error
      split: sum.splits if_splits)

section \<open>A release that is settled\<close>

text \<open>The records and edges of a published release; what a second publication finds.\<close>

definition settled ::
  "(string \<Rightarrow> string) \<Rightarrow> packaged_release \<Rightarrow> ui_theme_revision \<Rightarrow> authoring_guide_revision \<Rightarrow> node_value graph \<Rightarrow> bool" where
  "settled sha seed a b g \<longleftrightarrow>
     get_node ''N4XRoot'' (key ''n4x'') g \<noteq> None \<and>
     existing_release_revision sha theme_kind (seed_theme_id seed) (seed_release_version seed)
       (release_id (seed_theme_id seed) seed) (sha256_text sha (seed_css_text seed)) g = Inr (Some a) \<and>
     existing_release_revision sha guide_kind (seed_guide_id seed) (seed_release_version seed)
       (release_id (seed_guide_id seed) seed) (sha256_text sha (seed_guide_content seed)) g = Inr (Some b) \<and>
     theme_metadata_ok seed (Some a) \<and> guide_metadata_ok seed (Some b) \<and>
     themerev_status a = PlatRev_active \<and> guiderev_status b = PlatRev_active \<and>
     (\<exists>x. coll_get ui_themes_coll (key (seed_theme_id seed)) g = Some x \<and> theme_id x = seed_theme_id seed \<and>
        theme_active_revision_id x = Some (themerev_id a)) \<and>
     (\<exists>y. coll_get authoring_guides_coll (key (seed_guide_id seed)) g = Some y \<and> guide_id y = seed_guide_id seed \<and>
        guide_active_revision_id y = Some (guiderev_id b)) \<and>
     edge_there root_ref ''HAS_UI_THEME'' (id_ref ''UiTheme'' (seed_theme_id seed)) (edges g) \<and>
     edge_there root_ref ''HAS_AUTHORING_GUIDE'' (id_ref ''AuthoringGuide'' (seed_guide_id seed)) (edges g) \<and>
     edge_there (id_ref ''UiTheme'' (seed_theme_id seed)) ''HAS_REVISION'' (id_ref ''UiThemeRevision'' (themerev_id a)) (edges g) \<and>
     edge_there (id_ref ''AuthoringGuide'' (seed_guide_id seed)) ''HAS_REVISION''
       (id_ref ''AuthoringGuideRevision'' (guiderev_id b)) (edges g)"

abbreviation published_as ::
  "(string \<Rightarrow> string) \<Rightarrow> packaged_release \<Rightarrow> string \<Rightarrow> string \<Rightarrow> published" where
  "published_as sha seed i j \<equiv> \<lparr>pub_release_version = seed_release_version seed, pub_theme_revision_id = i,
     pub_guide_revision_id = j, pub_theme_content_hash = sha256_text sha (seed_css_text seed),
     pub_guide_content_hash = sha256_text sha (seed_guide_content seed)\<rparr>"

abbreviation repoint_both :: "packaged_release \<Rightarrow> string \<Rightarrow> string \<Rightarrow> edge list \<Rightarrow> edge list" where
  "repoint_both seed i j es \<equiv>
     repoint (id_ref ''AuthoringGuide'' (seed_guide_id seed)) (id_ref ''AuthoringGuideRevision'' j)
       (repoint (id_ref ''UiTheme'' (seed_theme_id seed)) (id_ref ''UiThemeRevision'' i) es)"

lemma bootstrap_settled:
  assumes "settled sha seed a b (svc_graph u)"
  shows "bootstrap_packaged_release sha seed u =
    (Inr (published_as sha seed (themerev_id a) (guiderev_id b)),
     u\<lparr>svc_graph := svc_graph u\<lparr>edges := repoint_both seed (themerev_id a) (guiderev_id b) (edges (svc_graph u))\<rparr>\<rparr>)"
proof -
  have f: "find_release sha seed u = (Inr (Some a, Some b), u)"
    unfolding find_release_Inr using assms by (simp add: settled_def)
  obtain x y where x: "coll_get ui_themes_coll (key (seed_theme_id seed)) (svc_graph u) = Some x"
      "theme_id x = seed_theme_id seed" "theme_active_revision_id x = Some (themerev_id a)"
    and y: "coll_get authoring_guides_coll (key (seed_guide_id seed)) (svc_graph u) = Some y"
      "guide_id y = seed_guide_id seed" "guide_active_revision_id y = Some (guiderev_id b)"
    using assms unfolding settled_def by blast
  have st: "themerev_status a = PlatRev_active" "guiderev_status b = PlatRev_active"
    using assms by (simp_all add: settled_def)
  have noop: "create_edge root_ref ''HAS_UI_THEME'' (id_ref ''UiTheme'' (seed_theme_id seed)) [] (svc_graph u) = svc_graph u"
    "create_edge root_ref ''HAS_AUTHORING_GUIDE'' (id_ref ''AuthoringGuide'' (seed_guide_id seed)) [] (svc_graph u) = svc_graph u"
    "create_edge (id_ref ''UiTheme'' (seed_theme_id seed)) ''HAS_REVISION'' (id_ref ''UiThemeRevision'' (themerev_id a)) [] (svc_graph u) = svc_graph u"
    "create_edge (id_ref ''AuthoringGuide'' (seed_guide_id seed)) ''HAS_REVISION''
       (id_ref ''AuthoringGuideRevision'' (guiderev_id b)) [] (svc_graph u) = svc_graph u"
    by (rule create_edge_again; use assms in \<open>simp add: settled_def\<close>)+
  have act: "activate_theme x a s = (Inr (), s\<lparr>svc_graph := svc_graph s\<lparr>edges :=
      repoint (id_ref ''UiTheme'' (seed_theme_id seed)) (id_ref ''UiThemeRevision'' (themerev_id a)) (edges (svc_graph s))\<rparr>\<rparr>)"
    for s :: "'b svc_scheme"
    using themes.activates_again [of x a s] x st
    by (simp add: activate_theme_def kind_refs)
  have act': "activate_guide y b s = (Inr (), s\<lparr>svc_graph := svc_graph s\<lparr>edges :=
      repoint (id_ref ''AuthoringGuide'' (seed_guide_id seed)) (id_ref ''AuthoringGuideRevision'' (guiderev_id b)) (edges (svc_graph s))\<rparr>\<rparr>)"
    for s :: "'b svc_scheme"
    using guides.activates_again [of y b s] y st
    by (simp add: activate_guide_def kind_refs)
  show ?thesis
    by (simp add: bootstrap_packaged_release_def atomically_apply bindE_apply f found_or_new_def kept_or_new_def
        asks_apply ret_apply writes_apply x y noop act act')
qed

section \<open>The first publication\<close>

lemma themes_at: "themes.owner_at i = coll_get ui_themes_coll (key i)" "themes.rev_at i = coll_get ui_theme_revisions_coll (key i)"
  and guides_at: "guides.owner_at i = coll_get authoring_guides_coll (key i)"
    "guides.rev_at i = coll_get authoring_guide_revisions_coll (key i)"
  by (simp_all add: themes.owner_at_def themes.rev_at_def guides.owner_at_def guides.rev_at_def fun_eq_iff)

text \<open>What is done to the records of one kind leaves the other kind and the root alone.\<close>

lemma guides_frame:
  assumes "guides.same_else g h"
  shows "themes.owner_at i h = themes.owner_at i g" "themes.rev_at i h = themes.rev_at i g"
proof -
  have "get_node l i h = get_node l i g" if "l \<in> {coll_label (kind_owners theme_kind), coll_label (kind_revisions theme_kind)}" for l i
    by (rule guides.same_else_get [OF assms]) (use that in auto)
  from themes.at_frame [OF this] show "themes.owner_at i h = themes.owner_at i g" "themes.rev_at i h = themes.rev_at i g" by blast+
qed

lemma themes_frame:
  assumes "themes.same_else g h"
  shows "guides.owner_at i h = guides.owner_at i g" "guides.rev_at i h = guides.rev_at i g"
proof -
  have "get_node l i h = get_node l i g" if "l \<in> {coll_label (kind_owners guide_kind), coll_label (kind_revisions guide_kind)}" for l i
    by (rule themes.same_else_get [OF assms]) (use that in auto)
  from guides.at_frame [OF this] show "guides.owner_at i h = guides.owner_at i g" "guides.rev_at i h = guides.rev_at i g" by blast+
qed

lemma guides_advanced_frame:
  assumes "guides.advanced w r g h"
  shows "themes.owner_at i h = themes.owner_at i g" "themes.rev_at i h = themes.rev_at i g"
proof -
  have "get_node l i h = get_node l i g" if "l \<in> {coll_label (kind_owners theme_kind), coll_label (kind_revisions theme_kind)}" for l i
    by (rule guides.advanced_frame [OF assms]) (use that in auto)
  from themes.at_frame [OF this] show "themes.owner_at i h = themes.owner_at i g" "themes.rev_at i h = themes.rev_at i g" by blast+
qed

lemma themes_advanced_frame:
  assumes "themes.advanced w r g h"
  shows "guides.owner_at i h = guides.owner_at i g" "guides.rev_at i h = guides.rev_at i g"
proof -
  have "get_node l i h = get_node l i g" if "l \<in> {coll_label (kind_owners guide_kind), coll_label (kind_revisions guide_kind)}" for l i
    by (rule themes.advanced_frame [OF assms]) (use that in auto)
  from guides.at_frame [OF this] show "guides.owner_at i h = guides.owner_at i g" "guides.rev_at i h = guides.rev_at i g" by blast+
qed

text \<open>The records and the edges before the two activations.\<close>

definition prepared ::
  "packaged_release \<Rightarrow> ui_theme_revision \<Rightarrow> authoring_guide_revision \<Rightarrow> node_value graph \<Rightarrow> node_value graph \<Rightarrow> bool" where
  "prepared seed a b g h \<longleftrightarrow> typed_graph h \<and> wf_graph h \<and>
     get_node ''N4XRoot'' (key ''n4x'') h = get_node ''N4XRoot'' (key ''n4x'') g \<and>
     themerev_id a = release_id (seed_theme_id seed) seed \<and> guiderev_id b = release_id (seed_guide_id seed) seed \<and>
     (\<forall>j. themes.rev_at j h = (if j = themerev_id a then Some a else themes.rev_at j g)) \<and>
     (\<forall>j. guides.rev_at j h = (if j = guiderev_id b then Some b else guides.rev_at j g)) \<and>
     edge_there root_ref ''HAS_UI_THEME'' (id_ref ''UiTheme'' (seed_theme_id seed)) (edges h) \<and>
     edge_there root_ref ''HAS_AUTHORING_GUIDE'' (id_ref ''AuthoringGuide'' (seed_guide_id seed)) (edges h) \<and>
     edge_there (id_ref ''UiTheme'' (seed_theme_id seed)) ''HAS_REVISION'' (id_ref ''UiThemeRevision'' (themerev_id a)) (edges h) \<and>
     edge_there (id_ref ''AuthoringGuide'' (seed_guide_id seed)) ''HAS_REVISION''
       (id_ref ''AuthoringGuideRevision'' (guiderev_id b)) (edges h)"

lemma bootstrap_prepares:
  assumes g: "typed_graph (svc_graph s)" "wf_graph (svc_graph s)"
    and f: "find_release sha seed s = (Inr (tr, gr), s)"
  shows "\<exists>x y a b u. prepared seed a b (svc_graph s) (svc_graph u) \<and>
    (tr = Some a \<or> tr = None \<and> (\<exists>t. a = new_theme_revision sha seed t)) \<and>
    (gr = Some b \<or> gr = None \<and> (\<exists>t. b = new_guide_revision sha seed t)) \<and>
    themes.owner_at (seed_theme_id seed) (svc_graph u) = Some x \<and> guides.owner_at (seed_guide_id seed) (svc_graph u) = Some y \<and>
    themes.owner_at (seed_theme_id seed) (svc_graph s) \<in> {None, Some x} \<and>
    guides.owner_at (seed_guide_id seed) (svc_graph s) \<in> {None, Some y} \<and>
    bootstrap_packaged_release sha seed s = atomically (\<lambda>_. bindE (activate_theme x a) (\<lambda>_. bindE (activate_guide y b) (\<lambda>_.
      ret (published_as sha seed (themerev_id a) (guiderev_id b)))) u) s"
proof -
  let ?w = "seed_theme_id seed" and ?v = "seed_guide_id seed"
  have tr: "tr = themes.rev_at (release_id ?w seed) (svc_graph s)" and gr: "gr = guides.rev_at (release_id ?v seed) (svc_graph s)"
    and root: "get_node ''N4XRoot'' (key ''n4x'') (svc_graph s) \<noteq> None"
    using f unfolding find_release_Inr themes.existing_iff [OF g] guides.existing_iff [OF g] by simp_all
  define nt where "nt = (\<lambda>t1 t2. \<lparr>theme_id = ?w, theme_active_revision_id = None, theme_created_at = t1, theme_updated_at = t2\<rparr>)"
  define ng where "ng = (\<lambda>t1 t2. \<lparr>guide_id = ?v, guide_title = seed_guide_title seed, guide_active_revision_id = None,
         guide_created_at = t1, guide_updated_at = t2\<rparr>)"
  from themes.finds [OF g(1), of nt ?w] obtain s1 x where s1: "found_or_new ui_themes_coll ?w nt s = (Inr x, s1)"
    "themes.same_else (svc_graph s) (svc_graph s1)" "theme_id x = ?w" "themes.owner_at ?w (svc_graph s1) = Some x"
    "\<And>j. themes.rev_at j (svc_graph s1) = themes.rev_at j (svc_graph s)"
    "themes.owner_at ?w (svc_graph s) \<in> {None, Some x}" by (auto simp: nt_def)
  have g1: "typed_graph (svc_graph s1)" "wf_graph (svc_graph s1)" using s1(2) g by (simp_all add: themes.same_else_def)
  from guides.finds [OF g1(1), of ng ?v] obtain s2 y where s2: "found_or_new authoring_guides_coll ?v ng s1 = (Inr y, s2)"
    "guides.same_else (svc_graph s1) (svc_graph s2)" "guide_id y = ?v" "guides.owner_at ?v (svc_graph s2) = Some y"
    "\<And>j. guides.rev_at j (svc_graph s2) = guides.rev_at j (svc_graph s1)"
    "guides.owner_at ?v (svc_graph s1) \<in> {None, Some y}" by (auto simp: ng_def)
  have g2: "typed_graph (svc_graph s2)" "wf_graph (svc_graph s2)" using s2(2) g1 by (simp_all add: guides.same_else_def)
  define l1 where "l1 = create_edge root_ref ''HAS_AUTHORING_GUIDE'' (id_ref ''AuthoringGuide'' ?v) []
    (create_edge root_ref ''HAS_UI_THEME'' (id_ref ''UiTheme'' ?w) [] (svc_graph s2))"
  define s4 where "s4 = s2\<lparr>svc_graph := l1\<rparr>"
  have l1: "typed_graph l1" "wf_graph l1" using g2 by (simp_all add: l1_def wf_create_edge)
  have e1: "edge_there root_ref ''HAS_UI_THEME'' (id_ref ''UiTheme'' ?w) (edges l1)"
    "edge_there root_ref ''HAS_AUTHORING_GUIDE'' (id_ref ''AuthoringGuide'' ?v) (edges l1)"
    by (simp_all add: l1_def edge_there_create edge_there_grows)
  have at1: "themes.owner_at ?w l1 = Some x" "guides.owner_at ?v l1 = Some y"
    "themes.rev_at j l1 = themes.rev_at j (svc_graph s)" "guides.rev_at j l1 = guides.rev_at j (svc_graph s)"
    "get_node l i l1 = get_node l i (svc_graph s2)" for j l i
    using s1(4,5) s2(4,5) guides_frame [OF s2(2)] themes_frame [OF s1(2)] by (simp_all add: l1_def graph_simps)
  have "typed_graph (svc_graph s4)" "tr = themes.rev_at (release_id ?w seed) (svc_graph s4)"
    using l1 at1 tr by (simp_all add: s4_def)
  from themes.keeps [OF this(1) _ this(2), of "new_theme_revision sha seed"]
  obtain s5 a where s5: "kept_or_new ui_theme_revisions_coll tr (new_theme_revision sha seed) s4 = (Inr a, s5)"
    "themes.same_else l1 (svc_graph s5)" "themerev_id a = release_id ?w seed"
    "tr = Some a \<or> tr = None \<and> (\<exists>t. a = new_theme_revision sha seed t)"
    "\<And>j. themes.rev_at j (svc_graph s5) = (if j = themerev_id a then Some a else themes.rev_at j l1)"
    "\<And>j. themes.owner_at j (svc_graph s5) = themes.owner_at j l1"
    by (auto simp: new_theme_revision_def s4_def)
  have g5: "typed_graph (svc_graph s5)" "wf_graph (svc_graph s5)" using s5(2) l1 by (simp_all add: themes.same_else_def)
  have "gr = guides.rev_at (release_id ?v seed) (svc_graph s5)" using gr at1 themes_frame [OF s5(2)] by simp
  from guides.keeps [OF g5(1) _ this, of "new_guide_revision sha seed"]
  obtain s6 b where s6: "kept_or_new authoring_guide_revisions_coll gr (new_guide_revision sha seed) s5 = (Inr b, s6)"
    "guides.same_else (svc_graph s5) (svc_graph s6)" "guiderev_id b = release_id ?v seed"
    "gr = Some b \<or> gr = None \<and> (\<exists>t. b = new_guide_revision sha seed t)"
    "\<And>j. guides.rev_at j (svc_graph s6) = (if j = guiderev_id b then Some b else guides.rev_at j (svc_graph s5))"
    "\<And>j. guides.owner_at j (svc_graph s6) = guides.owner_at j (svc_graph s5)"
    by (auto simp: new_guide_revision_def)
  have g6: "typed_graph (svc_graph s6)" "wf_graph (svc_graph s6)" using s6(2) g5 by (simp_all add: guides.same_else_def)
  define l2 where "l2 = create_edge (id_ref ''AuthoringGuide'' ?v) ''HAS_REVISION'' (id_ref ''AuthoringGuideRevision'' (guiderev_id b)) []
    (create_edge (id_ref ''UiTheme'' ?w) ''HAS_REVISION'' (id_ref ''UiThemeRevision'' (themerev_id a)) [] (svc_graph s6))"
  define u where "u = s6\<lparr>svc_graph := l2\<rparr>"
  have l2: "typed_graph l2" "wf_graph l2" using g6 by (simp_all add: l2_def wf_create_edge)
  have e6: "edges (svc_graph s6) = edges l1" using s5(2) s6(2) by (simp add: themes.same_else_def guides.same_else_def)
  have e2: "edge_there root_ref ''HAS_UI_THEME'' (id_ref ''UiTheme'' ?w) (edges l2)"
    "edge_there root_ref ''HAS_AUTHORING_GUIDE'' (id_ref ''AuthoringGuide'' ?v) (edges l2)"
    "edge_there (id_ref ''UiTheme'' ?w) ''HAS_REVISION'' (id_ref ''UiThemeRevision'' (themerev_id a)) (edges l2)"
    "edge_there (id_ref ''AuthoringGuide'' ?v) ''HAS_REVISION'' (id_ref ''AuthoringGuideRevision'' (guiderev_id b)) (edges l2)"
    using e1 by (simp_all add: l2_def edge_there_create edge_there_grows e6)
  have r2: "get_node ''N4XRoot'' (key ''n4x'') l2 = get_node ''N4XRoot'' (key ''n4x'') (svc_graph s)"
    using s1(2) s2(2) s5(2) s6(2) at1(5) by (simp add: l2_def graph_simps themes.same_else_def guides.same_else_def)
  have "prepared seed a b (svc_graph s) (svc_graph u)"
    unfolding prepared_def using l2 e2 r2 s5(3) s6(3)
    by (simp add: u_def l2_def s6(5) s5(5) guides_frame [OF s6(2)] themes_frame [OF s5(2)] at1(3,4))
  moreover have "themes.owner_at ?w (svc_graph u) = Some x" "guides.owner_at ?v (svc_graph u) = Some y"
    by (simp_all add: u_def l2_def guides_frame [OF s6(2)] s5(6) s6(6) themes_frame [OF s5(2)] at1(1,2))
  moreover have "bootstrap_packaged_release sha seed s = atomically (\<lambda>_. bindE (activate_theme x a) (\<lambda>_. bindE (activate_guide y b) (\<lambda>_.
      ret (published_as sha seed (themerev_id a) (guiderev_id b)))) u) s"
    using s1(1) s2(1) s5(1) s6(1)
    by (simp add: bootstrap_packaged_release_def atomically_def bindE_apply f writes_apply s1(3) s2(3)
        u_def l2_def s4_def l1_def flip: nt_def ng_def)
  moreover have "guides.owner_at ?v (svc_graph s) \<in> {None, Some y}" using s2(6) themes_frame(1) [OF s1(2)] by simp
  ultimately show ?thesis using s5(4) s6(4) s1(6) by blast
qed

lemma metadata_kept:
  "theme_metadata_ok seed (Some (themes.as_active a)) = theme_metadata_ok seed (Some a)"
  "guide_metadata_ok seed (Some (guides.as_active b)) = guide_metadata_ok seed (Some b)"
  "themerev_status (themes.as_active a) = PlatRev_active" "guiderev_status (guides.as_active b) = PlatRev_active"
  "themerev_id (themes.as_active a) = themerev_id a" "guiderev_id (guides.as_active b) = guiderev_id b"
  by (auto simp: themes.as_active_def guides.as_active_def theme_metadata_ok_def guide_metadata_ok_def kind_set)

lemma same_dict_refl [simp]: "same_dict d d"
  by (simp add: same_dict_def)

lemma new_metadata_ok: "theme_metadata_ok seed (Some (new_theme_revision sha seed t))"
    "guide_metadata_ok seed (Some (new_guide_revision sha seed t))"
  by (simp_all add: theme_metadata_ok_def guide_metadata_ok_def new_theme_revision_def new_guide_revision_def list_all2_refl)

lemma owner_name:
  assumes "typed_graph g"
  shows "coll_get ui_themes_coll (key i) g = Some x \<Longrightarrow> theme_id x = i"
    "coll_get authoring_guides_coll (key i) g = Some y \<Longrightarrow> guide_id y = i"
  using themes.owner_at_id [OF assms, of i x] guides.owner_at_id [OF assms, of i y]
  by (simp_all add: themes.owner_at_def guides.owner_at_def)

lemma prepared_edges:
  assumes "prepared seed a b g h"
  shows "edge_there root_ref ''HAS_UI_THEME'' (id_ref ''UiTheme'' (seed_theme_id seed)) (edges h)"
    "edge_there root_ref ''HAS_AUTHORING_GUIDE'' (id_ref ''AuthoringGuide'' (seed_guide_id seed)) (edges h)"
    "edge_there (id_ref ''UiTheme'' (seed_theme_id seed)) ''HAS_REVISION'' (id_ref ''UiThemeRevision'' (themerev_id a)) (edges h)"
    "edge_there (id_ref ''AuthoringGuide'' (seed_guide_id seed)) ''HAS_REVISION''
       (id_ref ''AuthoringGuideRevision'' (guiderev_id b)) (edges h)"
  using assms unfolding prepared_def by blast+

lemma activations_settle:
  assumes g: "typed_graph g" "wf_graph g"
    and tr: "existing_release_revision sha theme_kind (seed_theme_id seed) (seed_release_version seed)
       (release_id (seed_theme_id seed) seed) (sha256_text sha (seed_css_text seed)) g = Inr tr"
    and gr: "existing_release_revision sha guide_kind (seed_guide_id seed) (seed_release_version seed)
       (release_id (seed_guide_id seed) seed) (sha256_text sha (seed_guide_content seed)) g = Inr gr"
    and ok: "theme_metadata_ok seed tr" "guide_metadata_ok seed gr" "get_node ''N4XRoot'' (key ''n4x'') g \<noteq> None"
    and p: "prepared seed a b g h0"
    and a: "tr = Some a \<or> tr = None \<and> (\<exists>t. a = new_theme_revision sha seed t)"
    and b: "gr = Some b \<or> gr = None \<and> (\<exists>t. b = new_guide_revision sha seed t)"
    and t: "themes.advanced (seed_theme_id seed) a h0 h1" "typed_graph h1" "wf_graph h1"
    and u: "guides.advanced (seed_guide_id seed) b h1 h" "typed_graph h" "wf_graph h"
  shows "settled sha seed (themes.as_active a) (guides.as_active b) h \<and>
    edges h = repoint_both seed (themerev_id a) (guiderev_id b) (edges h0)"
proof -
  have h0: "typed_graph h0" "wf_graph h0" and ids: "themerev_id a = release_id (seed_theme_id seed) seed"
    "guiderev_id b = release_id (seed_guide_id seed) seed"
    and at0: "\<And>j. themes.rev_at j h0 = (if j = themerev_id a then Some a else themes.rev_at j g)"
      "\<And>j. guides.rev_at j h0 = (if j = guiderev_id b then Some b else guides.rev_at j g)"
    using p unfolding prepared_def by blast+
  have e: "edges h = repoint_both seed (themerev_id a) (guiderev_id b) (edges h0)"
    using themes.advanced_edges [OF t(1)] guides.advanced_edges [OF u(1)] by (simp add: kind_refs)
  have "existing_release_revision sha theme_kind (seed_theme_id seed) (seed_release_version seed)
       (release_id (seed_theme_id seed) seed) (sha256_text sha (seed_css_text seed)) h1 = Inr (Some (themes.as_active a))"
    by (rule themes.found_afterwards [OF h0 t(2,3) tr g _ _ _ t(1)])
      (use a ids at0 in \<open>auto simp: of_release_def new_theme_revision_def\<close>)
  then have ft: "existing_release_revision sha theme_kind (seed_theme_id seed) (seed_release_version seed)
       (release_id (seed_theme_id seed) seed) (sha256_text sha (seed_css_text seed)) h = Inr (Some (themes.as_active a))"
    by (rule themes.existing_frame [OF t(2,3) u(2,3) guides_advanced_frame(2) [OF u(1)]])
  have fg: "existing_release_revision sha guide_kind (seed_guide_id seed) (seed_release_version seed)
       (release_id (seed_guide_id seed) seed) (sha256_text sha (seed_guide_content seed)) h = Inr (Some (guides.as_active b))"
    by (rule guides.found_afterwards [OF t(2,3) u(2,3) gr g _ _ _ u(1)])
      (use b ids at0 themes_advanced_frame(2) [OF t(1)] in \<open>auto simp: of_release_def new_guide_revision_def\<close>)
  have md: "theme_metadata_ok seed (Some a)" "guide_metadata_ok seed (Some b)"
    using a b ok new_metadata_ok by blast+
  obtain x y where x: "themes.owner_at (seed_theme_id seed) h = Some x" "theme_active_revision_id x = Some (themerev_id a)"
    and y: "guides.owner_at (seed_guide_id seed) h = Some y" "guide_active_revision_id y = Some (guiderev_id b)"
    using themes.advanced_owner [OF t(1)] guides.advanced_owner [OF u(1)] guides_advanced_frame(1) [OF u(1)] by auto
  have x': "coll_get ui_themes_coll (key (seed_theme_id seed)) h = Some x" "theme_id x = seed_theme_id seed"
    using x(1) owner_name(1) [OF u(2)] by (simp_all add: themes.owner_at_def)
  have y': "coll_get authoring_guides_coll (key (seed_guide_id seed)) h = Some y" "guide_id y = seed_guide_id seed"
    using y(1) owner_name(2) [OF u(2)] by (simp_all add: guides.owner_at_def)
  have "get_node ''N4XRoot'' (key ''n4x'') h = get_node ''N4XRoot'' (key ''n4x'') h0"
    using themes.advanced_frame [OF t(1), of "''N4XRoot''" "key ''n4x''"] guides.advanced_frame [OF u(1), of "''N4XRoot''" "key ''n4x''"] by simp
  with p ok(3) have root: "get_node ''N4XRoot'' (key ''n4x'') h \<noteq> None" by (simp add: prepared_def)
  have "edge_there root_ref ''HAS_UI_THEME'' (id_ref ''UiTheme'' (seed_theme_id seed)) (edges h)"
    "edge_there root_ref ''HAS_AUTHORING_GUIDE'' (id_ref ''AuthoringGuide'' (seed_guide_id seed)) (edges h)"
    "edge_there (id_ref ''UiTheme'' (seed_theme_id seed)) ''HAS_REVISION'' (id_ref ''UiThemeRevision'' (themerev_id a)) (edges h)"
    "edge_there (id_ref ''AuthoringGuide'' (seed_guide_id seed)) ''HAS_REVISION''
       (id_ref ''AuthoringGuideRevision'' (guiderev_id b)) (edges h)"
    using prepared_edges [OF p] unfolding e by (simp_all add: edge_there_repoint)
  then show ?thesis
    unfolding settled_def metadata_kept using root ft fg md x' x(2) y' y(2) e by blast
qed

text \<open>The whole run: what was found, what was prepared, and the two activations.\<close>

lemma bootstrap_completes:
  assumes g: "typed_graph (svc_graph s)" "wf_graph (svc_graph s)"
    and f: "find_release sha seed s = (Inr (tr, gr), s)"
  obtains x y a b h0 h1 p t where "bootstrap_packaged_release sha seed s = (Inr p, t)" and "prepared seed a b (svc_graph s) h0"
    and "tr = Some a \<or> tr = None \<and> (\<exists>t. a = new_theme_revision sha seed t)"
    and "gr = Some b \<or> gr = None \<and> (\<exists>t. b = new_guide_revision sha seed t)"
    and "themes.owner_at (seed_theme_id seed) h0 = Some x" "themes.owner_at (seed_theme_id seed) (svc_graph s) \<in> {None, Some x}"
    and "guides.owner_at (seed_guide_id seed) h0 = Some y" "guides.owner_at (seed_guide_id seed) (svc_graph s) \<in> {None, Some y}"
    and "themes.advanced (seed_theme_id seed) a h0 h1" "typed_graph h1" "wf_graph h1"
    and "guides.advanced (seed_guide_id seed) b h1 (svc_graph t)" "typed_graph (svc_graph t)" "wf_graph (svc_graph t)"
    and "p = published_as sha seed (themerev_id a) (guiderev_id b)"
proof -
  from bootstrap_prepares [OF g f] obtain x y a b u where p: "prepared seed a b (svc_graph s) (svc_graph u)"
    and a: "tr = Some a \<or> tr = None \<and> (\<exists>t. a = new_theme_revision sha seed t)"
    and b: "gr = Some b \<or> gr = None \<and> (\<exists>t. b = new_guide_revision sha seed t)"
    and x: "themes.owner_at (seed_theme_id seed) (svc_graph u) = Some x"
      "themes.owner_at (seed_theme_id seed) (svc_graph s) \<in> {None, Some x}"
    and y: "guides.owner_at (seed_guide_id seed) (svc_graph u) = Some y"
      "guides.owner_at (seed_guide_id seed) (svc_graph s) \<in> {None, Some y}"
    and boot: "bootstrap_packaged_release sha seed s = atomically (\<lambda>_. bindE (activate_theme x a) (\<lambda>_. bindE (activate_guide y b) (\<lambda>_.
      ret (published_as sha seed (themerev_id a) (guiderev_id b)))) u) s" by blast
  have u: "typed_graph (svc_graph u)" "wf_graph (svc_graph u)" "themes.rev_at (themerev_id a) (svc_graph u) = Some a"
    "guides.rev_at (guiderev_id b) (svc_graph u) = Some b" using p by (simp_all add: prepared_def)
  from themes.activates [OF u(1) x(1), of a] u obtain u1 where u1: "activate_theme x a u = (Inr (), u1)"
    "themes.advanced (seed_theme_id seed) a (svc_graph u) (svc_graph u1)" "typed_graph (svc_graph u1)" "wf_graph (svc_graph u1)"
    by (auto simp: activate_theme_def)
  from guides.activates [OF u1(3), of "seed_guide_id seed" y b] u u1(4) y(1) themes_advanced_frame [OF u1(2)]
  obtain u2 where u2: "activate_guide y b u1 = (Inr (), u2)"
    "guides.advanced (seed_guide_id seed) b (svc_graph u1) (svc_graph u2)" "typed_graph (svc_graph u2)" "wf_graph (svc_graph u2)"
    by (auto simp: activate_guide_def)
  have "bootstrap_packaged_release sha seed s = (Inr (published_as sha seed (themerev_id a) (guiderev_id b)), u2)"
    by (simp add: boot atomically_def bindE_apply ret_apply u1(1) u2(1))
  from that [OF this p a b x y u1(2-4) u2(2-4) refl] show ?thesis .
qed

lemma bootstrap_found:
  assumes "bootstrap_packaged_release sha seed s = (Inr p, t)"
  obtains tr gr where "find_release sha seed s = (Inr (tr, gr), s)"
proof (cases "find_release sha seed s")
  case (Pair r u)
  with assms show ?thesis
    using that find_release_Inr [of sha seed s _ u]
    by (cases r) (auto simp: bootstrap_packaged_release_def atomically_def bindE_apply)
qed

lemma bootstrap_settles:
  assumes g: "typed_graph (svc_graph s)" "wf_graph (svc_graph s)"
    and run: "bootstrap_packaged_release sha seed s = (Inr p, t)"
  shows "\<exists>a b es. p = published_as sha seed (themerev_id a) (guiderev_id b) \<and> settled sha seed a b (svc_graph t) \<and>
    edges (svc_graph t) = repoint_both seed (themerev_id a) (guiderev_id b) es \<and>
    typed_graph (svc_graph t) \<and> wf_graph (svc_graph t)"
proof -
  obtain tr gr where f: "find_release sha seed s = (Inr (tr, gr), s)" using bootstrap_found [OF run] .
  then obtain a b h0 h1 p' t' where r: "bootstrap_packaged_release sha seed s = (Inr p', t')" and p: "prepared seed a b (svc_graph s) h0"
    and a: "tr = Some a \<or> tr = None \<and> (\<exists>t. a = new_theme_revision sha seed t)"
    and b: "gr = Some b \<or> gr = None \<and> (\<exists>t. b = new_guide_revision sha seed t)"
    and h1: "themes.advanced (seed_theme_id seed) a h0 h1" "typed_graph h1" "wf_graph h1"
    and h: "guides.advanced (seed_guide_id seed) b h1 (svc_graph t')" "typed_graph (svc_graph t')" "wf_graph (svc_graph t')"
    and p': "p' = published_as sha seed (themerev_id a) (guiderev_id b)"
    using bootstrap_completes [OF g, of sha seed tr gr] by metis
  have same: "p' = p" "t' = t" using r run by simp_all
  note h = h [unfolded same] and p' = p' [unfolded same]
  have "settled sha seed (themes.as_active a) (guides.as_active b) (svc_graph t) \<and>
    edges (svc_graph t) = repoint_both seed (themerev_id a) (guiderev_id b) (edges h0)"
    using f unfolding find_release_Inr by (intro activations_settle [OF g _ _ _ _ _ p a b h1 h]) simp_all
  then show ?thesis
    using h(2,3) p' by (intro exI [of _ "themes.as_active a"] exI [of _ "guides.as_active b"] exI) (simp add: metadata_kept)
qed

text \<open>
  When the only active revision of an owner is the one the owner records, then after a publication
  it is the published one.
\<close>

definition recorded_active :: "string \<Rightarrow> node_value graph \<Rightarrow> bool" where
  "recorded_active w g \<longleftrightarrow> (\<forall>j p. coll_get ui_theme_revisions_coll (key j) g = Some p \<longrightarrow> themerev_theme_id p = w \<longrightarrow>
     themerev_status p = PlatRev_active \<longrightarrow>
     (\<exists>x. coll_get ui_themes_coll (key w) g = Some x \<and> theme_active_revision_id x = Some j))"

lemma bootstrap_one_active:
  assumes g: "typed_graph (svc_graph s)" "wf_graph (svc_graph s)"
    and run: "bootstrap_packaged_release sha seed s = (Inr p, t)"
    and before: "recorded_active (seed_theme_id seed) (svc_graph s)"
    and q: "coll_get ui_theme_revisions_coll (key j) (svc_graph t) = Some q" "themerev_theme_id q = seed_theme_id seed"
      "themerev_status q = PlatRev_active"
  shows "j = pub_theme_revision_id p"
proof -
  obtain tr gr where "find_release sha seed s = (Inr (tr, gr), s)" using bootstrap_found [OF run] .
  then obtain x a b h0 h1 p' t' where r: "bootstrap_packaged_release sha seed s = (Inr p', t')"
    and p: "prepared seed a b (svc_graph s) h0"
    and x: "themes.owner_at (seed_theme_id seed) h0 = Some x" "themes.owner_at (seed_theme_id seed) (svc_graph s) \<in> {None, Some x}"
    and h1: "themes.advanced (seed_theme_id seed) a h0 h1"
    and h': "guides.advanced (seed_guide_id seed) b h1 (svc_graph t')"
    and p': "p' = published_as sha seed (themerev_id a) (guiderev_id b)"
    using bootstrap_completes [OF g, of sha seed tr gr] by metis
  have same: "p' = p" "t' = t" using r run by simp_all
  have h: "guides.advanced (seed_guide_id seed) b h1 (svc_graph t)" using h' same by simp
  have at0: "\<And>j. themes.rev_at j h0 = (if j = themerev_id a then Some a else themes.rev_at j (svc_graph s))"
    using p unfolding prepared_def by blast
  have r: "themes.rev_at j h1 = Some q"
    using q(1) guides_advanced_frame(2) [OF h] by (simp add: themes.rev_at_def)
  have "j = kind_rev_id theme_kind a"
  proof (rule themes.active_is_published [OF h1 _ r])
    fix j p assume h0: "themes.rev_at j h0 = Some p" and ow: "kind_rev_owner theme_kind p = seed_theme_id seed"
      and st: "kind_status theme_kind p = PlatRev_active"
    show "j = kind_rev_id theme_kind a \<or>
        (\<exists>x. themes.owner_at (seed_theme_id seed) h0 = Some x \<and> kind_active theme_kind x = Some j)"
    proof (cases "j = themerev_id a")
      case False
      then have "coll_get ui_theme_revisions_coll (key j) (svc_graph s) = Some p"
        using h0 at0 [of j] by (simp add: themes.rev_at_def)
      then obtain x' where "coll_get ui_themes_coll (key (seed_theme_id seed)) (svc_graph s) = Some x'"
        "theme_active_revision_id x' = Some j"
        using before ow st unfolding recorded_active_def by auto
      with x show ?thesis by (simp add: themes.owner_at_def)
    qed simp
  qed (use q in simp_all)
  then show ?thesis using p' same by simp
qed

text \<open>Rewriting both pointers of a settled release a second time gives the same edges.\<close>

lemma settled_again:
  assumes "settled sha seed a b (svc_graph u)"
    and e: "edges (svc_graph u) = repoint_both seed (themerev_id a) (guiderev_id b) es"
  shows "bootstrap_packaged_release sha seed u = (Inr (published_as sha seed (themerev_id a) (guiderev_id b)), u)"
proof -
  have "repoint_both seed (themerev_id a) (guiderev_id b) (edges (svc_graph u)) = edges (svc_graph u)"
    unfolding e by (rule repoint_twice) simp
  then show ?thesis unfolding bootstrap_settled [OF assms(1)] by simp
qed

lemma other_content_refused:
  assumes g: "typed_graph (svc_graph u)" "wf_graph (svc_graph u)" and "settled sha seed a b (svc_graph u)"
    and same: "seed_release_version other = seed_release_version seed" "seed_theme_id other = seed_theme_id seed"
      "seed_guide_id other = seed_guide_id seed"
    and diff: "sha256_text sha (seed_css_text other) \<noteq> sha256_text sha (seed_css_text seed) \<or>
      sha256_text sha (seed_guide_content other) \<noteq> sha256_text sha (seed_guide_content seed)"
  shows "\<exists>m. bootstrap_packaged_release sha other u = (Inl (PlatformReleaseConflictError m), u)"
proof (cases "find_release sha other u")
  case (Pair r v)
  have ids: "release_id w other = release_id w seed" for w by (simp add: release_id_def same)
  have "themes.rev_at (release_id (seed_theme_id seed) seed) (svc_graph u) = Some a" "themerev_content_hash a = sha256_text sha (seed_css_text seed)"
    "guides.rev_at (release_id (seed_guide_id seed) seed) (svc_graph u) = Some b" "guiderev_content_hash b = sha256_text sha (seed_guide_content seed)"
    using assms(3) unfolding settled_def themes.existing_iff [OF g] guides.existing_iff [OF g] by simp_all
  then have "r \<noteq> Inr x" for x
    using Pair diff find_release_Inr [of sha other u x v]
    unfolding themes.existing_iff [OF g] guides.existing_iff [OF g] same ids by (cases x) auto
  then obtain e where "r = Inl e" by (cases r) auto
  with Pair find_release_Inl [of sha other u e v] show ?thesis
    by (auto simp: bootstrap_packaged_release_def atomically_def bindE_apply)
qed

text \<open>What is inspected after a publication is what was published.\<close>

lemma inspected_theme_is_published:
  assumes g: "typed_graph (svc_graph s)" "wf_graph (svc_graph s)"
    and run: "bootstrap_packaged_release sha seed s = (Inr p, t)"
  shows "\<exists>r. active_theme_revision sha seed s = (Inr r, t) \<and> themerev_id r = pub_theme_revision_id p \<and>
    themerev_content_hash r = sha256_text sha (seed_css_text seed) \<and> sha256_text sha (themerev_css_text r) = sha256_text sha (seed_css_text seed)"
proof -
  obtain a b where ab: "p = published_as sha seed (themerev_id a) (guiderev_id b)" "settled sha seed a b (svc_graph t)"
    "typed_graph (svc_graph t)" "wf_graph (svc_graph t)"
    using bootstrap_settles [OF g run] by blast
  have a: "themes.rev_at (release_id (seed_theme_id seed) seed) (svc_graph t) = Some a"
    "themerev_content_hash a = sha256_text sha (seed_css_text seed)" "sha256_text sha (themerev_css_text a) = sha256_text sha (seed_css_text seed)"
    using ab(2) unfolding settled_def themes.existing_iff [OF ab(3,4)] by simp_all
  then have "themerev_id a = release_id (seed_theme_id seed) seed" using themes.rev_at_id [OF ab(3)] by fastforce
  with a have "coll_get ui_theme_revisions_coll (key (themerev_id a)) (svc_graph t) = Some a" by (simp add: themes.rev_at_def)
  moreover obtain x where "coll_get ui_themes_coll (key (seed_theme_id seed)) (svc_graph t) = Some x"
    "theme_active_revision_id x = Some (themerev_id a)"
    using ab(2) unfolding settled_def by blast
  ultimately show ?thesis
    using a by (simp add: active_theme_revision_def bindE_apply run atomically_def reads_apply coll_item_def ab(1))
qed

end
