(* ===== verification/Authoring_Properties.thy ===== *)
theory Authoring_Properties
  imports Authoring_Laws Lifecycle_Properties
begin

text \<open>
  Properties of the packaged authoring release: a published version is fixed, and publishing leaves
  one active theme revision.
\<close>

definition sample_seed :: packaged_release where
  "sample_seed = \<lparr>seed_release_version = ''1'', seed_theme_id = ''th'', seed_theme_title = ''T'', seed_css_text = ''css'',
     seed_theme_provenance = [], seed_theme_license = [], seed_guide_id = ''gd'', seed_guide_title = ''G'',
     seed_guide_content = ''text'', seed_guide_provenance = [], seed_guide_license = [], seed_references = []\<rparr>"

definition sample_platform :: svc where
  "sample_platform = sample_svc\<lparr>svc_graph := upsert_node ''N4XRoot'' (key ''n4x'') RootNode empty_graph\<rparr>"

lemma sample_platform_ok: "typed_graph (svc_graph sample_platform)" "wf_graph (svc_graph sample_platform)"
  by (simp_all add: sample_platform_def wf_upsert_node)
    (simp add: typed_graph_def upsert_node_def empty_graph_def key_def)

lemma sample_publication: "\<exists>p t. bootstrap_packaged_release (\<lambda>x. x) sample_seed sample_platform = (Inr p, t)"
proof -
  have "coll_values (kind_revisions theme_kind) (svc_graph sample_platform) = []"
    "coll_values (kind_revisions guide_kind) (svc_graph sample_platform) = []"
    by (simp_all add: coll_values_def list_nodes_def sample_platform_def upsert_node_def empty_graph_def List.map_filter_simps)
  moreover have "coll_get ui_theme_revisions_coll i (svc_graph sample_platform) = None"
    "coll_get authoring_guide_revisions_coll i (svc_graph sample_platform) = None" for i
    by (simp_all add: coll_get_def get_node_def sample_platform_def upsert_node_def empty_graph_def)
  ultimately have "find_release (\<lambda>x. x) sample_seed sample_platform = (Inr (None, None), sample_platform)"
    unfolding find_release_Inr
    by (simp add: existing_release_revision_def theme_metadata_ok_def guide_metadata_ok_def
        sample_platform_def graph_simps)
  from bootstrap_completes [OF sample_platform_ok this] show ?thesis by blast
qed

text \<open>C4: A release that was published is fixed: publishing it again returns the same and changes nothing, and a
  release with the same version and the same ids but another style sheet or guide text is refused with
  PlatformReleaseConflictError, also without a change.\<close>

theorem published_release_is_fixed:
  assumes "typed_graph (svc_graph s)" and "wf_graph (svc_graph s)"
    and "bootstrap_packaged_release sha seed s = (Inr p, t)" and "svc_graph u = svc_graph t"
  shows "bootstrap_packaged_release sha seed u = (Inr p, u) \<and>
    (seed_release_version other = seed_release_version seed \<longrightarrow> seed_theme_id other = seed_theme_id seed \<longrightarrow>
     seed_guide_id other = seed_guide_id seed \<longrightarrow>
     sha256_text sha (seed_css_text other) \<noteq> sha256_text sha (seed_css_text seed) \<or> sha256_text sha (seed_guide_content other) \<noteq> sha256_text sha (seed_guide_content seed) \<longrightarrow>
       (\<exists>m. bootstrap_packaged_release sha other u = (Inl (PlatformReleaseConflictError m), u)))"
proof -
  obtain a b es where s: "p = published_as sha seed (themerev_id a) (guiderev_id b)" "settled sha seed a b (svc_graph u)"
    "edges (svc_graph u) = repoint_both seed (themerev_id a) (guiderev_id b) es" "typed_graph (svc_graph u)" "wf_graph (svc_graph u)"
    using bootstrap_settles [OF assms(1-3)] unfolding assms(4) by blast
  then show ?thesis using settled_again [OF s(2,3)] other_content_refused [OF s(4,5,2), of other] by simp
qed

theorem published_release_is_fixed_witness:
  "\<exists>p t m. bootstrap_packaged_release (\<lambda>x. x) sample_seed sample_platform = (Inr p, t) \<and>
     bootstrap_packaged_release (\<lambda>x. x) sample_seed t = (Inr p, t) \<and>
     bootstrap_packaged_release (\<lambda>x. x) (sample_seed\<lparr>seed_css_text := ''other''\<rparr>) t = (Inl (PlatformReleaseConflictError m), t)"
proof -
  obtain p t where run: "bootstrap_packaged_release (\<lambda>x. x) sample_seed sample_platform = (Inr p, t)"
    using sample_publication by blast
  from published_release_is_fixed [OF sample_platform_ok run refl, of "sample_seed\<lparr>seed_css_text := ''other''\<rparr>"]
  have "bootstrap_packaged_release (\<lambda>x. x) sample_seed t = (Inr p, t)"
    "\<exists>m. bootstrap_packaged_release (\<lambda>x. x) (sample_seed\<lparr>seed_css_text := ''other''\<rparr>) t = (Inl (PlatformReleaseConflictError m), t)"
    by (simp_all add: sample_seed_def sha256_text_def)
  with run show ?thesis by blast
qed

text \<open>When the only active revision of a theme is the one the theme records, then after a release is
  published the only active revision of its theme is the published one, whichever release was active
  before.\<close>

theorem publication_leaves_one_active_theme:
  assumes "typed_graph (svc_graph s)" and "wf_graph (svc_graph s)" and "recorded_active (seed_theme_id seed) (svc_graph s)"
    and "bootstrap_packaged_release sha seed s = (Inr p, t)"
    and "coll_get ui_theme_revisions_coll (key j) (svc_graph t) = Some q" and "themerev_theme_id q = seed_theme_id seed"
    and "themerev_status q = PlatRev_active"
  shows "j = pub_theme_revision_id p"
  by (rule bootstrap_one_active [OF assms(1,2,4,3,5-7)])

end
