(* ===== verification/System_Blueprints.thy ===== *)
theory System_Blueprints
  imports System_Definitions Json_Text
begin

text \<open>
  Reusable blueprints of Applications: \<^verbatim>\<open>BlueprintService\<close> of \<^verbatim>\<open>system/blueprints.py\<close>. A
  blueprint has numbered revisions, at most one of them active. The validation of an Experience
  definition (pydantic) is an argument: it takes the given value to its id and its JSON dump.
\<close>

type_synonym experience_reader = "json \<Rightarrow> exn + string \<times> json"

section \<open>Blueprints\<close>

definition blueprint_create :: "string \<Rightarrow> string \<Rightarrow> string \<Rightarrow> ('z svc_scheme, app_blueprint) op" where
  "blueprint_create i name description = atomically
     (bindE (asks (coll_get app_blueprints_coll (key i))) (\<lambda>x.
      (case x of
         Some b \<Rightarrow> ret b
       | None \<Rightarrow>
           bindE now_utc (\<lambda>t.
           (let b = \<lparr>bp_id = i, bp_name = name, bp_description = description, bp_active_revision_id = None, bp_created_at = t\<rparr> in
           bindE (save_to app_blueprints_coll b) (\<lambda>_.
           bindE (link root_ref ''HAS_BLUEPRINT'' (id_ref ''AppBlueprint'' i)) (\<lambda>_.
           ret b)))))))"

definition blueprint_list :: "node_value graph \<Rightarrow> app_blueprint list" where
  "blueprint_list g = sort_key bp_id (coll_values app_blueprints_coll g)"

definition blueprint_revisions_of :: "string \<Rightarrow> node_value graph \<Rightarrow> blueprint_revision list" where
  "blueprint_revisions_of i g = filter (\<lambda>r. bprev_blueprint_id r = i) (coll_values blueprint_revisions_coll g)"

definition blueprint_inspect :: "string \<Rightarrow> node_value graph \<Rightarrow> exn + app_blueprint \<times> blueprint_revision list" where
  "blueprint_inspect i g =
     rbind (coll_item app_blueprints_coll (key i) g) (\<lambda>b. Inr (b, sort_key bprev_id (blueprint_revisions_of i g)))"

section \<open>Content\<close>

text \<open>What a \<^verbatim>\<open>for\<close> over a JSON value yields.\<close>

definition iterated :: "json \<Rightarrow> exn + json list" where
  "iterated v = (case v of JArr xs \<Rightarrow> Inr xs | JObj kvs \<Rightarrow> Inr (map (JStr \<circ> fst) kvs) | JStr s \<Rightarrow> Inr (map (\<lambda>c. JStr [c]) s)
     | _ \<Rightarrow> Inl (TypeError ''object is not iterable''))"

fun read_all :: "experience_reader \<Rightarrow> json list \<Rightarrow> exn + (string \<times> json) list" where
  "read_all rd [] = Inr []"
| "read_all rd (x # xs) = rbind (rd x) (\<lambda>y. rbind (read_all rd xs) (\<lambda>ys. Inr (y # ys)))"

definition validated_content :: "experience_reader \<Rightarrow> (string, json) dict \<Rightarrow> exn + (string, json) dict" where
  "validated_content rd content =
     rbind (iterated (case dict_get content ''experiences'' of None \<Rightarrow> JArr [] | Some v \<Rightarrow> v)) (\<lambda>items.
     rbind (read_all rd items) (\<lambda>experiences.
     if \<not> distinct (map fst experiences) then Inl (ValueError ''blueprint Experience ids must be unique'')
     else Inr (if experiences \<noteq> [] \<or> dict_get content ''experiences'' \<noteq> None
       then dict_set ''experiences'' (JArr (map snd experiences)) content else content)))"

section \<open>Revisions\<close>

definition blueprint_content_hash :: "(string \<Rightarrow> string) \<Rightarrow> string \<Rightarrow> (string, json) dict \<Rightarrow> string" where
  "blueprint_content_hash sha instructions content =
     sha256_json sha (JObj [(''instructions'', JStr instructions), (''content'', JObj content)])"

definition activate_blueprint_revision :: "string \<Rightarrow> string \<Rightarrow> ('z svc_scheme, unit) op" where
  "activate_blueprint_revision i rid =
     bindE (item_of app_blueprints_coll (key i)) (\<lambda>b.
     bindE (case bp_active_revision_id b of
         None \<Rightarrow> ret ()
       | Some a \<Rightarrow> bindE (asks (coll_get blueprint_revisions_coll (key a))) (\<lambda>current.
           (case current of
              None \<Rightarrow> ret ()
            | Some c \<Rightarrow> save_to blueprint_revisions_coll (c\<lparr>bprev_status := BpRev_superseded\<rparr>)))) (\<lambda>_.
     bindE (save_to app_blueprints_coll (b\<lparr>bp_active_revision_id := Some rid\<rparr>)) (\<lambda>_.
     point_to (id_ref ''AppBlueprint'' i) ''ACTIVE_REVISION'' (id_ref ''BlueprintRevision'' rid))))"

definition blueprint_create_revision ::
  "(string \<Rightarrow> string) \<Rightarrow> experience_reader \<Rightarrow> string \<Rightarrow> string \<Rightarrow> (string, json) dict \<Rightarrow> bool \<Rightarrow> string \<Rightarrow>
   ('z svc_scheme, blueprint_revision) op" where
  "blueprint_create_revision sha rd i instructions content activate created_by = atomically
     (bindE (asks (coll_get app_blueprints_coll (key i))) (\<lambda>x.
      bindE (require (x \<noteq> None) (KeyError i)) (\<lambda>_.
      bindE (lift_result (validated_content rd content)) (\<lambda>content.
      bindE (asks (blueprint_revisions_of i)) (\<lambda>revs.
      bindE now_utc (\<lambda>t.
      (let r = \<lparr>bprev_id = i @ ''@'' @ nat_text (Suc (length revs)), bprev_blueprint_id = i,
             bprev_status = (if activate then BpRev_active else BpRev_draft), bprev_instructions = instructions,
             bprev_content = content, bprev_created_at = t, bprev_created_by = created_by,
             bprev_content_hash = blueprint_content_hash sha instructions content\<rparr> in
      bindE (save_to blueprint_revisions_coll r) (\<lambda>_.
      bindE (link (id_ref ''AppBlueprint'' i) ''HAS_REVISION'' (id_ref ''BlueprintRevision'' (bprev_id r))) (\<lambda>_.
      bindE (if activate then activate_blueprint_revision i (bprev_id r) else ret ()) (\<lambda>_.
      ret r))))))))))"

text \<open>The name by which an Experience definition refers to the Application that is made.\<close>

definition resolve_application_reference :: "string \<Rightarrow> string \<Rightarrow> string" where
  "resolve_application_reference v app =
     (if v \<in> {''$application'', ''{application_id}'', ''@application''} then app else v)"

section \<open>Laws\<close>

text \<open>What is stored has been validated; validating an already normal content with a reader that accepts its own dumps changes nothing.\<close>

lemma read_all_dumps:
  assumes "\<And>x i j. rd x = Inr (i, j) \<Longrightarrow> rd j = Inr (i, j)" and "read_all rd xs = Inr ys"
  shows "read_all rd (map snd ys) = Inr ys"
  using assms(2)
proof (induction xs arbitrary: ys)
  case (Cons x xs)
  then show ?case using assms(1) by (auto simp: rbind_eq_Inr)
qed simp

lemma validated_content_idempotent:
  assumes rd: "\<And>x i j. rd x = Inr (i, j) \<Longrightarrow> rd j = Inr (i, j)" and ok: "validated_content rd c = Inr d"
  shows "validated_content rd d = Inr d"
proof -
  obtain items ys where i: "iterated (case dict_get c ''experiences'' of None \<Rightarrow> JArr [] | Some v \<Rightarrow> v) = Inr items"
    and y: "read_all rd items = Inr ys" "distinct (map fst ys)"
    and d: "d = (if ys \<noteq> [] \<or> dict_get c ''experiences'' \<noteq> None
       then dict_set ''experiences'' (JArr (map snd ys)) c else c)"
    using ok by (auto simp: validated_content_def rbind_eq_Inr split: if_splits)
  show ?thesis
  proof (cases "ys \<noteq> [] \<or> dict_get c ''experiences'' \<noteq> None")
    case True
    then have "dict_get d ''experiences'' = Some (JArr (map snd ys))" and "dict_set ''experiences'' (JArr (map snd ys)) d = d"
      by (simp_all add: d dict_simps)
    with y(2) read_all_dumps [OF rd y(1)] show ?thesis by (simp add: validated_content_def iterated_def)
  next
    case False
    then show ?thesis using ok d by simp
  qed
qed

text \<open>A revision made active is the one the blueprint records, and the only target of its pointer.\<close>

lemma activated_blueprint:
  assumes "typed_graph (svc_graph s)" and "activate_blueprint_revision i rid s = (Inr (), t)"
  shows "\<exists>b. coll_get app_blueprints_coll (key i) (svc_graph t) = Some b \<and> bp_active_revision_id b = Some rid \<and>
    edge_targets (svc_graph t) (id_ref ''AppBlueprint'' i) ''ACTIVE_REVISION'' = [id_ref ''BlueprintRevision'' rid]"
proof -
  obtain b u where b: "coll_get app_blueprints_coll (key i) (svc_graph s) = Some b"
    and t: "t = u\<lparr>svc_graph := create_edge (id_ref ''AppBlueprint'' i) ''ACTIVE_REVISION'' (id_ref ''BlueprintRevision'' rid) []
      (delete_edge (id_ref ''AppBlueprint'' i) ''ACTIVE_REVISION'' None None
        (coll_save app_blueprints_coll (b\<lparr>bp_active_revision_id := Some rid\<rparr>) (svc_graph u)))\<rparr>"
    using assms(2)
    by (auto simp: activate_blueprint_revision_def run_iffs point_to_def replace_single_edge_def)
  have "bp_id b = i"
    using app_blueprints.get_identity [OF assms(1) b] by (simp add: app_blueprints_coll_def)
  then have "coll_get app_blueprints_coll (key i) (svc_graph t) = Some (b\<lparr>bp_active_revision_id := Some rid\<rparr>)"
    unfolding t
    by (simp add: app_blueprints.get_create_edge app_blueprints.get_delete_edge app_blueprints.get_save)
      (simp add: app_blueprints_coll_def)
  then show ?thesis unfolding t by (simp add: targets_replace)
qed

end
