(* ===== verification/System_Queries.thy ===== *)
theory System_Queries
  imports Revision_Bindings Service_World "HOL-Library.List_Lexorder" "HOL-Library.Char_ord"
begin

text \<open>
  The read side of the services: \<^verbatim>\<open>QueryService\<close> of \<^verbatim>\<open>system/queries.py\<close>. Every query is a
  function of the graph. A sort by a tuple of keys is written as stable sorts, the last key
  first. Whether a path exists on disk is an argument.
\<close>

section \<open>Records by their keys\<close>

definition query_refresh :: "('z svc_scheme, unit) op" where
  "query_refresh = ret ()"

definition query_application :: "string \<Rightarrow> node_value graph \<Rightarrow> application option" where
  "query_application i = coll_get applications_coll (key i)"

definition query_experience :: "string \<Rightarrow> node_value graph \<Rightarrow> experience option" where
  "query_experience i = coll_get experiences_coll (key i)"

definition query_experience_revision :: "string \<Rightarrow> node_value graph \<Rightarrow> exn + experience_revision" where
  "query_experience_revision i = coll_item experience_revisions_coll (key i)"

section \<open>Lists\<close>

text \<open>A filter that is there only when its argument is.\<close>

definition only :: "('a \<Rightarrow> string) \<Rightarrow> string option \<Rightarrow> 'a list \<Rightarrow> 'a list" where
  "only f x xs = (case x of None \<Rightarrow> xs | Some i \<Rightarrow> filter (\<lambda>a. f a = i) xs)"

definition query_experiences :: "node_value graph \<Rightarrow> experience list" where
  "query_experiences g = sort_key exp_id (filter (\<lambda>x. exp_status x \<noteq> App_disabled) (coll_values experiences_coll g))"

definition query_experience_revisions :: "string option \<Rightarrow> node_value graph \<Rightarrow> experience_revision list" where
  "query_experience_revisions x g =
     sort_key exprev_experience_id (sort_key exprev_created_at
       (only exprev_experience_id x (coll_values experience_revisions_coll g)))"

definition query_experience_dependencies :: "string \<Rightarrow> node_value graph \<Rightarrow> exn + runtime_dependency list" where
  "query_experience_dependencies rid g =
     rbind (dependencies rid g) (\<lambda>ds. Inr (sort_key dep_package (sort_key dep_id ds)))"

definition query_experience_build_artifacts :: "string \<Rightarrow> node_value graph \<Rightarrow> build_artifact list" where
  "query_experience_build_artifacts rid g =
     sort_key art_created_at (filter (\<lambda>a. art_owner_kind a = Owner_ExperienceRevision \<and> art_owner_id a = rid)
       (coll_values build_artifacts_coll g))"

definition query_experience_surfaces :: "string \<Rightarrow> node_value graph \<Rightarrow> exn + experience_surface list" where
  "query_experience_surfaces rid g = rbind (surfaces rid g) (\<lambda>xs. Inr (sort_key surf_surface_id xs))"

definition query_surface_artifact ::
  "(string \<Rightarrow> bool) \<Rightarrow> string \<Rightarrow> string \<Rightarrow> string \<Rightarrow> node_value graph \<Rightarrow> build_artifact option" where
  "query_surface_artifact path_exists rid sid input_hash g =
     (let artifacts = filter (\<lambda>a. art_owner_kind a = Owner_ExperienceRevision \<and> art_owner_id a = rid \<and>
            art_surface_id a = Some sid \<and> art_input_hash a = Some input_hash) (coll_values build_artifacts_coll g);
          existing = filter (\<lambda>a. path_exists (art_path a)) artifacts;
          selected = (if existing \<noteq> [] then existing else artifacts)
      in if selected \<noteq> [] then Some (last selected) else None)"

definition query_build_artifacts :: "node_value graph \<Rightarrow> build_artifact list" where
  "query_build_artifacts = coll_values build_artifacts_coll"

definition query_python_environments :: "node_value graph \<Rightarrow> python_environment list" where
  "query_python_environments = coll_values python_environments_coll"

definition query_build_invocations :: "node_value graph \<Rightarrow> build_invocation list" where
  "query_build_invocations = coll_values build_invocations_coll"

definition query_invocations :: "node_value graph \<Rightarrow> invocation list" where
  "query_invocations = coll_values invocations_coll"

definition query_secret_references :: "node_value graph \<Rightarrow> secret_reference list" where
  "query_secret_references = coll_values secret_references_coll"

definition query_credential_records :: "node_value graph \<Rightarrow> credential_record list" where
  "query_credential_records = coll_values credential_records_coll"

definition query_cypher_audits :: "string option \<Rightarrow> node_value graph \<Rightarrow> cypher_audit_record list" where
  "query_cypher_audits i g = sort_key audit_created_at (only audit_invocation_id i (coll_values cypher_audits_coll g))"

definition query_job_attempts :: "string option \<Rightarrow> node_value graph \<Rightarrow> job_attempt list" where
  "query_job_attempts j g =
     sort_key att_job_id (sort_key att_attempt (only att_job_id j (coll_values job_attempts_coll g)))"

definition query_callback_routes :: "string option \<Rightarrow> node_value graph \<Rightarrow> callback_route list" where
  "query_callback_routes app g =
     sort_key route_created_at (only route_application_id app (coll_values callback_routes_coll g))"

section \<open>Laws\<close>

lemma set_only: "set (only f x xs) = {a \<in> set xs. x = None \<or> x = Some (f a)}"
  by (auto simp: only_def split: option.splits)

text \<open>Stable sorts, the last key first, sort by the pair of keys.\<close>

lemma sort_key_stable_within:
  assumes "sorted (map b xs)" and "i < j" and "j < length (sort_key a xs)"
    and "a (sort_key a xs ! i) = a (sort_key a xs ! j)"
  shows "b (sort_key a xs ! i) \<le> b (sort_key a xs ! j)"
proof -
  let ?ys = "sort_key a xs" and ?c = "a (sort_key a xs ! j)"
  have "filter (\<lambda>y. a y = ?c) ?ys = filter (\<lambda>y. a y = ?c) xs"
    by (rule sort_key_stable)
  then have "sorted (map b (filter (\<lambda>y. a y = ?c) ?ys))"
    using assms(1) by (simp add: sorted_filter)
  moreover have "?ys = take (Suc i) ?ys @ drop (Suc i) ?ys" by simp
  ultimately have "sorted (map b (filter (\<lambda>y. a y = ?c) (take (Suc i) ?ys)) @ map b (filter (\<lambda>y. a y = ?c) (drop (Suc i) ?ys)))"
    by (metis filter_append map_append)
  moreover have "?ys ! i \<in> set (filter (\<lambda>y. a y = ?c) (take (Suc i) ?ys))"
    using assms(2-4) by (simp add: take_Suc_conv_app_nth)
  moreover have "?ys ! j \<in> set (filter (\<lambda>y. a y = ?c) (drop (Suc i) ?ys))"
  proof -
    have "drop (Suc i) ?ys ! (j - Suc i) = ?ys ! j" "j - Suc i < length (drop (Suc i) ?ys)"
      using assms(2,3) by simp_all
    then have "?ys ! j \<in> set (drop (Suc i) ?ys)" by (metis nth_mem)
    then show ?thesis by simp
  qed
  ultimately show ?thesis by (auto simp: sorted_append)
qed

lemma sort_by_pair:
  assumes "i < j" and "j < length (sort_key a (sort_key b xs))"
  shows "a (sort_key a (sort_key b xs) ! i) < a (sort_key a (sort_key b xs) ! j) \<or>
    a (sort_key a (sort_key b xs) ! i) = a (sort_key a (sort_key b xs) ! j) \<and>
    b (sort_key a (sort_key b xs) ! i) \<le> b (sort_key a (sort_key b xs) ! j)"
proof -
  have "sorted (map a (sort_key a (sort_key b xs)))" by simp
  then have "map a (sort_key a (sort_key b xs)) ! i \<le> map a (sort_key a (sort_key b xs)) ! j"
    by (rule sorted_nth_mono) (use assms in simp_all)
  then have "a (sort_key a (sort_key b xs) ! i) \<le> a (sort_key a (sort_key b xs) ! j)"
    using assms by simp
  moreover have "sorted (map b (sort_key b xs))" by simp
  ultimately show ?thesis
    using sort_key_stable_within [of b "sort_key b xs" i j a] assms by (auto simp: order_le_less)
qed

text \<open>The attempts of a job come in the order of their numbers, and each stored attempt is listed once asked for.\<close>

lemma attempts_in_order:
  assumes "i < k" and "k < length (query_job_attempts (Some j) g)"
  shows "att_attempt (query_job_attempts (Some j) g ! i) \<le> att_attempt (query_job_attempts (Some j) g ! k)"
proof -
  let ?xs = "query_job_attempts (Some j) g"
  have "x \<in> set ?xs \<Longrightarrow> att_job_id x = j" for x
    by (auto simp: query_job_attempts_def set_only)
  then have "att_job_id (?xs ! i) = att_job_id (?xs ! k)"
    using assms by (metis nth_mem order_less_trans)
  then show ?thesis
    using sort_by_pair [of i k att_job_id att_attempt "only att_job_id (Some j) (coll_values job_attempts_coll g)"] assms
    by (auto simp: query_job_attempts_def)
qed

lemma attempts_listed:
  "typed_graph g \<Longrightarrow> wf_graph g \<Longrightarrow>
   a \<in> set (query_job_attempts j g) \<longleftrightarrow>
     coll_get job_attempts_coll (key (att_id a)) g = Some a \<and> (j = None \<or> j = Some (att_job_id a))"
  using job_attempts.values_iff [of g a] by (auto simp: query_job_attempts_def set_only job_attempts_coll_def)

text \<open>A built surface is served from a file that exists whenever one of its artifacts still has one.\<close>

lemma surface_artifact_prefers_files:
  assumes "query_surface_artifact ex rid sid h g = Some a"
  shows "a \<in> set (coll_values build_artifacts_coll g) \<and> art_owner_id a = rid \<and> art_surface_id a = Some sid \<and>
    art_input_hash a = Some h \<and>
    (ex (art_path a) \<or> (\<forall>b \<in> set (coll_values build_artifacts_coll g). art_owner_kind b = Owner_ExperienceRevision \<longrightarrow>
       art_owner_id b = rid \<longrightarrow> art_surface_id b = Some sid \<longrightarrow> art_input_hash b = Some h \<longrightarrow> \<not> ex (art_path b)))"
proof -
  let ?as = "filter (\<lambda>a. art_owner_kind a = Owner_ExperienceRevision \<and> art_owner_id a = rid \<and>
            art_surface_id a = Some sid \<and> art_input_hash a = Some h) (coll_values build_artifacts_coll g)"
  let ?es = "filter (\<lambda>a. ex (art_path a)) ?as"
  show ?thesis
  proof (cases "?es = []")
    case True
    then have "?as \<noteq> []" "a = last ?as"
      using assms by (auto simp: query_surface_artifact_def Let_def split: if_splits)
    then have "a \<in> set ?as" using last_in_set by blast
    moreover have "\<forall>b \<in> set ?as. \<not> ex (art_path b)" using True by (simp only: filter_empty_conv)
    ultimately show ?thesis by (simp only: set_filter mem_Collect_eq) blast
  next
    case False
    then have "a = last ?es"
      using assms by (auto simp: query_surface_artifact_def Let_def split: if_splits)
    with False have "a \<in> set ?es" using last_in_set by blast
    then have "ex (art_path a)" "a \<in> set ?as" by (simp_all only: set_filter mem_Collect_eq)
    then show ?thesis by (simp only: set_filter mem_Collect_eq simp_thms)
  qed
qed

end
