(* ===== verification/Spec2Isabelle.thy ===== *)
theory Spec2Isabelle
  imports Graph_Properties Source_Properties Job_Properties Service_Properties Lifecycle_Properties
    Data_Properties Package_Properties Deployment_Properties Gateway_Properties Integrity_Properties Authoring_Properties
    System_Blueprints System_Queries
begin

text \<open>
  Verification of the core of N4X: the graph store with its units of work, the source store, the
  services that define, activate and restore Applications and Experiences, and the runtime services
  around them (jobs, secrets, callbacks, files). All code is under \<^verbatim>\<open>src/backend/n4x\<close>; file names below
  are relative to it.

  \<^bold>\<open>How the program is put together.\<close> Everything the program knows is a graph: nodes (one record each,
  under a label and an identity), structural edges, and the relations between application objects.
  Services change it only inside a unit of work, which commits or restores the whole graph.
  Revisions of Applications and Experiences are drafts that bind interned, content-addressed records
  (source trees, action, trigger and type revisions); activation freezes a draft, builds it, migrates
  and moves the active pointer. At run time the scheduler leases jobs, an Experience reaches
  Applications over a bridge that checks its declarations, and secrets, callback routes and
  delivered files are guarded each in its own way.

  \<^bold>\<open>Conventions.\<close> An operation \<open>('s, 'a) op\<close> takes the state to an exception or a result, and the state
  afterwards (theory \<open>N4X_Prelude\<close>); \<open>exn\<close> has one constructor per exception class the code raises or
  catches. Reads of the graph are functions into \<open>exn + 'a\<close>. Dictionaries are association lists in
  insertion order, dates are integers (microseconds), strings are lists of 8-bit characters, Python
  integers are \<open>int\<close>. A service runs in the state \<open>svc\<close> (theory \<open>Service_World\<close>): the graph, and the
  readings of the clock and the random identifiers as streams consumed in order. A
  \<^verbatim>\<open>with self.uow\<close> block or a \<^verbatim>\<open>@transactional\<close> method is \<open>atomically\<close>; \<open>atomically_is_with_uow\<close> shows
  that this is what the modelled unit of work does to the graph. A method of the source store takes
  one reading of the clock.

  \<^bold>\<open>Theories and code.\<close>
  \<^item> \<open>N4X_Prelude\<close>, \<open>Py_Text\<close>: operations, results, dictionaries, Python's string methods.
  \<^item> \<open>Graph_Store\<close>, \<open>Graph_Laws\<close>: \<^verbatim>\<open>testing/graph_store.py\<close>, the in-memory implementation of the interface
    \<^verbatim>\<open>graph/store.py\<close>: nodes, edges, file edges, pointers, relations, and the invariant \<open>wf_graph\<close>.
  \<^item> \<open>Unit_Of_Work\<close>: \<^verbatim>\<open>graph/uow.py\<close> and the transactions of the store: nesting, rollback-only, retries.
  \<^item> \<open>Model_Types\<close>, \<open>Models_Control\<close>, \<open>Models_Definitions\<close>, \<open>Models_Runtime\<close>, \<open>Kernel_Models\<close>: the records and
    literal types of \<^verbatim>\<open>kernel/models.py\<close>; \<open>Record_Collections\<close>, \<open>Platform_Collections\<close>, \<open>Repositories\<close>:
    \<^verbatim>\<open>graph/repositories.py\<close>, with the locale \<open>record_collection\<close> interpreted for every label.
  \<^item> \<open>Kernel_Hash\<close>, \<open>Json_Text\<close>: \<^verbatim>\<open>kernel/hash.py\<close>, \<^verbatim>\<open>kernel/intern.py\<close>, the canonical JSON text, its parser
    and base 64; \<open>Intern_GC\<close>: \<^verbatim>\<open>graph/intern_gc.py\<close>; \<open>Revision_Bindings\<close>: \<^verbatim>\<open>graph/bindings.py\<close>.
  \<^item> \<open>Unified_Diff\<close>, \<open>Source_Store\<close>, with \<open>Source_Laws\<close>, \<open>Source_Views\<close>, \<open>Batch_Refinement\<close>, \<open>Copy_On_Write\<close>,
    \<open>Source_Interning\<close>: \<^verbatim>\<open>source_store/service.py\<close>.
  \<^item> \<open>Job_Scheduler\<close>, \<open>Job_Laws\<close>: \<^verbatim>\<open>runtime/scheduler.py\<close>; \<open>Secrets\<close>: \<^verbatim>\<open>secrets/\<close>; \<open>Invocations\<close>:
    \<^verbatim>\<open>system/invocations.py\<close>; \<open>File_Delivery\<close>: \<^verbatim>\<open>system/file_delivery.py\<close>, \<^verbatim>\<open>kernel/paths.py\<close>.
  \<^item> \<open>System_Definitions\<close>: \<^verbatim>\<open>system/schema.py\<close>, \<^verbatim>\<open>definitions.py\<close>, \<^verbatim>\<open>drafts.py\<close>, \<^verbatim>\<open>objects.py\<close>, \<^verbatim>\<open>relations.py\<close>;
    \<open>System_Applications\<close>, \<open>System_Experiences\<close>, \<open>Surface_Types\<close>: \<^verbatim>\<open>applications.py\<close>, \<^verbatim>\<open>experiences.py\<close>,
    \<^verbatim>\<open>surfaces.py\<close>, \<^verbatim>\<open>kernel/surface_types.py\<close>; \<open>Data_Spaces\<close>: \<^verbatim>\<open>data_spaces.py\<close>.
  \<^item> \<open>System_Checkpoints\<close>, \<open>Checkpoint_Laws\<close>: \<^verbatim>\<open>system/checkpoints.py\<close>; \<open>System_Activation\<close>, \<open>Experience_Activation\<close>,
    \<open>Activation_Laws\<close>: \<^verbatim>\<open>system/activation.py\<close>, \<^verbatim>\<open>experience_activation.py\<close>; \<open>Experience_Access\<close>:
    \<^verbatim>\<open>experience_access.py\<close>.
  \<^item> \<open>Package_Capture\<close>, \<open>Package_Archive\<close>, \<open>Package_Import\<close>, \<open>Package_Deletion\<close>, with \<open>Binding_Laws\<close>,
    \<open>Package_Laws\<close>, \<open>Deletion_Laws\<close>: \<^verbatim>\<open>system/packages.py\<close>, \<^verbatim>\<open>contracts/package.py\<close>.
  \<^item> \<open>Development_Deployments\<close>, \<open>Deployment_Laws\<close>: \<^verbatim>\<open>system/development_deployments.py\<close>;
    \<open>Cypher_Gateway\<close>, \<open>Gateway_Laws\<close>: \<^verbatim>\<open>runtime/cypher_gateway.py\<close>, over the world of \<open>Unit_Of_Work\<close>;
    \<open>Graph_Integrity\<close>, \<open>Integrity_Laws\<close>: \<^verbatim>\<open>graph/integrity.py\<close>.
  \<^item> \<open>Platform_Authoring\<close>, \<open>Authoring_Laws\<close>: \<^verbatim>\<open>system/authoring.py\<close>; \<open>System_Blueprints\<close>: \<^verbatim>\<open>system/blueprints.py\<close>;
    \<open>System_Queries\<close>: \<^verbatim>\<open>system/queries.py\<close>.
  \<^bold>\<open>What is shown.\<close> \<open>Graph_Properties\<close>: units of work are all or nothing, retries are bounded, the active
  pointer moves by compare and swap, relations follow their objects, collection of interned records is
  exact. \<open>Source_Properties\<close>: the patch engine equals a relational specification of unified diffs, a batch
  refines an update of a map of files, copy on write isolates, interning keeps content.
  \<open>Job_Properties\<close>: jobs stay consistent, ended jobs are final, keys are unique, a paused Application runs
  nothing. \<open>Service_Properties\<close>: the bridge reaches only what is declared, secrets and file tokens read
  back and stay in their scope, relations are typed, callbacks are used once. \<open>Lifecycle_Properties\<close>:
  activation, its failures, rollback, checkpoints. \<open>Data_Properties\<close>: purging and cloning data spaces.
  \<open>Package_Properties\<close>: a captured working set is closed, archives read back, imports are refused or
  resumed, deletion leaves nothing owned. \<open>Deployment_Properties\<close>: a new deployment can be used until it
  expires, its calls stay in its data spaces, and expiry clears them. \<open>Gateway_Properties\<close>: a transaction
  over the Cypher gateway is all or nothing, and what is answered is audited. \<open>Integrity_Properties\<close>: the audit of the graph's
  shape finds exactly the unreachable nodes, a clean report vouches for the shape, repair establishes it.
  \<open>Authoring_Properties\<close>: a published authoring release is fixed and leaves one active theme.

  \<^bold>\<open>Locales.\<close> \<open>record_collection\<close> (a label's records on the graph), \<open>release_records\<close> (themes and guides), the pointer and backend contracts are
  interpreted on the model's own definitions, so the properties rest on interpreted facts.

  \<^bold>\<open>Bounds and fuel.\<close> The loop of \<open>delete_interned_orphans\<close> runs with one unit of fuel more than the graph has nodes,
  which is shown to be enough, as every round deletes one. The JSON parser has as much fuel as the
  text is long; \<open>json_loads_stable_json\<close> shows it suffices for every text the program writes. All other
  recursions are structural or have a measure.

  \<^bold>\<open>Parameters.\<close> The digest (\<^verbatim>\<open>hashlib\<close>) is a function; where a claim needs it, it is injective on the
  contents at hand. Symbolic links, the presence of files, Fernet, URL quoting and the check of
  unusual host names are functions with their documented behaviour as hypotheses; the code that runs
  an Action, resolves dependencies, builds, migrates, evicts processes and mounts triggers is given as
  operations that must only keep the property at hand. The rows of a Cypher query are a parameter.

  \<^bold>\<open>Approximations.\<close> Messages that Python derives from a \<^verbatim>\<open>repr\<close> or from pydantic are shorter here;
  characters are those of Latin-1; the sub-records a query returns for display are not built.

  \<^bold>\<open>Not modelled.\<close> Child processes, virtual environments, bundlers and sockets
  (\<^verbatim>\<open>runtime/action_pool.py\<close>, \<^verbatim>\<open>action_runner.py\<close>, \<^verbatim>\<open>environments.py\<close>, \<^verbatim>\<open>surfaces.py\<close>), the Neo4j adapter (its
  queries run in a database that is not part of the repository), the HTTP and MCP fronts, the process
  host and the command line: they are operating-system behaviour or routing. Of the blueprints,
  \<^verbatim>\<open>instantiate\<close> is left out: it calls the modelled services one after the other on untyped JSON.
\<close>

end
